(* ===== verification/Prelude.thy ===== *)
theory Prelude
  imports Complex_Main "HOL-Library.Word" "HOL-Library.Char_ord" "HOL-Library.List_Lexorder"
begin

text \<open>
  Vocabulary shared by every component of the model.

  \<^item> Thrown JavaScript values (\<open>thrown\<close>) with the conversions the services apply to
    them: \<open>String(e)\<close> and \<open>e instanceof Error ? e.message : String(e)\<close>.
  \<^item> Effects: an operation on the outside world (an RPC, a timer, a database) is a function
    of an abstract world \<open>'w\<close>; \<open>('w, 'a) io\<close> never throws, \<open>('w, 'a) ioe\<close> returns
    \<open>Inl\<close> of what it threw.
  \<^item> The string operations of the standard library that the sources use: \<open>trim\<close>,
    \<open>toLowerCase\<close>, \<open>includes\<close>, \<open>startsWith\<close>, decimal printing and reading of
    bigints, and the regular expressions for hex words and unsigned decimals. A string is
    a list of 8-bit code units, so the model covers Latin-1 text.
\<close>

section \<open>Collections of facts\<close>

named_theorems js_defs "definitions of the standard library operations"
named_theorems model_simps "equations of the components that proofs unfold"

section \<open>Thrown values and effects\<close>

datatype thrown =
    Thrown (err_name: string) (err_text: string)
  | ThrownValue string

definition error :: "string \<Rightarrow> thrown" where
  "error m = Thrown ''Error'' m"

fun js_string :: "thrown \<Rightarrow> string" where
  "js_string (Thrown n m) =
     (if m = [] then n else if n = [] then m else n @ '': '' @ m)"
| "js_string (ThrownValue s) = s"

fun error_message :: "thrown \<Rightarrow> string" where
  "error_message (Thrown n m) = m"
| "error_message (ThrownValue s) = s"

type_synonym ('w, 'a) io = "'w \<Rightarrow> 'a \<times> 'w"
type_synonym ('w, 'a) ioe = "'w \<Rightarrow> (thrown + 'a) \<times> 'w"

text \<open>Sequencing of computations that may throw: the first error is the result.\<close>

definition and_then :: "'e + 'a \<Rightarrow> ('a \<Rightarrow> 'e + 'b) \<Rightarrow> 'e + 'b" where
  "and_then r k = (case r of Inl e \<Rightarrow> Inl e | Inr x \<Rightarrow> k x)"

lemma and_then_simps [simp]:
  "and_then (Inl e) k = Inl e"
  "and_then (Inr x) k = k x"
  by (simp_all add: and_then_def)

lemma map_sum_Inr: "map_sum f g r = Inr y \<longleftrightarrow> (\<exists>x. r = Inr x \<and> y = g x)"
  by (cases r) auto

lemma and_then_Inr_iff: "and_then r k = Inr y \<longleftrightarrow> (\<exists>x. r = Inr x \<and> k x = Inr y)"
  by (simp add: and_then_def split: sum.split)

lemma and_then_Inl_iff:
  "and_then r k = Inl e \<longleftrightarrow> r = Inl e \<or> (\<exists>x. r = Inr x \<and> k x = Inl e)"
  by (auto simp: and_then_def split: sum.split)

definition require_that :: "bool \<Rightarrow> 'e \<Rightarrow> 'e + unit" where
  "require_that b e = (if b then Inr () else Inl e)"

lemma require_that_simps [simp]:
  "require_that True e = Inr ()"
  "require_that False e = Inl e"
  "require_that b e = Inr u \<longleftrightarrow> b"
  "require_that b e = Inl f \<longleftrightarrow> \<not> b \<and> f = e"
  by (auto simp: require_that_def)

text \<open>
  The same for computations with a state: \<open>await\<close> in a function that does not catch. A
  caught error is given to the handler with the state at the throw.
\<close>

definition return_io :: "'a \<Rightarrow> 's \<Rightarrow> (thrown + 'a) \<times> 's" where
  "return_io x s = (Inr x, s)"

definition throw_io :: "thrown \<Rightarrow> 's \<Rightarrow> (thrown + 'a) \<times> 's" where
  "throw_io e s = (Inl e, s)"

definition bind_io ::
    "('s \<Rightarrow> (thrown + 'a) \<times> 's) \<Rightarrow> ('a \<Rightarrow> 's \<Rightarrow> (thrown + 'b) \<times> 's) \<Rightarrow> 's \<Rightarrow> (thrown + 'b) \<times> 's" where
  "bind_io f k s = (case f s of (Inl e, s') \<Rightarrow> (Inl e, s') | (Inr x, s') \<Rightarrow> k x s')"

definition catch_io ::
    "('s \<Rightarrow> (thrown + 'a) \<times> 's) \<Rightarrow> (thrown \<Rightarrow> 's \<Rightarrow> (thrown + 'a) \<times> 's) \<Rightarrow> 's \<Rightarrow> (thrown + 'a) \<times> 's" where
  "catch_io f h s = (case f s of (Inl e, s') \<Rightarrow> h e s' | (Inr x, s') \<Rightarrow> (Inr x, s'))"

definition from_pure :: "thrown + 'a \<Rightarrow> 's \<Rightarrow> (thrown + 'a) \<times> 's" where
  "from_pure r s = (r, s)"

lemma io_Inr_iff:
  "return_io x s = (Inr y, t) \<longleftrightarrow> x = y \<and> s = t"
  "throw_io e s = (Inr y, t) \<longleftrightarrow> False"
  "bind_io f k s = (Inr z, t) \<longleftrightarrow> (\<exists>x s'. f s = (Inr x, s') \<and> k x s' = (Inr z, t))"
  "from_pure r s = (Inr y, t) \<longleftrightarrow> r = Inr y \<and> s = t"
  by (auto simp: return_io_def throw_io_def bind_io_def from_pure_def split: prod.splits sum.splits)

lemma io_Inl_iff:
  "return_io x s = (Inl e, t) \<longleftrightarrow> False"
  "throw_io e s = (Inl e', t) \<longleftrightarrow> e = e' \<and> s = t"
  "bind_io f k s = (Inl e, t) \<longleftrightarrow> f s = (Inl e, t) \<or> (\<exists>x s'. f s = (Inr x, s') \<and> k x s' = (Inl e, t))"
  "from_pure r s = (Inl e, t) \<longleftrightarrow> r = Inl e \<and> s = t"
  by (auto simp: return_io_def throw_io_def bind_io_def from_pure_def split: prod.splits sum.splits)

lemma io_run [simp]:
  "return_io x s = (Inr x, s)"
  "throw_io e s = (Inl e, s)"
  "from_pure r s = (r, s)"
  "f s = (Inl e, s') \<Longrightarrow> bind_io f k s = (Inl e, s')"
  "f s = (Inr x, s') \<Longrightarrow> bind_io f k s = k x s'"
  by (simp_all add: return_io_def throw_io_def from_pure_def bind_io_def)

text \<open>\<open>for (const x of xs) await f(x)\<close>, collecting the results.\<close>

fun map_io :: "('a \<Rightarrow> 's \<Rightarrow> (thrown + 'b) \<times> 's) \<Rightarrow> 'a list \<Rightarrow> 's \<Rightarrow> (thrown + 'b list) \<times> 's" where
  "map_io f [] = return_io []"
| "map_io f (x # xs) = bind_io (f x) (\<lambda>y. bind_io (map_io f xs) (\<lambda>ys. return_io (y # ys)))"

lemma map_io_calls:
  "map_io f xs w = (Inr ys, w') \<Longrightarrow> list_all2 (\<lambda>x y. \<exists>v v'. f x v = (Inr y, v')) xs ys"
proof (induction xs arbitrary: ys w w')
  case Nil
  then show ?case by simp
next
  case (Cons x xs)
  then obtain y ys' v v' where "f x w = (Inr y, v)"
    and ys: "map_io f xs v = (Inr ys', v')" "ys = y # ys'"
    by (auto simp: io_Inr_iff)
  with Cons.IH [OF ys(1)] show ?case by auto
qed

section \<open>Characters and strings\<close>

definition code_of :: "char \<Rightarrow> nat" where
  "code_of c = of_char c"

definition is_digit :: "char \<Rightarrow> bool" where
  "is_digit c \<longleftrightarrow> 48 \<le> code_of c \<and> code_of c \<le> 57"

definition is_hex_digit :: "char \<Rightarrow> bool" where
  "is_hex_digit c \<longleftrightarrow> is_digit c \<or> (97 \<le> code_of c \<and> code_of c \<le> 102)
     \<or> (65 \<le> code_of c \<and> code_of c \<le> 70)"

text \<open>White space of \<open>String.prototype.trim\<close>: tab to carriage return, blank, no-break blank.\<close>

definition is_space :: "char \<Rightarrow> bool" where
  "is_space c \<longleftrightarrow> (9 \<le> code_of c \<and> code_of c \<le> 13) \<or> code_of c = 32 \<or> code_of c = 160"

definition js_trim :: "string \<Rightarrow> string" where
  "js_trim s = rev (dropWhile is_space (rev (dropWhile is_space s)))"

definition lower_char :: "char \<Rightarrow> char" where
  "lower_char c =
     (if (65 \<le> code_of c \<and> code_of c \<le> 90) \<or>
         (192 \<le> code_of c \<and> code_of c \<le> 222 \<and> code_of c \<noteq> 215)
      then char_of (code_of c + 32) else c)"

definition js_lower :: "string \<Rightarrow> string" where
  "js_lower = map lower_char"

definition starts_with :: "string \<Rightarrow> string \<Rightarrow> bool" where
  "starts_with s p \<longleftrightarrow> take (length p) s = p"

fun js_includes :: "string \<Rightarrow> string \<Rightarrow> bool" where
  "js_includes [] p \<longleftrightarrow> p = []"
| "js_includes (c # s) p \<longleftrightarrow> starts_with (c # s) p \<or> js_includes s p"

text \<open>\<open>value?.trim()\<close> followed by the test for a non-empty result.\<close>

definition trimmed_opt :: "string option \<Rightarrow> string option" where
  "trimmed_opt v = (case v of None \<Rightarrow> None
     | Some s \<Rightarrow> (if js_trim s = [] then None else Some (js_trim s)))"

lemma starts_with_append [simp]: "starts_with (p @ s) p"
  by (simp add: starts_with_def)

lemma js_includes_self [simp]: "js_includes (p @ s) p"
proof (cases "p @ s")
  case (Cons c t)
  then show ?thesis using starts_with_append [of p s] by simp
qed simp

lemma js_includes_append: "js_includes (a @ p @ s) p"
proof (induction a)
  case Nil
  show ?case using js_includes_self by simp
next
  case (Cons c a)
  then show ?case by simp
qed

lemma js_includes_iff: "js_includes s p \<longleftrightarrow> (\<exists>a b. s = a @ p @ b)"
proof
  show "js_includes s p \<Longrightarrow> \<exists>a b. s = a @ p @ b"
  proof (induction s)
    case Nil
    then show ?case by simp
  next
    case (Cons c s)
    show ?case
    proof (cases "starts_with (c # s) p")
      case True
      then have "c # s = [] @ p @ drop (length p) (c # s)"
        by (metis append_Nil append_take_drop_id starts_with_def)
      then show ?thesis by blast
    next
      case False
      with Cons obtain a b where "s = a @ p @ b" by auto
      then have "c # s = (c # a) @ p @ b" by simp
      then show ?thesis by blast
    qed
  qed
qed (auto simp: js_includes_append[simplified])

lemma js_trim_hd: "js_trim s \<noteq> [] \<Longrightarrow> \<not> is_space (hd (js_trim s))"
proof -
  define t where "t = dropWhile is_space s"
  assume ne: "js_trim s \<noteq> []"
  have "rev t = takeWhile is_space (rev t) @ dropWhile is_space (rev t)" by simp
  then have "t = js_trim s @ rev (takeWhile is_space (rev t))"
    unfolding js_trim_def t_def [symmetric] by (metis rev_append rev_rev_ident)
  with ne have "hd t = hd (js_trim s)" and "t \<noteq> []"
    by (metis hd_append2, auto)
  then show ?thesis unfolding t_def by (metis hd_dropWhile)
qed

lemma js_trim_idem [simp]: "js_trim (js_trim s) = js_trim s"
proof -
  have "dropWhile is_space (js_trim s) = js_trim s"
    by (cases "js_trim s = []") (auto simp: dropWhile_eq_self_iff js_trim_hd)
  moreover have "dropWhile is_space (rev (js_trim s)) = rev (js_trim s)"
    by (simp add: js_trim_def dropWhile_idem)
  ultimately show ?thesis by (simp add: js_trim_def [of "js_trim s"])
qed

section \<open>Decimal numbers\<close>

definition digit_char :: "nat \<Rightarrow> char" where
  "digit_char d = char_of (48 + d)"

definition digit_val :: "char \<Rightarrow> int" where
  "digit_val c = int (code_of c) - 48"

text \<open>\<open>bigint.toString()\<close>.\<close>

fun dec_nat :: "nat \<Rightarrow> string" where
  "dec_nat n = (if n < 10 then [digit_char n] else dec_nat (n div 10) @ [digit_char (n mod 10)])"

declare dec_nat.simps [simp del]

definition bigint_string :: "int \<Rightarrow> string" where
  "bigint_string i = (if i < 0 then ''-'' @ dec_nat (nat (- i)) else dec_nat (nat i))"

text \<open>\<open>BigInt(s)\<close> on a string of decimal digits.\<close>

definition dec_value :: "string \<Rightarrow> int" where
  "dec_value s = foldl (\<lambda>a c. 10 * a + digit_val c) 0 s"

text \<open>The pattern \<open>/^(0|[1-9][0-9]*)$/\<close> and the pattern \<open>/^[0-9]+$/\<close>.\<close>

fun uint_decimal :: "string \<Rightarrow> bool" where
  "uint_decimal [] = False"
| "uint_decimal (c # cs) = (if code_of c = 48 then cs = [] else is_digit c \<and> list_all is_digit cs)"

definition digits_only :: "string \<Rightarrow> bool" where
  "digits_only s \<longleftrightarrow> s \<noteq> [] \<and> list_all is_digit s"

text \<open>The pattern \<open>/^0x[0-9a-fA-F]{n}$/\<close>.\<close>

definition hex_word :: "nat \<Rightarrow> string \<Rightarrow> bool" where
  "hex_word n s \<longleftrightarrow> length s = n + 2 \<and> take 2 s = ''0x'' \<and> list_all is_hex_digit (drop 2 s)"

lemma code_of_digit_char: "d < 10 \<Longrightarrow> code_of (digit_char d) = 48 + d"
  by (simp add: code_of_def digit_char_def)

lemma is_digit_digit_char: "d < 10 \<Longrightarrow> is_digit (digit_char d)"
  by (simp add: is_digit_def code_of_digit_char)

lemma digit_val_digit_char: "d < 10 \<Longrightarrow> digit_val (digit_char d) = int d"
  by (simp add: digit_val_def code_of_digit_char)

lemma dec_value_snoc: "dec_value (s @ [c]) = 10 * dec_value s + digit_val c"
  by (simp add: dec_value_def)

lemma dec_value_dec_nat: "dec_value (dec_nat n) = int n"
proof (induction n rule: dec_nat.induct)
  case (1 n)
  show ?case
  proof (cases "n < 10")
    case True
    then show ?thesis
      by (subst dec_nat.simps) (simp add: dec_value_def digit_val_digit_char)
  next
    case False
    then have "dec_value (dec_nat n) = 10 * dec_value (dec_nat (n div 10)) + int (n mod 10)"
      by (subst dec_nat.simps) (simp add: dec_value_snoc digit_val_digit_char)
    with 1 False have "dec_value (dec_nat n) = 10 * int (n div 10) + int (n mod 10)" by simp
    also have "\<dots> = int n" by presburger
    finally show ?thesis .
  qed
qed

lemma dec_nat_digits: "list_all is_digit (dec_nat n)"
proof (induction n rule: dec_nat.induct)
  case (1 n)
  show ?case
  proof (cases "n < 10")
    case True
    then show ?thesis by (subst dec_nat.simps) (simp add: is_digit_digit_char)
  next
    case False
    with 1 show ?thesis by (subst dec_nat.simps) (simp add: is_digit_digit_char)
  qed
qed

lemma dec_nat_nonempty [simp]: "dec_nat n \<noteq> []"
  by (subst dec_nat.simps) simp

lemma dec_nat_head: "0 < n \<Longrightarrow> code_of (hd (dec_nat n)) \<noteq> 48"
proof (induction n rule: dec_nat.induct)
  case (1 n)
  show ?case
  proof (cases "n < 10")
    case True
    with 1 show ?thesis by (subst dec_nat.simps) (simp add: code_of_digit_char)
  next
    case False
    then have "0 < n div 10" by arith
    with 1 False show ?thesis by (subst dec_nat.simps) simp
  qed
qed

lemma uint_decimal_dec_nat [simp]: "uint_decimal (dec_nat n)"
proof (cases "n = 0")
  case True
  then show ?thesis by (subst dec_nat.simps) (simp add: code_of_digit_char)
next
  case False
  then have h: "code_of (hd (dec_nat n)) \<noteq> 48" by (simp add: dec_nat_head)
  obtain c cs where "dec_nat n = c # cs" by (cases "dec_nat n") auto
  with h dec_nat_digits [of n] show ?thesis by simp
qed

lemma bigint_roundtrip: "0 \<le> i \<Longrightarrow> dec_value (bigint_string i) = i"
  by (simp add: bigint_string_def dec_value_dec_nat)

lemma uint_decimal_bigint_string: "0 \<le> i \<Longrightarrow> uint_decimal (bigint_string i)"
  by (simp add: bigint_string_def)

lemma foldl_digits_nonneg:
  "list_all is_digit s \<Longrightarrow> 0 \<le> a \<Longrightarrow> 0 \<le> foldl (\<lambda>a c. 10 * a + digit_val c) a s"
  by (induction s arbitrary: a) (auto simp: is_digit_def digit_val_def)

lemma dec_value_nonneg: "list_all is_digit s \<Longrightarrow> 0 \<le> dec_value s"
  by (simp add: dec_value_def foldl_digits_nonneg)

lemma uint_decimal_digits: "uint_decimal s \<Longrightarrow> list_all is_digit s"
  by (cases s) (auto simp: is_digit_def split: if_splits)

lemma bigint_string_inj: "0 \<le> i \<Longrightarrow> 0 \<le> j \<Longrightarrow> bigint_string i = bigint_string j \<Longrightarrow> i = j"
  by (metis bigint_roundtrip)

lemma dec_nat_length: "n < 10 ^ k \<Longrightarrow> 0 < k \<Longrightarrow> length (dec_nat n) \<le> k"
proof (induction k arbitrary: n)
  case 0
  then show ?case by simp
next
  case (Suc k)
  show ?case
  proof (cases "n < 10")
    case True
    then show ?thesis by (subst dec_nat.simps) simp
  next
    case False
    with Suc.prems have "n div 10 < 10 ^ k" "0 < k" by (cases k; auto)+
    from Suc.IH [OF this] False show ?thesis by (subst dec_nat.simps) simp
  qed
qed

lemma digit_not_space: "is_digit c \<Longrightarrow> \<not> is_space c"
  by (auto simp: is_digit_def is_space_def)

lemma js_trim_no_space: "list_all (\<lambda>c. \<not> is_space c) s \<Longrightarrow> js_trim s = s"
proof -
  assume s: "list_all (\<lambda>c. \<not> is_space c) s"
  then have "dropWhile is_space s = s" by (cases s) auto
  moreover from s have "dropWhile is_space (rev s) = rev s"
    by (cases "rev s") (auto simp: list_all_iff)
  ultimately show ?thesis by (simp add: js_trim_def)
qed

lemma js_trim_digits: "list_all is_digit s \<Longrightarrow> js_trim s = s"
  by (rule js_trim_no_space) (auto simp: list_all_iff digit_not_space)

lemma bigint_string_digits: "0 \<le> i \<Longrightarrow> list_all is_digit (bigint_string i) \<and> digits_only (bigint_string i)"
  by (simp add: bigint_string_def digits_only_def dec_nat_digits)

lemma bigint_string_u128_length: "0 \<le> i \<Longrightarrow> i < 2 ^ 128 \<Longrightarrow> length (bigint_string i) \<le> 39"
  by (simp add: bigint_string_def dec_nat_length)

section \<open>Repeated attempts\<close>

text \<open>
  The reference for the retry loops of the sources: at most \<open>n\<close> attempts, a pause between two
  of them, and a next attempt only when the result of the last one calls for it.
\<close>

fun retry :: "('r \<Rightarrow> bool) \<Rightarrow> ('w \<Rightarrow> 'r \<times> 'w) \<Rightarrow> ('w \<Rightarrow> 'w) \<Rightarrow> nat \<Rightarrow> 'w \<Rightarrow> 'r \<times> 'w" where
  "retry goes_on attempt pause 0 w = attempt w"
| "retry goes_on attempt pause (Suc n) w = (case attempt w of (r, w1) \<Rightarrow>
     if n \<noteq> 0 \<and> goes_on r then retry goes_on attempt pause n (pause w1) else (r, w1))"

text \<open>The worlds in which the attempts of a run start.\<close>

fun runs_of :: "('r \<Rightarrow> bool) \<Rightarrow> ('w \<Rightarrow> 'r \<times> 'w) \<Rightarrow> ('w \<Rightarrow> 'w) \<Rightarrow> 'w \<Rightarrow> 'w list \<Rightarrow> bool" where
  "runs_of goes_on attempt pause w [] \<longleftrightarrow> False"
| "runs_of goes_on attempt pause w (v # vs) \<longleftrightarrow> v = w \<and>
     (vs = [] \<or> goes_on (fst (attempt v)) \<and> runs_of goes_on attempt pause (pause (snd (attempt v))) vs)"

lemma retry_runs:
  "0 < n \<Longrightarrow> retry goes_on attempt pause n w = (r, w') \<Longrightarrow>
     \<exists>ws. runs_of goes_on attempt pause w ws \<and> length ws \<le> n \<and> (length ws < n \<longrightarrow> \<not> goes_on r) \<and>
       attempt (last ws) = (r, w')"
proof (induction n arbitrary: w)
  case 0
  then show ?case by simp
next
  case (Suc n)
  obtain r1 w1 where a: "attempt w = (r1, w1)" by (cases "attempt w")
  show ?case
  proof (cases "n \<noteq> 0 \<and> goes_on r1")
    case True
    with Suc.prems a have "retry goes_on attempt pause n (pause w1) = (r, w')" by simp
    with Suc.IH True obtain ws where ws: "runs_of goes_on attempt pause (pause w1) ws" "length ws \<le> n"
      "length ws < n \<longrightarrow> \<not> goes_on r" "attempt (last ws) = (r, w')" by blast
    then have "ws \<noteq> []" by (cases ws) auto
    with ws True a show ?thesis by (intro exI [of _ "w # ws"]) auto
  next
    case False
    with Suc.prems a show ?thesis by (intro exI [of _ "[w]"]) (auto split: if_splits)
  qed
qed

end
