(* ===== verification/Js_Values.thy ===== *)
theory Js_Values
  imports Prelude
begin

text \<open>
  JavaScript values as the sources receive them from YAML, JSON and HTTP queries, the
  conversion \<open>Number(s)\<close> with its rounding to a double, and the schema combinators the
  sources build their validators from (\<open>z.string\<close>, \<open>z.number().int()\<close>, \<open>z.enum\<close>,
  \<open>optional\<close>, \<open>default\<close>, \<open>z.object\<close>): a schema maps a value to its parsed form or
  to the list of its issue messages, in the order of the fields.
\<close>

section \<open>Numbers\<close>

text \<open>A double: its exact rational value, or one of the non-finite values and NaN.\<close>

datatype js_number = Finite rat | NotFinite

fun nat_log2 :: "nat \<Rightarrow> nat" where
  "nat_log2 n = (if n < 2 then 0 else Suc (nat_log2 (n div 2)))"

declare nat_log2.simps [simp del]

definition pow2 :: "int \<Rightarrow> rat" where
  "pow2 e = (if 0 \<le> e then 2 ^ nat e else 1 / 2 ^ nat (- e))"

definition rat_log2 :: "rat \<Rightarrow> int" where
  "rat_log2 q = (case quotient_of q of (a, b) \<Rightarrow>
     let e = int (nat_log2 (nat a)) - int (nat_log2 (nat b))
     in if pow2 e \<le> q then e else e - 1)"

definition round_half_even :: "rat \<Rightarrow> int" where
  "round_half_even q =
     (let f = floor q; r = q - of_int f
      in if r < 1 / 2 then f else if r > 1 / 2 then f + 1
         else if even f then f else f + 1)"

text \<open>Round to nearest, ties to even, with 53 bits of precision and the subnormal range.\<close>

definition round_double :: "rat \<Rightarrow> js_number" where
  "round_double q =
     (if q = 0 then Finite 0
      else let e = max (rat_log2 \<bar>q\<bar> - 52) (- 1074);
               d = of_int (round_half_even (q / pow2 e)) * pow2 e
           in if \<bar>d\<bar> < 2 ^ 1024 then Finite d else NotFinite)"

definition is_integer :: "js_number \<Rightarrow> bool" where
  "is_integer n = (case n of Finite q \<Rightarrow> of_int (floor q) = q | NotFinite \<Rightarrow> False)"

definition number_value :: "js_number \<Rightarrow> int" where
  "number_value n = (case n of Finite q \<Rightarrow> floor q | NotFinite \<Rightarrow> 0)"

definition MAX_SAFE_INTEGER :: int where
  "MAX_SAFE_INTEGER = 2 ^ 53 - 1"

lemma is_integer_of_int [simp]: "is_integer (Finite (of_int i))"
  by (simp add: is_integer_def)

lemma number_value_of_int [simp]: "number_value (Finite (of_int i)) = i"
  by (simp add: number_value_def)

subsection \<open>\<open>Number(s)\<close>\<close>

definition split_sign :: "string \<Rightarrow> rat \<times> string" where
  "split_sign s = (case s of [] \<Rightarrow> (1, []) | c # r \<Rightarrow>
     if c = CHR ''-'' then (-1, r) else if c = CHR ''+'' then (1, r) else (1, s))"

text \<open>The exponent part: empty, or \<open>e\<close> with an optional sign and at least one digit.\<close>

definition parse_exponent :: "string \<Rightarrow> int option" where
  "parse_exponent s = (case s of [] \<Rightarrow> Some 0 | c # r \<Rightarrow>
     if c = CHR ''e'' \<or> c = CHR ''E'' then
       (case split_sign r of (sg, ds) \<Rightarrow>
          if digits_only ds then Some (floor sg * dec_value ds) else None)
     else None)"

definition parse_unsigned_decimal :: "string \<Rightarrow> rat option" where
  "parse_unsigned_decimal s =
     (let ip = takeWhile is_digit s; rest = dropWhile is_digit s;
          (fp, tl) = (case rest of c # r \<Rightarrow>
              if c = CHR ''.'' then (takeWhile is_digit r, dropWhile is_digit r) else ([], rest)
            | [] \<Rightarrow> ([], []))
      in if ip = [] \<and> fp = [] then None
         else map_option (\<lambda>e. of_int (dec_value (ip @ fp)) / 10 ^ length fp *
                (if 0 \<le> e then 10 ^ nat e else 1 / 10 ^ nat (- e))) (parse_exponent tl))"

definition radix_digit :: "char \<Rightarrow> nat" where
  "radix_digit c = (if is_digit c then code_of c - 48
     else if 97 \<le> code_of c then code_of c - 87 else code_of c - 55)"

definition parse_radix :: "nat \<Rightarrow> string \<Rightarrow> rat option" where
  "parse_radix b ds =
     (if ds \<noteq> [] \<and> list_all (\<lambda>c. is_hex_digit c \<and> radix_digit c < b) ds
      then Some (of_nat (foldl (\<lambda>a c. b * a + radix_digit c) 0 ds)) else None)"

definition js_Number :: "string \<Rightarrow> js_number" where
  "js_Number raw =
     (let s = js_trim raw; p = js_lower (take 2 s);
          r = (if s = [] then Some 0
               else if p = ''0x'' then parse_radix 16 (drop 2 s)
               else if p = ''0o'' then parse_radix 8 (drop 2 s)
               else if p = ''0b'' then parse_radix 2 (drop 2 s)
               else case split_sign s of (sg, t) \<Rightarrow>
                 map_option (\<lambda>q. sg * q) (parse_unsigned_decimal t))
      in case r of None \<Rightarrow> NotFinite | Some q \<Rightarrow> round_double q)"

section \<open>Values\<close>

datatype jsval =
    JUndefined
  | JNull
  | JBool bool
  | JNum js_number
  | JString string
  | JArray "jsval list"
  | JObject "(string \<times> jsval) list"

definition jfield :: "string \<Rightarrow> jsval \<Rightarrow> jsval" where
  "jfield k v = (case v of
     JObject kvs \<Rightarrow> (case map_of kvs k of Some x \<Rightarrow> x | None \<Rightarrow> JUndefined)
   | _ \<Rightarrow> JUndefined)"

fun type_name :: "jsval \<Rightarrow> string" where
  "type_name JUndefined = ''undefined''"
| "type_name JNull = ''null''"
| "type_name (JBool b) = ''boolean''"
| "type_name (JNum n) = ''number''"
| "type_name (JString s) = ''string''"
| "type_name (JArray xs) = ''array''"
| "type_name (JObject kvs) = ''object''"

section \<open>Schemas\<close>

type_synonym 'a schema = "jsval \<Rightarrow> string list + 'a"

definition issues :: "string list + 'a \<Rightarrow> string list" where
  "issues r = (case r of Inl e \<Rightarrow> e | Inr _ \<Rightarrow> [])"

definition expected :: "string \<Rightarrow> jsval \<Rightarrow> string list" where
  "expected t v = (if v = JUndefined then [''Required'']
     else [''Expected '' @ t @ '', received '' @ type_name v])"

definition z_string :: "string schema" where
  "z_string v = (case v of JString s \<Rightarrow> Inr s | _ \<Rightarrow> Inl (expected ''string'' v))"

text \<open>A string with one message for a missing value and for a value of another type.\<close>

definition z_string_or :: "string \<Rightarrow> string schema" where
  "z_string_or msg v = (case v of JString s \<Rightarrow> Inr s | _ \<Rightarrow> Inl [msg])"

definition z_boolean :: "bool schema" where
  "z_boolean v = (case v of JBool b \<Rightarrow> Inr b | _ \<Rightarrow> Inl (expected ''boolean'' v))"

definition z_optional :: "'a schema \<Rightarrow> 'a option schema" where
  "z_optional p v = (if v = JUndefined then Inr None else map_sum id Some (p v))"

definition z_default :: "'a \<Rightarrow> 'a schema \<Rightarrow> 'a schema" where
  "z_default d p v = (if v = JUndefined then Inr d else p v)"

definition z_map :: "('a \<Rightarrow> 'b) \<Rightarrow> 'a schema \<Rightarrow> 'b schema" where
  "z_map f p v = map_sum id f (p v)"

definition z_refine :: "'a schema \<Rightarrow> ('a \<Rightarrow> bool) \<Rightarrow> string \<Rightarrow> 'a schema" where
  "z_refine p ok msg v = and_then (p v) (\<lambda>x. if ok x then Inr x else Inl [msg])"

definition z_enum :: "(string \<times> 'a) list \<Rightarrow> 'a schema" where
  "z_enum cases v = and_then (z_string v) (\<lambda>s. case map_of cases s of
     Some x \<Rightarrow> Inr x | None \<Rightarrow> Inl [''Invalid enum value''])"

text \<open>
  \<open>z.number().int().min(lo)\<close> with one message for every failure; \<open>hi\<close> is the optional
  \<open>max\<close>. \<open>positive\<close> on an integer is \<open>lo = 1\<close>.
\<close>

definition z_int :: "string \<Rightarrow> int \<Rightarrow> int option \<Rightarrow> int schema" where
  "z_int msg lo hi v = (case v of JNum n \<Rightarrow>
       if is_integer n \<and> lo \<le> number_value n \<and> (case hi of None \<Rightarrow> True | Some h \<Rightarrow> number_value n \<le> h)
       then Inr (number_value n) else Inl [msg]
   | _ \<Rightarrow> Inl [msg])"

fun z_elements :: "'a schema \<Rightarrow> jsval list \<Rightarrow> string list + 'a list" where
  "z_elements p [] = Inr []"
| "z_elements p (v # vs) =
     (case (p v, z_elements p vs) of
        (Inr x, Inr xs) \<Rightarrow> Inr (x # xs)
      | (r, rs) \<Rightarrow> Inl (issues r @ issues rs))"

definition z_array :: "'a schema \<Rightarrow> 'a list schema" where
  "z_array p v = (case v of JArray vs \<Rightarrow> z_elements p vs | _ \<Rightarrow> Inl (expected ''array'' v))"

text \<open>The value of a field whose parse is known to have raised no issue.\<close>

definition parsed :: "string list + 'a \<Rightarrow> 'a" where
  "parsed r = projr r"

text \<open>Every schema reports at least one message when it fails.\<close>

definition reports :: "'a schema \<Rightarrow> bool" where
  "reports p \<longleftrightarrow> (\<forall>v. p v \<noteq> Inl [])"

lemma issues_simps [simp]: "issues (Inl e) = e" "issues (Inr x) = []"
  by (simp_all add: issues_def)

lemma parsed_Inr [simp]: "parsed (Inr x) = x"
  by (simp add: parsed_def)

lemma issues_Nil: "r \<noteq> Inl [] \<Longrightarrow> issues r = [] \<longleftrightarrow> (\<exists>x. r = Inr x)"
  by (cases r) auto

lemma z_int_Inr_iff:
  "z_int msg lo hi v = Inr i \<longleftrightarrow>
     (\<exists>n. v = JNum n \<and> is_integer n \<and> number_value n = i \<and> lo \<le> i \<and>
       (case hi of None \<Rightarrow> True | Some h \<Rightarrow> i \<le> h))"
  by (auto simp: z_int_def split: jsval.split)

lemma z_int_cases: "z_int msg lo hi v = Inl e \<Longrightarrow> e = [msg]"
  by (auto simp: z_int_def split: jsval.splits if_splits)

lemma z_string_or_iff: "z_string_or msg v = Inr s \<longleftrightarrow> v = JString s"
  by (auto simp: z_string_or_def split: jsval.splits)

lemma jfield_string:
  "jfield k v = JString s \<longleftrightarrow> (\<exists>kvs. v = JObject kvs \<and> map_of kvs k = Some (JString s))"
  by (auto simp: jfield_def split: jsval.splits option.splits)

end
