(* ===== verification/Secret_Provider.thy ===== *)
theory Secret_Provider
  imports Prelude
begin

text \<open>
  Secret resolution, \<open>services/attestation/src/secret-provider.ts\<close>. The top-up service
  carries a copy of the file that differs in one return type annotation, so both services
  rest on this model. External providers (KMS, HSM) are adapters the operator registers;
  they are an argument.
\<close>

datatype runtime_profile = Development | Test | Production

datatype secret_source = SourceEnv | SourceConfig | SourceKms | SourceHsm

datatype secret_provider = ProviderAuto | ProviderOf secret_source

type_synonym secret_adapters = "secret_source \<Rightarrow> (string \<Rightarrow> thrown + string) option"

record resolve_options =
  so_label :: string
  so_provider :: secret_provider
  so_profile :: runtime_profile
  so_env_var_name :: string
  so_env_value :: "string option"
  so_config_value :: "string option"
  so_secret_ref :: "string option"
  so_adapters :: secret_adapters

record resolved_secret =
  rs_value :: string
  rs_source :: secret_source
  rs_provider :: secret_provider
  rs_dual_source :: bool

fun source_name :: "secret_source \<Rightarrow> string" where
  "source_name SourceEnv = ''env''"
| "source_name SourceConfig = ''config''"
| "source_name SourceKms = ''kms''"
| "source_name SourceHsm = ''hsm''"

definition normalize :: "string option \<Rightarrow> string option" where
  "normalize v = trimmed_opt v"

definition require_value :: "string option \<Rightarrow> string \<Rightarrow> thrown + string" where
  "require_value v msg = (case v of None \<Rightarrow> Inl (error msg)
     | Some s \<Rightarrow> if s = [] then Inl (error msg) else Inr s)"

definition resolve_from_external_provider ::
    "secret_source \<Rightarrow> resolve_options \<Rightarrow> thrown + string" where
  "resolve_from_external_provider p opts = (case so_adapters opts p of
     None \<Rightarrow> Inl (error (''Secret provider \"'' @ source_name p @ ''\" selected for '' @
       so_label opts @ '', but no adapter is configured''))
   | Some adapter \<Rightarrow>
       and_then (require_value (normalize (so_secret_ref opts))
         (''Missing '' @ so_label opts @ '' secret reference for provider \"'' @
          source_name p @ ''\"'')) (\<lambda>ref.
       and_then (adapter ref) (\<lambda>v.
       require_value (normalize (Some v))
         (''Secret provider \"'' @ source_name p @ ''\" returned an empty value for '' @
          so_label opts))))"

definition insecure_source :: "string \<Rightarrow> thrown" where
  "insecure_source label = error (''Insecure secret source for '' @ label @
     '': plaintext config secrets are not allowed when runtime_profile=production'')"

definition assert_no_plaintext_config_secret ::
    "runtime_profile \<Rightarrow> string option \<Rightarrow> string \<Rightarrow> thrown + unit" where
  "assert_no_plaintext_config_secret p config_secret label =
     (if p \<noteq> Production \<or> config_secret = None then Inr () else Inl (insecure_source label))"

definition assert_no_plaintext_config_source ::
    "runtime_profile \<Rightarrow> secret_source \<Rightarrow> string \<Rightarrow> thrown + unit" where
  "assert_no_plaintext_config_source p src label =
     (if p \<noteq> Production \<or> src \<noteq> SourceConfig then Inr () else Inl (insecure_source label))"

definition resolve_auto_secret ::
    "string option \<Rightarrow> string option \<Rightarrow> resolve_options \<Rightarrow> thrown + (secret_source \<times> string)" where
  "resolve_auto_secret env_secret config_secret opts =
     (case env_secret of Some v \<Rightarrow> Inr (SourceEnv, v)
      | None \<Rightarrow> (case config_secret of Some v \<Rightarrow> Inr (SourceConfig, v)
        | None \<Rightarrow> Inl (error (''Missing '' @ so_label opts @ '': set '' @ so_env_var_name opts @
            '' env var or configure plaintext value in config for non-production mode''))))"

definition resolve_provider_secret ::
    "secret_provider \<Rightarrow> string option \<Rightarrow> string option \<Rightarrow> resolve_options
     \<Rightarrow> thrown + (secret_source \<times> string)" where
  "resolve_provider_secret p env_secret config_secret opts = (case p of
     ProviderAuto \<Rightarrow> resolve_auto_secret env_secret config_secret opts
   | ProviderOf SourceEnv \<Rightarrow> and_then (require_value env_secret
       (''Missing '' @ so_label opts @ '': '' @ so_env_var_name opts @
        '' is required when provider=env'')) (\<lambda>v. Inr (SourceEnv, v))
   | ProviderOf SourceConfig \<Rightarrow> and_then (require_value config_secret
       (''Missing '' @ so_label opts @ '' in config file when provider=config''))
       (\<lambda>v. Inr (SourceConfig, v))
   | ProviderOf external \<Rightarrow>
       and_then (resolve_from_external_provider external opts) (\<lambda>v. Inr (external, v)))"

definition resolve_secret :: "resolve_options \<Rightarrow> thrown + resolved_secret" where
  "resolve_secret opts =
     (let env_secret = normalize (so_env_value opts); config_secret = normalize (so_config_value opts) in
      and_then (assert_no_plaintext_config_secret (so_profile opts) config_secret (so_label opts)) (\<lambda>_.
      and_then (resolve_provider_secret (so_provider opts) env_secret config_secret opts) (\<lambda>(src, v).
      and_then (assert_no_plaintext_config_source (so_profile opts) src (so_label opts)) (\<lambda>_.
      Inr \<lparr>rs_value = v, rs_source = src, rs_provider = so_provider opts,
           rs_dual_source = (env_secret \<noteq> None \<and> config_secret \<noteq> None)\<rparr>))))"

lemma normalize_nonempty: "normalize v = Some s \<Longrightarrow> s \<noteq> []"
  by (auto simp: normalize_def trimmed_opt_def split: option.splits if_splits)

lemma require_value_iff: "require_value v msg = Inr s \<longleftrightarrow> v = Some s \<and> s \<noteq> []"
  by (auto simp: require_value_def split: option.splits)

lemma resolve_auto_iff:
  "resolve_auto_secret e c opts = Inr (src, v) \<longleftrightarrow>
     e = Some v \<and> src = SourceEnv \<or> e = None \<and> c = Some v \<and> src = SourceConfig"
  by (auto simp: resolve_auto_secret_def split: option.splits)

text \<open>What each provider setting may resolve to.\<close>

lemma resolve_provider_cases:
  assumes "resolve_provider_secret p e c opts = Inr (src, v)"
  obtains (auto_env) "p = ProviderAuto" "e = Some v" "src = SourceEnv"
  | (auto_config) "p = ProviderAuto" "e = None" "c = Some v" "src = SourceConfig"
  | (env) "p = ProviderOf SourceEnv" "e = Some v" "src = SourceEnv"
  | (config) "p = ProviderOf SourceConfig" "c = Some v" "src = SourceConfig"
  | (external) "p = ProviderOf src" "src = SourceKms \<or> src = SourceHsm" "so_adapters opts src \<noteq> None"
      "v \<noteq> []"
proof -
  from assms have "(p = ProviderAuto \<and> e = Some v \<and> src = SourceEnv) \<or>
     (p = ProviderAuto \<and> e = None \<and> c = Some v \<and> src = SourceConfig) \<or>
     (p = ProviderOf SourceEnv \<and> e = Some v \<and> src = SourceEnv) \<or>
     (p = ProviderOf SourceConfig \<and> c = Some v \<and> src = SourceConfig) \<or>
     (p = ProviderOf src \<and> (src = SourceKms \<or> src = SourceHsm) \<and> so_adapters opts src \<noteq> None \<and> v \<noteq> [])"
    by (auto simp: resolve_provider_secret_def resolve_auto_iff and_then_Inr_iff require_value_iff
          resolve_from_external_provider_def
        split: secret_provider.splits secret_source.splits option.splits)
  then show thesis using that by blast
qed

section \<open>Properties\<close>

text \<open>
  A resolved secret is never empty and comes from where the profile and the provider
  allow: from the trimmed environment value under \<open>auto\<close> or \<open>env\<close>; from the trimmed
  configuration value under \<open>config\<close>, or under \<open>auto\<close> when the environment has none,
  and never in production; from an external provider only when that very provider is
  selected and has an adapter. In production a configuration that holds a plaintext secret
  is refused even when another source would be used.
\<close>

theorem resolved_secret_sources:
  assumes "resolve_secret opts = Inr r"
  shows "rs_value r \<noteq> [] \<and>
    (so_profile opts = Production \<longrightarrow> normalize (so_config_value opts) = None) \<and>
    (case rs_source r of
       SourceEnv \<Rightarrow> normalize (so_env_value opts) = Some (rs_value r) \<and>
         (so_provider opts = ProviderAuto \<or> so_provider opts = ProviderOf SourceEnv)
     | SourceConfig \<Rightarrow> so_profile opts \<noteq> Production \<and> normalize (so_config_value opts) = Some (rs_value r) \<and>
         (so_provider opts = ProviderOf SourceConfig \<or>
          so_provider opts = ProviderAuto \<and> normalize (so_env_value opts) = None)
     | ext \<Rightarrow> so_provider opts = ProviderOf ext \<and> so_adapters opts ext \<noteq> None)"
proof -
  let ?e = "normalize (so_env_value opts)" and ?c = "normalize (so_config_value opts)"
  from assms have r: "resolve_provider_secret (so_provider opts) ?e ?c opts = Inr (rs_source r, rs_value r)"
    and plain: "assert_no_plaintext_config_secret (so_profile opts) ?c (so_label opts) = Inr ()"
    and src: "assert_no_plaintext_config_source (so_profile opts) (rs_source r) (so_label opts) = Inr ()"
    by (auto simp: resolve_secret_def Let_def and_then_Inr_iff)
  from r show ?thesis
    using plain src normalize_nonempty
    by (cases rule: resolve_provider_cases)
      (auto simp: assert_no_plaintext_config_secret_def assert_no_plaintext_config_source_def split: if_splits)
qed

lemma resolved_secret_sources_witness:
  "\<exists>r. resolve_secret \<lparr>so_label = ''k'', so_provider = ProviderAuto, so_profile = Production,
      so_env_var_name = ''K'', so_env_value = Some '' ab '', so_config_value = None,
      so_secret_ref = None, so_adapters = (\<lambda>_. None)\<rparr> = Inr r \<and> rs_source r = SourceEnv \<and> rs_value r \<noteq> []"
proof -
  let ?o = "\<lparr>so_label = ''k'', so_provider = ProviderAuto, so_profile = Production,
      so_env_var_name = ''K'', so_env_value = Some '' ab '', so_config_value = None,
      so_secret_ref = None, so_adapters = (\<lambda>_. None)\<rparr>"
  have "map_sum id rs_source (resolve_secret ?o) = Inr SourceEnv" by code_simp
  then have "\<exists>r. resolve_secret ?o = Inr r \<and> rs_source r = SourceEnv"
    by (cases "resolve_secret ?o") auto
  then show ?thesis using resolved_secret_sources [of ?o] by blast
qed

end
