(* ===== verification/Aztec_Lib.thy ===== *)
theory Aztec_Lib
  imports Prelude
begin

text \<open>
  The pure functions of the Aztec SDK that the services call and that are not part of the
  repository: address and field parsing and printing, the inner authwit hash and the URL
  check of the schema library. They are the fields of \<open>aztec_lib\<close>, an argument of every
  definition that uses them. An address is its field element; the zero address is \<open>0\<close>.
\<close>

record aztec_lib =
  address_from_string :: "string \<Rightarrow> thrown + int"
  address_to_string :: "int \<Rightarrow> string"
  fr_from_hex :: "string \<Rightarrow> thrown + int"
  fr_to_string :: "int \<Rightarrow> string"
  fr_of_bigint :: "int \<Rightarrow> thrown + int"
  inner_authwit_hash :: "int list \<Rightarrow> int"
  is_url :: "string \<Rightarrow> bool"

text \<open>Documented behaviour: a printed address, in any letter case, reads back as itself.\<close>

definition addresses_roundtrip :: "aztec_lib \<Rightarrow> bool" where
  "addresses_roundtrip lib \<longleftrightarrow>
     (\<forall>s a. address_from_string lib s = Inr a \<longrightarrow>
        address_from_string lib (address_to_string lib a) = Inr a \<and>
        address_from_string lib (js_lower (address_to_string lib a)) = Inr a)"

text \<open>Documented behaviour: every integer of at most 128 bits is a field element.\<close>

definition fr_holds_u128 :: "aztec_lib \<Rightarrow> bool" where
  "fr_holds_u128 lib \<longleftrightarrow> (\<forall>x. 0 \<le> x \<longrightarrow> x < 2 ^ 128 \<longrightarrow> fr_of_bigint lib x = Inr x)"

text \<open>
  A concrete library for evaluated examples: an address or field is written in decimal,
  the hash is a base-1000 number of the preimage.
\<close>

definition demo_lib :: aztec_lib where
  "demo_lib = \<lparr>
     address_from_string = (\<lambda>s. if digits_only s then Inr (dec_value s) else Inl (error ''bad address'')),
     address_to_string = (\<lambda>a. bigint_string a),
     fr_from_hex = (\<lambda>s. if digits_only s then Inr (dec_value s) else Inl (error ''bad field'')),
     fr_to_string = (\<lambda>a. bigint_string a),
     fr_of_bigint = (\<lambda>x. if 0 \<le> x \<and> x < 2 ^ 253 then Inr x else Inl (error ''not a field element'')),
     inner_authwit_hash = (\<lambda>xs. foldl (\<lambda>h x. 1000 * h + x) 1 xs),
     is_url = (\<lambda>s. starts_with s ''http'')\<rparr>"

lemma demo_lib_simps [simp]:
  "address_from_string demo_lib s = (if digits_only s then Inr (dec_value s) else Inl (error ''bad address''))"
  "address_to_string demo_lib a = bigint_string a"
  "fr_from_hex demo_lib s = (if digits_only s then Inr (dec_value s) else Inl (error ''bad field''))"
  "fr_to_string demo_lib a = bigint_string a"
  "fr_of_bigint demo_lib x = (if 0 \<le> x \<and> x < 2 ^ 253 then Inr x else Inl (error ''not a field element''))"
  "inner_authwit_hash demo_lib xs = foldl (\<lambda>h x. 1000 * h + x) 1 xs"
  "is_url demo_lib u = starts_with u ''http''"
  by (simp_all add: demo_lib_def)

lemma lower_digit: "is_digit c \<Longrightarrow> lower_char c = c"
  by (auto simp: is_digit_def lower_char_def)

lemma lower_digits: "list_all is_digit s \<Longrightarrow> js_lower s = s"
  by (induction s) (auto simp: js_lower_def lower_digit)

lemma demo_addresses_roundtrip: "addresses_roundtrip demo_lib"
proof -
  have "digits_only (dec_nat n)" for n
    by (simp add: digits_only_def dec_nat_digits)
  moreover have "js_lower (dec_nat n) = dec_nat n" for n
    by (simp add: lower_digits dec_nat_digits)
  moreover have "digits_only s \<Longrightarrow> (0 \<le> dec_value s) = True" for s
    by (simp add: digits_only_def dec_value_nonneg)
  ultimately show ?thesis
    by (auto simp flip: not_less simp: addresses_roundtrip_def bigint_string_def dec_value_dec_nat split: if_splits)
qed

lemma demo_fr_holds_u128: "fr_holds_u128 demo_lib"
  by (simp add: fr_holds_u128_def)

end
