(* ===== verification/Attest_Config.thy ===== *)
theory Attest_Config
  imports Js_Values Secret_Provider Aztec_Lib
begin

text \<open>
  Configuration of the attestation service, \<open>services/attestation/src/config.ts\<close>: the
  schema of the configuration file, the environment overrides, the resolution of quote and
  admin authentication, of the rate limit and of the asset list, and the final exchange
  rate. The file is read and parsed from YAML outside the model: the input is its value.
  A rejected schema is a thrown \<open>ZodError\<close> that carries the issue messages.
\<close>

section \<open>Constants and types\<close>

definition MAX_QUOTE_VALIDITY_SECONDS :: int where
  "MAX_QUOTE_VALIDITY_SECONDS = 3600"

definition QUOTE_RATE_LIMIT_MAX_WINDOW_SECONDS :: int where
  "QUOTE_RATE_LIMIT_MAX_WINDOW_SECONDS = 3600"

definition QUOTE_RATE_LIMIT_MAX_REQUESTS :: int where
  "QUOTE_RATE_LIMIT_MAX_REQUESTS = 1000000"

definition QUOTE_RATE_LIMIT_MAX_TRACKED_KEYS :: int where
  "QUOTE_RATE_LIMIT_MAX_TRACKED_KEYS = 1000000"

datatype quote_auth_mode =
    ModeDisabled
  | ModeApiKey
  | ModeTrustedHeader
  | ModeApiKeyOrTrustedHeader
  | ModeApiKeyAndTrustedHeader

datatype quote_format = AmountQuote | RateQuote

record asset_policy =
  ap_address :: string
  ap_name :: string
  market_rate_num :: int
  market_rate_den :: int
  fee_bips :: int

record quote_auth_config =
  qa_mode :: quote_auth_mode
  qa_api_key :: "string option"
  qa_api_key_header :: string
  qa_trusted_name :: "string option"
  qa_trusted_value :: "string option"

record quote_rate_limit_config =
  rl_enabled :: bool
  rl_max_requests :: int
  rl_window_seconds :: int
  rl_max_tracked_keys :: int

record admin_auth_config =
  aa_enabled :: bool
  aa_api_key :: "string option"
  aa_api_key_header :: string

record parsed_config =
  pc_runtime_profile :: runtime_profile
  pc_network_id :: string
  pc_fpc_address :: string
  pc_contract_variant :: string
  pc_quote_base_url :: "string option"
  pc_aztec_node_url :: "string option"
  pc_quote_validity_seconds :: int
  pc_port :: int
  pc_supported_assets :: "asset_policy list option"
  pc_quote_format :: quote_format
  pc_operator_secret_provider :: secret_provider
  pc_operator_secret_ref :: "string option"
  pc_operator_address :: "string option"
  pc_operator_account_salt :: "string option"
  pc_admin_api_key_header :: string
  pc_asset_policy_state_path :: string
  pc_treasury_destination_address :: "string option"
  pc_quote_auth_mode :: quote_auth_mode
  pc_quote_auth_api_key_header :: string
  pc_quote_auth_trusted_header_name :: "string option"
  pc_pxe_data_directory :: "string option"
  pc_rate_limit_enabled :: bool
  pc_rate_limit_max_requests :: int
  pc_rate_limit_window_seconds :: int
  pc_rate_limit_max_tracked_keys :: int

record config =
  c_parsed :: parsed_config
  c_runtime_profile :: runtime_profile
  c_aztec_node_url :: string
  c_supported_assets :: "asset_policy list"
  c_operator_secret :: resolved_secret
  c_operator_account_salt :: "string option"
  c_asset_policy_state_path :: string
  c_treasury_destination_address :: "string option"
  c_admin_auth :: admin_auth_config
  c_quote_auth :: quote_auth_config
  c_quote_rate_limit :: quote_rate_limit_config

text \<open>\<open>c_parsed\<close> holds the fields that \<open>...restConfig\<close> copies unchanged.\<close>

abbreviation c_fpc_address :: "config \<Rightarrow> string" where
  "c_fpc_address c \<equiv> pc_fpc_address (c_parsed c)"

abbreviation c_quote_format :: "config \<Rightarrow> quote_format" where
  "c_quote_format c \<equiv> pc_quote_format (c_parsed c)"

abbreviation c_quote_validity_seconds :: "config \<Rightarrow> int" where
  "c_quote_validity_seconds c \<equiv> pc_quote_validity_seconds (c_parsed c)"

type_synonym process_env = "string \<Rightarrow> string option"

definition zod_error :: "string list \<Rightarrow> thrown" where
  "zod_error msgs = Thrown ''ZodError'' (concat msgs)"

definition z_parse :: "'a schema \<Rightarrow> jsval \<Rightarrow> thrown + 'a" where
  "z_parse p v = map_sum zod_error id (p v)"

section \<open>Schemas\<close>

definition runtime_profile_schema :: "runtime_profile schema" where
  "runtime_profile_schema =
     z_enum [(''development'', Development), (''test'', Test), (''production'', Production)]"

definition secret_provider_schema :: "secret_provider schema" where
  "secret_provider_schema =
     z_enum [(''auto'', ProviderAuto), (''env'', ProviderOf SourceEnv),
             (''config'', ProviderOf SourceConfig), (''kms'', ProviderOf SourceKms),
             (''hsm'', ProviderOf SourceHsm)]"

definition quote_auth_mode_schema :: "quote_auth_mode schema" where
  "quote_auth_mode_schema =
     z_enum [(''disabled'', ModeDisabled), (''api_key'', ModeApiKey),
             (''trusted_header'', ModeTrustedHeader),
             (''api_key_or_trusted_header'', ModeApiKeyOrTrustedHeader),
             (''api_key_and_trusted_header'', ModeApiKeyAndTrustedHeader)]"

definition quote_format_schema :: "quote_format schema" where
  "quote_format_schema = z_enum [(''amount_quote'', AmountQuote), (''rate_quote'', RateQuote)]"

definition hex32_schema :: "string \<Rightarrow> string schema" where
  "hex32_schema msg = z_refine z_string (hex_word 64) msg"

definition url_schema :: "aztec_lib \<Rightarrow> string schema" where
  "url_schema lib = z_refine z_string (is_url lib) ''Invalid url''"

definition non_empty_schema :: "string schema" where
  "non_empty_schema = z_refine z_string (\<lambda>s. s \<noteq> []) ''String must contain at least 1 character(s)''"

definition trimmed_non_empty_schema :: "string schema" where
  "trimmed_non_empty_schema =
     z_refine (z_map js_trim z_string) (\<lambda>s. s \<noteq> []) ''String must contain at least 1 character(s)''"

definition aztec_address_schema :: "aztec_lib \<Rightarrow> string schema" where
  "aztec_address_schema lib v = and_then (z_map js_trim z_string v) (\<lambda>s.
     case address_from_string lib s of
       Inl _ \<Rightarrow> Inl [''must be a valid Aztec address'']
     | Inr a \<Rightarrow> if a = 0 then Inl [''must be a non-zero Aztec address''] else Inr s)"

definition supported_asset_schema :: "aztec_lib \<Rightarrow> asset_policy schema" where
  "supported_asset_schema lib v =
     (let a = aztec_address_schema lib (jfield ''address'' v);
          n = trimmed_non_empty_schema (jfield ''name'' v);
          rn = z_int ''Number must be greater than 0'' 1 None (jfield ''market_rate_num'' v);
          rd = z_int ''Number must be greater than 0'' 1 None (jfield ''market_rate_den'' v);
          fb = z_int ''Number out of range'' 0 (Some 10000) (jfield ''fee_bips'' v);
          es = issues a @ issues n @ issues rn @ issues rd @ issues fb
      in if es = [] then Inr \<lparr>ap_address = parsed a, ap_name = parsed n,
             market_rate_num = parsed rn, market_rate_den = parsed rd, fee_bips = parsed fb\<rparr>
         else Inl es)"

definition config_schema :: "aztec_lib \<Rightarrow> parsed_config schema" where
  "config_schema lib v =
     (let rp = z_default Development runtime_profile_schema (jfield ''runtime_profile'' v);
          nid = z_default ''aztec-alpha-local'' trimmed_non_empty_schema (jfield ''network_id'' v);
          fpc = aztec_address_schema lib (jfield ''fpc_address'' v);
          cv = z_default ''fpc-v1'' trimmed_non_empty_schema (jfield ''contract_variant'' v);
          qbu = z_optional (url_schema lib) (jfield ''quote_base_url'' v);
          anu = z_optional (url_schema lib) (jfield ''aztec_node_url'' v);
          qvs = z_default 300 (z_int ''out of range'' 1 (Some MAX_QUOTE_VALIDITY_SECONDS))
                  (jfield ''quote_validity_seconds'' v);
          po = z_default 3000 (z_int ''out of range'' 1 None) (jfield ''port'' v);
          sa = z_optional (z_array (supported_asset_schema lib)) (jfield ''supported_assets'' v);
          qf = z_default AmountQuote quote_format_schema (jfield ''quote_format'' v);
          osp = z_default ProviderAuto secret_provider_schema (jfield ''operator_secret_provider'' v);
          osr = z_optional z_string (jfield ''operator_secret_ref'' v);
          oa = z_optional (aztec_address_schema lib) (jfield ''operator_address'' v);
          oas = z_optional (hex32_schema ''must be a 32-byte 0x-prefixed hex field'')
                  (jfield ''operator_account_salt'' v);
          aah = z_default ''x-admin-api-key'' z_string (jfield ''admin_api_key_header'' v);
          aps = z_default ''.attestation-asset-policies'' non_empty_schema
                  (jfield ''asset_policy_state_path'' v);
          tda = z_optional (aztec_address_schema lib) (jfield ''treasury_destination_address'' v);
          qam = z_default ModeDisabled quote_auth_mode_schema (jfield ''quote_auth_mode'' v);
          qah = z_default ''x-api-key'' z_string (jfield ''quote_auth_api_key_header'' v);
          qth = z_optional z_string (jfield ''quote_auth_trusted_header_name'' v);
          pdd = z_optional z_string (jfield ''pxe_data_directory'' v);
          rle = z_default True z_boolean (jfield ''quote_rate_limit_enabled'' v);
          rlm = z_default 60 (z_int ''out of range'' 1 (Some QUOTE_RATE_LIMIT_MAX_REQUESTS))
                  (jfield ''quote_rate_limit_max_requests'' v);
          rlw = z_default 60 (z_int ''out of range'' 1 (Some QUOTE_RATE_LIMIT_MAX_WINDOW_SECONDS))
                  (jfield ''quote_rate_limit_window_seconds'' v);
          rlt = z_default 10000 (z_int ''out of range'' 1 (Some QUOTE_RATE_LIMIT_MAX_TRACKED_KEYS))
                  (jfield ''quote_rate_limit_max_tracked_keys'' v);
          es = issues rp @ issues nid @ issues fpc @ issues cv @ issues qbu @ issues anu @
               issues qvs @ issues po @ issues sa @ issues qf @ issues osp @ issues osr @
               issues oa @ issues oas @ issues aah @ issues aps @ issues tda @ issues qam @
               issues qah @ issues qth @ issues pdd @ issues rle @ issues rlm @ issues rlw @ issues rlt
      in if es = [] then Inr \<lparr>
           pc_runtime_profile = parsed rp, pc_network_id = parsed nid, pc_fpc_address = parsed fpc,
           pc_contract_variant = parsed cv, pc_quote_base_url = parsed qbu,
           pc_aztec_node_url = parsed anu, pc_quote_validity_seconds = parsed qvs,
           pc_port = parsed po, pc_supported_assets = parsed sa, pc_quote_format = parsed qf,
           pc_operator_secret_provider = parsed osp, pc_operator_secret_ref = parsed osr,
           pc_operator_address = parsed oa, pc_operator_account_salt = parsed oas,
           pc_admin_api_key_header = parsed aah, pc_asset_policy_state_path = parsed aps,
           pc_treasury_destination_address = parsed tda, pc_quote_auth_mode = parsed qam,
           pc_quote_auth_api_key_header = parsed qah,
           pc_quote_auth_trusted_header_name = parsed qth, pc_pxe_data_directory = parsed pdd,
           pc_rate_limit_enabled = parsed rle, pc_rate_limit_max_requests = parsed rlm,
           pc_rate_limit_window_seconds = parsed rlw, pc_rate_limit_max_tracked_keys = parsed rlt\<rparr>
         else Inl es)"

section \<open>Environment overrides\<close>

text \<open>An override that is unset or empty leaves the configured value in place.\<close>

definition parse_enum_override :: "'a schema \<Rightarrow> 'a \<Rightarrow> string option \<Rightarrow> thrown + 'a" where
  "parse_enum_override p config_value override = (case override of
     None \<Rightarrow> Inr config_value
   | Some s \<Rightarrow> if s = [] then Inr config_value else z_parse p (JString (js_trim s)))"

definition parse_runtime_profile ::
    "runtime_profile \<Rightarrow> string option \<Rightarrow> thrown + runtime_profile" where
  "parse_runtime_profile = parse_enum_override runtime_profile_schema"

definition parse_secret_provider ::
    "secret_provider \<Rightarrow> string option \<Rightarrow> thrown + secret_provider" where
  "parse_secret_provider = parse_enum_override secret_provider_schema"

definition parse_quote_auth_mode ::
    "quote_auth_mode \<Rightarrow> string option \<Rightarrow> thrown + quote_auth_mode" where
  "parse_quote_auth_mode = parse_enum_override quote_auth_mode_schema"

definition normalize_optional :: "string option \<Rightarrow> string option" where
  "normalize_optional v = trimmed_opt v"

definition parse_boolean_override :: "bool \<Rightarrow> string option \<Rightarrow> string \<Rightarrow> thrown + bool" where
  "parse_boolean_override config_value override name = (case override of
     None \<Rightarrow> Inr config_value
   | Some s \<Rightarrow>
       (let n = js_lower (js_trim s) in
        if n \<in> {''1'', ''true'', ''yes'', ''on''} then Inr True
        else if n \<in> {''0'', ''false'', ''no'', ''off''} then Inr False
        else Inl (error (''Invalid '' @ name @
          '': expected boolean value (true/false, 1/0, yes/no, on/off)''))))"

definition parse_integer_override ::
    "int \<Rightarrow> string option \<Rightarrow> string \<Rightarrow> int \<Rightarrow> int \<Rightarrow> thrown + int" where
  "parse_integer_override config_value override name lo hi = (case override of
     None \<Rightarrow> Inr config_value
   | Some s \<Rightarrow>
       (let n = js_Number (js_trim s) in
        if \<not> is_integer n \<or> number_value n < lo \<or> hi < number_value n
        then Inl (error (''Invalid '' @ name @ '': expected integer in range ['' @
               bigint_string lo @ '', '' @ bigint_string hi @ '']''))
        else Inr (number_value n)))"

text \<open>The characters of \<open>HTTP_HEADER_NAME_PATTERN\<close>.\<close>

definition header_char :: "char \<Rightarrow> bool" where
  "header_char c \<longleftrightarrow> is_digit c \<or> (65 \<le> code_of c \<and> code_of c \<le> 90)
     \<or> (97 \<le> code_of c \<and> code_of c \<le> 122)
     \<or> code_of c \<in> {33, 35, 36, 37, 38, 39, 42, 43, 45, 46, 94, 95, 96, 124, 126}"

definition normalize_header_name :: "string \<Rightarrow> string \<Rightarrow> thrown + string" where
  "normalize_header_name value label =
     (let n = js_lower (js_trim value) in
      if n = [] then Inl (error (label @ '' header name must be non-empty''))
      else if \<not> list_all header_char n
      then Inl (error (label @ '' header name contains invalid characters''))
      else Inr n)"

section \<open>Quote authentication\<close>

definition mode_needs_api_key :: "quote_auth_mode \<Rightarrow> bool" where
  "mode_needs_api_key m \<longleftrightarrow>
     m = ModeApiKey \<or> m = ModeApiKeyOrTrustedHeader \<or> m = ModeApiKeyAndTrustedHeader"

definition mode_needs_trusted_header :: "quote_auth_mode \<Rightarrow> bool" where
  "mode_needs_trusted_header m \<longleftrightarrow>
     m = ModeTrustedHeader \<or> m = ModeApiKeyOrTrustedHeader \<or> m = ModeApiKeyAndTrustedHeader"

definition resolve_quote_auth_inputs ::
    "process_env \<Rightarrow> parsed_config \<Rightarrow> thrown + quote_auth_config" where
  "resolve_quote_auth_inputs env pc =
     and_then (parse_quote_auth_mode (pc_quote_auth_mode pc) (env ''QUOTE_AUTH_MODE'')) (\<lambda>mode.
     (let api_key = normalize_optional (env ''QUOTE_AUTH_API_KEY'') in
     and_then (normalize_header_name
         (case env ''QUOTE_AUTH_API_KEY_HEADER'' of Some h \<Rightarrow> h
          | None \<Rightarrow> pc_quote_auth_api_key_header pc) ''quote auth api key'') (\<lambda>api_key_header.
     (let raw = normalize_optional (case env ''QUOTE_AUTH_TRUSTED_HEADER_NAME'' of
            Some h \<Rightarrow> Some h | None \<Rightarrow> pc_quote_auth_trusted_header_name pc);
          trusted_value = normalize_optional (env ''QUOTE_AUTH_TRUSTED_HEADER_VALUE'') in
     and_then (case raw of None \<Rightarrow> Inr None
         | Some h \<Rightarrow> map_sum id Some (normalize_header_name h ''quote auth trusted upstream''))
       (\<lambda>trusted_name.
     Inr \<lparr>qa_mode = mode, qa_api_key = api_key, qa_api_key_header = api_key_header,
          qa_trusted_name = trusted_name, qa_trusted_value = trusted_value\<rparr>)))))"

definition mode_name :: "quote_auth_mode \<Rightarrow> string" where
  "mode_name m = (case m of ModeDisabled \<Rightarrow> ''disabled'' | ModeApiKey \<Rightarrow> ''api_key''
     | ModeTrustedHeader \<Rightarrow> ''trusted_header''
     | ModeApiKeyOrTrustedHeader \<Rightarrow> ''api_key_or_trusted_header''
     | ModeApiKeyAndTrustedHeader \<Rightarrow> ''api_key_and_trusted_header'')"

definition validate_quote_auth_mode ::
    "quote_auth_mode \<Rightarrow> runtime_profile \<Rightarrow> thrown + unit" where
  "validate_quote_auth_mode m p =
     (if p \<noteq> Production \<or> m \<noteq> ModeDisabled then Inr ()
      else Inl (error (''Insecure quote auth configuration: quote_auth_mode must not be disabled '' @
        ''when runtime_profile=production'')))"

definition validate_quote_auth_api_key ::
    "quote_auth_mode \<Rightarrow> string option \<Rightarrow> thrown + unit" where
  "validate_quote_auth_api_key m key =
     (if mode_needs_api_key m = (key \<noteq> None) then Inr ()
      else if mode_needs_api_key m
      then Inl (error (''Missing quote auth API key: set quote_auth_api_key (or QUOTE_AUTH_API_KEY) '' @
        ''when quote_auth_mode='' @ mode_name m))
      else Inl (error (''Unexpected quote auth API key: quote_auth_mode='' @ mode_name m @
        '' does not use API key auth'')))"

definition validate_quote_auth_trusted_header ::
    "quote_auth_mode \<Rightarrow> string option \<Rightarrow> string option \<Rightarrow> string \<Rightarrow> thrown + unit" where
  "validate_quote_auth_trusted_header m name val api_key_header =
     (if \<not> mode_needs_trusted_header m then
        (if name = None \<and> val = None then Inr ()
         else Inl (error (''Unexpected trusted upstream auth config: quote_auth_mode='' @ mode_name m @
           '' does not use trusted header auth'')))
      else if name = None \<or> val = None then
        Inl (error (''Missing trusted upstream auth header config: set quote_auth_trusted_header_name '' @
          ''and quote_auth_trusted_header_value (or env overrides) when quote_auth_mode='' @ mode_name m))
      else if m = ModeApiKeyAndTrustedHeader \<and> name = Some api_key_header then
        Inl (error (''Invalid quote auth header config: quote_auth_api_key_header and '' @
          ''quote_auth_trusted_header_name must differ when '' @
          ''quote_auth_mode=api_key_and_trusted_header''))
      else Inr ())"

definition resolve_quote_auth_config ::
    "process_env \<Rightarrow> parsed_config \<Rightarrow> runtime_profile \<Rightarrow> thrown + quote_auth_config" where
  "resolve_quote_auth_config env pc p =
     and_then (resolve_quote_auth_inputs env pc) (\<lambda>qa.
     and_then (validate_quote_auth_mode (qa_mode qa) p) (\<lambda>_.
     and_then (validate_quote_auth_api_key (qa_mode qa) (qa_api_key qa)) (\<lambda>_.
     and_then (validate_quote_auth_trusted_header (qa_mode qa) (qa_trusted_name qa)
                 (qa_trusted_value qa) (qa_api_key_header qa)) (\<lambda>_.
     Inr qa))))"

section \<open>Rate limit, admin access, assets\<close>

definition resolve_quote_rate_limit_config ::
    "process_env \<Rightarrow> parsed_config \<Rightarrow> thrown + quote_rate_limit_config" where
  "resolve_quote_rate_limit_config env pc =
     and_then (parse_boolean_override (pc_rate_limit_enabled pc)
       (env ''QUOTE_RATE_LIMIT_ENABLED'') ''QUOTE_RATE_LIMIT_ENABLED'') (\<lambda>en.
     and_then (parse_integer_override (pc_rate_limit_max_requests pc)
       (env ''QUOTE_RATE_LIMIT_MAX_REQUESTS'') ''QUOTE_RATE_LIMIT_MAX_REQUESTS'' 1
       QUOTE_RATE_LIMIT_MAX_REQUESTS) (\<lambda>mr.
     and_then (parse_integer_override (pc_rate_limit_window_seconds pc)
       (env ''QUOTE_RATE_LIMIT_WINDOW_SECONDS'') ''QUOTE_RATE_LIMIT_WINDOW_SECONDS'' 1
       QUOTE_RATE_LIMIT_MAX_WINDOW_SECONDS) (\<lambda>ws.
     and_then (parse_integer_override (pc_rate_limit_max_tracked_keys pc)
       (env ''QUOTE_RATE_LIMIT_MAX_TRACKED_KEYS'') ''QUOTE_RATE_LIMIT_MAX_TRACKED_KEYS'' 1
       QUOTE_RATE_LIMIT_MAX_TRACKED_KEYS) (\<lambda>tk.
     Inr \<lparr>rl_enabled = en, rl_max_requests = mr, rl_window_seconds = ws,
          rl_max_tracked_keys = tk\<rparr>))))"

definition normalize_address :: "aztec_lib \<Rightarrow> string \<Rightarrow> thrown + string" where
  "normalize_address lib s =
     and_then (address_from_string lib s) (\<lambda>a. Inr (js_lower (address_to_string lib a)))"

definition resolve_admin_auth_config ::
    "process_env \<Rightarrow> parsed_config \<Rightarrow> thrown + admin_auth_config" where
  "resolve_admin_auth_config env pc =
     (let api_key = normalize_optional (env ''ADMIN_API_KEY'') in
      and_then (normalize_header_name (case env ''ADMIN_API_KEY_HEADER'' of Some h \<Rightarrow> h
          | None \<Rightarrow> pc_admin_api_key_header pc) ''admin api key'') (\<lambda>h.
      Inr \<lparr>aa_enabled = (api_key \<noteq> None), aa_api_key = api_key, aa_api_key_header = h\<rparr>))"

fun resolve_assets_loop ::
    "aztec_lib \<Rightarrow> string set \<Rightarrow> asset_policy list \<Rightarrow> thrown + asset_policy list" where
  "resolve_assets_loop lib seen [] = Inr []"
| "resolve_assets_loop lib seen (p # ps) =
     and_then (normalize_address lib (ap_address p)) (\<lambda>a.
     if a \<in> seen then Inl (error (''Duplicate supported asset address in config: '' @ a))
     else and_then (resolve_assets_loop lib (insert a seen) ps) (\<lambda>rest.
       Inr (p\<lparr>ap_address := a\<rparr> # rest)))"

definition resolve_supported_assets ::
    "aztec_lib \<Rightarrow> parsed_config \<Rightarrow> thrown + asset_policy list" where
  "resolve_supported_assets lib pc = (case pc_supported_assets pc of
     None \<Rightarrow> Inr [] | Some ps \<Rightarrow> resolve_assets_loop lib {} ps)"

definition option_value :: "string option \<Rightarrow> jsval" where
  "option_value v = (case v of None \<Rightarrow> JUndefined | Some s \<Rightarrow> JString s)"

text \<open>\<open>a ?? b\<close>.\<close>

definition coalesce :: "'a option \<Rightarrow> 'a option \<Rightarrow> 'a option" where
  "coalesce a b = (case a of None \<Rightarrow> b | Some x \<Rightarrow> Some x)"

definition load_config ::
    "aztec_lib \<Rightarrow> secret_adapters \<Rightarrow> process_env \<Rightarrow> jsval \<Rightarrow> thrown + config" where
  "load_config lib ads env raw =
     and_then (z_parse (config_schema lib) raw) (\<lambda>pc.
     and_then (parse_runtime_profile (pc_runtime_profile pc) (env ''FPC_RUNTIME_PROFILE'')) (\<lambda>rp.
     and_then (parse_secret_provider (pc_operator_secret_provider pc)
                 (env ''OPERATOR_SECRET_PROVIDER'')) (\<lambda>sp.
     and_then (resolve_secret \<lparr>so_label = ''operator secret key'', so_provider = sp, so_profile = rp,
        so_env_var_name = ''OPERATOR_SECRET_KEY'', so_env_value = env ''OPERATOR_SECRET_KEY'',
        so_config_value = None,
        so_secret_ref = coalesce (env ''OPERATOR_SECRET_REF'') (pc_operator_secret_ref pc),
        so_adapters = ads\<rparr>) (\<lambda>secret.
     and_then (z_parse (hex32_schema ''must be a 32-byte 0x-prefixed hex private key'')
                 (JString (rs_value secret))) (\<lambda>_.
     and_then (z_parse (url_schema lib)
                 (option_value (coalesce (env ''AZTEC_NODE_URL'') (pc_aztec_node_url pc)))) (\<lambda>url.
     and_then (resolve_supported_assets lib pc) (\<lambda>assets.
     and_then (resolve_admin_auth_config env pc) (\<lambda>admin.
     and_then (resolve_quote_auth_config env pc rp) (\<lambda>qa.
     and_then (resolve_quote_rate_limit_config env pc) (\<lambda>rl.
     Inr \<lparr>c_parsed = pc, c_runtime_profile = rp, c_aztec_node_url = url,
          c_supported_assets = assets, c_operator_secret = secret,
          c_operator_account_salt =
            (case normalize_optional (env ''OPERATOR_ACCOUNT_SALT'') of Some s \<Rightarrow> Some s
             | None \<Rightarrow> pc_operator_account_salt pc),
          c_asset_policy_state_path =
            (case env ''ATTESTATION_ASSET_POLICY_STATE_PATH'' of Some s \<Rightarrow> s
             | None \<Rightarrow> pc_asset_policy_state_path pc),
          c_treasury_destination_address =
            coalesce (env ''TREASURY_DESTINATION_ADDRESS'') (pc_treasury_destination_address pc),
          c_admin_auth = admin, c_quote_auth = qa, c_quote_rate_limit = rl\<rparr>))))))))))"

section \<open>Final rate\<close>

definition compute_final_rate :: "asset_policy \<Rightarrow> int \<times> int" where
  "compute_final_rate p =
     (market_rate_num p * (10000 + fee_bips p), market_rate_den p * 10000)"


section \<open>What a loaded configuration guarantees\<close>

definition quote_auth_wf :: "quote_auth_config \<Rightarrow> bool" where
  "quote_auth_wf qa \<longleftrightarrow>
     mode_needs_api_key (qa_mode qa) = (qa_api_key qa \<noteq> None) \<and>
     mode_needs_trusted_header (qa_mode qa) = (qa_trusted_name qa \<noteq> None) \<and>
     mode_needs_trusted_header (qa_mode qa) = (qa_trusted_value qa \<noteq> None) \<and>
     qa_api_key qa \<noteq> Some [] \<and> qa_trusted_value qa \<noteq> Some [] \<and> qa_trusted_name qa \<noteq> Some [] \<and>
     (qa_mode qa = ModeApiKeyAndTrustedHeader \<longrightarrow> qa_trusted_name qa \<noteq> Some (qa_api_key_header qa))"

definition rate_limit_wf :: "quote_rate_limit_config \<Rightarrow> bool" where
  "rate_limit_wf rl \<longleftrightarrow>
     1 \<le> rl_max_requests rl \<and> rl_max_requests rl \<le> QUOTE_RATE_LIMIT_MAX_REQUESTS \<and>
     1 \<le> rl_window_seconds rl \<and> rl_window_seconds rl \<le> QUOTE_RATE_LIMIT_MAX_WINDOW_SECONDS \<and>
     1 \<le> rl_max_tracked_keys rl \<and> rl_max_tracked_keys rl \<le> QUOTE_RATE_LIMIT_MAX_TRACKED_KEYS"

text \<open>The shape of every policy the service prices with.\<close>

definition policy_wf :: "asset_policy \<Rightarrow> bool" where
  "policy_wf p \<longleftrightarrow> 0 < market_rate_num p \<and> 0 < market_rate_den p \<and>
     0 \<le> fee_bips p \<and> fee_bips p \<le> 10000 \<and> js_trim (ap_name p) \<noteq> []"

lemma policy_wf_address [simp]: "policy_wf (p\<lparr>ap_address := a\<rparr>) = policy_wf p"
  by (simp add: policy_wf_def)

definition config_wf :: "aztec_lib \<Rightarrow> config \<Rightarrow> bool" where
  "config_wf lib c \<longleftrightarrow>
     1 \<le> c_quote_validity_seconds c \<and> c_quote_validity_seconds c \<le> MAX_QUOTE_VALIDITY_SECONDS \<and>
     quote_auth_wf (c_quote_auth c) \<and> rate_limit_wf (c_quote_rate_limit c) \<and>
     (c_runtime_profile c = Production \<longrightarrow>
        qa_mode (c_quote_auth c) \<noteq> ModeDisabled \<and> rs_source (c_operator_secret c) \<noteq> SourceConfig) \<and>
     hex_word 64 (rs_value (c_operator_secret c)) \<and>
     distinct (map ap_address (c_supported_assets c)) \<and>
     list_all policy_wf (c_supported_assets c)"

lemma trimmed_opt_not_Nil: "trimmed_opt v \<noteq> Some []"
  by (auto simp: trimmed_opt_def split: option.splits)

lemma z_default_int_bounds:
  "z_default d (z_int msg lo (Some hi)) v = Inr i \<Longrightarrow> lo \<le> d \<Longrightarrow> d \<le> hi \<Longrightarrow> lo \<le> i \<and> i \<le> hi"
  by (auto simp: z_default_def z_int_Inr_iff split: if_splits)

lemma z_default_int_issues:
  "issues (z_default d (z_int msg lo hi) v) = [] \<longleftrightarrow> (\<exists>i. z_default d (z_int msg lo hi) v = Inr i)"
  by (rule issues_Nil) (auto simp: z_default_def dest: z_int_cases)

text \<open>The fields of an accepted configuration that later checks rely on.\<close>

lemma config_schema_fields:
  fixes lib v
  defines "qvs \<equiv> z_default 300 (z_int ''out of range'' 1 (Some MAX_QUOTE_VALIDITY_SECONDS))
                  (jfield ''quote_validity_seconds'' v)"
    and "sa \<equiv> z_optional (z_array (supported_asset_schema lib)) (jfield ''supported_assets'' v)"
    and "rlm \<equiv> z_default 60 (z_int ''out of range'' 1 (Some QUOTE_RATE_LIMIT_MAX_REQUESTS))
                  (jfield ''quote_rate_limit_max_requests'' v)"
    and "rlw \<equiv> z_default 60 (z_int ''out of range'' 1 (Some QUOTE_RATE_LIMIT_MAX_WINDOW_SECONDS))
                  (jfield ''quote_rate_limit_window_seconds'' v)"
    and "rlt \<equiv> z_default 10000 (z_int ''out of range'' 1 (Some QUOTE_RATE_LIMIT_MAX_TRACKED_KEYS))
                  (jfield ''quote_rate_limit_max_tracked_keys'' v)"
  assumes "config_schema lib v = Inr pc"
  shows "issues qvs = [] \<and> pc_quote_validity_seconds pc = parsed qvs \<and>
    issues sa = [] \<and> pc_supported_assets pc = parsed sa \<and>
    issues rlm = [] \<and> pc_rate_limit_max_requests pc = parsed rlm \<and>
    issues rlw = [] \<and> pc_rate_limit_window_seconds pc = parsed rlw \<and>
    issues rlt = [] \<and> pc_rate_limit_max_tracked_keys pc = parsed rlt"
  using assms(6) unfolding config_schema_def Let_def assms(1-5)
  by (simp only: append_is_Nil_conv split: if_split_asm) (simp_all, clarsimp)

lemma default_int_range:
  "issues (z_default d (z_int msg lo (Some hi)) v) = [] \<Longrightarrow> lo \<le> d \<Longrightarrow> d \<le> hi \<Longrightarrow>
     lo \<le> parsed (z_default d (z_int msg lo (Some hi)) v) \<and>
     parsed (z_default d (z_int msg lo (Some hi)) v) \<le> hi"
  by (auto simp: z_default_int_issues dest: z_default_int_bounds)

lemma config_schema_ranges:
  assumes "config_schema lib v = Inr pc"
  shows "1 \<le> pc_quote_validity_seconds pc \<and> pc_quote_validity_seconds pc \<le> 3600"
    and "1 \<le> pc_rate_limit_max_requests pc \<and> pc_rate_limit_max_requests pc \<le> 1000000"
    and "1 \<le> pc_rate_limit_window_seconds pc \<and> pc_rate_limit_window_seconds pc \<le> 3600"
    and "1 \<le> pc_rate_limit_max_tracked_keys pc \<and> pc_rate_limit_max_tracked_keys pc \<le> 1000000"
  using config_schema_fields [OF assms]
  by (simp_all add: default_int_range MAX_QUOTE_VALIDITY_SECONDS_def
      QUOTE_RATE_LIMIT_MAX_REQUESTS_def QUOTE_RATE_LIMIT_MAX_WINDOW_SECONDS_def
      QUOTE_RATE_LIMIT_MAX_TRACKED_KEYS_def)

lemma supported_asset_wf: "supported_asset_schema lib v = Inr p \<Longrightarrow> policy_wf p"
proof -
  assume p: "supported_asset_schema lib v = Inr p"
  let ?rn = "z_int ''Number must be greater than 0'' 1 None (jfield ''market_rate_num'' v)"
  let ?rd = "z_int ''Number must be greater than 0'' 1 None (jfield ''market_rate_den'' v)"
  let ?fb = "z_int ''Number out of range'' 0 (Some 10000) (jfield ''fee_bips'' v)"
  let ?n = "trimmed_non_empty_schema (jfield ''name'' v)"
  from p have iss: "issues ?rn = []" "issues ?rd = []" "issues ?fb = []" "issues ?n = []"
    and val: "market_rate_num p = parsed ?rn" "market_rate_den p = parsed ?rd"
      "fee_bips p = parsed ?fb" "ap_name p = parsed ?n"
    by (auto simp: supported_asset_schema_def Let_def split: if_splits)
  have int_ok: "issues (z_int m lo hi w) = [] \<Longrightarrow> z_int m lo hi w = Inr (parsed (z_int m lo hi w))"
    for m lo hi w
    by (cases "z_int m lo hi w") (auto dest: z_int_cases)
  have "?n \<noteq> Inl []"
    by (auto simp: trimmed_non_empty_schema_def z_refine_def z_map_def z_string_def expected_def
        and_then_Inl_iff split: jsval.splits if_splits)
  with iss(4) obtain m where m: "?n = Inr m" by (cases ?n) auto
  then have "js_trim m \<noteq> []"
    by (auto simp: trimmed_non_empty_schema_def z_refine_def z_map_def z_string_def
        and_then_Inr_iff split: jsval.splits if_splits)
  with val m int_ok [OF iss(1)] int_ok [OF iss(2)] int_ok [OF iss(3)]
  show ?thesis by (auto simp: policy_wf_def z_int_Inr_iff)
qed

lemma z_elements_all: "z_elements p vs = Inr xs \<Longrightarrow> (\<And>v x. p v = Inr x \<Longrightarrow> P x) \<Longrightarrow> list_all P xs"
proof (induction vs arbitrary: xs)
  case Nil
  then show ?case by simp
next
  case (Cons v vs)
  then show ?case
    by (auto split: sum.splits prod.splits)
qed

lemma z_optional_assets_wf:
  "z_optional (z_array (supported_asset_schema lib)) v = Inr (Some ps) \<Longrightarrow> list_all policy_wf ps"
  by (cases v) (auto simp: z_optional_def z_array_def map_sum_def split: sum.splits
      intro!: z_elements_all supported_asset_wf)

lemma z_elements_reports:
  "(\<And>v. p v \<noteq> Inl []) \<Longrightarrow> z_elements p vs \<noteq> Inl []"
proof (induction vs)
  case Nil
  show ?case by simp
next
  case (Cons v vs)
  then show ?case
    by (cases "p v"; cases "z_elements p vs") auto
qed

lemma config_schema_assets_wf:
  assumes "config_schema lib v = Inr pc" "pc_supported_assets pc = Some ps"
  shows "list_all policy_wf ps"
proof -
  let ?sa = "z_optional (z_array (supported_asset_schema lib)) (jfield ''supported_assets'' v)"
  from config_schema_fields [OF assms(1)]
  have iss: "issues ?sa = []" and val: "pc_supported_assets pc = parsed ?sa" by simp_all
  have asset: "supported_asset_schema lib w \<noteq> Inl []" for w
    by (auto simp: supported_asset_schema_def Let_def split: if_splits)
  have "?sa \<noteq> Inl []"
    using z_elements_reports [of "supported_asset_schema lib", OF asset]
    by (auto simp: z_optional_def z_array_def expected_def map_sum_def split: sum.splits jsval.splits)
  with iss obtain x where "?sa = Inr x" by (cases ?sa) auto
  with val assms(2) have "?sa = Inr (Some ps)" by simp
  then show ?thesis by (rule z_optional_assets_wf)
qed

lemma resolve_assets_loop_wf:
  "resolve_assets_loop lib seen ps = Inr qs \<Longrightarrow> list_all policy_wf ps \<Longrightarrow>
     list_all policy_wf qs \<and> distinct (map ap_address qs) \<and> seen \<inter> set (map ap_address qs) = {}"
proof (induction ps arbitrary: seen qs)
  case Nil
  then show ?case by simp
next
  case (Cons p ps)
  from Cons.prems(1) obtain a rest where
    a: "a \<notin> seen" and rest: "resolve_assets_loop lib (insert a seen) ps = Inr rest"
    and qs: "qs = p\<lparr>ap_address := a\<rparr> # rest"
    by (auto simp: and_then_Inr_iff split: if_splits)
  from Cons.IH [OF rest] Cons.prems(2) have
    "list_all policy_wf rest \<and> distinct (map ap_address rest) \<and>
     insert a seen \<inter> set (map ap_address rest) = {}" by simp
  with qs a Cons.prems(2) show ?case by auto
qed

lemma normalize_header_nonempty: "normalize_header_name v l \<noteq> Inr []"
  by (auto simp: normalize_header_name_def Let_def)

lemma resolve_quote_auth_wf:
  assumes "resolve_quote_auth_config env pc p = Inr qa"
  shows "quote_auth_wf qa" and "p = Production \<Longrightarrow> qa_mode qa \<noteq> ModeDisabled"
proof -
  from assms have i: "resolve_quote_auth_inputs env pc = Inr qa"
    and k: "validate_quote_auth_api_key (qa_mode qa) (qa_api_key qa) = Inr ()"
    and m: "validate_quote_auth_mode (qa_mode qa) p = Inr ()"
    and t: "validate_quote_auth_trusted_header (qa_mode qa) (qa_trusted_name qa)
              (qa_trusted_value qa) (qa_api_key_header qa) = Inr ()"
    by (auto simp: resolve_quote_auth_config_def and_then_Inr_iff)
  from i have "qa_api_key qa \<noteq> Some []" "qa_trusted_value qa \<noteq> Some []"
    by (auto simp: resolve_quote_auth_inputs_def and_then_Inr_iff Let_def normalize_optional_def
        trimmed_opt_not_Nil)
  moreover from i have "qa_trusted_name qa \<noteq> Some []"
    by (auto simp: resolve_quote_auth_inputs_def and_then_Inr_iff Let_def normalize_header_nonempty
        map_sum_Inr split: option.splits)
  ultimately show "quote_auth_wf qa" using k t
    by (auto simp: quote_auth_wf_def validate_quote_auth_api_key_def
        validate_quote_auth_trusted_header_def split: if_splits)
  show "p = Production \<Longrightarrow> qa_mode qa \<noteq> ModeDisabled"
    using m by (auto simp: validate_quote_auth_mode_def split: if_splits)
qed

lemma parse_integer_override_range:
  "parse_integer_override d v name lo hi = Inr i \<Longrightarrow> lo \<le> d \<Longrightarrow> d \<le> hi \<Longrightarrow> lo \<le> i \<and> i \<le> hi"
  by (auto simp: parse_integer_override_def Let_def split: option.splits if_splits)

lemma resolve_rate_limit_wf:
  assumes "resolve_quote_rate_limit_config env pc = Inr rl" "config_schema lib v = Inr pc"
  shows "rate_limit_wf rl"
  using assms(1) config_schema_ranges [OF assms(2)]
  by (auto simp: resolve_quote_rate_limit_config_def and_then_Inr_iff rate_limit_wf_def
      QUOTE_RATE_LIMIT_MAX_REQUESTS_def QUOTE_RATE_LIMIT_MAX_WINDOW_SECONDS_def
      QUOTE_RATE_LIMIT_MAX_TRACKED_KEYS_def dest!: parse_integer_override_range)

lemma resolve_secret_production:
  "resolve_secret opts = Inr r \<Longrightarrow> so_profile opts = Production \<Longrightarrow> rs_source r \<noteq> SourceConfig"
  by (auto simp: resolve_secret_def Let_def and_then_Inr_iff assert_no_plaintext_config_source_def
      split: if_splits)

lemma resolve_secret_provider: "resolve_secret opts = Inr r \<Longrightarrow> rs_provider r = so_provider opts"
  by (auto simp: resolve_secret_def Let_def and_then_Inr_iff)

text \<open>The steps of a successful load.\<close>

lemma load_config_parts:
  assumes "load_config lib ads env raw = Inr c"
  obtains pc where "config_schema lib raw = Inr pc"
    "resolve_secret \<lparr>so_label = ''operator secret key'', so_provider = rs_provider (c_operator_secret c),
        so_profile = c_runtime_profile c, so_env_var_name = ''OPERATOR_SECRET_KEY'',
        so_env_value = env ''OPERATOR_SECRET_KEY'', so_config_value = None,
        so_secret_ref = coalesce (env ''OPERATOR_SECRET_REF'') (pc_operator_secret_ref pc),
        so_adapters = ads\<rparr> = Inr (c_operator_secret c)"
    "\<exists>x. z_parse (hex32_schema ''must be a 32-byte 0x-prefixed hex private key'')
        (JString (rs_value (c_operator_secret c))) = Inr x"
    "resolve_supported_assets lib pc = Inr (c_supported_assets c)"
    "resolve_quote_auth_config env pc (c_runtime_profile c) = Inr (c_quote_auth c)"
    "resolve_quote_rate_limit_config env pc = Inr (c_quote_rate_limit c)"
    "c_parsed c = pc"
proof -
  from assms obtain pc where pc: "config_schema lib raw = Inr pc"
    by (cases "config_schema lib raw") (auto simp: load_config_def z_parse_def)
  show thesis
    by (rule that [OF pc])
      (use assms pc in \<open>auto simp: load_config_def z_parse_def and_then_Inr_iff\<close>,
       (frule resolve_secret_provider, simp)+)
qed

section \<open>Properties\<close>

text \<open>
  C29. Every configuration that \<open>loadConfig\<close> returns is safe to serve from: quotes live
  between 1 and 3600 seconds, the authentication mode has exactly the credentials it needs
  and in production is not disabled, the two header names of the conjunctive mode differ,
  the rate limit is within its bounds, the operator key is a 32-byte hex word that in
  production does not come from the file, and the supported assets are well-formed with
  pairwise different normalised addresses.
\<close>

theorem load_config_wf:
  assumes "load_config lib ads env raw = Inr c"
  shows "config_wf lib c"
proof -
  from assms obtain pc where pc: "config_schema lib raw = Inr pc"
    and prof: "resolve_secret \<lparr>so_label = ''operator secret key'', so_provider = rs_provider (c_operator_secret c),
        so_profile = c_runtime_profile c, so_env_var_name = ''OPERATOR_SECRET_KEY'',
        so_env_value = env ''OPERATOR_SECRET_KEY'', so_config_value = None,
        so_secret_ref = coalesce (env ''OPERATOR_SECRET_REF'') (pc_operator_secret_ref pc),
        so_adapters = ads\<rparr> = Inr (c_operator_secret c)"
    and hex: "\<exists>x. z_parse (hex32_schema ''must be a 32-byte 0x-prefixed hex private key'')
                (JString (rs_value (c_operator_secret c))) = Inr x"
    and assets: "resolve_supported_assets lib pc = Inr (c_supported_assets c)"
    and qa: "resolve_quote_auth_config env pc (c_runtime_profile c) = Inr (c_quote_auth c)"
    and rl: "resolve_quote_rate_limit_config env pc = Inr (c_quote_rate_limit c)"
    and p: "c_parsed c = pc"
    by (rule load_config_parts)
  have "hex_word 64 (rs_value (c_operator_secret c))"
    using hex by (auto simp: z_parse_def hex32_schema_def z_refine_def z_string_def split: if_splits)
  moreover have "c_runtime_profile c = Production \<Longrightarrow> rs_source (c_operator_secret c) \<noteq> SourceConfig"
    using prof resolve_secret_production by fastforce
  moreover have "list_all policy_wf (c_supported_assets c) \<and> distinct (map ap_address (c_supported_assets c))"
    using assets config_schema_assets_wf [OF pc] resolve_assets_loop_wf [of lib "{}"]
    by (auto simp: resolve_supported_assets_def split: option.splits)
  ultimately show ?thesis
    using config_schema_ranges(1) [OF pc] resolve_quote_auth_wf [OF qa] resolve_rate_limit_wf [OF rl pc]
    by (simp add: config_wf_def p MAX_QUOTE_VALIDITY_SECONDS_def)
qed

definition demo_env :: process_env where
  "demo_env name = map_of
     [(''OPERATOR_SECRET_KEY'', ''0x'' @ replicate 64 (CHR ''a'')), (''QUOTE_AUTH_API_KEY'', ''key''),
      (''QUOTE_RATE_LIMIT_MAX_REQUESTS'', ''7''), (''ADMIN_API_KEY'', ''adm'')] name"

definition demo_raw :: jsval where
  "demo_raw = JObject
     [(''runtime_profile'', JString ''production''), (''fpc_address'', JString ''5''),
      (''quote_auth_mode'', JString ''api_key''),
      (''aztec_node_url'', JString ''http://n''), (''quote_validity_seconds'', JNum (Finite 600)),
      (''supported_assets'', JArray [JObject [(''address'', JString ''7''), (''name'', JString ''USDC''),
         (''market_rate_num'', JNum (Finite 3)), (''market_rate_den'', JNum (Finite 2)),
         (''fee_bips'', JNum (Finite 100))]])]"

lemma load_config_wf_witness:
  "\<exists>c. load_config demo_lib (\<lambda>_. None) demo_env demo_raw = Inr c \<and> config_wf demo_lib c"
proof -
  have "\<not> isl (load_config demo_lib (\<lambda>_. None) demo_env demo_raw)" by code_simp
  then obtain c where "load_config demo_lib (\<lambda>_. None) demo_env demo_raw = Inr c"
    by (cases "load_config demo_lib (\<lambda>_. None) demo_env demo_raw") auto
  with load_config_wf show ?thesis by blast
qed

definition demo_parsed :: parsed_config where
  "demo_parsed = \<lparr>pc_runtime_profile = Production, pc_network_id = ''net'', pc_fpc_address = ''5'',
     pc_contract_variant = ''fpc-v1'', pc_quote_base_url = None, pc_aztec_node_url = Some ''http://n'',
     pc_quote_validity_seconds = 600, pc_port = 3000, pc_supported_assets = None,
     pc_quote_format = AmountQuote, pc_operator_secret_provider = ProviderAuto,
     pc_operator_secret_ref = None, pc_operator_address = None, pc_operator_account_salt = None,
     pc_admin_api_key_header = ''x-admin-api-key'', pc_asset_policy_state_path = ''p'',
     pc_treasury_destination_address = None, pc_quote_auth_mode = ModeApiKey,
     pc_quote_auth_api_key_header = ''x-api-key'', pc_quote_auth_trusted_header_name = None,
     pc_pxe_data_directory = None, pc_rate_limit_enabled = True, pc_rate_limit_max_requests = 60,
     pc_rate_limit_window_seconds = 60, pc_rate_limit_max_tracked_keys = 10000\<rparr>"

definition demo_config :: config where
  "demo_config = \<lparr>c_parsed = demo_parsed, c_runtime_profile = Production, c_aztec_node_url = ''http://n'',
     c_supported_assets = [], c_operator_secret = \<lparr>rs_value = ''0x'' @ replicate 64 (CHR ''a''),
       rs_source = SourceEnv, rs_provider = ProviderAuto, rs_dual_source = False\<rparr>,
     c_operator_account_salt = None, c_asset_policy_state_path = ''p'',
     c_treasury_destination_address = None,
     c_admin_auth = \<lparr>aa_enabled = True, aa_api_key = Some ''adm'', aa_api_key_header = ''x-admin-api-key''\<rparr>,
     c_quote_auth = \<lparr>qa_mode = ModeApiKey, qa_api_key = Some ''key'', qa_api_key_header = ''x-api-key'',
       qa_trusted_name = None, qa_trusted_value = None\<rparr>,
     c_quote_rate_limit = \<lparr>rl_enabled = True, rl_max_requests = 60, rl_window_seconds = 60,
       rl_max_tracked_keys = 10000\<rparr>\<rparr>"

end
