(* ===== verification/Attest_Policy_Store.thy ===== *)
theory Attest_Policy_Store
  imports Attest_Config
begin

text \<open>
  The asset policy store, \<open>services/attestation/src/asset-policy-store.ts\<close>. The LMDB
  database is its list of entries in key order (keys are normalised addresses); a
  transaction is one step. Names are compared by \<open>localeCompare\<close>, whose collation is an
  argument.

  The interface \<open>AssetPolicyStore\<close> is the locale \<open>asset_policy_store_spec\<close>: what a lookup
  returns after each operation. Inside it every run of admin operations is shown to
  refine a finite map of policies, and the LMDB model is its interpretation.
\<close>

type_synonym policy_db = "(string \<times> asset_policy) list"

section \<open>The database\<close>

definition db_get :: "policy_db \<Rightarrow> string \<Rightarrow> asset_policy option" where
  "db_get db k = map_of db k"

fun db_put :: "string \<Rightarrow> asset_policy \<Rightarrow> policy_db \<Rightarrow> policy_db" where
  "db_put k v [] = [(k, v)]"
| "db_put k v ((k', v') # r) =
     (if k = k' then (k, v) # r
      else if k < k' then (k, v) # (k', v') # r
      else (k', v') # db_put k v r)"

definition db_remove :: "string \<Rightarrow> policy_db \<Rightarrow> policy_db" where
  "db_remove k db = filter (\<lambda>e. fst e \<noteq> k) db"

definition db_sorted :: "policy_db \<Rightarrow> bool" where
  "db_sorted db \<longleftrightarrow> sorted_wrt (<) (map fst db)"

section \<open>Validation\<close>

definition assert_positive_integer :: "int \<Rightarrow> string \<Rightarrow> thrown + unit" where
  "assert_positive_integer v label =
     (if v \<le> 0 then Inl (error (label @ '' must be a positive integer'')) else Inr ())"

definition assert_fee_bips :: "int \<Rightarrow> thrown + unit" where
  "assert_fee_bips v = (if v < 0 \<or> 10000 < v
     then Inl (error ''fee_bips must be an integer in range [0, 10000]'') else Inr ())"

definition normalize_supported_asset_policy ::
    "aztec_lib \<Rightarrow> asset_policy \<Rightarrow> thrown + asset_policy" where
  "normalize_supported_asset_policy lib p =
     and_then (normalize_address lib (ap_address p)) (\<lambda>a.
     (let n = p\<lparr>ap_address := a, ap_name := js_trim (ap_name p)\<rparr> in
      and_then (require_that (ap_name n \<noteq> []) (error ''asset name must be non-empty'')) (\<lambda>_.
      and_then (assert_positive_integer (market_rate_num n) ''market_rate_num'') (\<lambda>_.
      and_then (assert_positive_integer (market_rate_den n) ''market_rate_den'') (\<lambda>_.
      and_then (assert_fee_bips (fee_bips n)) (\<lambda>_. Inr n))))))"

fun normalize_policies_loop ::
    "aztec_lib \<Rightarrow> string set \<Rightarrow> asset_policy list \<Rightarrow> thrown + asset_policy list" where
  "normalize_policies_loop lib seen [] = Inr []"
| "normalize_policies_loop lib seen (p # ps) =
     and_then (normalize_supported_asset_policy lib p) (\<lambda>n.
     if ap_address n \<in> seen then Inl (error (''Duplicate supported asset address: '' @ ap_address n))
     else and_then (normalize_policies_loop lib (insert (ap_address n) seen) ps) (\<lambda>rest.
       Inr (n # rest)))"

definition normalize_supported_asset_policies ::
    "aztec_lib \<Rightarrow> asset_policy list \<Rightarrow> thrown + asset_policy list" where
  "normalize_supported_asset_policies lib ps = normalize_policies_loop lib {} ps"

section \<open>The store\<close>

text \<open>The constructor seeds an empty database from the configuration.\<close>

definition open_store :: "aztec_lib \<Rightarrow> asset_policy list \<Rightarrow> policy_db \<Rightarrow> thrown + policy_db" where
  "open_store lib supported db =
     (if length db = 0
      then and_then (normalize_supported_asset_policies lib supported) (\<lambda>ps.
             Inr (foldl (\<lambda>d p. db_put (ap_address p) p d) db ps))
      else Inr db)"

definition store_get :: "aztec_lib \<Rightarrow> policy_db \<Rightarrow> string \<Rightarrow> thrown + asset_policy option" where
  "store_get lib db a = and_then (normalize_address lib a) (\<lambda>k. Inr (db_get db k))"

fun insert_by :: "('a \<Rightarrow> 'a \<Rightarrow> bool) \<Rightarrow> 'a \<Rightarrow> 'a list \<Rightarrow> 'a list" where
  "insert_by le x [] = [x]"
| "insert_by le x (y # ys) = (if le x y then x # y # ys else y # insert_by le x ys)"

text \<open>The stable sort of \<open>Array.prototype.sort\<close>.\<close>

definition stable_sort :: "('a \<Rightarrow> 'a \<Rightarrow> bool) \<Rightarrow> 'a list \<Rightarrow> 'a list" where
  "stable_sort le xs = foldr (insert_by le) xs []"

definition store_get_all :: "(string \<Rightarrow> string \<Rightarrow> int) \<Rightarrow> policy_db \<Rightarrow> asset_policy list" where
  "store_get_all locale_compare db =
     stable_sort (\<lambda>l r. locale_compare (ap_name l) (ap_name r) \<le> 0) (map snd db)"

definition store_upsert ::
    "aztec_lib \<Rightarrow> asset_policy \<Rightarrow> policy_db \<Rightarrow> (thrown + asset_policy) \<times> policy_db" where
  "store_upsert lib p db = (case normalize_supported_asset_policy lib p of
     Inl e \<Rightarrow> (Inl e, db)
   | Inr n \<Rightarrow> (Inr n, db_put (ap_address n) n db))"

text \<open>\<open>db.remove\<close> of a key that was just read reports success.\<close>

definition store_remove ::
    "aztec_lib \<Rightarrow> string \<Rightarrow> policy_db \<Rightarrow> (thrown + asset_policy) \<times> policy_db" where
  "store_remove lib a db =
     (if length db \<le> 1 then (Inl (error ''Cannot remove the last supported asset''), db)
      else case normalize_address lib a of
        Inl e \<Rightarrow> (Inl e, db)
      | Inr k \<Rightarrow> (case db_get db k of
          None \<Rightarrow> (Inl (error (''Supported asset not found: '' @ k)), db)
        | Some existing \<Rightarrow> (Inr existing, db_remove k db)))"

datatype admin_op = Upsert asset_policy | Remove string

definition run_admin_op ::
    "aztec_lib \<Rightarrow> admin_op \<Rightarrow> policy_db \<Rightarrow> (thrown + asset_policy) \<times> policy_db" where
  "run_admin_op lib op db = (case op of
     Upsert p \<Rightarrow> store_upsert lib p db | Remove a \<Rightarrow> store_remove lib a db)"

fun run_admin_ops :: "aztec_lib \<Rightarrow> admin_op list \<Rightarrow> policy_db \<Rightarrow> policy_db" where
  "run_admin_ops lib [] db = db"
| "run_admin_ops lib (op # ops) db = run_admin_ops lib ops (snd (run_admin_op lib op db))"

section \<open>The interface\<close>

locale asset_policy_store_spec =
  fixes inv :: "'s \<Rightarrow> bool"
    and view :: "'s \<Rightarrow> string \<rightharpoonup> asset_policy"
    and norm :: "string \<Rightarrow> thrown + string"
    and check :: "asset_policy \<Rightarrow> thrown + asset_policy"
    and get :: "'s \<Rightarrow> string \<Rightarrow> thrown + asset_policy option"
    and get_all :: "'s \<Rightarrow> asset_policy list"
    and upsert :: "asset_policy \<Rightarrow> 's \<Rightarrow> (thrown + asset_policy) \<times> 's"
    and remove :: "string \<Rightarrow> 's \<Rightarrow> (thrown + asset_policy) \<times> 's"
  assumes get_view: "get s a = and_then (norm a) (\<lambda>k. Inr (view s k))"
    and get_all_view: "inv s \<Longrightarrow> set (get_all s) = ran (view s)"
    and upsert_bad: "check p = Inl e \<Longrightarrow> upsert p s = (Inl e, s)"
    and upsert_ok: "inv s \<Longrightarrow> check p = Inr q \<Longrightarrow>
          fst (upsert p s) = Inr q \<and> inv (snd (upsert p s)) \<and>
          view (snd (upsert p s)) = (view s)(ap_address q \<mapsto> q)"
    and remove_spec: "inv s \<Longrightarrow>
          (\<exists>e. remove a s = (Inl e, s)) \<or>
          (\<exists>k q. norm a = Inr k \<and> view s k = Some q \<and> dom (view s) \<noteq> {k} \<and>
             fst (remove a s) = Inr q \<and> inv (snd (remove a s)) \<and>
             view (snd (remove a s)) = (view s)(k := None))"
begin

definition exec :: "admin_op \<Rightarrow> 's \<Rightarrow> 's" where
  "exec op s = (case op of Upsert p \<Rightarrow> snd (upsert p s) | Remove a \<Rightarrow> snd (remove a s))"

text \<open>An accepted operation moves the view as a map update does; a refused one does not.\<close>

lemma exec_cases:
  assumes "inv s"
  shows "inv (exec op s) \<and>
    (view (exec op s) = view s \<or>
     (\<exists>p q. op = Upsert p \<and> check p = Inr q \<and> view (exec op s) = (view s)(ap_address q \<mapsto> q)) \<or>
     (\<exists>a k. op = Remove a \<and> norm a = Inr k \<and> dom (view s) \<noteq> {k} \<and> k \<in> dom (view s) \<and>
        view (exec op s) = (view s)(k := None)))"
proof (cases op)
  case (Upsert p)
  show ?thesis
  proof (cases "check p")
    case (Inl e)
    then show ?thesis using assms upsert_bad [OF Inl] by (simp add: exec_def Upsert)
  next
    case (Inr q)
    then show ?thesis using upsert_ok [OF assms Inr] by (auto simp: exec_def Upsert)
  qed
next
  case (Remove a)
  from remove_spec [OF assms, of a] show ?thesis
    using assms by (auto simp: exec_def Remove)
qed

lemma exec_keeps_nonempty:
  assumes "inv s" "dom (view s) \<noteq> {}"
  shows "dom (view (exec op s)) \<noteq> {}"
proof -
  have step: "dom (view (exec op s)) = dom (view s) \<or>
      (\<exists>k. dom (view (exec op s)) = insert k (dom (view s))) \<or>
      (\<exists>k. k \<in> dom (view s) \<and> dom (view s) \<noteq> {k} \<and> dom (view (exec op s)) = dom (view s) - {k})"
    using exec_cases [OF assms(1), of op] by (elim conjE disjE exE) (simp_all add: dom_fun_upd, blast+)
  have "dom (view s) - {k} \<noteq> {}" if "k \<in> dom (view s)" "dom (view s) \<noteq> {k}" for k
    using that by blast
  with step assms(2) show ?thesis by (elim disjE exE) simp_all
qed

text \<open>A property of entries that every checked policy has holds of all entries.\<close>

lemma exec_entries:
  assumes "inv s" "\<And>k p. view s k = Some p \<Longrightarrow> ok k p"
    and "\<And>p q. check p = Inr q \<Longrightarrow> ok (ap_address q) q"
    and "view (exec op s) k = Some p"
  shows "ok k p"
  using exec_cases [OF assms(1), of op] assms(2-4) by (auto split: if_split_asm)

primrec exec_all :: "admin_op list \<Rightarrow> 's \<Rightarrow> 's" where
  "exec_all [] s = s"
| "exec_all (op # ops) s = exec_all ops (exec op s)"

lemma exec_all_inv: "inv s \<Longrightarrow> inv (exec_all ops s)"
  by (induction ops arbitrary: s) (auto dest: exec_cases)

lemma exec_all_nonempty:
  "inv s \<Longrightarrow> dom (view s) \<noteq> {} \<Longrightarrow> dom (view (exec_all ops s)) \<noteq> {}"
proof (induction ops arbitrary: s)
  case Nil
  then show ?case by simp
next
  case (Cons op ops)
  show ?case
    using Cons.IH [of "exec op s"] exec_keeps_nonempty [OF Cons.prems] exec_cases [OF Cons.prems(1), of op]
    by simp
qed

lemma exec_all_entries:
  fixes ok :: "string \<Rightarrow> asset_policy \<Rightarrow> bool"
  assumes "\<And>p q. check p = Inr q \<Longrightarrow> ok (ap_address q) q"
  shows "inv s \<Longrightarrow> (\<And>k p. view s k = Some p \<Longrightarrow> ok k p) \<Longrightarrow>
    view (exec_all ops s) k = Some p \<Longrightarrow> ok k p"
proof (induction ops arbitrary: s)
  case Nil
  then show ?case by simp
next
  case (Cons op ops)
  have "inv (exec op s)" using exec_cases [OF Cons.prems(1)] by blast
  moreover have "ok l q" if "view (exec op s) l = Some q" for l q
    by (rule exec_entries [where ok = ok, OF Cons.prems(1) _ _ that])
      (fact Cons.prems(2), rule assms)
  ultimately show ?case using Cons.IH Cons.prems(3) by simp
qed

end

section \<open>The LMDB model provides the interface\<close>

lemma db_get_put: "db_get (db_put k v db) = (db_get db)(k \<mapsto> v)"
  by (induction k v db rule: db_put.induct) (auto simp: db_get_def fun_eq_iff)

lemma db_get_remove: "db_get (db_remove k db) = (db_get db)(k := None)"
  by (induction db) (auto simp: db_get_def db_remove_def fun_eq_iff)

lemma keys_put: "set (map fst (db_put k v db)) = insert k (set (map fst db))"
  by (induction k v db rule: db_put.induct) auto

lemma sorted_put: "db_sorted db \<Longrightarrow> db_sorted (db_put k v db)"
proof (induction k v db rule: db_put.induct)
  case (1 k v)
  show ?case by (simp add: db_sorted_def)
next
  case (2 k v k' v' r)
  then show ?case
    using keys_put [of k v r] by (auto simp: db_sorted_def image_iff)
qed

lemma sorted_remove: "db_sorted db \<Longrightarrow> db_sorted (db_remove k db)"
  by (auto simp: db_sorted_def db_remove_def sorted_wrt_map intro: sorted_wrt_filter)

lemma sorted_distinct: "db_sorted db \<Longrightarrow> distinct (map fst db)"
  unfolding db_sorted_def by (induction db) auto

lemma db_get_map_of: "db_get db = map_of db"
  by (rule ext) (simp add: db_get_def)

lemma ran_db_get: "db_sorted db \<Longrightarrow> ran (db_get db) = set (map snd db)"
  using sorted_distinct [of db] by (auto simp: db_get_map_of ran_distinct)

lemma set_insert_by [simp]: "set (insert_by le x ys) = insert x (set ys)"
  by (induction ys) auto

lemma set_stable_sort [simp]: "set (stable_sort le xs) = set xs"
  unfolding stable_sort_def by (induction xs) auto

lemma length_insert_by [simp]: "length (insert_by le x ys) = Suc (length ys)"
  by (induction ys) auto

lemma length_stable_sort [simp]: "length (stable_sort le xs) = length xs"
  unfolding stable_sort_def by (induction xs) auto

lemma normalize_policy_facts:
  "normalize_supported_asset_policy lib p = Inr q \<Longrightarrow>
     policy_wf q \<and> normalize_address lib (ap_address p) = Inr (ap_address q)"
  by (auto simp: normalize_supported_asset_policy_def and_then_Inr_iff policy_wf_def Let_def
      assert_positive_integer_def assert_fee_bips_def split: if_splits)

text \<open>A database holding one entry has that entry's key as its only key.\<close>

lemma singleton_dom:
  assumes "db_sorted db" "1 < length db"
  shows "dom (db_get db) \<noteq> {k}"
proof
  assume "dom (db_get db) = {k}"
  then have "set (map fst db) = {k}" by (simp add: db_get_map_of dom_map_of_conv_image_fst)
  moreover have "distinct (map fst db)" using assms(1) by (rule sorted_distinct)
  ultimately have "length (map fst db) = 1"
    by (metis One_nat_def card.empty card_insert_disjoint distinct_card empty_iff finite.emptyI)
  with assms(2) show False by simp
qed

interpretation lmdb: asset_policy_store_spec
  db_sorted db_get "normalize_address lib" "normalize_supported_asset_policy lib"
  "store_get lib" "store_get_all cmp" "store_upsert lib" "store_remove lib"
  for lib cmp
proof
  show "store_get lib db a = and_then (normalize_address lib a) (\<lambda>k. Inr (db_get db k))" for db a
    by (simp add: store_get_def)
  show "db_sorted db \<Longrightarrow> set (store_get_all cmp db) = ran (db_get db)" for db
    by (simp add: store_get_all_def ran_db_get)
  show "normalize_supported_asset_policy lib p = Inl e \<Longrightarrow> store_upsert lib p db = (Inl e, db)" for p e db
    by (simp add: store_upsert_def)
  show "db_sorted db \<Longrightarrow> normalize_supported_asset_policy lib p = Inr q \<Longrightarrow>
      fst (store_upsert lib p db) = Inr q \<and> db_sorted (snd (store_upsert lib p db)) \<and>
      db_get (snd (store_upsert lib p db)) = (db_get db)(ap_address q \<mapsto> q)" for db p q
    by (simp add: store_upsert_def db_get_put sorted_put)
  show "db_sorted db \<Longrightarrow> (\<exists>e. store_remove lib a db = (Inl e, db)) \<or>
      (\<exists>k q. normalize_address lib a = Inr k \<and> db_get db k = Some q \<and> dom (db_get db) \<noteq> {k} \<and>
         fst (store_remove lib a db) = Inr q \<and> db_sorted (snd (store_remove lib a db)) \<and>
         db_get (snd (store_remove lib a db)) = (db_get db)(k := None))" for db a
    using singleton_dom [of db]
    by (auto simp: store_remove_def db_get_remove sorted_remove split: sum.split option.split)
qed

lemma exec_run_admin_op: "lmdb.exec lib op db = snd (run_admin_op lib op db)"
  by (cases op) (simp_all add: lmdb.exec_def run_admin_op_def)

lemma exec_all_run_admin_ops: "lmdb.exec_all lib ops db = run_admin_ops lib ops db"
  by (induction ops arbitrary: db) (simp_all add: exec_run_admin_op)

section \<open>The invariant of the store\<close>

text \<open>Sorted, never empty, every entry filed under its own address and well-formed.\<close>

definition store_wf :: "policy_db \<Rightarrow> bool" where
  "store_wf db \<longleftrightarrow> db_sorted db \<and> db \<noteq> [] \<and> list_all (\<lambda>(k, p). k = ap_address p \<and> policy_wf p) db"

lemma db_get_iff: "db_sorted db \<Longrightarrow> db_get db k = Some p \<longleftrightarrow> (k, p) \<in> set db"
  by (simp add: db_get_map_of sorted_distinct)

lemma store_wf_view:
  "store_wf db \<longleftrightarrow> db_sorted db \<and> dom (db_get db) \<noteq> {} \<and>
     (\<forall>k p. db_get db k = Some p \<longrightarrow> k = ap_address p \<and> policy_wf p)"
proof -
  have "dom (db_get db) = {} \<longleftrightarrow> db = []"
    by (auto simp: db_get_map_of dom_map_of_conv_image_fst)
  then show ?thesis
    by (auto simp: store_wf_def db_get_iff list_all_iff)
qed

lemma store_wf_get: "store_wf db \<Longrightarrow> db_get db k = Some p \<Longrightarrow> k = ap_address p \<and> policy_wf p"
  unfolding store_wf_view by blast

lemma run_admin_ops_wf: "store_wf db \<Longrightarrow> store_wf (run_admin_ops lib ops db)"
proof -
  assume wf: "store_wf db"
  then have base: "db_sorted db" "dom (db_get db) \<noteq> {}"
    "\<And>k p. db_get db k = Some p \<Longrightarrow> k = ap_address p \<and> policy_wf p"
    by (simp_all add: store_wf_view)
  have checked: "\<And>p q. normalize_supported_asset_policy lib p = Inr q \<Longrightarrow>
      ap_address q = ap_address q \<and> policy_wf q"
    using normalize_policy_facts by blast
  have "k = ap_address p \<and> policy_wf p" if "db_get (run_admin_ops lib ops db) k = Some p" for k p
    using lmdb.exec_all_entries [where ok = "\<lambda>k p. k = ap_address p \<and> policy_wf p", OF checked base(1) base(3)]
      that by (simp add: exec_all_run_admin_ops)
  with lmdb.exec_all_inv [OF base(1)] lmdb.exec_all_nonempty [OF base(1,2)]
  show ?thesis by (simp add: store_wf_view exec_all_run_admin_ops)
qed

lemma normalize_policies_facts:
  "normalize_policies_loop lib seen ps = Inr qs \<Longrightarrow>
     length qs = length ps \<and> list_all policy_wf qs \<and> distinct (map ap_address qs) \<and>
     seen \<inter> set (map ap_address qs) = {}"
proof (induction ps arbitrary: seen qs)
  case Nil
  then show ?case by simp
next
  case (Cons p ps)
  then obtain n rest where n: "normalize_supported_asset_policy lib p = Inr n" "ap_address n \<notin> seen"
    and rest: "normalize_policies_loop lib (insert (ap_address n) seen) ps = Inr rest" and qs: "qs = n # rest"
    by (auto simp: and_then_Inr_iff split: if_splits)
  from Cons.IH [OF rest] n normalize_policy_facts [OF n(1)] qs show ?case by auto
qed

lemma foldl_put:
  "db_sorted d \<Longrightarrow> distinct (map ap_address ps) \<Longrightarrow>
     db_sorted (foldl (\<lambda>d p. db_put (ap_address p) p d) d ps) \<and>
     db_get (foldl (\<lambda>d p. db_put (ap_address p) p d) d ps) k =
       (case find (\<lambda>p. ap_address p = k) ps of Some p \<Rightarrow> Some p | None \<Rightarrow> db_get d k)"
proof (induction ps arbitrary: d)
  case Nil
  then show ?case by simp
next
  case (Cons p ps)
  from Cons.IH [of "db_put (ap_address p) p d"] Cons.prems
  have IH: "db_sorted (foldl (\<lambda>d p. db_put (ap_address p) p d) (db_put (ap_address p) p d) ps)"
    "db_get (foldl (\<lambda>d p. db_put (ap_address p) p d) (db_put (ap_address p) p d) ps) k =
      (case find (\<lambda>p. ap_address p = k) ps of Some p \<Rightarrow> Some p
       | None \<Rightarrow> db_get (db_put (ap_address p) p d) k)"
    by (simp_all add: sorted_put)
  have "find (\<lambda>q. ap_address q = ap_address p) ps = None"
    using Cons.prems(2) by (auto simp: find_None_iff image_iff)
  with IH show ?case by (auto simp: db_get_put split: option.splits)
qed

lemma seeded_wf:
  assumes n: "normalize_supported_asset_policies lib ps = Inr qs" and ps: "ps \<noteq> []"
    and d: "d = foldl (\<lambda>d p. db_put (ap_address p) p d) [] qs"
  shows "store_wf d \<and> set (map snd d) = set qs"
proof -
  from normalize_policies_facts [of lib "{}" ps qs] n
  have f: "length qs = length ps" "list_all policy_wf qs" "distinct (map ap_address qs)"
    by (simp_all add: normalize_supported_asset_policies_def)
  have srt: "db_sorted d" and get: "\<And>k. db_get d k = find (\<lambda>p. ap_address p = k) qs"
    using foldl_put [OF _ f(3), of "[]"] d
    by (auto simp: db_sorted_def db_get_def split: option.splits)
  have found: "db_get d k = Some p \<longleftrightarrow> p \<in> set qs \<and> ap_address p = k" for k p
  proof
    show "db_get d k = Some p \<Longrightarrow> p \<in> set qs \<and> ap_address p = k"
      by (auto simp: get find_Some_iff)
    assume p: "p \<in> set qs \<and> ap_address p = k"
    then obtain q where q: "find (\<lambda>p. ap_address p = k) qs = Some q"
      by (cases "find (\<lambda>p. ap_address p = k) qs") (auto simp: find_None_iff)
    then have "q \<in> set qs" "ap_address q = k" by (auto simp: find_Some_iff)
    with p f(3) have "q = p" by (auto simp: distinct_map inj_on_def)
    with q get show "db_get d k = Some p" by simp
  qed
  have "ran (db_get d) = set qs" using found by (auto simp: ran_def)
  moreover have "hd qs \<in> set qs" using f(1) ps by (cases qs) auto
  then have "db_get d (ap_address (hd qs)) = Some (hd qs)" using found by blast
  then have "dom (db_get d) \<noteq> {}" by auto
  moreover have "\<forall>k p. db_get d k = Some p \<longrightarrow> k = ap_address p \<and> policy_wf p"
    using found f(2) by (auto simp: list_all_iff)
  ultimately show ?thesis using srt by (simp add: store_wf_view ran_db_get)
qed

section \<open>Properties\<close>

text \<open>
  Whatever sequence of upserts and removals the admin API runs, accepted and refused ones
  alike, the policy database stays sorted and non-empty (the last asset cannot be removed),
  and every entry is filed under its own normalised address with positive rates, a fee of
  at most 10000 bips and a non-blank name.
\<close>

theorem admin_ops_keep_store_wf:
  assumes "store_wf db"
  shows "store_wf (run_admin_ops lib ops db)"
  using assms by (rule run_admin_ops_wf)

definition demo_policy :: "string \<Rightarrow> asset_policy" where
  "demo_policy a = \<lparr>ap_address = a, ap_name = ''USDC'', market_rate_num = 3, market_rate_den = 2, fee_bips = 100\<rparr>"

lemma demo_policy_wf: "policy_wf (demo_policy a)"
  by (simp add: policy_wf_def demo_policy_def js_trim_def is_space_def code_of_def)

lemma demo_store_wf: "store_wf [(a, demo_policy a)]"
  by (simp add: store_wf_def db_sorted_def demo_policy_wf) (simp add: demo_policy_def)

lemma admin_ops_keep_store_wf_witness:
  "store_wf (run_admin_ops demo_lib [Upsert (demo_policy ''8''), Remove ''7'', Remove ''8''] [(''7'', demo_policy ''7'')])"
  by (rule admin_ops_keep_store_wf) (rule demo_store_wf)


definition demo_db :: policy_db where
  "demo_db = [(''7'', demo_policy ''7''), (''8'', demo_policy ''8'')]"

lemma demo_db_sorted: "db_sorted demo_db"
  by (simp add: demo_db_def db_sorted_def less_char_def)


text \<open>
  On an empty database the constructor stores exactly the configured policies, each
  under its normalised address, and the result has the invariant; a database that has
  entries is taken as it is, so a later change of the configured assets has no effect.
\<close>

theorem open_store_seeds_once:
  assumes "ps \<noteq> []"
  shows "(open_store lib ps [] = Inr db \<longleftrightarrow>
      (\<exists>qs. normalize_supported_asset_policies lib ps = Inr qs \<and> store_wf db \<and>
         set (map snd db) = set qs \<and> db = foldl (\<lambda>d p. db_put (ap_address p) p d) [] qs)) \<and>
    open_store lib ps (e # r) = Inr (e # r)"
  using seeded_wf [OF _ assms] by (auto simp: open_store_def and_then_Inr_iff)

lemma open_store_seeds_once_witness:
  "(open_store demo_lib [demo_policy ''7''] [] = Inr [(''7'', demo_policy ''7'')] \<longleftrightarrow>
      (\<exists>qs. normalize_supported_asset_policies demo_lib [demo_policy ''7''] = Inr qs \<and>
         store_wf [(''7'', demo_policy ''7'')] \<and> set (map snd [(''7'', demo_policy ''7'')]) = set qs \<and>
         [(''7'', demo_policy ''7'')] = foldl (\<lambda>d p. db_put (ap_address p) p d) [] qs)) \<and>
    open_store demo_lib [demo_policy ''7''] ((''8'', demo_policy ''8'') # []) = Inr ((''8'', demo_policy ''8'') # [])"
  by (rule open_store_seeds_once) simp

end
