(* ===== verification/Attest_Schemas.thy ===== *)
theory Attest_Schemas
  imports Js_Values Aztec_Lib
begin

text \<open>
  Validation of HTTP requests, \<open>services/attestation/src/request-schemas.ts\<close>. Each schema
  maps the value of a query or a body to its parsed fields or to its issues in field order;
  the server answers with the first of them. The several issues that one numeric field can
  raise carry one message and are one issue here.
\<close>

definition U128_MAX :: int where
  "U128_MAX = 2 ^ 128 - 1"

section \<open>Fields\<close>

definition non_zero_aztec_address_field :: "aztec_lib \<Rightarrow> string \<Rightarrow> string \<Rightarrow> int schema" where
  "non_zero_aztec_address_field lib missing invalid v =
     and_then (z_optional z_string v) (\<lambda>value.
     case trimmed_opt value of
       None \<Rightarrow> Inl [missing]
     | Some trimmed \<Rightarrow> (case address_from_string lib trimmed of
         Inl _ \<Rightarrow> Inl [invalid]
       | Inr a \<Rightarrow> if a = 0 then Inl [invalid] else Inr a))"

text \<open>The test and the conversion that both decimal fields apply to a trimmed string.\<close>

definition u128_decimal :: "string \<Rightarrow> string \<Rightarrow> string list + int" where
  "u128_decimal msg trimmed =
     (if \<not> digits_only trimmed \<or> 39 < length trimmed then Inl [msg]
      else let x = dec_value trimmed in
        if x \<le> 0 \<or> U128_MAX < x then Inl [msg] else Inr x)"

definition positive_u128_decimal_field :: "string \<Rightarrow> int schema" where
  "positive_u128_decimal_field msg v =
     and_then (z_optional z_string v) (\<lambda>value.
     case trimmed_opt value of None \<Rightarrow> Inl [msg] | Some trimmed \<Rightarrow> u128_decimal msg trimmed)"

definition optional_positive_u128_decimal_field :: "string \<Rightarrow> int option schema" where
  "optional_positive_u128_decimal_field msg v =
     and_then (z_optional z_string v) (\<lambda>value.
     case value of None \<Rightarrow> Inr None
     | Some s \<Rightarrow> and_then (u128_decimal msg (js_trim s)) (\<lambda>x. Inr (Some x)))"

definition required_hex_field :: "aztec_lib \<Rightarrow> string \<Rightarrow> int schema" where
  "required_hex_field lib label v =
     and_then (z_optional z_string v) (\<lambda>value.
     case trimmed_opt value of
       None \<Rightarrow> Inl [''Missing required query param: '' @ label]
     | Some trimmed \<Rightarrow> (case fr_from_hex lib trimmed of
         Inl _ \<Rightarrow> Inl [''Invalid '' @ label @ '': not a valid field element'']
       | Inr x \<Rightarrow> Inr x))"

definition positive_integer_field :: "string \<Rightarrow> int schema" where
  "positive_integer_field msg = z_int msg 1 None"

definition required_text_field :: "string \<Rightarrow> string schema" where
  "required_text_field msg v =
     and_then (z_string_or msg v) (\<lambda>s. if js_trim s = [] then Inl [msg] else Inr (js_trim s))"

definition z_object :: "jsval \<Rightarrow> string list + 'a \<Rightarrow> string list + 'a" where
  "z_object v r = (case v of JObject _ \<Rightarrow> r | _ \<Rightarrow> Inl (expected ''object'' v))"

section \<open>Requests\<close>

record quote_query =
  q_user :: int
  q_accepted_asset :: int
  q_fj_amount :: int

record cold_start_query = quote_query +
  q_claim_amount :: int
  q_claim_secret_hash :: int

record admin_policy_body =
  b_name :: string
  b_market_rate_num :: int
  b_market_rate_den :: int
  b_fee_bips :: int

record admin_sweep_body =
  b_accepted_asset :: string
  b_destination :: "string option"
  b_amount :: "int option"

definition user_field :: "aztec_lib \<Rightarrow> int schema" where
  "user_field lib = non_zero_aztec_address_field lib
     ''Missing required query param: user'' ''Invalid user address''"

definition accepted_asset_field :: "aztec_lib \<Rightarrow> int schema" where
  "accepted_asset_field lib = non_zero_aztec_address_field lib
     ''Missing required query param: accepted_asset'' ''Invalid accepted_asset address''"

definition fj_amount_field :: "int schema" where
  "fj_amount_field = positive_u128_decimal_field ''Missing or invalid query param: fj_amount''"

definition claim_amount_field :: "int schema" where
  "claim_amount_field = positive_u128_decimal_field ''Missing or invalid query param: claim_amount''"

definition quote_request_query_schema :: "aztec_lib \<Rightarrow> quote_query schema" where
  "quote_request_query_schema lib v = z_object v
     (let u = user_field lib (jfield ''user'' v);
          a = accepted_asset_field lib (jfield ''accepted_asset'' v);
          f = fj_amount_field (jfield ''fj_amount'' v);
          es = issues u @ issues a @ issues f
      in if es = [] then Inr \<lparr>q_user = parsed u, q_accepted_asset = parsed a, q_fj_amount = parsed f\<rparr>
         else Inl es)"

definition cold_start_quote_request_query_schema :: "aztec_lib \<Rightarrow> cold_start_query schema" where
  "cold_start_quote_request_query_schema lib v = z_object v
     (let u = user_field lib (jfield ''user'' v);
          a = accepted_asset_field lib (jfield ''accepted_asset'' v);
          f = fj_amount_field (jfield ''fj_amount'' v);
          c = claim_amount_field (jfield ''claim_amount'' v);
          h = required_hex_field lib ''claim_secret_hash'' (jfield ''claim_secret_hash'' v);
          es = issues u @ issues a @ issues f @ issues c @ issues h
      in if es = [] then Inr \<lparr>q_user = parsed u, q_accepted_asset = parsed a, q_fj_amount = parsed f,
             q_claim_amount = parsed c, q_claim_secret_hash = parsed h\<rparr>
         else Inl es)"

definition fee_bips_field :: "int schema" where
  "fee_bips_field = z_int ''fee_bips must be an integer in range [0, 10000]'' 0 (Some 10000)"

definition admin_asset_policy_body_schema :: "admin_policy_body schema" where
  "admin_asset_policy_body_schema v = z_object v
     (let n = required_text_field ''Missing required field: name'' (jfield ''name'' v);
          rn = positive_integer_field ''market_rate_num must be a positive integer''
                 (jfield ''market_rate_num'' v);
          rd = positive_integer_field ''market_rate_den must be a positive integer''
                 (jfield ''market_rate_den'' v);
          fb = fee_bips_field (jfield ''fee_bips'' v);
          es = issues n @ issues rn @ issues rd @ issues fb
      in if es = [] then Inr \<lparr>b_name = parsed n, b_market_rate_num = parsed rn,
             b_market_rate_den = parsed rd, b_fee_bips = parsed fb\<rparr>
         else Inl es)"

definition admin_sweep_request_body_schema :: "admin_sweep_body schema" where
  "admin_sweep_request_body_schema v = z_object v
     (let a = required_text_field ''Missing required field: accepted_asset'' (jfield ''accepted_asset'' v);
          d = z_optional (z_map js_trim z_string) (jfield ''destination'' v);
          m = optional_positive_u128_decimal_field ''Missing or invalid field: amount'' (jfield ''amount'' v);
          es = issues a @ issues d @ issues m
      in if es = [] then Inr \<lparr>b_accepted_asset = parsed a, b_destination = parsed d, b_amount = parsed m\<rparr>
         else Inl es)"

definition admin_asset_address_schema :: "aztec_lib \<Rightarrow> int schema" where
  "admin_asset_address_schema lib =
     non_zero_aztec_address_field lib ''Missing asset address'' ''Invalid asset address''"

section \<open>What each field accepts\<close>

lemma z_optional_string: "and_then (z_optional z_string v) k = Inr x \<longleftrightarrow>
    (v = JUndefined \<and> k None = Inr x) \<or> (\<exists>s. v = JString s \<and> k (Some s) = Inr x)"
  by (cases v) (auto simp: z_optional_def z_string_def)

lemma trimmed_opt_Some: "trimmed_opt (Some s) = Some t \<longleftrightarrow> t = js_trim s \<and> t \<noteq> []"
  by (auto simp: trimmed_opt_def)

lemma trimmed_opt_None [simp]: "trimmed_opt None = None"
  by (simp add: trimmed_opt_def)

lemma sum_case_Inr: "(case r of Inl e \<Rightarrow> Inl (f e) | Inr x \<Rightarrow> g x) = Inr y \<longleftrightarrow> (\<exists>x. r = Inr x \<and> g x = Inr y)"
  by (cases r) auto

lemma option_case_Inr: "(case r of None \<Rightarrow> Inl e | Some x \<Rightarrow> g x) = Inr y \<longleftrightarrow> (\<exists>x. r = Some x \<and> g x = Inr y)"
  by (cases r) auto

lemma address_field_iff:
  "non_zero_aztec_address_field lib missing invalid v = Inr a \<longleftrightarrow>
     (\<exists>s. v = JString s \<and> js_trim s \<noteq> [] \<and> address_from_string lib (js_trim s) = Inr a \<and> a \<noteq> 0)"
  by (auto simp: non_zero_aztec_address_field_def z_optional_string trimmed_opt_Some sum_case_Inr
      option_case_Inr split: if_splits)

lemma u128_decimal_iff:
  "u128_decimal msg t = Inr x \<longleftrightarrow>
     digits_only t \<and> length t \<le> 39 \<and> x = dec_value t \<and> 0 < x \<and> x \<le> U128_MAX"
  by (auto simp: u128_decimal_def Let_def)

lemma digits_only_nonempty: "digits_only t \<Longrightarrow> t \<noteq> []"
  by (simp add: digits_only_def)

lemma u128_field_iff:
  "positive_u128_decimal_field msg v = Inr x \<longleftrightarrow>
     (\<exists>s. v = JString s \<and> digits_only (js_trim s) \<and> length (js_trim s) \<le> 39 \<and>
        x = dec_value (js_trim s) \<and> 0 < x \<and> x \<le> U128_MAX)"
  by (auto simp: positive_u128_decimal_field_def z_optional_string trimmed_opt_Some u128_decimal_iff
      option_case_Inr digits_only_nonempty)

lemma hex_field_iff:
  "required_hex_field lib label v = Inr x \<longleftrightarrow>
     (\<exists>s. v = JString s \<and> js_trim s \<noteq> [] \<and> fr_from_hex lib (js_trim s) = Inr x)"
  by (auto simp: required_hex_field_def z_optional_string trimmed_opt_Some sum_case_Inr option_case_Inr)

lemma expected_not_Nil: "expected t v \<noteq> []"
  by (simp add: expected_def)

lemma z_string_cases: "z_optional z_string v = Inl e \<Longrightarrow> e \<noteq> []"
  by (cases v) (auto simp: z_optional_def z_string_def expected_def)

lemma fields_report:
  "non_zero_aztec_address_field lib m i v \<noteq> Inl []"
  "positive_u128_decimal_field m v \<noteq> Inl []"
  "required_hex_field lib m v \<noteq> Inl []"
  by (auto simp: non_zero_aztec_address_field_def positive_u128_decimal_field_def required_hex_field_def
      u128_decimal_def Let_def and_then_Inl_iff dest: z_string_cases split: option.splits sum.splits if_splits)

lemma no_issues_iff: "r \<noteq> Inl [] \<Longrightarrow> issues r = [] \<longleftrightarrow> r = Inr (parsed r)"
  by (cases r) auto

lemma parsed_eq: "r = Inr (parsed r) \<Longrightarrow> (parsed r = x) = (r = Inr x)"
  by (metis parsed_Inr)

lemma quote_query_fields:
  "quote_request_query_schema lib v = Inr q \<longleftrightarrow>
     (\<exists>kvs. v = JObject kvs) \<and>
     user_field lib (jfield ''user'' v) = Inr (q_user q) \<and>
     accepted_asset_field lib (jfield ''accepted_asset'' v) = Inr (q_accepted_asset q) \<and>
     fj_amount_field (jfield ''fj_amount'' v) = Inr (q_fj_amount q)"
proof (cases "\<exists>kvs. v = JObject kvs")
  case False
  then show ?thesis by (cases v) (auto simp: quote_request_query_schema_def z_object_def)
next
  case True
  let ?u = "user_field lib (jfield ''user'' v)"
  let ?a = "accepted_asset_field lib (jfield ''accepted_asset'' v)"
  let ?f = "fj_amount_field (jfield ''fj_amount'' v)"
  have "?u \<noteq> Inl []" "?a \<noteq> Inl []" "?f \<noteq> Inl []"
    by (simp_all add: user_field_def accepted_asset_field_def fj_amount_field_def fields_report)
  then show ?thesis using True
    by (cases ?u; cases ?a; cases ?f) (auto simp: quote_request_query_schema_def z_object_def Let_def)
qed

lemma cold_start_query_fields:
  "cold_start_quote_request_query_schema lib v = Inr q \<longleftrightarrow>
     (\<exists>kvs. v = JObject kvs) \<and>
     user_field lib (jfield ''user'' v) = Inr (q_user q) \<and>
     accepted_asset_field lib (jfield ''accepted_asset'' v) = Inr (q_accepted_asset q) \<and>
     fj_amount_field (jfield ''fj_amount'' v) = Inr (q_fj_amount q) \<and>
     claim_amount_field (jfield ''claim_amount'' v) = Inr (q_claim_amount q) \<and>
     required_hex_field lib ''claim_secret_hash'' (jfield ''claim_secret_hash'' v) = Inr (q_claim_secret_hash q)"
proof (cases "\<exists>kvs. v = JObject kvs")
  case False
  then show ?thesis by (cases v) (auto simp: cold_start_quote_request_query_schema_def z_object_def)
next
  case True
  let ?u = "user_field lib (jfield ''user'' v)"
  let ?a = "accepted_asset_field lib (jfield ''accepted_asset'' v)"
  let ?f = "fj_amount_field (jfield ''fj_amount'' v)"
  let ?c = "claim_amount_field (jfield ''claim_amount'' v)"
  let ?h = "required_hex_field lib ''claim_secret_hash'' (jfield ''claim_secret_hash'' v)"
  have "?u \<noteq> Inl []" "?a \<noteq> Inl []" "?f \<noteq> Inl []" "?c \<noteq> Inl []" "?h \<noteq> Inl []"
    by (simp_all add: user_field_def accepted_asset_field_def fj_amount_field_def claim_amount_field_def
        fields_report)
  then show ?thesis using True
    by (cases ?u; cases ?a; cases ?f; cases ?c; cases ?h)
      (auto simp: cold_start_quote_request_query_schema_def z_object_def Let_def)
qed

section \<open>Properties\<close>

text \<open>
  The schema of \<open>/quote\<close> accepts a query exactly when it is an object whose \<open>user\<close>
  and \<open>accepted_asset\<close> are strings that trim to a parseable, non-zero address and whose
  \<open>fj_amount\<close> trims to at most 39 decimal digits with a value between 1 and
  \<open>2^128 - 1\<close>; the parsed request holds exactly those values.
\<close>

theorem quote_query_accepts_iff:
  "quote_request_query_schema lib v = Inr q \<longleftrightarrow>
     (\<exists>kvs user asset fj. v = JObject kvs \<and>
        map_of kvs ''user'' = Some (JString user) \<and> js_trim user \<noteq> [] \<and>
        address_from_string lib (js_trim user) = Inr (q_user q) \<and> q_user q \<noteq> 0 \<and>
        map_of kvs ''accepted_asset'' = Some (JString asset) \<and> js_trim asset \<noteq> [] \<and>
        address_from_string lib (js_trim asset) = Inr (q_accepted_asset q) \<and> q_accepted_asset q \<noteq> 0 \<and>
        map_of kvs ''fj_amount'' = Some (JString fj) \<and> digits_only (js_trim fj) \<and>
        length (js_trim fj) \<le> 39 \<and> q_fj_amount q = dec_value (js_trim fj) \<and>
        1 \<le> q_fj_amount q \<and> q_fj_amount q < 2 ^ 128)"
  unfolding quote_query_fields user_field_def accepted_asset_field_def fj_amount_field_def
    address_field_iff u128_field_iff jfield_string
  by (auto simp: U128_MAX_def jfield_string)

text \<open>
  A cold-start request needs everything a quote request needs and, besides, a
  \<open>claim_amount\<close> between 1 and \<open>2^128 - 1\<close> in at most 39 decimal digits and a
  \<open>claim_secret_hash\<close> that reads as a field element; it is accepted exactly then, and its
  common fields are those of the plain quote request.
\<close>

theorem cold_start_query_accepts_iff:
  "cold_start_quote_request_query_schema lib v = Inr q \<longleftrightarrow>
     quote_request_query_schema lib v = Inr (quote_query.truncate q) \<and>
     (\<exists>kvs amount secret_hash. v = JObject kvs \<and>
        map_of kvs ''claim_amount'' = Some (JString amount) \<and> digits_only (js_trim amount) \<and>
        length (js_trim amount) \<le> 39 \<and> q_claim_amount q = dec_value (js_trim amount) \<and>
        1 \<le> q_claim_amount q \<and> q_claim_amount q < 2 ^ 128 \<and>
        map_of kvs ''claim_secret_hash'' = Some (JString secret_hash) \<and> js_trim secret_hash \<noteq> [] \<and>
        fr_from_hex lib (js_trim secret_hash) = Inr (q_claim_secret_hash q))"
  unfolding cold_start_query_fields quote_query_fields claim_amount_field_def hex_field_iff u128_field_iff
  by (auto simp: U128_MAX_def jfield_string quote_query.truncate_def)

end
