(* ===== verification/Attest_Signer.thy ===== *)
theory Attest_Signer
  imports Aztec_Lib
begin

text \<open>
  Quote hashes and signatures, \<open>services/attestation/src/signer.ts\<close>. The three preimages
  are lists of field elements; \<open>new Fr(x)\<close> may reject its argument, so a hash computation
  may throw. The signer is the operator's Schnorr key behind \<open>QuoteSchnorrSigner\<close>.
\<close>

definition SIGNER_QUOTE_DOMAIN_SEPARATOR :: int where
  "SIGNER_QUOTE_DOMAIN_SEPARATOR = 0x465043"

definition SIGNER_COLD_START_QUOTE_DOMAIN_SEPARATOR :: int where
  "SIGNER_COLD_START_QUOTE_DOMAIN_SEPARATOR = 0x46504373"

record quote_params =
  qp_fpc_address :: int
  qp_accepted_asset :: int
  qp_fj_fee_amount :: int
  qp_aa_payment_amount :: int
  qp_valid_until :: int
  qp_user_address :: int

record rate_quote_params =
  rq_fpc_address :: int
  rq_accepted_asset :: int
  rq_rate_num :: int
  rq_rate_den :: int
  rq_valid_until :: int
  rq_user_address :: int

record cold_start_params = quote_params +
  cs_claim_amount :: int
  cs_claim_secret_hash :: int

text \<open>\<open>signQuoteHash\<close>: the hash goes in, the hex signature or an error comes out.\<close>

type_synonym 'w quote_signer = "int \<Rightarrow> ('w, string) ioe"

definition compute_quote_hash :: "aztec_lib \<Rightarrow> quote_params \<Rightarrow> thrown + int" where
  "compute_quote_hash lib p =
     and_then (fr_of_bigint lib (qp_fj_fee_amount p)) (\<lambda>fj.
     and_then (fr_of_bigint lib (qp_aa_payment_amount p)) (\<lambda>aa.
     and_then (fr_of_bigint lib (qp_valid_until p)) (\<lambda>until.
     Inr (inner_authwit_hash lib
       [SIGNER_QUOTE_DOMAIN_SEPARATOR, qp_fpc_address p, qp_accepted_asset p, fj, aa, until,
        qp_user_address p]))))"

definition compute_rate_quote_hash :: "aztec_lib \<Rightarrow> rate_quote_params \<Rightarrow> thrown + int" where
  "compute_rate_quote_hash lib p =
     and_then (fr_of_bigint lib (rq_rate_num p)) (\<lambda>rn.
     and_then (fr_of_bigint lib (rq_rate_den p)) (\<lambda>rd.
     and_then (fr_of_bigint lib (rq_valid_until p)) (\<lambda>until.
     Inr (inner_authwit_hash lib
       [SIGNER_QUOTE_DOMAIN_SEPARATOR, rq_fpc_address p, rq_accepted_asset p, rn, rd, until,
        rq_user_address p]))))"

definition compute_cold_start_quote_hash :: "aztec_lib \<Rightarrow> cold_start_params \<Rightarrow> thrown + int" where
  "compute_cold_start_quote_hash lib p =
     and_then (fr_of_bigint lib (qp_fj_fee_amount p)) (\<lambda>fj.
     and_then (fr_of_bigint lib (qp_aa_payment_amount p)) (\<lambda>aa.
     and_then (fr_of_bigint lib (qp_valid_until p)) (\<lambda>until.
     and_then (fr_of_bigint lib (cs_claim_amount p)) (\<lambda>claim.
     Inr (inner_authwit_hash lib
       [SIGNER_COLD_START_QUOTE_DOMAIN_SEPARATOR, qp_fpc_address p, qp_accepted_asset p, fj, aa,
        until, qp_user_address p, claim, cs_claim_secret_hash p])))))"

text \<open>Hash, then sign; an error of the hash leaves the world untouched.\<close>

definition sign_hash :: "'w quote_signer \<Rightarrow> thrown + int \<Rightarrow> ('w, string) ioe" where
  "sign_hash signer h w = (case h of Inl e \<Rightarrow> (Inl e, w) | Inr x \<Rightarrow> signer x w)"

definition sign_quote :: "aztec_lib \<Rightarrow> 'w quote_signer \<Rightarrow> quote_params \<Rightarrow> ('w, string) ioe" where
  "sign_quote lib signer p = sign_hash signer (compute_quote_hash lib p)"

definition sign_rate_quote ::
    "aztec_lib \<Rightarrow> 'w quote_signer \<Rightarrow> rate_quote_params \<Rightarrow> ('w, string) ioe" where
  "sign_rate_quote lib signer p = sign_hash signer (compute_rate_quote_hash lib p)"

definition sign_cold_start_quote ::
    "aztec_lib \<Rightarrow> 'w quote_signer \<Rightarrow> cold_start_params \<Rightarrow> ('w, string) ioe" where
  "sign_cold_start_quote lib signer p = sign_hash signer (compute_cold_start_quote_hash lib p)"

lemma sign_hash_Inr: "sign_hash signer h w = (Inr s, w') \<longleftrightarrow> (\<exists>x. h = Inr x \<and> signer x w = (Inr s, w'))"
  by (auto simp: sign_hash_def split: sum.splits)

end
