(* ===== verification/Attest_Metrics.thy ===== *)
theory Attest_Metrics
  imports Prelude
begin

text \<open>
  Quote metrics, \<open>services/attestation/src/metrics.ts\<close>: request and error counters and one
  latency histogram per outcome. A duration is the exact rational number of seconds; the
  sum of durations is not rounded to a double, and its printed form is an argument of the
  renderer.
\<close>

datatype quote_outcome = Success | BadRequest | Unauthorized | RateLimited | InternalError

definition QUOTE_OUTCOMES :: "quote_outcome list" where
  "QUOTE_OUTCOMES = [Success, BadRequest, Unauthorized, RateLimited, InternalError]"

definition ERROR_OUTCOMES :: "quote_outcome list" where
  "ERROR_OUTCOMES = [BadRequest, Unauthorized, RateLimited, InternalError]"

fun outcome_name :: "quote_outcome \<Rightarrow> string" where
  "outcome_name Success = ''success''"
| "outcome_name BadRequest = ''bad_request''"
| "outcome_name Unauthorized = ''unauthorized''"
| "outcome_name RateLimited = ''rate_limited''"
| "outcome_name InternalError = ''internal_error''"

text \<open>Bucket bounds with the text a template literal prints for them.\<close>

definition LATENCY_BUCKETS :: "(rat \<times> string) list" where
  "LATENCY_BUCKETS =
     [(5 / 1000, ''0.005''), (1 / 100, ''0.01''), (25 / 1000, ''0.025''), (5 / 100, ''0.05''),
      (1 / 10, ''0.1''), (25 / 100, ''0.25''), (5 / 10, ''0.5''), (1, ''1''), (2, ''2''), (5, ''5'')]"

definition LATENCY_BUCKETS_SECONDS :: "rat list" where
  "LATENCY_BUCKETS_SECONDS = map fst LATENCY_BUCKETS"

record latency_state =
  bucket_counts :: "nat list"
  lat_count :: nat
  sum_seconds :: rat

record attestation_metrics =
  quote_requests_total :: "quote_outcome \<rightharpoonup> nat"
  quote_errors_total :: "quote_outcome \<rightharpoonup> nat"
  quote_latency :: "quote_outcome \<rightharpoonup> latency_state"

definition create_latency_state :: latency_state where
  "create_latency_state =
     \<lparr>bucket_counts = replicate (length LATENCY_BUCKETS_SECONDS) 0, lat_count = 0, sum_seconds = 0\<rparr>"

definition count_of :: "('k \<rightharpoonup> nat) \<Rightarrow> 'k \<Rightarrow> nat" where
  "count_of m k = (case m k of None \<Rightarrow> 0 | Some n \<Rightarrow> n)"

definition new_metrics :: attestation_metrics where
  "new_metrics = \<lparr>
     quote_requests_total = map_of (map (\<lambda>o'. (o', 0)) QUOTE_OUTCOMES),
     quote_errors_total = map_of (map (\<lambda>o'. (o', 0)) ERROR_OUTCOMES),
     quote_latency = map_of (map (\<lambda>o'. (o', create_latency_state)) QUOTE_OUTCOMES)\<rparr>"

text \<open>
  The loop over the buckets: the first bound that the duration does not exceed is
  incremented, then the loop breaks.
\<close>

fun bump_bucket :: "rat list \<Rightarrow> rat \<Rightarrow> nat list \<Rightarrow> nat list" where
  "bump_bucket (b # bs) d (c # cs) = (if d \<le> b then Suc c # cs else c # bump_bucket bs d cs)"
| "bump_bucket bs d cs = cs"

definition observe_latency :: "rat \<Rightarrow> latency_state \<Rightarrow> latency_state" where
  "observe_latency d l = \<lparr>
     bucket_counts = bump_bucket LATENCY_BUCKETS_SECONDS d (bucket_counts l),
     lat_count = Suc (lat_count l), sum_seconds = sum_seconds l + d\<rparr>"

definition observe_quote :: "quote_outcome \<Rightarrow> rat \<Rightarrow> attestation_metrics \<Rightarrow> attestation_metrics" where
  "observe_quote oc d m =
     (let m1 = m\<lparr>quote_requests_total :=
            (quote_requests_total m)(oc \<mapsto> count_of (quote_requests_total m) oc + 1)\<rparr>;
          m2 = (if oc \<noteq> Success then m1\<lparr>quote_errors_total :=
                   (quote_errors_total m1)(oc \<mapsto> count_of (quote_errors_total m1) oc + 1)\<rparr>
                else m1)
      in case quote_latency m2 oc of
           None \<Rightarrow> m2
         | Some l \<Rightarrow> m2\<lparr>quote_latency := (quote_latency m2)(oc \<mapsto> observe_latency d l)\<rparr>)"

section \<open>Rendering\<close>

text \<open>The running totals that the \<open>le\<close> lines of one histogram print.\<close>

fun cumulative :: "nat \<Rightarrow> nat list \<Rightarrow> nat list" where
  "cumulative acc [] = []"
| "cumulative acc (c # cs) = (acc + c) # cumulative (acc + c) cs"

definition sample :: "string \<Rightarrow> (string \<times> string) list \<Rightarrow> string \<Rightarrow> string" where
  "sample name labels val =
     name @ ''{'' @ concat (map (\<lambda>(i, k, v). (if i = (0::nat) then [] else '','') @ k @ ''=\"'' @ v @ ''\"'')
       (zip [0..<length labels] labels)) @ ''} '' @ val"

definition render_histogram :: "(rat \<Rightarrow> string) \<Rightarrow> quote_outcome \<Rightarrow> latency_state \<Rightarrow> string list" where
  "render_histogram num oc l =
     map (\<lambda>((_, bound), c). sample ''attestation_quote_latency_seconds_bucket''
            [(''outcome'', outcome_name oc), (''le'', bound)] (dec_nat c))
         (zip LATENCY_BUCKETS (cumulative 0 (bucket_counts l))) @
     [sample ''attestation_quote_latency_seconds_bucket''
        [(''outcome'', outcome_name oc), (''le'', ''+Inf'')] (dec_nat (lat_count l)),
      sample ''attestation_quote_latency_seconds_sum'' [(''outcome'', outcome_name oc)] (num (sum_seconds l)),
      sample ''attestation_quote_latency_seconds_count'' [(''outcome'', outcome_name oc)]
        (dec_nat (lat_count l))]"

definition render_prometheus_lines :: "(rat \<Rightarrow> string) \<Rightarrow> attestation_metrics \<Rightarrow> string list" where
  "render_prometheus_lines num m =
     [''# HELP attestation_quote_requests_total Count of /quote requests by outcome.'',
      ''# TYPE attestation_quote_requests_total counter''] @
     map (\<lambda>oc. sample ''attestation_quote_requests_total'' [(''outcome'', outcome_name oc)]
            (dec_nat (count_of (quote_requests_total m) oc))) QUOTE_OUTCOMES @
     [''# HELP attestation_quote_errors_total Count of /quote failures by error type.'',
      ''# TYPE attestation_quote_errors_total counter''] @
     map (\<lambda>oc. sample ''attestation_quote_errors_total'' [(''error_type'', outcome_name oc)]
            (dec_nat (count_of (quote_errors_total m) oc))) ERROR_OUTCOMES @
     [''# HELP attestation_quote_latency_seconds Latency histogram for /quote requests by outcome.'',
      ''# TYPE attestation_quote_latency_seconds histogram''] @
     concat (map (\<lambda>oc. render_histogram num oc
       (case quote_latency m oc of None \<Rightarrow> create_latency_state | Some l \<Rightarrow> l)) QUOTE_OUTCOMES)"

definition render_prometheus :: "(rat \<Rightarrow> string) \<Rightarrow> attestation_metrics \<Rightarrow> string" where
  "render_prometheus num m = concat (map (\<lambda>l. l @ [CHR 0x0A]) (render_prometheus_lines num m))"

section \<open>A run of observations\<close>

fun observe_all :: "(quote_outcome \<times> rat) list \<Rightarrow> attestation_metrics \<Rightarrow> attestation_metrics" where
  "observe_all [] m = m"
| "observe_all ((oc, d) # obs) m = observe_all obs (observe_quote oc d m)"

definition durations_of :: "quote_outcome \<Rightarrow> (quote_outcome \<times> rat) list \<Rightarrow> rat list" where
  "durations_of oc obs = map snd (filter (\<lambda>p. fst p = oc) obs)"

fun observe_latencies :: "rat list \<Rightarrow> latency_state \<Rightarrow> latency_state" where
  "observe_latencies [] l = l"
| "observe_latencies (d # ds) l = observe_latencies ds (observe_latency d l)"

lemma quote_latency_observe:
  "quote_latency (observe_quote oc d m) x =
     (if x = oc then map_option (observe_latency d) (quote_latency m x) else quote_latency m x)"
  by (auto simp: observe_quote_def Let_def split: option.splits)

lemma quote_latency_observe_all:
  "quote_latency (observe_all obs m) oc = map_option (observe_latencies (durations_of oc obs)) (quote_latency m oc)"
proof (induction obs arbitrary: m)
  case Nil
  show ?case by (simp add: durations_of_def option.map_ident)
next
  case (Cons p obs)
  obtain x d where p: "p = (x, d)" by (cases p)
  show ?case
    by (cases "quote_latency m oc")
      (auto simp: p Cons.IH quote_latency_observe durations_of_def)
qed

lemma quote_latency_new: "quote_latency new_metrics oc = Some create_latency_state"
  by (cases oc) (simp_all add: new_metrics_def QUOTE_OUTCOMES_def)

lemma cumulative_shift: "cumulative a cs = map ((+) a) (cumulative 0 cs)"
proof (induction cs arbitrary: a)
  case Nil
  show ?case by simp
next
  case (Cons c cs)
  show ?case by (simp add: Cons.IH [of "a + c"] Cons.IH [of c] add.assoc)
qed

text \<open>One observation raises exactly the running totals of the bounds at or above it.\<close>

lemma cumulative_bump:
  "sorted bs \<Longrightarrow> length bs = length cs \<Longrightarrow>
     cumulative a (bump_bucket bs d cs) =
     map2 (\<lambda>b t. if d \<le> b then Suc t else t) bs (cumulative a cs)"
proof (induction bs d cs arbitrary: a rule: bump_bucket.induct)
  case (1 b bs d c cs)
  show ?case
  proof (cases "d \<le> b")
    case True
    with "1.prems" have le: "\<forall>x\<in>set bs. d \<le> x" by auto
    have "map2 (\<lambda>b t. if d \<le> b then Suc t else t) bs ts = map Suc ts" if "length bs = length ts" for ts
      using le that by (induction bs ts rule: list_induct2') auto
    moreover have "length (cumulative x cs) = length cs" for x
      by (induction cs arbitrary: x) auto
    ultimately show ?thesis
      using True "1.prems" by (simp add: cumulative_shift [of "Suc (a + c)"] cumulative_shift [of "a + c"])
  next
    case False
    with 1 show ?thesis by simp
  qed
qed auto

lemma length_bump_bucket [simp]: "length (bump_bucket bs d cs) = length cs"
  by (induction bs d cs rule: bump_bucket.induct) auto

lemma length_cumulative [simp]: "length (cumulative a cs) = length cs"
  by (induction cs arbitrary: a) auto

lemma sorted_buckets: "sorted LATENCY_BUCKETS_SECONDS"
  by (simp add: LATENCY_BUCKETS_SECONDS_def LATENCY_BUCKETS_def)

lemma cumulative_observe_latencies:
  assumes "length (bucket_counts l) = length LATENCY_BUCKETS_SECONDS"
    and "i < length LATENCY_BUCKETS_SECONDS"
  shows "cumulative 0 (bucket_counts (observe_latencies ds l)) ! i =
     cumulative 0 (bucket_counts l) ! i + length (filter (\<lambda>d. d \<le> LATENCY_BUCKETS_SECONDS ! i) ds)"
  using assms
proof (induction ds arbitrary: l)
  case Nil
  then show ?case by simp
next
  case (Cons d ds)
  have "cumulative 0 (bucket_counts (observe_latency d l)) ! i =
     (if d \<le> LATENCY_BUCKETS_SECONDS ! i then Suc (cumulative 0 (bucket_counts l) ! i)
      else cumulative 0 (bucket_counts l) ! i)"
    using Cons.prems by (simp add: observe_latency_def cumulative_bump sorted_buckets)
  with Cons.IH [of "observe_latency d l"] Cons.prems show ?case
    by (simp add: observe_latency_def)
qed

lemma lat_count_observe_latencies: "lat_count (observe_latencies ds l) = lat_count l + length ds"
  by (induction ds arbitrary: l) (auto simp: observe_latency_def)

lemma create_latency_facts:
  "length (bucket_counts create_latency_state) = length LATENCY_BUCKETS_SECONDS"
  "lat_count create_latency_state = 0"
  "i < length LATENCY_BUCKETS_SECONDS \<Longrightarrow> cumulative 0 (bucket_counts create_latency_state) ! i = 0"
proof -
  have "cumulative 0 (replicate n 0) = replicate n (0::nat)" for n by (induction n) auto
  then show "i < length LATENCY_BUCKETS_SECONDS \<Longrightarrow>
      cumulative 0 (bucket_counts create_latency_state) ! i = 0"
    by (simp add: create_latency_state_def)
qed (simp_all add: create_latency_state_def)

lemma requests_observe_all:
  "count_of (quote_requests_total (observe_all obs m)) oc =
     count_of (quote_requests_total m) oc + length (durations_of oc obs)"
proof (induction obs arbitrary: m)
  case Nil
  show ?case by (simp add: durations_of_def)
next
  case (Cons p obs)
  obtain x d where p: "p = (x, d)" by (cases p)
  have "count_of (quote_requests_total (observe_quote x d m)) oc =
     count_of (quote_requests_total m) oc + (if x = oc then 1 else 0)"
    by (auto simp: observe_quote_def Let_def count_of_def split: option.splits)
  with Cons.IH show ?case by (simp add: p durations_of_def)
qed

lemma errors_observe_all:
  "count_of (quote_errors_total (observe_all obs m)) oc =
     count_of (quote_errors_total m) oc + (if oc = Success then 0 else length (durations_of oc obs))"
proof (induction obs arbitrary: m)
  case Nil
  show ?case by (simp add: durations_of_def)
next
  case (Cons p obs)
  obtain x d where p: "p = (x, d)" by (cases p)
  have "count_of (quote_errors_total (observe_quote x d m)) oc =
     count_of (quote_errors_total m) oc + (if x = oc \<and> oc \<noteq> Success then 1 else 0)"
    by (auto simp: observe_quote_def Let_def count_of_def split: option.splits)
  with Cons.IH show ?case by (simp add: p durations_of_def)
qed

section \<open>Properties\<close>

text \<open>
  After any run of observations on fresh metrics, the line \<open>le="b"\<close> of an outcome's
  histogram prints the number of observed durations of that outcome that do not exceed the
  bound \<open>b\<close>, the \<open>+Inf\<close> and \<open>_count\<close> lines print the number of observations, and the
  request and error counters agree with them (the error counter never counts successes).
\<close>

theorem latency_histogram_exact:
  assumes "i < length LATENCY_BUCKETS_SECONDS" and "m = observe_all obs new_metrics"
  shows "\<exists>l. quote_latency m oc = Some l \<and>
     cumulative 0 (bucket_counts l) ! i =
       length (filter (\<lambda>d. d \<le> LATENCY_BUCKETS_SECONDS ! i) (durations_of oc obs)) \<and>
     lat_count l = length (durations_of oc obs) \<and>
     count_of (quote_requests_total m) oc = length (durations_of oc obs) \<and>
     count_of (quote_errors_total m) oc = (if oc = Success then 0 else length (durations_of oc obs))"
proof -
  have zero: "count_of (quote_requests_total new_metrics) oc = 0"
    "count_of (quote_errors_total new_metrics) oc = 0"
    by (cases oc; simp add: new_metrics_def QUOTE_OUTCOMES_def ERROR_OUTCOMES_def count_of_def)+
  show ?thesis
    using assms cumulative_observe_latencies [OF create_latency_facts(1) assms(1)]
    by (simp add: quote_latency_observe_all quote_latency_new lat_count_observe_latencies zero
        create_latency_facts requests_observe_all errors_observe_all)
qed

lemma latency_histogram_exact_witness:
  "\<exists>l. quote_latency (observe_all [(Success, 1 / 50), (BadRequest, 3), (Success, 1 / 10)] new_metrics) Success = Some l \<and>
     cumulative 0 (bucket_counts l) ! 2 = 1 \<and> lat_count l = 2"
  using latency_histogram_exact [of 2 _ "[(Success, 1 / 50), (BadRequest, 3), (Success, 1 / 10)]" Success, OF _ refl]
  by (auto simp: LATENCY_BUCKETS_SECONDS_def LATENCY_BUCKETS_def durations_of_def simp del: observe_all.simps)

end
