(* ===== verification/Attest_Treasury.thy ===== *)
theory Attest_Treasury
  imports Attest_Config
begin

text \<open>
  The operator's treasury wallet, \<open>services/attestation/src/operator-treasury.ts\<close>. The
  object keeps the set of registered senders and the memoised promise of its context; the
  node, the wallet and the token contract are the fields of \<open>treasury_env\<close>. The parallel
  balance reads of \<open>getPrivateBalances\<close> are taken in list order.
\<close>

record 'w treasury_env =
  te_wait_for_node :: "('w, unit) ioe"
  te_create_wallet :: "string option \<Rightarrow> ('w, unit) ioe"
  te_create_account :: "int \<Rightarrow> int \<Rightarrow> ('w, int) ioe"
  te_get_contract :: "int \<Rightarrow> ('w, bool) ioe"
  te_register_contract :: "int \<Rightarrow> ('w, unit) ioe"
  te_balance_of_private :: "int \<Rightarrow> int \<Rightarrow> ('w, int) ioe"
  te_transfer :: "int \<Rightarrow> int \<Rightarrow> int \<Rightarrow> int \<Rightarrow> int \<Rightarrow> ('w, string) ioe"
  te_random_fr :: "('w, int) io"
  te_register_sender :: "int \<Rightarrow> string \<Rightarrow> ('w, unit) ioe"
  te_stop_wallet :: "('w, unit) ioe"

text \<open>The context is the operator's address; node and wallet are reached through the environment.\<close>

record 'w treasury =
  tr_sender_aliases :: "string set"
  tr_init_promise :: "(thrown + int) option"
  tr_world :: 'w

record sweep_result =
  sr_accepted_asset :: string
  sr_destination :: string
  sr_swept_amount :: string
  sr_balance_before :: string
  sr_balance_after :: string
  sr_tx_hash :: string

definition in_world :: "('w, 'a) ioe \<Rightarrow> ('w treasury, 'a) ioe" where
  "in_world f t = (case f (tr_world t) of (r, w) \<Rightarrow> (r, t\<lparr>tr_world := w\<rparr>))"

definition truthy :: "string option \<Rightarrow> bool" where
  "truthy v \<longleftrightarrow> v \<noteq> None \<and> v \<noteq> Some []"

definition operator_salt :: "aztec_lib \<Rightarrow> config \<Rightarrow> thrown + int" where
  "operator_salt lib cfg = (if truthy (c_operator_account_salt cfg)
     then fr_from_hex lib (the (c_operator_account_salt cfg)) else Inr 0)"

text \<open>The constructor.\<close>

definition new_treasury :: "aztec_lib \<Rightarrow> config \<Rightarrow> 'w \<Rightarrow> thrown + 'w treasury" where
  "new_treasury lib cfg w = and_then (operator_salt lib cfg) (\<lambda>_.
     Inr \<lparr>tr_sender_aliases = {}, tr_init_promise = None, tr_world = w\<rparr>)"

definition operator_mismatch :: "aztec_lib \<Rightarrow> string \<Rightarrow> int \<Rightarrow> thrown + bool" where
  "operator_mismatch lib configured account =
     and_then (normalize_address lib (address_to_string lib account)) (\<lambda>a.
     and_then (normalize_address lib configured) (\<lambda>b. Inr (a \<noteq> b)))"

definition initialize_treasury ::
    "aztec_lib \<Rightarrow> 'w treasury_env \<Rightarrow> config \<Rightarrow> ('w treasury, int) ioe" where
  "initialize_treasury lib env cfg =
     bind_io (in_world (te_wait_for_node env)) (\<lambda>_.
     bind_io (in_world (te_create_wallet env
         (if truthy (pc_pxe_data_directory (c_parsed cfg)) then pc_pxe_data_directory (c_parsed cfg)
          else None))) (\<lambda>_.
     bind_io (from_pure (fr_from_hex lib (rs_value (c_operator_secret cfg)))) (\<lambda>secret.
     bind_io (from_pure (operator_salt lib cfg)) (\<lambda>salt.
     bind_io (in_world (te_create_account env secret salt)) (\<lambda>account.
     bind_io (from_pure (if truthy (pc_operator_address (c_parsed cfg))
         then operator_mismatch lib (the (pc_operator_address (c_parsed cfg))) account
         else Inr False)) (\<lambda>mismatch.
     if mismatch then throw_io (error (''Configured operator_address '' @
          the (pc_operator_address (c_parsed cfg)) @
          '' does not match reconstructed operator account '' @ address_to_string lib account @
          ''. Set operator_account_salt to the deployed account salt.''))
     else return_io account))))))"

text \<open>The promise is created once and keeps its outcome, a rejection included.\<close>

definition get_context ::
    "aztec_lib \<Rightarrow> 'w treasury_env \<Rightarrow> config \<Rightarrow> ('w treasury, int) ioe" where
  "get_context lib env cfg t = (case tr_init_promise t of
     Some r \<Rightarrow> (r, t)
   | None \<Rightarrow> (case initialize_treasury lib env cfg t of (r, t') \<Rightarrow> (r, t'\<lparr>tr_init_promise := Some r\<rparr>)))"

definition register_sender ::
    "aztec_lib \<Rightarrow> 'w treasury_env \<Rightarrow> config \<Rightarrow> int \<Rightarrow> ('w treasury, unit) ioe" where
  "register_sender lib env cfg addr t =
     (if \<not> truthy (pc_pxe_data_directory (c_parsed cfg)) then (Inr (), t)
      else bind_io (from_pure (normalize_address lib (address_to_string lib addr))) (\<lambda>normalized t.
        if normalized \<in> tr_sender_aliases t then (Inr (), t)
        else bind_io (get_context lib env cfg) (\<lambda>_.
             bind_io (in_world (te_register_sender env addr normalized)) (\<lambda>_ t.
               (Inr (), t\<lparr>tr_sender_aliases := insert normalized (tr_sender_aliases t)\<rparr>))) t) t)"

definition attach_token_contract ::
    "aztec_lib \<Rightarrow> 'w treasury_env \<Rightarrow> string \<Rightarrow> ('w treasury, int) ioe" where
  "attach_token_contract lib env addr =
     bind_io (from_pure (address_from_string lib addr)) (\<lambda>token.
     bind_io (in_world (te_get_contract env token)) (\<lambda>found.
     if \<not> found then throw_io (error (''Token contract not found at '' @ address_to_string lib token))
     else bind_io (in_world (te_register_contract env token)) (\<lambda>_. return_io token)))"

text \<open>\<open>Array.from(new Set(xs))\<close>: first occurrences, in order.\<close>

fun unique_strings :: "string set \<Rightarrow> string list \<Rightarrow> string list" where
  "unique_strings seen [] = []"
| "unique_strings seen (x # xs) =
     (if x \<in> seen then unique_strings seen xs else x # unique_strings (insert x seen) xs)"

fun normalize_all :: "aztec_lib \<Rightarrow> string list \<Rightarrow> thrown + string list" where
  "normalize_all lib [] = Inr []"
| "normalize_all lib (x # xs) =
     and_then (normalize_address lib x) (\<lambda>y. and_then (normalize_all lib xs) (\<lambda>ys. Inr (y # ys)))"

definition get_private_balances ::
    "aztec_lib \<Rightarrow> 'w treasury_env \<Rightarrow> config \<Rightarrow> string list \<Rightarrow> ('w treasury, (string \<times> string) list) ioe" where
  "get_private_balances lib env cfg asset_addresses =
     bind_io (from_pure (normalize_all lib asset_addresses)) (\<lambda>normalized.
     bind_io (get_context lib env cfg) (\<lambda>operator.
     map_io (\<lambda>addr.
       bind_io (attach_token_contract lib env addr) (\<lambda>token.
       bind_io (in_world (te_balance_of_private env token operator)) (\<lambda>balance.
       return_io (addr, bigint_string balance)))) (unique_strings {} normalized)))"

text \<open>The guards on the amount of a sweep.\<close>

definition sweep_amount :: "int option \<Rightarrow> int \<Rightarrow> thrown + int" where
  "sweep_amount requested balance =
     (let amount = (case requested of None \<Rightarrow> balance | Some a \<Rightarrow> a) in
      if amount \<le> 0 then Inl (error ''sweep amount must be greater than zero'')
      else if balance < amount
      then Inl (error (''sweep amount '' @ bigint_string amount @
             '' exceeds operator private balance '' @ bigint_string balance))
      else Inr amount)"

definition sweep ::
    "aztec_lib \<Rightarrow> 'w treasury_env \<Rightarrow> config \<Rightarrow> string \<Rightarrow> int option \<Rightarrow> string \<Rightarrow>
       ('w treasury, sweep_result) ioe" where
  "sweep lib env cfg accepted requested destination =
     bind_io (get_context lib env cfg) (\<lambda>operator.
     bind_io (from_pure (normalize_address lib accepted)) (\<lambda>asset.
     bind_io (from_pure (address_from_string lib destination)) (\<lambda>dest.
     if dest = 0 then throw_io (error ''destination must be a non-zero Aztec address'')
     else
     bind_io (attach_token_contract lib env asset) (\<lambda>token.
     bind_io (in_world (te_balance_of_private env token operator)) (\<lambda>before.
     bind_io (from_pure (sweep_amount requested before)) (\<lambda>amount.
     bind_io (in_world (\<lambda>w. case te_random_fr env w of (n, w') \<Rightarrow> (Inr n, w'))) (\<lambda>nonce.
     bind_io (in_world (te_transfer env token operator dest amount nonce)) (\<lambda>tx.
     bind_io (in_world (te_balance_of_private env token operator)) (\<lambda>after.
     return_io \<lparr>sr_accepted_asset = asset, sr_destination = address_to_string lib dest,
       sr_swept_amount = bigint_string amount, sr_balance_before = bigint_string before,
       sr_balance_after = bigint_string after, sr_tx_hash = tx\<rparr>)))))))))"

definition stop_treasury :: "'w treasury_env \<Rightarrow> ('w treasury, unit) ioe" where
  "stop_treasury env t = (case tr_init_promise t of
     None \<Rightarrow> (Inr (), t)
   | Some (Inl e) \<Rightarrow> (Inl e, t)
   | Some (Inr _) \<Rightarrow> in_world (te_stop_wallet env) t)"

section \<open>Facts\<close>

lemma in_world_Inr: "in_world f t = (Inr x, t') \<longleftrightarrow>
    (\<exists>w. f (tr_world t) = (Inr x, w) \<and> t' = t\<lparr>tr_world := w\<rparr>)"
  by (auto simp: in_world_def split: prod.splits)

lemma sweep_amount_iff:
  "sweep_amount requested balance = Inr a \<longleftrightarrow>
     0 < a \<and> a \<le> balance \<and> a = (case requested of None \<Rightarrow> balance | Some r \<Rightarrow> r)"
  by (auto simp: sweep_amount_def Let_def split: option.splits)

text \<open>No operation before the transfer touches the senders.\<close>

lemma in_world_aliases: "in_world f t = (r, t') \<Longrightarrow> tr_sender_aliases t' = tr_sender_aliases t"
  by (auto simp: in_world_def split: prod.splits)

lemma in_world_promise: "in_world f t = (r, t') \<Longrightarrow> tr_init_promise t' = tr_init_promise t"
  by (auto simp: in_world_def split: prod.splits)

lemma get_context_memo: "get_context lib env cfg t = (r, t') \<Longrightarrow> tr_init_promise t' = Some r"
  by (auto simp: get_context_def split: option.splits prod.splits)

lemma register_sender_keeps_promise:
  assumes "register_sender lib env cfg a t = (Inr (), t')" "truthy (pc_pxe_data_directory (c_parsed cfg))"
    and "normalize_address lib (address_to_string lib a) = Inr n"
  shows "n \<in> tr_sender_aliases t'"
  using assms by (auto simp: register_sender_def io_Inr_iff split: if_splits)

definition demo_treasury_config :: config where
  "demo_treasury_config = demo_config\<lparr>c_operator_secret :=
     \<lparr>rs_value = ''77'', rs_source = SourceEnv, rs_provider = ProviderAuto, rs_dual_source = False\<rparr>\<rparr>"

text \<open>A node that is down or up, with 50 units on every token.\<close>

definition demo_treasury_env :: "bool \<Rightarrow> int treasury_env" where
  "demo_treasury_env up = \<lparr>
     te_wait_for_node = (\<lambda>w. (if up then Inr () else Inl (error ''node down''), w)),
     te_create_wallet = (\<lambda>_ w. (Inr (), w)), te_create_account = (\<lambda>_ _ w. (Inr 4, w)),
     te_get_contract = (\<lambda>_ w. (Inr True, w)), te_register_contract = (\<lambda>_ w. (Inr (), w)),
     te_balance_of_private = (\<lambda>_ _ w. (Inr w, w)),
     te_transfer = (\<lambda>_ _ _ a _ w. (Inr ''tx'', w - a)), te_random_fr = (\<lambda>w. (1, w)),
     te_register_sender = (\<lambda>_ _ w. (Inr (), w)), te_stop_wallet = (\<lambda>w. (Inr (), w))\<rparr>"

definition demo_treasury :: "int treasury" where
  "demo_treasury = \<lparr>tr_sender_aliases = {}, tr_init_promise = None, tr_world = 50\<rparr>"

section \<open>Properties\<close>


lemma demo_sweep_runs:
  "\<exists>r t'. sweep demo_lib (demo_treasury_env True) demo_treasury_config ''7'' (Some 20) ''9'' demo_treasury = (Inr r, t') \<and>
     tr_world t' = 30"
proof -
  have "normalize_address demo_lib ''7'' = Inr ''7''" by code_simp
  moreover have "address_from_string demo_lib ''9'' = Inr 9" "address_from_string demo_lib ''7'' = Inr 7"
    "fr_from_hex demo_lib ''77'' = Inr 77"
    by (simp_all add: digits_only_def is_digit_def code_of_def dec_value_def digit_val_def)
  ultimately show ?thesis
    by (simp del: demo_lib_simps add: sweep_def get_context_def initialize_treasury_def operator_salt_def truthy_def
        demo_treasury_config_def demo_config_def demo_parsed_def demo_treasury_env_def demo_treasury_def in_world_def bind_io_def
        attach_token_contract_def sweep_amount_def from_pure_def return_io_def)
qed


text \<open>
  The promise of the wallet context keeps a failure for good: once the initialisation has
  failed (the node was down for a moment), every later sweep and every later read of the
  balances fails with that same error without asking the node again, and so does every
  registration of a new sender.
\<close>

theorem failed_initialisation_is_permanent:
  assumes "get_context lib env cfg t = (Inl e, t')"
    and "normalize_all lib xs = Inr ys"
    and "truthy (pc_pxe_data_directory (c_parsed cfg))"
    and "normalize_address lib (address_to_string lib a) = Inr n" "n \<notin> tr_sender_aliases t'"
  shows "sweep lib env2 cfg asset requested destination t' = (Inl e, t') \<and>
    get_private_balances lib env2 cfg xs t' = (Inl e, t') \<and>
    register_sender lib env2 cfg a t' = (Inl e, t')"
proof -
  have c: "get_context lib env2 cfg t' = (Inl e, t')"
    using get_context_memo [OF assms(1)] by (simp add: get_context_def)
  with assms(2-5) show ?thesis
    by (simp add: sweep_def get_private_balances_def register_sender_def bind_io_def from_pure_def)
qed

lemma failed_initialisation_is_permanent_witness:
  "\<exists>e t'. get_context demo_lib (demo_treasury_env False)
       (demo_treasury_config\<lparr>c_parsed := (c_parsed demo_treasury_config)\<lparr>pc_pxe_data_directory := Some ''d''\<rparr>\<rparr>)
       demo_treasury = (Inl e, t') \<and>
     sweep demo_lib (demo_treasury_env True)
       (demo_treasury_config\<lparr>c_parsed := (c_parsed demo_treasury_config)\<lparr>pc_pxe_data_directory := Some ''d''\<rparr>\<rparr>)
       ''7'' None ''9'' t' = (Inl e, t')"
proof -
  let ?cfg = "demo_treasury_config\<lparr>c_parsed := (c_parsed demo_treasury_config)\<lparr>pc_pxe_data_directory := Some ''d''\<rparr>\<rparr>"
  let ?t = "demo_treasury\<lparr>tr_init_promise := Some (Inl (error ''node down''))\<rparr>"
  have run: "get_context demo_lib (demo_treasury_env False) ?cfg demo_treasury = (Inl (error ''node down''), ?t)"
    by (simp add: get_context_def initialize_treasury_def demo_treasury_env_def demo_treasury_def
        in_world_def bind_io_def)
  have n: "normalize_address demo_lib (address_to_string demo_lib 7) = Inr ''7''" by code_simp
  have "sweep demo_lib (demo_treasury_env True) ?cfg ''7'' None ''9'' ?t = (Inl (error ''node down''), ?t)"
    using failed_initialisation_is_permanent [OF run, of "[]" "[]" 7 "''7''" "demo_treasury_env True" "''7''" None "''9''"] n
    by (simp add: truthy_def demo_treasury_def)
  with run show ?thesis by blast
qed

end
