(* ===== verification/Attest_Server.thy ===== *)
theory Attest_Server
  imports Attest_Policy_Store Attest_Schemas Attest_Signer Attest_Metrics Attest_Treasury
begin

text \<open>
  The HTTP handlers, \<open>services/attestation/src/server.ts\<close>. A handler runs on the state the
  process shares between requests: the metrics, the policy store and the world behind the
  dependencies. Every awaited dependency is a function of that whole state, so what other
  requests do during an await is part of it. Log calls are left out. A reply is a status
  and a body; an error that the handler does not catch is its \<open>Inl\<close>.
\<close>

section \<open>State and dependencies\<close>

record 'w server_state =
  ss_metrics :: attestation_metrics
  ss_store :: policy_db
  ss_world :: 'w

datatype header_value = HeaderString string | HeaderList "string list"

type_synonym header_map = "string \<Rightarrow> header_value option"

record 'w treasury_port =
  tp_register_sender :: "int \<Rightarrow> ('w server_state, unit) ioe"
  tp_get_private_balances :: "string list \<Rightarrow> ('w server_state, (string \<times> string) list) ioe"
  tp_sweep :: "string \<Rightarrow> int option \<Rightarrow> string \<Rightarrow> ('w server_state, sweep_result) ioe"

record 'w server_context =
  sc_lib :: aztec_lib
  sc_config :: config
  sc_fpc_address :: int
  sc_now_unix_seconds :: "('w server_state, int) ioe"
  sc_hrtime :: "'w server_state \<Rightarrow> int"
  sc_signer :: "'w server_state quote_signer"
  sc_treasury :: "'w treasury_port option"
  sc_sha256 :: "string \<Rightarrow> string"
  sc_locale_compare :: "string \<Rightarrow> string \<Rightarrow> int"
  sc_print_number :: "rat \<Rightarrow> string"

record http_request =
  hr_headers :: header_map
  hr_query :: jsval
  hr_body :: jsval
  hr_ip :: string
  hr_url :: string
  hr_protocol :: string

section \<open>Replies\<close>

record quote_response =
  qr_accepted_asset :: string
  qr_fj_amount :: string
  qr_aa_payment_amount :: string
  qr_valid_until :: string
  qr_signature :: string
  qr_rates :: "(string \<times> string) option"

record cold_start_response =
  cr_accepted_asset :: string
  cr_fj_amount :: string
  cr_aa_payment_amount :: string
  cr_valid_until :: string
  cr_claim_amount :: string
  cr_claim_secret_hash :: string
  cr_signature :: string

record discovery =
  di_network_id :: string
  di_fpc_address :: string
  di_contract_variant :: string
  di_quote_base_url :: string
  di_supported_assets :: "(string \<times> string) list"

datatype reply_body =
    ErrorBody string string
  | QuoteBody quote_response
  | ColdStartBody cold_start_response
  | PolicyBody asset_policy
  | PoliciesBody "asset_policy list"
  | BalancesBody "(string \<times> string \<times> string) list"
  | SweepBody sweep_result
  | AssetsBody "(string \<times> string) list"
  | DiscoveryBody discovery
  | HealthBody
  | TextBody string

record reply =
  re_status :: nat
  re_body :: reply_body

definition reply_of :: "nat \<Rightarrow> reply_body \<Rightarrow> reply" where
  "reply_of s b = \<lparr>re_status = s, re_body = b\<rparr>"

lemma reply_of_simps [simp]: "re_status (reply_of s b) = s" "re_body (reply_of s b) = b"
  by (simp_all add: reply_of_def)

definition bad_request :: "string \<Rightarrow> reply_body" where
  "bad_request m = ErrorBody ''BAD_REQUEST'' m"

definition unauthorized :: reply_body where
  "unauthorized = ErrorBody ''UNAUTHORIZED'' ''Unauthorized''"

definition conflict :: "string \<Rightarrow> reply_body" where
  "conflict m = ErrorBody ''CONFLICT'' m"

definition service_unavailable :: "string \<Rightarrow> reply_body" where
  "service_unavailable m = ErrorBody ''SERVICE_UNAVAILABLE'' m"

definition rate_limited :: reply_body where
  "rate_limited = ErrorBody ''RATE_LIMITED'' ''Too many quote requests''"

definition internal_error_body :: reply_body where
  "internal_error_body = ErrorBody ''INTERNAL_ERROR'' ''Internal server error''"

section \<open>Arithmetic\<close>

definition is_u128 :: "int \<Rightarrow> bool" where
  "is_u128 v \<longleftrightarrow> 0 \<le> v \<and> v \<le> U128_MAX"

text \<open>Bigint division truncates and rejects a zero divisor.\<close>

definition bigint_div :: "int \<Rightarrow> int \<Rightarrow> thrown + int" where
  "bigint_div a b = (if b = 0 then Inl (Thrown ''RangeError'' ''Division by zero'')
     else Inr (sgn a * sgn b * (\<bar>a\<bar> div \<bar>b\<bar>)))"

definition ceil_div :: "int \<Rightarrow> int \<Rightarrow> thrown + int" where
  "ceil_div n d = bigint_div (n + d - 1) d"

section \<open>Authorisation\<close>

definition header_matches_secret ::
    "(string \<Rightarrow> string) \<Rightarrow> header_value option \<Rightarrow> string option \<Rightarrow> bool" where
  "header_matches_secret sha candidate secret =
     (case (secret, candidate) of
        (Some e, Some (HeaderString c)) \<Rightarrow> e \<noteq> [] \<and> sha e = sha c
      | _ \<Rightarrow> False)"

definition header_at :: "header_map \<Rightarrow> string option \<Rightarrow> header_value option" where
  "header_at hs name = (if truthy name then hs (the name) else None)"

definition is_quote_authorized ::
    "(string \<Rightarrow> string) \<Rightarrow> config \<Rightarrow> header_map \<Rightarrow> bool" where
  "is_quote_authorized sha cfg hs =
     (let qa = c_quote_auth cfg;
          api_key_ok = header_matches_secret sha (hs (qa_api_key_header qa)) (qa_api_key qa);
          trusted_ok = header_matches_secret sha (header_at hs (qa_trusted_name qa)) (qa_trusted_value qa)
      in case qa_mode qa of
           ModeDisabled \<Rightarrow> True
         | ModeApiKey \<Rightarrow> api_key_ok
         | ModeTrustedHeader \<Rightarrow> trusted_ok
         | ModeApiKeyOrTrustedHeader \<Rightarrow> api_key_ok \<or> trusted_ok
         | ModeApiKeyAndTrustedHeader \<Rightarrow> api_key_ok \<and> trusted_ok)"

definition is_admin_authorized ::
    "(string \<Rightarrow> string) \<Rightarrow> config \<Rightarrow> header_map \<Rightarrow> bool" where
  "is_admin_authorized sha cfg hs \<longleftrightarrow> aa_enabled (c_admin_auth cfg) \<and>
     header_matches_secret sha (hs (aa_api_key_header (c_admin_auth cfg))) (aa_api_key (c_admin_auth cfg))"

definition require_admin_access ::
    "(string \<Rightarrow> string) \<Rightarrow> config \<Rightarrow> header_map \<Rightarrow> reply + unit" where
  "require_admin_access sha cfg hs =
     (if \<not> aa_enabled (c_admin_auth cfg)
      then Inl (reply_of 503 (service_unavailable ''Admin API is disabled''))
      else if \<not> is_admin_authorized sha cfg hs then Inl (reply_of 401 unauthorized)
      else Inr ())"

section \<open>Headers and URLs\<close>

definition first_header_value :: "header_value option \<Rightarrow> string option" where
  "first_header_value v = (case v of
     Some (HeaderString s) \<Rightarrow> Some s
   | Some (HeaderList (s # _)) \<Rightarrow> Some s
   | _ \<Rightarrow> None)"

definition trim_trailing_slashes :: "string \<Rightarrow> string" where
  "trim_trailing_slashes s = rev (dropWhile (\<lambda>c. c = CHR ''/'') (rev s))"

definition first_comma_separated_value :: "string option \<Rightarrow> string option" where
  "first_comma_separated_value v = (case v of
     None \<Rightarrow> None
   | Some s \<Rightarrow> (let first = js_trim (takeWhile (\<lambda>c. c \<noteq> CHR '','') s) in
       if s = [] \<or> first = [] then None else Some first))"

definition resolve_quote_base_url :: "config \<Rightarrow> header_map \<Rightarrow> string \<Rightarrow> string" where
  "resolve_quote_base_url cfg hs fallback =
     (if truthy (pc_quote_base_url (c_parsed cfg))
      then trim_trailing_slashes (the (pc_quote_base_url (c_parsed cfg)))
      else
       (let protocol = (case first_comma_separated_value (first_header_value (hs ''x-forwarded-proto'')) of
              Some p \<Rightarrow> p | None \<Rightarrow> fallback);
            host = coalesce (first_comma_separated_value (first_header_value (hs ''x-forwarded-host'')))
                     (first_header_value (hs ''host''))
        in if \<not> truthy host then ''http://127.0.0.1:'' @ bigint_string (pc_port (c_parsed cfg))
           else protocol @ ''://'' @ the host))"

datatype identity_kind = KindIp | KindApiKey

definition resolve_quote_rate_limit_identity ::
    "(string \<Rightarrow> string) \<Rightarrow> config \<Rightarrow> header_map \<Rightarrow> string \<Rightarrow> string \<times> identity_kind" where
  "resolve_quote_rate_limit_identity sha cfg hs remote_ip =
     (let qa = c_quote_auth cfg;
          candidate = first_header_value (hs (qa_api_key_header qa))
      in if mode_needs_api_key (qa_mode qa) \<and> truthy candidate \<and>
            header_matches_secret sha (Some (HeaderString (the candidate))) (qa_api_key qa)
         then (''api_key:'' @ sha (the candidate), KindApiKey)
         else (''ip:'' @ remote_ip, KindIp))"

section \<open>Parsing and pricing\<close>

record parsed_quote =
  pq_user :: int
  pq_accepted_asset :: int
  pq_policy :: asset_policy
  pq_fj_amount :: int

record parsed_cold_start = parsed_quote +
  pq_claim_amount :: int
  pq_claim_secret_hash :: int

text \<open>The outer sum is a thrown error of the store, the inner one the message of the refusal.\<close>

definition parse_quote_request ::
    "aztec_lib \<Rightarrow> policy_db \<Rightarrow> jsval \<Rightarrow> thrown + (string + parsed_quote)" where
  "parse_quote_request lib db query =
     (case quote_request_query_schema lib query of
        Inl es \<Rightarrow> Inr (Inl (hd es))
      | Inr q \<Rightarrow> and_then (store_get lib db (address_to_string lib (q_accepted_asset q))) (\<lambda>found.
          case found of
            None \<Rightarrow> Inr (Inl ''Unsupported accepted_asset'')
          | Some p \<Rightarrow> Inr (Inr \<lparr>pq_user = q_user q, pq_accepted_asset = q_accepted_asset q,
                pq_policy = p, pq_fj_amount = q_fj_amount q\<rparr>)))"

definition parse_cold_start_quote_request ::
    "aztec_lib \<Rightarrow> policy_db \<Rightarrow> jsval \<Rightarrow> thrown + (string + parsed_cold_start)" where
  "parse_cold_start_quote_request lib db query =
     (case cold_start_quote_request_query_schema lib query of
        Inl es \<Rightarrow> Inr (Inl (hd es))
      | Inr q \<Rightarrow> and_then (store_get lib db (address_to_string lib (q_accepted_asset q))) (\<lambda>found.
          case found of
            None \<Rightarrow> Inr (Inl ''Unsupported accepted_asset'')
          | Some p \<Rightarrow> Inr (Inr \<lparr>pq_user = q_user q, pq_accepted_asset = q_accepted_asset q,
                pq_policy = p, pq_fj_amount = q_fj_amount q, pq_claim_amount = q_claim_amount q,
                pq_claim_secret_hash = q_claim_secret_hash q\<rparr>)))"

record quote_pricing =
  pr_rate_num :: int
  pr_rate_den :: int
  pr_valid_until :: int
  pr_aa_payment_amount :: int

definition compute_quote_pricing ::
    "asset_policy \<Rightarrow> int \<Rightarrow> int \<Rightarrow> (int \<Rightarrow> int) \<Rightarrow> thrown + (string + quote_pricing)" where
  "compute_quote_pricing p fj now valid_until =
     (case compute_final_rate p of (rn, rd) \<Rightarrow>
      let until = valid_until now in
      and_then (ceil_div (fj * rn) rd) (\<lambda>aa.
      if \<not> is_u128 aa \<or> aa \<le> 0
      then Inr (Inl ''Computed aa_payment_amount does not fit in u128'')
      else Inr (Inr \<lparr>pr_rate_num = rn, pr_rate_den = rd, pr_valid_until = until,
                     pr_aa_payment_amount = aa\<rparr>)))"

definition valid_until_factory :: "config \<Rightarrow> int \<Rightarrow> int" where
  "valid_until_factory cfg now = now + c_quote_validity_seconds cfg"

definition sign_quote_for_request ::
    "'w server_context \<Rightarrow> parsed_quote \<Rightarrow> quote_pricing \<Rightarrow> ('w server_state, string) ioe" where
  "sign_quote_for_request c pq pr =
     (if c_quote_format (sc_config c) = RateQuote
      then sign_rate_quote (sc_lib c) (sc_signer c)
             \<lparr>rq_fpc_address = sc_fpc_address c, rq_accepted_asset = pq_accepted_asset pq,
              rq_rate_num = pr_rate_num pr, rq_rate_den = pr_rate_den pr,
              rq_valid_until = pr_valid_until pr, rq_user_address = pq_user pq\<rparr>
      else sign_quote (sc_lib c) (sc_signer c)
             \<lparr>qp_fpc_address = sc_fpc_address c, qp_accepted_asset = pq_accepted_asset pq,
              qp_fj_fee_amount = pq_fj_amount pq, qp_aa_payment_amount = pr_aa_payment_amount pr,
              qp_valid_until = pr_valid_until pr, qp_user_address = pq_user pq\<rparr>)"

definition build_quote_response ::
    "config \<Rightarrow> asset_policy \<Rightarrow> int \<Rightarrow> quote_pricing \<Rightarrow> string \<Rightarrow> quote_response" where
  "build_quote_response cfg p fj pr sig =
     \<lparr>qr_accepted_asset = ap_address p, qr_fj_amount = bigint_string fj,
      qr_aa_payment_amount = bigint_string (pr_aa_payment_amount pr),
      qr_valid_until = bigint_string (pr_valid_until pr), qr_signature = sig,
      qr_rates = (if c_quote_format cfg = RateQuote
        then Some (bigint_string (pr_rate_num pr), bigint_string (pr_rate_den pr)) else None)\<rparr>"

section \<open>Observers\<close>

text \<open>\<open>createQuoteObserver\<close>: the closure keeps its start time and whether it has recorded.\<close>

record observer =
  ob_started_at_ns :: int
  ob_metrics_recorded :: bool

definition create_quote_observer :: "'w server_context \<Rightarrow> 'w server_state \<Rightarrow> observer" where
  "create_quote_observer c s = \<lparr>ob_started_at_ns = sc_hrtime c s, ob_metrics_recorded = False\<rparr>"

definition observe ::
    "'w server_context \<Rightarrow> quote_outcome \<Rightarrow> observer \<times> 'w server_state \<Rightarrow> observer \<times> 'w server_state" where
  "observe c oc st = (case st of (ob, s) \<Rightarrow>
     if ob_metrics_recorded ob then (ob, s)
     else (ob\<lparr>ob_metrics_recorded := True\<rparr>,
           s\<lparr>ss_metrics := observe_quote oc
               (of_int (sc_hrtime c s - ob_started_at_ns ob) / 1000000000) (ss_metrics s)\<rparr>))"

text \<open>A failing registration is logged and the quote goes on.\<close>

definition ensure_sender_registered ::
    "'w server_context \<Rightarrow> int \<Rightarrow> 'w server_state \<Rightarrow> 'w server_state" where
  "ensure_sender_registered c user s = (case sc_treasury c of
     None \<Rightarrow> s | Some tp \<Rightarrow> snd (tp_register_sender tp user s))"

section \<open>\<open>GET /quote\<close>\<close>

text \<open>The body of the handler's \<open>try\<close>.\<close>

definition issue_quote ::
    "'w server_context \<Rightarrow> parsed_quote \<Rightarrow> int \<Rightarrow> observer \<times> 'w server_state \<Rightarrow>
       (thrown + reply) \<times> observer \<times> 'w server_state" where
  "issue_quote c pq now st =
     (case compute_quote_pricing (pq_policy pq) (pq_fj_amount pq) now
             (valid_until_factory (sc_config c)) of
        Inl e \<Rightarrow> (Inl e, st)
      | Inr (Inl msg) \<Rightarrow> (Inr (reply_of 400 (bad_request msg)), observe c BadRequest st)
      | Inr (Inr pr) \<Rightarrow>
          (case sign_quote_for_request c pq pr
                  (ensure_sender_registered c (pq_user pq) (snd st)) of
             (Inl e, s) \<Rightarrow> (Inl e, fst st, s)
           | (Inr sig, s) \<Rightarrow>
               (Inr (reply_of 200 (QuoteBody (build_quote_response (sc_config c) (pq_policy pq)
                  (pq_fj_amount pq) pr sig))), observe c Success (fst st, s))))"

definition catch_internal ::
    "'w server_context \<Rightarrow> (thrown + reply) \<times> observer \<times> 'w server_state \<Rightarrow>
       (thrown + reply) \<times> 'w server_state" where
  "catch_internal c r = (case r of
     (Inl e, st) \<Rightarrow> (Inr (reply_of 500 internal_error_body), snd (observe c InternalError st))
   | (Inr rep, st) \<Rightarrow> (Inr rep, snd st))"

definition quote_handler ::
    "'w server_context \<Rightarrow> http_request \<Rightarrow> ('w server_state, reply) ioe" where
  "quote_handler c req s =
     (let ob = create_quote_observer c s in
      case sc_now_unix_seconds c s of
        (Inl e, s1) \<Rightarrow> (Inl e, s1)
      | (Inr now, s1) \<Rightarrow>
         if \<not> is_quote_authorized (sc_sha256 c) (sc_config c) (hr_headers req)
         then (Inr (reply_of 401 unauthorized), snd (observe c Unauthorized (ob, s1)))
         else case parse_quote_request (sc_lib c) (ss_store s1) (hr_query req) of
            Inl e \<Rightarrow> (Inl e, s1)
          | Inr (Inl msg) \<Rightarrow> (Inr (reply_of 400 (bad_request msg)), snd (observe c BadRequest (ob, s1)))
          | Inr (Inr pq) \<Rightarrow> catch_internal c (issue_quote c pq now (ob, s1)))"

section \<open>\<open>GET /cold-start-quote\<close>\<close>

definition issue_cold_start_quote ::
    "'w server_context \<Rightarrow> parsed_cold_start \<Rightarrow> int \<Rightarrow> observer \<times> 'w server_state \<Rightarrow>
       (thrown + reply) \<times> observer \<times> 'w server_state" where
  "issue_cold_start_quote c pq now st =
     (case compute_quote_pricing (pq_policy pq) (pq_fj_amount pq) now
             (valid_until_factory (sc_config c)) of
        Inl e \<Rightarrow> (Inl e, st)
      | Inr (Inl msg) \<Rightarrow> (Inr (reply_of 400 (bad_request msg)), observe c BadRequest st)
      | Inr (Inr pr) \<Rightarrow>
          if pq_claim_amount pq < pr_aa_payment_amount pr
          then (Inr (reply_of 400 (bad_request ''claim_amount must be >= aa_payment_amount'')),
                observe c BadRequest st)
          else
          (case sign_cold_start_quote (sc_lib c) (sc_signer c)
                  \<lparr>qp_fpc_address = sc_fpc_address c, qp_accepted_asset = pq_accepted_asset pq,
                   qp_fj_fee_amount = pq_fj_amount pq,
                   qp_aa_payment_amount = pr_aa_payment_amount pr,
                   qp_valid_until = pr_valid_until pr, qp_user_address = pq_user pq,
                   cs_claim_amount = pq_claim_amount pq,
                   cs_claim_secret_hash = pq_claim_secret_hash pq\<rparr>
                  (ensure_sender_registered c (sc_fpc_address c) (snd st)) of
             (Inl e, s) \<Rightarrow> (Inl e, fst st, s)
           | (Inr sig, s) \<Rightarrow>
               (Inr (reply_of 200 (ColdStartBody
                  \<lparr>cr_accepted_asset = ap_address (pq_policy pq),
                   cr_fj_amount = bigint_string (pq_fj_amount pq),
                   cr_aa_payment_amount = bigint_string (pr_aa_payment_amount pr),
                   cr_valid_until = bigint_string (pr_valid_until pr),
                   cr_claim_amount = bigint_string (pq_claim_amount pq),
                   cr_claim_secret_hash = fr_to_string (sc_lib c) (pq_claim_secret_hash pq),
                   cr_signature = sig\<rparr>)), observe c Success (fst st, s))))"

definition cold_start_quote_handler ::
    "'w server_context \<Rightarrow> http_request \<Rightarrow> ('w server_state, reply) ioe" where
  "cold_start_quote_handler c req s =
     (let ob = create_quote_observer c s in
      case sc_now_unix_seconds c s of
        (Inl e, s1) \<Rightarrow> (Inl e, s1)
      | (Inr now, s1) \<Rightarrow>
         if \<not> is_quote_authorized (sc_sha256 c) (sc_config c) (hr_headers req)
         then (Inr (reply_of 401 unauthorized), snd (observe c Unauthorized (ob, s1)))
         else case parse_cold_start_quote_request (sc_lib c) (ss_store s1) (hr_query req) of
            Inl e \<Rightarrow> (Inl e, s1)
          | Inr (Inl msg) \<Rightarrow> (Inr (reply_of 400 (bad_request msg)), snd (observe c BadRequest (ob, s1)))
          | Inr (Inr pq) \<Rightarrow> catch_internal c (issue_cold_start_quote c pq now (ob, s1)))"

section \<open>Public routes\<close>

definition build_supported_assets_for_discovery ::
    "(string \<Rightarrow> string \<Rightarrow> int) \<Rightarrow> policy_db \<Rightarrow> (string \<times> string) list" where
  "build_supported_assets_for_discovery cmp db =
     map (\<lambda>p. (ap_address p, ap_name p)) (store_get_all cmp db)"

definition discovery_handler :: "'w server_context \<Rightarrow> http_request \<Rightarrow> 'w server_state \<Rightarrow> reply" where
  "discovery_handler c req s = reply_of 200 (DiscoveryBody
     \<lparr>di_network_id = pc_network_id (c_parsed (sc_config c)),
      di_fpc_address = c_fpc_address (sc_config c),
      di_contract_variant = pc_contract_variant (c_parsed (sc_config c)),
      di_quote_base_url = resolve_quote_base_url (sc_config c) (hr_headers req) (hr_protocol req),
      di_supported_assets = build_supported_assets_for_discovery (sc_locale_compare c) (ss_store s)\<rparr>)"

definition health_handler :: reply where
  "health_handler = reply_of 200 HealthBody"

definition metrics_handler :: "'w server_context \<Rightarrow> 'w server_state \<Rightarrow> reply" where
  "metrics_handler c s = reply_of 200 (TextBody (render_prometheus (sc_print_number c) (ss_metrics s)))"

definition accepted_assets_handler :: "'w server_context \<Rightarrow> 'w server_state \<Rightarrow> reply" where
  "accepted_assets_handler c s = reply_of 200
     (AssetsBody (build_supported_assets_for_discovery (sc_locale_compare c) (ss_store s)))"

section \<open>Facts\<close>

lemma ceil_div_int: "0 < d \<Longrightarrow> (n + d - 1) div d = - ((- n) div (d::int))"
proof -
  assume d: "0 < d"
  define m k where "m = n div d" and "k = n mod d"
  then have n: "n = d * m + k" and k: "0 \<le> k" "k < d" using d by simp_all
  show ?thesis
  proof (cases "k = 0")
    case True
    with n have a: "- n = d * (- m) + 0" and b: "n + d - 1 = d * m + (d - 1)"
      by (simp_all add: algebra_simps)
    have "(- n) div d = - m" by (rule int_div_pos_eq [OF a]) (use d in auto)
    moreover have "(n + d - 1) div d = m" by (rule int_div_pos_eq [OF b]) (use d in auto)
    ultimately show ?thesis by simp
  next
    case False
    with n k have a: "- n = d * (- m - 1) + (d - k)" and b: "n + d - 1 = d * (m + 1) + (k - 1)"
      by (simp_all add: algebra_simps)
    have "(- n) div d = - m - 1" by (rule int_div_pos_eq [OF a]) (use k False in auto)
    moreover have "(n + d - 1) div d = m + 1" by (rule int_div_pos_eq [OF b]) (use k False in auto)
    ultimately show ?thesis by simp
  qed
qed

lemma ceil_div_exact:
  assumes "0 < d" "0 \<le> n"
  shows "ceil_div n d = Inr \<lceil>rat_of_int n / rat_of_int d\<rceil>"
proof -
  from assms have "\<bar>n + d - 1\<bar> = n + d - 1" "0 \<le> n + d - 1" by simp_all
  then have "ceil_div n d = Inr ((n + d - 1) div d)"
    using assms by (cases "n + d - 1 = 0") (simp_all add: ceil_div_def bigint_div_def)
  then show ?thesis using assms(1) by (simp add: ceil_div_int ceiling_divide_eq_div)
qed

text \<open>The exact price of \<open>fj\<close> under a policy.\<close>

definition exact_price :: "asset_policy \<Rightarrow> int \<Rightarrow> int" where
  "exact_price p fj = \<lceil>rat_of_int (fj * (market_rate_num p * (10000 + fee_bips p)))
                        / rat_of_int (market_rate_den p * 10000)\<rceil>"

lemma compute_quote_pricing_wf:
  assumes "policy_wf p" "0 < fj"
  shows "compute_quote_pricing p fj now vu =
    (if exact_price p fj \<le> U128_MAX
     then Inr (Inr \<lparr>pr_rate_num = market_rate_num p * (10000 + fee_bips p),
                   pr_rate_den = market_rate_den p * 10000, pr_valid_until = vu now,
                   pr_aa_payment_amount = exact_price p fj\<rparr>)
     else Inr (Inl ''Computed aa_payment_amount does not fit in u128''))"
    and "0 < exact_price p fj"
proof -
  let ?n = "fj * (market_rate_num p * (10000 + fee_bips p))" and ?d = "market_rate_den p * 10000"
  from assms have n: "0 < ?n" and d: "0 < ?d" by (simp_all add: policy_wf_def)
  then have "0 < rat_of_int ?n / rat_of_int ?d" by (simp only: of_int_0_less_iff zero_less_divide_iff) simp
  then show pos: "0 < exact_price p fj" unfolding exact_price_def by (simp only: zero_less_ceiling)
  have "ceil_div ?n ?d = Inr (exact_price p fj)"
    unfolding exact_price_def using ceil_div_exact [of ?d ?n] n d by simp
  then show "compute_quote_pricing p fj now vu =
    (if exact_price p fj \<le> U128_MAX
     then Inr (Inr \<lparr>pr_rate_num = market_rate_num p * (10000 + fee_bips p),
                   pr_rate_den = market_rate_den p * 10000, pr_valid_until = vu now,
                   pr_aa_payment_amount = exact_price p fj\<rparr>)
     else Inr (Inl ''Computed aa_payment_amount does not fit in u128''))"
    using pos by (simp add: compute_quote_pricing_def compute_final_rate_def Let_def is_u128_def)
qed

text \<open>A lookup of a printed address never throws.\<close>

lemma normalize_printed:
  "addresses_roundtrip lib \<Longrightarrow> address_from_string lib s = Inr a \<Longrightarrow>
     normalize_address lib (address_to_string lib a) = Inr (js_lower (address_to_string lib a))"
  by (auto simp: addresses_roundtrip_def normalize_address_def)

lemma store_wf_filed:
  "store_wf db \<Longrightarrow> db_get db k = Some p \<Longrightarrow>
     k = ap_address p \<and> policy_wf p \<and> db_get db (ap_address p) = Some p"
  using store_wf_get by fastforce

lemma parse_quote_request_ok:
  assumes "addresses_roundtrip lib" "store_wf db"
  shows "\<exists>r. parse_quote_request lib db query = Inr r \<and>
    (\<forall>pq. r = Inr pq \<longrightarrow> policy_wf (pq_policy pq) \<and> 0 < pq_fj_amount pq \<and>
       ap_address (pq_policy pq) = js_lower (address_to_string lib (pq_accepted_asset pq)) \<and>
       db_get db (ap_address (pq_policy pq)) = Some (pq_policy pq))"
proof (cases "quote_request_query_schema lib query")
  case (Inl es)
  then show ?thesis by (simp add: parse_quote_request_def)
next
  case (Inr q)
  then obtain s where "address_from_string lib s = Inr (q_accepted_asset q)" and fj: "1 \<le> q_fj_amount q"
    by (auto simp: quote_query_fields accepted_asset_field_def address_field_iff fj_amount_field_def u128_field_iff)
  then have n: "normalize_address lib (address_to_string lib (q_accepted_asset q)) =
      Inr (js_lower (address_to_string lib (q_accepted_asset q)))"
    using assms(1) by (blast intro: normalize_printed)
  show ?thesis using Inr n fj
    by (auto simp: parse_quote_request_def store_get_def split: option.splits
        dest: store_wf_filed [OF assms(2)])
qed

lemma parse_cold_start_ok:
  assumes "addresses_roundtrip lib" "store_wf db"
  shows "\<exists>r. parse_cold_start_quote_request lib db query = Inr r \<and>
    (\<forall>pq. r = Inr pq \<longrightarrow> policy_wf (pq_policy pq) \<and> 0 < pq_fj_amount pq \<and>
       ap_address (pq_policy pq) = js_lower (address_to_string lib (pq_accepted_asset pq)) \<and>
       db_get db (ap_address (pq_policy pq)) = Some (pq_policy pq))"
proof (cases "cold_start_quote_request_query_schema lib query")
  case (Inl es)
  then show ?thesis by (simp add: parse_cold_start_quote_request_def)
next
  case (Inr q)
  then obtain s where "address_from_string lib s = Inr (q_accepted_asset q)" and fj: "1 \<le> q_fj_amount q"
    by (auto simp: cold_start_query_fields accepted_asset_field_def address_field_iff fj_amount_field_def u128_field_iff)
  then have n: "normalize_address lib (address_to_string lib (q_accepted_asset q)) =
      Inr (js_lower (address_to_string lib (q_accepted_asset q)))"
    using assms(1) by (blast intro: normalize_printed)
  show ?thesis using Inr n fj
    by (auto simp: parse_cold_start_quote_request_def store_get_def split: option.splits
        dest: store_wf_filed [OF assms(2)])
qed

lemma compute_pricing_cases:
  assumes "policy_wf p" "0 < fj"
  obtains (fits) pr where "compute_quote_pricing p fj now vu = Inr (Inr pr)"
      "pr_aa_payment_amount pr = exact_price p fj" "pr_valid_until pr = vu now"
      "exact_price p fj \<le> U128_MAX"
  | (overflow) m where "compute_quote_pricing p fj now vu = Inr (Inl m)" "U128_MAX < exact_price p fj"
  using compute_quote_pricing_wf(1) [OF assms, of now vu] by (cases "exact_price p fj \<le> U128_MAX") auto

text \<open>The reply to a parsed and authorised request.\<close>

definition quote_reply :: "'w server_context \<Rightarrow> parsed_quote \<Rightarrow> int \<Rightarrow> 'w server_state \<Rightarrow> reply" where
  "quote_reply c pq now s1 =
     (let price = exact_price (pq_policy pq) (pq_fj_amount pq);
              until = now + c_quote_validity_seconds (sc_config c)
          in if U128_MAX < price
             then reply_of 400 (bad_request ''Computed aa_payment_amount does not fit in u128'')
             else case fst (sign_quote (sc_lib c) (sc_signer c)
                    \<lparr>qp_fpc_address = sc_fpc_address c, qp_accepted_asset = pq_accepted_asset pq,
                     qp_fj_fee_amount = pq_fj_amount pq, qp_aa_payment_amount = price,
                     qp_valid_until = until, qp_user_address = pq_user pq\<rparr>
                    (ensure_sender_registered c (pq_user pq) s1)) of
                 Inl e \<Rightarrow> reply_of 500 internal_error_body
               | Inr sig \<Rightarrow> reply_of 200 (QuoteBody
                   \<lparr>qr_accepted_asset = ap_address (pq_policy pq),
                    qr_fj_amount = bigint_string (pq_fj_amount pq),
                    qr_aa_payment_amount = bigint_string price, qr_valid_until = bigint_string until,
                    qr_signature = sig, qr_rates = None\<rparr>))"

definition cold_start_reply ::
    "'w server_context \<Rightarrow> parsed_cold_start \<Rightarrow> int \<Rightarrow> 'w server_state \<Rightarrow> reply" where
  "cold_start_reply c pq now s1 =
     (let price = exact_price (pq_policy pq) (pq_fj_amount pq);
              until = now + c_quote_validity_seconds (sc_config c)
          in if U128_MAX < price
             then reply_of 400 (bad_request ''Computed aa_payment_amount does not fit in u128'')
             else if pq_claim_amount pq < price
             then reply_of 400 (bad_request ''claim_amount must be >= aa_payment_amount'')
             else case fst (sign_cold_start_quote (sc_lib c) (sc_signer c)
                    \<lparr>qp_fpc_address = sc_fpc_address c, qp_accepted_asset = pq_accepted_asset pq,
                     qp_fj_fee_amount = pq_fj_amount pq, qp_aa_payment_amount = price,
                     qp_valid_until = until, qp_user_address = pq_user pq,
                     cs_claim_amount = pq_claim_amount pq,
                     cs_claim_secret_hash = pq_claim_secret_hash pq\<rparr>
                    (ensure_sender_registered c (sc_fpc_address c) s1)) of
                 Inl e \<Rightarrow> reply_of 500 internal_error_body
               | Inr sig \<Rightarrow> reply_of 200 (ColdStartBody
                   \<lparr>cr_accepted_asset = ap_address (pq_policy pq),
                    cr_fj_amount = bigint_string (pq_fj_amount pq),
                    cr_aa_payment_amount = bigint_string price, cr_valid_until = bigint_string until,
                    cr_claim_amount = bigint_string (pq_claim_amount pq),
                    cr_claim_secret_hash = fr_to_string (sc_lib c) (pq_claim_secret_hash pq),
                    cr_signature = sig\<rparr>))"

lemma issue_quote_reply:
  assumes fmt: "c_quote_format (sc_config c) = AmountQuote"
    and pq: "policy_wf (pq_policy pq)" "0 < pq_fj_amount pq"
  shows "\<exists>s'. catch_internal c (issue_quote c pq now (ob, s1)) = (Inr (quote_reply c pq now s1), s')"
proof (cases "U128_MAX < exact_price (pq_policy pq) (pq_fj_amount pq)")
  case True
  then show ?thesis
    by (simp add: quote_reply_def issue_quote_def catch_internal_def compute_quote_pricing_wf(1) [OF pq])
next
  case False
  obtain x s2 where x: "sign_quote (sc_lib c) (sc_signer c)
      \<lparr>qp_fpc_address = sc_fpc_address c, qp_accepted_asset = pq_accepted_asset pq,
       qp_fj_fee_amount = pq_fj_amount pq,
       qp_aa_payment_amount = exact_price (pq_policy pq) (pq_fj_amount pq),
       qp_valid_until = now + c_quote_validity_seconds (sc_config c), qp_user_address = pq_user pq\<rparr>
      (ensure_sender_registered c (pq_user pq) s1) = (x, s2)" by fastforce
  from False x show ?thesis
    by (cases x) (simp_all add: quote_reply_def issue_quote_def catch_internal_def compute_quote_pricing_wf(1) [OF pq]
        sign_quote_for_request_def build_quote_response_def valid_until_factory_def fmt)
qed

lemma issue_cold_start_reply:
  assumes pq: "policy_wf (pq_policy pq)" "0 < pq_fj_amount pq"
  shows "\<exists>s'. catch_internal c (issue_cold_start_quote c pq now (ob, s1)) = (Inr (cold_start_reply c pq now s1), s')"
proof (cases "U128_MAX < exact_price (pq_policy pq) (pq_fj_amount pq) \<or>
    pq_claim_amount pq < exact_price (pq_policy pq) (pq_fj_amount pq)")
  case True
  then show ?thesis
    by (auto simp: cold_start_reply_def issue_cold_start_quote_def catch_internal_def compute_quote_pricing_wf(1) [OF pq])
next
  case False
  obtain x s2 where x: "sign_cold_start_quote (sc_lib c) (sc_signer c)
      \<lparr>qp_fpc_address = sc_fpc_address c, qp_accepted_asset = pq_accepted_asset pq,
       qp_fj_fee_amount = pq_fj_amount pq,
       qp_aa_payment_amount = exact_price (pq_policy pq) (pq_fj_amount pq),
       qp_valid_until = now + c_quote_validity_seconds (sc_config c), qp_user_address = pq_user pq,
       cs_claim_amount = pq_claim_amount pq, cs_claim_secret_hash = pq_claim_secret_hash pq\<rparr>
      (ensure_sender_registered c (sc_fpc_address c) s1) = (x, s2)" by fastforce
  from False x show ?thesis
    by (cases x) (simp_all add: cold_start_reply_def issue_cold_start_quote_def catch_internal_def
        compute_quote_pricing_wf(1) [OF pq] valid_until_factory_def)
qed

section \<open>Properties\<close>

text \<open>
  C5. Pricing is exact: for a well-formed policy and a positive fee, the quoted amount is
  the rational price \<open>fj * num * (10000 + fee) / (den * 10000)\<close> rounded up to the next
  integer, the quote ends at what \<open>validUntil\<close> makes of the clock, and the only refusal is
  a price that does not fit in 128 bits. Division by zero and a zero price cannot occur.
\<close>

theorem pricing_exact:
  assumes "policy_wf p" "0 < fj"
  shows "compute_quote_pricing p fj now vu =
    (let price = \<lceil>rat_of_int (fj * (market_rate_num p * (10000 + fee_bips p)))
                  / rat_of_int (market_rate_den p * 10000)\<rceil>
     in if price < 2 ^ 128
        then Inr (Inr \<lparr>pr_rate_num = market_rate_num p * (10000 + fee_bips p),
                      pr_rate_den = market_rate_den p * 10000, pr_valid_until = vu now,
                      pr_aa_payment_amount = price\<rparr>)
        else Inr (Inl ''Computed aa_payment_amount does not fit in u128''))"
  using compute_quote_pricing_wf(1) [OF assms, of now vu]
  by (auto simp: Let_def exact_price_def U128_MAX_def)

lemma pricing_exact_witness:
  "compute_quote_pricing (demo_policy ''7'') 1000 5 (\<lambda>t. t + 300) =
     Inr (Inr \<lparr>pr_rate_num = 30300, pr_rate_den = 20000, pr_valid_until = 305, pr_aa_payment_amount = 1515\<rparr>)"
  using pricing_exact [OF demo_policy_wf, of 1000 "''7''" 5 "\<lambda>t. t + 300"]
  by (simp add: demo_policy_def)

text \<open>
  Authentication of quote requests: under a configuration that loading accepts, and if
  no other value collides with the digest of a configured secret, a request is authorised
  exactly when the mode is \<open>disabled\<close> or the headers of the mode hold the configured
  secrets themselves: the API key, the trusted upstream header, one of them, or both.
\<close>

theorem quote_authorized_iff:
  assumes "quote_auth_wf (c_quote_auth cfg)"
    and "\<And>e x. e \<in> {the (qa_api_key (c_quote_auth cfg)), the (qa_trusted_value (c_quote_auth cfg))} \<Longrightarrow>
            sha e = sha x \<Longrightarrow> e = x"
  shows "is_quote_authorized sha cfg hs \<longleftrightarrow>
    (let qa = c_quote_auth cfg;
         has_key = (hs (qa_api_key_header qa) = Some (HeaderString (the (qa_api_key qa))));
         has_trusted = (hs (the (qa_trusted_name qa)) = Some (HeaderString (the (qa_trusted_value qa))))
     in case qa_mode qa of
          ModeDisabled \<Rightarrow> True
        | ModeApiKey \<Rightarrow> has_key
        | ModeTrustedHeader \<Rightarrow> has_trusted
        | ModeApiKeyOrTrustedHeader \<Rightarrow> has_key \<or> has_trusted
        | ModeApiKeyAndTrustedHeader \<Rightarrow> has_key \<and> has_trusted)"
proof -
  let ?qa = "c_quote_auth cfg"
  have digest: "header_matches_secret sha v (Some e) \<longleftrightarrow> v = Some (HeaderString e)"
    if "e \<in> {the (qa_api_key ?qa), the (qa_trusted_value ?qa)}" "e \<noteq> []" for v e
    using assms(2) [OF that(1)] that(2)
    by (auto simp: header_matches_secret_def split: option.splits header_value.splits)
  show ?thesis
    using assms(1) digest
    by (cases "qa_mode ?qa")
      (auto simp: is_quote_authorized_def quote_auth_wf_def Let_def header_at_def truthy_def
        mode_needs_api_key_def mode_needs_trusted_header_def)
qed

text \<open>A server for evaluated examples: a fixed clock, and a signer that prints the hash.\<close>

definition demo_context :: "unit server_context" where
  "demo_context = \<lparr>sc_lib = demo_lib, sc_config = demo_config, sc_fpc_address = 5,
     sc_now_unix_seconds = (\<lambda>s. (Inr 1000, s)), sc_hrtime = (\<lambda>_. 0),
     sc_signer = (\<lambda>h s. (Inr (bigint_string h), s)), sc_treasury = None, sc_sha256 = (\<lambda>x. x),
     sc_locale_compare = (\<lambda>_ _. 0), sc_print_number = (\<lambda>_. [])\<rparr>"

definition demo_request :: http_request where
  "demo_request = \<lparr>hr_headers = (\<lambda>n. if n = ''x-api-key'' then Some (HeaderString ''key'')
        else if n = ''x-admin-api-key'' then Some (HeaderString ''adm'') else None),
     hr_query = JObject [(''user'', JString ''9''), (''accepted_asset'', JString ''7''),
       (''fj_amount'', JString ''1000''), (''claim_amount'', JString ''2000''),
       (''claim_secret_hash'', JString ''11'')],
     hr_body = JUndefined, hr_ip = ''::1'', hr_url = ''/quote'', hr_protocol = ''http''\<rparr>"

definition demo_state :: "unit server_state" where
  "demo_state = \<lparr>ss_metrics = new_metrics, ss_store = [(''7'', demo_policy ''7'')], ss_world = ()\<rparr>"

lemma demo_config_facts:
  "c_quote_format demo_config = AmountQuote" "qa_mode (c_quote_auth demo_config) = ModeApiKey"
  "qa_api_key (c_quote_auth demo_config) = Some ''key''" "qa_trusted_value (c_quote_auth demo_config) = None"
  by (simp_all add: demo_config_def demo_parsed_def)

lemma demo_validity: "c_quote_validity_seconds demo_config = 600"
  by (simp add: demo_config_def demo_parsed_def)

lemma demo_config_auth_wf: "quote_auth_wf (c_quote_auth demo_config)"
  by (simp add: demo_config_def quote_auth_wf_def mode_needs_api_key_def mode_needs_trusted_header_def)

lemma demo_context_simps [simp]:
  "sc_lib demo_context = demo_lib" "sc_config demo_context = demo_config" "sc_fpc_address demo_context = 5"
  "sc_now_unix_seconds demo_context st = (Inr 1000, st)" "sc_hrtime demo_context st = 0"
  "sc_signer demo_context h st = (Inr (bigint_string h), st)" "sc_treasury demo_context = None"
  "sc_sha256 demo_context = (\<lambda>x. x)"
  by (simp_all add: demo_context_def)

lemma demo_digits:
  "js_trim ''7'' = ''7''" "js_trim ''9'' = ''9''" "js_trim ''11'' = ''11''"
  "js_trim ''1000'' = ''1000''" "js_trim ''2000'' = ''2000''"
  "digits_only ''7''" "digits_only ''9''" "digits_only ''11''" "digits_only ''1000''" "digits_only ''2000''"
  "dec_value ''7'' = 7" "dec_value ''9'' = 9" "dec_value ''11'' = 11" "dec_value ''1000'' = 1000"
  "dec_value ''2000'' = 2000"
  by (simp_all add: js_trim_def is_space_def code_of_def dec_value_def digit_val_def digits_only_def is_digit_def)

lemma demo_normalize: "normalize_address demo_lib (bigint_string 7) = Inr ''7''"
  by code_simp

lemma demo_query:
  "cold_start_quote_request_query_schema demo_lib (hr_query demo_request) =
     Inr \<lparr>q_user = 9, q_accepted_asset = 7, q_fj_amount = 1000, q_claim_amount = 2000, q_claim_secret_hash = 11\<rparr>"
  "quote_request_query_schema demo_lib (hr_query demo_request) =
     Inr \<lparr>q_user = 9, q_accepted_asset = 7, q_fj_amount = 1000\<rparr>"
  by (simp_all add: cold_start_query_fields quote_query_fields user_field_def accepted_asset_field_def
      fj_amount_field_def claim_amount_field_def address_field_iff u128_field_iff hex_field_iff
      demo_request_def jfield_def demo_digits U128_MAX_def)

lemma demo_parses:
  "parse_quote_request demo_lib (ss_store demo_state) (hr_query demo_request) =
     Inr (Inr \<lparr>pq_user = 9, pq_accepted_asset = 7, pq_policy = demo_policy ''7'', pq_fj_amount = 1000\<rparr>)"
  "parse_cold_start_quote_request demo_lib (ss_store demo_state) (hr_query demo_request) =
     Inr (Inr \<lparr>pq_user = 9, pq_accepted_asset = 7, pq_policy = demo_policy ''7'', pq_fj_amount = 1000,
       pq_claim_amount = 2000, pq_claim_secret_hash = 11\<rparr>)"
  by (simp_all add: parse_quote_request_def parse_cold_start_quote_request_def demo_query store_get_def
      demo_normalize db_get_def demo_state_def)

lemma demo_authorized: "is_quote_authorized (\<lambda>x. x) demo_config (hr_headers demo_request)"
  by (simp add: is_quote_authorized_def demo_config_def demo_request_def header_matches_secret_def)

lemma demo_price: "exact_price (demo_policy ''7'') 1000 = 1515"
  by (simp add: exact_price_def demo_policy_def)

lemma quote_authorized_iff_witness:
  "is_quote_authorized (\<lambda>x. x) demo_config (hr_headers demo_request) \<longleftrightarrow>
    (let qa = c_quote_auth demo_config;
         has_key = (hr_headers demo_request (qa_api_key_header qa) = Some (HeaderString (the (qa_api_key qa))));
         has_trusted = (hr_headers demo_request (the (qa_trusted_name qa)) = Some (HeaderString (the (qa_trusted_value qa))))
     in case qa_mode qa of
          ModeDisabled \<Rightarrow> True
        | ModeApiKey \<Rightarrow> has_key
        | ModeTrustedHeader \<Rightarrow> has_trusted
        | ModeApiKeyOrTrustedHeader \<Rightarrow> has_key \<or> has_trusted
        | ModeApiKeyAndTrustedHeader \<Rightarrow> has_key \<and> has_trusted)"
  by (rule quote_authorized_iff [OF demo_config_auth_wf]) simp

text \<open>
  C6. The \<open>/quote\<close> handler on every branch (amount format, well-formed store, running
  clock). It always replies: 401 without the configured credentials; 400 with the message
  of the first invalid field, for an unsupported asset, or for a price above 128 bits; 500
  exactly when hashing or signing fails; otherwise 200 with the exact price, an expiry of
  the block time plus the configured validity, and the signature over just those values
  for that user and asset.
\<close>

theorem quote_handler_replies:
  assumes "c_quote_format (sc_config c) = AmountQuote" and "addresses_roundtrip (sc_lib c)"
    and "sc_now_unix_seconds c s = (Inr now, s1)" and "store_wf (ss_store s1)"
  shows "\<exists>rep s' r. quote_handler c req s = (Inr rep, s') \<and>
    parse_quote_request (sc_lib c) (ss_store s1) (hr_query req) = Inr r \<and>
    rep = (if \<not> is_quote_authorized (sc_sha256 c) (sc_config c) (hr_headers req)
      then reply_of 401 unauthorized
      else case r of
        Inl msg \<Rightarrow> reply_of 400 (bad_request msg)
      | Inr pq \<Rightarrow>
         (let price = exact_price (pq_policy pq) (pq_fj_amount pq);
              until = now + c_quote_validity_seconds (sc_config c)
          in if U128_MAX < price
             then reply_of 400 (bad_request ''Computed aa_payment_amount does not fit in u128'')
             else case fst (sign_quote (sc_lib c) (sc_signer c)
                    \<lparr>qp_fpc_address = sc_fpc_address c, qp_accepted_asset = pq_accepted_asset pq,
                     qp_fj_fee_amount = pq_fj_amount pq, qp_aa_payment_amount = price,
                     qp_valid_until = until, qp_user_address = pq_user pq\<rparr>
                    (ensure_sender_registered c (pq_user pq) s1)) of
                 Inl e \<Rightarrow> reply_of 500 internal_error_body
               | Inr sig \<Rightarrow> reply_of 200 (QuoteBody
                   \<lparr>qr_accepted_asset = ap_address (pq_policy pq),
                    qr_fj_amount = bigint_string (pq_fj_amount pq),
                    qr_aa_payment_amount = bigint_string price, qr_valid_until = bigint_string until,
                    qr_signature = sig, qr_rates = None\<rparr>)))"
proof -
  from parse_quote_request_ok [OF assms(2,4), of "hr_query req"] obtain r
    where r: "parse_quote_request (sc_lib c) (ss_store s1) (hr_query req) = Inr r"
      and wf: "\<And>pq. r = Inr pq \<Longrightarrow> policy_wf (pq_policy pq) \<and> 0 < pq_fj_amount pq" by blast
  have "\<exists>s'. quote_handler c req s = (Inr
      (if \<not> is_quote_authorized (sc_sha256 c) (sc_config c) (hr_headers req) then reply_of 401 unauthorized
       else case r of Inl msg \<Rightarrow> reply_of 400 (bad_request msg) | Inr pq \<Rightarrow> quote_reply c pq now s1), s')"
    using wf issue_quote_reply [OF assms(1), of _ now "create_quote_observer c s" s1]
    by (cases r) (simp_all add: quote_handler_def assms(3) r Let_def)
  then show ?thesis using r unfolding quote_reply_def by blast
qed

lemma quote_handler_replies_witness:
  "\<exists>rep s'. quote_handler demo_context demo_request demo_state = (Inr rep, s') \<and> re_status rep = 200"
  using quote_handler_replies [of demo_context demo_state 1000 demo_state demo_request] demo_parses demo_authorized
  by (auto simp: demo_context_simps demo_config_facts demo_addresses_roundtrip demo_state_def demo_store_wf
      demo_price U128_MAX_def sign_quote_def sign_hash_def compute_quote_hash_def Let_def demo_validity
      ensure_sender_registered_def)

text \<open>
  C7. The \<open>/cold-start-quote\<close> handler on every branch, like the quote handler's, with one
  more refusal: 400 when the claimed amount is below the price. A signature is given only
  over a price that the claim covers, and over the claim amount and secret hash too.
\<close>

theorem cold_start_handler_replies:
  assumes "addresses_roundtrip (sc_lib c)"
    and "sc_now_unix_seconds c s = (Inr now, s1)" and "store_wf (ss_store s1)"
  shows "\<exists>rep s' r. cold_start_quote_handler c req s = (Inr rep, s') \<and>
    parse_cold_start_quote_request (sc_lib c) (ss_store s1) (hr_query req) = Inr r \<and>
    rep = (if \<not> is_quote_authorized (sc_sha256 c) (sc_config c) (hr_headers req)
      then reply_of 401 unauthorized
      else case r of
        Inl msg \<Rightarrow> reply_of 400 (bad_request msg)
      | Inr pq \<Rightarrow>
         (let price = exact_price (pq_policy pq) (pq_fj_amount pq);
              until = now + c_quote_validity_seconds (sc_config c)
          in if U128_MAX < price
             then reply_of 400 (bad_request ''Computed aa_payment_amount does not fit in u128'')
             else if pq_claim_amount pq < price
             then reply_of 400 (bad_request ''claim_amount must be >= aa_payment_amount'')
             else case fst (sign_cold_start_quote (sc_lib c) (sc_signer c)
                    \<lparr>qp_fpc_address = sc_fpc_address c, qp_accepted_asset = pq_accepted_asset pq,
                     qp_fj_fee_amount = pq_fj_amount pq, qp_aa_payment_amount = price,
                     qp_valid_until = until, qp_user_address = pq_user pq,
                     cs_claim_amount = pq_claim_amount pq,
                     cs_claim_secret_hash = pq_claim_secret_hash pq\<rparr>
                    (ensure_sender_registered c (sc_fpc_address c) s1)) of
                 Inl e \<Rightarrow> reply_of 500 internal_error_body
               | Inr sig \<Rightarrow> reply_of 200 (ColdStartBody
                   \<lparr>cr_accepted_asset = ap_address (pq_policy pq),
                    cr_fj_amount = bigint_string (pq_fj_amount pq),
                    cr_aa_payment_amount = bigint_string price, cr_valid_until = bigint_string until,
                    cr_claim_amount = bigint_string (pq_claim_amount pq),
                    cr_claim_secret_hash = fr_to_string (sc_lib c) (pq_claim_secret_hash pq),
                    cr_signature = sig\<rparr>)))"
proof -
  from parse_cold_start_ok [OF assms(1,3), of "hr_query req"] obtain r
    where r: "parse_cold_start_quote_request (sc_lib c) (ss_store s1) (hr_query req) = Inr r"
      and wf: "\<And>pq. r = Inr pq \<Longrightarrow> policy_wf (pq_policy pq) \<and> 0 < pq_fj_amount pq" by blast
  have "\<exists>s'. cold_start_quote_handler c req s = (Inr
      (if \<not> is_quote_authorized (sc_sha256 c) (sc_config c) (hr_headers req) then reply_of 401 unauthorized
       else case r of Inl msg \<Rightarrow> reply_of 400 (bad_request msg) | Inr pq \<Rightarrow> cold_start_reply c pq now s1), s')"
    using wf issue_cold_start_reply [of _ c now "create_quote_observer c s" s1]
    by (cases r) (simp_all add: cold_start_quote_handler_def assms(2) r Let_def)
  then show ?thesis using r unfolding cold_start_reply_def by blast
qed

lemma cold_start_handler_replies_witness:
  "\<exists>rep s'. cold_start_quote_handler demo_context demo_request demo_state = (Inr rep, s') \<and> re_status rep = 200"
  using cold_start_handler_replies [of demo_context demo_state 1000 demo_state demo_request] demo_parses demo_authorized
  by (auto simp: demo_context_simps demo_config_facts demo_addresses_roundtrip demo_state_def demo_store_wf
      demo_price U128_MAX_def sign_cold_start_quote_def sign_hash_def compute_cold_start_quote_hash_def
      Let_def demo_validity ensure_sender_registered_def)

end
