(* ===== verification/Attest_Admin.thy ===== *)
theory Attest_Admin
  imports Attest_Server
begin

text \<open>
  The admin routes, the rate limit in front of the quote routes and the assembly of the
  server, \<open>services/attestation/src/server.ts\<close> (\<open>registerAdminRoutes\<close>,
  \<open>buildServer\<close>). The rate limiter is a plugin: its decision for a key is the argument
  \<open>limiter\<close> of \<open>serve\<close>; which key it is asked for, what a refusal records and
  answers is the code's.
\<close>

section \<open>Asset policies\<close>

definition parse_admin_asset_policy :: "aztec_lib \<Rightarrow> string \<Rightarrow> jsval \<Rightarrow> thrown + asset_policy" where
  "parse_admin_asset_policy lib asset_address body =
     (case admin_asset_address_schema lib (JString asset_address) of
        Inl es \<Rightarrow> Inl (error (hd es))
      | Inr a \<Rightarrow>
          if (case body of JObject _ \<Rightarrow> False | JArray _ \<Rightarrow> False | _ \<Rightarrow> True)
          then Inl (error ''Missing request body'')
          else (case admin_asset_policy_body_schema body of
             Inl es \<Rightarrow> Inl (error (hd es))
           | Inr b \<Rightarrow> Inr \<lparr>ap_address = address_to_string lib a, ap_name = b_name b,
                 market_rate_num = b_market_rate_num b, market_rate_den = b_market_rate_den b,
                 fee_bips = b_fee_bips b\<rparr>))"

definition list_policies_handler ::
    "'w server_context \<Rightarrow> http_request \<Rightarrow> 'w server_state \<Rightarrow> reply" where
  "list_policies_handler c req s =
     (case require_admin_access (sc_sha256 c) (sc_config c) (hr_headers req) of
        Inl rep \<Rightarrow> rep
      | Inr _ \<Rightarrow> reply_of 200 (PoliciesBody (store_get_all (sc_locale_compare c) (ss_store s))))"

definition put_policy_handler ::
    "'w server_context \<Rightarrow> string \<Rightarrow> http_request \<Rightarrow> 'w server_state \<Rightarrow> reply \<times> 'w server_state" where
  "put_policy_handler c asset_address req s =
     (case require_admin_access (sc_sha256 c) (sc_config c) (hr_headers req) of
        Inl rep \<Rightarrow> (rep, s)
      | Inr _ \<Rightarrow>
         (case parse_admin_asset_policy (sc_lib c) asset_address (hr_body req) of
            Inl e \<Rightarrow> (reply_of 400 (bad_request (error_message e)), s)
          | Inr p \<Rightarrow>
             (case store_upsert (sc_lib c) p (ss_store s) of
                (Inl e, db) \<Rightarrow> (reply_of 400 (bad_request (error_message e)), s\<lparr>ss_store := db\<rparr>)
              | (Inr q, db) \<Rightarrow> (reply_of 200 (PolicyBody q), s\<lparr>ss_store := db\<rparr>))))"

definition remove_error_status :: "string \<Rightarrow> nat" where
  "remove_error_status m =
     (if m = ''Cannot remove the last supported asset'' then 409
      else if starts_with m ''Supported asset not found'' then 404 else 400)"

definition delete_policy_handler ::
    "'w server_context \<Rightarrow> string \<Rightarrow> http_request \<Rightarrow> 'w server_state \<Rightarrow> reply \<times> 'w server_state" where
  "delete_policy_handler c asset_address req s =
     (case require_admin_access (sc_sha256 c) (sc_config c) (hr_headers req) of
        Inl rep \<Rightarrow> (rep, s)
      | Inr _ \<Rightarrow>
         (case store_remove (sc_lib c) asset_address (ss_store s) of
            (Inl e, db) \<Rightarrow>
              (let m = error_message e; st = remove_error_status m in
               (reply_of st (if st = 409 then conflict m else bad_request m), s\<lparr>ss_store := db\<rparr>))
          | (Inr q, db) \<Rightarrow> (reply_of 200 (PolicyBody q), s\<lparr>ss_store := db\<rparr>)))"

section \<open>Treasury\<close>

definition no_treasury :: reply where
  "no_treasury = reply_of 503 (service_unavailable ''Operator treasury wallet is not configured'')"

definition policy_name_of :: "asset_policy list \<Rightarrow> string \<Rightarrow> string" where
  "policy_name_of ps addr = (case find (\<lambda>p. ap_address p = addr) ps of
     Some p \<Rightarrow> ap_name p | None \<Rightarrow> addr)"

definition operator_balances_handler ::
    "'w server_context \<Rightarrow> http_request \<Rightarrow> 'w server_state \<Rightarrow> reply \<times> 'w server_state" where
  "operator_balances_handler c req s =
     (case require_admin_access (sc_sha256 c) (sc_config c) (hr_headers req) of
        Inl rep \<Rightarrow> (rep, s)
      | Inr _ \<Rightarrow> (case sc_treasury c of
          None \<Rightarrow> (no_treasury, s)
        | Some tp \<Rightarrow>
            (let policies = store_get_all (sc_locale_compare c) (ss_store s) in
             case tp_get_private_balances tp (map ap_address policies) s of
               (Inl e, s') \<Rightarrow> (reply_of 500 internal_error_body, s')
             | (Inr bs, s') \<Rightarrow>
                 (reply_of 200 (BalancesBody (map (\<lambda>(a, b). (a, b, policy_name_of policies a)) bs)), s'))))"

definition parse_admin_sweep_request ::
    "aztec_lib \<Rightarrow> config \<Rightarrow> policy_db \<Rightarrow> jsval \<Rightarrow> thrown + (string \<times> int option \<times> string)" where
  "parse_admin_sweep_request lib cfg db body =
     (case admin_sweep_request_body_schema
             (if body = JUndefined \<or> body = JNull then JObject [] else body) of
        Inl es \<Rightarrow> Inl (error (hd es))
      | Inr b \<Rightarrow>
         and_then (store_get lib db (b_accepted_asset b)) (\<lambda>found.
         if found = None then Inl (error ''Unsupported accepted_asset'')
         else if truthy (b_destination b)
         then Inr (b_accepted_asset b, b_amount b, the (b_destination b))
         else if truthy (c_treasury_destination_address cfg)
         then Inr (b_accepted_asset b, b_amount b, the (c_treasury_destination_address cfg))
         else Inl (error ''Missing required field: destination'')))"

definition is_bad_sweep_request_error :: "string \<Rightarrow> bool" where
  "is_bad_sweep_request_error m \<longleftrightarrow>
     m = ''Missing required field: accepted_asset'' \<or>
     m = ''Unsupported accepted_asset'' \<or>
     m = ''Missing required field: destination'' \<or>
     m = ''Missing or invalid field: amount'' \<or>
     js_includes m ''exceeds operator private balance'' \<or>
     js_includes m ''must be greater than zero'' \<or>
     js_includes m ''destination must be''"

definition sweep_handler ::
    "'w server_context \<Rightarrow> http_request \<Rightarrow> 'w server_state \<Rightarrow> reply \<times> 'w server_state" where
  "sweep_handler c req s =
     (case require_admin_access (sc_sha256 c) (sc_config c) (hr_headers req) of
        Inl rep \<Rightarrow> (rep, s)
      | Inr _ \<Rightarrow> (case sc_treasury c of
          None \<Rightarrow> (no_treasury, s)
        | Some tp \<Rightarrow>
            (let attempt = bind_io (from_pure (parse_admin_sweep_request (sc_lib c) (sc_config c)
                     (ss_store s) (hr_body req)))
                   (\<lambda>(asset, amount, destination). tp_sweep tp asset amount destination)
             in case attempt s of
               (Inl e, s') \<Rightarrow>
                 (if is_bad_sweep_request_error (error_message e)
                  then reply_of 400 (bad_request (error_message e))
                  else reply_of 500 internal_error_body, s')
             | (Inr res, s') \<Rightarrow> (reply_of 200 (SweepBody res), s'))))"

section \<open>The server\<close>

datatype route =
    GetDiscovery
  | GetHealth
  | GetMetrics
  | GetAcceptedAssets
  | GetQuote
  | GetColdStartQuote
  | GetAssetPolicies
  | PutAssetPolicy string
  | DeleteAssetPolicy string
  | GetOperatorBalances
  | PostSweep

text \<open>Every route but the two quote routes carries \<open>NO_RATE_LIMIT\<close>.\<close>

definition rate_limited_route :: "route \<Rightarrow> bool" where
  "rate_limited_route r \<longleftrightarrow> r = GetQuote \<or> r = GetColdStartQuote"

definition on_exceeded :: "'w server_context \<Rightarrow> 'w server_state \<Rightarrow> 'w server_state" where
  "on_exceeded c s = snd (observe c RateLimited (create_quote_observer c s, s))"

definition run_route ::
    "'w server_context \<Rightarrow> route \<Rightarrow> http_request \<Rightarrow> ('w server_state, reply) ioe" where
  "run_route c r req s = (case r of
     GetDiscovery \<Rightarrow> (Inr (discovery_handler c req s), s)
   | GetHealth \<Rightarrow> (Inr health_handler, s)
   | GetMetrics \<Rightarrow> (Inr (metrics_handler c s), s)
   | GetAcceptedAssets \<Rightarrow> (Inr (accepted_assets_handler c s), s)
   | GetQuote \<Rightarrow> quote_handler c req s
   | GetColdStartQuote \<Rightarrow> cold_start_quote_handler c req s
   | GetAssetPolicies \<Rightarrow> (Inr (list_policies_handler c req s), s)
   | PutAssetPolicy a \<Rightarrow> (case put_policy_handler c a req s of (rep, s') \<Rightarrow> (Inr rep, s'))
   | DeleteAssetPolicy a \<Rightarrow> (case delete_policy_handler c a req s of (rep, s') \<Rightarrow> (Inr rep, s'))
   | GetOperatorBalances \<Rightarrow> (case operator_balances_handler c req s of (rep, s') \<Rightarrow> (Inr rep, s'))
   | PostSweep \<Rightarrow> (case sweep_handler c req s of (rep, s') \<Rightarrow> (Inr rep, s')))"

definition serve ::
    "(string \<Rightarrow> ('w server_state, bool) io) \<Rightarrow> 'w server_context \<Rightarrow> route \<Rightarrow> http_request \<Rightarrow>
       ('w server_state, reply) ioe" where
  "serve limiter c r req s =
     (if rate_limited_route r \<and> rl_enabled (c_quote_rate_limit (sc_config c))
      then (case limiter (fst (resolve_quote_rate_limit_identity (sc_sha256 c) (sc_config c)
                      (hr_headers req) (hr_ip req))) s of
              (exceeded, s1) \<Rightarrow>
                if exceeded then (Inr (reply_of 429 rate_limited), on_exceeded c s1)
                else run_route c r req s1)
      else run_route c r req s)"

text \<open>
  \<open>buildServer\<close> with the store of \<open>deps\<close> or, when there is none, a store opened on the
  database of the configured path.
\<close>

definition build_server ::
    "aztec_lib \<Rightarrow> config \<Rightarrow> 'w server_context \<Rightarrow> policy_db option \<Rightarrow> policy_db \<Rightarrow> 'w \<Rightarrow>
       thrown + ('w server_context \<times> 'w server_state)" where
  "build_server lib cfg deps provided_store disk w =
     and_then (case provided_store of Some db \<Rightarrow> Inr db
               | None \<Rightarrow> open_store lib (c_supported_assets cfg) disk) (\<lambda>db.
     and_then (address_from_string lib (c_fpc_address cfg)) (\<lambda>fpc.
     Inr (deps\<lparr>sc_lib := lib, sc_config := cfg, sc_fpc_address := fpc\<rparr>,
          \<lparr>ss_metrics = new_metrics, ss_store = db, ss_world = w\<rparr>)))"

section \<open>The store under any sequence of requests\<close>

text \<open>
  A dependency is quiet when an await on it leaves metrics and store alone: no other
  request is served meanwhile.
\<close>

definition quiet :: "('w server_state \<Rightarrow> 'r \<times> 'w server_state) \<Rightarrow> bool" where
  "quiet f \<longleftrightarrow> (\<forall>s. ss_metrics (snd (f s)) = ss_metrics s \<and> ss_store (snd (f s)) = ss_store s)"

definition quiet_context :: "'w server_context \<Rightarrow> bool" where
  "quiet_context c \<longleftrightarrow> quiet (sc_now_unix_seconds c) \<and> (\<forall>h. quiet (sc_signer c h)) \<and>
     (\<forall>tp. sc_treasury c = Some tp \<longrightarrow> (\<forall>a. quiet (tp_register_sender tp a)) \<and>
        (\<forall>xs. quiet (tp_get_private_balances tp xs)) \<and> (\<forall>a m d. quiet (tp_sweep tp a m d)))"

lemma observe_store [simp]: "ss_store (snd (observe c oc st)) = ss_store (snd st)"
  by (auto simp: observe_def split: prod.splits)

lemma observe_fresh:
  "\<not> ob_metrics_recorded ob \<Longrightarrow> ss_metrics (snd (observe c oc (ob, s))) =
     observe_quote oc (of_int (sc_hrtime c s - ob_started_at_ns ob) / 1000000000) (ss_metrics s)"
  by (simp add: observe_def)

lemma observe_recorded: "\<not> ob_metrics_recorded (fst st) \<Longrightarrow> ob_metrics_recorded (fst (observe c oc st))"
  by (auto simp: observe_def split: prod.splits)

lemma quietD: "quiet f \<Longrightarrow> f s = (r, s') \<Longrightarrow> ss_metrics s' = ss_metrics s \<and> ss_store s' = ss_store s"
  unfolding quiet_def by (metis snd_conv)

lemma sign_hash_quiet: "(\<And>h. quiet (signer h)) \<Longrightarrow> quiet (sign_hash signer r)"
  by (cases r) (auto simp: sign_hash_def quiet_def)

lemma sign_quote_for_request_quiet:
  "quiet_context c \<Longrightarrow> quiet (sign_quote_for_request c pq pr)"
  by (auto simp: quiet_context_def sign_quote_for_request_def sign_rate_quote_def sign_quote_def
      intro!: sign_hash_quiet)

lemma sign_cold_quiet: "quiet_context c \<Longrightarrow> quiet (sign_cold_start_quote lib (sc_signer c) p)"
  by (auto simp: quiet_context_def sign_cold_start_quote_def intro!: sign_hash_quiet)

lemma ensure_sender_quiet:
  assumes "quiet_context c"
  shows "ss_metrics (ensure_sender_registered c u s) = ss_metrics s"
    and "ss_store (ensure_sender_registered c u s) = ss_store s"
  using assms by (auto simp: ensure_sender_registered_def quiet_context_def quiet_def split: option.splits)

text \<open>The metrics outcome that a status code stands for.\<close>

definition outcome_of_status :: "nat \<Rightarrow> quote_outcome" where
  "outcome_of_status st = (if st = 200 then Success else if st = 400 then BadRequest
     else if st = 401 then Unauthorized else if st = 429 then RateLimited else InternalError)"

definition records_one :: "attestation_metrics \<Rightarrow> reply \<Rightarrow> attestation_metrics \<Rightarrow> bool" where
  "records_one m rep m' \<longleftrightarrow> (\<exists>d. m' = observe_quote (outcome_of_status (re_status rep)) d m)"

lemma records_observe:
  "\<not> ob_metrics_recorded ob \<Longrightarrow> ss_metrics s = m \<Longrightarrow> oc = outcome_of_status (re_status rep) \<Longrightarrow>
     records_one m rep (ss_metrics (snd (observe c oc (ob, s))))"
  by (auto simp: records_one_def observe_fresh)

lemma issue_quote_records:
  assumes q: "quiet_context c" and f: "\<not> ob_metrics_recorded ob"
    and r: "catch_internal c (issue_quote c pq now (ob, s)) = (Inr rep, s')"
  shows "records_one (ss_metrics s) rep (ss_metrics s') \<and> ss_store s' = ss_store s"
proof -
  let ?s = "ensure_sender_registered c (pq_user pq) s"
  note defs = issue_quote_def catch_internal_def
  note ob = records_observe [OF f] outcome_of_status_def
  show ?thesis
  proof (cases "compute_quote_pricing (pq_policy pq) (pq_fj_amount pq) now (valid_until_factory (sc_config c))")
    case (Inl e)
    with r show ?thesis by (auto simp: defs ob)
  next
    case (Inr p)
    show ?thesis
    proof (cases p)
      case (Inl m)
      with r Inr show ?thesis by (auto simp: defs ob)
    next
      case pr: (Inr pr)
      obtain x s2 where x: "sign_quote_for_request c pq pr ?s = (x, s2)" by fastforce
      from quietD [OF sign_quote_for_request_quiet [OF q] x] ensure_sender_quiet [OF q]
      have "ss_metrics s2 = ss_metrics s" "ss_store s2 = ss_store s" by simp_all
      with r Inr pr x show ?thesis by (cases x) (auto simp: defs ob)
    qed
  qed
qed

lemma issue_cold_records:
  assumes q: "quiet_context c" and f: "\<not> ob_metrics_recorded ob"
    and r: "catch_internal c (issue_cold_start_quote c pq now (ob, s)) = (Inr rep, s')"
  shows "records_one (ss_metrics s) rep (ss_metrics s') \<and> ss_store s' = ss_store s"
proof -
  let ?s = "ensure_sender_registered c (sc_fpc_address c) s"
  note defs = issue_cold_start_quote_def catch_internal_def
  note ob = records_observe [OF f] outcome_of_status_def
  show ?thesis
  proof (cases "compute_quote_pricing (pq_policy pq) (pq_fj_amount pq) now (valid_until_factory (sc_config c))")
    case (Inl e)
    with r show ?thesis by (auto simp: defs ob)
  next
    case (Inr p)
    show ?thesis
    proof (cases p)
      case (Inl m)
      with r Inr show ?thesis by (auto simp: defs ob)
    next
      case pr: (Inr pr)
      show ?thesis
      proof (cases "pq_claim_amount pq < pr_aa_payment_amount pr")
        case True
        with r Inr pr show ?thesis by (auto simp: defs ob)
      next
        case False
        obtain x s2 where x: "sign_cold_start_quote (sc_lib c) (sc_signer c)
            \<lparr>qp_fpc_address = sc_fpc_address c, qp_accepted_asset = pq_accepted_asset pq,
             qp_fj_fee_amount = pq_fj_amount pq, qp_aa_payment_amount = pr_aa_payment_amount pr,
             qp_valid_until = pr_valid_until pr, qp_user_address = pq_user pq,
             cs_claim_amount = pq_claim_amount pq, cs_claim_secret_hash = pq_claim_secret_hash pq\<rparr> ?s = (x, s2)"
          by fastforce
        from quietD [OF sign_cold_quiet [OF q] x] ensure_sender_quiet [OF q]
        have "ss_metrics s2 = ss_metrics s" "ss_store s2 = ss_store s" by simp_all
        with r Inr pr x False show ?thesis by (cases x) (auto simp: defs ob)
      qed
    qed
  qed
qed

lemma quote_handlers_record:
  assumes "quiet_context c"
    and "quote_handler c req s = (Inr rep, s') \<or> cold_start_quote_handler c req s = (Inr rep, s')"
  shows "records_one (ss_metrics s) rep (ss_metrics s') \<and> ss_store s' = ss_store s"
proof -
  let ?ob = "create_quote_observer c s"
  obtain n s1 where n: "sc_now_unix_seconds c s = (n, s1)" by fastforce
  have f: "\<not> ob_metrics_recorded ?ob" by (simp add: create_quote_observer_def)
  have "quiet (sc_now_unix_seconds c)" using assms(1) by (simp add: quiet_context_def)
  from quietD [OF this n] have k: "ss_metrics s1 = ss_metrics s" "ss_store s1 = ss_store s" by simp_all
  note hit = records_observe [OF f k(1)] outcome_of_status_def k
  from assms(2) show ?thesis
    using issue_quote_records [OF assms(1) f] issue_cold_records [OF assms(1) f]
    by (auto simp: quote_handler_def cold_start_quote_handler_def Let_def n hit
        split: sum.splits if_splits) (force simp: k)+
qed

lemma quote_handlers_throw:
  assumes "quiet_context c"
    and "quote_handler c req s = (Inl e, s') \<or> cold_start_quote_handler c req s = (Inl e, s')"
  shows "ss_metrics s' = ss_metrics s \<and> ss_store s' = ss_store s"
proof -
  obtain n s1 where n: "sc_now_unix_seconds c s = (n, s1)" by fastforce
  have "quiet (sc_now_unix_seconds c)" using assms(1) by (simp add: quiet_context_def)
  from quietD [OF this n] have k: "ss_metrics s1 = ss_metrics s" "ss_store s1 = ss_store s" by simp_all
  have "s' = s1" using assms(2)
    by (auto simp: quote_handler_def cold_start_quote_handler_def Let_def n catch_internal_def
        split: sum.splits prod.splits if_splits)
  with k show ?thesis by simp
qed

lemma treasury_routes_quiet:
  assumes "quiet_context c"
  shows "ss_metrics (snd (operator_balances_handler c req s)) = ss_metrics s"
    and "ss_store (snd (operator_balances_handler c req s)) = ss_store s"
    and "ss_metrics (snd (sweep_handler c req s)) = ss_metrics s"
    and "ss_store (snd (sweep_handler c req s)) = ss_store s"
  using assms
  by (auto simp: operator_balances_handler_def sweep_handler_def bind_io_def from_pure_def quiet_context_def
      quiet_def Let_def split_beta split: sum.split option.split)

text \<open>The outcomes that one served request adds to the metrics.\<close>

definition outcomes_of :: "route \<Rightarrow> thrown + reply \<Rightarrow> quote_outcome list" where
  "outcomes_of r rep = (case rep of
     Inl _ \<Rightarrow> [] | Inr rp \<Rightarrow> if rate_limited_route r then [outcome_of_status (re_status rp)] else [])"

lemma records_one_obs:
  "records_one m rep m' \<Longrightarrow> \<exists>obs. m' = observe_all obs m \<and> map fst obs = [outcome_of_status (re_status rep)]"
proof -
  assume "records_one m rep m'"
  then obtain d where "m' = observe_all [(outcome_of_status (re_status rep), d)] m"
    by (auto simp: records_one_def)
  then show ?thesis by fastforce
qed

lemma admin_routes_metrics:
  assumes "quiet_context c" "\<not> rate_limited_route r" "run_route c r req s = (rep, s')"
  shows "ss_metrics s' = ss_metrics s"
proof -
  from assms(2,3) treasury_routes_quiet [OF assms(1), of req s] show ?thesis
    by (auto simp: run_route_def rate_limited_route_def put_policy_handler_def delete_policy_handler_def
        Let_def split: route.splits prod.splits sum.splits)
qed

lemma run_route_observes:
  assumes "quiet_context c" "run_route c r req s = (rep, s')"
  shows "\<exists>obs. ss_metrics s' = observe_all obs (ss_metrics s) \<and> map fst obs = outcomes_of r rep"
proof (cases "rate_limited_route r")
  case False
  with admin_routes_metrics [OF assms(1) False assms(2)]
  have "ss_metrics s' = observe_all [] (ss_metrics s) \<and> map fst [] = outcomes_of r rep"
    by (simp add: outcomes_of_def split: sum.split)
  then show ?thesis by blast
next
  case True
  then have h: "quote_handler c req s = (rep, s') \<or> cold_start_quote_handler c req s = (rep, s')"
    using assms(2) by (auto simp: rate_limited_route_def run_route_def)
  show ?thesis
  proof (cases rep)
    case (Inl e)
    with quote_handlers_throw [OF assms(1)] h
    have "ss_metrics s' = observe_all [] (ss_metrics s) \<and> map fst [] = outcomes_of r rep"
      by (auto simp: outcomes_of_def)
    then show ?thesis by blast
  next
    case (Inr rp)
    with quote_handlers_record [OF assms(1)] h have "records_one (ss_metrics s) rp (ss_metrics s')" by blast
    from records_one_obs [OF this] show ?thesis using True Inr by (simp add: outcomes_of_def)
  qed
qed

lemma serve_observes:
  assumes "quiet_context c" "\<And>k. quiet (limiter k)" "serve limiter c r req s = (rep, s')"
  shows "\<exists>obs. ss_metrics s' = observe_all obs (ss_metrics s) \<and> map fst obs = outcomes_of r rep"
proof (cases "rate_limited_route r \<and> rl_enabled (c_quote_rate_limit (sc_config c))")
  case False
  with assms(3) have "run_route c r req s = (rep, s')" by (auto simp: serve_def)
  with run_route_observes [OF assms(1)] show ?thesis by blast
next
  case True
  let ?k = "fst (resolve_quote_rate_limit_identity (sc_sha256 c) (sc_config c) (hr_headers req) (hr_ip req))"
  obtain b s1 where b: "limiter ?k s = (b, s1)" by fastforce
  from quietD [OF assms(2) b] have k: "ss_metrics s1 = ss_metrics s" by simp
  show ?thesis
  proof (cases b)
    case False
    with assms(3) True b have "run_route c r req s1 = (rep, s')" by (simp add: serve_def)
    from run_route_observes [OF assms(1) this] k show ?thesis by simp
  next
    case exceeded: True
    with assms(3) True b have rep: "rep = Inr (reply_of 429 rate_limited)" and s': "s' = on_exceeded c s1"
      by (simp_all add: serve_def)
    have "records_one (ss_metrics s) (reply_of 429 rate_limited) (ss_metrics s')"
      unfolding s' on_exceeded_def
      by (rule records_observe) (simp_all add: create_quote_observer_def outcome_of_status_def k)
    from records_one_obs [OF this] show ?thesis using True rep by (simp add: outcomes_of_def)
  qed
qed

text \<open>A run of requests with their replies.\<close>

fun serve_all ::
    "(string \<Rightarrow> ('w server_state, bool) io) \<Rightarrow> 'w server_context \<Rightarrow> (route \<times> http_request) list \<Rightarrow>
       'w server_state \<Rightarrow> (route \<times> (thrown + reply)) list \<times> 'w server_state" where
  "serve_all limiter c [] s = ([], s)"
| "serve_all limiter c ((r, req) # rs) s =
     (case serve limiter c r req s of (rep, s1) \<Rightarrow>
      case serve_all limiter c rs s1 of (reps, s2) \<Rightarrow> ((r, rep) # reps, s2))"

definition outcomes_of_run :: "(route \<times> (thrown + reply)) list \<Rightarrow> quote_outcome list" where
  "outcomes_of_run reps = concat (map (\<lambda>(r, rep). outcomes_of r rep) reps)"

lemma observe_all_append: "observe_all (xs @ ys) m = observe_all ys (observe_all xs m)"
  by (induction xs arbitrary: m) auto

lemma serve_all_observes:
  assumes "quiet_context c" "\<And>k. quiet (limiter k)"
  shows "serve_all limiter c rs s = (reps, s') \<Longrightarrow>
    \<exists>obs. ss_metrics s' = observe_all obs (ss_metrics s) \<and> map fst obs = outcomes_of_run reps"
proof (induction rs arbitrary: s reps)
  case Nil
  then have "ss_metrics s' = observe_all [] (ss_metrics s) \<and> map fst [] = outcomes_of_run reps"
    by (simp add: outcomes_of_run_def)
  then show ?case by blast
next
  case (Cons p rs)
  obtain r req where p: "p = (r, req)" by (cases p)
  obtain rep s1 where 1: "serve limiter c r req s = (rep, s1)" by fastforce
  obtain reps' s2 where 2: "serve_all limiter c rs s1 = (reps', s2)" by fastforce
  from Cons.prems have e: "reps = (r, rep) # reps'" "s2 = s'" by (simp_all add: p 1 2)
  from serve_observes [OF assms 1] obtain o1 where
    o1: "ss_metrics s1 = observe_all o1 (ss_metrics s)" "map fst o1 = outcomes_of r rep" by blast
  from Cons.IH [OF 2 [unfolded e]] obtain o2 where
    o2: "ss_metrics s' = observe_all o2 (ss_metrics s1)" "map fst o2 = outcomes_of_run reps'" by blast
  from o1 o2 e have "ss_metrics s' = observe_all (o1 @ o2) (ss_metrics s) \<and>
      map fst (o1 @ o2) = outcomes_of_run reps"
    by (simp add: observe_all_append outcomes_of_run_def)
  then show ?case by blast
qed

lemma durations_count: "length (durations_of oc obs) = count_list (map fst obs) oc"
  by (induction obs) (auto simp: durations_of_def)

text \<open>The admin routes act on the store as admin operations.\<close>

lemma put_policy_store:
  "\<exists>ops. ss_store (snd (put_policy_handler c a req s)) = run_admin_ops (sc_lib c) ops (ss_store s)"
proof -
  let ?s' = "snd (put_policy_handler c a req s)"
  have "ss_store ?s' = ss_store s \<or> (\<exists>p. ss_store ?s' = snd (store_upsert (sc_lib c) p (ss_store s)))"
    by (auto simp: put_policy_handler_def split_beta split: sum.split)
  then have "ss_store ?s' = run_admin_ops (sc_lib c) [] (ss_store s) \<or>
      (\<exists>p. ss_store ?s' = run_admin_ops (sc_lib c) [Upsert p] (ss_store s))"
    by (simp add: run_admin_op_def)
  then show ?thesis by blast
qed

lemma delete_policy_store:
  "\<exists>ops. ss_store (snd (delete_policy_handler c a req s)) = run_admin_ops (sc_lib c) ops (ss_store s)"
proof -
  let ?s' = "snd (delete_policy_handler c a req s)"
  have "ss_store ?s' = ss_store s \<or> ss_store ?s' = snd (store_remove (sc_lib c) a (ss_store s))"
    by (auto simp: delete_policy_handler_def Let_def split_beta split: sum.split)
  then have "ss_store ?s' = run_admin_ops (sc_lib c) [] (ss_store s) \<or>
      ss_store ?s' = run_admin_ops (sc_lib c) [Remove a] (ss_store s)"
    by (simp add: run_admin_op_def)
  then show ?thesis by blast
qed

lemma run_route_store:
  assumes "quiet_context c" "run_route c r req s = (rep, s')"
  shows "\<exists>ops. ss_store s' = run_admin_ops (sc_lib c) ops (ss_store s)"
proof -
  have same: "\<exists>ops. t = run_admin_ops (sc_lib c) ops t" for t
    by (rule exI [of _ "[]"]) simp
  have q: "ss_store (snd (quote_handler c req s)) = ss_store s"
    "ss_store (snd (cold_start_quote_handler c req s)) = ss_store s"
    using quote_handlers_record [OF assms(1), of req s] quote_handlers_throw [OF assms(1), of req s]
    by (metis prod.collapse sum.exhaust)+
  show ?thesis
    using assms(2) treasury_routes_quiet [OF assms(1), of req s] q put_policy_store [of c _ req s] delete_policy_store [of c _ req s] same
    by (cases r) (auto simp: run_route_def split: prod.splits, (metis snd_conv)+)
qed

lemma serve_store:
  assumes "quiet_context c" "\<And>k. quiet (limiter k)" "serve limiter c r req s = (rep, s')"
  shows "\<exists>ops. ss_store s' = run_admin_ops (sc_lib c) ops (ss_store s)"
proof -
  let ?k = "fst (resolve_quote_rate_limit_identity (sc_sha256 c) (sc_config c) (hr_headers req) (hr_ip req))"
  obtain b s1 where b: "limiter ?k s = (b, s1)" by fastforce
  from quietD [OF assms(2) b] have k: "ss_store s1 = ss_store s" by simp
  have "ss_store s' = run_admin_ops (sc_lib c) [] (ss_store s) \<or>
      run_route c r req s1 = (rep, s') \<or> run_route c r req s = (rep, s')"
    using assms(3) by (auto simp: serve_def b k on_exceeded_def split: if_splits)
  then show ?thesis using run_route_store [OF assms(1)] k by metis
qed

lemma run_admin_ops_append: "run_admin_ops lib (xs @ ys) db = run_admin_ops lib ys (run_admin_ops lib xs db)"
  by (induction xs arbitrary: db) auto

lemma serve_all_store:
  assumes "quiet_context c" "\<And>k. quiet (limiter k)"
  shows "serve_all limiter c rs s = (reps, s') \<Longrightarrow>
    \<exists>ops. ss_store s' = run_admin_ops (sc_lib c) ops (ss_store s)"
proof (induction rs arbitrary: s reps)
  case Nil
  then have "ss_store s' = run_admin_ops (sc_lib c) [] (ss_store s)" by simp
  then show ?case by blast
next
  case (Cons p rs)
  obtain r req where p: "p = (r, req)" by (cases p)
  obtain rep s1 where 1: "serve limiter c r req s = (rep, s1)" by fastforce
  obtain reps' s2 where 2: "serve_all limiter c rs s1 = (reps', s2)" by fastforce
  from Cons.prems have e: "s2 = s'" by (simp add: p 1 2)
  from serve_store [OF assms 1] Cons.IH [OF 2 [unfolded e]] show ?case
    by (metis run_admin_ops_append)
qed

section \<open>Properties\<close>

lemma demo_quiet: "quiet_context demo_context"
  by (simp add: quiet_context_def quiet_def demo_context_def)

lemma demo_limiter_quiet: "quiet ((\<lambda>k s. (k = ''ip:::1'', s)) k)"
  by (simp add: quiet_def)





definition admin_route :: "route \<Rightarrow> bool" where
  "admin_route r \<longleftrightarrow> (case r of GetAssetPolicies \<Rightarrow> True | PutAssetPolicy _ \<Rightarrow> True
     | DeleteAssetPolicy _ \<Rightarrow> True | GetOperatorBalances \<Rightarrow> True | PostSweep \<Rightarrow> True | _ \<Rightarrow> False)"

text \<open>
  C21. No admin route does anything for a caller without the admin key: the state of the
  server, the treasury's world included, is unchanged, and the reply is 503 when the admin
  API is disabled (then no header opens it) and 401 otherwise.
\<close>

theorem admin_requires_key:
  assumes "admin_route r"
    and "hs = hr_headers req (aa_api_key_header (c_admin_auth (sc_config c)))"
    and "\<not> (aa_enabled (c_admin_auth (sc_config c)) \<and>
            (\<exists>key h. aa_api_key (c_admin_auth (sc_config c)) = Some key \<and> key \<noteq> [] \<and>
               hs = Some (HeaderString h) \<and> sc_sha256 c key = sc_sha256 c h))"
  shows "serve limiter c r req s =
    (Inr (if aa_enabled (c_admin_auth (sc_config c)) then reply_of 401 unauthorized
          else reply_of 503 (service_unavailable ''Admin API is disabled'')), s)"
proof -
  have "\<not> is_admin_authorized (sc_sha256 c) (sc_config c) (hr_headers req)"
    using assms(2,3) by (auto simp: is_admin_authorized_def header_matches_secret_def
        split: option.splits header_value.splits)
  then have "require_admin_access (sc_sha256 c) (sc_config c) (hr_headers req) =
      Inl (if aa_enabled (c_admin_auth (sc_config c)) then reply_of 401 unauthorized
          else reply_of 503 (service_unavailable ''Admin API is disabled''))"
    by (simp add: require_admin_access_def)
  with assms(1) show ?thesis
    by (cases r) (simp_all add: admin_route_def serve_def rate_limited_route_def run_route_def
        list_policies_handler_def put_policy_handler_def delete_policy_handler_def
        operator_balances_handler_def sweep_handler_def)
qed

lemma admin_requires_key_witness:
  "serve (\<lambda>k s. (False, s)) demo_context PostSweep (demo_request\<lparr>hr_headers := (\<lambda>_. Some (HeaderString ''x''))\<rparr>) demo_state =
    (Inr (if aa_enabled (c_admin_auth (sc_config demo_context)) then reply_of 401 unauthorized
          else reply_of 503 (service_unavailable ''Admin API is disabled'')), demo_state)"
  by (rule admin_requires_key [OF _ refl]) (simp_all add: admin_route_def demo_config_def)

text \<open>
  Removing a policy with the admin key answers 200 with the removed policy, 409 for the
  last asset, 404 for an address without a policy and 400 for a malformed address; only the
  first changes the store, and it deletes exactly that key.
\<close>

theorem delete_policy_replies:
  assumes "is_admin_authorized (sc_sha256 c) (sc_config c) (hr_headers req)"
    and "store_wf (ss_store s)"
    and "\<And>e. address_from_string (sc_lib c) a = Inl e \<Longrightarrow>
            error_message e \<noteq> ''Cannot remove the last supported asset'' \<and>
            \<not> starts_with (error_message e) ''Supported asset not found''"
  shows "case delete_policy_handler c a req s of (rep, s') \<Rightarrow>
    (if length (ss_store s) = 1 then re_status rep = 409 \<and> s' = s
     else case normalize_address (sc_lib c) a of
       Inl e \<Rightarrow> re_status rep = 400 \<and> s' = s
     | Inr k \<Rightarrow> (case db_get (ss_store s) k of
         None \<Rightarrow> re_status rep = 404 \<and> s' = s
       | Some p \<Rightarrow> rep = reply_of 200 (PolicyBody p) \<and> s' = s\<lparr>ss_store := db_remove k (ss_store s)\<rparr>))"
proof -
  have acc: "require_admin_access (sc_sha256 c) (sc_config c) (hr_headers req) = Inr ()"
    using assms(1) by (simp add: require_admin_access_def is_admin_authorized_def)
  have len: "length (ss_store s) \<le> Suc 0 \<longleftrightarrow> length (ss_store s) = Suc 0"
    using assms(2) by (cases "ss_store s") (auto simp: store_wf_def)
  have bad: "remove_error_status (error_message e) = 400"
    if "normalize_address (sc_lib c) a = Inl e" for e
    using assms(3) that by (auto simp: remove_error_status_def normalize_address_def and_then_Inl_iff)
  have "remove_error_status (''Supported asset not found: '' @ k) = 404" for k
    by (simp add: remove_error_status_def starts_with_def)
  then show ?thesis using bad
    by (auto simp: delete_policy_handler_def acc store_remove_def len error_def remove_error_status_def Let_def
        split: sum.splits option.splits)
qed

lemma delete_policy_replies_witness:
  "case delete_policy_handler demo_context ''7'' demo_request demo_state of (rep, s') \<Rightarrow>
    re_status rep = 409 \<and> s' = demo_state"
  using delete_policy_replies [of demo_context demo_request demo_state "''7''"]
  by (simp add: demo_state_def demo_store_wf is_admin_authorized_def demo_config_def demo_request_def
      header_matches_secret_def digits_only_def is_digit_def code_of_def)

end
