(* ===== verification/Fpc_Contract.thy ===== *)
theory Fpc_Contract
  imports Prelude "HOL-Library.Countable"
begin

text \<open>
  The Noir contract \<open>FPCMultiAsset\<close> (\<open>contracts/fpc/src/main.nr\<close>), whose checks the
  attestation service and the SDK have to meet.

  Field elements are integers, \<open>u64\<close> and \<open>u128\<close> are words whose arithmetic fails on
  overflow as Noir's does. The private context is a record of what the two entrypoints
  read (caller, gas settings, phase, anchor timestamp) and write (nullifiers, fee payer,
  phase, expiration). The poseidon hash, the Schnorr verifier, the token contract and the
  L1 bridge are not in the repository's sources that run here: they are the fields of
  \<open>fpc_env\<close>. A failed assertion makes the private call unprovable, so it is \<open>Inl\<close>.
\<close>

type_synonym field = int
type_synonym u32 = "32 word"
type_synonym u64 = "64 word"
type_synonym u128 = "128 word"

definition fr_modulus :: int where
  "fr_modulus = 21888242871839275222246405745257275088548364400416034343698204186575808495617"

definition QUOTE_DOMAIN_SEPARATOR :: field where
  "QUOTE_DOMAIN_SEPARATOR = 0x465043"

definition COLD_START_QUOTE_DOMAIN_SEPARATOR :: field where
  "COLD_START_QUOTE_DOMAIN_SEPARATOR = 0x46504373"

definition MAX_QUOTE_TTL_SECONDS :: u64 where
  "MAX_QUOTE_TTL_SECONDS = 3600"

definition GRUMPKIN_CURVE_B :: field where
  "GRUMPKIN_CURVE_B = 17"

record fpc_config =
  operator :: field
  operator_pubkey_x :: field
  operator_pubkey_y :: field

record gas_settings =
  fee_per_da_gas :: u128
  fee_per_l2_gas :: u128
  da_gas :: u32
  l2_gas :: u32

record private_context =
  this_address :: field
  maybe_msg_sender :: "field option"
  ctx_gas :: gas_settings
  in_revertible_phase :: bool
  anchor_timestamp :: u64
  nullifiers :: "field list"
  is_fee_payer :: bool
  expiration_timestamp :: "u64 option"

record 'l fpc_env =
  authwit_hash :: "field list \<Rightarrow> field"
  assert_valid_signature :: "field \<times> field \<Rightarrow> nat list \<Rightarrow> nat list \<Rightarrow> thrown + unit"
  token_transfer :: "field \<Rightarrow> field \<Rightarrow> field \<Rightarrow> field \<Rightarrow> u128 \<Rightarrow> field \<Rightarrow> 'l \<Rightarrow> thrown + 'l"
  bridge_claim :: "field \<Rightarrow> field \<Rightarrow> field \<Rightarrow> u128 \<Rightarrow> field \<Rightarrow> field \<Rightarrow> 'l \<Rightarrow> thrown + 'l"

text \<open>
  \<open>token_transfer caller asset from to amount nonce\<close> is
  \<open>Token::at(asset).transfer_private_to_private\<close> and
  \<open>bridge_claim caller bridge recipient amount secret leaf\<close> is
  \<open>TokenBridge::at(bridge).claim_private\<close>, each on the ledger \<open>'l\<close>.
\<close>

definition u128_mul :: "u128 \<Rightarrow> u128 \<Rightarrow> thrown + u128" where
  "u128_mul a b = (if uint a * uint b < 2 ^ 128 then Inr (a * b)
     else Inl (error ''attempt to multiply with overflow''))"

definition u128_add :: "u128 \<Rightarrow> u128 \<Rightarrow> thrown + u128" where
  "u128_add a b = (if uint a + uint b < 2 ^ 128 then Inr (a + b)
     else Inl (error ''attempt to add with overflow''))"

text \<open>\<open>Field::to_be_bytes::<n>\<close>, also the layout of \<open>Fr.toBuffer()\<close>.\<close>

definition to_be_bytes :: "nat \<Rightarrow> field \<Rightarrow> nat list" where
  "to_be_bytes n x = rev (map (\<lambda>i. nat ((x div 256 ^ i) mod 256)) [0..<n])"

section \<open>Constructor\<close>

definition fpc_constructor ::
    "field \<Rightarrow> field \<Rightarrow> field \<Rightarrow> fpc_config option \<Rightarrow> thrown + fpc_config option" where
  "fpc_constructor op x y storage =
     and_then (require_that (op \<noteq> 0) (error ''invalid operator'')) (\<lambda>_.
     and_then (require_that ((y * y) mod fr_modulus = (x * x * x - GRUMPKIN_CURVE_B) mod fr_modulus)
       (error ''operator pubkey not on curve'')) (\<lambda>_.
     and_then (require_that (storage = None) (error ''PublicImmutable already initialized'')) (\<lambda>_.
     Inr (Some \<lparr>operator = op, operator_pubkey_x = x, operator_pubkey_y = y\<rparr>))))"

definition read_config :: "fpc_config option \<Rightarrow> thrown + fpc_config" where
  "read_config storage = (case storage of
     None \<Rightarrow> Inl (error ''Trying to read from uninitialized PublicImmutable'')
   | Some c \<Rightarrow> Inr c)"

section \<open>Quote checks\<close>

definition quote_preimage ::
    "field \<Rightarrow> field \<Rightarrow> u128 \<Rightarrow> u128 \<Rightarrow> u64 \<Rightarrow> field \<Rightarrow> field list" where
  "quote_preimage fpc asset fj aa until user =
     [QUOTE_DOMAIN_SEPARATOR, fpc, asset, uint fj, uint aa, uint until, user]"

definition cold_start_preimage ::
    "field \<Rightarrow> field \<Rightarrow> u128 \<Rightarrow> u128 \<Rightarrow> u64 \<Rightarrow> field \<Rightarrow> u128 \<Rightarrow> field \<Rightarrow> field list" where
  "cold_start_preimage fpc asset fj aa until user claim secret_hash =
     [COLD_START_QUOTE_DOMAIN_SEPARATOR, fpc, asset, uint fj, uint aa, uint until, user,
      uint claim, secret_hash]"

definition push_nullifier :: "field \<Rightarrow> private_context \<Rightarrow> private_context" where
  "push_nullifier h ctx = ctx\<lparr>nullifiers := nullifiers ctx @ [h]\<rparr>"

definition check_quote_window :: "u64 \<Rightarrow> private_context \<Rightarrow> thrown + private_context" where
  "check_quote_window until ctx =
     and_then (require_that (anchor_timestamp ctx \<le> until) (error ''quote expired'')) (\<lambda>_.
     and_then (require_that (until - anchor_timestamp ctx \<le> MAX_QUOTE_TTL_SECONDS)
       (error ''quote ttl too large'')) (\<lambda>_.
     Inr (ctx\<lparr>expiration_timestamp := Some until\<rparr>)))"

definition assert_valid_quote ::
    "'l fpc_env \<Rightarrow> field \<times> field \<Rightarrow> field \<Rightarrow> u128 \<Rightarrow> u128 \<Rightarrow> u64 \<Rightarrow> field \<Rightarrow> nat list
     \<Rightarrow> private_context \<Rightarrow> thrown + private_context" where
  "assert_valid_quote env pk asset fj aa until user sig ctx =
     (let h = authwit_hash env (quote_preimage (this_address ctx) asset fj aa until user) in
      and_then (assert_valid_signature env pk sig (to_be_bytes 32 h)) (\<lambda>_.
      check_quote_window until (push_nullifier h ctx)))"

definition assert_valid_cold_start_quote ::
    "'l fpc_env \<Rightarrow> field \<times> field \<Rightarrow> field \<Rightarrow> u128 \<Rightarrow> u128 \<Rightarrow> u64 \<Rightarrow> field \<Rightarrow> u128 \<Rightarrow> field
     \<Rightarrow> nat list \<Rightarrow> private_context \<Rightarrow> thrown + private_context" where
  "assert_valid_cold_start_quote env pk asset fj aa until user claim secret_hash sig ctx =
     (let h = authwit_hash env
        (cold_start_preimage (this_address ctx) asset fj aa until user claim secret_hash) in
      and_then (assert_valid_signature env pk sig (to_be_bytes 32 h)) (\<lambda>_.
      check_quote_window until (push_nullifier h ctx)))"

definition get_max_gas_cost :: "gas_settings \<Rightarrow> thrown + u128" where
  "get_max_gas_cost s =
     and_then (u128_mul (fee_per_da_gas s) (ucast (da_gas s))) (\<lambda>da.
     and_then (u128_mul (fee_per_l2_gas s) (ucast (l2_gas s))) (\<lambda>l2.
     u128_add da l2))"

section \<open>Entrypoints\<close>

definition enforces_setup :: "gas_settings \<Rightarrow> bool" where
  "enforces_setup s \<longleftrightarrow> 0 < fee_per_da_gas s \<or> 0 < fee_per_l2_gas s"

definition set_as_fee_payer :: "private_context \<Rightarrow> private_context" where
  "set_as_fee_payer ctx = ctx\<lparr>is_fee_payer := True\<rparr>"

definition close_setup :: "private_context \<Rightarrow> private_context" where
  "close_setup ctx =
     (if enforces_setup (ctx_gas ctx) \<or> \<not> in_revertible_phase ctx
      then ctx\<lparr>in_revertible_phase := True\<rparr> else ctx)"

definition fee_entrypoint ::
    "'l fpc_env \<Rightarrow> fpc_config option \<Rightarrow> field \<Rightarrow> field \<Rightarrow> u128 \<Rightarrow> u128 \<Rightarrow> u64 \<Rightarrow> nat list
     \<Rightarrow> private_context \<Rightarrow> 'l \<Rightarrow> thrown + (private_context \<times> 'l)" where
  "fee_entrypoint env storage asset nonce fj aa until sig ctx l =
     and_then (require_that (enforces_setup (ctx_gas ctx) \<longrightarrow> \<not> in_revertible_phase ctx)
       (error ''fee_entrypoint must run in setup phase'')) (\<lambda>_.
     and_then (read_config storage) (\<lambda>cfg.
     and_then (case maybe_msg_sender ctx of None \<Rightarrow> Inl (error ''unwrap of None'')
               | Some s \<Rightarrow> Inr s) (\<lambda>sender.
     and_then (assert_valid_quote env (operator_pubkey_x cfg, operator_pubkey_y cfg)
                 asset fj aa until sender sig ctx) (\<lambda>ctx1.
     and_then (get_max_gas_cost (ctx_gas ctx1)) (\<lambda>max_fee.
     and_then (require_that (fj = max_fee) (error ''quoted fee amount mismatch'')) (\<lambda>_.
     and_then (token_transfer env (this_address ctx1) asset sender (operator cfg) aa nonce l) (\<lambda>l1.
     Inr (close_setup (set_as_fee_payer ctx1), l1))))))))"

text \<open>
  \<open>cold_start_entrypoint\<close> in its two phases: the checks up to \<open>end_setup\<close>, then the
  claim and the two transfers of the revertible phase.
\<close>

definition cold_start_setup ::
    "'l fpc_env \<Rightarrow> fpc_config option \<Rightarrow> field \<Rightarrow> field \<Rightarrow> u128 \<Rightarrow> field \<Rightarrow> u128 \<Rightarrow> u128 \<Rightarrow> u64
     \<Rightarrow> nat list \<Rightarrow> private_context \<Rightarrow> thrown + (fpc_config \<times> private_context)" where
  "cold_start_setup env storage user asset claim secret_hash fj aa until sig ctx =
     and_then (require_that (maybe_msg_sender ctx = None) (error ''must be tx entrypoint'')) (\<lambda>_.
     and_then (require_that (enforces_setup (ctx_gas ctx) \<longrightarrow> \<not> in_revertible_phase ctx)
       (error ''cold_start_entrypoint must run in setup phase'')) (\<lambda>_.
     and_then (read_config storage) (\<lambda>cfg.
     and_then (require_that (aa \<le> claim) (error ''claim insufficient to cover fee'')) (\<lambda>_.
     and_then (assert_valid_cold_start_quote env (operator_pubkey_x cfg, operator_pubkey_y cfg)
                 asset fj aa until user claim secret_hash sig ctx) (\<lambda>ctx1.
     and_then (get_max_gas_cost (ctx_gas ctx1)) (\<lambda>max_fee.
     and_then (require_that (fj = max_fee) (error ''quoted fee amount mismatch'')) (\<lambda>_.
     Inr (cfg, close_setup (set_as_fee_payer ctx1)))))))))"

definition cold_start_app ::
    "'l fpc_env \<Rightarrow> fpc_config \<Rightarrow> field \<Rightarrow> field \<Rightarrow> field \<Rightarrow> u128 \<Rightarrow> field \<Rightarrow> field \<Rightarrow> u128
     \<Rightarrow> private_context \<Rightarrow> 'l \<Rightarrow> thrown + 'l" where
  "cold_start_app env cfg user asset bridge claim secret leaf aa ctx l =
     (let fpc = this_address ctx in
      and_then (bridge_claim env fpc bridge fpc claim secret leaf l) (\<lambda>l1.
      let user_amount = claim - aa in
      and_then (if 0 < user_amount
                then token_transfer env fpc asset fpc user user_amount 0 l1 else Inr l1) (\<lambda>l2.
      token_transfer env fpc asset fpc (operator cfg) aa 0 l2)))"

definition cold_start_entrypoint ::
    "'l fpc_env \<Rightarrow> fpc_config option \<Rightarrow> field \<Rightarrow> field \<Rightarrow> field \<Rightarrow> u128 \<Rightarrow> field \<Rightarrow> field \<Rightarrow> field
     \<Rightarrow> u128 \<Rightarrow> u128 \<Rightarrow> u64 \<Rightarrow> nat list \<Rightarrow> private_context \<Rightarrow> 'l
     \<Rightarrow> thrown + (private_context \<times> 'l)" where
  "cold_start_entrypoint env storage user asset bridge claim secret secret_hash leaf fj aa until
       sig ctx l =
     and_then (cold_start_setup env storage user asset claim secret_hash fj aa until sig ctx)
       (\<lambda>(cfg, ctx1).
     and_then (cold_start_app env cfg user asset bridge claim secret leaf aa ctx1 l) (\<lambda>l1.
     Inr (ctx1, l1)))"

section \<open>Facts\<close>

lemma u128_mul_iff: "u128_mul a b = Inr c \<longleftrightarrow> uint c = uint a * uint b"
proof -
  have "uint c < 2 ^ 128" using uint_lt2p [of c] by simp
  moreover have "0 \<le> uint a * uint b" by simp
  ultimately show ?thesis
    by (auto simp: u128_mul_def uint_word_ariths word_uint_eq_iff)
qed

lemma u128_add_iff: "u128_add a b = Inr c \<longleftrightarrow> uint c = uint a + uint b"
proof -
  have "uint c < 2 ^ 128" using uint_lt2p [of c] by simp
  moreover have "0 \<le> uint a + uint b" by simp
  ultimately show ?thesis
    by (auto simp: u128_add_def uint_word_ariths word_uint_eq_iff)
qed

lemma u128_mul_exists: "uint a * uint b < 2 ^ 128 \<Longrightarrow> \<exists>c. u128_mul a b = Inr c"
  by (simp add: u128_mul_def)

lemma uint_ucast_u32: "uint (ucast (x :: u32) :: u128) = uint x"
  by (simp add: unsigned_ucast_eq take_bit_int_eq_self uint_lt2p order_less_trans [OF uint_lt2p])

text \<open>The cost over the integers.\<close>

definition max_gas_cost :: "gas_settings \<Rightarrow> int" where
  "max_gas_cost s = uint (fee_per_da_gas s) * uint (da_gas s) + uint (fee_per_l2_gas s) * uint (l2_gas s)"

lemma get_max_gas_cost_iff: "get_max_gas_cost s = Inr m \<longleftrightarrow> uint m = max_gas_cost s"
proof
  assume "get_max_gas_cost s = Inr m"
  then show "uint m = max_gas_cost s"
    by (auto simp: get_max_gas_cost_def and_then_Inr_iff u128_mul_iff u128_add_iff max_gas_cost_def uint_ucast_u32)
next
  assume m: "uint m = max_gas_cost s"
  let ?da = "uint (fee_per_da_gas s) * uint (da_gas s)" and ?l2 = "uint (fee_per_l2_gas s) * uint (l2_gas s)"
  have b: "uint m < 2 ^ 128" using uint_lt2p [of m] by simp
  have "0 \<le> ?da" "0 \<le> ?l2" by simp_all
  with m b have "?da < 2 ^ 128" "?l2 < 2 ^ 128" unfolding max_gas_cost_def by linarith+
  then obtain x y where "u128_mul (fee_per_da_gas s) (ucast (da_gas s)) = Inr x"
    "u128_mul (fee_per_l2_gas s) (ucast (l2_gas s)) = Inr y"
    using u128_mul_exists uint_ucast_u32 by metis
  moreover from this m have "u128_add x y = Inr m"
    by (simp add: u128_mul_iff u128_add_iff max_gas_cost_def uint_ucast_u32)
  ultimately show "get_max_gas_cost s = Inr m" by (simp add: get_max_gas_cost_def)
qed

text \<open>What a successful quote check does to the context, and the window as integers.\<close>

definition with_quote :: "field \<Rightarrow> u64 \<Rightarrow> private_context \<Rightarrow> private_context" where
  "with_quote h until ctx = (push_nullifier h ctx)\<lparr>expiration_timestamp := Some until\<rparr>"

definition in_quote_window :: "u64 \<Rightarrow> u64 \<Rightarrow> bool" where
  "in_quote_window anchor until \<longleftrightarrow> uint anchor \<le> uint until \<and> uint until \<le> uint anchor + 3600"

lemma check_quote_window_iff:
  "check_quote_window until (push_nullifier h ctx) = Inr ctx' \<longleftrightarrow>
     in_quote_window (anchor_timestamp ctx) until \<and> ctx' = with_quote h until ctx"
proof -
  have "anchor_timestamp ctx \<le> until \<Longrightarrow>
      until - anchor_timestamp ctx \<le> 3600 \<longleftrightarrow> uint until \<le> uint (anchor_timestamp ctx) + 3600"
    by (auto simp: word_le_def uint_sub_if')
  then show ?thesis
    by (auto simp: check_quote_window_def and_then_Inr_iff require_that_def push_nullifier_def with_quote_def
        in_quote_window_def MAX_QUOTE_TTL_SECONDS_def word_le_def)
qed

lemma assert_valid_quote_iff:
  "assert_valid_quote env pk asset fj aa until user sig ctx = Inr ctx' \<longleftrightarrow>
     (let h = authwit_hash env (quote_preimage (this_address ctx) asset fj aa until user)
      in assert_valid_signature env pk sig (to_be_bytes 32 h) = Inr () \<and>
         in_quote_window (anchor_timestamp ctx) until \<and> ctx' = with_quote h until ctx)"
  by (auto simp: assert_valid_quote_def and_then_Inr_iff check_quote_window_iff Let_def)

lemma assert_valid_cold_start_quote_iff:
  "assert_valid_cold_start_quote env pk asset fj aa until user claim sh sig ctx = Inr ctx' \<longleftrightarrow>
     (let h = authwit_hash env (cold_start_preimage (this_address ctx) asset fj aa until user claim sh)
      in assert_valid_signature env pk sig (to_be_bytes 32 h) = Inr () \<and>
         in_quote_window (anchor_timestamp ctx) until \<and> ctx' = with_quote h until ctx)"
  by (auto simp: assert_valid_cold_start_quote_def and_then_Inr_iff check_quote_window_iff Let_def)

lemma with_quote_simps [simp]:
  "this_address (with_quote h u ctx) = this_address ctx" "ctx_gas (with_quote h u ctx) = ctx_gas ctx"
  "nullifiers (with_quote h u ctx) = nullifiers ctx @ [h]"
  "in_revertible_phase (with_quote h u ctx) = in_revertible_phase ctx"
  by (simp_all add: with_quote_def push_nullifier_def)

lemma read_config_iff: "read_config storage = Inr c \<longleftrightarrow> storage = Some c"
  by (simp add: read_config_def split: option.split)

lemma require_that_iff: "require_that b e = Inr u \<longleftrightarrow> b"
  by (simp add: require_that_def)

lemma close_setup_frame [simp]:
  "nullifiers (close_setup ctx) = nullifiers ctx" "this_address (close_setup ctx) = this_address ctx"
  "nullifiers (set_as_fee_payer ctx) = nullifiers ctx" "this_address (set_as_fee_payer ctx) = this_address ctx"
  by (simp_all add: close_setup_def set_as_fee_payer_def)

lemma cold_start_setup_iff:
  "cold_start_setup env storage user asset claim sh fj aa until sig ctx = Inr (cfg, ctx') \<longleftrightarrow>
     (let h = authwit_hash env (cold_start_preimage (this_address ctx) asset fj aa until user claim sh)
      in storage = Some cfg \<and> maybe_msg_sender ctx = None \<and>
         (enforces_setup (ctx_gas ctx) \<longrightarrow> \<not> in_revertible_phase ctx) \<and> aa \<le> claim \<and>
         assert_valid_signature env (operator_pubkey_x cfg, operator_pubkey_y cfg) sig (to_be_bytes 32 h) = Inr () \<and>
         in_quote_window (anchor_timestamp ctx) until \<and> uint fj = max_gas_cost (ctx_gas ctx) \<and>
         ctx' = close_setup (set_as_fee_payer (with_quote h until ctx)))"
  by (auto simp: cold_start_setup_def and_then_Inr_iff require_that_iff read_config_iff
      assert_valid_cold_start_quote_iff get_max_gas_cost_iff Let_def)

lemma fee_entrypoint_iff:
  "fee_entrypoint env storage asset nonce fj aa until sig ctx l = Inr (ctx', l') \<longleftrightarrow>
     (\<exists>cfg sender. let h = authwit_hash env (quote_preimage (this_address ctx) asset fj aa until sender) in
        storage = Some cfg \<and> maybe_msg_sender ctx = Some sender \<and>
        (enforces_setup (ctx_gas ctx) \<longrightarrow> \<not> in_revertible_phase ctx) \<and>
        assert_valid_signature env (operator_pubkey_x cfg, operator_pubkey_y cfg) sig (to_be_bytes 32 h) = Inr () \<and>
        in_quote_window (anchor_timestamp ctx) until \<and> uint fj = max_gas_cost (ctx_gas ctx) \<and>
        token_transfer env (this_address ctx) asset sender (operator cfg) aa nonce l = Inr l' \<and>
        ctx' = close_setup (set_as_fee_payer (with_quote h until ctx)))"
  by (cases "maybe_msg_sender ctx")
    (auto simp: fee_entrypoint_def and_then_Inr_iff require_that_iff read_config_iff assert_valid_quote_iff
      get_max_gas_cost_iff Let_def)

text \<open>
  The documented behaviour of the token and the bridge on a ledger with balances
  \<open>bal l asset owner\<close>: a transfer moves the amount in its asset, a transfer of one's own
  funds succeeds when the balance covers it, and a claim mints the amount in the token of
  the bridge for the recipient; nothing else changes.
\<close>

definition transfers_move :: "'l fpc_env \<Rightarrow> ('l \<Rightarrow> field \<Rightarrow> field \<Rightarrow> int) \<Rightarrow> bool" where
  "transfers_move env bal \<longleftrightarrow>
     (\<forall>c a f t m n l l'. token_transfer env c a f t m n l = Inr l' \<longrightarrow> (\<forall>b x. bal l' b x =
        bal l b x + (if b = a \<and> x = t then uint m else 0) - (if b = a \<and> x = f then uint m else 0)))"

definition own_transfers_succeed :: "'l fpc_env \<Rightarrow> ('l \<Rightarrow> field \<Rightarrow> field \<Rightarrow> int) \<Rightarrow> bool" where
  "own_transfers_succeed env bal \<longleftrightarrow>
     (\<forall>a f t m l. uint m \<le> bal l a f \<longrightarrow> (\<exists>l'. token_transfer env f a f t m 0 l = Inr l'))"

definition claims_mint ::
    "'l fpc_env \<Rightarrow> ('l \<Rightarrow> field \<Rightarrow> field \<Rightarrow> int) \<Rightarrow> (field \<Rightarrow> field) \<Rightarrow> bool" where
  "claims_mint env bal token_of \<longleftrightarrow>
     (\<forall>c br r m s i l l'. bridge_claim env c br r m s i l = Inr l' \<longrightarrow> (\<forall>b x. bal l' b x =
        bal l b x + (if b = token_of br \<and> x = r then uint m else 0)))"

lemma ledger_transfer:
  "transfers_move env bal \<Longrightarrow> token_transfer env c a f t m n l = Inr l' \<Longrightarrow>
     bal l' b x = bal l b x + (if b = a \<and> x = t then uint m else 0) - (if b = a \<and> x = f then uint m else 0)"
  unfolding transfers_move_def by blast

lemma own_transfer:
  assumes "own_transfers_succeed env bal" "uint m \<le> bal l a f"
  obtains l' where "token_transfer env f a f t m 0 l = Inr l'"
  using assms unfolding own_transfers_succeed_def by blast

lemma ledger_claim:
  "claims_mint env bal token_of \<Longrightarrow> bridge_claim env c br r m s i l = Inr l' \<Longrightarrow>
     bal l' b x = bal l b x + (if b = token_of br \<and> x = r then uint m else 0)"
  unfolding claims_mint_def by blast

lemma uint_diff_u128: "(a :: u128) \<le> b \<Longrightarrow> uint (b - a) = uint b - uint a"
  by (simp add: uint_sub_if' word_le_def)

lemma cold_start_app_balances:
  assumes laws: "transfers_move env bal" "claims_mint env bal token_of" and le: "aa \<le> claim"
    and run: "cold_start_app env cfg user asset br claim sec leaf aa ctx l = Inr l'"
  shows "bal l' b x = bal l b x +
      (if b = token_of br \<and> x = this_address ctx then uint claim else 0) -
      (if b = asset \<and> x = this_address ctx then uint claim else 0) +
      (if b = asset \<and> x = user then uint claim - uint aa else 0) +
      (if b = asset \<and> x = operator cfg then uint aa else 0)"
proof -
  let ?fpc = "this_address ctx"
  from run obtain l1 l2 where c: "bridge_claim env ?fpc br ?fpc claim sec leaf l = Inr l1"
    and u: "(if 0 < claim - aa then token_transfer env ?fpc asset ?fpc user (claim - aa) 0 l1 else Inr l1) = Inr l2"
    and o: "token_transfer env ?fpc asset ?fpc (operator cfg) aa 0 l2 = Inr l'"
    by (auto simp: cold_start_app_def and_then_Inr_iff Let_def)
  have "bal l2 b x = bal l1 b x + (if b = asset \<and> x = user then uint (claim - aa) else 0) -
      (if b = asset \<and> x = ?fpc then uint (claim - aa) else 0)"
  proof (cases "0 < claim - aa")
    case True
    with u show ?thesis using ledger_transfer [OF laws(1), of ?fpc asset ?fpc user "claim - aa" 0 l1 l2 b x] by simp
  next
    case False
    then have "claim - aa = 0" by (simp add: word_gt_0)
    with u False show ?thesis by simp
  qed
  with ledger_claim [OF laws(2) c, of b x] ledger_transfer [OF laws(1) o, of b x] uint_diff_u128 [OF le]
  show ?thesis by simp
qed

lemma cold_start_parts:
  "cold_start_entrypoint env storage user asset br claim sec sh leaf fj aa until sig ctx l = Inr (ctx', l') \<longleftrightarrow>
     (\<exists>cfg. cold_start_setup env storage user asset claim sh fj aa until sig ctx = Inr (cfg, ctx') \<and>
        cold_start_app env cfg user asset br claim sec leaf aa ctx' l = Inr l')"
  by (auto simp: cold_start_entrypoint_def and_then_Inr_iff split: prod.splits)

text \<open>A ledger of plain balances on which every signature verifies; bridge \<open>8\<close> claims nothing of value.\<close>

definition demo_fpc_env :: "(field \<Rightarrow> field \<Rightarrow> int) fpc_env" where
  "demo_fpc_env = \<lparr>authwit_hash = (\<lambda>xs. int (list_encode (map int_encode xs))),
     assert_valid_signature = (\<lambda>_ _ _. Inr ()),
     token_transfer = (\<lambda>c a f t m n l. if uint m \<le> l a f
        then Inr (\<lambda>b x. l b x + (if b = a \<and> x = t then uint m else 0) - (if b = a \<and> x = f then uint m else 0))
        else Inl (error ''Balance too low'')),
     bridge_claim = (\<lambda>c br r m s i l. Inr (\<lambda>b x. l b x + (if b = br \<and> x = r then uint m else 0)))\<rparr>"

definition demo_ctx :: "field option \<Rightarrow> private_context" where
  "demo_ctx sender = \<lparr>this_address = 5, maybe_msg_sender = sender,
     ctx_gas = \<lparr>fee_per_da_gas = 2, fee_per_l2_gas = 3, da_gas = 50, l2_gas = 300\<rparr>,
     in_revertible_phase = False, anchor_timestamp = 1000, nullifiers = [], is_fee_payer = False,
     expiration_timestamp = None\<rparr>"

definition demo_fpc_config :: fpc_config where
  "demo_fpc_config = \<lparr>operator = 4, operator_pubkey_x = 1, operator_pubkey_y = 2\<rparr>"

lemma demo_fpc_laws:
  "transfers_move demo_fpc_env (\<lambda>l. l)" "claims_mint demo_fpc_env (\<lambda>l. l) (\<lambda>br. br)"
  by (auto simp: transfers_move_def claims_mint_def demo_fpc_env_def split: if_splits)

lemma demo_cold_start_setup:
  "cold_start_setup demo_fpc_env (Some demo_fpc_config) 9 7 (2000 :: u128) 11 (1000 :: u128) 600 1600 sig (demo_ctx None) =
     Inr (demo_fpc_config, close_setup (set_as_fee_payer (with_quote
       (authwit_hash demo_fpc_env (cold_start_preimage 5 7 1000 600 1600 9 2000 11)) 1600 (demo_ctx None))))"
  by (simp add: cold_start_setup_iff Let_def demo_ctx_def max_gas_cost_def in_quote_window_def)
    (simp add: demo_fpc_env_def demo_fpc_config_def)

section \<open>Properties\<close>

text \<open>
  C8. \<open>fee_entrypoint\<close> accepts exactly: an initialised contract, a caller, the setup phase
  when gas has a price, a signature of the operator over the hash of domain, contract,
  asset, both amounts, expiry and the caller itself, an anchor time inside the last hour
  before the expiry, a fee amount equal to the maximal gas cost as an integer (no overflow),
  and the transfer of exactly the quoted amount from the caller to the operator. Then it
  pushes the quote hash as a nullifier, becomes fee payer and ends the setup phase.
\<close>

theorem fee_entrypoint_accepts_iff:
  "fee_entrypoint env storage asset nonce fj aa until sig ctx l = Inr (ctx', l') \<longleftrightarrow>
     (\<exists>cfg sender. let h = authwit_hash env [0x465043, this_address ctx, asset, uint fj, uint aa, uint until, sender] in
        storage = Some cfg \<and> maybe_msg_sender ctx = Some sender \<and>
        (0 < fee_per_da_gas (ctx_gas ctx) \<or> 0 < fee_per_l2_gas (ctx_gas ctx) \<longrightarrow> \<not> in_revertible_phase ctx) \<and>
        assert_valid_signature env (operator_pubkey_x cfg, operator_pubkey_y cfg) sig (to_be_bytes 32 h) = Inr () \<and>
        uint (anchor_timestamp ctx) \<le> uint until \<and> uint until \<le> uint (anchor_timestamp ctx) + 3600 \<and>
        uint fj = uint (fee_per_da_gas (ctx_gas ctx)) * uint (da_gas (ctx_gas ctx)) +
                  uint (fee_per_l2_gas (ctx_gas ctx)) * uint (l2_gas (ctx_gas ctx)) \<and>
        token_transfer env (this_address ctx) asset sender (operator cfg) aa nonce l = Inr l' \<and>
        ctx' = ctx\<lparr>nullifiers := nullifiers ctx @ [h], expiration_timestamp := Some until,
                   is_fee_payer := True, in_revertible_phase := True\<rparr>)"
proof -
  have close: "close_setup (set_as_fee_payer (with_quote h until ctx)) =
      ctx\<lparr>nullifiers := nullifiers ctx @ [h], expiration_timestamp := Some until,
          is_fee_payer := True, in_revertible_phase := True\<rparr>" for h
    by (cases ctx) (simp add: close_setup_def set_as_fee_payer_def with_quote_def push_nullifier_def)
  show ?thesis
    by (simp add: fee_entrypoint_iff max_gas_cost_def in_quote_window_def quote_preimage_def
        QUOTE_DOMAIN_SEPARATOR_def enforces_setup_def close Let_def)
qed

lemma fee_entrypoint_accepts_iff_witness:
  "\<exists>ctx' l'. fee_entrypoint demo_fpc_env (Some demo_fpc_config) 7 0 1000 600 1600 [] (demo_ctx (Some 9))
      (\<lambda>_ _. 800) = Inr (ctx', l') \<and> is_fee_payer ctx'"
  by (simp only: fee_entrypoint_accepts_iff) (simp add: demo_ctx_def demo_fpc_config_def demo_fpc_env_def Let_def)

text \<open>
  C13. The nullifier of a quote identifies it. Assume that the hash does not collide on
  quote preimages. Two accepted calls of \<open>fee_entrypoint\<close> push the same nullifier exactly
  when contract, asset, both amounts, expiry and caller agree, so one quote is used at most
  once and two quotes never block each other; and no call of \<open>cold_start_entrypoint\<close>
  pushes the nullifier of a \<open>fee_entrypoint\<close> call, so neither kind of quote replays as
  the other.
\<close>

theorem quote_nullifier_identifies_quote:
  assumes "\<And>x y. length x \<in> {7, 9} \<Longrightarrow> length y \<in> {7, 9} \<Longrightarrow> authwit_hash env x = authwit_hash env y \<Longrightarrow> x = y"
    and "maybe_msg_sender c1 = Some u1" "maybe_msg_sender c2 = Some u2"
    and "fee_entrypoint env st1 asset1 n1 fj1 aa1 t1 sig1 c1 l1 = Inr (d1, m1)"
    and "fee_entrypoint env st2 asset2 n2 fj2 aa2 t2 sig2 c2 l2 = Inr (d2, m2)"
    and "cold_start_entrypoint env st3 u3 asset3 br claim sec sh leaf fj3 aa3 t3 sig3 c3 l3 = Inr (d3, m3)"
  shows "(last (nullifiers d1) = last (nullifiers d2) \<longleftrightarrow>
      this_address c1 = this_address c2 \<and> asset1 = asset2 \<and> fj1 = fj2 \<and> aa1 = aa2 \<and> t1 = t2 \<and> u1 = u2) \<and>
    last (nullifiers d3) \<noteq> last (nullifiers d1)"
proof -
  have fee: "last (nullifiers d) = authwit_hash env (quote_preimage (this_address c) asset fj aa t u)"
    if "fee_entrypoint env st asset n fj aa t sig c l = Inr (d, m)" "maybe_msg_sender c = Some u"
    for st asset n fj aa t sig c l d m u
    using that by (auto simp: fee_entrypoint_def and_then_Inr_iff assert_valid_quote_iff Let_def)
  have cold: "last (nullifiers d3) = authwit_hash env (cold_start_preimage (this_address c3) asset3 fj3 aa3 t3 u3 claim sh)"
    using assms(6) by (auto simp: cold_start_entrypoint_def and_then_Inr_iff cold_start_setup_iff Let_def
        split: prod.splits)
  have "authwit_hash env (quote_preimage (this_address c1) asset1 fj1 aa1 t1 u1) =
        authwit_hash env (quote_preimage (this_address c2) asset2 fj2 aa2 t2 u2) \<longleftrightarrow>
      this_address c1 = this_address c2 \<and> asset1 = asset2 \<and> fj1 = fj2 \<and> aa1 = aa2 \<and> t1 = t2 \<and> u1 = u2"
    using assms(1) [of "quote_preimage (this_address c1) asset1 fj1 aa1 t1 u1"
        "quote_preimage (this_address c2) asset2 fj2 aa2 t2 u2"]
    by (auto simp: quote_preimage_def word_uint_eq_iff)
  moreover have "authwit_hash env (cold_start_preimage (this_address c3) asset3 fj3 aa3 t3 u3 claim sh) \<noteq>
      authwit_hash env (quote_preimage (this_address c1) asset1 fj1 aa1 t1 u1)"
    using assms(1) [of "cold_start_preimage (this_address c3) asset3 fj3 aa3 t3 u3 claim sh"
        "quote_preimage (this_address c1) asset1 fj1 aa1 t1 u1"]
    by (auto simp: quote_preimage_def cold_start_preimage_def)
  ultimately show ?thesis
    by (simp add: fee [OF assms(4,2)] fee [OF assms(5,3)] cold)
qed

lemma demo_hash_inj: "authwit_hash demo_fpc_env x = authwit_hash demo_fpc_env y \<Longrightarrow> x = y"
  by (simp add: demo_fpc_env_def) (metis inj_int_encode inj_map_eq_map list_encode_eq)

lemma demo_fee_entrypoint:
  "\<exists>d m. fee_entrypoint demo_fpc_env (Some demo_fpc_config) 7 n 1000 600 until sig (demo_ctx (Some 9)) (\<lambda>_ _. 800) = Inr (d, m)"
  if "until = 1600 \<or> until = 1700"
  using that by (auto simp: fee_entrypoint_iff Let_def in_quote_window_def max_gas_cost_def demo_ctx_def
      demo_fpc_config_def demo_fpc_env_def)

lemma quote_nullifier_identifies_quote_witness:
  "\<exists>d1 m1 d2 m2. fee_entrypoint demo_fpc_env (Some demo_fpc_config) 7 0 1000 600 1600 [] (demo_ctx (Some 9)) (\<lambda>_ _. 800) = Inr (d1, m1) \<and>
     fee_entrypoint demo_fpc_env (Some demo_fpc_config) 7 1 1000 600 1700 [] (demo_ctx (Some 9)) (\<lambda>_ _. 800) = Inr (d2, m2) \<and>
     last (nullifiers d1) \<noteq> last (nullifiers d2)"
proof -
  have "\<exists>d3 m3. cold_start_entrypoint demo_fpc_env (Some demo_fpc_config) 9 7 7 2000 1 11 0 1000 600 1600 []
      (demo_ctx None) (\<lambda>_ _. 0) = Inr (d3, m3)"
    by (simp add: cold_start_entrypoint_def demo_cold_start_setup cold_start_app_def)
      (simp add: demo_fpc_env_def demo_ctx_def demo_fpc_config_def)
  then show ?thesis
    using demo_fee_entrypoint [of 1600 0 "[]"] demo_fee_entrypoint [of 1700 1 "[]"]
      quote_nullifier_identifies_quote [of demo_fpc_env "demo_ctx (Some 9)" 9 "demo_ctx (Some 9)" 9, OF demo_hash_inj]
    by (fastforce simp: demo_ctx_def)
qed

text \<open>
  \<open>cold_start_entrypoint\<close> distributes the claim. With the behaviour of token and bridge
  stated by \<open>transfers_move\<close> and \<open>claims_mint\<close>, an accepted call credits the user with the claim less the quoted
  amount and the operator with the quoted amount; the contract itself gains and loses
  nothing when the bridge is the bridge of the accepted asset, but pays the whole claim
  from its own balance when it is another one, a case the entrypoint does not exclude.
\<close>

theorem cold_start_distributes_claim:
  assumes "transfers_move env bal" "claims_mint env bal token_of"
    and "cold_start_entrypoint env storage user asset br claim sec sh leaf fj aa until sig ctx l = Inr (ctx', l')"
  shows "\<exists>cfg. storage = Some cfg \<and> (\<forall>x. bal l' asset x = bal l asset x +
      (if x = user then uint claim - uint aa else 0) + (if x = operator cfg then uint aa else 0) -
      (if x = this_address ctx \<and> token_of br \<noteq> asset then uint claim else 0))"
proof -
  from assms(3) obtain cfg where s: "cold_start_setup env storage user asset claim sh fj aa until sig ctx = Inr (cfg, ctx')"
    and a: "cold_start_app env cfg user asset br claim sec leaf aa ctx' l = Inr l'" unfolding cold_start_parts by blast
  from s have c: "storage = Some cfg" "aa \<le> claim" "this_address ctx' = this_address ctx"
    by (auto simp: cold_start_setup_iff Let_def)
  show ?thesis using c cold_start_app_balances [OF assms(1,2) c(2) a, of asset] by auto
qed

lemma cold_start_distributes_claim_witness:
  "\<exists>ctx' l'. cold_start_entrypoint demo_fpc_env (Some demo_fpc_config) 9 7 7 2000 1 11 0 1000 600 1600 []
      (demo_ctx None) (\<lambda>_ _. 0) = Inr (ctx', l') \<and> l' 7 9 = 1400 \<and> l' 7 4 = 600 \<and> l' 7 5 = 0"
proof -
  let ?run = "cold_start_entrypoint demo_fpc_env (Some demo_fpc_config) 9 7 7 2000 1 11 0 1000 600 1600 []
      (demo_ctx None) (\<lambda>_ _. 0)"
  have "\<not> isl ?run"
    by (simp add: cold_start_entrypoint_def demo_cold_start_setup cold_start_app_def)
      (simp add: demo_fpc_env_def demo_ctx_def demo_fpc_config_def)
  then obtain ctx' l' where run: "?run = Inr (ctx', l')" by (cases ?run) auto
  from cold_start_distributes_claim [OF demo_fpc_laws run] run show ?thesis
    by (auto simp: demo_fpc_config_def demo_ctx_def)
qed

text \<open>
  C39. Nothing binds a cold-start quote to a deposit: the bridge, the claim secret and the
  leaf index are not in the signed preimage, and the claim secret is not compared with the
  signed hash. Any quote that passes the setup checks is accepted with a bridge that
  claims nothing, for every secret and leaf, as long as the contract holds the asset, and
  then the claim is paid out of the contract's own balance.
\<close>

theorem cold_start_bridge_not_bound:
  assumes "transfers_move env bal" "own_transfers_succeed env bal"
    and "cold_start_setup env storage user asset claim sh fj aa until sig ctx = Inr (cfg, ctx')"
    and "\<And>c r m s i l. bridge_claim env c br r m s i l = Inr l"
    and "user \<noteq> this_address ctx" "operator cfg \<noteq> this_address ctx"
    and "uint claim \<le> bal l asset (this_address ctx)"
  shows "\<exists>l'. cold_start_entrypoint env storage user asset br claim sec sh leaf fj aa until sig ctx l = Inr (ctx', l') \<and>
    bal l' asset (this_address ctx) = bal l asset (this_address ctx) - uint claim"
proof -
  let ?fpc = "this_address ctx"
  from assms(3) have le: "aa \<le> claim" and fpc: "this_address ctx' = ?fpc"
    by (auto simp: cold_start_setup_iff Let_def)
  have user_le: "uint (claim - aa) \<le> bal l asset ?fpc"
    using assms(7) uint_diff_u128 [OF le] uint_ge_0 [of aa] by linarith
  obtain lu where "token_transfer env ?fpc asset ?fpc user (claim - aa) 0 l = Inr lu"
    by (rule own_transfer [OF assms(2) user_le])
  then obtain l2 where u: "(if 0 < claim - aa then token_transfer env ?fpc asset ?fpc user (claim - aa) 0 l else Inr l) = Inr l2"
    by (cases "0 < claim - aa") simp_all
  have l2: "bal l2 asset ?fpc = bal l asset ?fpc - uint (claim - aa)"
  proof (cases "0 < claim - aa")
    case True
    with u ledger_transfer [OF assms(1), of ?fpc asset ?fpc user "claim - aa" 0 l l2 asset ?fpc] assms(5)
    show ?thesis by simp
  next
    case False
    then have "claim - aa = 0" by (simp add: word_gt_0)
    with u False show ?thesis by simp
  qed
  with assms(7) uint_diff_u128 [OF le] have "uint aa \<le> bal l2 asset ?fpc" by simp
  then obtain l' where o: "token_transfer env ?fpc asset ?fpc (operator cfg) aa 0 l2 = Inr l'"
    using own_transfer [OF assms(2)] by blast
  have "bal l' asset ?fpc = bal l asset ?fpc - uint claim"
    using ledger_transfer [OF assms(1) o, of asset ?fpc] l2 assms(6) uint_diff_u128 [OF le] by auto
  moreover have "cold_start_app env cfg user asset br claim sec leaf aa ctx' l = Inr l'"
    using u o by (simp add: cold_start_app_def fpc assms(4) Let_def)
  ultimately show ?thesis using assms(3) unfolding cold_start_parts by blast
qed

definition hostile_bridge_env :: "(field \<Rightarrow> field \<Rightarrow> int) fpc_env" where
  "hostile_bridge_env = demo_fpc_env\<lparr>bridge_claim := (\<lambda>c br r m s i l.
     if br = 8 then Inr l else bridge_claim demo_fpc_env c br r m s i l)\<rparr>"

lemma hostile_bridge_laws:
  "transfers_move hostile_bridge_env (\<lambda>l. l)" "own_transfers_succeed hostile_bridge_env (\<lambda>l. l)"
  "bridge_claim hostile_bridge_env c 8 r m s i l = Inr l"
  by (auto simp: transfers_move_def own_transfers_succeed_def hostile_bridge_env_def demo_fpc_env_def split: if_splits)

lemma cold_start_bridge_not_bound_witness:
  "\<exists>ctx' l'. cold_start_entrypoint hostile_bridge_env (Some demo_fpc_config) 9 7 8 2000 123 11 0 1000 600 1600 []
      (demo_ctx None) (\<lambda>b x. if x = 5 then 2500 else 0) = Inr (ctx', l') \<and> l' 7 5 = 500"
proof -
  let ?h = "authwit_hash demo_fpc_env (cold_start_preimage 5 7 1000 600 1600 9 2000 11)"
  have "cold_start_setup hostile_bridge_env (Some demo_fpc_config) 9 7 2000 11 1000 600 1600 [] (demo_ctx None) =
      Inr (demo_fpc_config, close_setup (set_as_fee_payer (with_quote ?h 1600 (demo_ctx None))))"
    using demo_cold_start_setup [of "[]"]
    by (simp add: cold_start_setup_iff Let_def hostile_bridge_env_def)
  from cold_start_bridge_not_bound [OF hostile_bridge_laws(1,2) this hostile_bridge_laws(3), of
      "\<lambda>b x. if x = 5 then 2500 else 0" 123 0]
  obtain l' where "cold_start_entrypoint hostile_bridge_env (Some demo_fpc_config) 9 7 8 2000 123 11 0 1000 600 1600 []
      (demo_ctx None) (\<lambda>b x. if x = 5 then 2500 else 0) =
      Inr (close_setup (set_as_fee_payer (with_quote ?h 1600 (demo_ctx None))), l')" "l' 7 5 = 500"
    by (auto simp: demo_ctx_def demo_fpc_config_def)
  then show ?thesis by blast
qed

end
