(* ===== verification/Sdk_Client.thy ===== *)
theory Sdk_Client
  imports Aztec_Lib Js_Values
begin

text \<open>
  The client SDK, \<open>sdk/src/payment-method.ts\<close> with the types of \<open>sdk/src/types.ts\<close>: the
  payment method of a deployed account and the cold start, with the quote requests, the
  parsing of the reply and the wait for the transaction.

  The node, the wallet, the PXE, \<open>fetch\<close>, the clock and the URL parser are the fields of
  \<open>sdk_env\<close>. The reply of the service is an untyped JSON value, as at run time. The calls
  of one \<open>Promise.all\<close> run in their order. \<open>waitForTx\<close> polls without a bound of its own,
  so it is a \<open>partial_function\<close>, and \<open>None\<close> means that it never returns.
\<close>

section \<open>Data\<close>

record gas =
  ga_da :: int
  ga_l2 :: int

record gas_fees =
  gf_da :: int
  gf_l2 :: int

text \<open>\<open>gs_priority_fees = None\<close> is the default of \<open>GasSettings.default\<close>.\<close>

record sdk_gas_settings =
  gs_gas_limits :: gas
  gs_teardown_gas_limits :: gas
  gs_max_fees :: gas_fees
  gs_priority_fees :: "gas_fees option"

datatype contract_call =
    FeeEntrypoint (fe_asset: int) (fe_nonce: int) (fe_fj: int) (fe_aa: int) (fe_until: int) (fe_sig: "nat list")
  | ColdStartEntrypoint (ce_user: int) (ce_asset: int) (ce_bridge: int) (ce_claim: int) (ce_secret: int)
      (ce_secret_hash: int) (ce_leaf: int) (ce_fj: int) (ce_aa: int) (ce_until: int) (ce_sig: "nat list")
  | TransferPrivateToPrivate int int int int

record function_call =
  fc_contract :: int
  fc_call :: contract_call

record auth_witness =
  aw_user :: int
  aw_caller :: int
  aw_call :: function_call

record execution_payload =
  ep_calls :: "function_call list"
  ep_auth_witnesses :: "auth_witness list"
  ep_fee_payer :: int

record tx_receipt =
  rc_mined :: bool
  rc_dropped :: bool
  rc_reverted :: bool
  rc_execution_result :: string
  rc_error :: string
  rc_fee :: "int option"
  rc_tx_hash :: string

record url =
  ur_origin :: string
  ur_pathname :: string
  ur_params :: "(string \<times> string) list"

record http_response =
  hp_status :: int
  hp_text :: "thrown + string"
  hp_json :: "thrown + jsval"

record 'w sdk_env =
  sd_lib :: aztec_lib
  sd_gas_add :: "gas \<Rightarrow> gas \<Rightarrow> gas"
  sd_get_contract :: "int \<Rightarrow> ('w, bool) ioe"
  sd_register_contract :: "int \<Rightarrow> int option \<Rightarrow> ('w, unit) ioe"
  sd_get_current_min_fees :: "('w, gas_fees) ioe"
  sd_parse_url :: "string \<Rightarrow> thrown + url"
  sd_fetch :: "url \<Rightarrow> ('w, http_response) ioe"
  sd_random_fr :: "('w, int) io"
  sd_encode_call :: "function_call \<Rightarrow> ('w, unit) ioe"
  sd_create_auth_wit :: "auth_witness \<Rightarrow> ('w, unit) ioe"
  sd_create_tx_request :: "execution_payload \<Rightarrow> sdk_gas_settings \<Rightarrow> ('w, unit) ioe"
  sd_prove_tx :: "execution_payload \<Rightarrow> sdk_gas_settings \<Rightarrow> int list \<Rightarrow> ('w, string) ioe"
  sd_send_tx :: "string \<Rightarrow> ('w, unit) ioe"
  sd_get_tx_receipt :: "string \<Rightarrow> ('w, tx_receipt) ioe"
  sd_now :: "'w \<Rightarrow> int"
  sd_sleep :: "int \<Rightarrow> 'w \<Rightarrow> 'w"

text \<open>
  A transaction is named by its hash: \<open>sd_prove_tx\<close> stands for \<open>proveTx\<close> and \<open>toTx\<close>,
  \<open>sd_create_tx_request\<close> for \<open>getChainInfo\<close> and \<open>createTxExecutionRequest\<close>.
\<close>

record fpc_client_config =
  fp_fpc_address :: int
  fp_operator :: int
  fp_attestation_base_url :: string

record create_payment_method_input =
  pi_user :: int
  pi_token_address :: int
  pi_estimated_gas :: "(gas \<times> gas) option"

record l2_bridge_claim =
  bc_claim_amount :: int
  bc_claim_secret :: int
  bc_claim_secret_hash :: int
  bc_message_leaf_index :: int

record execute_cold_start_input =
  ei_user_address :: int
  ei_token_address :: int
  ei_bridge_address :: int
  ei_bridge_claim :: l2_bridge_claim
  ei_tx_wait_timeout_ms :: "int option"

record payment_method =
  pm_fee_payer :: int
  pm_payload :: execution_payload
  pm_gas_settings :: sdk_gas_settings

record fpc_payment_method_result =
  fr_payment_method :: payment_method
  fr_nonce :: int
  fr_quote :: jsval

record cold_start_result =
  cs_tx_hash :: string
  cs_tx_fee :: int
  cs_fj_amount :: int
  cs_aa_payment_amount :: int
  cs_quote_valid_until :: int

definition COLD_START_MAX_ATTEMPTS :: nat where
  "COLD_START_MAX_ATTEMPTS = 3"

definition GAS_BUFFER :: gas where
  "GAS_BUFFER = \<lparr>ga_da = 5000, ga_l2 = 100000\<rparr>"

definition COLD_START_GAS_LIMITS :: gas where
  "COLD_START_GAS_LIMITS = \<lparr>ga_da = 5000, ga_l2 = 1000000\<rparr>"

definition TX_MINE_POLL_MS :: int where
  "TX_MINE_POLL_MS = 2000"

definition DEFAULT_TX_WAIT_TIMEOUT_MS :: int where
  "DEFAULT_TX_WAIT_TIMEOUT_MS = 180000"

definition EMPTY_GAS :: gas where
  "EMPTY_GAS = \<lparr>ga_da = 0, ga_l2 = 0\<rparr>"

definition EMPTY_FEES :: gas_fees where
  "EMPTY_FEES = \<lparr>gf_da = 0, gf_l2 = 0\<rparr>"

section \<open>JavaScript conversions of the reply\<close>

text \<open>Reading a property: \<open>null\<close> and \<open>undefined\<close> throw, other values have no such field.\<close>

definition js_get :: "jsval \<Rightarrow> string \<Rightarrow> thrown + jsval" where
  "js_get v k = (if v = JUndefined \<or> v = JNull
     then Inl (Thrown ''TypeError'' (''Cannot read properties of '' @ type_name v)) else Inr (jfield k v))"

text \<open>
  \<open>String(v)\<close> as far as \<open>BigInt\<close> can tell: a number that does not print as an integer
  prints as a text that \<open>BigInt\<close> rejects.
\<close>

fun js_text :: "jsval \<Rightarrow> string" and js_joined :: "jsval list \<Rightarrow> string" where
  "js_text JUndefined = ''undefined''"
| "js_text JNull = ''null''"
| "js_text (JBool b) = (if b then ''true'' else ''false'')"
| "js_text (JNum n) = (if is_integer n \<and> \<bar>number_value n\<bar> < 10 ^ 21 then bigint_string (number_value n) else ''NaN'')"
| "js_text (JString s) = s"
| "js_text (JArray vs) = js_joined vs"
| "js_text (JObject kvs) = ''[object Object]''"
| "js_joined [] = []"
| "js_joined (v # vs) = (if v = JUndefined \<or> v = JNull then [] else js_text v) @
     (if vs = [] then [] else '','' @ js_joined vs)"

definition radix_int :: "nat \<Rightarrow> string \<Rightarrow> int option" where
  "radix_int b ds = map_option floor (parse_radix b ds)"

text \<open>The grammar of \<open>BigInt(s)\<close>: blank, a radix literal, or decimal digits with a sign.\<close>

definition string_to_bigint :: "string \<Rightarrow> int option" where
  "string_to_bigint raw =
     (let s = js_trim raw; p = js_lower (take 2 s) in
      if s = [] then Some 0
      else if p = ''0x'' then radix_int 16 (drop 2 s)
      else if p = ''0o'' then radix_int 8 (drop 2 s)
      else if p = ''0b'' then radix_int 2 (drop 2 s)
      else case s of [] \<Rightarrow> None | c # r \<Rightarrow>
        if c = CHR ''-'' then (if digits_only r then Some (- dec_value r) else None)
        else if c = CHR ''+'' then (if digits_only r then Some (dec_value r) else None)
        else if digits_only s then Some (dec_value s) else None)"

definition js_bigint :: "jsval \<Rightarrow> thrown + int" where
  "js_bigint v = (case v of
     JUndefined \<Rightarrow> Inl (Thrown ''TypeError'' ''Cannot convert undefined to a BigInt'')
   | JNull \<Rightarrow> Inl (Thrown ''TypeError'' ''Cannot convert null to a BigInt'')
   | JBool b \<Rightarrow> Inr (if b then 1 else 0)
   | JNum n \<Rightarrow> if is_integer n then Inr (number_value n)
       else Inl (Thrown ''RangeError'' ''The number cannot be converted to a BigInt because it is not an integer'')
   | _ \<Rightarrow> (case string_to_bigint (js_text v) of
       Some i \<Rightarrow> Inr i
     | None \<Rightarrow> Inl (Thrown ''SyntaxError'' (''Cannot convert '' @ js_text v @ '' to a BigInt''))))"

text \<open>\<open>Buffer.from(s, "hex")\<close> stops at the first pair that is not hexadecimal.\<close>

fun hex_bytes :: "string \<Rightarrow> nat list" where
  "hex_bytes (a # b # r) = (if is_hex_digit a \<and> is_hex_digit b
     then (16 * radix_digit a + radix_digit b) # hex_bytes r else [])"
| "hex_bytes _ = []"

definition strip_0x :: "string \<Rightarrow> string" where
  "strip_0x s = (if starts_with s ''0x'' then drop 2 s else s)"

record quote_fields =
  qf_aa_payment_amount :: int
  qf_valid_until :: int
  qf_sig_bytes :: "nat list"

definition parse_quote_fields :: "jsval \<Rightarrow> thrown + quote_fields" where
  "parse_quote_fields quote =
     and_then (and_then (js_get quote ''aa_payment_amount'') js_bigint) (\<lambda>aa.
     and_then (and_then (js_get quote ''valid_until'') js_bigint) (\<lambda>until.
     and_then (js_get quote ''signature'') (\<lambda>sig.
     case sig of
       JString s \<Rightarrow> Inr \<lparr>qf_aa_payment_amount = aa, qf_valid_until = until, qf_sig_bytes = hex_bytes (strip_0x s)\<rparr>
     | _ \<Rightarrow> Inl (Thrown ''TypeError'' ''quote.signature.replace is not a function''))))"

section \<open>Quote requests\<close>

text \<open>\<open>URLSearchParams.set\<close>: the first occurrence takes the value, the others go.\<close>

fun params_set :: "string \<Rightarrow> string \<Rightarrow> (string \<times> string) list \<Rightarrow> (string \<times> string) list" where
  "params_set k v [] = [(k, v)]"
| "params_set k v ((k', v') # ps) =
     (if k' = k then (k, v) # [(a, b) \<leftarrow> ps. a \<noteq> k] else (k', v') # params_set k v ps)"

definition url_set :: "string \<Rightarrow> string \<Rightarrow> url \<Rightarrow> url" where
  "url_set k v u = u\<lparr>ur_params := params_set k v (ur_params u)\<rparr>"

definition ends_with :: "string \<Rightarrow> string \<Rightarrow> bool" where
  "ends_with s suffix = starts_with (rev s) (rev suffix)"

definition endpoint_path :: "string \<Rightarrow> string \<Rightarrow> string" where
  "endpoint_path endpoint pathname =
     (let normalized = rev (dropWhile (\<lambda>c. c = CHR ''/'') (rev pathname))
      in if ends_with normalized endpoint then normalized else normalized @ endpoint)"

definition quote_url :: "aztec_lib \<Rightarrow> int \<Rightarrow> int \<Rightarrow> int \<Rightarrow> url \<Rightarrow> url" where
  "quote_url lib user asset fj u =
     url_set ''fj_amount'' (bigint_string fj)
    (url_set ''accepted_asset'' (address_to_string lib asset)
    (url_set ''user'' (address_to_string lib user)
       (u\<lparr>ur_pathname := endpoint_path ''/quote'' (ur_pathname u)\<rparr>)))"

definition cold_start_quote_url :: "aztec_lib \<Rightarrow> int \<Rightarrow> int \<Rightarrow> int \<Rightarrow> int \<Rightarrow> int \<Rightarrow> url \<Rightarrow> url" where
  "cold_start_quote_url lib user asset fj claim secret_hash u =
     url_set ''claim_secret_hash'' (fr_to_string lib secret_hash)
    (url_set ''claim_amount'' (bigint_string claim)
    (url_set ''fj_amount'' (bigint_string fj)
    (url_set ''accepted_asset'' (address_to_string lib asset)
    (url_set ''user'' (address_to_string lib user)
       (u\<lparr>ur_pathname := endpoint_path ''/cold-start-quote'' (ur_pathname u)\<rparr>)))))"

definition response_ok :: "http_response \<Rightarrow> bool" where
  "response_ok r \<longleftrightarrow> 200 \<le> hp_status r \<and> hp_status r \<le> 299"

definition read_reply :: "string \<Rightarrow> http_response \<Rightarrow> thrown + jsval" where
  "read_reply what r =
     (if \<not> response_ok r
      then and_then (hp_text r) (\<lambda>body.
        Inl (error (what @ '' request failed ('' @ bigint_string (hp_status r) @ ''): '' @ body)))
      else hp_json r)"

definition fetch_quote :: "'w sdk_env \<Rightarrow> string \<Rightarrow> int \<Rightarrow> int \<Rightarrow> int \<Rightarrow> ('w, jsval) ioe" where
  "fetch_quote env base user asset fj =
     bind_io (from_pure (sd_parse_url env base)) (\<lambda>u.
     bind_io (sd_fetch env (quote_url (sd_lib env) user asset fj u)) (\<lambda>r.
     from_pure (read_reply ''Quote'' r)))"

definition fetch_cold_start_quote ::
    "'w sdk_env \<Rightarrow> string \<Rightarrow> int \<Rightarrow> int \<Rightarrow> int \<Rightarrow> int \<Rightarrow> int \<Rightarrow> ('w, jsval) ioe" where
  "fetch_cold_start_quote env base user asset fj claim secret_hash =
     bind_io (from_pure (sd_parse_url env base)) (\<lambda>u.
     bind_io (sd_fetch env (cold_start_quote_url (sd_lib env) user asset fj claim secret_hash u)) (\<lambda>r.
     from_pure (read_reply ''Cold-start quote'' r)))"

text \<open>What was printed is read back, and a parameter holds the last value it was set to.\<close>

lemma string_to_bigint_decimal:
  assumes "0 \<le> i"
  shows "string_to_bigint (bigint_string i) = Some i"
proof -
  let ?s = "bigint_string i"
  have d: "list_all is_digit ?s" "digits_only ?s" "js_trim ?s = ?s"
    using bigint_string_digits [OF assms] by (simp_all add: js_trim_digits)
  obtain c r where s: "?s = c # r" using d(2) by (cases ?s) (auto simp: digits_only_def)
  have c: "is_digit c" using d(1) s by simp
  then have "c \<noteq> CHR ''-''" "c \<noteq> CHR ''+''" by (auto simp: is_digit_def code_of_def)
  moreover have "js_lower (take 2 ?s) = take 2 ?s"
    using d(1) by (intro lower_digits) (auto simp: list_all_iff dest: in_set_takeD)
  moreover have "take 2 ?s \<notin> {''0x'', ''0o'', ''0b''}"
  proof (cases r)
    case Nil
    with s show ?thesis by simp
  next
    case (Cons b r')
    with d(1) s have "is_digit b" by simp
    then have "b \<notin> {CHR ''x'', CHR ''o'', CHR ''b''}" by (auto simp: is_digit_def code_of_def)
    with Cons s show ?thesis by simp
  qed
  ultimately show ?thesis
    using d s bigint_roundtrip [OF assms] by (auto simp: string_to_bigint_def Let_def)
qed

lemma js_bigint_decimal: "0 \<le> i \<Longrightarrow> js_bigint (JString (bigint_string i)) = Inr i"
  by (simp add: js_bigint_def string_to_bigint_decimal)

lemma params_set_same: "map_of (params_set k v ps) k = Some v"
  by (induction k v ps rule: params_set.induct) auto

lemma map_of_filter_other: "k' \<noteq> k \<Longrightarrow> map_of [(a, b) \<leftarrow> ps. a \<noteq> k] k' = map_of ps k'"
  by (induction ps) auto

lemma params_set_other: "k' \<noteq> k \<Longrightarrow> map_of (params_set k v ps) k' = map_of ps k'"
  by (induction k v ps rule: params_set.induct) (auto simp: map_of_filter_other)

section \<open>The payment method\<close>

text \<open>The dash in the message of a missing estimate, by its bytes in UTF-8.\<close>

definition EM_DASH :: string where
  "EM_DASH = map char_of [226, 128, 148 :: nat]"

definition compute_fj_amount :: "gas \<Rightarrow> gas_fees \<Rightarrow> int" where
  "compute_fj_amount limits fees = ga_da limits * gf_da fees + ga_l2 limits * gf_l2 fees"

definition attach_typed_contract :: "'w sdk_env \<Rightarrow> int \<Rightarrow> int option \<Rightarrow> ('w, int) ioe" where
  "attach_typed_contract env a secret_key =
     bind_io (sd_get_contract env a) (\<lambda>found.
     if \<not> found then throw_io (error (''Contract not found on node at '' @ address_to_string (sd_lib env) a))
     else bind_io (sd_register_contract env a secret_key) (\<lambda>_. return_io a))"

definition get_function_call :: "'w sdk_env \<Rightarrow> int \<Rightarrow> contract_call \<Rightarrow> ('w, function_call) ioe" where
  "get_function_call env a c =
     (let f = \<lparr>fc_contract = a, fc_call = c\<rparr> in bind_io (sd_encode_call env f) (\<lambda>_. return_io f))"

definition create_transfer_authwit ::
    "'w sdk_env \<Rightarrow> int \<Rightarrow> int \<Rightarrow> int \<Rightarrow> int \<Rightarrow> int \<Rightarrow> ('w, int \<times> auth_witness) ioe" where
  "create_transfer_authwit env tok user op fpc amount w =
     (case sd_random_fr env w of (nonce, w1) \<Rightarrow>
      bind_io (get_function_call env tok (TransferPrivateToPrivate user op amount nonce)) (\<lambda>call.
      let aw = \<lparr>aw_user = user, aw_caller = fpc, aw_call = call\<rparr> in
      bind_io (sd_create_auth_wit env aw) (\<lambda>_. return_io (nonce, aw))) w1)"

definition create_payment_method ::
    "'w sdk_env \<Rightarrow> fpc_client_config \<Rightarrow> create_payment_method_input \<Rightarrow> ('w, fpc_payment_method_result) ioe" where
  "create_payment_method env cfg input =
     (case pi_estimated_gas input of
        None \<Rightarrow> throw_io (error (''estimatedGas is required '' @ EM_DASH @ '' simulate with fee: { estimateGas: true }''))
      | Some (raw_limits, teardown) \<Rightarrow>
        (let limits = sd_gas_add env raw_limits GAS_BUFFER; fpc = fp_fpc_address cfg;
             user = pi_user input; tok = pi_token_address input in
         bind_io (attach_typed_contract env fpc (Some 0)) (\<lambda>_.
         bind_io (attach_typed_contract env tok None) (\<lambda>_.
         bind_io (sd_get_current_min_fees env) (\<lambda>fees.
         let fj = compute_fj_amount limits fees in
         bind_io (fetch_quote env (fp_attestation_base_url cfg) user tok fj) (\<lambda>quote.
         bind_io (from_pure (parse_quote_fields quote)) (\<lambda>q.
         bind_io (create_transfer_authwit env tok user (fp_operator cfg) fpc (qf_aa_payment_amount q)) (\<lambda>(nonce, aw).
         bind_io (get_function_call env fpc
           (FeeEntrypoint tok nonce fj (qf_aa_payment_amount q) (qf_valid_until q) (qf_sig_bytes q))) (\<lambda>call.
         return_io \<lparr>fr_payment_method = \<lparr>pm_fee_payer = fpc,
             pm_payload = \<lparr>ep_calls = [call], ep_auth_witnesses = [aw], ep_fee_payer = fpc\<rparr>,
             pm_gas_settings = \<lparr>gs_gas_limits = limits, gs_teardown_gas_limits = teardown,
               gs_max_fees = fees, gs_priority_fees = Some EMPTY_FEES\<rparr>\<rparr>,
           fr_nonce = nonce, fr_quote = quote\<rparr>)))))))))"

section \<open>Waiting for the transaction\<close>

definition tx_dropped :: "tx_receipt \<Rightarrow> thrown" where
  "tx_dropped r = error (''Tx dropped: error='' @ rc_error r)"

text \<open>The loop: it ends with the last receipt read, if any, or an error.\<close>

partial_function (option) poll_receipt ::
    "'w sdk_env \<Rightarrow> string \<Rightarrow> int \<Rightarrow> tx_receipt option \<Rightarrow> 'w \<Rightarrow> ((thrown + tx_receipt option) \<times> 'w) option" where
  [code]: "poll_receipt env hash deadline latest w =
     (if sd_now env w < deadline
      then case sd_get_tx_receipt env hash w of (r, w1) \<Rightarrow>
        (case r of
           Inl e \<Rightarrow> Some (Inl e, w1)
         | Inr receipt \<Rightarrow>
             if rc_mined receipt then Some (Inr (Some receipt), w1)
             else if rc_dropped receipt then Some (Inl (tx_dropped receipt), w1)
             else poll_receipt env hash deadline (Some receipt) (sd_sleep env TX_MINE_POLL_MS w1))
      else Some (Inr latest, w))"

definition check_receipt :: "tx_receipt option \<Rightarrow> thrown + tx_receipt" where
  "check_receipt latest = (case latest of
     None \<Rightarrow> Inl (error ''Tx timed out waiting for block inclusion'')
   | Some r \<Rightarrow>
       if \<not> rc_mined r then Inl (error ''Tx timed out waiting for block inclusion'')
       else if rc_reverted r
       then Inl (error (''Tx reverted: executionResult='' @ rc_execution_result r @ '' error='' @ rc_error r))
       else Inr r)"

definition wait_for_tx ::
    "'w sdk_env \<Rightarrow> string \<Rightarrow> int \<Rightarrow> 'w \<Rightarrow> ((thrown + tx_receipt) \<times> 'w) option" where
  "wait_for_tx env hash timeout_ms w =
     map_option (\<lambda>(r, w1). (and_then r check_receipt, w1))
       (poll_receipt env hash (sd_now env w + timeout_ms) None w)"

definition prove_and_send_tx ::
    "'w sdk_env \<Rightarrow> execution_payload \<Rightarrow> sdk_gas_settings \<Rightarrow> int list \<Rightarrow> int \<Rightarrow> 'w \<Rightarrow>
       ((thrown + tx_receipt) \<times> 'w) option" where
  "prove_and_send_tx env payload settings signers timeout_ms w =
     (case bind_io (sd_create_tx_request env payload settings) (\<lambda>_.
           bind_io (sd_prove_tx env payload settings signers) (\<lambda>hash.
           bind_io (sd_send_tx env hash) (\<lambda>_. return_io hash))) w of
        (Inl e, w1) \<Rightarrow> Some (Inl e, w1)
      | (Inr hash, w1) \<Rightarrow> wait_for_tx env hash timeout_ms w1)"

section \<open>The cold start\<close>

definition retries_cold_start :: "thrown \<Rightarrow> nat \<Rightarrow> bool" where
  "retries_cold_start e attempt \<longleftrightarrow>
     js_includes (case e of Thrown n m \<Rightarrow> m | ThrownValue s \<Rightarrow> s) ''Message not in state'' \<and>
     attempt < COLD_START_MAX_ATTEMPTS"

text \<open>The retry loop from \<open>attempt\<close> on; \<open>send\<close> is one call of \<open>proveAndSendTx\<close>.\<close>

function cold_start_attempts ::
    "('w \<Rightarrow> ((thrown + 'r) \<times> 'w) option) \<Rightarrow> nat \<Rightarrow> 'w \<Rightarrow> ((thrown + 'r) \<times> 'w) option" where
  "cold_start_attempts send attempt w = (case send w of
     None \<Rightarrow> None
   | Some (Inr r, w1) \<Rightarrow> Some (Inr r, w1)
   | Some (Inl e, w1) \<Rightarrow>
       if retries_cold_start e attempt then cold_start_attempts send (attempt + 1) w1 else Some (Inl e, w1))"
  by pat_completeness auto
termination
  by (relation "measure (\<lambda>(send, attempt, w). COLD_START_MAX_ATTEMPTS - attempt)")
    (auto simp: retries_cold_start_def)

declare cold_start_attempts.simps [simp del]

record cold_start_plan =
  pl_payload :: execution_payload
  pl_gas_settings :: sdk_gas_settings
  pl_signers :: "int list"
  pl_timeout_ms :: int
  pl_fj_amount :: int
  pl_aa_payment_amount :: int
  pl_valid_until :: int

text \<open>What \<open>executeColdStart\<close> does before its loop.\<close>

definition prepare_cold_start ::
    "'w sdk_env \<Rightarrow> fpc_client_config \<Rightarrow> execute_cold_start_input \<Rightarrow> ('w, cold_start_plan) ioe" where
  "prepare_cold_start env cfg input =
     (let fpc = fp_fpc_address cfg; user = ei_user_address input; tok = ei_token_address input;
          claim = ei_bridge_claim input in
      bind_io (attach_typed_contract env fpc (Some 0)) (\<lambda>_.
      bind_io (attach_typed_contract env tok None) (\<lambda>_.
      bind_io (attach_typed_contract env (ei_bridge_address input) None) (\<lambda>_.
      bind_io (sd_get_current_min_fees env) (\<lambda>fees.
      let fj = compute_fj_amount COLD_START_GAS_LIMITS fees in
      bind_io (fetch_cold_start_quote env (fp_attestation_base_url cfg) user tok fj
                 (bc_claim_amount claim) (bc_claim_secret_hash claim)) (\<lambda>quote.
      bind_io (from_pure (parse_quote_fields quote)) (\<lambda>q.
      bind_io (from_pure (fr_of_bigint (sd_lib env) (bc_message_leaf_index claim))) (\<lambda>leaf.
      bind_io (get_function_call env fpc
        (ColdStartEntrypoint user tok (ei_bridge_address input) (bc_claim_amount claim) (bc_claim_secret claim)
           (bc_claim_secret_hash claim) leaf fj (qf_aa_payment_amount q) (qf_valid_until q) (qf_sig_bytes q))) (\<lambda>call.
      return_io \<lparr>pl_payload = \<lparr>ep_calls = [call], ep_auth_witnesses = [], ep_fee_payer = fpc\<rparr>,
        pl_gas_settings = \<lparr>gs_gas_limits = COLD_START_GAS_LIMITS, gs_teardown_gas_limits = EMPTY_GAS,
          gs_max_fees = fees, gs_priority_fees = None\<rparr>,
        pl_signers = [user, fp_operator cfg, fpc],
        pl_timeout_ms = (case ei_tx_wait_timeout_ms input of None \<Rightarrow> DEFAULT_TX_WAIT_TIMEOUT_MS | Some t \<Rightarrow> t),
        pl_fj_amount = fj, pl_aa_payment_amount = qf_aa_payment_amount q,
        pl_valid_until = qf_valid_until q\<rparr>)))))))))"

definition execute_cold_start ::
    "'w sdk_env \<Rightarrow> fpc_client_config \<Rightarrow> execute_cold_start_input \<Rightarrow> 'w \<Rightarrow>
       ((thrown + cold_start_result) \<times> 'w) option" where
  "execute_cold_start env cfg input w = (case prepare_cold_start env cfg input w of
     (Inl e, w1) \<Rightarrow> Some (Inl e, w1)
   | (Inr p, w1) \<Rightarrow>
       map_option (\<lambda>(r, w2). (map_sum id (\<lambda>receipt. \<lparr>cs_tx_hash = rc_tx_hash receipt,
            cs_tx_fee = (case rc_fee receipt of None \<Rightarrow> 0 | Some f \<Rightarrow> f), cs_fj_amount = pl_fj_amount p,
            cs_aa_payment_amount = pl_aa_payment_amount p, cs_quote_valid_until = pl_valid_until p\<rparr>) r, w2))
         (cold_start_attempts
            (prove_and_send_tx env (pl_payload p) (pl_gas_settings p) (pl_signers p) (pl_timeout_ms p)) 1 w1))"

section \<open>Facts\<close>

text \<open>No call turns the clock back, and a sleep moves it forward.\<close>

definition sdk_clock_ok :: "'w sdk_env \<Rightarrow> bool" where
  "sdk_clock_ok env \<longleftrightarrow>
     (\<forall>hash w. sd_now env w \<le> sd_now env (snd (sd_get_tx_receipt env hash w))) \<and>
     (\<forall>ms w. 0 < ms \<longrightarrow> sd_now env w < sd_now env (sd_sleep env ms w))"

lemma poll_receipt_returns:
  assumes "sdk_clock_ok env"
  shows "\<exists>r w'. poll_receipt env hash deadline latest w = Some (r, w')"
proof (induction "nat (deadline - sd_now env w)" arbitrary: latest w rule: less_induct)
  case less
  obtain r w1 where g: "sd_get_tx_receipt env hash w = (r, w1)" by fastforce
  note unfold = poll_receipt.simps [of env hash deadline latest w, unfolded g prod.case]
  show ?case
  proof (cases "sd_now env w < deadline")
    case False
    then show ?thesis unfolding unfold by simp
  next
    case True
    have "sd_now env w \<le> sd_now env (snd (sd_get_tx_receipt env hash w))"
      "sd_now env w1 < sd_now env (sd_sleep env TX_MINE_POLL_MS w1)"
      using assms by (simp_all add: sdk_clock_ok_def TX_MINE_POLL_MS_def)
    with True g have
      d: "nat (deadline - sd_now env (sd_sleep env TX_MINE_POLL_MS w1)) < nat (deadline - sd_now env w)" by simp
    show ?thesis
    proof (cases r)
      case (Inl e)
      then show ?thesis unfolding unfold using True by simp
    next
      case (Inr receipt)
      from less.hyps [OF d, of "Some receipt"] Inr True show ?thesis
        unfolding unfold by simp
    qed
  qed
qed

text \<open>The outcomes of successive calls of \<open>send\<close>.\<close>

fun sends :: "('w \<Rightarrow> ((thrown + 'r) \<times> 'w) option) \<Rightarrow> (thrown + 'r) list \<Rightarrow> 'w \<Rightarrow> 'w \<Rightarrow> bool" where
  "sends send [] w w' = (w' = w)"
| "sends send (r # rs) w w' = (case send w of None \<Rightarrow> False | Some (r', w1) \<Rightarrow> r' = r \<and> sends send rs w1 w')"

definition stale_anchor :: "thrown + 'r \<Rightarrow> bool" where
  "stale_anchor r = (case r of Inr _ \<Rightarrow> False
   | Inl e \<Rightarrow> js_includes (case e of Thrown n m \<Rightarrow> m | ThrownValue s \<Rightarrow> s) ''Message not in state'')"

lemma attempts_sends:
  "cold_start_attempts send n w = Some (r, w') \<Longrightarrow> 1 \<le> n \<Longrightarrow> n \<le> 3 \<Longrightarrow>
    \<exists>rs. sends send (rs @ [r]) w w' \<and> length rs + n \<le> 3 \<and> list_all stale_anchor rs"
proof (induction "3 - n" arbitrary: n w rule: less_induct)
  case less
  note run = less.prems(1) [unfolded cold_start_attempts.simps [of send n w]]
  from run obtain x w1 where s: "send w = Some (x, w1)" by (cases "send w") auto
  show ?case
  proof (cases "\<exists>e. x = Inl e \<and> retries_cold_start e n")
    case False
    with run s have "r = x" "w' = w1" by (auto split: sum.splits if_splits)
    with s less.prems(3) show ?thesis by (intro exI [of _ "[]"]) simp
  next
    case True
    then obtain e where x: "x = Inl e" "retries_cold_start e n" by blast
    then have n: "n < 3" by (simp add: retries_cold_start_def COLD_START_MAX_ATTEMPTS_def)
    from run s x have "cold_start_attempts send (n + 1) w1 = Some (r, w')" by simp
    moreover have "3 - (n + 1) < 3 - n" "1 \<le> n + 1" "n + 1 \<le> 3" using n by simp_all
    ultimately obtain rs where
      "sends send (rs @ [r]) w1 w'" "length rs + (n + 1) \<le> 3" "list_all stale_anchor rs"
      using less.hyps [of "n + 1" w1] by blast
    with s x show ?thesis
      by (intro exI [of _ "x # rs"]) (auto simp: stale_anchor_def retries_cold_start_def)
  qed
qed

lemma attempts_total:
  assumes "\<And>w. \<exists>y. send w = Some y"
  shows "\<exists>y. cold_start_attempts send n w = Some y"
proof (induction "3 - n" arbitrary: n w rule: less_induct)
  case less
  obtain x w1 where s: "send w = Some (x, w1)" using assms [of w] by auto
  show ?case
  proof (cases "\<exists>e. x = Inl e \<and> retries_cold_start e n")
    case False
    with s show ?thesis
      unfolding cold_start_attempts.simps [of send n w] by (cases x) auto
  next
    case True
    then obtain e where x: "x = Inl e" "retries_cold_start e n" by blast
    have "n < 3" using x(2) by (simp add: retries_cold_start_def COLD_START_MAX_ATTEMPTS_def)
    then have "3 - (n + 1) < 3 - n" by arith
    from less.hyps [OF this, of w1] s x show ?thesis
      unfolding cold_start_attempts.simps [of send n w] by simp
  qed
qed

text \<open>A client against a node on which a transaction is mined at the second read, after 2000 ms.\<close>

definition demo_quote :: jsval where
  "demo_quote = JObject [(''accepted_asset'', JString ''7''), (''aa_payment_amount'', JString ''600''),
     (''valid_until'', JString ''1600''), (''signature'', JString ''0x01ff'')]"

definition demo_receipt :: "bool \<Rightarrow> tx_receipt" where
  "demo_receipt mined = \<lparr>rc_mined = mined, rc_dropped = False, rc_reverted = False, rc_execution_result = [],
     rc_error = [], rc_fee = Some 5, rc_tx_hash = ''h''\<rparr>"

definition demo_sdk_env :: "int sdk_env" where
  "demo_sdk_env = \<lparr>sd_lib = demo_lib, sd_gas_add = (\<lambda>a b. \<lparr>ga_da = ga_da a + ga_da b, ga_l2 = ga_l2 a + ga_l2 b\<rparr>),
     sd_get_contract = (\<lambda>_ w. (Inr True, w)), sd_register_contract = (\<lambda>_ _ w. (Inr (), w)),
     sd_get_current_min_fees = (\<lambda>w. (Inr \<lparr>gf_da = 2, gf_l2 = 3\<rparr>, w)),
     sd_parse_url = (\<lambda>s. Inr \<lparr>ur_origin = s, ur_pathname = ''/'', ur_params = []\<rparr>),
     sd_fetch = (\<lambda>u w. (Inr \<lparr>hp_status = 200, hp_text = Inr [], hp_json = Inr demo_quote\<rparr>, w)),
     sd_random_fr = (\<lambda>w. (77, w)), sd_encode_call = (\<lambda>_ w. (Inr (), w)),
     sd_create_auth_wit = (\<lambda>_ w. (Inr (), w)), sd_create_tx_request = (\<lambda>_ _ w. (Inr (), w)),
     sd_prove_tx = (\<lambda>_ _ _ w. (if w = 0 then Inl (error ''Message not in state'') else Inr ''h'', w + 1)),
     sd_send_tx = (\<lambda>_ w. (Inr (), w)),
     sd_get_tx_receipt = (\<lambda>_ w. (Inr (demo_receipt (2000 \<le> w)), w)), sd_now = (\<lambda>w. w),
     sd_sleep = (\<lambda>ms w. w + ms)\<rparr>"

definition demo_client_config :: fpc_client_config where
  "demo_client_config = \<lparr>fp_fpc_address = 5, fp_operator = 4, fp_attestation_base_url = ''http://fpc''\<rparr>"

definition demo_method_input :: create_payment_method_input where
  "demo_method_input = \<lparr>pi_user = 9, pi_token_address = 7,
     pi_estimated_gas = Some (\<lparr>ga_da = 10, ga_l2 = 20\<rparr>, EMPTY_GAS)\<rparr>"

definition demo_cold_start_input :: execute_cold_start_input where
  "demo_cold_start_input = \<lparr>ei_user_address = 9, ei_token_address = 7, ei_bridge_address = 8,
     ei_bridge_claim = \<lparr>bc_claim_amount = 2000, bc_claim_secret = 1, bc_claim_secret_hash = 11,
       bc_message_leaf_index = 0\<rparr>, ei_tx_wait_timeout_ms = None\<rparr>"

lemma demo_sdk_simps [simp]:
  "sd_get_contract demo_sdk_env a w = (Inr True, w)" "sd_register_contract demo_sdk_env a k w = (Inr (), w)"
  "sd_get_current_min_fees demo_sdk_env w = (Inr \<lparr>gf_da = 2, gf_l2 = 3\<rparr>, w)"
  "sd_parse_url demo_sdk_env b = Inr \<lparr>ur_origin = b, ur_pathname = ''/'', ur_params = []\<rparr>"
  "sd_fetch demo_sdk_env u w = (Inr \<lparr>hp_status = 200, hp_text = Inr [], hp_json = Inr demo_quote\<rparr>, w)"
  "sd_random_fr demo_sdk_env w = (77, w)" "sd_encode_call demo_sdk_env f w = (Inr (), w)"
  "sd_create_auth_wit demo_sdk_env aw w = (Inr (), w)" "sd_lib demo_sdk_env = demo_lib"
  "sd_gas_add demo_sdk_env x y = \<lparr>ga_da = ga_da x + ga_da y, ga_l2 = ga_l2 x + ga_l2 y\<rparr>"
  by (simp_all add: demo_sdk_env_def)

lemma demo_clock: "sdk_clock_ok demo_sdk_env"
  by (simp add: sdk_clock_ok_def demo_sdk_env_def)

lemma demo_quote_parses:
  "parse_quote_fields demo_quote = Inr \<lparr>qf_aa_payment_amount = 600, qf_valid_until = 1600, qf_sig_bytes = [1, 255]\<rparr>"
  by code_simp

lemma demo_method_returns:
  "\<exists>r. create_payment_method demo_sdk_env demo_client_config demo_method_input 0 = (Inr r, 0) \<and>
     fr_quote r = demo_quote \<and> gs_gas_limits (pm_gas_settings (fr_payment_method r)) = \<lparr>ga_da = 5010, ga_l2 = 100020\<rparr> \<and>
     gs_max_fees (pm_gas_settings (fr_payment_method r)) = \<lparr>gf_da = 2, gf_l2 = 3\<rparr>"
  by (simp add: create_payment_method_def demo_method_input_def attach_typed_contract_def bind_io_def
      fetch_quote_def read_reply_def response_ok_def demo_quote_parses create_transfer_authwit_def
      get_function_call_def GAS_BUFFER_def Let_def)

lemma demo_plan_exists: "\<exists>p. prepare_cold_start demo_sdk_env demo_client_config demo_cold_start_input 0 = (Inr p, 0)"
  by (simp add: prepare_cold_start_def demo_cold_start_input_def attach_typed_contract_def bind_io_def
      fetch_cold_start_quote_def read_reply_def response_ok_def demo_quote_parses get_function_call_def Let_def)

section \<open>Properties\<close>

text \<open>
  The payment method is consistent. When \<open>createPaymentMethod\<close> returns, the Fee Juice
  amount it asked the service to quote is the amount in the \<open>fee_entrypoint\<close> call and is
  the cost of the gas limits and fees of its own gas settings; the payload calls the FPC
  once, with the quoted amount, expiry and signature, and carries one authwit: the FPC may
  move exactly the quoted amount from the user to the operator under the nonce of the call.
\<close>

theorem payment_method_consistent:
  assumes "create_payment_method env cfg input w = (Inr r, w')"
  shows "\<exists>fj nonce q u v v' rsp. let fpc = fp_fpc_address cfg; pm = fr_payment_method r;
        gs = pm_gas_settings pm; tok = pi_token_address input; user = pi_user input in
      fj = ga_da (gs_gas_limits gs) * gf_da (gs_max_fees gs) + ga_l2 (gs_gas_limits gs) * gf_l2 (gs_max_fees gs) \<and>
      sd_fetch env (quote_url (sd_lib env) user tok fj u) v = (Inr rsp, v') \<and> hp_json rsp = Inr (fr_quote r) \<and>
      200 \<le> hp_status rsp \<and> hp_status rsp \<le> 299 \<and> parse_quote_fields (fr_quote r) = Inr q \<and>
      pm_fee_payer pm = fpc \<and> fr_nonce r = nonce \<and>
      pm_payload pm = \<lparr>ep_calls = [\<lparr>fc_contract = fpc, fc_call = FeeEntrypoint tok nonce fj
            (qf_aa_payment_amount q) (qf_valid_until q) (qf_sig_bytes q)\<rparr>],
         ep_auth_witnesses = [\<lparr>aw_user = user, aw_caller = fpc, aw_call = \<lparr>fc_contract = tok,
            fc_call = TransferPrivateToPrivate user (fp_operator cfg) (qf_aa_payment_amount q) nonce\<rparr>\<rparr>],
         ep_fee_payer = fpc\<rparr>"
proof -
  obtain raw td where g: "pi_estimated_gas input = Some (raw, td)"
    using assms by (cases "pi_estimated_gas input") (auto simp: create_payment_method_def io_Inr_iff)
  let ?limits = "sd_gas_add env raw GAS_BUFFER" and ?tok = "pi_token_address input" and ?user = "pi_user input"
  from assms g obtain fees q quote nonce aw call w3 w4 w5 w6 w7 w8 where
    f: "fetch_quote env (fp_attestation_base_url cfg) ?user ?tok (compute_fj_amount ?limits fees) w3 = (Inr quote, w4)"
    and q: "parse_quote_fields quote = Inr q"
    and a: "create_transfer_authwit env ?tok ?user (fp_operator cfg) (fp_fpc_address cfg) (qf_aa_payment_amount q) w5 =
        (Inr (nonce, aw), w6)"
    and c: "get_function_call env (fp_fpc_address cfg) (FeeEntrypoint ?tok nonce (compute_fj_amount ?limits fees)
        (qf_aa_payment_amount q) (qf_valid_until q) (qf_sig_bytes q)) w7 = (Inr call, w8)"
    and r: "r = \<lparr>fr_payment_method = \<lparr>pm_fee_payer = fp_fpc_address cfg,
             pm_payload = \<lparr>ep_calls = [call], ep_auth_witnesses = [aw], ep_fee_payer = fp_fpc_address cfg\<rparr>,
             pm_gas_settings = \<lparr>gs_gas_limits = ?limits, gs_teardown_gas_limits = td,
               gs_max_fees = fees, gs_priority_fees = Some EMPTY_FEES\<rparr>\<rparr>,
           fr_nonce = nonce, fr_quote = quote\<rparr>"
    by (auto simp: create_payment_method_def Let_def io_Inr_iff)
  from f obtain u rsp v v' where u: "sd_fetch env (quote_url (sd_lib env) ?user ?tok (compute_fj_amount ?limits fees) u) v = (Inr rsp, v')"
    and rsp: "hp_json rsp = Inr quote" "200 \<le> hp_status rsp" "hp_status rsp \<le> 299"
    by (auto simp: fetch_quote_def io_Inr_iff read_reply_def response_ok_def and_then_Inr_iff split: if_splits)
  from a have aw: "aw = \<lparr>aw_user = ?user, aw_caller = fp_fpc_address cfg, aw_call = \<lparr>fc_contract = ?tok,
            fc_call = TransferPrivateToPrivate ?user (fp_operator cfg) (qf_aa_payment_amount q) nonce\<rparr>\<rparr>"
    by (auto simp: create_transfer_authwit_def get_function_call_def io_Inr_iff Let_def split: prod.splits)
  from c have call: "call = \<lparr>fc_contract = fp_fpc_address cfg, fc_call = FeeEntrypoint ?tok nonce
      (compute_fj_amount ?limits fees) (qf_aa_payment_amount q) (qf_valid_until q) (qf_sig_bytes q)\<rparr>"
    by (auto simp: get_function_call_def io_Inr_iff Let_def)
  show ?thesis
    using u rsp q
    by (intro exI [of _ "compute_fj_amount ?limits fees"] exI [of _ nonce] exI [of _ q] exI [of _ u]
        exI [of _ v] exI [of _ v'] exI [of _ rsp]) (simp add: r aw call compute_fj_amount_def Let_def)
qed

lemma payment_method_consistent_witness:
  "\<exists>r q. create_payment_method demo_sdk_env demo_client_config demo_method_input 0 = (Inr r, 0) \<and>
     parse_quote_fields demo_quote = Inr q \<and>
     ep_calls (pm_payload (fr_payment_method r)) = [\<lparr>fc_contract = 5, fc_call =
       FeeEntrypoint 7 (fr_nonce r) (5010 * 2 + 100020 * 3) (qf_aa_payment_amount q) (qf_valid_until q) (qf_sig_bytes q)\<rparr>]"
proof -
  from demo_method_returns obtain r where
    run: "create_payment_method demo_sdk_env demo_client_config demo_method_input 0 = (Inr r, 0)"
    and f: "fr_quote r = demo_quote" "gs_gas_limits (pm_gas_settings (fr_payment_method r)) = \<lparr>ga_da = 5010, ga_l2 = 100020\<rparr>"
      "gs_max_fees (pm_gas_settings (fr_payment_method r)) = \<lparr>gf_da = 2, gf_l2 = 3\<rparr>" by blast
  from payment_method_consistent [OF run] run f show ?thesis
    by (auto simp: demo_client_config_def demo_method_input_def Let_def)
qed

text \<open>
  C31. Waiting for a transaction ends. If no read of a receipt turns the clock back and a
  sleep advances it, \<open>waitForTx\<close> returns a receipt or throws, for every timeout; a receipt
  that it returns is mined and its execution has not been reverted.
\<close>

theorem wait_for_tx_returns:
  assumes "sdk_clock_ok env"
  shows "\<exists>r w'. wait_for_tx env hash timeout_ms w = Some (r, w') \<and>
    (\<forall>receipt. r = Inr receipt \<longrightarrow> rc_mined receipt \<and> \<not> rc_reverted receipt)"
proof -
  from poll_receipt_returns [OF assms] obtain p w' where
    "poll_receipt env hash (sd_now env w + timeout_ms) None w = Some (p, w')" by blast
  then show ?thesis
    by (auto simp: wait_for_tx_def check_receipt_def and_then_Inr_iff split: option.splits if_splits)
qed

lemma wait_for_tx_returns_witness:
  "\<exists>r w'. wait_for_tx demo_sdk_env ''h'' 180000 0 = Some (r, w') \<and>
    (\<forall>receipt. r = Inr receipt \<longrightarrow> rc_mined receipt \<and> \<not> rc_reverted receipt)"
  by (rule wait_for_tx_returns [OF demo_clock])

text \<open>
  A cold start is sent at most three times, and again only for a stale anchor: every
  attempt but the last one failed with an error whose message contains \<open>Message not in
  state\<close>, and the result is that of the last attempt. A transaction that was sent and then
  reverted or was not mined in time is not sent again unless that text is in its error.
\<close>

theorem cold_start_attempts_bounded:
  assumes "prepare_cold_start env cfg input w = (Inr p, w1)"
    and "execute_cold_start env cfg input w = Some (r, w')"
  shows "\<exists>rs last_outcome. sends (prove_and_send_tx env (pl_payload p) (pl_gas_settings p) (pl_signers p) (pl_timeout_ms p))
        (rs @ [last_outcome]) w1 w' \<and> length rs \<le> 2 \<and> list_all stale_anchor rs \<and>
      (case last_outcome of Inl e \<Rightarrow> r = Inl e
       | Inr receipt \<Rightarrow> \<exists>res. r = Inr res \<and> cs_tx_hash res = rc_tx_hash receipt \<and>
           cs_fj_amount res = pl_fj_amount p \<and> cs_aa_payment_amount res = pl_aa_payment_amount p)"
proof -
  let ?send = "prove_and_send_tx env (pl_payload p) (pl_gas_settings p) (pl_signers p) (pl_timeout_ms p)"
  from assms obtain x where x: "cold_start_attempts ?send 1 w1 = Some (x, w')"
    and r: "r = map_sum id (\<lambda>receipt. \<lparr>cs_tx_hash = rc_tx_hash receipt,
            cs_tx_fee = (case rc_fee receipt of None \<Rightarrow> 0 | Some f \<Rightarrow> f), cs_fj_amount = pl_fj_amount p,
            cs_aa_payment_amount = pl_aa_payment_amount p, cs_quote_valid_until = pl_valid_until p\<rparr>) x"
    by (auto simp: execute_cold_start_def)
  from attempts_sends [OF x] obtain rs where
    "sends ?send (rs @ [x]) w1 w'" "length rs \<le> 2" "list_all stale_anchor rs" by auto
  with r show ?thesis by (intro exI [of _ rs] exI [of _ x]) (cases x; simp)
qed

lemma cold_start_attempts_bounded_witness:
  "\<exists>p r w' rs x. prepare_cold_start demo_sdk_env demo_client_config demo_cold_start_input 0 = (Inr p, 0) \<and>
     execute_cold_start demo_sdk_env demo_client_config demo_cold_start_input 0 = Some (r, w') \<and>
     sends (prove_and_send_tx demo_sdk_env (pl_payload p) (pl_gas_settings p) (pl_signers p) (pl_timeout_ms p))
       (rs @ [x]) 0 w' \<and> length rs \<le> 2 \<and> list_all stale_anchor rs"
proof -
  from demo_plan_exists obtain p where p: "prepare_cold_start demo_sdk_env demo_client_config demo_cold_start_input 0 = (Inr p, 0)"
    by blast
  have "\<exists>y. prove_and_send_tx demo_sdk_env a b c d w = Some y" for a b c d w
  proof (cases "bind_io (sd_create_tx_request demo_sdk_env a b) (\<lambda>_.
      bind_io (sd_prove_tx demo_sdk_env a b c) (\<lambda>hash. bind_io (sd_send_tx demo_sdk_env hash) (\<lambda>_. return_io hash))) w")
    case (Pair x w1)
    show ?thesis
    proof (cases x)
      case (Inl e)
      with Pair show ?thesis by (simp add: prove_and_send_tx_def)
    next
      case (Inr hash)
      obtain r w2 where "poll_receipt demo_sdk_env hash (sd_now demo_sdk_env w1 + d) None w1 = Some (r, w2)"
        using poll_receipt_returns [OF demo_clock] by blast
      with Inr Pair show ?thesis by (simp add: prove_and_send_tx_def wait_for_tx_def)
    qed
  qed
  then have "\<exists>y. cold_start_attempts (prove_and_send_tx demo_sdk_env a b c d) n w = Some y" for a b c d n w
    by (rule attempts_total)
  then obtain r w' where run: "execute_cold_start demo_sdk_env demo_client_config demo_cold_start_input 0 = Some (r, w')"
    unfolding execute_cold_start_def p prod.case sum.case by fastforce
  from cold_start_attempts_bounded [OF p run] run p show ?thesis by blast
qed

end
