(* ===== verification/EndToEnd.thy ===== *)
theory EndToEnd
  imports Attest_Server Fpc_Contract Sdk_Client
begin

text \<open>
  The life cycle of a quote across the components: the query that the client sends is the one
  the service reads (\<open>sdk_query_roundtrip\<close>), the reply that the service sends is the one the
  client parses (\<open>parse_issued_quote\<close>), and the values of that reply are the ones the contract
  accepts. JSON and the HTTP framework are between them: \<open>query_of_url\<close> and the two
  \<open>_response_json\<close> definitions are the objects that each side sees.
\<close>

section \<open>The request of the client\<close>

text \<open>The query object that the HTTP framework makes of a URL whose parameters occur once.\<close>

definition query_of_url :: "url \<Rightarrow> jsval" where
  "query_of_url u = JObject (map (\<lambda>(k, v). (k, JString v)) (ur_params u))"

lemma query_field: "jfield k (query_of_url u) = (case map_of (ur_params u) k of None \<Rightarrow> JUndefined | Some v \<Rightarrow> JString v)"
  by (cases "map_of (ur_params u) k") (simp_all add: query_of_url_def jfield_def map_of_map)

lemma url_set_same [simp]: "jfield k (query_of_url (url_set k v u)) = JString v"
  by (simp add: query_field url_set_def params_set_same)

lemma url_set_other: "k' \<noteq> k \<Longrightarrow> jfield k' (query_of_url (url_set k v u)) = jfield k' (query_of_url u)"
  by (simp add: query_field url_set_def params_set_other)

text \<open>Documented behaviour of printing and parsing: no blanks, and the value is read back.\<close>

definition prints_address :: "aztec_lib \<Rightarrow> int \<Rightarrow> bool" where
  "prints_address lib a \<longleftrightarrow> js_trim (address_to_string lib a) = address_to_string lib a \<and>
     address_to_string lib a \<noteq> [] \<and> address_from_string lib (address_to_string lib a) = Inr a"

definition prints_field :: "aztec_lib \<Rightarrow> int \<Rightarrow> bool" where
  "prints_field lib x \<longleftrightarrow> js_trim (fr_to_string lib x) = fr_to_string lib x \<and>
     fr_to_string lib x \<noteq> [] \<and> fr_from_hex lib (fr_to_string lib x) = Inr x"

lemma u128_field_of_decimal:
  assumes "0 < x" "x < 2 ^ 128"
  shows "positive_u128_decimal_field msg (JString (bigint_string x)) = Inr x"
proof -
  have "js_trim (bigint_string x) = bigint_string x" "digits_only (bigint_string x)"
    using bigint_string_digits [of x] assms(1) by (simp_all add: js_trim_digits)
  then show ?thesis
    using assms bigint_string_u128_length [of x] bigint_roundtrip [of x]
    by (simp add: u128_field_iff U128_MAX_def)
qed

lemma address_field_of_printed:
  "prints_address lib a \<Longrightarrow> a \<noteq> 0 \<Longrightarrow>
     non_zero_aztec_address_field lib missing invalid (JString (address_to_string lib a)) = Inr a"
  by (simp add: address_field_iff prints_address_def)

section \<open>The signed quote at the contract\<close>

text \<open>
  Documented behaviour: a signature that the operator's signer returns for a hash verifies
  over the bytes of that hash under the operator's key.
\<close>

definition signatures_verify :: "'l fpc_env \<Rightarrow> field \<times> field \<Rightarrow> 'w quote_signer \<Rightarrow> bool" where
  "signatures_verify env pk signer \<longleftrightarrow> (\<forall>h t sig t'. signer h t = (Inr sig, t') \<longrightarrow>
     assert_valid_signature env pk (hex_bytes (strip_0x sig)) (to_be_bytes 32 h) = Inr ())"

lemma uint_u128: "0 \<le> x \<Longrightarrow> x < 2 ^ 128 \<Longrightarrow> uint (word_of_int x :: u128) = x"
  by (simp add: uint_word_of_int)

lemma uint_u64: "0 \<le> x \<Longrightarrow> x < 2 ^ 64 \<Longrightarrow> uint (word_of_int x :: u64) = x"
  by (simp add: uint_word_of_int)

lemma signed_quote_verifies:
  assumes sig: "sign_quote lib signer qp t = (Inr sig, t')" "signatures_verify env pk signer"
    and hash: "authwit_hash env = inner_authwit_hash lib" "fr_holds_u128 lib"
    and ranges: "0 \<le> qp_fj_fee_amount qp" "qp_fj_fee_amount qp < 2 ^ 128" "0 \<le> qp_aa_payment_amount qp"
      "qp_aa_payment_amount qp < 2 ^ 128" "0 \<le> qp_valid_until qp" "qp_valid_until qp < 2 ^ 64"
  shows "assert_valid_signature env pk (hex_bytes (strip_0x sig)) (to_be_bytes 32 (authwit_hash env
    (quote_preimage (qp_fpc_address qp) (qp_accepted_asset qp) (word_of_int (qp_fj_fee_amount qp))
      (word_of_int (qp_aa_payment_amount qp)) (word_of_int (qp_valid_until qp)) (qp_user_address qp)))) = Inr ()"
proof -
  have "fr_of_bigint lib (qp_fj_fee_amount qp) = Inr (qp_fj_fee_amount qp)"
    "fr_of_bigint lib (qp_aa_payment_amount qp) = Inr (qp_aa_payment_amount qp)"
    "fr_of_bigint lib (qp_valid_until qp) = Inr (qp_valid_until qp)"
    using hash(2) ranges by (simp_all add: fr_holds_u128_def)
  with sig(1) obtain x where "compute_quote_hash lib qp = Inr x" "signer x t = (Inr sig, t')"
    and x: "x = inner_authwit_hash lib [SIGNER_QUOTE_DOMAIN_SEPARATOR, qp_fpc_address qp, qp_accepted_asset qp,
      qp_fj_fee_amount qp, qp_aa_payment_amount qp, qp_valid_until qp, qp_user_address qp]"
    by (auto simp: sign_quote_def sign_hash_Inr compute_quote_hash_def)
  with sig(2) have "assert_valid_signature env pk (hex_bytes (strip_0x sig)) (to_be_bytes 32 x) = Inr ()"
    unfolding signatures_verify_def by blast
  then show ?thesis using ranges
    by (simp add: x hash(1) quote_preimage_def uint_u128 uint_u64 SIGNER_QUOTE_DOMAIN_SEPARATOR_def QUOTE_DOMAIN_SEPARATOR_def)
qed

lemma signed_cold_start_quote_verifies:
  assumes sig: "sign_cold_start_quote lib signer qp t = (Inr sig, t')" "signatures_verify env pk signer"
    and hash: "authwit_hash env = inner_authwit_hash lib" "fr_holds_u128 lib"
    and ranges: "0 \<le> qp_fj_fee_amount qp" "qp_fj_fee_amount qp < 2 ^ 128" "0 \<le> qp_aa_payment_amount qp"
      "qp_aa_payment_amount qp < 2 ^ 128" "0 \<le> qp_valid_until qp" "qp_valid_until qp < 2 ^ 64"
      "0 \<le> cs_claim_amount qp" "cs_claim_amount qp < 2 ^ 128"
  shows "assert_valid_signature env pk (hex_bytes (strip_0x sig)) (to_be_bytes 32 (authwit_hash env
    (cold_start_preimage (qp_fpc_address qp) (qp_accepted_asset qp) (word_of_int (qp_fj_fee_amount qp))
      (word_of_int (qp_aa_payment_amount qp)) (word_of_int (qp_valid_until qp)) (qp_user_address qp)
      (word_of_int (cs_claim_amount qp)) (cs_claim_secret_hash qp)))) = Inr ()"
proof -
  have "fr_of_bigint lib (qp_fj_fee_amount qp) = Inr (qp_fj_fee_amount qp)"
    "fr_of_bigint lib (qp_aa_payment_amount qp) = Inr (qp_aa_payment_amount qp)"
    "fr_of_bigint lib (qp_valid_until qp) = Inr (qp_valid_until qp)"
    "fr_of_bigint lib (cs_claim_amount qp) = Inr (cs_claim_amount qp)"
    using hash(2) ranges by (simp_all add: fr_holds_u128_def)
  with sig(1) obtain x where "compute_cold_start_quote_hash lib qp = Inr x" "signer x t = (Inr sig, t')"
    and x: "x = inner_authwit_hash lib [SIGNER_COLD_START_QUOTE_DOMAIN_SEPARATOR, qp_fpc_address qp,
      qp_accepted_asset qp, qp_fj_fee_amount qp, qp_aa_payment_amount qp, qp_valid_until qp, qp_user_address qp,
      cs_claim_amount qp, cs_claim_secret_hash qp]"
    by (auto simp: sign_cold_start_quote_def sign_hash_Inr compute_cold_start_quote_hash_def)
  with sig(2) have "assert_valid_signature env pk (hex_bytes (strip_0x sig)) (to_be_bytes 32 x) = Inr ()"
    unfolding signatures_verify_def by blast
  then show ?thesis using ranges
    by (simp add: x hash(1) cold_start_preimage_def uint_u128 uint_u64
        SIGNER_COLD_START_QUOTE_DOMAIN_SEPARATOR_def COLD_START_QUOTE_DOMAIN_SEPARATOR_def)
qed

text \<open>What the contract needs besides a signature.\<close>

definition ready_for :: "private_context \<Rightarrow> int \<Rightarrow> int \<Rightarrow> bool" where
  "ready_for ctx fj until \<longleftrightarrow> \<not> in_revertible_phase ctx \<and> max_gas_cost (ctx_gas ctx) = fj \<and>
     uint (anchor_timestamp ctx) \<le> until \<and> until \<le> uint (anchor_timestamp ctx) + 3600"

lemma window_of_int:
  assumes "0 \<le> until" "until < 2 ^ 64" "ready_for ctx fj until"
  shows "in_quote_window (anchor_timestamp ctx) (word_of_int until)"
  using assms(3) unfolding in_quote_window_def uint_u64 [OF assms(1,2)] ready_for_def by simp

lemma accepted_when_signed:
  assumes sig: "sign_quote lib signer qp t = (Inr sig, t')"
      "signatures_verify env (operator_pubkey_x cfg, operator_pubkey_y cfg) signer"
    and hash: "authwit_hash env = inner_authwit_hash lib" "fr_holds_u128 lib"
    and ranges: "0 \<le> qp_fj_fee_amount qp" "qp_fj_fee_amount qp < 2 ^ 128" "0 \<le> qp_aa_payment_amount qp"
      "qp_aa_payment_amount qp < 2 ^ 128" "0 \<le> qp_valid_until qp" "qp_valid_until qp < 2 ^ 64"
    and ctx: "this_address ctx = qp_fpc_address qp" "maybe_msg_sender ctx = Some (qp_user_address qp)"
      "ready_for ctx (qp_fj_fee_amount qp) (qp_valid_until qp)"
    and tr: "token_transfer env (qp_fpc_address qp) (qp_accepted_asset qp) (qp_user_address qp) (operator cfg)
      (word_of_int (qp_aa_payment_amount qp)) nonce l = Inr l'"
  shows "\<exists>ctx'. fee_entrypoint env (Some cfg) (qp_accepted_asset qp) nonce (word_of_int (qp_fj_fee_amount qp))
      (word_of_int (qp_aa_payment_amount qp)) (word_of_int (qp_valid_until qp)) (hex_bytes (strip_0x sig)) ctx l =
      Inr (ctx', l')"
proof -
  have g: "uint (word_of_int (qp_fj_fee_amount qp) :: u128) = max_gas_cost (ctx_gas ctx)"
    using ranges(1,2) ctx(3) by (simp add: uint_u128 ready_for_def)
  have "\<not> in_revertible_phase ctx" using ctx(3) by (simp add: ready_for_def)
  then show ?thesis
    using signed_quote_verifies [OF sig hash ranges] window_of_int [OF ranges(5,6) ctx(3)] g ctx(1,2) tr
    by (simp add: fee_entrypoint_iff Let_def)
qed

lemma setup_when_signed:
  assumes sig: "sign_cold_start_quote lib signer qp t = (Inr sig, t')"
      "signatures_verify env (operator_pubkey_x cfg, operator_pubkey_y cfg) signer"
    and hash: "authwit_hash env = inner_authwit_hash lib" "fr_holds_u128 lib"
    and ranges: "0 \<le> qp_fj_fee_amount qp" "qp_fj_fee_amount qp < 2 ^ 128" "0 \<le> qp_aa_payment_amount qp"
      "qp_aa_payment_amount qp < 2 ^ 128" "0 \<le> qp_valid_until qp" "qp_valid_until qp < 2 ^ 64"
      "0 \<le> cs_claim_amount qp" "cs_claim_amount qp < 2 ^ 128"
    and le: "qp_aa_payment_amount qp \<le> cs_claim_amount qp"
    and ctx: "this_address ctx = qp_fpc_address qp" "maybe_msg_sender ctx = None"
      "ready_for ctx (qp_fj_fee_amount qp) (qp_valid_until qp)"
  shows "\<exists>ctx'. cold_start_setup env (Some cfg) (qp_user_address qp) (qp_accepted_asset qp)
      (word_of_int (cs_claim_amount qp)) (cs_claim_secret_hash qp) (word_of_int (qp_fj_fee_amount qp))
      (word_of_int (qp_aa_payment_amount qp)) (word_of_int (qp_valid_until qp)) (hex_bytes (strip_0x sig)) ctx =
      Inr (cfg, ctx')"
proof -
  have g: "uint (word_of_int (qp_fj_fee_amount qp) :: u128) = max_gas_cost (ctx_gas ctx)"
    using ranges(1,2) ctx(3) by (simp add: uint_u128 ready_for_def)
  have "\<not> in_revertible_phase ctx" using ctx(3) by (simp add: ready_for_def)
  moreover have "(word_of_int (qp_aa_payment_amount qp) :: u128) \<le> word_of_int (cs_claim_amount qp)"
    using ranges le by (simp add: word_le_def uint_u128)
  ultimately show ?thesis
    using signed_cold_start_quote_verifies [OF sig hash ranges] window_of_int [OF ranges(5,6) ctx(3)] g ctx(1,2)
    by (simp add: cold_start_setup_iff Let_def)
qed

section \<open>The quotes that the service issues\<close>

lemma parsed_quote_fits:
  "parse_quote_request lib db query = Inr (Inr pq) \<Longrightarrow> 0 < pq_fj_amount pq \<and> pq_fj_amount pq < 2 ^ 128"
  by (auto simp: parse_quote_request_def and_then_Inr_iff quote_query_fields fj_amount_field_def u128_field_iff
      U128_MAX_def split: sum.splits option.splits)

lemma parsed_cold_start_fits:
  "parse_cold_start_quote_request lib db query = Inr (Inr pq) \<Longrightarrow>
     0 < pq_fj_amount pq \<and> pq_fj_amount pq < 2 ^ 128 \<and> 0 < pq_claim_amount pq \<and> pq_claim_amount pq < 2 ^ 128"
  by (auto simp: parse_cold_start_quote_request_def and_then_Inr_iff cold_start_query_fields fj_amount_field_def
      claim_amount_field_def u128_field_iff U128_MAX_def split: sum.splits option.splits)

lemma issued_quote:
  assumes "quote_handler c req s = (Inr rep, s')" "re_body rep = QuoteBody qr"
    and "addresses_roundtrip (sc_lib c)" "sc_now_unix_seconds c s = (Inr now, s1)" "store_wf (ss_store s1)"
  obtains pq pr sig t t' where
    "parse_quote_request (sc_lib c) (ss_store s1) (hr_query req) = Inr (Inr pq)" "policy_wf (pq_policy pq)"
    "0 < pq_fj_amount pq" "pq_fj_amount pq < 2 ^ 128"
    "compute_quote_pricing (pq_policy pq) (pq_fj_amount pq) now (valid_until_factory (sc_config c)) = Inr (Inr pr)"
    "sign_quote_for_request c pq pr t = (Inr sig, t')"
    "qr = build_quote_response (sc_config c) (pq_policy pq) (pq_fj_amount pq) pr sig"
proof -
  from assms(1,2,4) obtain pq where pq: "parse_quote_request (sc_lib c) (ss_store s1) (hr_query req) = Inr (Inr pq)"
    and i: "catch_internal c (issue_quote c pq now (create_quote_observer c s, s1)) = (Inr rep, s')"
    by (auto simp: quote_handler_def Let_def bad_request_def unauthorized_def split: if_splits sum.splits)
  from parse_quote_request_ok [OF assms(3,5), of "hr_query req"] pq have wf: "policy_wf (pq_policy pq)" by auto
  from i assms(2) obtain pr sig t t' where
    "compute_quote_pricing (pq_policy pq) (pq_fj_amount pq) now (valid_until_factory (sc_config c)) = Inr (Inr pr)"
    "sign_quote_for_request c pq pr t = (Inr sig, t')"
    "qr = build_quote_response (sc_config c) (pq_policy pq) (pq_fj_amount pq) pr sig"
    by (auto simp: catch_internal_def issue_quote_def bad_request_def internal_error_body_def
        split: sum.splits prod.splits)
  with that pq wf parsed_quote_fits [OF pq] show thesis by blast
qed

lemma issued_cold_start_quote:
  assumes "cold_start_quote_handler c req s = (Inr rep, s')" "re_body rep = ColdStartBody qr"
    and "addresses_roundtrip (sc_lib c)" "sc_now_unix_seconds c s = (Inr now, s1)" "store_wf (ss_store s1)"
  obtains pq pr sig t t' where
    "parse_cold_start_quote_request (sc_lib c) (ss_store s1) (hr_query req) = Inr (Inr pq)" "policy_wf (pq_policy pq)"
    "0 < pq_fj_amount pq" "pq_fj_amount pq < 2 ^ 128" "0 < pq_claim_amount pq" "pq_claim_amount pq < 2 ^ 128"
    "compute_quote_pricing (pq_policy pq) (pq_fj_amount pq) now (valid_until_factory (sc_config c)) = Inr (Inr pr)"
    "pr_aa_payment_amount pr \<le> pq_claim_amount pq"
    "sign_cold_start_quote (sc_lib c) (sc_signer c)
       \<lparr>qp_fpc_address = sc_fpc_address c, qp_accepted_asset = pq_accepted_asset pq,
        qp_fj_fee_amount = pq_fj_amount pq, qp_aa_payment_amount = pr_aa_payment_amount pr,
        qp_valid_until = pr_valid_until pr, qp_user_address = pq_user pq, cs_claim_amount = pq_claim_amount pq,
        cs_claim_secret_hash = pq_claim_secret_hash pq\<rparr> t = (Inr sig, t')"
    "cr_aa_payment_amount qr = bigint_string (pr_aa_payment_amount pr)"
    "cr_valid_until qr = bigint_string (pr_valid_until pr)" "cr_signature qr = sig"
proof -
  from assms(1,2,4) obtain pq where
    pq: "parse_cold_start_quote_request (sc_lib c) (ss_store s1) (hr_query req) = Inr (Inr pq)"
    and i: "catch_internal c (issue_cold_start_quote c pq now (create_quote_observer c s, s1)) = (Inr rep, s')"
    by (auto simp: cold_start_quote_handler_def Let_def bad_request_def unauthorized_def split: if_splits sum.splits)
  from parse_cold_start_ok [OF assms(3,5), of "hr_query req"] pq have wf: "policy_wf (pq_policy pq)" by auto
  note fits = parsed_cold_start_fits [OF pq, simplified]
  from i assms(2) show thesis
    by (auto simp: catch_internal_def issue_cold_start_quote_def bad_request_def internal_error_body_def not_less
        fits split: sum.splits prod.splits if_splits intro!: that [OF pq wf])
qed

text \<open>The JSON object of a reply.\<close>

definition cold_start_response_json :: "cold_start_response \<Rightarrow> jsval" where
  "cold_start_response_json r = JObject
     [(''accepted_asset'', JString (cr_accepted_asset r)), (''fj_amount'', JString (cr_fj_amount r)),
      (''aa_payment_amount'', JString (cr_aa_payment_amount r)), (''valid_until'', JString (cr_valid_until r)),
      (''claim_amount'', JString (cr_claim_amount r)), (''claim_secret_hash'', JString (cr_claim_secret_hash r)),
      (''signature'', JString (cr_signature r))]"


definition quote_response_json :: "quote_response \<Rightarrow> jsval" where
  "quote_response_json r = JObject
     ([(''accepted_asset'', JString (qr_accepted_asset r)), (''fj_amount'', JString (qr_fj_amount r)),
       (''aa_payment_amount'', JString (qr_aa_payment_amount r)), (''valid_until'', JString (qr_valid_until r)),
       (''signature'', JString (qr_signature r))] @
      (case qr_rates r of None \<Rightarrow> [] | Some (n, d) \<Rightarrow> [(''rate_num'', JString n), (''rate_den'', JString d)]))"

lemma priced_quote:
  assumes "policy_wf p" "0 < fj"
    and "compute_quote_pricing p fj now (valid_until_factory cfg) = Inr (Inr pr)"
  shows "pr_aa_payment_amount pr = exact_price p fj" "pr_valid_until pr = now + c_quote_validity_seconds cfg"
    "0 < exact_price p fj" "exact_price p fj < 2 ^ 128"
    "pr_rate_num pr = market_rate_num p * (10000 + fee_bips p)" "pr_rate_den pr = market_rate_den p * 10000"
  using compute_quote_pricing_wf(1) [OF assms(1,2), of now "valid_until_factory cfg"]
    compute_quote_pricing_wf(2) [OF assms(1,2)] assms(3)
  by (auto simp: U128_MAX_def valid_until_factory_def split: if_splits)

lemma parse_issued_quote:
  assumes "0 \<le> pr_aa_payment_amount pr" "0 \<le> pr_valid_until pr"
  shows "parse_quote_fields (quote_response_json (build_quote_response cfg p fj pr sig)) =
    Inr \<lparr>qf_aa_payment_amount = pr_aa_payment_amount pr, qf_valid_until = pr_valid_until pr,
         qf_sig_bytes = hex_bytes (strip_0x sig)\<rparr>"
  using assms by (simp add: parse_quote_fields_def js_get_def quote_response_json_def build_quote_response_def
      jfield_def js_bigint_decimal)

section \<open>A concrete deployment\<close>

lemma demo_prints: "0 \<le> a \<Longrightarrow> prints_address demo_lib a" "0 \<le> a \<Longrightarrow> prints_field demo_lib a"
proof -
  assume "0 \<le> a"
  then have "js_trim (bigint_string a) = bigint_string a" "digits_only (bigint_string a)" "dec_value (bigint_string a) = a"
    using bigint_string_digits [of a] by (simp_all add: js_trim_digits bigint_roundtrip)
  moreover from this have "bigint_string a \<noteq> []" by (simp add: digits_only_def)
  ultimately show "prints_address demo_lib a" "prints_field demo_lib a"
    by (simp_all add: prints_address_def prints_field_def)
qed

text \<open>The demo contract with the hash of the demo service, and the demo service in the rate format.\<close>

definition demo_chain_env :: "(field \<Rightarrow> field \<Rightarrow> int) fpc_env" where
  "demo_chain_env = demo_fpc_env\<lparr>authwit_hash := inner_authwit_hash demo_lib\<rparr>"

definition demo_rate_context :: "unit server_context" where
  "demo_rate_context = demo_context\<lparr>sc_config := demo_config\<lparr>c_parsed := demo_parsed\<lparr>pc_quote_format := RateQuote\<rparr>\<rparr>\<rparr>"

lemma demo_signatures: "signatures_verify demo_chain_env pk signer"
  by (simp add: signatures_verify_def demo_chain_env_def demo_fpc_env_def)

lemma demo_transfer:
  "uint m \<le> 30000 \<Longrightarrow> \<exists>l'. token_transfer demo_chain_env c a f t m n (\<lambda>_ _. 30000) = Inr l'"
  by (simp add: demo_chain_env_def demo_fpc_env_def)

lemma demo_clock_reads: "sc_now_unix_seconds demo_context demo_state = (Inr 1000, demo_state)"
  "sc_now_unix_seconds demo_rate_context demo_state = (Inr 1000, demo_state)"
  by (simp_all add: demo_rate_context_def demo_context_def)

lemma demo_rate_simps [simp]:
  "sc_lib demo_rate_context = demo_lib" "sc_fpc_address demo_rate_context = 5" "sc_treasury demo_rate_context = None"
  "sc_sha256 demo_rate_context = (\<lambda>x. x)" "sc_signer demo_rate_context h st = (Inr (bigint_string h), st)"
  by (simp_all add: demo_rate_context_def)

lemma demo_rate_config: "c_quote_format (sc_config demo_rate_context) = RateQuote"
  "c_quote_validity_seconds (sc_config demo_rate_context) = 600"
  "is_quote_authorized (\<lambda>x. x) (sc_config demo_rate_context) (hr_headers demo_request)"
  using demo_authorized
  by (simp_all add: demo_rate_context_def demo_parsed_def is_quote_authorized_def)

lemma demo_pricing:
  "compute_quote_pricing (demo_policy ''7'') 1000 1000 vu = Inr (Inr \<lparr>pr_rate_num = 30300, pr_rate_den = 20000,
     pr_valid_until = vu 1000, pr_aa_payment_amount = 1515\<rparr>)"
  using compute_quote_pricing_wf(1) [OF demo_policy_wf, of 1000 "''7''" 1000 vu] demo_price
  by (simp add: U128_MAX_def demo_policy_def)

lemma demo_replies:
  "\<exists>rep s' qr. quote_handler demo_context demo_request demo_state = (Inr rep, s') \<and> re_body rep = QuoteBody qr"
  "\<exists>rep s' qr. quote_handler demo_rate_context demo_request demo_state = (Inr rep, s') \<and> re_body rep = QuoteBody qr"
  "\<exists>rep s' qr. cold_start_quote_handler demo_context demo_request demo_state = (Inr rep, s') \<and> re_body rep = ColdStartBody qr"
  using demo_parses demo_authorized
  by (simp_all add: quote_handler_def cold_start_quote_handler_def demo_clock_reads demo_rate_config
      catch_internal_def issue_quote_def issue_cold_start_quote_def demo_pricing sign_quote_for_request_def
      demo_config_facts sign_quote_def sign_rate_quote_def sign_cold_start_quote_def sign_hash_def
      compute_quote_hash_def compute_rate_quote_hash_def compute_cold_start_quote_hash_def
      valid_until_factory_def demo_validity ensure_sender_registered_def Let_def)

lemma demo_cost: "max_gas_cost (ctx_gas (demo_ctx u)) = 1000"
  by (simp add: max_gas_cost_def demo_ctx_def)

lemma demo_chain_facts [simp]:
  "authwit_hash demo_chain_env = inner_authwit_hash demo_lib"
  "this_address (demo_ctx u) = 5" "maybe_msg_sender (demo_ctx u) = u" "\<not> in_revertible_phase (demo_ctx u)"
  "anchor_timestamp (demo_ctx u) = 1000"
  by (simp_all add: demo_chain_env_def demo_ctx_def)

section \<open>Properties\<close>

text \<open>
  C30. The service understands the client. For addresses and a secret hash that print and
  read back, and amounts of 1 to 128 bits, the query of the URL that the SDK builds for a
  quote or a cold-start quote, whatever parameters the base URL had, passes the schema of
  the service, and the parsed request holds exactly the user, asset, amounts and secret
  hash that the SDK was given.
\<close>

theorem sdk_query_roundtrip:
  assumes "prints_address lib user" "user \<noteq> 0" "prints_address lib asset" "asset \<noteq> 0"
    and "0 < fj" "fj < 2 ^ 128" "0 < claim" "claim < 2 ^ 128" "prints_field lib secret_hash"
  shows "quote_request_query_schema lib (query_of_url (quote_url lib user asset fj u)) =
      Inr \<lparr>q_user = user, q_accepted_asset = asset, q_fj_amount = fj\<rparr> \<and>
    cold_start_quote_request_query_schema lib
        (query_of_url (cold_start_quote_url lib user asset fj claim secret_hash u)) =
      Inr \<lparr>q_user = user, q_accepted_asset = asset, q_fj_amount = fj, q_claim_amount = claim,
           q_claim_secret_hash = secret_hash\<rparr>"
proof -
  have obj: "\<exists>kvs. query_of_url v = JObject kvs" for v by (simp add: query_of_url_def)
  show ?thesis
    using assms obj
    by (simp add: quote_query_fields cold_start_query_fields quote_url_def cold_start_quote_url_def url_set_other
        user_field_def accepted_asset_field_def fj_amount_field_def claim_amount_field_def
        address_field_of_printed u128_field_of_decimal hex_field_iff prints_field_def)
qed

lemma sdk_query_roundtrip_witness:
  "quote_request_query_schema demo_lib (query_of_url (quote_url demo_lib 9 7 1000
      \<lparr>ur_origin = ''http://fpc'', ur_pathname = ''/'', ur_params = [(''user'', ''0'')]\<rparr>)) =
     Inr \<lparr>q_user = 9, q_accepted_asset = 7, q_fj_amount = 1000\<rparr>"
  using sdk_query_roundtrip [of demo_lib 9 7 1000 2000 11] demo_prints by simp


text \<open>
  C1. A quote that the service issues is one the contract accepts. Let the operator's signer
  make signatures that verify under the key in the contract, and let service and contract
  hash alike. If \<open>/quote\<close> answers a client with a quote, then the client parses it, and a
  \<open>fee_entrypoint\<close> call by that user with those values, under gas settings whose cost is
  the quoted fee and in a block between issue and expiry, succeeds whenever the transfer
  of the quoted amount from the user to the operator does.
\<close>

theorem issued_quote_is_accepted:
  assumes "quote_handler c req s = (Inr rep, s')" "re_body rep = QuoteBody qr"
    and "c_quote_format (sc_config c) = AmountQuote" "c_quote_validity_seconds (sc_config c) \<le> 3600"
    and "addresses_roundtrip (sc_lib c)" "sc_now_unix_seconds c s = (Inr now, s1)" "store_wf (ss_store s1)"
    and "parse_quote_request (sc_lib c) (ss_store s1) (hr_query req) = Inr (Inr pq)"
    and "signatures_verify env (operator_pubkey_x cfg, operator_pubkey_y cfg) (sc_signer c)"
    and "authwit_hash env = inner_authwit_hash (sc_lib c)" "fr_holds_u128 (sc_lib c)"
    and "this_address ctx = sc_fpc_address c" "maybe_msg_sender ctx = Some (pq_user pq)" "\<not> in_revertible_phase ctx"
    and "max_gas_cost (ctx_gas ctx) = pq_fj_amount pq"
    and "0 \<le> now" "now \<le> uint (anchor_timestamp ctx)"
    and "uint (anchor_timestamp ctx) \<le> now + c_quote_validity_seconds (sc_config c)"
    and "now + c_quote_validity_seconds (sc_config c) < 2 ^ 64"
    and "token_transfer env (sc_fpc_address c) (pq_accepted_asset pq) (pq_user pq) (operator cfg)
           (word_of_int (exact_price (pq_policy pq) (pq_fj_amount pq))) nonce l = Inr l'"
  shows "\<exists>q ctx'. parse_quote_fields (quote_response_json qr) = Inr q \<and>
    qf_aa_payment_amount q = exact_price (pq_policy pq) (pq_fj_amount pq) \<and>
    fee_entrypoint env (Some cfg) (pq_accepted_asset pq) nonce (word_of_int (pq_fj_amount pq))
      (word_of_int (qf_aa_payment_amount q)) (word_of_int (qf_valid_until q)) (qf_sig_bytes q) ctx l = Inr (ctx', l')"
proof -
  from issued_quote [OF assms(1,2,5-7)] assms(8) obtain pr sig t t' where
    pq: "policy_wf (pq_policy pq)" "0 < pq_fj_amount pq" "pq_fj_amount pq < 2 ^ 128"
    and pr: "compute_quote_pricing (pq_policy pq) (pq_fj_amount pq) now (valid_until_factory (sc_config c)) = Inr (Inr pr)"
    and sig: "sign_quote_for_request c pq pr t = (Inr sig, t')"
    and qr: "qr = build_quote_response (sc_config c) (pq_policy pq) (pq_fj_amount pq) pr sig"
    by (metis Inr_inject)
  let ?qp = "\<lparr>qp_fpc_address = sc_fpc_address c, qp_accepted_asset = pq_accepted_asset pq,
      qp_fj_fee_amount = pq_fj_amount pq, qp_aa_payment_amount = pr_aa_payment_amount pr,
      qp_valid_until = pr_valid_until pr, qp_user_address = pq_user pq\<rparr>"
  note price = priced_quote [OF pq(1,2) pr]
  have until: "0 \<le> pr_valid_until pr" "ready_for ctx (pq_fj_amount pq) (pr_valid_until pr)" "pr_valid_until pr < 2 ^ 64"
    using assms(4,14-19) price(2) by (simp_all add: ready_for_def)
  have "sign_quote (sc_lib c) (sc_signer c) ?qp t = (Inr sig, t')"
    using sig assms(3) by (simp add: sign_quote_for_request_def)
  from accepted_when_signed [OF this assms(9-11)] pq price until assms(12,13,20) parse_issued_quote [of pr]
  show ?thesis by (simp add: qr)
qed

lemma issued_quote_is_accepted_witness:
  "\<exists>sig until ctx' l'. fee_entrypoint demo_chain_env (Some demo_fpc_config) 7 3 (word_of_int 1000) (word_of_int 1515)
     until sig (demo_ctx (Some 9)) (\<lambda>_ _. 30000) = Inr (ctx', l')"
proof -
  obtain rep s' qr where run: "quote_handler demo_context demo_request demo_state = (Inr rep, s')" "re_body rep = QuoteBody qr"
    using demo_replies(1) by blast
  let ?pq = "\<lparr>pq_user = 9, pq_accepted_asset = 7, pq_policy = demo_policy ''7'', pq_fj_amount = 1000\<rparr>"
  obtain l' where "token_transfer demo_chain_env 5 7 9 (operator demo_fpc_config) (word_of_int 1515) 3 (\<lambda>_ _. 30000) = Inr l'"
    using demo_transfer [of "word_of_int 1515" 5 7 9 "operator demo_fpc_config" 3] by (auto simp: uint_u128)
  then show ?thesis
    using issued_quote_is_accepted [OF run, of 1000 demo_state ?pq demo_chain_env demo_fpc_config "demo_ctx (Some 9)" 3
        "\<lambda>_ _. 30000" l'] demo_parses demo_addresses_roundtrip demo_store_wf demo_clock_reads demo_cost
    by (auto simp: demo_state_def demo_config_facts demo_validity demo_price demo_fr_holds_u128 demo_signatures)
      (intro exI, assumption)
qed

text \<open>
  C38. In the rate format the service signs prices as amounts. Rate and amount quotes share
  the domain separator and the layout of the preimage, so the signature under a rate quote
  is accepted by \<open>fee_entrypoint\<close> as a quote of the rate's numerator as the fee and its
  denominator as the payment, whatever amounts the client had asked for and was shown.
\<close>

theorem rate_quote_is_accepted_as_amounts:
  assumes "quote_handler c req s = (Inr rep, s')" "re_body rep = QuoteBody qr"
    and "c_quote_format (sc_config c) = RateQuote" "c_quote_validity_seconds (sc_config c) \<le> 3600"
    and "addresses_roundtrip (sc_lib c)" "sc_now_unix_seconds c s = (Inr now, s1)" "store_wf (ss_store s1)"
    and "parse_quote_request (sc_lib c) (ss_store s1) (hr_query req) = Inr (Inr pq)"
    and "compute_final_rate (pq_policy pq) = (rn, rd)" "rn < 2 ^ 128" "rd < 2 ^ 128"
    and "signatures_verify env (operator_pubkey_x cfg, operator_pubkey_y cfg) (sc_signer c)"
    and "authwit_hash env = inner_authwit_hash (sc_lib c)" "fr_holds_u128 (sc_lib c)"
    and "this_address ctx = sc_fpc_address c" "maybe_msg_sender ctx = Some (pq_user pq)" "\<not> in_revertible_phase ctx"
    and "max_gas_cost (ctx_gas ctx) = rn"
    and "0 \<le> now" "now \<le> uint (anchor_timestamp ctx)"
    and "uint (anchor_timestamp ctx) \<le> now + c_quote_validity_seconds (sc_config c)"
    and "now + c_quote_validity_seconds (sc_config c) < 2 ^ 64"
    and "token_transfer env (sc_fpc_address c) (pq_accepted_asset pq) (pq_user pq) (operator cfg)
           (word_of_int rd) nonce l = Inr l'"
  shows "\<exists>q ctx'. parse_quote_fields (quote_response_json qr) = Inr q \<and>
    fee_entrypoint env (Some cfg) (pq_accepted_asset pq) nonce (word_of_int rn) (word_of_int rd)
      (word_of_int (qf_valid_until q)) (qf_sig_bytes q) ctx l = Inr (ctx', l')"
proof -
  from issued_quote [OF assms(1,2,5-7)] assms(8) obtain pr sig t t' where
    pq: "policy_wf (pq_policy pq)" "0 < pq_fj_amount pq" "pq_fj_amount pq < 2 ^ 128"
    and pr: "compute_quote_pricing (pq_policy pq) (pq_fj_amount pq) now (valid_until_factory (sc_config c)) = Inr (Inr pr)"
    and sig: "sign_quote_for_request c pq pr t = (Inr sig, t')"
    and qr: "qr = build_quote_response (sc_config c) (pq_policy pq) (pq_fj_amount pq) pr sig"
    by (metis Inr_inject)
  let ?qp = "\<lparr>qp_fpc_address = sc_fpc_address c, qp_accepted_asset = pq_accepted_asset pq,
      qp_fj_fee_amount = rn, qp_aa_payment_amount = rd,
      qp_valid_until = pr_valid_until pr, qp_user_address = pq_user pq\<rparr>"
  note price = priced_quote [OF pq(1,2) pr]
  have "0 \<le> market_rate_num (pq_policy pq) * (10000 + fee_bips (pq_policy pq))"
    "0 \<le> market_rate_den (pq_policy pq) * 10000"
    using pq(1) by (simp_all add: policy_wf_def)
  then have rate: "pr_rate_num pr = rn" "pr_rate_den pr = rd" "0 \<le> rn" "0 \<le> rd"
    unfolding price(5,6) using assms(9) by (simp_all add: compute_final_rate_def)
  have until: "0 \<le> pr_valid_until pr" "ready_for ctx rn (pr_valid_until pr)" "pr_valid_until pr < 2 ^ 64"
    using assms(4,17-22) price(2) by (simp_all add: ready_for_def)
  have "sign_quote (sc_lib c) (sc_signer c) ?qp t = (Inr sig, t')"
    using sig assms(3) rate
    by (simp add: sign_quote_for_request_def sign_rate_quote_def sign_quote_def compute_rate_quote_hash_def
        compute_quote_hash_def SIGNER_QUOTE_DOMAIN_SEPARATOR_def)
  from accepted_when_signed [OF this assms(12-14)] rate assms(10,11) price until assms(15,16,23) parse_issued_quote [of pr]
  show ?thesis by (simp add: qr)
qed

lemma rate_quote_is_accepted_as_amounts_witness:
  "\<exists>sig until ctx' l'. fee_entrypoint demo_chain_env (Some demo_fpc_config) 7 3 (word_of_int 30300) (word_of_int 20000)
     until sig ((demo_ctx (Some 9))\<lparr>ctx_gas := \<lparr>fee_per_da_gas = 2, fee_per_l2_gas = 3, da_gas = 150, l2_gas = 10000\<rparr>\<rparr>)
     (\<lambda>_ _. 30000) = Inr (ctx', l')"
proof -
  let ?ctx = "(demo_ctx (Some 9))\<lparr>ctx_gas := \<lparr>fee_per_da_gas = 2, fee_per_l2_gas = 3, da_gas = 150, l2_gas = 10000\<rparr>\<rparr>"
  obtain rep s' qr where run: "quote_handler demo_rate_context demo_request demo_state = (Inr rep, s')" "re_body rep = QuoteBody qr"
    using demo_replies(2) by blast
  let ?pq = "\<lparr>pq_user = 9, pq_accepted_asset = 7, pq_policy = demo_policy ''7'', pq_fj_amount = 1000\<rparr>"
  obtain l' where "token_transfer demo_chain_env 5 7 9 (operator demo_fpc_config) (word_of_int 20000) 3 (\<lambda>_ _. 30000) = Inr l'"
    using demo_transfer [of "word_of_int 20000" 5 7 9 "operator demo_fpc_config" 3] by (auto simp: uint_u128)
  moreover have "max_gas_cost (ctx_gas ?ctx) = 30300" by (simp add: max_gas_cost_def)
  moreover have "compute_final_rate (pq_policy ?pq) = (30300, 20000)" by (simp add: compute_final_rate_def demo_policy_def)
  ultimately show ?thesis
    using rate_quote_is_accepted_as_amounts [OF run, of 1000 demo_state ?pq 30300 20000 demo_chain_env demo_fpc_config
        ?ctx 3 "\<lambda>_ _. 30000" l'] demo_parses demo_addresses_roundtrip demo_store_wf demo_clock_reads
    by (auto simp: demo_state_def demo_rate_config demo_fr_holds_u128 demo_signatures)
qed


text \<open>
  C2. The cold-start quote of the service passes the setup of \<open>cold_start_entrypoint\<close>. Under
  the same assumptions, the values that the client parses from the reply, with the claim
  amount and secret hash of its request, pass every check of the setup phase as the root
  call of a transaction between issue and expiry; the claim covers the quoted amount.
\<close>

theorem issued_cold_start_quote_passes_setup:
  assumes "cold_start_quote_handler c req s = (Inr rep, s')" "re_body rep = ColdStartBody qr"
    and "c_quote_validity_seconds (sc_config c) \<le> 3600"
    and "addresses_roundtrip (sc_lib c)" "sc_now_unix_seconds c s = (Inr now, s1)" "store_wf (ss_store s1)"
    and "parse_cold_start_quote_request (sc_lib c) (ss_store s1) (hr_query req) = Inr (Inr pq)"
    and "signatures_verify env (operator_pubkey_x cfg, operator_pubkey_y cfg) (sc_signer c)"
    and "authwit_hash env = inner_authwit_hash (sc_lib c)" "fr_holds_u128 (sc_lib c)"
    and "this_address ctx = sc_fpc_address c" "maybe_msg_sender ctx = None" "\<not> in_revertible_phase ctx"
    and "max_gas_cost (ctx_gas ctx) = pq_fj_amount pq"
    and "0 \<le> now" "now \<le> uint (anchor_timestamp ctx)"
    and "uint (anchor_timestamp ctx) \<le> now + c_quote_validity_seconds (sc_config c)"
    and "now + c_quote_validity_seconds (sc_config c) < 2 ^ 64"
  shows "\<exists>q ctx'. parse_quote_fields (cold_start_response_json qr) = Inr q \<and>
    qf_aa_payment_amount q = exact_price (pq_policy pq) (pq_fj_amount pq) \<and>
    qf_aa_payment_amount q \<le> pq_claim_amount pq \<and>
    cold_start_setup env (Some cfg) (pq_user pq) (pq_accepted_asset pq) (word_of_int (pq_claim_amount pq))
      (pq_claim_secret_hash pq) (word_of_int (pq_fj_amount pq)) (word_of_int (qf_aa_payment_amount q))
      (word_of_int (qf_valid_until q)) (qf_sig_bytes q) ctx = Inr (cfg, ctx')"
proof -
  from issued_cold_start_quote [OF assms(1,2,4-6)] assms(7) obtain pr sig t t' where
    pq: "policy_wf (pq_policy pq)" "0 < pq_fj_amount pq" "pq_fj_amount pq < 2 ^ 128"
      "0 < pq_claim_amount pq" "pq_claim_amount pq < 2 ^ 128"
    and pr: "compute_quote_pricing (pq_policy pq) (pq_fj_amount pq) now (valid_until_factory (sc_config c)) = Inr (Inr pr)"
    and le: "pr_aa_payment_amount pr \<le> pq_claim_amount pq"
    and sig: "sign_cold_start_quote (sc_lib c) (sc_signer c)
       \<lparr>qp_fpc_address = sc_fpc_address c, qp_accepted_asset = pq_accepted_asset pq,
        qp_fj_fee_amount = pq_fj_amount pq, qp_aa_payment_amount = pr_aa_payment_amount pr,
        qp_valid_until = pr_valid_until pr, qp_user_address = pq_user pq, cs_claim_amount = pq_claim_amount pq,
        cs_claim_secret_hash = pq_claim_secret_hash pq\<rparr> t = (Inr sig, t')"
    and qr: "cr_aa_payment_amount qr = bigint_string (pr_aa_payment_amount pr)"
      "cr_valid_until qr = bigint_string (pr_valid_until pr)" "cr_signature qr = sig"
    by (metis Inr_inject)
  note price = priced_quote [OF pq(1,2) pr]
  have until: "0 \<le> pr_valid_until pr" "ready_for ctx (pq_fj_amount pq) (pr_valid_until pr)" "pr_valid_until pr < 2 ^ 64"
    using assms(3,13-18) price(2) by (simp_all add: ready_for_def)
  have "parse_quote_fields (cold_start_response_json qr) = Inr \<lparr>qf_aa_payment_amount = pr_aa_payment_amount pr,
      qf_valid_until = pr_valid_until pr, qf_sig_bytes = hex_bytes (strip_0x sig)\<rparr>"
    using price until(1) by (simp add: parse_quote_fields_def js_get_def cold_start_response_json_def jfield_def
        js_bigint_decimal qr)
  then show ?thesis
    using setup_when_signed [OF sig assms(8-10)] pq price until le assms(11,12) by simp
qed

lemma issued_cold_start_quote_passes_setup_witness:
  "\<exists>sig until ctx'. cold_start_setup demo_chain_env (Some demo_fpc_config) 9 7 (word_of_int 2000) 11 (word_of_int 1000)
     (word_of_int 1515) until sig (demo_ctx None) = Inr (demo_fpc_config, ctx')"
proof -
  obtain rep s' qr where run: "cold_start_quote_handler demo_context demo_request demo_state = (Inr rep, s')"
    "re_body rep = ColdStartBody qr"
    using demo_replies(3) by blast
  let ?pq = "\<lparr>pq_user = 9, pq_accepted_asset = 7, pq_policy = demo_policy ''7'', pq_fj_amount = 1000,
     pq_claim_amount = 2000, pq_claim_secret_hash = 11\<rparr>"
  show ?thesis
    using issued_cold_start_quote_passes_setup [OF run, of 1000 demo_state ?pq demo_chain_env demo_fpc_config "demo_ctx None"]
      demo_parses demo_addresses_roundtrip demo_store_wf demo_clock_reads demo_cost
    by (auto simp: demo_state_def demo_config_facts demo_validity demo_price demo_fr_holds_u128 demo_signatures)
      (intro exI, assumption)
qed

end
