(* ===== verification/Deploy_Verify.thy ===== *)
theory Deploy_Verify
  imports Js_Values Aztec_Lib
begin

text \<open>
  Verification of a deployed contract, \<open>contract-deployment/src/fpc-immutables.ts\<close> and
  \<open>contract-deployment/src/verify.ts\<close>: the comparison of the on-chain initialization hash
  with the one of the operator's address and key, and the loop that repeats the checks of a
  deployment until they pass.

  The node is the record \<open>deploy_node\<close>. What it returns for a contract is an untyped value
  to \<open>verify.ts\<close>, so a payload may be a value that is no object and its fields may be
  missing; \<open>None\<close> is any falsy value. The initialization hash is a function of the ABI and
  the arguments, the parameter \<open>init_hash\<close>.
\<close>

section \<open>The constructor\<close>

datatype abi_type = AbiField | AbiStruct string "(string \<times> abi_type) list"

record abi_parameter =
  ab_name :: string
  ab_type :: abi_type
  ab_visibility :: string

record function_abi =
  fa_name :: string
  fa_public :: bool
  fa_only_self :: bool
  fa_static :: bool
  fa_initializer :: bool
  fa_parameters :: "abi_parameter list"

definition AZTEC_ADDRESS_TYPE :: abi_type where
  "AZTEC_ADDRESS_TYPE =
     AbiStruct ''aztec::protocol_types::address::aztec_address::AztecAddress'' [(''inner'', AbiField)]"

definition FPC_CONSTRUCTOR_ABI :: function_abi where
  "FPC_CONSTRUCTOR_ABI = \<lparr>fa_name = ''constructor'', fa_public = True, fa_only_self = False,
     fa_static = False, fa_initializer = True, fa_parameters =
       [\<lparr>ab_name = ''operator'', ab_type = AZTEC_ADDRESS_TYPE, ab_visibility = ''private''\<rparr>,
        \<lparr>ab_name = ''operator_pubkey_x'', ab_type = AbiField, ab_visibility = ''private''\<rparr>,
        \<lparr>ab_name = ''operator_pubkey_y'', ab_type = AbiField, ab_visibility = ''private''\<rparr>]\<rparr>"

section \<open>Data\<close>

datatype immutable_reason = ContractQueryFailed | ContractNotFound | ImmutableMismatch

datatype verification_error =
    FpcImmutableVerificationError (ve_reason: immutable_reason) (ve_message: string)
  | OtherError thrown

fun to_thrown :: "verification_error \<Rightarrow> thrown" where
  "to_thrown (FpcImmutableVerificationError r m) = Thrown ''FpcImmutableVerificationError'' m"
| "to_thrown (OtherError e) = e"

record fpc_immutable_inputs =
  fi_fpc_address :: int
  fi_operator_address :: int
  fi_operator_pubkey_x :: int
  fi_operator_pubkey_y :: int

text \<open>A truthy field: a field element, a text, or another primitive with its printed form.\<close>

datatype raw_value = RawFr int | RawText string | RawOther string

record contract_instance =
  ci_initialization_hash :: "raw_value option"
  ci_current_class_id :: "raw_value option"
  ci_original_class_id :: "raw_value option"

datatype contract_payload = Instance contract_instance | NoObject

record 'w deploy_node =
  dn_get_contract :: "int \<Rightarrow> ('w, contract_payload option) ioe"
  dn_get_contract_class :: "raw_value \<Rightarrow> ('w, bool) ioe"

type_synonym init_hash = "function_abi \<Rightarrow> int list \<Rightarrow> int"

section \<open>The immutables\<close>

definition compute_expected_fpc_initialization_hash :: "init_hash \<Rightarrow> fpc_immutable_inputs \<Rightarrow> int" where
  "compute_expected_fpc_initialization_hash ih i =
     ih FPC_CONSTRUCTOR_ABI [fi_operator_address i, fi_operator_pubkey_x i, fi_operator_pubkey_y i]"

definition raw_string :: "aztec_lib \<Rightarrow> raw_value \<Rightarrow> string" where
  "raw_string lib v = (case v of RawFr x \<Rightarrow> fr_to_string lib x | RawText s \<Rightarrow> s | RawOther s \<Rightarrow> s)"

definition class_id_text :: "aztec_lib \<Rightarrow> raw_value option \<Rightarrow> string" where
  "class_id_text lib v = (case v of None \<Rightarrow> ''unknown'' | Some r \<Rightarrow> raw_string lib r)"

definition STARTUP_FAILED :: string where
  "STARTUP_FAILED = ''[startup] on-chain FPC immutable verification failed: ''"

definition mismatch_message ::
    "aztec_lib \<Rightarrow> fpc_immutable_inputs \<Rightarrow> int \<Rightarrow> int \<Rightarrow> contract_instance \<Rightarrow> string" where
  "mismatch_message lib i wanted found ci =
     ''[startup] on-chain FPC immutable mismatch: expected operator='' @ address_to_string lib (fi_operator_address i) @
     '' (pubkey_x='' @ fr_to_string lib (fi_operator_pubkey_x i) @
     '', pubkey_y='' @ fr_to_string lib (fi_operator_pubkey_y i) @
     '') for contract '' @ address_to_string lib (fi_fpc_address i) @
     '', but deployment initialization_hash differs (expected='' @ fr_to_string lib wanted @
     '', on_chain='' @ fr_to_string lib found @
     '', current_class_id='' @ class_id_text lib (ci_current_class_id ci) @
     '', original_class_id='' @ class_id_text lib (ci_original_class_id ci) @ '')''"

text \<open>
  \<open>deployed.initializationHash.equals(\<dots>)\<close>: only a field element has the method; a missing
  field or a primitive without it is a \<open>TypeError\<close>.
\<close>

definition check_initialization_hash ::
    "aztec_lib \<Rightarrow> init_hash \<Rightarrow> fpc_immutable_inputs \<Rightarrow> contract_instance \<Rightarrow> verification_error + unit" where
  "check_initialization_hash lib ih i ci =
     (let wanted = compute_expected_fpc_initialization_hash ih i in
      case ci_initialization_hash ci of
        None \<Rightarrow> Inl (OtherError (Thrown ''TypeError'' ''Cannot read properties of undefined (reading 'equals')''))
      | Some (RawFr found) \<Rightarrow>
          if found = wanted then Inr ()
          else Inl (FpcImmutableVerificationError ImmutableMismatch (mismatch_message lib i wanted found ci))
      | Some _ \<Rightarrow> Inl (OtherError (Thrown ''TypeError'' ''onChainInitializationHash.equals is not a function'')))"

definition no_instance :: contract_instance where
  "no_instance = \<lparr>ci_initialization_hash = None, ci_current_class_id = None, ci_original_class_id = None\<rparr>"

definition payload_instance :: "contract_payload \<Rightarrow> contract_instance" where
  "payload_instance p = (case p of Instance ci \<Rightarrow> ci | NoObject \<Rightarrow> no_instance)"

definition verify_fpc_immutables_on_startup ::
    "aztec_lib \<Rightarrow> init_hash \<Rightarrow> 'w deploy_node \<Rightarrow> fpc_immutable_inputs \<Rightarrow> 'w \<Rightarrow> (verification_error + unit) \<times> 'w" where
  "verify_fpc_immutables_on_startup lib ih node i w =
     (case dn_get_contract node (fi_fpc_address i) w of
        (Inl e, w1) \<Rightarrow> (Inl (FpcImmutableVerificationError ContractQueryFailed
          (STARTUP_FAILED @ ''could not query contract '' @ address_to_string lib (fi_fpc_address i) @
           '' ('' @ error_message e @ '')'')), w1)
      | (Inr None, w1) \<Rightarrow> (Inl (FpcImmutableVerificationError ContractNotFound
          (STARTUP_FAILED @ ''contract not found at '' @ address_to_string lib (fi_fpc_address i))), w1)
      | (Inr (Some p), w1) \<Rightarrow> (check_initialization_hash lib ih i (payload_instance p), w1))"

section \<open>One attempt\<close>

definition is_retryable_verification_error :: "thrown \<Rightarrow> bool" where
  "is_retryable_verification_error e =
     (let m = (case e of Thrown n m \<Rightarrow> js_lower m | ThrownValue s \<Rightarrow> s) in
      (js_includes m ''block'' \<and> js_includes m ''not found'') \<or> js_includes m ''reorg'' \<or>
      js_includes m ''timeout'' \<or> js_includes m ''temporarily unavailable'')"

definition stringify_with_to_string :: "aztec_lib \<Rightarrow> raw_value \<Rightarrow> string \<Rightarrow> thrown + string" where
  "stringify_with_to_string lib v what = (case v of
     RawText s \<Rightarrow> Inr s
   | RawFr x \<Rightarrow> Inr (fr_to_string lib x)
   | RawOther s \<Rightarrow> Inl (error (what @ '' returned invalid value '' @ s @ '' (expected string-like output)'')))"

text \<open>Blank, \<open>/^0x0+$/i\<close> or \<open>/^0+$/\<close>.\<close>

definition is_zero_field_like :: "string \<Rightarrow> bool" where
  "is_zero_field_like v =
     (let t = js_trim v; zeros = (\<lambda>s. s \<noteq> [] \<and> list_all (\<lambda>c. c = CHR ''0'') s) in
      t = [] \<or> (js_lower (take 2 t) = ''0x'' \<and> zeros (drop 2 t)) \<or> zeros t)"

definition hash_issues :: "aztec_lib \<Rightarrow> raw_value option \<Rightarrow> thrown + string list" where
  "hash_issues lib h = (case h of
     None \<Rightarrow> Inr [''missing initialization hash for fpc'']
   | Some v \<Rightarrow> and_then (stringify_with_to_string lib v ''fpc initialization hash'') (\<lambda>s.
       Inr (if is_zero_field_like s
            then [''contract appears uninitialized (zero initialization hash): fpc''] else [])))"

text \<open>The body of the loop over the contracts, whose one entry is the FPC.\<close>

definition contract_issues :: "aztec_lib \<Rightarrow> 'w deploy_node \<Rightarrow> int \<Rightarrow> ('w, string list) ioe" where
  "contract_issues lib node addr =
     bind_io (dn_get_contract node addr) (\<lambda>deployed.
     case deployed of
       None \<Rightarrow> return_io [''on-chain contract missing: fpc at '' @ address_to_string lib addr]
     | Some NoObject \<Rightarrow> return_io [''invalid on-chain contract payload for fpc at '' @ address_to_string lib addr]
     | Some (Instance ci) \<Rightarrow>
         bind_io (from_pure (hash_issues lib (ci_initialization_hash ci))) (\<lambda>iss.
         case ci_current_class_id ci of
           None \<Rightarrow> return_io (iss @ [''missing current contract class id for fpc''])
         | Some c \<Rightarrow> bind_io (dn_get_contract_class node c) (\<lambda>registered.
             return_io (iss @ (if registered then [] else [''contract class not publicly registered: fpc''])))))"

definition mismatch_error :: "string \<Rightarrow> thrown" where
  "mismatch_error m = error (''FPC immutable mismatch detected and will not recover with retries: '' @ m)"

definition verify_attempt ::
    "aztec_lib \<Rightarrow> init_hash \<Rightarrow> 'w deploy_node \<Rightarrow> fpc_immutable_inputs \<Rightarrow> ('w, string list) ioe" where
  "verify_attempt lib ih node i =
     bind_io (contract_issues lib node (fi_fpc_address i)) (\<lambda>iss w.
     case verify_fpc_immutables_on_startup lib ih node i w of
       (Inr _, w1) \<Rightarrow> (Inr iss, w1)
     | (Inl e, w1) \<Rightarrow>
         (case e of
            FpcImmutableVerificationError ImmutableMismatch m \<Rightarrow> (Inl (mismatch_error m), w1)
          | _ \<Rightarrow> (Inr (iss @ [''fpc immutable verification pending: '' @ js_string (to_thrown e)]), w1)))"

section \<open>The loop\<close>

fun join_lines :: "string list \<Rightarrow> string" where
  "join_lines [] = []"
| "join_lines [s] = s"
| "join_lines (s # ss) = s @ [CHR 0x0A] @ join_lines ss"

definition format_check_issues :: "string list \<Rightarrow> string" where
  "format_check_issues iss = (if iss = [] then ''<none>'' else join_lines (map (\<lambda>i. ''  - '' @ i) iss))"

definition verification_failed :: "nat \<Rightarrow> string list \<Rightarrow> thrown" where
  "verification_failed n iss = error (''[verify-fpc-devnet] verification failed after '' @ dec_nat n @
     '' attempts:'' @ [CHR 0x0A] @ format_check_issues iss)"

text \<open>From \<open>attempt\<close> on; \<open>go\<close> is one call of \<open>verifyAttempt\<close>, \<open>sleep\<close> the wait of \<open>pollMs\<close>.\<close>

function verify_loop ::
    "('w, string list) ioe \<Rightarrow> ('w \<Rightarrow> 'w) \<Rightarrow> nat \<Rightarrow> nat \<Rightarrow> string list \<Rightarrow> ('w, unit) ioe" where
  "verify_loop go sleep max_attempts attempt last_issues w =
     (if max_attempts < attempt then (Inl (verification_failed max_attempts last_issues), w)
      else case go w of
        (Inl e, w1) \<Rightarrow>
          if \<not> is_retryable_verification_error e \<or> max_attempts \<le> attempt then (Inl e, w1)
          else verify_loop go sleep max_attempts (attempt + 1) last_issues (sleep w1)
      | (Inr iss, w1) \<Rightarrow>
          if iss = [] then (Inr (), w1)
          else verify_loop go sleep max_attempts (attempt + 1) iss
                 (if attempt < max_attempts then sleep w1 else w1))"
  by pat_completeness auto
termination
  by (relation "measure (\<lambda>(go, sleep, n, a, iss, w). Suc n - a)") auto

declare verify_loop.simps [simp del]

definition DEFAULT_MAX_ATTEMPTS :: nat where
  "DEFAULT_MAX_ATTEMPTS = 20"

definition DEFAULT_POLL_MS :: int where
  "DEFAULT_POLL_MS = 3000"

definition verify_deployment ::
    "aztec_lib \<Rightarrow> init_hash \<Rightarrow> 'w deploy_node \<Rightarrow> (int \<Rightarrow> 'w \<Rightarrow> 'w) \<Rightarrow> fpc_immutable_inputs \<Rightarrow>
     nat option \<Rightarrow> int option \<Rightarrow> ('w, unit) ioe" where
  "verify_deployment lib ih node sleep i max_attempts poll_ms =
     verify_loop (verify_attempt lib ih node i)
       (sleep (case poll_ms of None \<Rightarrow> DEFAULT_POLL_MS | Some p \<Rightarrow> p))
       (case max_attempts of None \<Rightarrow> DEFAULT_MAX_ATTEMPTS | Some n \<Rightarrow> n) 1 []"

section \<open>Facts\<close>

lemma verify_startup_iff:
  "verify_fpc_immutables_on_startup lib ih node i w = (Inr u, w') \<longleftrightarrow>
     (\<exists>ci. dn_get_contract node (fi_fpc_address i) w = (Inr (Some (Instance ci)), w') \<and>
        ci_initialization_hash ci = Some (RawFr (compute_expected_fpc_initialization_hash ih i)))"
  by (auto simp: verify_fpc_immutables_on_startup_def check_initialization_hash_def Let_def payload_instance_def
      no_instance_def split: prod.splits sum.splits option.splits raw_value.splits contract_payload.splits if_splits)

lemma attempt_passes:
  assumes "verify_attempt lib ih node i w = (Inr [], w')"
  shows "\<exists>w1. contract_issues lib node (fi_fpc_address i) w = (Inr [], w1) \<and>
    verify_fpc_immutables_on_startup lib ih node i w1 = (Inr (), w')"
proof -
  from assms obtain iss w1 where c: "contract_issues lib node (fi_fpc_address i) w = (Inr iss, w1)"
    by (auto simp: verify_attempt_def io_Inr_iff)
  with assms show ?thesis
    by (auto simp: verify_attempt_def split: prod.splits sum.splits verification_error.splits immutable_reason.splits)
qed

text \<open>What sends the loop on, and what it makes of the last attempt.\<close>

definition goes_on :: "thrown + string list \<Rightarrow> bool" where
  "goes_on t \<longleftrightarrow> (case t of Inl e \<Rightarrow> is_retryable_verification_error e | Inr iss \<Rightarrow> iss \<noteq> [])"

definition loop_result :: "nat \<Rightarrow> thrown + string list \<Rightarrow> thrown + unit" where
  "loop_result n t = (case t of
     Inl e \<Rightarrow> Inl e
   | Inr iss \<Rightarrow> if iss = [] then Inr () else Inl (verification_failed n iss))"

text \<open>The loop is the reference: its attempts, and the result of the last of them.\<close>

lemma verify_loop_retry:
  "attempt \<le> n \<Longrightarrow> verify_loop go sleep n attempt iss w =
     (case retry goes_on go sleep (n + 1 - attempt) w of (t, w1) \<Rightarrow> (loop_result n t, w1))"
proof (induction "n - attempt" arbitrary: attempt iss w)
  case 0
  then have n: "attempt = n" by simp
  have "verify_loop go sleep n (Suc n) is' v = (Inl (verification_failed n is'), v)" for is' v
    by (subst verify_loop.simps) simp
  then show ?case
    unfolding n by (subst verify_loop.simps) (auto simp: loop_result_def split: prod.splits sum.splits)
next
  case (Suc k)
  then have less: "attempt < n" by simp
  have IH: "verify_loop go sleep n (attempt + 1) iss w =
     (case retry goes_on go sleep (n - attempt) w of (t, w1) \<Rightarrow> (loop_result n t, w1))" for iss w
    using Suc.hyps(1) [of "attempt + 1"] Suc.hyps(2) less by simp
  have m: "n + 1 - attempt = Suc (n - attempt)" "n - attempt \<noteq> 0" using less by simp_all
  show ?case
    unfolding m(1) using less
    by (subst verify_loop.simps) (auto simp: IH goes_on_def loop_result_def simp flip: One_nat_def
        split: prod.splits sum.splits)
qed

section \<open>A mismatch is not retryable\<close>

text \<open>Documented behaviour: addresses and fields print as \<open>0x\<close> and lower-case hexadecimal digits.\<close>

definition hex_chars :: "char set" where
  "hex_chars = set ''0123456789abcdefx''"

definition prints_lower_hex :: "aztec_lib \<Rightarrow> bool" where
  "prints_lower_hex lib \<longleftrightarrow>
     (\<forall>a. set (address_to_string lib a) \<subseteq> hex_chars) \<and> (\<forall>x. set (fr_to_string lib x) \<subseteq> hex_chars)"

lemma js_lower_append: "js_lower (a @ b) = js_lower a @ js_lower b"
  by (simp add: js_lower_def)

lemma js_lower_hex: "set s \<subseteq> hex_chars \<Longrightarrow> js_lower s = s"
proof -
  have "lower_char c = c" if "c \<in> hex_chars" for c
    using that by (auto simp: hex_chars_def lower_char_def code_of_def)
  then show "set s \<subseteq> hex_chars \<Longrightarrow> js_lower s = s"
    unfolding js_lower_def by (intro map_idI) blast
qed

lemma includes_separated:
  assumes "c \<notin> set p" "p \<noteq> []"
  shows "js_includes (a @ [c] @ b) p \<longleftrightarrow> js_includes a p \<or> js_includes b p"
proof
  assume "js_includes (a @ [c] @ b) p"
  then obtain x y where "a @ c # b = x @ p @ y" by (auto simp: js_includes_iff)
  then consider u where "a = x @ u" "u @ c # b = p @ y" | u where "x = a @ u" "c # b = u @ p @ y"
    by (auto simp: append_eq_append_conv2)
  then show "js_includes a p \<or> js_includes b p"
  proof cases
    case 1
    from 1(2) obtain v where "u = p @ v \<or> p = u @ v \<and> c # b = v @ y"
      by (auto simp: append_eq_append_conv2)
    with 1(1) assms show ?thesis
      by (cases v) (auto simp: js_includes_iff intro: exI [of _ "[]"])
  next
    case 2
    with assms show ?thesis by (cases u) (auto simp: js_includes_iff Cons_eq_append_conv)
  qed
next
  assume "js_includes a p \<or> js_includes b p"
  then show "js_includes (a @ [c] @ b) p"
  proof
    assume "js_includes a p"
    then obtain x y where "a = x @ p @ y" by (auto simp: js_includes_iff)
    then have "a @ [c] @ b = x @ p @ (y @ c # b)" by simp
    then show ?thesis unfolding js_includes_iff by blast
  next
    assume "js_includes b p"
    then obtain x y where "b = x @ p @ y" by (auto simp: js_includes_iff)
    then have "a @ [c] @ b = (a @ c # x) @ p @ y" by simp
    then show ?thesis unfolding js_includes_iff by blast
  qed
qed

lemma not_includes: "x \<in> set p \<Longrightarrow> x \<notin> set s \<Longrightarrow> \<not> js_includes s p"
  by (auto simp: js_includes_iff)

definition class_ids_print :: "contract_instance \<Rightarrow> bool" where
  "class_ids_print ci \<longleftrightarrow>
     (\<forall>v. ci_current_class_id ci = Some v \<or> ci_original_class_id ci = Some v \<longrightarrow> (\<exists>x. v = RawFr x))"

lemma class_id_chars:
  assumes "prints_lower_hex lib" "class_ids_print ci" "v = ci_current_class_id ci \<or> v = ci_original_class_id ci"
  shows "set (class_id_text lib v) \<subseteq> hex_chars \<union> set ''unknown''" "js_lower (class_id_text lib v) = class_id_text lib v"
proof -
  have "class_id_text lib v = ''unknown'' \<or> set (class_id_text lib v) \<subseteq> hex_chars"
  proof (cases v)
    case (Some r)
    with assms(2,3) obtain x where "r = RawFr x" by (metis class_ids_print_def)
    with assms(1) Some show ?thesis by (simp add: class_id_text_def raw_string_def prints_lower_hex_def)
  qed (simp add: class_id_text_def)
  moreover have "js_lower ''unknown'' = ''unknown''" by code_simp
  ultimately show "set (class_id_text lib v) \<subseteq> hex_chars \<union> set ''unknown''"
    "js_lower (class_id_text lib v) = class_id_text lib v" using js_lower_hex by auto
qed

lemma lower_FPC: "lower_char CHR ''F'' = CHR ''f''" "lower_char CHR ''P'' = CHR ''p''" "lower_char CHR ''C'' = CHR ''c''"
  by code_simp+

definition MISMATCH_LEAD :: string where
  "MISMATCH_LEAD = ''fpc immutable mismatch detected and will not recover with retries: [startup] on-chain fpc immutable mismatch: expected operator''"

lemma lower_pieces:
  "js_lower ''FPC immutable mismatch detected and will not recover with retries: '' @
     js_lower ''[startup] on-chain FPC immutable mismatch: expected operator='' @ r = MISMATCH_LEAD @ ''='' @ r"
  "js_lower '' (pubkey_x='' = '' (pubkey_x'' @ ''=''"
  "js_lower '', pubkey_y='' = '','' @ '' pubkey_y'' @ ''=''"
  "js_lower '') for contract '' = '')'' @ '' for contract ''"
  "js_lower '', but deployment initialization_hash differs (expected='' =
     '','' @ '' but deployment initialization_hash differs (expected'' @ ''=''"
  "js_lower '', on_chain='' = '','' @ '' on_chain'' @ ''=''"
  "js_lower '', current_class_id='' = '','' @ '' current_class_id'' @ ''=''"
  "js_lower '', original_class_id='' = '','' @ '' original_class_id'' @ ''=''"
  "js_lower '')'' = '')'' @ []"
  by (simp_all add: js_lower_def lower_FPC MISMATCH_LEAD_def) (simp_all add: lower_char_def code_of_def)

lemma mismatch_text:
  assumes "prints_lower_hex lib" "class_ids_print ci"
  shows "js_lower (''FPC immutable mismatch detected and will not recover with retries: '' @
      mismatch_message lib i wanted found ci) =
    MISMATCH_LEAD @ ''='' @ (address_to_string lib (fi_operator_address i) @ '' (pubkey_x'') @
    ''='' @ fr_to_string lib (fi_operator_pubkey_x i) @
    '','' @ '' pubkey_y'' @ ''='' @ fr_to_string lib (fi_operator_pubkey_y i) @
    '')'' @ ('' for contract '' @ address_to_string lib (fi_fpc_address i)) @
    '','' @ '' but deployment initialization_hash differs (expected'' @ ''='' @ fr_to_string lib wanted @
    '','' @ '' on_chain'' @ ''='' @ fr_to_string lib found @
    '','' @ '' current_class_id'' @ ''='' @ class_id_text lib (ci_current_class_id ci) @
    '','' @ '' original_class_id'' @ ''='' @ class_id_text lib (ci_original_class_id ci) @ '')'' @ []"
proof -
  have "js_lower (address_to_string lib a) = address_to_string lib a" "js_lower (fr_to_string lib x) = fr_to_string lib x" for a x
    using assms(1) by (simp_all add: prints_lower_hex_def js_lower_hex)
  moreover have "js_lower (class_id_text lib (ci_current_class_id ci)) = class_id_text lib (ci_current_class_id ci)"
    "js_lower (class_id_text lib (ci_original_class_id ci)) = class_id_text lib (ci_original_class_id ci)"
    using class_id_chars(2) [OF assms] by blast+
  ultimately show ?thesis
    by (simp only: mismatch_message_def js_lower_append lower_pieces append_assoc)
qed

lemma mismatch_lacks:
  assumes "prints_lower_hex lib" "class_ids_print ci"
    and p: "p \<noteq> []" "CHR ''='' \<notin> set p" "CHR '','' \<notin> set p" "CHR '')'' \<notin> set p"
    and x: "x \<in> set p" "x \<notin> hex_chars \<union> set ''unknown'' \<union> set '' (pubkey_x''"
    and y: "y \<in> set p" "y \<notin> hex_chars \<union> set '' for contract ''"
    and const: "\<not> js_includes MISMATCH_LEAD p" "\<not> js_includes '' pubkey_y'' p"
      "\<not> js_includes '' but deployment initialization_hash differs (expected'' p"
      "\<not> js_includes '' on_chain'' p" "\<not> js_includes '' current_class_id'' p" "\<not> js_includes '' original_class_id'' p"
  shows "\<not> js_includes (js_lower (''FPC immutable mismatch detected and will not recover with retries: '' @
      mismatch_message lib i wanted found ci)) p"
proof -
  have "set (address_to_string lib a @ '' (pubkey_x'') \<subseteq> hex_chars \<union> set '' (pubkey_x''" for a
    using assms(1) by (auto simp: prints_lower_hex_def)
  then have "\<not> js_includes (address_to_string lib a @ '' (pubkey_x'') p" for a
    using x by (intro not_includes [of x]) blast+
  moreover have "\<not> js_includes (fr_to_string lib z) p" for z
    using assms(1) x by (intro not_includes [of x]) (auto simp: prints_lower_hex_def)
  moreover have "\<not> js_includes (class_id_text lib (ci_current_class_id ci)) p"
    "\<not> js_includes (class_id_text lib (ci_original_class_id ci)) p"
    using class_id_chars(1) [OF assms(1,2)] x by (intro not_includes [of x]; blast)+
  moreover have "\<not> js_includes ('' for contract '' @ address_to_string lib a) p" for a
    using assms(1) y by (intro not_includes [of y]) (auto simp: prints_lower_hex_def)
  moreover have "\<not> js_includes [] p" using p(1) by simp
  ultimately show ?thesis
    unfolding mismatch_text [OF assms(1,2)]
    by (simp only: includes_separated [OF p(2,1)] includes_separated [OF p(3,1)] includes_separated [OF p(4,1)] const simp_thms)
qed

lemma mismatch_not_retryable:
  assumes "prints_lower_hex lib" "class_ids_print ci"
  shows "\<not> is_retryable_verification_error (mismatch_error (mismatch_message lib i wanted found ci))"
proof -
  note lacks = mismatch_lacks [OF assms, of _ _ _ i wanted found]
  from lacks [of "''block''" "CHR ''l''" "CHR ''l''"] lacks [of "''reorg''" "CHR ''g''" "CHR ''g''"]
    lacks [of "''timeout''" "CHR ''t''" "CHR ''i''"] lacks [of "''temporarily unavailable''" "CHR ''t''" "CHR ''m''"]
  show ?thesis
    by (simp add: is_retryable_verification_error_def mismatch_error_def error_def Let_def starts_with_def
        MISMATCH_LEAD_def hex_chars_def)
qed

section \<open>Properties\<close>

definition max_attempts_of :: "nat option \<Rightarrow> nat" where
  "max_attempts_of m = (case m of None \<Rightarrow> DEFAULT_MAX_ATTEMPTS | Some n \<Rightarrow> n)"

definition poll_ms_of :: "int option \<Rightarrow> int" where
  "poll_ms_of m = (case m of None \<Rightarrow> DEFAULT_POLL_MS | Some p \<Rightarrow> p)"

lemma verify_deployment_loop:
  "verify_deployment lib ih node sleep i m p =
     verify_loop (verify_attempt lib ih node i) (sleep (poll_ms_of p)) (max_attempts_of m) 1 []"
  by (simp add: verify_deployment_def max_attempts_of_def poll_ms_of_def)

lemma no_contract_issues:
  "contract_issues lib node a w = (Inr [], w') \<Longrightarrow>
     \<exists>ci h c w1. dn_get_contract node a w = (Inr (Some (Instance ci)), w1) \<and>
       ci_initialization_hash ci = Some h \<and> \<not> is_zero_field_like (raw_string lib h) \<and>
       ci_current_class_id ci = Some c \<and> dn_get_contract_class node c w1 = (Inr True, w')"
proof -
  assume ok: "contract_issues lib node a w = (Inr [], w')"
  then obtain d w1 where get: "dn_get_contract node a w = (Inr d, w1)"
    by (auto simp: contract_issues_def io_Inr_iff)
  with ok obtain ci where d: "d = Some (Instance ci)"
    by (auto simp: contract_issues_def split: option.splits contract_payload.splits)
  with ok get obtain iss where iss: "hash_issues lib (ci_initialization_hash ci) = Inr iss"
    by (auto simp: contract_issues_def io_Inr_iff)
  with ok get d obtain c where c: "ci_current_class_id ci = Some c" "iss = []" "dn_get_contract_class node c w1 = (Inr True, w')"
    by (auto simp: contract_issues_def io_Inr_iff split: option.splits if_splits)
  with iss obtain h where "ci_initialization_hash ci = Some h" "\<not> is_zero_field_like (raw_string lib h)"
    by (auto simp: hash_issues_def and_then_Inr_iff stringify_with_to_string_def raw_string_def
        split: option.splits raw_value.splits if_splits)
  with get d c show ?thesis by blast
qed

lemma verify_deployment_retry:
  "0 < max_attempts_of m \<Longrightarrow> verify_deployment lib ih node sleep i m p w =
     (case retry goes_on (verify_attempt lib ih node i) (sleep (poll_ms_of p)) (max_attempts_of m) w of
        (t, w1) \<Rightarrow> (loop_result (max_attempts_of m) t, w1))"
  by (simp add: verify_deployment_loop verify_loop_retry)

lemma verify_deployment_runs:
  assumes "verify_deployment lib ih node sleep i m p w = (r, w')" "0 < max_attempts_of m"
  shows "\<exists>ws t. runs_of goes_on (verify_attempt lib ih node i) (sleep (poll_ms_of p)) w ws \<and>
    length ws \<le> max_attempts_of m \<and> (length ws < max_attempts_of m \<longrightarrow> \<not> goes_on t) \<and>
    verify_attempt lib ih node i (last ws) = (t, w') \<and> r = loop_result (max_attempts_of m) t"
proof -
  let ?go = "verify_attempt lib ih node i"
  obtain t w1 where t: "retry goes_on ?go (sleep (poll_ms_of p)) (max_attempts_of m) w = (t, w1)"
    by (cases "retry goes_on ?go (sleep (poll_ms_of p)) (max_attempts_of m) w")
  with assms have "r = loop_result (max_attempts_of m) t" "w' = w1"
    by (simp_all add: verify_deployment_retry)
  with retry_runs [OF assms(2) t] show ?thesis by blast
qed

lemma verify_deployment_success:
  assumes "verify_deployment lib ih node sleep i m p w = (Inr (), w')" "0 < max_attempts_of m"
  shows "\<exists>w1 ci w2 c w3. dn_get_contract node (fi_fpc_address i) w1 = (Inr (Some (Instance ci)), w') \<and>
    ci_initialization_hash ci = Some (RawFr (compute_expected_fpc_initialization_hash ih i)) \<and>
    dn_get_contract_class node c w2 = (Inr True, w3)"
proof -
  from verify_deployment_runs [OF assms] obtain v t where
    t: "verify_attempt lib ih node i v = (t, w')" "Inr () = loop_result (max_attempts_of m) t" by blast
  from t(2) have "t = Inr []" by (auto simp: loop_result_def split: sum.splits if_splits)
  with t(1) have "\<exists>w1. contract_issues lib node (fi_fpc_address i) v = (Inr [], w1) \<and>
    verify_fpc_immutables_on_startup lib ih node i w1 = (Inr (), w')" by (intro attempt_passes) simp
  then show ?thesis
    unfolding verify_startup_iff by (blast dest: no_contract_issues)
qed

text \<open>A node with one contract whose initialization hash and class are given.\<close>

definition demo_instance :: "int \<Rightarrow> contract_instance" where
  "demo_instance h = \<lparr>ci_initialization_hash = Some (RawFr h), ci_current_class_id = Some (RawFr 77),
     ci_original_class_id = None\<rparr>"

definition demo_node :: "int \<Rightarrow> nat deploy_node" where
  "demo_node h = \<lparr>dn_get_contract = (\<lambda>a n. (Inr (if a = 5 \<and> 2 \<le> n then Some (Instance (demo_instance h)) else None), n)),
     dn_get_contract_class = (\<lambda>c n. (Inr True, n))\<rparr>"

definition demo_init_hash :: init_hash where
  "demo_init_hash abi xs = (if fa_initializer abi then sum_list xs else 0)"

definition demo_inputs :: fpc_immutable_inputs where
  "demo_inputs = \<lparr>fi_fpc_address = 5, fi_operator_address = 8, fi_operator_pubkey_x = 21, fi_operator_pubkey_y = 22\<rparr>"

text \<open>Numbers without their sign, so that only digits are printed.\<close>

definition demo_hex_lib :: aztec_lib where
  "demo_hex_lib = demo_lib\<lparr>address_to_string := (\<lambda>a. dec_nat (nat a)), fr_to_string := (\<lambda>x. dec_nat (nat x))\<rparr>"

lemma digit_is_hex: "is_digit c \<Longrightarrow> c \<in> hex_chars"
proof -
  assume "is_digit c"
  then obtain n where n: "n \<in> {48 ..< 58}" "code_of c = n" by (auto simp: is_digit_def)
  then have c: "c = char_of n" by (auto simp: code_of_def)
  have "list_all (\<lambda>n. char_of n \<in> hex_chars) [48 ..< 58 :: nat]" unfolding hex_chars_def by code_simp
  then have "\<forall>n \<in> {48 ..< 58 :: nat}. char_of n \<in> hex_chars" unfolding list_all_iff set_upt .
  with n(1) show ?thesis unfolding c by blast
qed

lemma demo_prints_lower_hex: "prints_lower_hex demo_hex_lib"
  using dec_nat_digits digit_is_hex by (auto simp: prints_lower_hex_def demo_hex_lib_def list_all_iff subset_iff)

lemma demo_passes: "fst (verify_deployment demo_hex_lib demo_init_hash (demo_node 51) (\<lambda>ms n. n + 1) demo_inputs None None 0) = Inr ()"
  by code_simp

lemma demo_issues: "contract_issues demo_hex_lib (demo_node 9) (fi_fpc_address demo_inputs) 2 = (Inr [], 2)"
  by code_simp



text \<open>
  A deployment with other immutables is rejected at once. If the node reports a contract
  whose initialization hash is not the expected one, \<open>verifyDeployment\<close> throws the mismatch
  after that first attempt: the message that carries the addresses and hashes is never taken
  for a transient error, whatever they are.
\<close>

theorem mismatch_is_final:
  assumes "prints_lower_hex lib" "class_ids_print ci" "0 < max_attempts_of max_attempts"
    and "contract_issues lib node (fi_fpc_address i) w = (Inr iss, w1)"
    and "dn_get_contract node (fi_fpc_address i) w1 = (Inr (Some (Instance ci)), w2)"
    and "ci_initialization_hash ci = Some (RawFr found)" "found \<noteq> compute_expected_fpc_initialization_hash ih i"
  shows "verify_deployment lib ih node sleep i max_attempts poll_ms w =
    (Inl (mismatch_error (mismatch_message lib i (compute_expected_fpc_initialization_hash ih i) found ci)), w2)"
proof -
  have "verify_attempt lib ih node i w =
    (Inl (mismatch_error (mismatch_message lib i (compute_expected_fpc_initialization_hash ih i) found ci)), w2)"
    using assms(4-7) by (simp add: verify_attempt_def verify_fpc_immutables_on_startup_def payload_instance_def
        check_initialization_hash_def Let_def)
  with mismatch_not_retryable [OF assms(1,2)] assms(3) show ?thesis
    unfolding verify_deployment_loop by (subst verify_loop.simps) simp
qed

lemma mismatch_is_final_witness:
  "\<exists>m. verify_deployment demo_hex_lib demo_init_hash (demo_node 9) (\<lambda>ms n. n + 1) demo_inputs None None 2 =
     (Inl (mismatch_error m), 2)"
  using mismatch_is_final [of demo_hex_lib "demo_instance 9" None "demo_node 9" demo_inputs 2 "[]" 2 2 9 demo_init_hash
      "\<lambda>ms n. n + 1" None] demo_issues demo_prints_lower_hex
  by (auto simp: class_ids_print_def demo_instance_def demo_node_def demo_inputs_def max_attempts_of_def
      DEFAULT_MAX_ATTEMPTS_def compute_expected_fpc_initialization_hash_def demo_init_hash_def FPC_CONSTRUCTOR_ABI_def)

end
