(* ===== verification/Attest_Startup.thy ===== *)
theory Attest_Startup
  imports EndToEnd Deploy_Verify
begin

text \<open>
  The entry point of the attestation service, \<open>services/attestation/src/index.ts\<close>: the
  configuration, the policy store and the treasury are set up, the operator's key is derived,
  the contract on chain is compared with that key, and only then the server is built and
  listens. The model joins the components: the server's context gets the clock, the signer
  and the treasury of this process, over a world that holds the treasury's state.

  Key derivation, the account address and the Schnorr signature are functions of
  \<open>startup_env\<close>. The content of the policy database at the start is part of the state, since
  opening the store writes to it even when a later step fails.
\<close>

section \<open>Bytes in hexadecimal\<close>

definition hex_char :: "nat \<Rightarrow> char" where
  "hex_char d = (if d < 10 then digit_char d else char_of (87 + d))"

definition bytes_hex :: "nat list \<Rightarrow> string" where
  "bytes_hex bs = concat (map (\<lambda>b. [hex_char (b div 16), hex_char (b mod 16)]) bs)"

lemma hex_char_digit: "d < 16 \<Longrightarrow> is_hex_digit (hex_char d) \<and> radix_digit (hex_char d) = d"
proof (cases "d < 10")
  case True
  then show ?thesis
    by (simp add: hex_char_def is_hex_digit_def radix_digit_def is_digit_digit_char code_of_digit_char)
next
  case False
  assume "d < 16"
  then have "code_of (char_of (87 + d)) = 87 + d" by (simp add: code_of_def)
  with False \<open>d < 16\<close> show ?thesis
    by (simp add: hex_char_def is_hex_digit_def radix_digit_def is_digit_def)
qed
lemma bytes_roundtrip: "list_all (\<lambda>b. b < 256) bs \<Longrightarrow> hex_bytes (bytes_hex bs) = bs"
proof (induction bs)
  case Nil
  then show ?case by (simp add: bytes_hex_def)
next
  case (Cons b bs)
  then have "b div 16 < 16" "b mod 16 < 16" by auto
  with Cons hex_char_digit [of "b div 16"] hex_char_digit [of "b mod 16"] show ?case
    by (simp add: bytes_hex_def)
qed

section \<open>The process\<close>

record 'w startup_env =
  su_lib :: aztec_lib
  su_init_hash :: init_hash
  su_node :: "'w deploy_node"
  su_wait_for_node :: "('w, unit) ioe"
  su_derive_signing_key :: "int \<Rightarrow> int"
  su_account_address :: "int \<Rightarrow> int \<Rightarrow> int"
  su_public_key :: "int \<Rightarrow> int \<times> int"
  su_construct_signature :: "nat list \<Rightarrow> int \<Rightarrow> ('w, nat list) ioe"
  su_latest_block_timestamp :: "('w, int option) ioe"
  su_date_now_ms :: "'w \<Rightarrow> int"
  su_hrtime :: "'w \<Rightarrow> int"
  su_listen :: "int \<Rightarrow> ('w, unit) ioe"
  su_treasury_env :: "'w treasury_env"
  su_sha256 :: "string \<Rightarrow> string"
  su_locale_compare :: "string \<Rightarrow> string \<Rightarrow> int"
  su_print_number :: "rat \<Rightarrow> string"

type_synonym 'w process = "'w treasury server_state"

definition on_world :: "('w, 'a) ioe \<Rightarrow> ('w process, 'a) ioe" where
  "on_world f s = (case f (tr_world (ss_world s)) of (r, w) \<Rightarrow>
     (r, s\<lparr>ss_world := (ss_world s)\<lparr>tr_world := w\<rparr>\<rparr>))"

definition on_treasury :: "('w treasury, 'a) ioe \<Rightarrow> ('w process, 'a) ioe" where
  "on_treasury f s = (case f (ss_world s) of (r, t) \<Rightarrow> (r, s\<lparr>ss_world := t\<rparr>))"

definition operator_treasury_port :: "aztec_lib \<Rightarrow> 'w treasury_env \<Rightarrow> config \<Rightarrow> 'w treasury treasury_port" where
  "operator_treasury_port lib env cfg = \<lparr>
     tp_register_sender = (\<lambda>a. on_treasury (register_sender lib env cfg a)),
     tp_get_private_balances = (\<lambda>assets. on_treasury (get_private_balances lib env cfg assets)),
     tp_sweep = (\<lambda>asset amount dest. on_treasury (sweep lib env cfg asset amount dest))\<rparr>"

definition startup_signer :: "'w startup_env \<Rightarrow> int \<Rightarrow> 'w process quote_signer" where
  "startup_signer env key h =
     bind_io (on_world (su_construct_signature env (to_be_bytes 32 h) key)) (\<lambda>sig.
     return_io (''0x'' @ bytes_hex sig))"

definition startup_clock :: "'w startup_env \<Rightarrow> ('w process, int) ioe" where
  "startup_clock env =
     bind_io (on_world (su_latest_block_timestamp env)) (\<lambda>latest s.
     (Inr (case latest of Some t \<Rightarrow> t | None \<Rightarrow> su_date_now_ms env (tr_world (ss_world s)) div 1000), s))"

definition startup_context :: "'w startup_env \<Rightarrow> config \<Rightarrow> int \<Rightarrow> int \<Rightarrow> 'w treasury server_context" where
  "startup_context env cfg fpc key = \<lparr>sc_lib = su_lib env, sc_config = cfg, sc_fpc_address = fpc,
     sc_now_unix_seconds = startup_clock env,
     sc_hrtime = (\<lambda>s. su_hrtime env (tr_world (ss_world s))),
     sc_signer = startup_signer env key,
     sc_treasury = Some (operator_treasury_port (su_lib env) (su_treasury_env env) cfg),
     sc_sha256 = su_sha256 env, sc_locale_compare = su_locale_compare env,
     sc_print_number = su_print_number env\<rparr>"

text \<open>The state of the start: the policy database and the world.\<close>

definition on_snd :: "('w, 'a) ioe \<Rightarrow> ('d \<times> 'w, 'a) ioe" where
  "on_snd f s = (case f (snd s) of (r, w) \<Rightarrow> (r, (fst s, w)))"

definition open_policy_store :: "aztec_lib \<Rightarrow> config \<Rightarrow> (policy_db \<times> 'w, unit) ioe" where
  "open_policy_store lib cfg s = (case open_store lib (c_supported_assets cfg) (fst s) of
     Inl e \<Rightarrow> (Inl e, s)
   | Inr db \<Rightarrow> (Inr (), (db, snd s)))"

definition operator_address_of :: "aztec_lib \<Rightarrow> config \<Rightarrow> int \<Rightarrow> thrown + int" where
  "operator_address_of lib cfg derived = (if truthy (pc_operator_address (c_parsed cfg))
     then address_from_string lib (the (pc_operator_address (c_parsed cfg))) else Inr derived)"

definition verify_startup :: "'w startup_env \<Rightarrow> fpc_immutable_inputs \<Rightarrow> ('w, unit) ioe" where
  "verify_startup env i w =
     (case verify_fpc_immutables_on_startup (su_lib env) (su_init_hash env) (su_node env) i w of
        (Inl e, w1) \<Rightarrow> (Inl (to_thrown e), w1)
      | (Inr _, w1) \<Rightarrow> (Inr (), w1))"

definition startup ::
    "'w startup_env \<Rightarrow> secret_adapters \<Rightarrow> process_env \<Rightarrow> jsval \<Rightarrow>
       (policy_db \<times> 'w, 'w treasury server_context \<times> 'w process) ioe" where
  "startup env ads penv raw =
     (let lib = su_lib env in
      bind_io (from_pure (load_config lib ads penv raw)) (\<lambda>cfg.
      bind_io (on_snd (su_wait_for_node env)) (\<lambda>_.
      bind_io (open_policy_store lib cfg) (\<lambda>_.
      bind_io (\<lambda>s. (new_treasury lib cfg (snd s), s)) (\<lambda>treasury.
      bind_io (from_pure (fr_from_hex lib (rs_value (c_operator_secret cfg)))) (\<lambda>secret.
      let key = su_derive_signing_key env secret; pk = su_public_key env key in
      bind_io (from_pure (operator_address_of lib cfg (su_account_address env secret 0))) (\<lambda>op.
      bind_io (from_pure (address_from_string lib (c_fpc_address cfg))) (\<lambda>fpc.
      bind_io (on_snd (verify_startup env \<lparr>fi_fpc_address = fpc, fi_operator_address = op,
          fi_operator_pubkey_x = fst pk, fi_operator_pubkey_y = snd pk\<rparr>)) (\<lambda>_.
      bind_io (on_snd (su_listen env (pc_port (c_parsed cfg)))) (\<lambda>_ s.
      (Inr (startup_context env cfg fpc key,
            \<lparr>ss_metrics = new_metrics, ss_store = fst s, ss_world = treasury\<lparr>tr_world := snd s\<rparr>\<rparr>), s)))))))))))"

section \<open>Facts\<close>

lemma on_snd_Inr: "on_snd f s = (Inr x, s') \<longleftrightarrow> (\<exists>w. f (snd s) = (Inr x, w) \<and> s' = (fst s, w))"
  by (auto simp: on_snd_def split: prod.splits)

lemma open_policy_store_Inr:
  "open_policy_store lib cfg s = (Inr (), s') \<longleftrightarrow>
     (\<exists>db. open_store lib (c_supported_assets cfg) (fst s) = Inr db \<and> s' = (db, snd s))"
  by (auto simp: open_policy_store_def split: sum.splits)

lemma verify_startup_Inr:
  "verify_startup env i w = (Inr (), w') \<longleftrightarrow>
     verify_fpc_immutables_on_startup (su_lib env) (su_init_hash env) (su_node env) i w = (Inr (), w')"
  by (auto simp: verify_startup_def split: prod.splits sum.splits)

text \<open>What a start that reaches the listening server has done.\<close>

lemma startup_parts:
  assumes "startup env ads penv raw s = (Inr (c, st), s')"
  obtains cfg secret op pk w w' db where
    "load_config (su_lib env) ads penv raw = Inr cfg"
    "fr_from_hex (su_lib env) (rs_value (c_operator_secret cfg)) = Inr secret"
    "address_from_string (su_lib env) (c_fpc_address cfg) = Inr (sc_fpc_address c)"
    "pk = su_public_key env (su_derive_signing_key env secret)"
    "verify_fpc_immutables_on_startup (su_lib env) (su_init_hash env) (su_node env)
       \<lparr>fi_fpc_address = sc_fpc_address c, fi_operator_address = op, fi_operator_pubkey_x = fst pk,
        fi_operator_pubkey_y = snd pk\<rparr> w = (Inr (), w')"
    "open_store (su_lib env) (c_supported_assets cfg) (fst s) = Inr db"
    "c = startup_context env cfg (sc_fpc_address c) (su_derive_signing_key env secret)"
    "ss_store st = db" "fst s' = db" "ss_metrics st = new_metrics"
proof -
  from assms show thesis
    by (auto simp: startup_def Let_def io_Inr_iff on_snd_Inr open_policy_store_Inr verify_startup_Inr startup_context_def
        intro!: that)
qed

text \<open>
  Documented behaviour of the chain: the node reports for the contract the hash of its
  constructor's arguments, and different arguments have different hashes.
\<close>

definition reports_config :: "'w startup_env \<Rightarrow> int \<Rightarrow> fpc_config \<Rightarrow> bool" where
  "reports_config env a fc \<longleftrightarrow> (\<forall>w ci w'. dn_get_contract (su_node env) a w = (Inr (Some (Instance ci)), w') \<longrightarrow>
     ci_initialization_hash ci = Some (RawFr (su_init_hash env FPC_CONSTRUCTOR_ABI
       [operator fc, operator_pubkey_x fc, operator_pubkey_y fc])))"

definition hash_separates :: "'w startup_env \<Rightarrow> bool" where
  "hash_separates env \<longleftrightarrow> (\<forall>xs ys. su_init_hash env FPC_CONSTRUCTOR_ABI xs = su_init_hash env FPC_CONSTRUCTOR_ABI ys \<longrightarrow> xs = ys)"

text \<open>Documented behaviour of Schnorr: a signature verifies under the public key of its key.\<close>

definition schnorr_verifies :: "'w startup_env \<Rightarrow> 'l fpc_env \<Rightarrow> bool" where
  "schnorr_verifies env fenv \<longleftrightarrow> (\<forall>m key w sig w'. su_construct_signature env m key w = (Inr sig, w') \<longrightarrow>
     list_all (\<lambda>b. b < 256) sig \<and> assert_valid_signature fenv (su_public_key env key) sig m = Inr ())"

lemma startup_signer_verifies:
  "schnorr_verifies env fenv \<Longrightarrow> signatures_verify fenv (su_public_key env key) (startup_signer env key)"
proof -
  assume v: "schnorr_verifies env fenv"
  have "assert_valid_signature fenv (su_public_key env key) (hex_bytes (strip_0x sig)) (to_be_bytes 32 h) = Inr ()"
    if "startup_signer env key h t = (Inr sig, t')" for h t sig t'
  proof -
    from that obtain bs w w' where "su_construct_signature env (to_be_bytes 32 h) key w = (Inr bs, w')"
      and sig: "sig = ''0x'' @ bytes_hex bs"
      by (auto simp: startup_signer_def io_Inr_iff on_world_def split: prod.splits)
    with v have "list_all (\<lambda>b. b < 256) bs" "assert_valid_signature fenv (su_public_key env key) bs (to_be_bytes 32 h) = Inr ()"
      unfolding schnorr_verifies_def by blast+
    then show ?thesis by (simp add: sig strip_0x_def starts_with_def bytes_roundtrip)
  qed
  then show ?thesis unfolding signatures_verify_def by blast
qed

section \<open>Properties\<close>

text \<open>A library that reads a 32-byte key, and a chain whose contract belongs to that key.\<close>

definition demo_startup_lib :: aztec_lib where
  "demo_startup_lib = demo_lib\<lparr>fr_from_hex := (\<lambda>s. if hex_word 64 s then Inr 77 else Inl (error ''bad field''))\<rparr>"

definition demo_hash :: init_hash where
  "demo_hash abi xs = int (list_encode (map int_encode xs))"

definition demo_startup_env :: "unit startup_env" where
  "demo_startup_env = \<lparr>su_lib = demo_startup_lib, su_init_hash = demo_hash,
     su_node = \<lparr>dn_get_contract = (\<lambda>a w. (Inr (Some (Instance (demo_instance (demo_hash FPC_CONSTRUCTOR_ABI [4, 1, 2])))), w)),
       dn_get_contract_class = (\<lambda>c w. (Inr True, w))\<rparr>,
     su_wait_for_node = (\<lambda>w. (Inr (), w)), su_derive_signing_key = (\<lambda>k. k + 1), su_account_address = (\<lambda>k salt. 4),
     su_public_key = (\<lambda>k. (1, 2)), su_construct_signature = (\<lambda>m k w. (Inr (map (\<lambda>b. b mod 256) m), w)),
     su_latest_block_timestamp = (\<lambda>w. (Inr (Some 1000), w)), su_date_now_ms = (\<lambda>_. 0), su_hrtime = (\<lambda>_. 0),
     su_listen = (\<lambda>port w. (Inr (), w)),
     su_treasury_env = \<lparr>te_wait_for_node = (\<lambda>w. (Inr (), w)), te_create_wallet = (\<lambda>_ w. (Inr (), w)),
       te_create_account = (\<lambda>_ _ w. (Inr 4, w)), te_get_contract = (\<lambda>_ w. (Inr True, w)),
       te_register_contract = (\<lambda>_ w. (Inr (), w)), te_balance_of_private = (\<lambda>_ _ w. (Inr 50, w)),
       te_transfer = (\<lambda>_ _ _ _ _ w. (Inr ''tx'', w)), te_random_fr = (\<lambda>w. (3, w)),
       te_register_sender = (\<lambda>_ _ w. (Inr (), w)), te_stop_wallet = (\<lambda>w. (Inr (), w))\<rparr>,
     su_sha256 = (\<lambda>x. x), su_locale_compare = (\<lambda>a b. 0), su_print_number = (\<lambda>q. [])\<rparr>"

lemma demo_startup_config:
  "map_sum id (\<lambda>c. (rs_value (c_operator_secret c), map ap_address (c_supported_assets c), pc_operator_address (c_parsed c),
      c_operator_account_salt c, c_fpc_address c)) (load_config demo_startup_lib (\<lambda>_. None) demo_env demo_raw) =
   Inr (''0x'' @ replicate 64 (CHR ''a''), [''7''], None, None, ''5'')"
  by code_simp

lemma demo_address_5: "address_from_string demo_startup_lib ''5'' = Inr 5"
  by code_simp

lemma demo_key: "fr_from_hex demo_startup_lib (''0x'' @ replicate 64 (CHR ''a'')) = Inr 77"
  by code_simp

lemma demo_startup:
  "\<exists>c st s'. startup demo_startup_env (\<lambda>_. None) demo_env demo_raw (demo_db, ()) = (Inr (c, st), s') \<and>
     sc_fpc_address c = 5"
proof -
  obtain cfg where cfg: "load_config demo_startup_lib (\<lambda>_. None) demo_env demo_raw = Inr cfg"
    "rs_value (c_operator_secret cfg) = ''0x'' @ replicate 64 (CHR ''a'')"
    "pc_operator_address (c_parsed cfg) = None" "c_operator_account_salt cfg = None" "c_fpc_address cfg = ''5''"
    using demo_startup_config by (cases "load_config demo_startup_lib (\<lambda>_. None) demo_env demo_raw") auto
  then show ?thesis
    using demo_key by (simp add: startup_def Let_def demo_startup_env_def cfg demo_address_5
        on_snd_def open_policy_store_def open_store_def demo_db_def new_treasury_def operator_salt_def truthy_def
        operator_address_of_def verify_startup_def verify_fpc_immutables_on_startup_def payload_instance_def
        check_initialization_hash_def demo_instance_def compute_expected_fpc_initialization_hash_def startup_context_def)
qed

lemma demo_startup_laws:
  "reports_config demo_startup_env 5 demo_fpc_config" "hash_separates demo_startup_env"
  "schnorr_verifies demo_startup_env demo_fpc_env"
proof -
  show "reports_config demo_startup_env 5 demo_fpc_config"
    by (simp add: reports_config_def demo_startup_env_def demo_fpc_config_def demo_instance_def)
  show "hash_separates demo_startup_env"
    using demo_hash_inj by (simp add: hash_separates_def demo_startup_env_def demo_hash_def demo_fpc_env_def)
  show "schnorr_verifies demo_startup_env demo_fpc_env"
    by (auto simp: schnorr_verifies_def demo_startup_env_def demo_fpc_env_def list_all_iff)
qed

text \<open>
  C4. The service serves only the contract of its key. Whatever the configuration, the
  environment and the world, if the process reaches the listening server then, during the
  start, the node reported at the configured address a contract whose initialization hash is
  that of the public key derived from the resolved operator secret, and that secret's key is
  the one every quote is signed with.
\<close>

theorem startup_serves_own_contract:
  assumes "startup env ads penv raw s = (Inr (c, st), s')"
  shows "\<exists>cfg secret op w ci w'. load_config (su_lib env) ads penv raw = Inr cfg \<and>
    fr_from_hex (su_lib env) (rs_value (c_operator_secret cfg)) = Inr secret \<and>
    address_from_string (su_lib env) (c_fpc_address cfg) = Inr (sc_fpc_address c) \<and>
    dn_get_contract (su_node env) (sc_fpc_address c) w = (Inr (Some (Instance ci)), w') \<and>
    ci_initialization_hash ci = Some (RawFr (su_init_hash env FPC_CONSTRUCTOR_ABI
      [op, fst (su_public_key env (su_derive_signing_key env secret)),
           snd (su_public_key env (su_derive_signing_key env secret))])) \<and>
    sc_signer c = startup_signer env (su_derive_signing_key env secret)"
  using assms
proof (rule startup_parts)
  fix cfg secret op pk w w' db
  assume parts: "load_config (su_lib env) ads penv raw = Inr cfg"
    "fr_from_hex (su_lib env) (rs_value (c_operator_secret cfg)) = Inr secret"
    "address_from_string (su_lib env) (c_fpc_address cfg) = Inr (sc_fpc_address c)"
    "pk = su_public_key env (su_derive_signing_key env secret)"
    "c = startup_context env cfg (sc_fpc_address c) (su_derive_signing_key env secret)"
    and "verify_fpc_immutables_on_startup (su_lib env) (su_init_hash env) (su_node env)
       \<lparr>fi_fpc_address = sc_fpc_address c, fi_operator_address = op, fi_operator_pubkey_x = fst pk,
        fi_operator_pubkey_y = snd pk\<rparr> w = (Inr (), w')"
  then obtain ci where "dn_get_contract (su_node env) (sc_fpc_address c) w = (Inr (Some (Instance ci)), w')"
    "ci_initialization_hash ci = Some (RawFr (su_init_hash env FPC_CONSTRUCTOR_ABI [op, fst pk, snd pk]))"
    by (auto simp: verify_startup_iff compute_expected_fpc_initialization_hash_def)
  moreover have "sc_signer c = startup_signer env (su_derive_signing_key env secret)"
    by (subst parts(5)) (simp add: startup_context_def)
  ultimately show ?thesis using parts(1-4) by blast
qed

lemma startup_serves_own_contract_witness:
  "\<exists>c st s' w ci w' op xy. startup demo_startup_env (\<lambda>_. None) demo_env demo_raw (demo_db, ()) = (Inr (c, st), s') \<and>
     dn_get_contract (su_node demo_startup_env) (sc_fpc_address c) w = (Inr (Some (Instance ci)), w') \<and>
     ci_initialization_hash ci = Some (RawFr (su_init_hash demo_startup_env FPC_CONSTRUCTOR_ABI [op, fst xy, snd xy]))"
  using demo_startup startup_serves_own_contract [of demo_startup_env "\<lambda>_. None" demo_env demo_raw "(demo_db, ())"] by blast

text \<open>
  C3. A started service meets the assumptions under which its quotes are accepted. If the node
  reports the hash of the contract's own constructor arguments, hashes separate arguments and
  Schnorr signatures verify, then the signatures of the started service verify under the key
  that is stored in the contract; the validity of its quotes is within the contract's limit;
  and its policy store is well formed when the database was, or was empty with at least one
  asset configured.
\<close>

theorem started_service_signs_for_contract:
  assumes "startup env ads penv raw s = (Inr (c, st), s')"
    and "reports_config env (sc_fpc_address c) fc" "hash_separates env" "schnorr_verifies env fenv"
  shows "signatures_verify fenv (operator_pubkey_x fc, operator_pubkey_y fc) (sc_signer c) \<and>
    c_quote_validity_seconds (sc_config c) \<le> 3600 \<and>
    (store_wf (fst s) \<or> fst s = [] \<and> c_supported_assets (sc_config c) \<noteq> [] \<longrightarrow> store_wf (ss_store st))"
  using assms(1)
proof (rule startup_parts)
  fix cfg secret op pk w w' db
  assume cfg: "load_config (su_lib env) ads penv raw = Inr cfg"
    and pk: "pk = su_public_key env (su_derive_signing_key env secret)"
    and ok: "verify_fpc_immutables_on_startup (su_lib env) (su_init_hash env) (su_node env)
       \<lparr>fi_fpc_address = sc_fpc_address c, fi_operator_address = op, fi_operator_pubkey_x = fst pk,
        fi_operator_pubkey_y = snd pk\<rparr> w = (Inr (), w')"
    and db: "open_store (su_lib env) (c_supported_assets cfg) (fst s) = Inr db" "ss_store st = db"
    and c: "c = startup_context env cfg (sc_fpc_address c) (su_derive_signing_key env secret)"
  from ok obtain ci where "dn_get_contract (su_node env) (sc_fpc_address c) w = (Inr (Some (Instance ci)), w')"
    "ci_initialization_hash ci = Some (RawFr (su_init_hash env FPC_CONSTRUCTOR_ABI [op, fst pk, snd pk]))"
    by (auto simp: verify_startup_iff compute_expected_fpc_initialization_hash_def)
  with assms(2,3) have "pk = (operator_pubkey_x fc, operator_pubkey_y fc)"
    unfolding reports_config_def hash_separates_def by fastforce
  with startup_signer_verifies [OF assms(4), of "su_derive_signing_key env secret"] pk
  have "signatures_verify fenv (operator_pubkey_x fc, operator_pubkey_y fc) (sc_signer c)"
    by (subst c) (simp add: startup_context_def)
  moreover have "sc_config c = cfg" by (subst c) (simp add: startup_context_def)
  moreover have "c_quote_validity_seconds cfg \<le> 3600"
    using load_config_parts [OF cfg] config_schema_ranges(1) by metis
  moreover have "store_wf (fst s) \<or> fst s = [] \<and> c_supported_assets cfg \<noteq> [] \<Longrightarrow> store_wf db"
    using db(1) seeded_wf by (auto simp: open_store_def and_then_Inr_iff store_wf_def split: if_splits)
  ultimately show ?thesis using db(2) by blast
qed

lemma started_service_signs_for_contract_witness:
  "\<exists>c st s'. startup demo_startup_env (\<lambda>_. None) demo_env demo_raw (demo_db, ()) = (Inr (c, st), s') \<and>
     signatures_verify demo_fpc_env (1, 2) (sc_signer c)"
proof -
  obtain c st s' where run: "startup demo_startup_env (\<lambda>_. None) demo_env demo_raw (demo_db, ()) = (Inr (c, st), s')"
    and a: "sc_fpc_address c = 5"
    using demo_startup by blast
  have "signatures_verify demo_fpc_env (operator_pubkey_x demo_fpc_config, operator_pubkey_y demo_fpc_config) (sc_signer c)"
    using started_service_signs_for_contract [OF run, of demo_fpc_config demo_fpc_env] demo_startup_laws a by simp
  then have "signatures_verify demo_fpc_env (1, 2) (sc_signer c)" by (simp add: demo_fpc_config_def)
  with run show ?thesis by blast
qed

end
