(* ===== verification/Topup_State.thy ===== *)
theory Topup_State
  imports Js_Values
begin

text \<open>
  The state of the top-up service on disk, \<open>services/topup/src/state.ts\<close>: the process lock
  file and the one LMDB entry that records a bridge in flight. A database value is an
  arbitrary JavaScript value until it is validated; \<open>db.get\<close> after \<open>db.put\<close> returns the
  value that was put.

  The interface \<open>BridgeStateStore\<close> is the locale \<open>bridge_state_store\<close>: a store holds at
  most one submission, and what is read is what was written. The LMDB store is its
  interpretation.
\<close>

section \<open>Process lock\<close>

datatype lock_file =
    LockAbsent
  | LockContent string
  | LockUnreadable thrown

record lock_env =
  le_alive :: "int \<Rightarrow> bool"
  le_pid :: nat
  le_mkdir :: "thrown + unit"
  le_write :: "thrown + unit"

text \<open>\<open>Number.parseInt(s, 10)\<close>: optional sign and leading digits; \<open>None\<close> is NaN.\<close>

definition parse_int :: "string \<Rightarrow> int option" where
  "parse_int s = (case split_sign (dropWhile is_space s) of (sg, r) \<Rightarrow>
     let ds = takeWhile is_digit r in
     if ds = [] then None else Some (floor sg * dec_value ds))"

definition lock_holder :: "lock_env \<Rightarrow> string \<Rightarrow> int option" where
  "lock_holder env content = (case parse_int (js_trim content) of
     None \<Rightarrow> None | Some p \<Rightarrow> if le_alive env p then Some p else None)"

definition lock_check :: "lock_env \<Rightarrow> string \<Rightarrow> lock_file \<Rightarrow> thrown + unit" where
  "lock_check env lock_path f = (case f of
     LockAbsent \<Rightarrow> Inr ()
   | LockUnreadable e \<Rightarrow> Inl e
   | LockContent s \<Rightarrow> (case lock_holder env s of
       None \<Rightarrow> Inr ()
     | Some p \<Rightarrow> Inl (error (''Another topup service instance is running (pid='' @ bigint_string p @
         '', lock='' @ lock_path @ ''). '' @ ''Stop the other instance or remove the stale lock file.''))))"

text \<open>The content is the process id and a line feed.\<close>

definition pid_line :: "nat \<Rightarrow> string" where
  "pid_line p = dec_nat p @ [CHR 0x0A]"

definition lock_write :: "lock_env \<Rightarrow> lock_file \<Rightarrow> (thrown + unit) \<times> lock_file" where
  "lock_write env f = (case le_mkdir env of
     Inl e \<Rightarrow> (Inl e, f)
   | Inr _ \<Rightarrow> (case le_write env of
       Inl e \<Rightarrow> (Inl e, f) | Inr _ \<Rightarrow> (Inr (), LockContent (pid_line (le_pid env)))))"

definition acquire_process_lock ::
    "lock_env \<Rightarrow> string \<Rightarrow> lock_file \<Rightarrow> (thrown + unit) \<times> lock_file" where
  "acquire_process_lock env lock_path f =
     (case lock_check env lock_path f of Inl e \<Rightarrow> (Inl e, f) | Inr _ \<Rightarrow> lock_write env f)"

definition release_process_lock :: "lock_file \<Rightarrow> lock_file" where
  "release_process_lock f = LockAbsent"

section \<open>Bridge submissions\<close>

record bridge_result =
  br_amount :: int
  br_claim_secret :: string
  br_claim_secret_hash :: string
  br_message_hash :: string
  br_message_leaf_index :: int
  br_submitted_at_ms :: int

record persisted_submission =
  ps_baseline_balance :: string
  ps_amount :: string
  ps_claim_secret :: string
  ps_claim_secret_hash :: string
  ps_message_hash :: string
  ps_message_leaf_index :: string
  ps_submitted_at_ms :: int

definition malformed :: "string \<Rightarrow> string \<Rightarrow> thrown" where
  "malformed ctx what = error (''Bridge state is malformed ('' @ ctx @ ''): '' @ what)"

definition assert_uint_string :: "string \<Rightarrow> string \<Rightarrow> jsval \<Rightarrow> thrown + string" where
  "assert_uint_string ctx name v = (case v of
     JString s \<Rightarrow> if uint_decimal s then Inr s
       else Inl (malformed ctx (name @ '' must be an unsigned integer string''))
   | _ \<Rightarrow> Inl (malformed ctx (name @ '' must be an unsigned integer string'')))"

definition assert_field_hex_string :: "string \<Rightarrow> string \<Rightarrow> jsval \<Rightarrow> thrown + string" where
  "assert_field_hex_string ctx name v = (case v of
     JString s \<Rightarrow> if hex_word 64 s then Inr s
       else Inl (malformed ctx (name @ '' must be a 32-byte 0x-prefixed hex string''))
   | _ \<Rightarrow> Inl (malformed ctx (name @ '' must be a 32-byte 0x-prefixed hex string'')))"

text \<open>\<open>!value || typeof value !== "object"\<close> lets objects and arrays through.\<close>

definition is_js_object :: "jsval \<Rightarrow> bool" where
  "is_js_object v = (case v of JObject _ \<Rightarrow> True | JArray _ \<Rightarrow> True | _ \<Rightarrow> False)"

definition assert_submitted_at :: "string \<Rightarrow> jsval \<Rightarrow> thrown + int" where
  "assert_submitted_at ctx v = (case v of
     JNum n \<Rightarrow> if \<not> is_integer n \<or> number_value n < 0
       then Inl (malformed ctx ''submittedAtMs must be a non-negative integer'')
       else Inr (number_value n)
   | _ \<Rightarrow> Inl (malformed ctx ''invalid bridge payload''))"

definition assert_persisted_bridge_submission ::
    "string \<Rightarrow> jsval \<Rightarrow> thrown + persisted_submission" where
  "assert_persisted_bridge_submission ctx v =
     and_then (require_that (is_js_object v) (malformed ctx ''expected object'')) (\<lambda>_.
     and_then (assert_submitted_at ctx (jfield ''submittedAtMs'' v)) (\<lambda>submitted.
     and_then (assert_uint_string ctx ''baselineBalance'' (jfield ''baselineBalance'' v)) (\<lambda>baseline.
     and_then (assert_uint_string ctx ''amount'' (jfield ''amount'' v)) (\<lambda>amount.
     and_then (require_that (0 < dec_value amount)
                 (malformed ctx ''amount must be greater than zero'')) (\<lambda>_.
     and_then (assert_field_hex_string ctx ''claimSecret'' (jfield ''claimSecret'' v)) (\<lambda>secret.
     and_then (assert_field_hex_string ctx ''claimSecretHash'' (jfield ''claimSecretHash'' v)) (\<lambda>secret_hash.
     and_then (assert_field_hex_string ctx ''messageHash'' (jfield ''messageHash'' v)) (\<lambda>message_hash.
     and_then (assert_uint_string ctx ''messageLeafIndex'' (jfield ''messageLeafIndex'' v)) (\<lambda>leaf.
     Inr \<lparr>ps_baseline_balance = baseline, ps_amount = amount, ps_claim_secret = secret,
          ps_claim_secret_hash = secret_hash, ps_message_hash = message_hash,
          ps_message_leaf_index = leaf, ps_submitted_at_ms = submitted\<rparr>)))))))))"

section \<open>The LMDB store\<close>

text \<open>The value under the key \<open>bridge\<close>.\<close>

type_synonym bridge_db = "jsval option"

definition storage_label :: "string \<Rightarrow> string" where
  "storage_label data_dir = ''lmdb://'' @ data_dir"

definition store_read :: "string \<Rightarrow> bridge_db \<Rightarrow> thrown + persisted_submission option" where
  "store_read data_dir db = (case db of
     None \<Rightarrow> Inr None
   | Some raw \<Rightarrow> and_then (assert_persisted_bridge_submission (storage_label data_dir) raw) (\<lambda>p. Inr (Some p)))"

definition persisted_of :: "int \<Rightarrow> bridge_result \<Rightarrow> persisted_submission" where
  "persisted_of baseline r =
     \<lparr>ps_baseline_balance = bigint_string baseline, ps_amount = bigint_string (br_amount r),
      ps_claim_secret = br_claim_secret r, ps_claim_secret_hash = br_claim_secret_hash r,
      ps_message_hash = br_message_hash r, ps_message_leaf_index = bigint_string (br_message_leaf_index r),
      ps_submitted_at_ms = br_submitted_at_ms r\<rparr>"

definition persisted_to_js :: "persisted_submission \<Rightarrow> jsval" where
  "persisted_to_js p = JObject
     [(''baselineBalance'', JString (ps_baseline_balance p)), (''amount'', JString (ps_amount p)),
      (''claimSecret'', JString (ps_claim_secret p)),
      (''claimSecretHash'', JString (ps_claim_secret_hash p)),
      (''messageHash'', JString (ps_message_hash p)),
      (''messageLeafIndex'', JString (ps_message_leaf_index p)),
      (''submittedAtMs'', JNum (Finite (of_int (ps_submitted_at_ms p))))]"

definition store_write :: "int \<Rightarrow> bridge_result \<Rightarrow> bridge_db \<Rightarrow> bridge_db" where
  "store_write baseline r db = Some (persisted_to_js (persisted_of baseline r))"

definition store_clear :: "bridge_db \<Rightarrow> bridge_db" where
  "store_clear db = None"

section \<open>What validation accepts\<close>

definition persisted_wf :: "persisted_submission \<Rightarrow> bool" where
  "persisted_wf p \<longleftrightarrow> uint_decimal (ps_baseline_balance p) \<and> uint_decimal (ps_amount p) \<and>
     0 < dec_value (ps_amount p) \<and> hex_word 64 (ps_claim_secret p) \<and>
     hex_word 64 (ps_claim_secret_hash p) \<and> hex_word 64 (ps_message_hash p) \<and>
     uint_decimal (ps_message_leaf_index p) \<and> 0 \<le> ps_submitted_at_ms p"

definition bridge_result_wf :: "bridge_result \<Rightarrow> bool" where
  "bridge_result_wf r \<longleftrightarrow> 0 < br_amount r \<and> hex_word 64 (br_claim_secret r) \<and>
     hex_word 64 (br_claim_secret_hash r) \<and> hex_word 64 (br_message_hash r) \<and>
     0 \<le> br_message_leaf_index r \<and> 0 \<le> br_submitted_at_ms r"

lemma assert_iff:
  "assert_uint_string ctx name v = Inr s \<longleftrightarrow> v = JString s \<and> uint_decimal s"
  "assert_field_hex_string ctx name v = Inr s \<longleftrightarrow> v = JString s \<and> hex_word 64 s"
  "assert_submitted_at ctx v = Inr i \<longleftrightarrow>
     (\<exists>n. v = JNum n \<and> is_integer n \<and> 0 \<le> number_value n \<and> i = number_value n)"
  by (auto simp: assert_uint_string_def assert_field_hex_string_def assert_submitted_at_def
      split: jsval.splits if_splits)

lemma is_js_object_field: "jfield k v = JString s \<Longrightarrow> is_js_object v"
  by (auto simp: jfield_def is_js_object_def split: jsval.splits)

lemma assert_persisted_iff:
  "assert_persisted_bridge_submission ctx v = Inr p \<longleftrightarrow>
     persisted_wf p \<and>
     jfield ''baselineBalance'' v = JString (ps_baseline_balance p) \<and>
     jfield ''amount'' v = JString (ps_amount p) \<and>
     jfield ''claimSecret'' v = JString (ps_claim_secret p) \<and>
     jfield ''claimSecretHash'' v = JString (ps_claim_secret_hash p) \<and>
     jfield ''messageHash'' v = JString (ps_message_hash p) \<and>
     jfield ''messageLeafIndex'' v = JString (ps_message_leaf_index p) \<and>
     (\<exists>n. jfield ''submittedAtMs'' v = JNum n \<and> is_integer n \<and> number_value n = ps_submitted_at_ms p)"
  by (auto simp: assert_persisted_bridge_submission_def and_then_Inr_iff assert_iff persisted_wf_def
      dest: is_js_object_field)

lemma assert_persisted_to_js: "persisted_wf p \<Longrightarrow> assert_persisted_bridge_submission ctx (persisted_to_js p) = Inr p"
  by (auto simp: assert_persisted_iff persisted_to_js_def jfield_def)

lemma persisted_of_wf: "bridge_result_wf r \<Longrightarrow> 0 \<le> b \<Longrightarrow> persisted_wf (persisted_of b r)"
  by (simp add: persisted_wf_def persisted_of_def bridge_result_wf_def uint_decimal_bigint_string
      bigint_roundtrip)

section \<open>The interface\<close>

locale bridge_state_store =
  fixes read :: "'s \<Rightarrow> thrown + persisted_submission option"
    and put :: "int \<Rightarrow> bridge_result \<Rightarrow> 's \<Rightarrow> 's"
    and wipe :: "'s \<Rightarrow> 's"
  assumes read_put: "0 \<le> b \<Longrightarrow> bridge_result_wf r \<Longrightarrow> read (put b r s) = Inr (Some (persisted_of b r))"
    and read_wipe: "read (wipe s) = Inr None"
begin

text \<open>What a reader recovers of the submission that was written.\<close>

lemma recovered:
  assumes "0 \<le> b" "bridge_result_wf r"
  shows "\<exists>p. read (put b r s) = Inr (Some p) \<and> dec_value (ps_baseline_balance p) = b \<and>
     dec_value (ps_amount p) = br_amount r \<and> ps_claim_secret p = br_claim_secret r \<and>
     ps_claim_secret_hash p = br_claim_secret_hash r \<and>
     ps_message_hash p = br_message_hash r \<and> dec_value (ps_message_leaf_index p) = br_message_leaf_index r \<and>
     ps_submitted_at_ms p = br_submitted_at_ms r"
  using assms by (simp add: read_put persisted_of_def bigint_roundtrip bridge_result_wf_def)

lemma last_write_wins:
  "0 \<le> b \<Longrightarrow> bridge_result_wf r \<Longrightarrow> read (put b r (put b' r' s)) = Inr (Some (persisted_of b r))"
  by (rule read_put)

lemma nothing_after_wipe: "read (wipe (put b r s)) = Inr None"
  by (rule read_wipe)

end

interpretation lmdb_bridge: bridge_state_store "store_read dir" store_write store_clear for dir
  by unfold_locales (simp_all add: store_read_def store_write_def store_clear_def
      assert_persisted_to_js persisted_of_wf)

section \<open>Lock facts\<close>

lemma code_of_newline: "is_space (CHR 0x0A)"
  by (simp add: is_space_def code_of_def)

lemma trim_pid_line: "js_trim (pid_line p) = dec_nat p"
proof -
  have d: "\<forall>c \<in> set (dec_nat p). \<not> is_space c"
    using dec_nat_digits [of p] digit_not_space by (auto simp: list_all_iff)
  obtain c cs where c: "dec_nat p = c # cs" by (cases "dec_nat p") auto
  have "dropWhile is_space (pid_line p) = pid_line p" using d c by (simp add: pid_line_def)
  moreover have "dropWhile is_space (rev (dec_nat p)) = rev (dec_nat p)"
    by (simp add: dropWhile_eq_self_iff d hd_rev)
  ultimately show ?thesis by (simp add: js_trim_def pid_line_def code_of_newline)
qed

lemma parse_dec_nat: "parse_int (dec_nat p) = Some (int p)"
proof -
  have d: "\<forall>c \<in> set (dec_nat p). is_digit c" using dec_nat_digits [of p] by (simp add: list_all_iff)
  obtain c cs where c: "dec_nat p = c # cs" by (cases "dec_nat p") auto
  with d have dig: "is_digit c" by simp
  then have "\<not> is_space c" "c \<noteq> CHR ''-''" "c \<noteq> CHR ''+''"
    by (auto simp: digit_not_space is_digit_def code_of_def)
  then have "split_sign (dropWhile is_space (dec_nat p)) = (1, dec_nat p)"
    by (simp add: c split_sign_def)
  moreover have tw: "takeWhile is_digit (dec_nat p) = dec_nat p" using d by simp
  ultimately show ?thesis by (simp add: parse_int_def dec_value_dec_nat Let_def tw)
qed

section \<open>Properties\<close>

text \<open>
  C24. What the service persists about a bridge it can read back after a crash: writing a
  submission and reading gives back the baseline, the amount, the claim secret and its
  hash, the message hash, the leaf index and the time, whatever the entry held before; and
  after clearing nothing is read.
\<close>

theorem bridge_state_roundtrip:
  assumes "0 \<le> b" "bridge_result_wf r"
  shows "(\<exists>p. store_read dir (store_write b r db) = Inr (Some p) \<and> dec_value (ps_baseline_balance p) = b \<and>
     dec_value (ps_amount p) = br_amount r \<and> ps_claim_secret p = br_claim_secret r \<and>
     ps_claim_secret_hash p = br_claim_secret_hash r \<and>
     ps_message_hash p = br_message_hash r \<and> dec_value (ps_message_leaf_index p) = br_message_leaf_index r \<and>
     ps_submitted_at_ms p = br_submitted_at_ms r) \<and>
   store_read dir (store_clear (store_write b r db)) = Inr None"
  using lmdb_bridge.recovered [OF assms] lmdb_bridge.nothing_after_wipe by blast

definition demo_hex :: "char \<Rightarrow> string" where
  "demo_hex c = ''0x'' @ replicate 64 c"

definition demo_bridge :: bridge_result where
  "demo_bridge = \<lparr>br_amount = 500, br_claim_secret = demo_hex (CHR ''a''),
     br_claim_secret_hash = demo_hex (CHR ''b''), br_message_hash = demo_hex (CHR ''c''),
     br_message_leaf_index = 12, br_submitted_at_ms = 1000\<rparr>"

lemma demo_hex_word: "is_hex_digit c \<Longrightarrow> hex_word 64 (demo_hex c)"
  by (simp add: hex_word_def demo_hex_def list_all_iff)

lemma demo_bridge_wf: "bridge_result_wf demo_bridge"
  by (simp add: bridge_result_wf_def demo_bridge_def demo_hex_word is_hex_digit_def code_of_def)

lemma bridge_state_roundtrip_witness:
  "(\<exists>p. store_read ''d'' (store_write 7 demo_bridge None) = Inr (Some p) \<and> dec_value (ps_baseline_balance p) = 7 \<and>
     dec_value (ps_amount p) = 500) \<and>
   store_read ''d'' (store_clear (store_write 7 demo_bridge None)) = Inr None"
  using bridge_state_roundtrip [OF _ demo_bridge_wf, of 7 "''d''" None]
  by (auto simp: demo_bridge_def)

text \<open>
  Validation of a stored entry accepts a value exactly when it is an object with a
  non-negative integer time, canonical unsigned decimals for baseline, amount and leaf
  index, an amount above zero, and 32-byte hex words for the secret, its hash and the
  message hash; it then returns those very strings, so every amount the reconciliation
  converts to a bigint is a non-negative integer and the bridged amount is positive.
\<close>

theorem persisted_entry_accepted_iff:
  "store_read dir (Some v) = Inr (Some p) \<longleftrightarrow>
     jfield ''baselineBalance'' v = JString (ps_baseline_balance p) \<and> uint_decimal (ps_baseline_balance p) \<and>
     jfield ''amount'' v = JString (ps_amount p) \<and> uint_decimal (ps_amount p) \<and> 0 < dec_value (ps_amount p) \<and>
     jfield ''claimSecret'' v = JString (ps_claim_secret p) \<and> hex_word 64 (ps_claim_secret p) \<and>
     jfield ''claimSecretHash'' v = JString (ps_claim_secret_hash p) \<and> hex_word 64 (ps_claim_secret_hash p) \<and>
     jfield ''messageHash'' v = JString (ps_message_hash p) \<and> hex_word 64 (ps_message_hash p) \<and>
     jfield ''messageLeafIndex'' v = JString (ps_message_leaf_index p) \<and> uint_decimal (ps_message_leaf_index p) \<and>
     (\<exists>n. jfield ''submittedAtMs'' v = JNum n \<and> is_integer n \<and> 0 \<le> number_value n \<and>
        number_value n = ps_submitted_at_ms p)"
  by (auto simp: store_read_def and_then_Inr_iff assert_persisted_iff persisted_wf_def)

text \<open>
  The process lock: acquiring it succeeds and leaves this process's id in the file exactly
  when the file is missing, has no number, or names a dead process (and the directory and
  the file can be written); a live holder, this process itself included, is refused and the
  file is kept, so after an acquisition by a live process every later one fails until the
  lock is released. But the check and the write are two steps: when two processes check
  before either writes, both acquire it.
\<close>

theorem process_lock:
  assumes "le_mkdir env = Inr ()" "le_write env = Inr ()"
    and "le_alive env2 (int (le_pid env))" "le_mkdir env2 = Inr ()" "le_write env2 = Inr ()"
  shows "((\<exists>f'. acquire_process_lock env path f = (Inr (), f')) \<longleftrightarrow>
      f = LockAbsent \<or> (\<exists>s. f = LockContent s \<and> lock_holder env s = None)) \<and>
    (acquire_process_lock env path f = (Inr (), f') \<longrightarrow>
       (\<exists>e. acquire_process_lock env2 path f' = (Inl e, f')) \<and>
       fst (acquire_process_lock env2 path (release_process_lock f')) = Inr ()) \<and>
    (lock_check env path LockAbsent = Inr () \<and> lock_check env2 path LockAbsent = Inr () \<and>
       (\<exists>f1 f2. lock_write env LockAbsent = (Inr (), f1) \<and> lock_write env2 f1 = (Inr (), f2)))"
proof -
  have w: "lock_write env f = (Inr (), LockContent (pid_line (le_pid env)))" for f
    using assms(1,2) by (simp add: lock_write_def)
  have w2: "lock_write env2 f = (Inr (), LockContent (pid_line (le_pid env2)))" for f
    using assms(4,5) by (simp add: lock_write_def)
  have h: "lock_holder env2 (pid_line (le_pid env)) = Some (int (le_pid env))"
    using assms(3) by (simp add: lock_holder_def trim_pid_line parse_dec_nat)
  show ?thesis
    by (auto simp: acquire_process_lock_def lock_check_def w w2 h release_process_lock_def
        split: lock_file.splits option.splits)
qed

definition demo_lock_env :: "nat \<Rightarrow> lock_env" where
  "demo_lock_env p = \<lparr>le_alive = (\<lambda>q. 0 < q \<and> q < 100), le_pid = p, le_mkdir = Inr (), le_write = Inr ()\<rparr>"

lemma process_lock_witness:
  "\<exists>f'. acquire_process_lock (demo_lock_env 7) ''l'' LockAbsent = (Inr (), f') \<and>
     (\<exists>e. acquire_process_lock (demo_lock_env 7) ''l'' f' = (Inl e, f'))"
proof -
  have ok: "le_mkdir (demo_lock_env 7) = Inr ()" "le_write (demo_lock_env 7) = Inr ()"
    "le_alive (demo_lock_env 7) (int (le_pid (demo_lock_env 7)))"
    by (simp_all add: demo_lock_env_def)
  note facts = process_lock [OF ok ok(1,2), of "''l''" LockAbsent]
  from facts [THEN conjunct1] obtain f' where
    f': "acquire_process_lock (demo_lock_env 7) ''l'' LockAbsent = (Inr (), f')" by blast
  with facts [of f'] show ?thesis by blast
qed

end
