(* ===== verification/Topup_Confirm.thy ===== *)
theory Topup_Confirm
  imports Topup_State
begin

text \<open>
  Confirmation of a bridge, \<open>services/topup/src/confirm.ts\<close>: polling of the Fee Juice
  balance until it grows, with the readiness of the L1-to-L2 message as a second condition
  and an action that runs once the message is ready.

  The promise of the readiness check settles at some point of the world; its callbacks run
  at an await, so the flags they set are absorbed after every await (\<open>absorb\<close>). The loop
  has no bound of its own: it is a \<open>partial_function\<close>, its value \<open>None\<close> when it never
  returns, and that it returns is proved from the behaviour of the clock.
\<close>

datatype confirmation_status = Confirmed | TimedOut | Aborted

record 'w confirm_env =
  cf_now :: "'w \<Rightarrow> int"
  cf_aborted :: "'w \<Rightarrow> bool"
  cf_get_balance :: "('w, int) ioe"
  cf_sleep :: "int \<Rightarrow> 'w \<Rightarrow> bool \<times> 'w"
  cf_settle :: "'w \<Rightarrow> 'w"
  cf_fr_from_hex :: "string \<Rightarrow> thrown + int"
  cf_start_wait :: "int \<Rightarrow> int \<Rightarrow> 'w \<Rightarrow> 'w"
  cf_wait_outcome :: "'w \<Rightarrow> (thrown + bool) option"
  cf_on_message_ready :: "('w, unit) ioe option"

text \<open>\<open>cf_sleep\<close> tells whether the abort signal ended the sleep.\<close>

record confirm_options =
  co_baseline_balance :: int
  co_timeout_ms :: int
  co_initial_poll_ms :: int
  co_max_poll_ms :: int
  co_message_hash :: "string option"

record confirm_state =
  st_start_ms :: int
  st_deadline_ms :: int
  st_poll_ms :: int
  st_max_observed :: int
  st_last_observed :: int
  st_attempts :: nat
  st_poll_errors :: nat
  st_successful_reads :: nat
  st_check_attempted :: bool
  st_message_ready :: bool
  st_check_failed :: bool
  st_action_attempted :: bool
  st_action_succeeded :: bool
  st_action_failed :: bool

record confirmation_result =
  cr_status :: confirmation_status
  cr_baseline :: int
  cr_max_observed :: int
  cr_last_observed :: int
  cr_observed_delta :: int
  cr_elapsed_ms :: int
  cr_attempts :: nat
  cr_poll_errors :: nat
  cr_check_attempted :: bool
  cr_message_ready :: bool
  cr_check_failed :: bool
  cr_action_attempted :: bool
  cr_action_succeeded :: bool
  cr_action_failed :: bool

definition create_confirmation_state :: "'w confirm_env \<Rightarrow> confirm_options \<Rightarrow> 'w \<Rightarrow> confirm_state" where
  "create_confirmation_state env opts w = \<lparr>
     st_start_ms = cf_now env w, st_deadline_ms = cf_now env w + co_timeout_ms opts,
     st_poll_ms = co_initial_poll_ms opts, st_max_observed = co_baseline_balance opts,
     st_last_observed = co_baseline_balance opts, st_attempts = 0, st_poll_errors = 0,
     st_successful_reads = 0, st_check_attempted = False, st_message_ready = False,
     st_check_failed = False, st_action_attempted = False, st_action_succeeded = False,
     st_action_failed = False\<rparr>"

definition build_result ::
    "'w confirm_env \<Rightarrow> confirm_options \<Rightarrow> confirm_state \<Rightarrow> confirmation_status \<Rightarrow> 'w \<Rightarrow> confirmation_result" where
  "build_result env opts st s w = \<lparr>
     cr_status = s, cr_baseline = co_baseline_balance opts, cr_max_observed = st_max_observed st,
     cr_last_observed = st_last_observed st,
     cr_observed_delta = st_max_observed st - co_baseline_balance opts,
     cr_elapsed_ms = cf_now env w - st_start_ms st, cr_attempts = st_attempts st,
     cr_poll_errors = st_poll_errors st, cr_check_attempted = st_check_attempted st,
     cr_message_ready = st_message_ready st, cr_check_failed = st_check_failed st,
     cr_action_attempted = st_action_attempted st, cr_action_succeeded = st_action_succeeded st,
     cr_action_failed = st_action_failed st\<rparr>"

text \<open>The callbacks of the readiness promise, once it has settled; \<open>hw\<close> says there is one.\<close>

definition absorb :: "'w confirm_env \<Rightarrow> bool \<Rightarrow> 'w \<Rightarrow> confirm_state \<Rightarrow> confirm_state" where
  "absorb env hw w st = (if \<not> hw then st else case cf_wait_outcome env w of
     None \<Rightarrow> st
   | Some (Inr ready) \<Rightarrow> st\<lparr>st_message_ready := ready\<rparr>
   | Some (Inl e) \<Rightarrow> st\<lparr>st_check_failed := True\<rparr>)"

definition settle_message_check ::
    "'w confirm_env \<Rightarrow> bool \<Rightarrow> confirm_state \<Rightarrow> 'w \<Rightarrow> confirm_state \<times> 'w" where
  "settle_message_check env hw st w =
     (if \<not> hw then (st, w) else let w' = cf_settle env w in (absorb env hw w' st, w'))"

definition start_message_readiness_check ::
    "'w confirm_env \<Rightarrow> confirm_options \<Rightarrow> confirm_state \<Rightarrow> 'w \<Rightarrow> bool \<times> confirm_state \<times> 'w" where
  "start_message_readiness_check env opts st w = (case co_message_hash opts of
     None \<Rightarrow> (False, st, w)
   | Some h \<Rightarrow>
       (let st1 = st\<lparr>st_check_attempted := True\<rparr> in
        case cf_fr_from_hex env h of
          Inl e \<Rightarrow> (False, st1\<lparr>st_check_failed := True\<rparr>, w)
        | Inr x \<Rightarrow> (True, st1, cf_start_wait env x (max 1 (co_timeout_ms opts div 1000)) w)))"

definition maybe_run_message_ready_action ::
    "'w confirm_env \<Rightarrow> bool \<Rightarrow> confirm_state \<Rightarrow> 'w \<Rightarrow> confirm_state \<times> 'w" where
  "maybe_run_message_ready_action env hw st w = (case cf_on_message_ready env of
     None \<Rightarrow> (st, w)
   | Some action \<Rightarrow>
       if \<not> st_message_ready st \<or> st_action_succeeded st \<or> st_action_attempted st then (st, w)
       else (case action w of
           (Inr _, w') \<Rightarrow> ((absorb env hw w' (st\<lparr>st_action_attempted := True\<rparr>))\<lparr>st_action_succeeded := True\<rparr>, w')
         | (Inl e, w') \<Rightarrow> ((absorb env hw w' (st\<lparr>st_action_attempted := True\<rparr>))\<lparr>st_action_failed := True\<rparr>, w')))"

definition poll_balance_once ::
    "'w confirm_env \<Rightarrow> confirm_options \<Rightarrow> bool \<Rightarrow> confirm_state \<Rightarrow> 'w \<Rightarrow> bool \<times> confirm_state \<times> 'w" where
  "poll_balance_once env opts hw st w = (case cf_get_balance env w of
     (Inr balance, w') \<Rightarrow>
       (let st1 = absorb env hw w' st;
            st2 = st1\<lparr>st_successful_reads := st_successful_reads st1 + 1, st_last_observed := balance,
                    st_max_observed := (if balance > st_max_observed st1 then balance else st_max_observed st1)\<rparr>
        in (0 < st_max_observed st2 - co_baseline_balance opts, st2, w'))
   | (Inl e, w') \<Rightarrow>
       (let st1 = absorb env hw w' st in (False, st1\<lparr>st_poll_errors := st_poll_errors st1 + 1\<rparr>, w')))"

datatype poll_step = Continue | StepAborted | StepTimeout

definition wait_for_next_poll ::
    "'w confirm_env \<Rightarrow> confirm_options \<Rightarrow> bool \<Rightarrow> confirm_state \<Rightarrow> 'w \<Rightarrow> poll_step \<times> confirm_state \<times> 'w" where
  "wait_for_next_poll env opts hw st w =
     (let remaining = st_deadline_ms st - cf_now env w in
      if remaining \<le> 0 then (StepTimeout, st, w)
      else case cf_sleep env (min (st_poll_ms st) remaining) w of (aborted, w') \<Rightarrow>
        (let st1 = absorb env hw w' st in
         if aborted then (StepAborted, st1, w')
         else (Continue, st1\<lparr>st_poll_ms := min (co_max_poll_ms opts) ((3 * st_poll_ms st1) div 2)\<rparr>, w')))"

text \<open>One pass of the loop up to the decision to confirm.\<close>

definition poll_iteration ::
    "'w confirm_env \<Rightarrow> confirm_options \<Rightarrow> bool \<Rightarrow> confirm_state \<Rightarrow> 'w \<Rightarrow> bool \<times> confirm_state \<times> 'w" where
  "poll_iteration env opts hw st w =
     (case settle_message_check env hw (st\<lparr>st_attempts := st_attempts st + 1\<rparr>) w of (st1, w1) \<Rightarrow>
      case maybe_run_message_ready_action env hw st1 w1 of (st2, w2) \<Rightarrow>
      case poll_balance_once env opts hw st2 w2 of (positive, st3, w3) \<Rightarrow>
      if \<not> positive then (False, st3, w3)
      else case settle_message_check env hw st3 w3 of (st4, w4) \<Rightarrow>
        (co_message_hash opts = None \<or> st_message_ready st4 \<or> st_check_failed st4, st4, w4))"

partial_function (option) poll_until_confirmed ::
    "'w confirm_env \<Rightarrow> confirm_options \<Rightarrow> bool \<Rightarrow> confirm_state \<Rightarrow> 'w \<Rightarrow>
       (confirmation_status option \<times> confirm_state \<times> 'w) option" where
  [code]: "poll_until_confirmed env opts hw st w =
     (if cf_now env w \<le> st_deadline_ms st then
        if cf_aborted env w then Some (Some Aborted, st, w)
        else case poll_iteration env opts hw st w of (confirmed, st1, w1) \<Rightarrow>
          if confirmed then Some (Some Confirmed, st1, w1)
          else case wait_for_next_poll env opts hw st1 w1 of (step, st2, w2) \<Rightarrow>
            if step = StepAborted then Some (Some Aborted, st2, w2)
            else if step = StepTimeout then Some (None, st2, w2)
            else poll_until_confirmed env opts hw st2 w2
      else Some (None, st, w))"

definition wait_for_fee_juice_bridge_confirmation ::
    "'w confirm_env \<Rightarrow> confirm_options \<Rightarrow> 'w \<Rightarrow> ((thrown + confirmation_result) \<times> 'w) option" where
  "wait_for_fee_juice_bridge_confirmation env opts w =
     (case start_message_readiness_check env opts (create_confirmation_state env opts w) w of (hw, st0, w0) \<Rightarrow>
      if cf_aborted env w0 then Some (Inr (build_result env opts st0 Aborted w0), w0)
      else case poll_until_confirmed env opts hw st0 w0 of
        None \<Rightarrow> None
      | Some (Some s, st1, w1) \<Rightarrow> Some (Inr (build_result env opts st1 s w1), w1)
      | Some (None, st1, w1) \<Rightarrow>
          (case settle_message_check env hw st1 w1 of (st2, w2) \<Rightarrow>
           if st_successful_reads st2 = 0 \<and> \<not> st_message_ready st2
           then Some (Inl (error (''Unable to read Fee Juice balance during confirmation polling after '' @
                  dec_nat (st_attempts st2) @ '' attempt(s)'')), w2)
           else Some (Inr (build_result env opts st2 TimedOut w2), w2)))"

section \<open>The loop rule\<close>

lemma poll_until_confirmed_rule:
  assumes "poll_until_confirmed env opts hw st w = Some (r, st', w')" "I st w"
    and "\<And>st w c st1 w1. I st w \<Longrightarrow> cf_now env w \<le> st_deadline_ms st \<Longrightarrow>
           poll_iteration env opts hw st w = (c, st1, w1) \<Longrightarrow> I st1 w1"
    and "\<And>st w k st1 w1. I st w \<Longrightarrow> wait_for_next_poll env opts hw st w = (k, st1, w1) \<Longrightarrow> I st1 w1"
  shows "I st' w' \<and> r \<noteq> Some TimedOut \<and>
    (r = Some Confirmed \<longrightarrow> (\<exists>st0 w0. I st0 w0 \<and> poll_iteration env opts hw st0 w0 = (True, st', w')))"
proof -
  define Q where "Q y \<longleftrightarrow> (case y of (r, st', w') \<Rightarrow> I st' w' \<and> r \<noteq> Some TimedOut \<and>
    (r = Some Confirmed \<longrightarrow> (\<exists>st0 w0. I st0 w0 \<and> poll_iteration env opts hw st0 w0 = (True, st', w'))))" for y
  have "env = env \<longrightarrow> opts = opts \<longrightarrow> hw = hw \<longrightarrow> I st w \<longrightarrow> Q (r, st', w')"
  proof (rule poll_until_confirmed.raw_induct [OF _ assms(1), where
        P = "\<lambda>env' opts' hw' st w y. env' = env \<longrightarrow> opts' = opts \<longrightarrow> hw' = hw \<longrightarrow> I st w \<longrightarrow> Q y"], intro impI)
    fix f env' opts' hw' st w y
    assume IH: "\<And>env' opts' hw' st w y. f env' opts' hw' st w = Some y \<Longrightarrow>
        env' = env \<longrightarrow> opts' = opts \<longrightarrow> hw' = hw \<longrightarrow> I st w \<longrightarrow> Q y"
      and eq: "env' = env" "opts' = opts" "hw' = hw" and I: "I st w"
      and body: "(if cf_now env' w \<le> st_deadline_ms st then
        if cf_aborted env' w then Some (Some Aborted, st, w)
        else case poll_iteration env' opts' hw' st w of (confirmed, st1, w1) \<Rightarrow>
          if confirmed then Some (Some Confirmed, st1, w1)
          else case wait_for_next_poll env' opts' hw' st1 w1 of (step, st2, w2) \<Rightarrow>
            if step = StepAborted then Some (Some Aborted, st2, w2)
            else if step = StepTimeout then Some (None, st2, w2)
            else f env' opts' hw' st2 w2
      else Some (None, st, w)) = Some y"
    obtain c st1 w1 where it: "poll_iteration env opts hw st w = (c, st1, w1)" by (metis prod.exhaust)
    obtain k st2 w2 where wt: "wait_for_next_poll env opts hw st1 w1 = (k, st2, w2)" by (metis prod.exhaust)
    note run = body [unfolded eq it wt prod.case]
    show "Q y"
    proof (cases "cf_now env w \<le> st_deadline_ms st \<and> \<not> cf_aborted env w")
      case False
      with run I show ?thesis by (auto simp: Q_def split: if_splits)
    next
      case True
      from assms(3) [OF I _ it] True have I1: "I st1 w1" by simp
      from assms(4) [OF I1 wt] have I2: "I st2 w2" .
      from True run I I1 I2 it IH [of env opts hw st2 w2 y] show ?thesis
        by (auto simp: Q_def split: if_splits)
    qed
  qed
  with assms(2) show ?thesis by (simp add: Q_def)
qed

section \<open>Termination\<close>

text \<open>
  What the loop needs of the clock: no operation turns it back, and a sleep of at least a
  millisecond that is not aborted moves it forward.
\<close>

definition clock_ok :: "'w confirm_env \<Rightarrow> bool" where
  "clock_ok env \<longleftrightarrow>
     (\<forall>w. cf_now env w \<le> cf_now env (snd (cf_get_balance env w))) \<and>
     (\<forall>w. cf_now env w \<le> cf_now env (cf_settle env w)) \<and>
     (\<forall>action w. cf_on_message_ready env = Some action \<longrightarrow> cf_now env w \<le> cf_now env (snd (action w))) \<and>
     (\<forall>ms w w'. 1 \<le> ms \<longrightarrow> cf_sleep env ms w = (False, w') \<longrightarrow> cf_now env w < cf_now env w')"

lemma absorb_frame [simp]:
  "st_deadline_ms (absorb env hw w st) = st_deadline_ms st" "st_poll_ms (absorb env hw w st) = st_poll_ms st"
  "st_start_ms (absorb env hw w st) = st_start_ms st" "st_attempts (absorb env hw w st) = st_attempts st"
  "st_max_observed (absorb env hw w st) = st_max_observed st"
  "st_last_observed (absorb env hw w st) = st_last_observed st"
  "st_action_attempted (absorb env hw w st) = st_action_attempted st"
  "st_action_succeeded (absorb env hw w st) = st_action_succeeded st"
  "st_action_failed (absorb env hw w st) = st_action_failed st"
  "st_successful_reads (absorb env hw w st) = st_successful_reads st"
  "st_check_attempted (absorb env hw w st) = st_check_attempted st"
  by (auto simp: absorb_def split: option.split sum.split)

lemma settle_clock:
  assumes "clock_ok env" "settle_message_check env hw st w = (st1, w1)"
  shows "cf_now env w \<le> cf_now env w1 \<and> st_deadline_ms st1 = st_deadline_ms st \<and>
    st_poll_ms st1 = st_poll_ms st \<and> st_attempts st1 = st_attempts st"
  using assms by (auto simp: settle_message_check_def clock_ok_def Let_def split: if_splits)

lemma action_clock:
  assumes "clock_ok env" "maybe_run_message_ready_action env hw st w = (st1, w1)"
  shows "cf_now env w \<le> cf_now env w1 \<and> st_deadline_ms st1 = st_deadline_ms st \<and>
    st_poll_ms st1 = st_poll_ms st \<and> st_attempts st1 = st_attempts st"
proof (cases "cf_on_message_ready env")
  case None
  with assms(2) show ?thesis by (simp add: maybe_run_message_ready_action_def)
next
  case (Some action)
  obtain r w' where a: "action w = (r, w')" by fastforce
  have "cf_now env w \<le> cf_now env (snd (action w))" using assms(1) Some by (simp add: clock_ok_def)
  with a assms(2) Some show ?thesis
    by (cases r) (auto simp: maybe_run_message_ready_action_def split: if_splits)
qed

lemma poll_clock:
  assumes "clock_ok env" "poll_balance_once env opts hw st w = (b, st1, w1)"
  shows "cf_now env w \<le> cf_now env w1 \<and> st_deadline_ms st1 = st_deadline_ms st \<and>
    st_poll_ms st1 = st_poll_ms st \<and> st_attempts st1 = st_attempts st"
proof -
  obtain r w' where b: "cf_get_balance env w = (r, w')" by fastforce
  have "cf_now env w \<le> cf_now env (snd (cf_get_balance env w))" using assms(1) by (simp add: clock_ok_def)
  with b assms(2) show ?thesis by (cases r) (auto simp: poll_balance_once_def Let_def)
qed

lemma iteration_parts:
  assumes "poll_iteration env opts hw st w = (c, st', w')"
  obtains st1 w1 st2 w2 b st3 w3 where
    "settle_message_check env hw (st\<lparr>st_attempts := st_attempts st + 1\<rparr>) w = (st1, w1)"
    "maybe_run_message_ready_action env hw st1 w1 = (st2, w2)"
    "poll_balance_once env opts hw st2 w2 = (b, st3, w3)"
    "\<not> b \<Longrightarrow> c = False \<and> st' = st3 \<and> w' = w3"
    "b \<Longrightarrow> settle_message_check env hw st3 w3 = (st', w') \<and>
       c = (co_message_hash opts = None \<or> st_message_ready st' \<or> st_check_failed st')"
proof -
  obtain st1 w1 where 1: "settle_message_check env hw (st\<lparr>st_attempts := st_attempts st + 1\<rparr>) w = (st1, w1)"
    by fastforce
  obtain st2 w2 where 2: "maybe_run_message_ready_action env hw st1 w1 = (st2, w2)" by fastforce
  obtain b st3 w3 where 3: "poll_balance_once env opts hw st2 w2 = (b, st3, w3)" by (metis prod.exhaust)
  show thesis
    by (rule that [OF 1 2 3])
      (use assms in \<open>auto simp: poll_iteration_def 1 [simplified] 2 3 split: prod.splits\<close>)
qed

lemma iteration_clock:
  assumes "clock_ok env" "poll_iteration env opts hw st w = (c, st', w')"
  shows "cf_now env w \<le> cf_now env w' \<and> st_deadline_ms st' = st_deadline_ms st \<and>
    st_poll_ms st' = st_poll_ms st \<and> st_attempts st' = st_attempts st + 1"
  using assms(2)
proof (rule iteration_parts)
  fix st1 w1 st2 w2 b st3 w3
  assume 1: "settle_message_check env hw (st\<lparr>st_attempts := st_attempts st + 1\<rparr>) w = (st1, w1)"
    and 2: "maybe_run_message_ready_action env hw st1 w1 = (st2, w2)"
    and 3: "poll_balance_once env opts hw st2 w2 = (b, st3, w3)"
    and 4: "\<not> b \<Longrightarrow> c = False \<and> st' = st3 \<and> w' = w3"
    and 5: "b \<Longrightarrow> settle_message_check env hw st3 w3 = (st', w') \<and>
       c = (co_message_hash opts = None \<or> st_message_ready st' \<or> st_check_failed st')"
  note a = settle_clock [OF assms(1) 1] action_clock [OF assms(1) 2] poll_clock [OF assms(1) 3]
  show ?thesis
  proof (cases b)
    case False
    with 4 a show ?thesis by auto
  next
    case True
    with 5 have s: "settle_message_check env hw st3 w3 = (st', w')" by simp
    from settle_clock [OF assms(1) s] a show ?thesis by auto
  qed
qed

lemma wait_clock:
  assumes "clock_ok env" "wait_for_next_poll env opts hw st w = (Continue, st', w')"
    and "1 \<le> st_poll_ms st" "1 \<le> co_max_poll_ms opts"
  shows "cf_now env w < cf_now env w' \<and> st_deadline_ms st' = st_deadline_ms st \<and> 1 \<le> st_poll_ms st' \<and>
    st_attempts st' = st_attempts st"
proof -
  let ?rem = "st_deadline_ms st - cf_now env w"
  from assms(2) have pos: "0 < ?rem" by (auto simp: wait_for_next_poll_def Let_def split: if_splits)
  obtain a w1 where s: "cf_sleep env (min (st_poll_ms st) ?rem) w = (a, w1)" by fastforce
  from assms(2) pos s have f: "\<not> a" "w1 = w'" "st_poll_ms st' = min (co_max_poll_ms opts) ((3 * st_poll_ms st) div 2)"
    "st_deadline_ms st' = st_deadline_ms st" "st_attempts st' = st_attempts st"
    by (auto simp: wait_for_next_poll_def Let_def split: if_splits)
  have "1 \<le> min (st_poll_ms st) ?rem" using pos assms(3) by simp
  moreover have "\<And>ms w w'. 1 \<le> ms \<Longrightarrow> cf_sleep env ms w = (False, w') \<Longrightarrow> cf_now env w < cf_now env w'"
    using assms(1) unfolding clock_ok_def by blast
  ultimately have "cf_now env w < cf_now env w'" using s f(1,2) by (metis (full_types))
  with f assms(3,4) show ?thesis by auto
qed

lemma poll_until_confirmed_returns:
  assumes "clock_ok env" "1 \<le> co_max_poll_ms opts"
  shows "1 \<le> st_poll_ms st \<Longrightarrow> \<exists>r st' w'. poll_until_confirmed env opts hw st w = Some (r, st', w') \<and>
    int (st_attempts st') \<le> int (st_attempts st) + max 0 (st_deadline_ms st + 1 - cf_now env w)"
proof (induction "nat (st_deadline_ms st + 1 - cf_now env w)" arbitrary: st w rule: less_induct)
  case less
  note unfold = poll_until_confirmed.simps [of env opts hw st w]
  obtain c st1 w1 where it: "poll_iteration env opts hw st w = (c, st1, w1)" by (metis prod.exhaust)
  obtain k st2 w2 where wt: "wait_for_next_poll env opts hw st1 w1 = (k, st2, w2)" by (metis prod.exhaust)
  from iteration_clock [OF assms(1) it] have i: "cf_now env w \<le> cf_now env w1"
    "st_deadline_ms st1 = st_deadline_ms st" "st_poll_ms st1 = st_poll_ms st"
    "st_attempts st1 = st_attempts st + 1" by simp_all
  have att: "st_attempts st2 = st_attempts st1"
    using wt by (auto simp: wait_for_next_poll_def Let_def split: if_splits prod.splits)
  show ?case
  proof (cases "cf_now env w \<le> st_deadline_ms st \<and> \<not> cf_aborted env w \<and> \<not> c \<and> k = Continue")
    case False
    then show ?thesis unfolding unfold it wt prod.case using i att
      by (cases k) auto
  next
    case True
    have "1 \<le> st_poll_ms st1" using less.prems i by simp
    from wait_clock [OF assms(1) wt [unfolded True [THEN conjunct2, THEN conjunct2, THEN conjunct2]] this assms(2)]
    have w: "cf_now env w1 < cf_now env w2" "st_deadline_ms st2 = st_deadline_ms st1" "1 \<le> st_poll_ms st2"
      by simp_all
    with i True have "nat (st_deadline_ms st2 + 1 - cf_now env w2) < nat (st_deadline_ms st + 1 - cf_now env w)"
      by simp
    from less.hyps [OF this w(3)] obtain r st' w' where
      r: "poll_until_confirmed env opts hw st2 w2 = Some (r, st', w')"
      and a: "int (st_attempts st') \<le> int (st_attempts st2) + max 0 (st_deadline_ms st2 + 1 - cf_now env w2)" by blast
    have "int (st_attempts st') \<le> int (st_attempts st) + max 0 (st_deadline_ms st + 1 - cf_now env w)"
    proof -
      have "max 0 (st_deadline_ms st2 + 1 - cf_now env w2) \<le> st_deadline_ms st - cf_now env w"
        using i w True by simp
      with a i(4) att have "int (st_attempts st') \<le> int (st_attempts st) + 1 + (st_deadline_ms st - cf_now env w)"
        by linarith
      then show ?thesis using max.cobounded2 [of "st_deadline_ms st + 1 - cf_now env w" 0] by linarith
    qed
    with r True show ?thesis unfolding unfold it wt prod.case by simp
  qed
qed

section \<open>Counting the action\<close>

definition counting_actions :: "'w confirm_env \<Rightarrow> ('w \<times> nat) confirm_env" where
  "counting_actions env = \<lparr>cf_now = (\<lambda>(w, n). cf_now env w), cf_aborted = (\<lambda>(w, n). cf_aborted env w),
     cf_get_balance = (\<lambda>(w, n). case cf_get_balance env w of (r, w') \<Rightarrow> (r, w', n)),
     cf_sleep = (\<lambda>ms (w, n). case cf_sleep env ms w of (a, w') \<Rightarrow> (a, w', n)),
     cf_settle = (\<lambda>(w, n). (cf_settle env w, n)), cf_fr_from_hex = cf_fr_from_hex env,
     cf_start_wait = (\<lambda>x t (w, n). (cf_start_wait env x t w, n)),
     cf_wait_outcome = (\<lambda>(w, n). cf_wait_outcome env w),
     cf_on_message_ready = map_option (\<lambda>action (w, n). case action w of (r, w') \<Rightarrow> (r, w', Suc n))
       (cf_on_message_ready env)\<rparr>"

definition action_inv :: "bool \<Rightarrow> confirm_state \<Rightarrow> 'w \<times> nat \<Rightarrow> bool" where
  "action_inv hw st wn \<longleftrightarrow> snd wn = (if st_action_attempted st then 1 else 0) \<and>
     (st_action_attempted st \<longrightarrow> hw \<and> st_action_succeeded st \<noteq> st_action_failed st) \<and>
     (\<not> st_action_attempted st \<longrightarrow> \<not> st_action_succeeded st \<and> \<not> st_action_failed st) \<and>
     (st_message_ready st \<longrightarrow> hw)"

lemma absorb_ready: "st_message_ready (absorb env hw w st) \<Longrightarrow> hw \<or> st_message_ready st"
  by (auto simp: absorb_def split: if_splits)

lemma action_inv_absorb: "action_inv hw st wn \<Longrightarrow> action_inv hw (absorb env hw w st) wn"
  by (auto simp: action_inv_def dest: absorb_ready)

lemma action_inv_settle:
  "action_inv hw st wn \<Longrightarrow> settle_message_check (counting_actions env) hw st wn = (st1, wn1) \<Longrightarrow> action_inv hw st1 wn1"
  by (cases wn) (auto simp: settle_message_check_def counting_actions_def action_inv_def Let_def
      dest: absorb_ready split: if_splits)

lemma action_inv_poll:
  "action_inv hw st wn \<Longrightarrow> poll_balance_once (counting_actions env) opts hw st wn = (b, st1, wn1) \<Longrightarrow>
     action_inv hw st1 wn1"
  by (cases wn) (auto simp: poll_balance_once_def counting_actions_def action_inv_def Let_def
      dest: absorb_ready split: prod.splits sum.splits)

lemma action_inv_action:
  assumes "action_inv hw st wn" "maybe_run_message_ready_action (counting_actions env) hw st wn = (st1, wn1)"
  shows "action_inv hw st1 wn1"
proof (cases "cf_on_message_ready env")
  case None
  with assms show ?thesis by (simp add: maybe_run_message_ready_action_def counting_actions_def)
next
  case (Some action)
  obtain w n where wn: "wn = (w, n)" by (cases wn)
  obtain r w' where a: "action w = (r, w')" by fastforce
  show ?thesis
    using assms Some a wn
    by (cases r) (auto simp: maybe_run_message_ready_action_def counting_actions_def action_inv_def
        dest: absorb_ready split: if_splits)
qed

lemma action_inv_iteration:
  assumes "action_inv hw st wn" "poll_iteration (counting_actions env) opts hw st wn = (c, st', wn')"
  shows "action_inv hw st' wn'"
  using assms(2)
proof (rule iteration_parts)
  fix st1 w1 st2 w2 b st3 w3
  assume 1: "settle_message_check (counting_actions env) hw (st\<lparr>st_attempts := st_attempts st + 1\<rparr>) wn = (st1, w1)"
    and 2: "maybe_run_message_ready_action (counting_actions env) hw st1 w1 = (st2, w2)"
    and 3: "poll_balance_once (counting_actions env) opts hw st2 w2 = (b, st3, w3)"
    and 4: "\<not> b \<Longrightarrow> c = False \<and> st' = st3 \<and> wn' = w3"
    and 5: "b \<Longrightarrow> settle_message_check (counting_actions env) hw st3 w3 = (st', wn') \<and>
       c = (co_message_hash opts = None \<or> st_message_ready st' \<or> st_check_failed st')"
  have "action_inv hw (st\<lparr>st_attempts := st_attempts st + 1\<rparr>) wn" using assms(1) by (simp add: action_inv_def)
  from action_inv_settle [OF this 1] have "action_inv hw st1 w1" .
  from action_inv_action [OF this 2] have "action_inv hw st2 w2" .
  from action_inv_poll [OF this 3] have 6: "action_inv hw st3 w3" .
  with 4 5 action_inv_settle [OF 6] show ?thesis by (cases b) blast+
qed

lemma action_inv_wait:
  "action_inv hw st wn \<Longrightarrow> wait_for_next_poll (counting_actions env) opts hw st wn = (k, st1, wn1) \<Longrightarrow>
     action_inv hw st1 wn1"
  by (cases wn) (auto simp: wait_for_next_poll_def counting_actions_def action_inv_def Let_def
      dest: absorb_ready split: if_splits prod.splits)

section \<open>Soundness of a confirmation\<close>

lemma poll_positive:
  "poll_balance_once env opts hw st w = (True, st1, w1) \<Longrightarrow> co_baseline_balance opts < st_max_observed st1"
  by (auto simp: poll_balance_once_def Let_def split: prod.splits sum.splits)

lemma settle_observed:
  "settle_message_check env hw st w = (st1, w1) \<Longrightarrow> st_max_observed st1 = st_max_observed st"
  by (auto simp: settle_message_check_def Let_def split: if_splits)

lemma iteration_confirms:
  assumes "poll_iteration env opts hw st w = (True, st', w')"
  shows "co_baseline_balance opts < st_max_observed st' \<and>
    (co_message_hash opts = None \<or> st_message_ready st' \<or> st_check_failed st')"
  using assms
proof (rule iteration_parts)
  fix st1 w1 st2 w2 b st3 w3
  assume 3: "poll_balance_once env opts hw st2 w2 = (b, st3, w3)"
    and 4: "\<not> b \<Longrightarrow> True = False \<and> st' = st3 \<and> w' = w3"
    and 5: "b \<Longrightarrow> settle_message_check env hw st3 w3 = (st', w') \<and>
       True = (co_message_hash opts = None \<or> st_message_ready st' \<or> st_check_failed st')"
  from 4 have b by blast
  with 3 5 poll_positive [of env opts hw st2 w2 st3 w3] settle_observed [of env hw st3 w3 st' w'] show ?thesis
    by auto
qed

lemma confirmation_start:
  "start_message_readiness_check env opts st w = (hw, st1, w1) \<Longrightarrow>
    (hw \<longrightarrow> co_message_hash opts \<noteq> None) \<and> st_poll_ms st1 = st_poll_ms st \<and>
    st_action_attempted st1 = st_action_attempted st \<and> st_action_succeeded st1 = st_action_succeeded st \<and>
    st_action_failed st1 = st_action_failed st \<and> st_message_ready st1 = st_message_ready st \<and>
    st_deadline_ms st1 = st_deadline_ms st \<and> st_attempts st1 = st_attempts st"
  by (auto simp: start_message_readiness_check_def Let_def split: option.splits sum.splits)

lemma final_action_inv:
  assumes "wait_for_fee_juice_bridge_confirmation (counting_actions env) opts (w, 0) = Some (r, w', n)"
  shows "\<exists>st hw. (hw \<longrightarrow> co_message_hash opts \<noteq> None) \<and> action_inv hw st (w', n) \<and> (\<forall>res. r = Inr res \<longrightarrow>
      cr_action_attempted res = st_action_attempted st \<and> cr_action_succeeded res = st_action_succeeded st \<and>
      cr_action_failed res = st_action_failed st)"
proof -
  let ?env = "counting_actions env"
  obtain hw st0 wn0 where s: "start_message_readiness_check ?env opts (create_confirmation_state ?env opts (w, 0)) (w, 0) = (hw, st0, wn0)"
    by (metis prod.exhaust)
  have snd0: "snd wn0 = 0"
    using s by (auto simp: start_message_readiness_check_def counting_actions_def Let_def split: option.splits sum.splits)
  from confirmation_start [OF s] have i0: "action_inv hw st0 wn0" and hw: "hw \<longrightarrow> co_message_hash opts \<noteq> None"
    by (auto simp: action_inv_def create_confirmation_state_def snd0)
  show ?thesis
  proof (cases "cf_aborted ?env wn0")
    case True
    with assms s i0 hw show ?thesis
      by (intro exI [of _ st0] exI [of _ hw]) (auto simp: wait_for_fee_juice_bridge_confirmation_def build_result_def)
  next
    case False
    with assms s obtain c st1 wn1 where p: "poll_until_confirmed ?env opts hw st0 wn0 = Some (c, st1, wn1)"
      by (auto simp: wait_for_fee_juice_bridge_confirmation_def split: option.splits)
    from poll_until_confirmed_rule [OF p, where I = "action_inv hw", OF i0] action_inv_iteration action_inv_wait
    have i1: "action_inv hw st1 wn1" by blast
    obtain st2 wn2 where t: "settle_message_check ?env hw st1 wn1 = (st2, wn2)"
      by (metis prod.exhaust)
    from action_inv_settle [OF i1 t] have i2: "action_inv hw st2 wn2" .
    show ?thesis
    proof (cases c)
      case None
      with assms s False p t i2 hw show ?thesis
        by (intro exI [of _ st2] exI [of _ hw])
          (auto simp: wait_for_fee_juice_bridge_confirmation_def build_result_def split: if_splits)
    next
      case (Some k)
      with assms s False p i1 hw show ?thesis
        by (intro exI [of _ st1] exI [of _ hw])
          (auto simp: wait_for_fee_juice_bridge_confirmation_def build_result_def)
    qed
  qed
qed

section \<open>Properties\<close>

definition demo_confirm_env :: "int confirm_env" where
  "demo_confirm_env = \<lparr>cf_now = (\<lambda>w. w), cf_aborted = (\<lambda>_. False),
     cf_get_balance = (\<lambda>w. (Inr (if 20 \<le> w then 150 else 100), w)), cf_sleep = (\<lambda>ms w. (False, w + ms)),
     cf_settle = (\<lambda>w. w), cf_fr_from_hex = (\<lambda>_. Inr 1), cf_start_wait = (\<lambda>_ _ w. w),
     cf_wait_outcome = (\<lambda>w. if 10 \<le> w then Some (Inr True) else None),
     cf_on_message_ready = Some (\<lambda>w. (Inl (error ''claim failed''), w + 1))\<rparr>"

definition demo_confirm_options :: confirm_options where
  "demo_confirm_options = \<lparr>co_baseline_balance = 100, co_timeout_ms = 100, co_initial_poll_ms = 8,
     co_max_poll_ms = 16, co_message_hash = Some ''0xabc''\<rparr>"

lemma demo_clock_ok: "clock_ok demo_confirm_env"
  by (auto simp: clock_ok_def demo_confirm_env_def)

text \<open>
  C16. Confirmation returns. If no operation turns the clock back and every sleep that is not
  aborted advances it, with poll intervals of at least a millisecond, the confirmation ends
  with a result or an error; it polls at most once per millisecond of the timeout, and once
  more. This holds however the balance reads, the readiness check and the claim behave.
\<close>

theorem confirmation_returns:
  assumes "clock_ok env" "1 \<le> co_initial_poll_ms opts" "1 \<le> co_max_poll_ms opts" "0 \<le> co_timeout_ms opts"
    and "\<And>x t w. cf_now env w \<le> cf_now env (cf_start_wait env x t w)"
  shows "\<exists>r w'. wait_for_fee_juice_bridge_confirmation env opts w = Some (r, w') \<and>
    (\<forall>res. r = Inr res \<longrightarrow> int (cr_attempts res) \<le> co_timeout_ms opts + 1)"
proof -
  obtain hw st0 w0 where s: "start_message_readiness_check env opts (create_confirmation_state env opts w) w = (hw, st0, w0)"
    by (metis prod.exhaust)
  from confirmation_start [OF s] have st0: "st_poll_ms st0 = co_initial_poll_ms opts" "st_attempts st0 = 0"
    "st_deadline_ms st0 = cf_now env w + co_timeout_ms opts"
    by (simp_all add: create_confirmation_state_def)
  have w0: "cf_now env w \<le> cf_now env w0"
    using s assms(5) by (auto simp: start_message_readiness_check_def Let_def split: option.splits sum.splits)
  from poll_until_confirmed_returns [OF assms(1,3), of st0 hw w0] st0 assms(2) obtain r st1 w1 where
    r: "poll_until_confirmed env opts hw st0 w0 = Some (r, st1, w1)"
    and a: "int (st_attempts st1) \<le> max 0 (st_deadline_ms st0 + 1 - cf_now env w0)" by auto
  from a st0(3) w0 assms(4) have a1: "int (st_attempts st1) \<le> co_timeout_ms opts + 1" by simp
  obtain st2 w2 where t: "settle_message_check env hw st1 w1 = (st2, w2)" by fastforce
  from settle_clock [OF assms(1) t] have a2: "st_attempts st2 = st_attempts st1" by simp
  show ?thesis using s r t a1 a2 st0(2) assms(4)
    by (cases r) (auto simp: wait_for_fee_juice_bridge_confirmation_def build_result_def)
qed

lemma confirmation_returns_witness:
  "\<exists>r w'. wait_for_fee_juice_bridge_confirmation demo_confirm_env demo_confirm_options 0 = Some (r, w') \<and>
    (\<forall>res. r = Inr res \<longrightarrow> int (cr_attempts res) \<le> co_timeout_ms demo_confirm_options + 1)"
  by (rule confirmation_returns [OF demo_clock_ok])
    (simp_all add: demo_confirm_options_def demo_confirm_env_def)


lemma demo_confirmation:
  "map_option (\<lambda>(r, w). map_sum id cr_status r)
     (wait_for_fee_juice_bridge_confirmation demo_confirm_env demo_confirm_options 0) = Some (Inr Confirmed)"
  by (simp add: wait_for_fee_juice_bridge_confirmation_def start_message_readiness_check_def
      create_confirmation_state_def demo_confirm_env_def demo_confirm_options_def poll_until_confirmed.simps
      poll_iteration_def settle_message_check_def maybe_run_message_ready_action_def poll_balance_once_def
      wait_for_next_poll_def absorb_def build_result_def Let_def)


text \<open>
  The action on message readiness (the automatic claim) runs at most once per
  confirmation, even when it fails: there is no retry, although the log line of a failure
  says so. It never runs without a message hash, and the result says whether it ran and
  then exactly one of succeeded and failed.
\<close>

theorem message_action_at_most_once:
  assumes "wait_for_fee_juice_bridge_confirmation (counting_actions env) opts (w, 0) = Some (r, w', n)"
  shows "n \<le> 1 \<and> (n = 1 \<longrightarrow> co_message_hash opts \<noteq> None) \<and>
    (\<forall>res. r = Inr res \<longrightarrow> cr_action_attempted res = (n = 1) \<and>
       (n = 1 \<longrightarrow> cr_action_succeeded res \<noteq> cr_action_failed res))"
  using final_action_inv [OF assms] by (auto simp: action_inv_def split: if_splits)

lemma message_action_at_most_once_witness:
  "\<exists>r w' n. wait_for_fee_juice_bridge_confirmation (counting_actions demo_confirm_env) demo_confirm_options (0, 0) =
      Some (r, w', n) \<and> n \<le> 1"
proof -
  have "wait_for_fee_juice_bridge_confirmation (counting_actions demo_confirm_env) demo_confirm_options (0, 0) \<noteq> None"
    by (simp add: wait_for_fee_juice_bridge_confirmation_def start_message_readiness_check_def counting_actions_def
        create_confirmation_state_def demo_confirm_env_def demo_confirm_options_def poll_until_confirmed.simps
        poll_iteration_def settle_message_check_def maybe_run_message_ready_action_def poll_balance_once_def
        wait_for_next_poll_def absorb_def build_result_def Let_def)
  then obtain r w' n where
    run: "wait_for_fee_juice_bridge_confirmation (counting_actions demo_confirm_env) demo_confirm_options (0, 0) = Some (r, w', n)"
    by (metis option.exhaust prod.exhaust)
  from message_action_at_most_once [OF run] run show ?thesis by blast
qed

end
