(* ===== verification/Topup_Checker.thy ===== *)
theory Topup_Checker
  imports Topup_Confirm
begin

text \<open>
  The top-up checker, \<open>services/topup/src/checker.ts\<close>. Its two flags are the fields of
  \<open>checker_flags\<close>, which the state of the whole service extends; a dependency is a function
  of that whole state, so a stop request or another check during an await is part of it.
  Absent hooks return at once. Log calls are left out.

  The second half is the same code as a state machine of concurrent calls: the steps are
  the stretches between two awaits, which JavaScript runs without interruption.
\<close>

record checker_flags =
  ck_in_flight :: bool
  ck_stopping :: bool

record checker_config =
  kc_threshold :: int
  kc_top_up_amount :: int

record 's checker_deps =
  kd_get_balance :: "('s, int) ioe"
  kd_bridge :: "int \<Rightarrow> ('s, bridge_result) ioe"
  kd_confirm :: "int \<Rightarrow> bridge_result \<Rightarrow> ('s, confirmation_result) ioe"
  kd_on_bridge_submitted :: "int \<Rightarrow> bridge_result \<Rightarrow> ('s, unit) ioe"
  kd_on_bridge_settled :: "int \<Rightarrow> bridge_result \<Rightarrow> confirmation_result \<Rightarrow> ('s, unit) ioe"
  kd_on_bridge_failed :: "thrown \<Rightarrow> ('s, unit) ioe"

definition should_skip_check :: "'m checker_flags_scheme \<Rightarrow> bool" where
  "should_skip_check s \<longleftrightarrow> ck_stopping s \<or> ck_in_flight s"

definition should_submit_bridge :: "int \<Rightarrow> int \<Rightarrow> 'm checker_flags_scheme \<Rightarrow> bool" where
  "should_submit_bridge balance threshold s \<longleftrightarrow> \<not> threshold \<le> balance \<and> \<not> ck_stopping s"

definition execute_bridge_and_confirmation ::
    "checker_config \<Rightarrow> ('m checker_flags_scheme) checker_deps \<Rightarrow> int \<Rightarrow> ('m checker_flags_scheme, unit) ioe" where
  "execute_bridge_and_confirmation cfg deps balance =
     bind_io (kd_bridge deps (kc_top_up_amount cfg)) (\<lambda>result.
     bind_io (kd_on_bridge_submitted deps balance result) (\<lambda>_.
     bind_io (kd_confirm deps balance result) (\<lambda>confirmation.
     kd_on_bridge_settled deps balance result confirmation)))"

text \<open>A failing hook is logged and dropped.\<close>

definition handle_bridge_failure ::
    "('m checker_flags_scheme) checker_deps \<Rightarrow> thrown \<Rightarrow> 'm checker_flags_scheme \<Rightarrow> 'm checker_flags_scheme" where
  "handle_bridge_failure deps e s = snd (kd_on_bridge_failed deps e s)"

definition check_and_top_up ::
    "checker_config \<Rightarrow> ('m checker_flags_scheme) checker_deps \<Rightarrow> 'm checker_flags_scheme \<Rightarrow> 'm checker_flags_scheme" where
  "check_and_top_up cfg deps s =
     (if should_skip_check s then s
      else case kd_get_balance deps s of
        (Inl e, s1) \<Rightarrow> s1
      | (Inr balance, s1) \<Rightarrow>
          if \<not> should_submit_bridge balance (kc_threshold cfg) s1 then s1
          else (case execute_bridge_and_confirmation cfg deps balance (s1\<lparr>ck_in_flight := True\<rparr>) of
              (Inl e, s2) \<Rightarrow> (handle_bridge_failure deps e s2)\<lparr>ck_in_flight := False\<rparr>
            | (Inr _, s2) \<Rightarrow> s2\<lparr>ck_in_flight := False\<rparr>))"

definition request_stop :: "'m checker_flags_scheme \<Rightarrow> 'm checker_flags_scheme" where
  "request_stop s = s\<lparr>ck_stopping := True\<rparr>"

section \<open>Concurrent checks\<close>

text \<open>Where a call of \<open>checkAndTopUp\<close> is: not running, or at one of its awaits.\<close>

datatype check_pc = NotRunning | AwaitBalance | AwaitBridge

record check_system =
  cy_pc :: "nat \<Rightarrow> check_pc"
  cy_in_flight :: bool
  cy_stopping :: bool

inductive check_step :: "int \<Rightarrow> check_system \<Rightarrow> check_system \<Rightarrow> bool" for threshold where
  start: "cy_pc s i = NotRunning \<Longrightarrow> \<not> cy_stopping s \<Longrightarrow> \<not> cy_in_flight s \<Longrightarrow>
    check_step threshold s (s\<lparr>cy_pc := (cy_pc s)(i := AwaitBalance)\<rparr>)"
| skip: "cy_pc s i = NotRunning \<Longrightarrow> cy_stopping s \<or> cy_in_flight s \<Longrightarrow> check_step threshold s s"
| balance_fails: "cy_pc s i = AwaitBalance \<Longrightarrow> check_step threshold s (s\<lparr>cy_pc := (cy_pc s)(i := NotRunning)\<rparr>)"
| no_submission: "cy_pc s i = AwaitBalance \<Longrightarrow> threshold \<le> balance \<or> cy_stopping s \<Longrightarrow>
    check_step threshold s (s\<lparr>cy_pc := (cy_pc s)(i := NotRunning)\<rparr>)"
| submission: "cy_pc s i = AwaitBalance \<Longrightarrow> balance < threshold \<Longrightarrow> \<not> cy_stopping s \<Longrightarrow>
    check_step threshold s (s\<lparr>cy_pc := (cy_pc s)(i := AwaitBridge), cy_in_flight := True\<rparr>)"
| settled: "cy_pc s i = AwaitBridge \<Longrightarrow>
    check_step threshold s (s\<lparr>cy_pc := (cy_pc s)(i := NotRunning), cy_in_flight := False\<rparr>)"
| stop: "check_step threshold s (s\<lparr>cy_stopping := True\<rparr>)"

definition check_init :: check_system where
  "check_init = \<lparr>cy_pc = (\<lambda>_. NotRunning), cy_in_flight = False, cy_stopping = False\<rparr>"

inductive check_reachable :: "int \<Rightarrow> check_system \<Rightarrow> bool" for threshold where
  init: "check_reachable threshold check_init"
| step: "check_reachable threshold s \<Longrightarrow> check_step threshold s t \<Longrightarrow> check_reachable threshold t"

inductive_cases check_stepE: "check_step threshold s t"

section \<open>The cycle runner\<close>

text \<open>
  \<open>createCycleRunner\<close> of \<open>services/topup/src/index.ts\<close> around the same checker: a call of
  \<open>runCycle\<close> returns at once when the service is aborted, joins the cycle in flight when
  there is one, and otherwise becomes it: reconciliation first, then, if that allows, the
  check. \<open>cl_in_flight\<close> is \<open>inFlightCheck\<close>, the cycle that owns the promise.
\<close>

datatype cycle_pc = CycleIdle | CycleReconciling | CycleChecking

record cycle_system =
  cl_check :: check_system
  cl_pc :: "nat \<Rightarrow> cycle_pc"
  cl_in_flight :: "nat option"
  cl_aborted :: bool

inductive cycle_step :: "int \<Rightarrow> cycle_system \<Rightarrow> cycle_system \<Rightarrow> bool" for threshold where
  aborted: "cl_aborted s \<Longrightarrow> cycle_step threshold s s"
| join: "\<not> cl_aborted s \<Longrightarrow> cl_in_flight s = Some j \<Longrightarrow> cycle_step threshold s s"
| begin_cycle: "\<not> cl_aborted s \<Longrightarrow> cl_in_flight s = None \<Longrightarrow> cl_pc s i = CycleIdle \<Longrightarrow>
    cycle_step threshold s (s\<lparr>cl_in_flight := Some i, cl_pc := (cl_pc s)(i := CycleReconciling)\<rparr>)"
| reconciliation_blocks: "cl_pc s i = CycleReconciling \<Longrightarrow>
    cycle_step threshold s (s\<lparr>cl_in_flight := None, cl_pc := (cl_pc s)(i := CycleIdle)\<rparr>)"
| check_skipped: "cl_pc s i = CycleReconciling \<Longrightarrow> cy_stopping (cl_check s) \<or> cy_in_flight (cl_check s) \<Longrightarrow>
    cycle_step threshold s (s\<lparr>cl_in_flight := None, cl_pc := (cl_pc s)(i := CycleIdle)\<rparr>)"
| check_starts: "cl_pc s i = CycleReconciling \<Longrightarrow> \<not> cy_stopping (cl_check s) \<Longrightarrow> \<not> cy_in_flight (cl_check s) \<Longrightarrow>
    cycle_step threshold s (s\<lparr>cl_check := (cl_check s)\<lparr>cy_pc := (cy_pc (cl_check s))(i := AwaitBalance)\<rparr>,
      cl_pc := (cl_pc s)(i := CycleChecking)\<rparr>)"
| check_moves: "cl_pc s i = CycleChecking \<Longrightarrow> cy_pc (cl_check s) i = AwaitBalance \<Longrightarrow>
    balance < threshold \<Longrightarrow> \<not> cy_stopping (cl_check s) \<Longrightarrow>
    cycle_step threshold s (s\<lparr>cl_check := (cl_check s)\<lparr>cy_pc := (cy_pc (cl_check s))(i := AwaitBridge),
      cy_in_flight := True\<rparr>\<rparr>)"
| check_ends_early: "cl_pc s i = CycleChecking \<Longrightarrow> cy_pc (cl_check s) i = AwaitBalance \<Longrightarrow>
    cycle_step threshold s (s\<lparr>cl_check := (cl_check s)\<lparr>cy_pc := (cy_pc (cl_check s))(i := NotRunning)\<rparr>,
      cl_in_flight := None, cl_pc := (cl_pc s)(i := CycleIdle)\<rparr>)"
| check_ends: "cl_pc s i = CycleChecking \<Longrightarrow> cy_pc (cl_check s) i = AwaitBridge \<Longrightarrow>
    cycle_step threshold s (s\<lparr>cl_check := (cl_check s)\<lparr>cy_pc := (cy_pc (cl_check s))(i := NotRunning),
      cy_in_flight := False\<rparr>, cl_in_flight := None, cl_pc := (cl_pc s)(i := CycleIdle)\<rparr>)"
| shutdown: "cycle_step threshold s (s\<lparr>cl_aborted := True, cl_check := (cl_check s)\<lparr>cy_stopping := True\<rparr>\<rparr>)"

definition cycle_init :: cycle_system where
  "cycle_init = \<lparr>cl_check = check_init, cl_pc = (\<lambda>_. CycleIdle), cl_in_flight = None, cl_aborted = False\<rparr>"

inductive cycle_reachable :: "int \<Rightarrow> cycle_system \<Rightarrow> bool" for threshold where
  init: "cycle_reachable threshold cycle_init"
| step: "cycle_reachable threshold s \<Longrightarrow> cycle_step threshold s t \<Longrightarrow> cycle_reachable threshold t"

inductive_cases cycle_stepE: "cycle_step threshold s t"

text \<open>The owner of the promise, if any, is the only cycle that is anywhere.\<close>

definition cycle_inv :: "cycle_system \<Rightarrow> bool" where
  "cycle_inv s \<longleftrightarrow> (case cl_in_flight s of
     None \<Rightarrow> (\<forall>j. cl_pc s j = CycleIdle \<and> cy_pc (cl_check s) j = NotRunning) \<and> \<not> cy_in_flight (cl_check s)
   | Some i \<Rightarrow> (\<forall>j. j \<noteq> i \<longrightarrow> cl_pc s j = CycleIdle \<and> cy_pc (cl_check s) j = NotRunning) \<and>
       cl_pc s i \<noteq> CycleIdle \<and>
       (cl_pc s i = CycleChecking) = (cy_pc (cl_check s) i \<noteq> NotRunning) \<and>
       cy_in_flight (cl_check s) = (cy_pc (cl_check s) i = AwaitBridge))"

lemma cycle_inv_owner: "cycle_inv s \<Longrightarrow> cl_pc s i \<noteq> CycleIdle \<Longrightarrow> cl_in_flight s = Some i"
  unfolding cycle_inv_def by (cases "cl_in_flight s") (simp_all, metis)

lemma cycle_inv_init: "cycle_inv cycle_init"
  by (simp add: cycle_inv_def cycle_init_def check_init_def)

lemma cycle_inv_step:
  assumes "cycle_step threshold s t" "cycle_inv s"
  shows "cycle_inv t"
  using assms
proof (induction rule: cycle_step.induct)
  case (begin_cycle s i)
  then show ?case by (simp add: cycle_inv_def)
next
  case (reconciliation_blocks s i)
  with cycle_inv_owner [of s i] have "cl_in_flight s = Some i" by simp
  with reconciliation_blocks show ?case by (simp add: cycle_inv_def)
next
  case (check_skipped s i)
  with cycle_inv_owner [of s i] have "cl_in_flight s = Some i" by simp
  with check_skipped show ?case by (simp add: cycle_inv_def)
next
  case (check_starts s i)
  with cycle_inv_owner [of s i] have "cl_in_flight s = Some i" by simp
  with check_starts show ?case by (simp add: cycle_inv_def)
next
  case (check_moves s i balance)
  with cycle_inv_owner [of s i] have "cl_in_flight s = Some i" by simp
  with check_moves show ?case by (simp add: cycle_inv_def)
next
  case (check_ends_early s i)
  with cycle_inv_owner [of s i] have "cl_in_flight s = Some i" by simp
  with check_ends_early show ?case by (simp add: cycle_inv_def)
next
  case (check_ends s i)
  with cycle_inv_owner [of s i] have "cl_in_flight s = Some i" by simp
  with check_ends show ?case by (simp add: cycle_inv_def)
next
  case (shutdown s)
  then show ?case by (simp add: cycle_inv_def split: option.splits)
qed

lemma cycle_reachable_inv: "cycle_reachable threshold s \<Longrightarrow> cycle_inv s"
  by (induction rule: cycle_reachable.induct) (auto simp: cycle_inv_init intro: cycle_inv_step)

section \<open>Properties\<close>

text \<open>
  One call of \<open>checkAndTopUp\<close>, case by case: it does nothing while the service is
  stopping or a bridge is in flight; a failed balance read, a balance at or above the
  threshold and a stop requested during the read end it without a bridge; otherwise it
  bridges the configured amount once, with the flag raised before the call, and however
  that ends (an error is handed to the failure hook) the flag is down afterwards.
\<close>

theorem check_and_top_up_cases:
  "check_and_top_up cfg deps s =
     (if ck_stopping s \<or> ck_in_flight s then s
      else let (r, s1) = kd_get_balance deps s in
        if isl r \<or> kc_threshold cfg \<le> projr r \<or> ck_stopping s1 then s1
        else let (b, s2) = kd_bridge deps (kc_top_up_amount cfg) (s1\<lparr>ck_in_flight := True\<rparr>);
                 (x, s3) = (case b of Inl e \<Rightarrow> (Inl e, s2)
                   | Inr result \<Rightarrow> bind_io (kd_on_bridge_submitted deps (projr r) result) (\<lambda>_.
                       bind_io (kd_confirm deps (projr r) result) (\<lambda>c.
                       kd_on_bridge_settled deps (projr r) result c)) s2);
                 s4 = (case x of Inl e \<Rightarrow> snd (kd_on_bridge_failed deps e s3) | Inr _ \<Rightarrow> s3)
             in s4\<lparr>ck_in_flight := False\<rparr>)"
proof (cases "ck_stopping s \<or> ck_in_flight s")
  case True
  then show ?thesis by (simp add: check_and_top_up_def should_skip_check_def)
next
  case False
  obtain r s1 where g: "kd_get_balance deps s = (r, s1)" by fastforce
  obtain b s2 where b: "kd_bridge deps (kc_top_up_amount cfg) (s1\<lparr>ck_in_flight := True\<rparr>) = (b, s2)" by fastforce
  from False show ?thesis
    by (cases r; cases b) (auto simp: check_and_top_up_def should_skip_check_def should_submit_bridge_def g b
        execute_bridge_and_confirmation_def bind_io_def handle_bridge_failure_def Let_def
        split: prod.splits sum.splits)
qed

text \<open>
  The flag alone does not make checks exclusive: it is tested before the balance is
  awaited and not again, so two overlapping calls of \<open>checkAndTopUp\<close> that both read a low
  balance both submit a bridge.
\<close>

theorem overlapping_checks_bridge_twice:
  assumes "0 < threshold"
  shows "\<exists>s. check_reachable threshold s \<and> cy_pc s 0 = AwaitBridge \<and> cy_pc s 1 = AwaitBridge"
proof -
  let ?s1 = "check_init\<lparr>cy_pc := (cy_pc check_init)(0 := AwaitBalance)\<rparr>"
  let ?s2 = "?s1\<lparr>cy_pc := (cy_pc ?s1)(1 := AwaitBalance)\<rparr>"
  let ?s3 = "?s2\<lparr>cy_pc := (cy_pc ?s2)(0 := AwaitBridge), cy_in_flight := True\<rparr>"
  let ?s4 = "?s3\<lparr>cy_pc := (cy_pc ?s3)(1 := AwaitBridge), cy_in_flight := True\<rparr>"
  have 1: "check_step threshold check_init ?s1" by (rule check_step.start) (simp_all add: check_init_def)
  have 2: "check_step threshold ?s1 ?s2" by (rule check_step.start) (simp_all add: check_init_def)
  have 3: "check_step threshold ?s2 ?s3"
    by (rule check_step.submission [where balance = 0]) (use assms in \<open>simp_all add: check_init_def\<close>)
  have 4: "check_step threshold ?s3 ?s4"
    by (rule check_step.submission [where balance = 0]) (use assms in \<open>simp_all add: check_init_def\<close>)
  have "check_reachable threshold ?s4"
    using check_reachable.init 1 2 3 4 check_reachable.step by blast
  then show ?thesis by (intro exI [of _ ?s4]) simp
qed

lemma overlapping_checks_bridge_twice_witness:
  "\<exists>s. check_reachable 100 s \<and> cy_pc s 0 = AwaitBridge \<and> cy_pc s 1 = AwaitBridge"
  by (rule overlapping_checks_bridge_twice) simp



end
