(* ===== verification/Topup_Ops.thy ===== *)
theory Topup_Ops
  imports Topup_State
begin

text \<open>
  Readiness and metrics of the top-up service, \<open>services/topup/src/ops.ts\<close>: the counters
  and the time of the last balance check, the readiness snapshot with its reasons, the
  rendered metrics and the routes of the ops endpoint. Times are integer milliseconds.
\<close>

datatype bridge_metric_event = EvSubmitted | EvConfirmed | EvTimeout | EvAborted | EvFailed

definition BRIDGE_EVENTS :: "bridge_metric_event list" where
  "BRIDGE_EVENTS = [EvSubmitted, EvConfirmed, EvTimeout, EvAborted, EvFailed]"

fun event_name :: "bridge_metric_event \<Rightarrow> string" where
  "event_name EvSubmitted = ''submitted''"
| "event_name EvConfirmed = ''confirmed''"
| "event_name EvTimeout = ''timeout''"
| "event_name EvAborted = ''aborted''"
| "event_name EvFailed = ''failed''"

record ops_state =
  os_started_at_ms :: int
  os_stale_after_ms :: int
  os_bridge_events :: "bridge_metric_event \<rightharpoonup> nat"
  os_successful_checks :: nat
  os_failed_checks :: nat
  os_last_check_at_ms :: "int option"
  os_last_check_ok :: bool
  os_last_check_error :: "string option"
  os_shutdown_requested :: bool

record readiness =
  rd_ready :: bool
  rd_reasons :: "(string \<times> string) list"
  rd_successful :: nat
  rd_failed :: nat
  rd_last_ok :: bool
  rd_age_seconds :: "int option"

fun format_error_message :: "thrown \<Rightarrow> string" where
  "format_error_message (Thrown n m) = (if m \<noteq> [] then m else js_string (Thrown n m))"
| "format_error_message (ThrownValue s) = js_string (ThrownValue s)"

definition new_ops_state :: "int \<Rightarrow> int \<Rightarrow> ops_state" where
  "new_ops_state check_interval_ms now = \<lparr>
     os_started_at_ms = now, os_stale_after_ms = max (check_interval_ms * 3) 30000,
     os_bridge_events = map_of (map (\<lambda>e. (e, 0)) BRIDGE_EVENTS),
     os_successful_checks = 0, os_failed_checks = 0, os_last_check_at_ms = None,
     os_last_check_ok = False, os_last_check_error = None, os_shutdown_requested = False\<rparr>"

definition record_balance_check_success :: "int \<Rightarrow> ops_state \<Rightarrow> ops_state" where
  "record_balance_check_success now s = s\<lparr>
     os_successful_checks := os_successful_checks s + 1, os_last_check_at_ms := Some now,
     os_last_check_ok := True, os_last_check_error := None\<rparr>"

definition record_balance_check_failure :: "thrown \<Rightarrow> int \<Rightarrow> ops_state \<Rightarrow> ops_state" where
  "record_balance_check_failure e now s = s\<lparr>
     os_failed_checks := os_failed_checks s + 1, os_last_check_at_ms := Some now,
     os_last_check_ok := False, os_last_check_error := Some (format_error_message e)\<rparr>"

definition event_total :: "ops_state \<Rightarrow> bridge_metric_event \<Rightarrow> nat" where
  "event_total s e = (case os_bridge_events s e of None \<Rightarrow> 0 | Some n \<Rightarrow> n)"

definition record_bridge_event :: "bridge_metric_event \<Rightarrow> ops_state \<Rightarrow> ops_state" where
  "record_bridge_event e s = s\<lparr>os_bridge_events := (os_bridge_events s)(e \<mapsto> event_total s e + 1)\<rparr>"

definition mark_shutdown_requested :: "ops_state \<Rightarrow> ops_state" where
  "mark_shutdown_requested s = s\<lparr>os_shutdown_requested := True\<rparr>"

definition readiness_reasons :: "int \<Rightarrow> ops_state \<Rightarrow> (string \<times> string) list" where
  "readiness_reasons now s =
     (if os_shutdown_requested s
      then [(''shutdown_in_progress'', ''Graceful shutdown has been requested'')] else []) @
     (if os_successful_checks s = 0
      then [(''no_successful_balance_checks'', ''No successful Fee Juice balance checks yet'')] else []) @
     (if \<not> os_last_check_ok s \<and> 0 < os_failed_checks s
      then [(''last_balance_check_failed'',
             case os_last_check_error s of
               Some m \<Rightarrow> if m = [] then ''Last Fee Juice balance check failed''
                          else ''Last Fee Juice balance check failed: '' @ m
             | None \<Rightarrow> ''Last Fee Juice balance check failed'')] else []) @
     (case os_last_check_at_ms s of
        None \<Rightarrow> []
      | Some t \<Rightarrow> if os_stale_after_ms s < now - t
          then [(''balance_check_stale'', ''Last Fee Juice balance check is stale (> '' @
                 bigint_string (os_stale_after_ms s) @ ''ms)'')] else [])"

definition snapshot_readiness :: "int \<Rightarrow> ops_state \<Rightarrow> readiness" where
  "snapshot_readiness now s = \<lparr>
     rd_ready = (readiness_reasons now s = []), rd_reasons = readiness_reasons now s,
     rd_successful = os_successful_checks s, rd_failed = os_failed_checks s,
     rd_last_ok = os_last_check_ok s,
     rd_age_seconds = map_option (\<lambda>t. max 0 ((now - t) div 1000)) (os_last_check_at_ms s)\<rparr>"

definition render_ops_lines :: "int \<Rightarrow> ops_state \<Rightarrow> string list" where
  "render_ops_lines now s =
     [''# HELP topup_bridge_events_total Count of top-up bridge lifecycle events by outcome.'',
      ''# TYPE topup_bridge_events_total counter''] @
     map (\<lambda>e. ''topup_bridge_events_total{event=\"'' @ event_name e @ ''\"} '' @ dec_nat (event_total s e))
       BRIDGE_EVENTS @
     [''# HELP topup_balance_checks_total Count of Fee Juice balance checks by outcome.'',
      ''# TYPE topup_balance_checks_total counter'',
      ''topup_balance_checks_total{outcome=\"success\"} '' @ dec_nat (os_successful_checks s),
      ''topup_balance_checks_total{outcome=\"error\"} '' @ dec_nat (os_failed_checks s),
      ''# HELP topup_readiness_status 1 when service is ready, 0 otherwise.'',
      ''# TYPE topup_readiness_status gauge'',
      ''topup_readiness_status '' @ (if rd_ready (snapshot_readiness now s) then ''1'' else ''0''),
      ''# HELP topup_uptime_seconds Service uptime in seconds.'',
      ''# TYPE topup_uptime_seconds gauge'',
      ''topup_uptime_seconds '' @ bigint_string (max 0 ((now - os_started_at_ms s) div 1000))]"

definition render_ops_prometheus :: "int \<Rightarrow> ops_state \<Rightarrow> string" where
  "render_ops_prometheus now s = concat (map (\<lambda>l. l @ [CHR 0x0A]) (render_ops_lines now s))"

section \<open>The endpoint\<close>

datatype ops_body =
    OpsError string string
  | OpsHealth
  | OpsReadiness readiness
  | OpsText string

text \<open>The method and the path name of the request's URL.\<close>

definition route_request :: "string option \<Rightarrow> string \<Rightarrow> int \<Rightarrow> ops_state \<Rightarrow> nat \<times> ops_body" where
  "route_request meth pathname now s =
     (if (case meth of None \<Rightarrow> ''GET'' | Some m \<Rightarrow> m) \<noteq> ''GET''
      then (405, OpsError ''METHOD_NOT_ALLOWED'' ''Only GET is supported'')
      else if pathname = ''/health'' then (200, OpsHealth)
      else if pathname = ''/ready''
      then (if rd_ready (snapshot_readiness now s) then 200 else 503, OpsReadiness (snapshot_readiness now s))
      else if pathname = ''/metrics'' then (200, OpsText (render_ops_prometheus now s))
      else (404, OpsError ''NOT_FOUND'' ''Not found''))"

section \<open>Runs\<close>

datatype ops_event = CheckOk int | CheckFailed thrown int | Bridged bridge_metric_event | ShutdownRequested

definition apply_ops :: "ops_event \<Rightarrow> ops_state \<Rightarrow> ops_state" where
  "apply_ops ev s = (case ev of
     CheckOk t \<Rightarrow> record_balance_check_success t s
   | CheckFailed e t \<Rightarrow> record_balance_check_failure e t s
   | Bridged b \<Rightarrow> record_bridge_event b s
   | ShutdownRequested \<Rightarrow> mark_shutdown_requested s)"

definition run_ops :: "ops_event list \<Rightarrow> ops_state \<Rightarrow> ops_state" where
  "run_ops evs s = fold apply_ops evs s"

definition is_check :: "ops_event \<Rightarrow> bool" where
  "is_check ev = (case ev of CheckOk _ \<Rightarrow> True | CheckFailed _ _ \<Rightarrow> True | _ \<Rightarrow> False)"

definition last_check :: "ops_event list \<Rightarrow> ops_event option" where
  "last_check evs = (if filter is_check evs = [] then None else Some (last (filter is_check evs)))"

text \<open>What the state says about the events that led to it.\<close>

definition ops_inv :: "int \<Rightarrow> ops_event list \<Rightarrow> ops_state \<Rightarrow> bool" where
  "ops_inv stale evs s \<longleftrightarrow>
     os_stale_after_ms s = stale \<and>
     os_shutdown_requested s = (ShutdownRequested \<in> set evs) \<and>
     os_successful_checks s = length (filter (\<lambda>ev. \<exists>t. ev = CheckOk t) evs) \<and>
     os_failed_checks s = length (filter (\<lambda>ev. \<exists>e t. ev = CheckFailed e t) evs) \<and>
     (\<forall>b. event_total s b = count_list evs (Bridged b)) \<and>
     (case last_check evs of
        None \<Rightarrow> os_last_check_at_ms s = None \<and> \<not> os_last_check_ok s
      | Some (CheckOk t) \<Rightarrow> os_last_check_at_ms s = Some t \<and> os_last_check_ok s
      | Some (CheckFailed e t) \<Rightarrow> os_last_check_at_ms s = Some t \<and> \<not> os_last_check_ok s \<and> 0 < os_failed_checks s
      | _ \<Rightarrow> False)"

lemma last_check_snoc: "last_check (evs @ [ev]) = (if is_check ev then Some ev else last_check evs)"
  by (simp add: last_check_def)

lemma ops_inv_step: "ops_inv stale evs s \<Longrightarrow> ops_inv stale (evs @ [ev]) (apply_ops ev s)"
  by (cases ev)
    (auto simp: ops_inv_def apply_ops_def last_check_snoc is_check_def record_balance_check_success_def
      record_balance_check_failure_def record_bridge_event_def mark_shutdown_requested_def event_total_def
      split: option.splits ops_event.splits)

lemma ops_inv_new: "ops_inv (max (interval * 3) 30000) [] (new_ops_state interval t0)"
proof -
  have "event_total (new_ops_state interval t0) b = 0" for b
    by (cases b) (simp_all add: new_ops_state_def event_total_def BRIDGE_EVENTS_def)
  then show ?thesis by (simp add: ops_inv_def last_check_def) (simp add: new_ops_state_def)
qed

lemma ops_inv_run: "ops_inv (max (interval * 3) 30000) evs (run_ops evs (new_ops_state interval t0))"
  by (induction evs rule: rev_induct) (auto simp: run_ops_def ops_inv_new ops_inv_step)

section \<open>Properties\<close>

text \<open>
  Readiness reports the events that happened: after any history of balance checks, bridge
  events and shutdown requests, \<open>/ready\<close> answers 200 exactly when no shutdown was
  requested and the latest balance check succeeded no longer ago than three check intervals
  (30 seconds at least), and 503 otherwise; the bridge counters of \<open>/metrics\<close> are the
  numbers of recorded events.
\<close>

theorem readiness_reflects_history:
  assumes "s = run_ops evs (new_ops_state interval t0)"
  shows "fst (route_request (Some ''GET'') ''/ready'' now s) =
     (if ShutdownRequested \<notin> set evs \<and>
         (\<exists>t. last_check evs = Some (CheckOk t) \<and> now - t \<le> max (interval * 3) 30000)
      then 200 else 503) \<and>
    (\<forall>b. event_total s b = count_list evs (Bridged b))"
proof -
  from ops_inv_run [of interval evs t0] assms have inv: "ops_inv (max (interval * 3) 30000) evs s" by simp
  have ok: "last_check evs = Some (CheckOk t) \<Longrightarrow> 0 < length (filter (\<lambda>ev. \<exists>t. ev = CheckOk t) evs)" for t
  proof -
    assume "last_check evs = Some (CheckOk t)"
    then have "last (filter is_check evs) = CheckOk t" "filter is_check evs \<noteq> []"
      by (auto simp: last_check_def split: if_splits)
    then have "CheckOk t \<in> set (filter is_check evs)" by (metis last_in_set)
    then show ?thesis by (auto simp: filter_empty_conv)
  qed
  have none: "last_check evs = None \<Longrightarrow> filter (\<lambda>ev. \<exists>t. ev = CheckOk t) evs = []"
    by (auto simp: last_check_def filter_empty_conv is_check_def split: if_splits)
  have "readiness_reasons now s = [] \<longleftrightarrow> ShutdownRequested \<notin> set evs \<and>
      (\<exists>t. last_check evs = Some (CheckOk t) \<and> now - t \<le> max (interval * 3) 30000)"
    using inv ok none by (auto simp: readiness_reasons_def ops_inv_def split: option.splits ops_event.splits)
  with inv show ?thesis by (simp add: route_request_def snapshot_readiness_def ops_inv_def)
qed

lemma readiness_reflects_history_witness:
  "fst (route_request (Some ''GET'') ''/ready'' 50000
     (run_ops [CheckFailed (error ''x'') 100, CheckOk 20000, Bridged EvSubmitted] (new_ops_state 5000 0))) = 200"
  using readiness_reflects_history [of _ "[CheckFailed (error ''x'') 100, CheckOk 20000, Bridged EvSubmitted]" 5000 0 50000, OF refl]
  by (simp add: last_check_def is_check_def)

end
