(* ===== verification/Topup_Bridge.thy ===== *)
theory Topup_Bridge
  imports Topup_State
begin

text \<open>
  Submission of a bridge deposit, \<open>services/topup/src/bridge.ts\<close>: the retry loop around
  \<open>bridgeTokensPublic\<close> with its classification of nonce errors. The portal manager, the
  timer and the clock are the fields of \<open>bridge_deps\<close>; logging is left out.
\<close>

definition MAX_NONCE_RETRY_ATTEMPTS :: nat where
  "MAX_NONCE_RETRY_ATTEMPTS = 3"

definition RETRY_BASE_DELAY_MS :: int where
  "RETRY_BASE_DELAY_MS = 2000"

record l2_amount_claim =
  lc_claim_amount :: int
  lc_claim_secret :: int
  lc_claim_secret_hash :: int
  lc_message_hash :: string
  lc_message_leaf_index :: int

record 'w bridge_deps =
  bd_extract_chain :: "int \<Rightarrow> thrown + unit"
  bd_create_client :: "string \<Rightarrow> string \<Rightarrow> thrown + unit"
  bd_create_portal_manager :: "('w, unit) ioe"
  bd_bridge_tokens_public :: "int \<Rightarrow> int \<Rightarrow> ('w, l2_amount_claim) ioe"
  bd_sleep :: "int \<Rightarrow> 'w \<Rightarrow> 'w"
  bd_now :: "('w, int) io"
  bd_fr_to_string :: "int \<Rightarrow> string"

definition is_nonce_too_low_error :: "thrown \<Rightarrow> bool" where
  "is_nonce_too_low_error e = js_includes (js_lower (js_string e)) ''nonce too low''"

definition is_retryable_nonce_error :: "thrown \<Rightarrow> bool" where
  "is_retryable_nonce_error e =
     (let n = js_lower (js_string e) in
      js_includes n ''replacementnotallowed'' \<or> js_includes n ''replacement not allowed'' \<or>
      js_includes n ''already known'')"

definition nonce_too_low :: thrown where
  "nonce_too_low = error (''Bridge nonce-too-low: original transaction was likely mined. '' @
     ''Not retrying to avoid duplicate bridge.'')"

text \<open>
  The loop from attempt \<open>attempt\<close> on. It leaves by a claim or by a throw: the last attempt
  always throws, so the check for a missing claim after the loop is not reached.
\<close>

function submit_loop ::
    "'w bridge_deps \<Rightarrow> int \<Rightarrow> int \<Rightarrow> nat \<Rightarrow> thrown \<Rightarrow> ('w, l2_amount_claim) ioe" where
  "submit_loop deps to_addr amount attempt last_error w =
     (if MAX_NONCE_RETRY_ATTEMPTS < attempt
      then (Inl (error (''Failed to submit bridge after nonce retry attempts. Last error: '' @
              js_string last_error)), w)
      else case bd_bridge_tokens_public deps to_addr amount w of
        (Inr claim, w1) \<Rightarrow> (Inr claim, w1)
      | (Inl e, w1) \<Rightarrow>
          if is_nonce_too_low_error e then (Inl nonce_too_low, w1)
          else if \<not> is_retryable_nonce_error e \<or> MAX_NONCE_RETRY_ATTEMPTS \<le> attempt then (Inl e, w1)
          else submit_loop deps to_addr amount (attempt + 1) e
                 (bd_sleep deps (RETRY_BASE_DELAY_MS * 2 ^ (attempt - 1)) w1))"
  by pat_completeness auto
termination
  by (relation "measure (\<lambda>(deps, to_addr, amount, attempt, e, w). MAX_NONCE_RETRY_ATTEMPTS + 1 - attempt)") auto

declare submit_loop.simps [simp del]

definition bridge_result_of :: "(int \<Rightarrow> string) \<Rightarrow> l2_amount_claim \<Rightarrow> int \<Rightarrow> bridge_result" where
  "bridge_result_of str c now = \<lparr>br_amount = lc_claim_amount c, br_claim_secret = str (lc_claim_secret c),
     br_claim_secret_hash = str (lc_claim_secret_hash c), br_message_hash = lc_message_hash c,
     br_message_leaf_index = lc_message_leaf_index c, br_submitted_at_ms = now\<rparr>"

definition bridge_fee_juice ::
    "'w bridge_deps \<Rightarrow> string \<Rightarrow> int \<Rightarrow> string \<Rightarrow> int \<Rightarrow> int \<Rightarrow> ('w, bridge_result) ioe" where
  "bridge_fee_juice deps l1_rpc_url l1_chain_id private_key fpc_address amount =
     bind_io (from_pure (require_that (fpc_address \<noteq> 0)
        (error ''Invalid fpc_address: zero address is not allowed''))) (\<lambda>_.
     bind_io (from_pure (require_that (0 < amount)
        (error ''Invalid top_up_amount: amount must be greater than zero''))) (\<lambda>_.
     bind_io (from_pure (bd_extract_chain deps l1_chain_id)) (\<lambda>_.
     bind_io (from_pure (bd_create_client deps l1_rpc_url private_key)) (\<lambda>_.
     bind_io (bd_create_portal_manager deps) (\<lambda>_.
     bind_io (submit_loop deps fpc_address amount 1 (ThrownValue ''undefined'')) (\<lambda>claim w.
     case bd_now deps w of (now, w') \<Rightarrow> (Inr (bridge_result_of (bd_fr_to_string deps) claim now), w')))))))"

section \<open>Counting submissions\<close>

text \<open>The portal manager with a count of its calls and of the sleeps beside the world.\<close>

definition counted :: "'w bridge_deps \<Rightarrow> ('w \<times> (thrown + l2_amount_claim) list \<times> int list) bridge_deps" where
  "counted deps = \<lparr>bd_extract_chain = bd_extract_chain deps, bd_create_client = bd_create_client deps,
     bd_create_portal_manager = (\<lambda>(w, l). case bd_create_portal_manager deps w of (r, w') \<Rightarrow> (r, w', l)),
     bd_bridge_tokens_public = (\<lambda>a m (w, cs, ds).
        case bd_bridge_tokens_public deps a m w of (r, w') \<Rightarrow> (r, w', cs @ [r], ds)),
     bd_sleep = (\<lambda>ms (w, cs, ds). (bd_sleep deps ms w, cs, ds @ [ms])),
     bd_now = (\<lambda>(w, l). case bd_now deps w of (t, w') \<Rightarrow> (t, w', l)),
     bd_fr_to_string = bd_fr_to_string deps\<rparr>"

text \<open>The shape of the calls: failures that may be retried, then one last call.\<close>

definition retry_shape :: "(thrown + l2_amount_claim) list \<Rightarrow> bool" where
  "retry_shape cs \<longleftrightarrow> cs \<noteq> [] \<and>
     (\<forall>c \<in> set (butlast cs). \<exists>e. c = Inl e \<and> is_retryable_nonce_error e \<and> \<not> is_nonce_too_low_error e)"

lemma retry_shape_Cons:
  "is_retryable_nonce_error e \<Longrightarrow> \<not> is_nonce_too_low_error e \<Longrightarrow> retry_shape cs \<Longrightarrow> retry_shape (Inl e # cs)"
  by (auto simp: retry_shape_def)

lemma submit_loop_calls:
  "submit_loop (counted deps) a m n e (w, cs, ds) = (r, w', cs', ds') \<Longrightarrow> 1 \<le> n \<Longrightarrow> n \<le> 3 \<Longrightarrow>
    \<exists>new news. cs' = cs @ new \<and> ds' = ds @ news \<and> retry_shape new \<and> length new \<le> 4 - n \<and>
      length news + 1 = length new \<and> (\<forall>i < length news. news ! i = 2000 * 2 ^ (n - 1 + i)) \<and>
      (case last new of
         Inr c \<Rightarrow> r = Inr c
       | Inl x \<Rightarrow> (if is_nonce_too_low_error x then r = Inl nonce_too_low else r = Inl x))"
proof (induction "4 - n" arbitrary: n e w cs ds)
  case 0
  then show ?case by simp
next
  case (Suc k)
  obtain x w1 where c: "bd_bridge_tokens_public deps a m w = (x, w1)" by fastforce
  have call: "bd_bridge_tokens_public (counted deps) a m (w, cs, ds) = (x, w1, cs @ [x], ds)"
    by (simp add: counted_def c)
  have sleep: "bd_sleep (counted deps) d (w1, c, ds) = (bd_sleep deps d w1, c, ds @ [d])" for d c
    by (simp add: counted_def)
  have stop: "cs' = cs @ [x] \<Longrightarrow> ds' = ds @ [] \<Longrightarrow>
      (case x of Inr c \<Rightarrow> r = Inr c
       | Inl y \<Rightarrow> (if is_nonce_too_low_error y then r = Inl nonce_too_low else r = Inl y)) \<Longrightarrow> ?case"
    using Suc.prems(3) by (intro exI [of _ "[x]"] exI [of _ "[]"]) (simp add: retry_shape_def)
  note run = Suc.prems(1) [unfolded submit_loop.simps [of "counted deps" a m n e "(w, cs, ds)"] call]
  show ?case
  proof (cases x)
    case (Inr claim)
    with run Suc.prems(3) show ?thesis by (intro stop) (auto simp: MAX_NONCE_RETRY_ATTEMPTS_def)
  next
    case (Inl y)
    show ?thesis
    proof (cases "is_nonce_too_low_error y \<or> \<not> is_retryable_nonce_error y \<or> 3 \<le> n")
      case True
      with Inl run Suc.prems(3) show ?thesis
        by (intro stop) (auto simp: MAX_NONCE_RETRY_ATTEMPTS_def split: if_splits)
    next
      case False
      with Inl run have rec: "submit_loop (counted deps) a m (n + 1) y
          (bd_sleep deps (2000 * 2 ^ (n - 1)) w1, cs @ [x], ds @ [2000 * 2 ^ (n - 1)]) = (r, w', cs', ds')"
        by (auto simp: MAX_NONCE_RETRY_ATTEMPTS_def RETRY_BASE_DELAY_MS_def sleep split: if_splits)
      have "k = 4 - (n + 1)" using Suc.hyps(2) by simp
      from Suc.hyps(1) [OF this rec] False obtain new news where
        IH: "cs' = (cs @ [x]) @ new" "ds' = (ds @ [2000 * 2 ^ (n - 1)]) @ news" "retry_shape new"
          "length new \<le> 4 - (n + 1)" "length news + 1 = length new"
          "\<forall>i < length news. news ! i = 2000 * 2 ^ (n + 1 - 1 + i)"
        and last: "case last new of Inr c \<Rightarrow> r = Inr c
           | Inl z \<Rightarrow> (if is_nonce_too_low_error z then r = Inl nonce_too_low else r = Inl z)"
        by (auto simp del: append_assoc)
      have "\<forall>i < length (2000 * 2 ^ (n - 1) # news). (2000 * 2 ^ (n - 1) # news) ! i = 2000 * 2 ^ (n - 1 + i)"
        using IH(6) Suc.prems(2) by (auto simp: nth_Cons split: nat.splits)
      moreover have "retry_shape (x # new)" using Inl False IH(3) by (simp add: retry_shape_Cons)
      moreover have "last (x # new) = last new" using IH(3) by (simp add: retry_shape_def)
      ultimately show ?thesis using IH(1,2,4,5) last False
        by (intro exI [of _ "x # new"] exI [of _ "2000 * 2 ^ (n - 1) # news"]) auto
    qed
  qed
qed

section \<open>Properties\<close>

text \<open>
  C18. A bridge is never submitted again once it may have been mined. Of the calls of one
  submission loop all but the last failed with a mempool error (already known, replacement
  not allowed) that is not a nonce-too-low error; there are at most three, separated by
  waits of 2 and 4 seconds; the result is the last call's claim or its error, a
  nonce-too-low error being reported as such. The loop always ends.
\<close>

theorem bridge_submission_bounded:
  assumes "submit_loop (counted deps) to_addr amount 1 e (w, [], []) = (r, w', calls, waits)"
  shows "1 \<le> length calls \<and> length calls \<le> 3 \<and> waits = take (length calls - 1) [2000, 4000] \<and>
    (\<forall>c \<in> set (butlast calls). \<exists>x. c = Inl x \<and> is_retryable_nonce_error x \<and> \<not> is_nonce_too_low_error x) \<and>
    r = (case last calls of Inr claim \<Rightarrow> Inr claim
         | Inl x \<Rightarrow> if is_nonce_too_low_error x then Inl nonce_too_low else Inl x)"
proof -
  from submit_loop_calls [OF assms] have
    s: "retry_shape calls" "length calls \<le> 3" "length waits + 1 = length calls"
      "\<forall>i < length waits. waits ! i = 2000 * 2 ^ i"
    and l: "case last calls of Inr c \<Rightarrow> r = Inr c
       | Inl x \<Rightarrow> (if is_nonce_too_low_error x then r = Inl nonce_too_low else r = Inl x)"
    by auto
  have "waits = take (length calls - 1) [2000, 4000]"
  proof (rule nth_equalityI)
    show "length waits = length (take (length calls - 1) [2000::int, 4000])" using s(2,3) by simp
    fix i assume i: "i < length waits"
    then have "i = 0 \<or> i = 1" using s(2,3) by auto
    with i s(3,4) show "waits ! i = take (length calls - 1) [2000, 4000] ! i" by (auto simp: nth_append)
  qed
  moreover have "r = (case last calls of Inr claim \<Rightarrow> Inr claim
         | Inl x \<Rightarrow> if is_nonce_too_low_error x then Inl nonce_too_low else Inl x)"
    using l by (auto split: sum.splits if_splits)
  ultimately show ?thesis using s(1,2) by (cases calls) (auto simp: retry_shape_def)
qed

text \<open>A node on which two submissions are already known and the third is mined.\<close>

definition demo_bridge_deps :: "nat bridge_deps" where
  "demo_bridge_deps = \<lparr>bd_extract_chain = (\<lambda>_. Inr ()), bd_create_client = (\<lambda>_ _. Inr ()),
     bd_create_portal_manager = (\<lambda>w. (Inr (), w)),
     bd_bridge_tokens_public = (\<lambda>_ m w. (if w < 2 then Inl (error ''already known'')
        else Inr \<lparr>lc_claim_amount = m, lc_claim_secret = 1, lc_claim_secret_hash = 2,
                  lc_message_hash = ''0x'', lc_message_leaf_index = 3\<rparr>, Suc w)),
     bd_sleep = (\<lambda>_ w. w), bd_now = (\<lambda>w. (0, w)), bd_fr_to_string = bigint_string\<rparr>"

lemma bridge_submission_bounded_witness:
  "\<exists>r w' calls waits. submit_loop (counted demo_bridge_deps) 5 100 1 (error []) (0, [], []) = (r, w', calls, waits) \<and>
     waits = take (length calls - 1) [2000, 4000]"
proof -
  obtain r w' calls waits where
    run: "submit_loop (counted demo_bridge_deps) 5 100 1 (error []) (0, [], []) = (r, w', calls, waits)"
    by (metis prod.exhaust)
  with bridge_submission_bounded [OF run] show ?thesis by blast
qed

end
