(* ===== verification/Topup_Autoclaim.thy ===== *)
theory Topup_Autoclaim
  imports Topup_State Aztec_Lib
begin

text \<open>
  Automatic claiming of a bridged deposit, \<open>services/topup/src/autoclaim.ts\<close>: the creation
  of the claimer from the environment, and a claim that pays with a sponsor first and with
  the claimer's own Fee Juice when that fails. The wallet, the node and the contract calls
  are the fields of \<open>autoclaim_env\<close>; the closure's \<open>sponsoredModeDisabled\<close> is state.
\<close>

record autoclaim_request =
  aq_recipient :: int
  aq_amount :: int
  aq_claim_secret :: string
  aq_message_leaf_index :: int
  aq_message_hash :: string
  aq_wait_timeout_seconds :: int

datatype claimer_source = ClaimerSecretKey | ClaimerTestAccount

record test_account =
  ta_secret :: int
  ta_salt :: int
  ta_signing_key :: int

record 'w autoclaim_env =
  ae_lib :: aztec_lib
  ae_fr_from_string :: "string \<Rightarrow> thrown + int"
  ae_create_wallet :: "('w, unit) ioe"
  ae_get_contract :: "int \<Rightarrow> ('w, bool) ioe"
  ae_register_contract :: "int \<Rightarrow> ('w, unit) ioe"
  ae_derive_signing_key :: "int \<Rightarrow> int"
  ae_create_account :: "int \<Rightarrow> int \<Rightarrow> int \<Rightarrow> ('w, int) ioe"
  ae_test_accounts :: "('w, test_account list) ioe"
  ae_send_claim :: "int \<Rightarrow> int \<Rightarrow> int \<Rightarrow> int \<Rightarrow> int \<Rightarrow> int option \<Rightarrow> int \<Rightarrow> ('w, string) ioe"

text \<open>
  \<open>ae_send_claim\<close> takes the recipient, the amount, the secret, the leaf index, the sender,
  the sponsor (if it pays) and the timeout, and returns the transaction hash.
\<close>

record topup_auto_claimer =
  am_claimer_address :: int
  am_claimer_source :: claimer_source
  am_sponsored_fpc :: "int option"

definition payment_mode :: "topup_auto_claimer \<Rightarrow> string" where
  "payment_mode m = (if am_sponsored_fpc m \<noteq> None then ''sponsored'' else ''fee_juice'')"

definition is_sponsored_proof_failure :: "thrown \<Rightarrow> bool" where
  "is_sponsored_proof_failure e =
     (let m = js_string e in
      js_includes m ''Invalid tx: Invalid proof'' \<or> js_includes m ''Circuit execution failed'' \<or>
      js_includes m ''Missing return value for index'' \<or>
      js_includes m ''Cannot enter the revertible phase twice'')"

definition parse_optional_secret_key :: "string option \<Rightarrow> thrown + string option" where
  "parse_optional_secret_key v = (case trimmed_opt v of
     None \<Rightarrow> Inr None
   | Some n \<Rightarrow>
       (let p = (if starts_with n ''0x'' then n else ''0x'' @ n) in
        if hex_word 64 p then Inr (Some p)
        else Inl (error ''Invalid auto-claim secret key. Expected 32-byte 0x-prefixed hex'')))"

definition parse_optional_aztec_address :: "aztec_lib \<Rightarrow> string option \<Rightarrow> thrown + int option" where
  "parse_optional_aztec_address lib v = (case trimmed_opt v of
     None \<Rightarrow> Inr None
   | Some n \<Rightarrow> (case address_from_string lib n of
       Inr a \<Rightarrow> Inr (Some a)
     | Inl _ \<Rightarrow> Inl (error (''Invalid sponsored FPC address: \"'' @ n @
         ''\". Expected 32-byte 0x-prefixed Aztec address''))))"

definition register_sponsored_fpc_contract :: "'w autoclaim_env \<Rightarrow> int \<Rightarrow> ('w, unit) ioe" where
  "register_sponsored_fpc_contract env fpc =
     bind_io (ae_get_contract env fpc) (\<lambda>found.
     if \<not> found then throw_io (error (''Sponsored FPC contract instance not found on node at '' @
          address_to_string (ae_lib env) fpc))
     else ae_register_contract env fpc)"

definition source_text :: "claimer_source \<Rightarrow> string" where
  "source_text s = (case s of ClaimerSecretKey \<Rightarrow> ''secret_key'' | ClaimerTestAccount \<Rightarrow> ''test_account'')"

definition assert_published_claimer_account ::
    "'w autoclaim_env \<Rightarrow> int \<Rightarrow> claimer_source \<Rightarrow> string \<Rightarrow> ('w, unit) ioe" where
  "assert_published_claimer_account env claimer src profile =
     bind_io (ae_get_contract env claimer) (\<lambda>found.
     if found \<or> profile \<noteq> ''production'' then return_io ()
     else throw_io (error (''Auto-claim claimer '' @ address_to_string (ae_lib env) claimer @ '' (source='' @
       source_text src @ '') is not publicly deployed on the connected Aztec node. Configure '' @
       ''TOPUP_AUTOCLAIM_SECRET_KEY to a publicly deployed account (or deploy this account first).'')))"

section \<open>Claiming\<close>

record 'w claim_state =
  cl_sponsored_disabled :: bool
  cl_world :: 'w

definition send_claim ::
    "'w autoclaim_env \<Rightarrow> int \<Rightarrow> autoclaim_request \<Rightarrow> int option \<Rightarrow> ('w claim_state, string) ioe" where
  "send_claim env claimer req sponsor =
     bind_io (from_pure (ae_fr_from_string env (aq_claim_secret req))) (\<lambda>secret.
     bind_io (from_pure (fr_of_bigint (ae_lib env) (aq_message_leaf_index req))) (\<lambda>leaf s.
     case ae_send_claim env (aq_recipient req) (aq_amount req) secret leaf claimer sponsor
            (aq_wait_timeout_seconds req) (cl_world s) of
       (r, w) \<Rightarrow> (r, s\<lparr>cl_world := w\<rparr>)))"

definition maybe_disable_sponsored_mode :: "thrown \<Rightarrow> 'w claim_state \<Rightarrow> 'w claim_state" where
  "maybe_disable_sponsored_mode e s =
     (if is_sponsored_proof_failure e then s\<lparr>cl_sponsored_disabled := True\<rparr> else s)"

definition claim_with_sponsored_fallback ::
    "'w autoclaim_env \<Rightarrow> topup_auto_claimer \<Rightarrow> autoclaim_request \<Rightarrow> ('w claim_state, string) ioe" where
  "claim_with_sponsored_fallback env m req s =
     (if am_sponsored_fpc m = None \<or> cl_sponsored_disabled s
      then send_claim env (am_claimer_address m) req None s
      else catch_io (send_claim env (am_claimer_address m) req (am_sponsored_fpc m))
             (\<lambda>e s1. send_claim env (am_claimer_address m) req None (maybe_disable_sponsored_mode e s1)) s)"

definition build_auto_claim_failure_message ::
    "aztec_lib \<Rightarrow> thrown \<Rightarrow> autoclaim_request \<Rightarrow> topup_auto_claimer \<Rightarrow> string" where
  "build_auto_claim_failure_message lib e req m =
     ''Auto-claim failed for message_hash='' @ aq_message_hash req @ ''.'' @
     (if js_includes (js_string e) ''Insufficient fee payer balance''
      then (case am_sponsored_fpc m of
          Some fpc \<Rightarrow> '' Hint: sponsored auto-claim is enabled via '' @ address_to_string lib fpc @
            '' but fee sponsorship failed or the sponsor is not funded.''
        | None \<Rightarrow> '' Hint: claimer '' @ address_to_string lib (am_claimer_address m) @
            '' has insufficient L2 Fee Juice to pay tx fees. Set TOPUP_AUTOCLAIM_SPONSORED_FPC_ADDRESS '' @
            ''(recommended) or pre-fund this claimer.'')
      else [])"

definition auto_claim ::
    "'w autoclaim_env \<Rightarrow> topup_auto_claimer \<Rightarrow> autoclaim_request \<Rightarrow> ('w claim_state, string) ioe" where
  "auto_claim env m req = catch_io (claim_with_sponsored_fallback env m req)
     (\<lambda>e. throw_io (error (build_auto_claim_failure_message (ae_lib env) e req m)))"

section \<open>Creation\<close>

definition select_claimer ::
    "'w autoclaim_env \<Rightarrow> string option \<Rightarrow> string option \<Rightarrow> ('w, int \<times> claimer_source) ioe" where
  "select_claimer env explicit_key profile = (case explicit_key of
     Some k \<Rightarrow>
       bind_io (from_pure (fr_from_hex (ae_lib env) k)) (\<lambda>secret.
       bind_io (ae_create_account env secret 0 (ae_derive_signing_key env secret)) (\<lambda>a.
       return_io (a, ClaimerSecretKey)))
   | None \<Rightarrow>
       if profile = Some ''production''
       then throw_io (error (''Auto-claim test account fallback is not allowed when '' @
              ''runtime_profile=production. Set TOPUP_AUTOCLAIM_SECRET_KEY.''))
       else bind_io (ae_test_accounts env) (\<lambda>accounts. case accounts of
           [] \<Rightarrow> throw_io (error ''No test accounts available (need index 0, have 0)'')
         | a # _ \<Rightarrow> bind_io (ae_create_account env (ta_secret a) (ta_salt a) (ta_signing_key a)) (\<lambda>addr.
             return_io (addr, ClaimerTestAccount))))"

definition create_topup_auto_claimer ::
    "'w autoclaim_env \<Rightarrow> (string \<Rightarrow> string option) \<Rightarrow> string option \<Rightarrow> ('w, topup_auto_claimer) ioe" where
  "create_topup_auto_claimer env penv profile =
     bind_io (ae_create_wallet env) (\<lambda>_.
     bind_io (from_pure (parse_optional_secret_key (penv ''TOPUP_AUTOCLAIM_SECRET_KEY''))) (\<lambda>key.
     bind_io (from_pure (parse_optional_aztec_address (ae_lib env)
                 (penv ''TOPUP_AUTOCLAIM_SPONSORED_FPC_ADDRESS''))) (\<lambda>sponsor.
     bind_io (case sponsor of None \<Rightarrow> return_io ()
        | Some fpc \<Rightarrow> catch_io (register_sponsored_fpc_contract env fpc)
            (\<lambda>e. throw_io (error (''Failed to register sponsored FPC contract '' @
               address_to_string (ae_lib env) fpc @ '' in PXE. Ensure TOPUP_AUTOCLAIM_SPONSORED_FPC_ADDRESS '' @
               ''points to a SponsoredFPC contract on the connected network.'')))) (\<lambda>_.
     bind_io (select_claimer env key profile) (\<lambda>(claimer, src).
     bind_io (assert_published_claimer_account env claimer src
                (case profile of Some p \<Rightarrow> p | None \<Rightarrow> ''development'')) (\<lambda>_.
     return_io \<lparr>am_claimer_address = claimer, am_claimer_source = src, am_sponsored_fpc = sponsor\<rparr>))))))"

section \<open>Counting sends\<close>

definition logging_sends :: "'w autoclaim_env \<Rightarrow> ('w \<times> int option list) autoclaim_env" where
  "logging_sends env = \<lparr>ae_lib = ae_lib env, ae_fr_from_string = ae_fr_from_string env,
     ae_create_wallet = (\<lambda>(w, l). case ae_create_wallet env w of (r, w') \<Rightarrow> (r, w', l)),
     ae_get_contract = (\<lambda>a (w, l). case ae_get_contract env a w of (r, w') \<Rightarrow> (r, w', l)),
     ae_register_contract = (\<lambda>a (w, l). case ae_register_contract env a w of (r, w') \<Rightarrow> (r, w', l)),
     ae_derive_signing_key = ae_derive_signing_key env,
     ae_create_account = (\<lambda>a b c (w, l). case ae_create_account env a b c w of (r, w') \<Rightarrow> (r, w', l)),
     ae_test_accounts = (\<lambda>(w, l). case ae_test_accounts env w of (r, w') \<Rightarrow> (r, w', l)),
     ae_send_claim = (\<lambda>to_addr a sec leaf from_addr sponsor t (w, l).
       case ae_send_claim env to_addr a sec leaf from_addr sponsor t w of (r, w') \<Rightarrow> (r, w', l @ [sponsor]))\<rparr>"

section \<open>Properties\<close>

text \<open>
  A claim sends at most two transactions. Without a sponsor, or once sponsoring has been
  disabled, it sends one, paid by the claimer. With a sponsor it first sends a sponsored
  one and only if that fails a second one, paid by the claimer; a proof failure of the
  first disables sponsoring for the rest of the process and no other error does. A claim
  that returns a hash returns that of the last transaction sent, and every failure is
  reported with the message hash.
\<close>

theorem auto_claim_sends:
  assumes "ae_fr_from_string env (aq_claim_secret req) = Inr secret"
    and "fr_of_bigint (ae_lib env) (aq_message_leaf_index req) = Inr leaf"
    and "send = (\<lambda>sponsor. ae_send_claim env (aq_recipient req) (aq_amount req) secret leaf
                  (am_claimer_address m) sponsor (aq_wait_timeout_seconds req))"
    and "fail = (\<lambda>e. Inl (error (build_auto_claim_failure_message (ae_lib env) e req m)))"
  shows "auto_claim (logging_sends env) m req \<lparr>cl_sponsored_disabled = d, cl_world = (w, [])\<rparr> =
    (if am_sponsored_fpc m = None \<or> d
     then case send None w of
        (Inr tx, w1) \<Rightarrow> (Inr tx, \<lparr>cl_sponsored_disabled = d, cl_world = (w1, [None])\<rparr>)
      | (Inl e, w1) \<Rightarrow> (fail e, \<lparr>cl_sponsored_disabled = d, cl_world = (w1, [None])\<rparr>)
     else case send (am_sponsored_fpc m) w of
        (Inr tx, w1) \<Rightarrow> (Inr tx, \<lparr>cl_sponsored_disabled = d, cl_world = (w1, [am_sponsored_fpc m])\<rparr>)
      | (Inl e, w1) \<Rightarrow> (case send None w1 of
          (Inr tx, w2) \<Rightarrow> (Inr tx, \<lparr>cl_sponsored_disabled = is_sponsored_proof_failure e,
                                   cl_world = (w2, [am_sponsored_fpc m, None])\<rparr>)
        | (Inl e2, w2) \<Rightarrow> (fail e2, \<lparr>cl_sponsored_disabled = is_sponsored_proof_failure e,
                                   cl_world = (w2, [am_sponsored_fpc m, None])\<rparr>)))"
proof -
  have lib: "ae_lib (logging_sends env) = ae_lib env" by (simp add: logging_sends_def)
  have one: "send_claim (logging_sends env) (am_claimer_address m) req sponsor
       \<lparr>cl_sponsored_disabled = b, cl_world = (v, l)\<rparr> =
     (case send sponsor v of (r, v') \<Rightarrow> (r, \<lparr>cl_sponsored_disabled = b, cl_world = (v', l @ [sponsor])\<rparr>))"
    for sponsor b v l
    by (auto simp: send_claim_def logging_sends_def bind_io_def from_pure_def assms(1-3) split: prod.splits)
  show ?thesis
    by (auto simp: auto_claim_def claim_with_sponsored_fallback_def catch_io_def one assms(4) lib throw_io_def
        maybe_disable_sponsored_mode_def split: prod.splits sum.splits)
qed

definition demo_autoclaim_env :: "nat autoclaim_env" where
  "demo_autoclaim_env = \<lparr>ae_lib = demo_lib, ae_fr_from_string = (\<lambda>_. Inr 3),
     ae_create_wallet = (\<lambda>w. (Inr (), w)), ae_get_contract = (\<lambda>_ w. (Inr True, w)),
     ae_register_contract = (\<lambda>_ w. (Inr (), w)), ae_derive_signing_key = (\<lambda>k. k),
     ae_create_account = (\<lambda>s _ _ w. (Inr s, w)), ae_test_accounts = (\<lambda>w. (Inr [], w)),
     ae_send_claim = (\<lambda>_ _ _ _ _ sponsor _ w.
       (if sponsor = None then Inr ''tx'' else Inl (error ''Circuit execution failed''), Suc w))\<rparr>"

definition demo_claim_request :: autoclaim_request where
  "demo_claim_request = \<lparr>aq_recipient = 5, aq_amount = 10, aq_claim_secret = ''s'', aq_message_leaf_index = 2,
     aq_message_hash = ''h'', aq_wait_timeout_seconds = 30\<rparr>"

lemma auto_claim_sends_witness:
  "auto_claim (logging_sends demo_autoclaim_env)
     \<lparr>am_claimer_address = 4, am_claimer_source = ClaimerSecretKey, am_sponsored_fpc = Some 9\<rparr> demo_claim_request
     \<lparr>cl_sponsored_disabled = False, cl_world = (0, [])\<rparr> =
   (Inr ''tx'', \<lparr>cl_sponsored_disabled = True, cl_world = (2, [Some 9, None])\<rparr>)"
proof -
  have f: "is_sponsored_proof_failure (error ''Circuit execution failed'')" by code_simp
  let ?m = "\<lparr>am_claimer_address = 4, am_claimer_source = ClaimerSecretKey, am_sponsored_fpc = Some 9\<rparr>"
  show ?thesis
    using auto_claim_sends [of demo_autoclaim_env demo_claim_request 3 2 _ ?m _ False 0, OF _ _ refl refl]
    by (simp add: demo_autoclaim_env_def demo_claim_request_def f)
qed

end
