(* ===== verification/Topup_Config.thy ===== *)
theory Topup_Config
  imports Attest_Config
begin

text \<open>
  Configuration of the top-up service, \<open>services/topup/src/config.ts\<close>: the schema of the
  file with its cross-field checks, the environment overrides and the operator key. The
  cross-field checks run on a file whose fields are all valid; a file with an invalid field
  is rejected in any case, and which error it raises is not modelled beyond its messages.
  \<open>parseRuntimeProfile\<close>, \<open>parseIntegerOverride\<close> and \<open>secret-provider.ts\<close> are the same code
  as in the attestation service.
\<close>

record topup_parsed =
  tc_runtime_profile :: runtime_profile
  tc_fpc_address :: string
  tc_aztec_node_url :: "string option"
  tc_l1_rpc_url :: "string option"
  tc_secret_provider :: secret_provider
  tc_secret_ref :: "string option"
  tc_private_key :: "string option"
  tc_threshold :: string
  tc_top_up_amount :: string
  tc_data_dir :: string
  tc_ops_port :: int
  tc_check_interval_ms :: int
  tc_confirmation_timeout_ms :: int
  tc_poll_initial_ms :: int
  tc_poll_max_ms :: int

text \<open>\<open>tp_parsed\<close> holds the fields that \<open>...config\<close> copies unchanged.\<close>

record topup_config =
  tp_parsed :: topup_parsed
  tp_runtime_profile :: runtime_profile
  tp_aztec_node_url :: string
  tp_l1_rpc_url :: string
  tp_data_dir :: string
  tp_ops_port :: int
  tp_private_key :: resolved_secret

definition positive_bigint_string :: "string schema" where
  "positive_bigint_string v = and_then (z_string v) (\<lambda>s.
     if \<not> uint_decimal s then Inl [''must be an unsigned integer string'']
     else if \<not> 0 < dec_value s then Inl [''must be greater than zero''] else Inr s)"

definition private_key_schema :: "string schema" where
  "private_key_schema = hex32_schema ''must be a 32-byte 0x-prefixed hex private key''"

text \<open>The object's fields, then \<open>superRefine\<close>.\<close>

definition topup_fields :: "aztec_lib \<Rightarrow> topup_parsed schema" where
  "topup_fields lib v =
     (let rp = z_default Development runtime_profile_schema (jfield ''runtime_profile'' v);
          fpc = hex32_schema ''must be a 32-byte 0x-prefixed hex address'' (jfield ''fpc_address'' v);
          anu = z_optional (url_schema lib) (jfield ''aztec_node_url'' v);
          lru = z_optional (url_schema lib) (jfield ''l1_rpc_url'' v);
          sp = z_default ProviderAuto secret_provider_schema (jfield ''l1_operator_secret_provider'' v);
          sr = z_optional z_string (jfield ''l1_operator_secret_ref'' v);
          pk = z_optional z_string (jfield ''l1_operator_private_key'' v);
          th = positive_bigint_string (jfield ''threshold'' v);
          ta = positive_bigint_string (jfield ''top_up_amount'' v);
          dd = z_default ''.topup-data'' non_empty_schema (jfield ''data_dir'' v);
          op = z_default 3001 (z_int ''out of range'' 1 (Some 65535)) (jfield ''ops_port'' v);
          ci = z_default 60000 (z_int ''must be positive'' 1 None) (jfield ''check_interval_ms'' v);
          ct = z_default 180000 (z_int ''must be positive'' 1 None) (jfield ''confirmation_timeout_ms'' v);
          pi = z_default 1000 (z_int ''must be positive'' 1 None) (jfield ''confirmation_poll_initial_ms'' v);
          pm = z_default 15000 (z_int ''must be positive'' 1 None) (jfield ''confirmation_poll_max_ms'' v);
          es = issues rp @ issues fpc @ issues anu @ issues lru @ issues sp @ issues sr @ issues pk @
               issues th @ issues ta @ issues dd @ issues op @ issues ci @ issues ct @ issues pi @ issues pm
      in if es = [] then Inr \<lparr>
           tc_runtime_profile = parsed rp, tc_fpc_address = parsed fpc, tc_aztec_node_url = parsed anu,
           tc_l1_rpc_url = parsed lru, tc_secret_provider = parsed sp, tc_secret_ref = parsed sr,
           tc_private_key = parsed pk, tc_threshold = parsed th, tc_top_up_amount = parsed ta,
           tc_data_dir = parsed dd, tc_ops_port = parsed op, tc_check_interval_ms = parsed ci,
           tc_confirmation_timeout_ms = parsed ct, tc_poll_initial_ms = parsed pi, tc_poll_max_ms = parsed pm\<rparr>
         else Inl es)"

definition topup_refinements :: "topup_parsed \<Rightarrow> string list" where
  "topup_refinements c =
     (if tc_poll_max_ms c < tc_poll_initial_ms c
      then [''confirmation_poll_initial_ms must be less than or equal to confirmation_poll_max_ms''] else []) @
     (if tc_confirmation_timeout_ms c < tc_poll_max_ms c
      then [''confirmation_poll_max_ms must be less than or equal to confirmation_timeout_ms''] else []) @
     (if dec_value (tc_top_up_amount c) < dec_value (tc_threshold c)
      then [''top_up_amount should be >= threshold to bring balance above threshold in a single bridge'']
      else [])"

definition topup_config_schema :: "aztec_lib \<Rightarrow> topup_parsed schema" where
  "topup_config_schema lib v = and_then (topup_fields lib v) (\<lambda>c.
     if topup_refinements c = [] then Inr c else Inl (topup_refinements c))"

definition topup_parse_runtime_profile ::
    "runtime_profile \<Rightarrow> string option \<Rightarrow> thrown + runtime_profile" where
  "topup_parse_runtime_profile config_value override = (case override of
     None \<Rightarrow> Inr config_value
   | Some s \<Rightarrow> if s = [] then Inr config_value else z_parse runtime_profile_schema (JString (js_trim s)))"

definition topup_parse_integer_override ::
    "int \<Rightarrow> string option \<Rightarrow> string \<Rightarrow> int \<Rightarrow> int \<Rightarrow> thrown + int" where
  "topup_parse_integer_override config_value override name lo hi = (case override of
     None \<Rightarrow> Inr config_value
   | Some s \<Rightarrow>
       (let n = js_Number (js_trim s) in
        if \<not> is_integer n \<or> number_value n < lo \<or> hi < number_value n
        then Inl (error (''Invalid '' @ name @ '': expected integer in range ['' @
               bigint_string lo @ '', '' @ bigint_string hi @ '']''))
        else Inr (number_value n)))"

definition resolve_data_dir :: "(string \<Rightarrow> string) \<Rightarrow> string \<Rightarrow> thrown + string" where
  "resolve_data_dir path_resolve raw =
     (if js_includes raw ''..''
      then Inl (error (''Invalid data_dir: path traversal (\"..\") is not allowed: '' @ raw))
      else Inr (path_resolve raw))"

definition load_topup_config ::
    "aztec_lib \<Rightarrow> (string \<Rightarrow> string) \<Rightarrow> secret_adapters \<Rightarrow> process_env \<Rightarrow> jsval \<Rightarrow> thrown + topup_config" where
  "load_topup_config lib path_resolve ads env raw =
     and_then (z_parse (topup_config_schema lib) raw) (\<lambda>c.
     and_then (topup_parse_runtime_profile (tc_runtime_profile c) (env ''FPC_RUNTIME_PROFILE'')) (\<lambda>rp.
     and_then (resolve_secret \<lparr>so_label = ''L1 operator private key'', so_provider = tc_secret_provider c,
        so_profile = rp, so_env_var_name = ''L1_OPERATOR_PRIVATE_KEY'',
        so_env_value = env ''L1_OPERATOR_PRIVATE_KEY'', so_config_value = tc_private_key c,
        so_secret_ref = tc_secret_ref c, so_adapters = ads\<rparr>) (\<lambda>secret.
     and_then (z_parse private_key_schema (JString (rs_value secret))) (\<lambda>_.
     and_then (z_parse (url_schema lib) (option_value (coalesce (env ''AZTEC_NODE_URL'') (tc_aztec_node_url c)))) (\<lambda>url.
     and_then (z_parse (url_schema lib) (option_value (coalesce (env ''L1_RPC_URL'') (tc_l1_rpc_url c)))) (\<lambda>rpc.
     and_then (resolve_data_dir path_resolve
        (case env ''TOPUP_DATA_DIR'' of Some d \<Rightarrow> d | None \<Rightarrow> tc_data_dir c)) (\<lambda>dir.
     and_then (topup_parse_integer_override (tc_ops_port c) (env ''TOPUP_OPS_PORT'') ''TOPUP_OPS_PORT'' 1 65535) (\<lambda>port.
     Inr \<lparr>tp_parsed = c, tp_runtime_profile = rp, tp_aztec_node_url = url, tp_l1_rpc_url = rpc,
          tp_data_dir = dir, tp_ops_port = port, tp_private_key = secret\<rparr>))))))))"

section \<open>What a loaded configuration guarantees\<close>

definition topup_config_wf :: "topup_config \<Rightarrow> bool" where
  "topup_config_wf c \<longleftrightarrow>
     0 < dec_value (tc_threshold (tp_parsed c)) \<and>
     dec_value (tc_threshold (tp_parsed c)) \<le> dec_value (tc_top_up_amount (tp_parsed c)) \<and>
     1 \<le> tc_poll_initial_ms (tp_parsed c) \<and> tc_poll_initial_ms (tp_parsed c) \<le> tc_poll_max_ms (tp_parsed c) \<and>
     tc_poll_max_ms (tp_parsed c) \<le> tc_confirmation_timeout_ms (tp_parsed c) \<and>
     1 \<le> tc_check_interval_ms (tp_parsed c) \<and> 1 \<le> tp_ops_port c \<and> tp_ops_port c \<le> 65535 \<and>
     hex_word 64 (tc_fpc_address (tp_parsed c)) \<and> hex_word 64 (rs_value (tp_private_key c)) \<and>
     (tp_runtime_profile c = Production \<longrightarrow>
        rs_source (tp_private_key c) \<noteq> SourceConfig \<and> normalize (tc_private_key (tp_parsed c)) = None)"

lemma positive_bigint_reports: "positive_bigint_string v \<noteq> Inl []"
  by (auto simp: positive_bigint_string_def and_then_Inl_iff z_string_def expected_def split: jsval.splits if_splits)

lemma positive_bigint_iff: "positive_bigint_string v = Inr s \<longleftrightarrow> v = JString s \<and> uint_decimal s \<and> 0 < dec_value s"
  by (auto simp: positive_bigint_string_def and_then_Inr_iff z_string_def split: jsval.splits if_splits)

lemma hex32_reports: "hex32_schema m v \<noteq> Inl []"
  by (auto simp: hex32_schema_def z_refine_def and_then_Inl_iff z_string_def expected_def split: jsval.splits if_splits)

lemma hex32_iff: "hex32_schema m v = Inr s \<longleftrightarrow> v = JString s \<and> hex_word 64 s"
  by (auto simp: hex32_schema_def z_refine_def and_then_Inr_iff z_string_def split: jsval.splits if_splits)

lemma positive_bigint_parsed: "issues (positive_bigint_string v) = [] \<Longrightarrow> 0 < dec_value (parsed (positive_bigint_string v))"
  using positive_bigint_reports [of v] by (cases "positive_bigint_string v") (auto dest: positive_bigint_iff [THEN iffD1])

lemma hex32_parsed: "issues (hex32_schema m v) = [] \<Longrightarrow> hex_word 64 (parsed (hex32_schema m v))"
  using hex32_reports [of m v] by (cases "hex32_schema m v") (auto dest: hex32_iff [THEN iffD1])

lemma default_int_low:
  "issues (z_default d (z_int msg lo hi) v) = [] \<Longrightarrow> lo \<le> d \<Longrightarrow> lo \<le> parsed (z_default d (z_int msg lo hi) v)"
  by (auto simp: z_default_int_issues) (auto simp: z_default_def z_int_Inr_iff split: if_splits)

lemma topup_fields_facts:
  assumes "topup_fields lib v = Inr c"
  shows "0 < dec_value (tc_threshold c) \<and> 0 < dec_value (tc_top_up_amount c) \<and> hex_word 64 (tc_fpc_address c) \<and>
    1 \<le> tc_ops_port c \<and> tc_ops_port c \<le> 65535 \<and> 1 \<le> tc_check_interval_ms c \<and> 1 \<le> tc_poll_initial_ms c"
proof -
  let ?th = "positive_bigint_string (jfield ''threshold'' v)"
  let ?ta = "positive_bigint_string (jfield ''top_up_amount'' v)"
  let ?fpc = "hex32_schema ''must be a 32-byte 0x-prefixed hex address'' (jfield ''fpc_address'' v)"
  let ?op = "z_default 3001 (z_int ''out of range'' 1 (Some 65535)) (jfield ''ops_port'' v)"
  let ?ci = "z_default 60000 (z_int ''must be positive'' 1 None) (jfield ''check_interval_ms'' v)"
  let ?pi = "z_default 1000 (z_int ''must be positive'' 1 None) (jfield ''confirmation_poll_initial_ms'' v)"
  from assms have "issues ?th = [] \<and> issues ?ta = [] \<and> issues ?fpc = [] \<and> issues ?op = [] \<and> issues ?ci = [] \<and>
      issues ?pi = [] \<and> tc_threshold c = parsed ?th \<and> tc_top_up_amount c = parsed ?ta \<and>
      tc_fpc_address c = parsed ?fpc \<and> tc_ops_port c = parsed ?op \<and> tc_check_interval_ms c = parsed ?ci \<and>
      tc_poll_initial_ms c = parsed ?pi"
    unfolding topup_fields_def Let_def
    by (simp only: append_is_Nil_conv split: if_split_asm) (simp_all, clarsimp)
  then show ?thesis
    by (simp add: positive_bigint_parsed hex32_parsed default_int_range default_int_low)
qed

lemma topup_override_range:
  "topup_parse_integer_override d v name lo hi = Inr i \<Longrightarrow> lo \<le> d \<Longrightarrow> d \<le> hi \<Longrightarrow> lo \<le> i \<and> i \<le> hi"
  by (auto simp: topup_parse_integer_override_def Let_def split: option.splits if_splits)

section \<open>Properties\<close>

text \<open>
  Every configuration that the top-up service loads is one its loops can run on: a positive
  threshold that one top-up reaches, poll intervals of at least a millisecond in the order
  initial, maximum, timeout, a positive check interval, a valid port, a 32-byte address and
  key, and in production a key that is not, and could not be, taken from the file.
\<close>

theorem load_topup_config_wf:
  assumes "load_topup_config lib path_resolve ads env raw = Inr c"
  shows "topup_config_wf c"
proof -
  let ?opts = "\<lparr>so_label = ''L1 operator private key'', so_provider = tc_secret_provider (tp_parsed c),
        so_profile = tp_runtime_profile c, so_env_var_name = ''L1_OPERATOR_PRIVATE_KEY'',
        so_env_value = env ''L1_OPERATOR_PRIVATE_KEY'', so_config_value = tc_private_key (tp_parsed c),
        so_secret_ref = tc_secret_ref (tp_parsed c), so_adapters = ads\<rparr>"
  from assms have schema: "topup_config_schema lib raw = Inr (tp_parsed c)"
    and secret: "resolve_secret ?opts = Inr (tp_private_key c)"
    and key: "hex_word 64 (rs_value (tp_private_key c))"
    and port: "topup_parse_integer_override (tc_ops_port (tp_parsed c)) (env ''TOPUP_OPS_PORT'') ''TOPUP_OPS_PORT'' 1 65535
        = Inr (tp_ops_port c)"
    by (auto simp: load_topup_config_def and_then_Inr_iff z_parse_def map_sum_Inr private_key_schema_def hex32_iff)
  from schema have f: "topup_fields lib raw = Inr (tp_parsed c)" and r: "topup_refinements (tp_parsed c) = []"
    by (auto simp: topup_config_schema_def and_then_Inr_iff split: if_splits)
  have "tp_runtime_profile c = Production \<Longrightarrow> normalize (tc_private_key (tp_parsed c)) = None"
    using secret by (auto simp: resolve_secret_def Let_def and_then_Inr_iff assert_no_plaintext_config_secret_def
        split: if_splits)
  moreover have "tp_runtime_profile c = Production \<Longrightarrow> rs_source (tp_private_key c) \<noteq> SourceConfig"
    using resolve_secret_production [OF secret] by simp
  ultimately show ?thesis
    using topup_fields_facts [OF f] r key topup_override_range [OF port]
    by (auto simp: topup_config_wf_def topup_refinements_def split: if_splits)
qed

definition demo_topup_raw :: jsval where
  "demo_topup_raw = JObject
     [(''fpc_address'', JString (''0x'' @ replicate 64 (CHR ''1''))), (''aztec_node_url'', JString ''http://n''),
      (''l1_rpc_url'', JString ''http://l''), (''threshold'', JString ''100''), (''top_up_amount'', JString ''500''),
      (''l1_operator_private_key'', JString (''0x'' @ replicate 64 (CHR ''a'')))]"

lemma load_topup_config_wf_witness:
  "\<exists>c. load_topup_config demo_lib (\<lambda>p. p) (\<lambda>_. None) (\<lambda>_. None) demo_topup_raw = Inr c \<and> topup_config_wf c"
proof -
  have "\<not> isl (load_topup_config demo_lib (\<lambda>p. p) (\<lambda>_. None) (\<lambda>_. None) demo_topup_raw)" by code_simp
  then obtain c where "load_topup_config demo_lib (\<lambda>p. p) (\<lambda>_. None) (\<lambda>_. None) demo_topup_raw = Inr c"
    by (cases "load_topup_config demo_lib (\<lambda>p. p) (\<lambda>_. None) (\<lambda>_. None) demo_topup_raw") auto
  with load_topup_config_wf show ?thesis by blast
qed

end
