(* ===== verification/Topup_Service.thy ===== *)
theory Topup_Service
  imports Topup_Checker Topup_Ops Topup_Bridge Topup_Autoclaim Topup_Config
begin

text \<open>
  Reconciliation and the service itself, \<open>services/topup/src/reconcile.ts\<close> and
  \<open>services/topup/src/index.ts\<close>: the dependencies of the checker over the persistent
  store and the ops state, the reconciliation of a persisted bridge before each check, the
  cycle, the start with its process lock and the shutdown.

  The state of the service extends the checker's flags by the LMDB entry, the ops state, the
  lock file, the abort signal and the world. An LMDB write or removal fails when
  \<open>se_put_error\<close> or \<open>se_remove_error\<close> says so.
\<close>

record 'w service = checker_flags +
  sv_db :: bridge_db
  sv_ops :: ops_state
  sv_lock :: lock_file
  sv_aborted :: bool
  sv_world :: 'w

text \<open>\<open>se_claim\<close> is the \<open>claim\<close> method of the auto-claimer, absent when it is disabled.\<close>

record 'w service_env =
  se_data_dir :: string
  se_now :: "'w service \<Rightarrow> int"
  se_get_balance :: "int \<Rightarrow> ('w service, int) ioe"
  se_bridge_deps :: "'w service bridge_deps"
  se_confirm_env :: "'w service confirm_env"
  se_claim :: "(autoclaim_request \<Rightarrow> ('w service, string) ioe) option"
  se_put_error :: "'w service \<Rightarrow> thrown option"
  se_remove_error :: "'w service \<Rightarrow> thrown option"
  se_target_address :: int
  se_l1_chain_id :: int
  se_config :: topup_config

section \<open>The store\<close>

definition db_read :: "'w service_env \<Rightarrow> ('w service, persisted_submission option) ioe" where
  "db_read env s = (store_read (se_data_dir env) (sv_db s), s)"

definition db_write :: "'w service_env \<Rightarrow> int \<Rightarrow> bridge_result \<Rightarrow> ('w service, unit) ioe" where
  "db_write env baseline r s = (case se_put_error env s of
     Some e \<Rightarrow> (Inl e, s) | None \<Rightarrow> (Inr (), s\<lparr>sv_db := store_write baseline r (sv_db s)\<rparr>))"

definition db_clear :: "'w service_env \<Rightarrow> ('w service, unit) ioe" where
  "db_clear env s = (case se_remove_error env s of
     Some e \<Rightarrow> (Inl e, s) | None \<Rightarrow> (Inr (), s\<lparr>sv_db := store_clear (sv_db s)\<rparr>))"

section \<open>Reconciliation\<close>

datatype reconciliation_outcome = RecNone | RecConfirmed | RecTimeout | RecAborted

record 's reconcile_options =
  ro_read :: "('s, persisted_submission option) ioe"
  ro_clear :: "('s, unit) ioe"
  ro_now :: "'s \<Rightarrow> int"
  ro_max_age_ms :: "int option"
  ro_confirm :: "int \<Rightarrow> persisted_submission \<Rightarrow> ('s, confirmation_result) ioe"

definition too_old :: "int option \<Rightarrow> int \<Rightarrow> persisted_submission \<Rightarrow> bool" where
  "too_old max_age now p = (case max_age of None \<Rightarrow> False | Some m \<Rightarrow> m < now - ps_submitted_at_ms p)"

definition reconcile_persisted_bridge_state ::
    "'s reconcile_options \<Rightarrow> ('s, reconciliation_outcome) ioe" where
  "reconcile_persisted_bridge_state opts s = (case ro_read opts s of
     (Inl e, s1) \<Rightarrow> (Inr RecNone, snd (ro_clear opts s1))
   | (Inr None, s1) \<Rightarrow> (Inr RecNone, s1)
   | (Inr (Some p), s1) \<Rightarrow>
       if too_old (ro_max_age_ms opts) (ro_now opts s1) p
       then bind_io (ro_clear opts) (\<lambda>_. return_io RecNone) s1
       else bind_io (ro_confirm opts (dec_value (ps_baseline_balance p)) p) (\<lambda>result.
         case cr_status result of
           Aborted \<Rightarrow> return_io RecAborted
         | Confirmed \<Rightarrow> bind_io (ro_clear opts) (\<lambda>_. return_io RecConfirmed)
         | TimedOut \<Rightarrow> return_io RecTimeout) s1)"

section \<open>Dependencies of the checker\<close>

definition create_get_balance_dependency :: "'w service_env \<Rightarrow> ('w service, int) ioe" where
  "create_get_balance_dependency env s = (case se_get_balance env (se_target_address env) s of
     (Inr b, s1) \<Rightarrow> (Inr b, s1\<lparr>sv_ops := record_balance_check_success (se_now env s1) (sv_ops s1)\<rparr>)
   | (Inl e, s1) \<Rightarrow> (Inl e, s1\<lparr>sv_ops := record_balance_check_failure e (se_now env s1) (sv_ops s1)\<rparr>))"

definition claim_timeout_seconds :: "int \<Rightarrow> int" where
  "claim_timeout_seconds confirmation_timeout_ms = max 30 (confirmation_timeout_ms div 1000)"

definition create_on_message_ready_handler ::
    "'w service_env \<Rightarrow> bridge_result \<Rightarrow> ('w service, unit) ioe option" where
  "create_on_message_ready_handler env r = (case se_claim env of
     None \<Rightarrow> None
   | Some claim \<Rightarrow> Some (bind_io (claim \<lparr>aq_recipient = se_target_address env, aq_amount = br_amount r,
         aq_claim_secret = br_claim_secret r, aq_message_leaf_index = br_message_leaf_index r,
         aq_message_hash = br_message_hash r,
         aq_wait_timeout_seconds =
           claim_timeout_seconds (tc_confirmation_timeout_ms (tp_parsed (se_config env)))\<rparr>) (\<lambda>_. return_io ())))"

text \<open>
  \<open>waitForFeeJuiceBridgeConfirmation\<close> with the service's settings. A confirmation that never
  returns is shown as an error; \<open>confirmation_returns\<close> excludes it.
\<close>

definition run_confirmation ::
    "'w service_env \<Rightarrow> int \<Rightarrow> string \<Rightarrow> ('w service, unit) ioe option \<Rightarrow> ('w service, confirmation_result) ioe" where
  "run_confirmation env baseline message_hash on_ready s =
     (let c = tp_parsed (se_config env) in
      case wait_for_fee_juice_bridge_confirmation
             ((se_confirm_env env)\<lparr>cf_get_balance := se_get_balance env (se_target_address env),
                cf_aborted := sv_aborted, cf_on_message_ready := on_ready\<rparr>)
             \<lparr>co_baseline_balance = baseline, co_timeout_ms = tc_confirmation_timeout_ms c,
              co_initial_poll_ms = tc_poll_initial_ms c, co_max_poll_ms = tc_poll_max_ms c,
              co_message_hash = Some message_hash\<rparr> s of
        Some (r, s1) \<Rightarrow> (r, s1)
      | None \<Rightarrow> (Inl (ThrownValue ''the confirmation never returns''), s))"

definition create_confirm_dependency ::
    "'w service_env \<Rightarrow> int \<Rightarrow> bridge_result \<Rightarrow> ('w service, confirmation_result) ioe" where
  "create_confirm_dependency env baseline r =
     run_confirmation env baseline (br_message_hash r) (create_on_message_ready_handler env r)"

definition record_event :: "bridge_metric_event \<Rightarrow> 'w service \<Rightarrow> 'w service" where
  "record_event e s = s\<lparr>sv_ops := record_bridge_event e (sv_ops s)\<rparr>"

definition create_on_bridge_submitted_dependency ::
    "'w service_env \<Rightarrow> int \<Rightarrow> bridge_result \<Rightarrow> ('w service, unit) ioe" where
  "create_on_bridge_submitted_dependency env baseline r s =
     db_write env baseline r (record_event EvSubmitted s)"

definition status_event :: "confirmation_status \<Rightarrow> bridge_metric_event" where
  "status_event st = (case st of Confirmed \<Rightarrow> EvConfirmed | TimedOut \<Rightarrow> EvTimeout | Aborted \<Rightarrow> EvAborted)"

definition create_on_bridge_settled_dependency ::
    "'w service_env \<Rightarrow> int \<Rightarrow> bridge_result \<Rightarrow> confirmation_result \<Rightarrow> ('w service, unit) ioe" where
  "create_on_bridge_settled_dependency env baseline r confirmation s =
     (let s1 = record_event (status_event (cr_status confirmation)) s in
      if cr_status confirmation \<noteq> Confirmed then (Inr (), s1) else (Inr (), snd (db_clear env s1)))"

definition build_checker_dependencies :: "'w service_env \<Rightarrow> ('w service) checker_deps" where
  "build_checker_dependencies env = \<lparr>
     kd_get_balance = create_get_balance_dependency env,
     kd_bridge = (\<lambda>amount. bridge_fee_juice (se_bridge_deps env) (tp_l1_rpc_url (se_config env))
        (se_l1_chain_id env) (rs_value (tp_private_key (se_config env))) (se_target_address env) amount),
     kd_confirm = create_confirm_dependency env,
     kd_on_bridge_submitted = create_on_bridge_submitted_dependency env,
     kd_on_bridge_settled = create_on_bridge_settled_dependency env,
     kd_on_bridge_failed = (\<lambda>e s. (Inr (), record_event EvFailed s))\<rparr>"

section \<open>The cycle\<close>

definition RECONCILIATION_MAX_AGE_MS :: int where
  "RECONCILIATION_MAX_AGE_MS = 24 * 60 * 60 * 1000"

text \<open>The claim that reconciliation makes of a persisted bridge.\<close>

definition persisted_bridge_result :: "persisted_submission \<Rightarrow> bridge_result" where
  "persisted_bridge_result p = \<lparr>br_amount = dec_value (ps_amount p), br_claim_secret = ps_claim_secret p,
     br_claim_secret_hash = ps_claim_secret_hash p, br_message_hash = ps_message_hash p,
     br_message_leaf_index = dec_value (ps_message_leaf_index p),
     br_submitted_at_ms = ps_submitted_at_ms p\<rparr>"

definition service_reconcile_options :: "'w service_env \<Rightarrow> ('w service) reconcile_options" where
  "service_reconcile_options env = \<lparr>ro_read = db_read env, ro_clear = db_clear env, ro_now = se_now env,
     ro_max_age_ms = Some RECONCILIATION_MAX_AGE_MS,
     ro_confirm = (\<lambda>baseline p. run_confirmation env baseline (ps_message_hash p)
        (if ps_claim_secret p = [] then None
         else create_on_message_ready_handler env (persisted_bridge_result p)))\<rparr>"

definition reconciliation_runner :: "'w service_env \<Rightarrow> ('w service, bool) ioe" where
  "reconciliation_runner env =
     bind_io (reconcile_persisted_bridge_state (service_reconcile_options env)) (\<lambda>outcome.
     return_io (if outcome = RecTimeout then False else outcome \<noteq> RecAborted))"

definition service_checker_config :: "'w service_env \<Rightarrow> checker_config" where
  "service_checker_config env =
     \<lparr>kc_threshold = dec_value (tc_threshold (tp_parsed (se_config env))),
      kc_top_up_amount = dec_value (tc_top_up_amount (tp_parsed (se_config env)))\<rparr>"

text \<open>One cycle, when none is in flight; an error of the reconciliation is logged.\<close>

definition run_cycle :: "'w service_env \<Rightarrow> 'w service \<Rightarrow> 'w service" where
  "run_cycle env s =
     (if sv_aborted s then s
      else case reconciliation_runner env s of
        (Inl e, s1) \<Rightarrow> s1
      | (Inr go_on, s1) \<Rightarrow>
          if \<not> go_on then s1
          else check_and_top_up (service_checker_config env) (build_checker_dependencies env) s1)"

fun run_cycles :: "nat \<Rightarrow> 'w service_env \<Rightarrow> 'w service \<Rightarrow> 'w service" where
  "run_cycles 0 env s = s"
| "run_cycles (Suc n) env s = run_cycles n env (run_cycle env s)"

section \<open>Start and shutdown\<close>

definition parse_non_zero_address :: "aztec_lib \<Rightarrow> string \<Rightarrow> string \<Rightarrow> thrown + int" where
  "parse_non_zero_address lib raw label =
     and_then (address_from_string lib raw) (\<lambda>a.
     if a = 0 then Inl (error (''Invalid '' @ label @ '': zero address is not allowed'')) else Inr a)"

definition resolve_service_addresses ::
    "aztec_lib \<Rightarrow> process_env \<Rightarrow> topup_config \<Rightarrow> thrown + (int \<times> int)" where
  "resolve_service_addresses lib env cfg =
     and_then (parse_non_zero_address lib (tc_fpc_address (tp_parsed cfg)) ''fpc_address'') (\<lambda>fpc.
     and_then (parse_non_zero_address lib
        (case trimmed_opt (env ''TOPUP_FEE_JUICE_RECIPIENT_ADDRESS'') of
           Some t \<Rightarrow> t | None \<Rightarrow> tc_fpc_address (tp_parsed cfg))
        ''TOPUP_FEE_JUICE_RECIPIENT_ADDRESS'') (\<lambda>target.
     Inr (fpc, target)))"

record node_info =
  ni_l1_chain_id :: int
  ni_fee_juice_portal :: int
  ni_fee_juice :: int

text \<open>\<open>assertL1RpcChainIdMatches\<close> of \<open>l1.ts\<close>.\<close>

definition assert_l1_rpc_chain_id_matches ::
    "('w, int) ioe \<Rightarrow> string \<Rightarrow> int \<Rightarrow> ('w, unit) ioe" where
  "assert_l1_rpc_chain_id_matches get_chain_id url expected_id =
     bind_io get_chain_id (\<lambda>rpc_id.
     if rpc_id \<noteq> expected_id
     then throw_io (error (''L1 chain mismatch: aztec node expects chain_id='' @ bigint_string expected_id @
       '', but RPC '' @ url @ '' reports chain_id='' @ bigint_string rpc_id))
     else return_io ())"

definition resolve_node_chain_info ::
    "('w, node_info) ioe \<Rightarrow> (string \<Rightarrow> ('w, int) ioe) \<Rightarrow> topup_config \<Rightarrow> ('w, node_info) ioe" where
  "resolve_node_chain_info get_node_info get_chain_id cfg =
     bind_io get_node_info (\<lambda>info.
     if ni_l1_chain_id info \<le> 0
     then throw_io (error (''Node info returned invalid l1ChainId='' @ bigint_string (ni_l1_chain_id info)))
     else if ni_fee_juice_portal info = 0
     then throw_io (error ''Node info returned zero l1ContractAddresses.feeJuicePortalAddress'')
     else if ni_fee_juice info = 0
     then throw_io (error ''Node info returned zero l1ContractAddresses.feeJuiceAddress'')
     else bind_io (assert_l1_rpc_chain_id_matches (get_chain_id (tp_l1_rpc_url cfg)) (tp_l1_rpc_url cfg)
            (ni_l1_chain_id info)) (\<lambda>_. return_io info))"

text \<open>The signal handler, and its end once the cycle in flight has finished.\<close>

definition request_shutdown :: "'w service \<Rightarrow> 'w service" where
  "request_shutdown s =
     (if sv_aborted s then s
      else (request_stop s)\<lparr>sv_ops := mark_shutdown_requested (sv_ops s), sv_aborted := True\<rparr>)"

definition finish_shutdown :: "'w service \<Rightarrow> 'w service" where
  "finish_shutdown s = s\<lparr>sv_lock := release_process_lock (sv_lock s)\<rparr>"

section \<open>Facts\<close>

text \<open>What an operation of the outside world leaves alone when nothing else runs meanwhile.\<close>

definition same_service :: "'w service \<Rightarrow> 'w service \<Rightarrow> bool" where
  "same_service s t \<longleftrightarrow> ck_in_flight t = ck_in_flight s \<and> ck_stopping t = ck_stopping s \<and>
     sv_db t = sv_db s \<and> sv_ops t = sv_ops s \<and> sv_aborted t = sv_aborted s"

lemma reconcile_nothing: "sv_db s = None \<Longrightarrow> reconciliation_runner env s = (Inr True, s)"
  by (simp add: reconciliation_runner_def reconcile_persisted_bridge_state_def service_reconcile_options_def
      db_read_def store_read_def bind_io_def return_io_def)

lemma reconcile_entry:
  assumes "sv_db s = Some v" "store_read (se_data_dir env) (Some v) = Inr (Some p)"
    and "se_now env s - ps_submitted_at_ms p \<le> RECONCILIATION_MAX_AGE_MS"
    and "ro_confirm (service_reconcile_options env) (dec_value (ps_baseline_balance p)) p s = (r, s1)"
    and "se_remove_error env s1 = None"
  shows "reconciliation_runner env s = (case r of
      Inl e \<Rightarrow> (Inl e, s1)
    | Inr res \<Rightarrow> if cr_status res = Confirmed then (Inr True, s1\<lparr>sv_db := None\<rparr>) else (Inr False, s1))"
proof -
  have "ro_read (service_reconcile_options env) s = (Inr (Some p), s)"
    using assms(1,2) by (simp add: service_reconcile_options_def db_read_def)
  moreover have "\<not> too_old (ro_max_age_ms (service_reconcile_options env)) (ro_now (service_reconcile_options env) s) p"
    using assms(3) by (simp add: service_reconcile_options_def too_old_def)
  moreover have "ro_clear (service_reconcile_options env) s1 = (Inr (), s1\<lparr>sv_db := None\<rparr>)"
    using assms(5) by (simp add: service_reconcile_options_def db_clear_def store_clear_def)
  ultimately show ?thesis using assms(4)
    by (cases r) (auto simp: reconciliation_runner_def reconcile_persisted_bridge_state_def bind_io_def
        return_io_def split: confirmation_status.split)
qed

lemma store_read_wf:
  "store_read dir (Some v) = Inr (Some p) \<Longrightarrow> persisted_wf p"
  by (auto simp: store_read_def and_then_Inr_iff assert_persisted_iff)

text \<open>One cycle whose record cannot be written.\<close>

lemma one_failing_cycle:
  assumes put: "\<And>t. se_put_error env t = Some e"
    and bal: "\<And>t. \<exists>b t'. se_get_balance env (se_target_address env) t = (Inr b, t') \<and>
        b < kc_threshold (service_checker_config env) \<and> same_service t t'"
    and bridge: "\<And>t. \<exists>r t'. kd_bridge (build_checker_dependencies env)
        (kc_top_up_amount (service_checker_config env)) t = (Inr r, t') \<and> same_service t t'"
    and s: "sv_db s = None" "\<not> ck_in_flight s" "\<not> ck_stopping s" "\<not> sv_aborted s"
  shows "sv_db (run_cycle env s) = None \<and> \<not> ck_in_flight (run_cycle env s) \<and>
      \<not> ck_stopping (run_cycle env s) \<and> \<not> sv_aborted (run_cycle env s) \<and>
      event_total (sv_ops (run_cycle env s)) EvSubmitted = event_total (sv_ops s) EvSubmitted + 1 \<and>
      event_total (sv_ops (run_cycle env s)) EvFailed = event_total (sv_ops s) EvFailed + 1"
proof -
  let ?deps = "build_checker_dependencies env"
  from bal obtain b s1 where g: "se_get_balance env (se_target_address env) s = (Inr b, s1)"
    and low: "b < kc_threshold (service_checker_config env)" and same1: "same_service s s1" by blast
  define s2 where "s2 = s1\<lparr>sv_ops := record_balance_check_success (se_now env s1) (sv_ops s1), ck_in_flight := True\<rparr>"
  from bridge obtain r s3 where
    br: "kd_bridge ?deps (kc_top_up_amount (service_checker_config env)) s2 = (Inr r, s3)"
    and same3: "same_service s2 s3" by blast
  have exec: "execute_bridge_and_confirmation (service_checker_config env) ?deps b s2 =
      (Inl e, record_event EvSubmitted s3)"
    using br put by (simp add: execute_bridge_and_confirmation_def bind_io_def build_checker_dependencies_def
        create_on_bridge_submitted_dependency_def db_write_def)
  have "check_and_top_up (service_checker_config env) ?deps s =
      (record_event EvFailed (record_event EvSubmitted s3))\<lparr>ck_in_flight := False\<rparr>"
    using g low same1 s exec
    by (simp add: check_and_top_up_def should_skip_check_def should_submit_bridge_def same_service_def
        build_checker_dependencies_def create_get_balance_dependency_def handle_bridge_failure_def s2_def)
  then have cyc: "run_cycle env s = (record_event EvFailed (record_event EvSubmitted s3))\<lparr>ck_in_flight := False\<rparr>"
    using reconcile_nothing [OF s(1), of env] s(4) by (simp add: run_cycle_def)
  show ?thesis
    using same1 same3 s unfolding cyc
    by (auto simp: same_service_def s2_def record_event_def record_bridge_event_def event_total_def
        record_balance_check_success_def)
qed

text \<open>A service whose balance stays at 5 and whose bridges are never confirmed; \<open>put_error\<close> is the LMDB failure.\<close>

definition demo_topup_config :: topup_config where
  "demo_topup_config = \<lparr>tp_parsed = \<lparr>tc_runtime_profile = Development, tc_fpc_address = demo_hex (CHR ''1''),
      tc_aztec_node_url = None, tc_l1_rpc_url = None, tc_secret_provider = ProviderAuto, tc_secret_ref = None,
      tc_private_key = None, tc_threshold = ''100'', tc_top_up_amount = ''500'', tc_data_dir = ''d'', tc_ops_port = 3001,
      tc_check_interval_ms = 60000, tc_confirmation_timeout_ms = 0, tc_poll_initial_ms = 1000,
      tc_poll_max_ms = 15000\<rparr>, tp_runtime_profile = Development, tp_aztec_node_url = ''n'',
    tp_l1_rpc_url = ''l'', tp_data_dir = ''d'', tp_ops_port = 3001,
    tp_private_key = \<lparr>rs_value = ''k'', rs_source = SourceEnv, rs_provider = ProviderAuto, rs_dual_source = False\<rparr>\<rparr>"

definition demo_service_env :: "thrown option \<Rightarrow> unit service_env" where
  "demo_service_env put_error = \<lparr>se_data_dir = ''d'', se_now = (\<lambda>_. 50), se_get_balance = (\<lambda>_ s. (Inr 5, s)),
     se_bridge_deps = \<lparr>bd_extract_chain = (\<lambda>_. Inr ()), bd_create_client = (\<lambda>_ _. Inr ()),
       bd_create_portal_manager = (\<lambda>w. (Inr (), w)),
       bd_bridge_tokens_public = (\<lambda>_ m w. (Inr \<lparr>lc_claim_amount = m, lc_claim_secret = 1,
          lc_claim_secret_hash = 2, lc_message_hash = demo_hex (CHR ''c''), lc_message_leaf_index = 3\<rparr>, w)),
       bd_sleep = (\<lambda>_ w. w), bd_now = (\<lambda>w. (40, w)), bd_fr_to_string = (\<lambda>_. demo_hex (CHR ''a''))\<rparr>,
     se_confirm_env = \<lparr>cf_now = (\<lambda>_. 50), cf_aborted = (\<lambda>_. False), cf_get_balance = (\<lambda>s. (Inr 0, s)),
       cf_sleep = (\<lambda>_ s. (False, s)), cf_settle = (\<lambda>s. s), cf_fr_from_hex = (\<lambda>_. Inl (error ''no hash'')),
       cf_start_wait = (\<lambda>_ _ s. s), cf_wait_outcome = (\<lambda>_. None), cf_on_message_ready = None\<rparr>,
     se_claim = None, se_put_error = (\<lambda>_. put_error), se_remove_error = (\<lambda>_. None),
     se_target_address = 9, se_l1_chain_id = 1, se_config = demo_topup_config\<rparr>"

definition demo_service :: "bridge_db \<Rightarrow> unit service" where
  "demo_service db = \<lparr>ck_in_flight = False, ck_stopping = False, sv_db = db, sv_ops = new_ops_state 1000 0,
     sv_lock = LockAbsent, sv_aborted = False, sv_world = ()\<rparr>"

lemma demo_times_out:
  assumes "5 \<le> b" "\<not> sv_aborted s"
  shows "\<exists>res. run_confirmation (demo_service_env pe) b h on_ready s = (Inr res, s) \<and> cr_status res = TimedOut"
  using assms by (simp add: run_confirmation_def wait_for_fee_juice_bridge_confirmation_def
      start_message_readiness_check_def create_confirmation_state_def demo_service_env_def demo_topup_config_def
      poll_until_confirmed.simps poll_iteration_def settle_message_check_def maybe_run_message_ready_action_def
      poll_balance_once_def wait_for_next_poll_def absorb_def build_result_def Let_def split: option.split)

lemma demo_decimals: "dec_value ''100'' = 100" "dec_value ''500'' = 500"
  by code_simp+

lemma demo_service_config:
  "service_checker_config (demo_service_env pe) = \<lparr>kc_threshold = 100, kc_top_up_amount = 500\<rparr>"
  by (simp add: service_checker_config_def demo_service_env_def demo_topup_config_def demo_decimals)

definition demo_submitted :: bridge_result where
  "demo_submitted = \<lparr>br_amount = 500, br_claim_secret = demo_hex (CHR ''a''),
     br_claim_secret_hash = demo_hex (CHR ''a''), br_message_hash = demo_hex (CHR ''c''),
     br_message_leaf_index = 3, br_submitted_at_ms = 40\<rparr>"

lemma demo_submitted_wf: "bridge_result_wf demo_submitted"
  by (simp add: bridge_result_wf_def demo_submitted_def demo_hex_word is_hex_digit_def code_of_def)

lemma demo_bridges: "kd_bridge (build_checker_dependencies (demo_service_env pe)) 500 t = (Inr demo_submitted, t)"
  by (simp add: build_checker_dependencies_def demo_service_env_def bridge_fee_juice_def bind_io_def from_pure_def
      require_that_def submit_loop.simps MAX_NONCE_RETRY_ATTEMPTS_def bridge_result_of_def demo_submitted_def)

lemma demo_balance:
  "create_get_balance_dependency (demo_service_env pe) s =
     (Inr 5, s\<lparr>sv_ops := record_balance_check_success 50 (sv_ops s)\<rparr>)"
  by (simp add: create_get_balance_dependency_def demo_service_env_def)

section \<open>Properties\<close>

text \<open>
  C9. A bridge in flight blocks new ones. While the database holds a valid submission that is
  not older than a day, a cycle first confirms that submission; unless it is confirmed the
  cycle ends there, in the state the confirmation left, without reading the balance or
  bridging, and keeps the record. Only after a confirmation is the record cleared and the
  check run.
\<close>

theorem unresolved_bridge_blocks_cycle:
  assumes "sv_db s = Some v" "store_read (se_data_dir env) (Some v) = Inr (Some p)"
    and "se_now env s - ps_submitted_at_ms p \<le> 24 * 60 * 60 * 1000"
    and "\<not> sv_aborted s"
    and "run_confirmation env (dec_value (ps_baseline_balance p)) (ps_message_hash p)
           (create_on_message_ready_handler env (persisted_bridge_result p)) s = (r, s1)"
    and "se_remove_error env s1 = None"
  shows "run_cycle env s = (case r of
      Inl e \<Rightarrow> s1
    | Inr res \<Rightarrow> if cr_status res = Confirmed
        then check_and_top_up (service_checker_config env) (build_checker_dependencies env) (s1\<lparr>sv_db := None\<rparr>)
        else s1)"
proof -
  have "ps_claim_secret p \<noteq> []"
    using store_read_wf [OF assms(2)] by (auto simp: persisted_wf_def hex_word_def)
  then have "ro_confirm (service_reconcile_options env) (dec_value (ps_baseline_balance p)) p s = (r, s1)"
    using assms(5) by (simp add: service_reconcile_options_def)
  from reconcile_entry [OF assms(1,2) _ this assms(6)] assms(3,4) show ?thesis
    by (simp add: run_cycle_def RECONCILIATION_MAX_AGE_MS_def split: sum.split)
qed

lemma unresolved_bridge_blocks_cycle_witness:
  "\<exists>s1. run_cycle (demo_service_env None) (demo_service (store_write 7 demo_submitted None)) = s1 \<and>
     sv_db s1 = store_write 7 demo_submitted None"
proof -
  let ?env = "demo_service_env None" and ?s = "demo_service (store_write 7 demo_submitted None)"
  let ?p = "persisted_of 7 demo_submitted"
  have st: "store_read (se_data_dir ?env) (store_write 7 demo_submitted None) = Inr (Some ?p)"
    using lmdb_bridge.read_put [OF _ demo_submitted_wf, of 7] by simp
  have b: "dec_value (ps_baseline_balance ?p) = 7" by (simp add: persisted_of_def bigint_roundtrip)
  obtain res where c: "run_confirmation ?env (dec_value (ps_baseline_balance ?p)) (ps_message_hash ?p)
      (create_on_message_ready_handler ?env (persisted_bridge_result ?p)) ?s = (Inr res, ?s)"
    and t: "cr_status res = TimedOut"
    using demo_times_out [of 7 ?s None "ps_message_hash ?p"
      "create_on_message_ready_handler ?env (persisted_bridge_result ?p)"]
    by (auto simp only: b) (auto simp: demo_service_def)
  have "run_cycle ?env ?s = ?s"
    using unresolved_bridge_blocks_cycle [OF _ st [unfolded store_write_def] _ _ c] t
    by (simp add: demo_service_def store_write_def demo_service_env_def persisted_of_def demo_submitted_def)
  then show ?thesis by (simp add: demo_service_def)
qed

text \<open>
  C10. A submitted bridge is not forgotten: when the bridge of a check succeeds and its record
  can be written, then after the check the database holds nothing if the confirmation
  succeeded and otherwise (timeout, abort or an error during confirmation) a record from
  which the next cycle or the next start recovers the baseline, the amount, the claim
  secret and the message of exactly that bridge.
\<close>

theorem submitted_bridge_is_recorded:
  assumes "\<not> ck_stopping s" "\<not> ck_in_flight s"
    and "create_get_balance_dependency env s = (Inr b, s1)" "0 \<le> b"
    and "b < kc_threshold (service_checker_config env)" "\<not> ck_stopping s1"
    and "kd_bridge (build_checker_dependencies env) (kc_top_up_amount (service_checker_config env))
           (s1\<lparr>ck_in_flight := True\<rparr>) = (Inr r, s2)" "bridge_result_wf r"
    and "se_put_error env (record_event EvSubmitted s2) = None"
    and "create_confirm_dependency env b r ((record_event EvSubmitted s2)\<lparr>sv_db := store_write b r (sv_db s2)\<rparr>) = (c, s3)"
    and "sv_db s3 = store_write b r (sv_db s2)" "\<And>t. se_remove_error env t = None"
    and "s' = check_and_top_up (service_checker_config env) (build_checker_dependencies env) s"
  shows "\<not> ck_in_flight s' \<and>
    (if \<exists>res. c = Inr res \<and> cr_status res = Confirmed then sv_db s' = None
     else \<exists>p. store_read (se_data_dir env) (sv_db s') = Inr (Some p) \<and>
       dec_value (ps_baseline_balance p) = b \<and> persisted_bridge_result p = r)"
proof -
  have rd: "store_read (se_data_dir env) (store_write b r db) = Inr (Some (persisted_of b r))" for db
    by (rule lmdb_bridge.read_put [OF assms(4,8)])
  have rt: "dec_value (ps_baseline_balance (persisted_of b r)) = b" "persisted_bridge_result (persisted_of b r) = r"
    using assms(4,8) by (simp_all add: persisted_of_def bigint_roundtrip persisted_bridge_result_def bridge_result_wf_def)
  have ops: "sv_db (record_event e t) = sv_db t" for e and t :: "'a service" by (simp add: record_event_def)
  have run: "execute_bridge_and_confirmation (service_checker_config env) (build_checker_dependencies env) b
      (s1\<lparr>ck_in_flight := True\<rparr>) = (case c of Inl e \<Rightarrow> (Inl e, s3)
        | Inr res \<Rightarrow> create_on_bridge_settled_dependency env b r res s3)"
    using assms(7,9,10)
    by (cases c) (simp_all add: execute_bridge_and_confirmation_def bind_io_def build_checker_dependencies_def
        create_on_bridge_submitted_dependency_def db_write_def ops)
  have s': "s' = (case c of Inl e \<Rightarrow> (record_event EvFailed s3)\<lparr>ck_in_flight := False\<rparr>
      | Inr res \<Rightarrow> (snd (create_on_bridge_settled_dependency env b r res s3))\<lparr>ck_in_flight := False\<rparr>)"
    unfolding assms(13) using assms(1-3,5,6) run
    by (cases c) (auto simp: check_and_top_up_def should_skip_check_def should_submit_bridge_def
        build_checker_dependencies_def handle_bridge_failure_def create_on_bridge_settled_dependency_def Let_def
        split: prod.splits)
  show ?thesis
    using assms(11,12) rd rt
    by (cases c) (auto simp: s' ops create_on_bridge_settled_dependency_def Let_def db_clear_def store_clear_def)
qed

lemma submitted_bridge_is_recorded_witness:
  "\<exists>p. store_read ''d'' (sv_db (check_and_top_up (service_checker_config (demo_service_env None))
       (build_checker_dependencies (demo_service_env None)) (demo_service None))) = Inr (Some p) \<and>
     dec_value (ps_baseline_balance p) = 5 \<and> persisted_bridge_result p = demo_submitted"
proof -
  let ?env = "demo_service_env None" and ?s = "demo_service None"
  define s1 where "s1 = ?s\<lparr>sv_ops := record_balance_check_success 50 (sv_ops ?s)\<rparr>"
  define s3 where "s3 = (record_event EvSubmitted (s1\<lparr>ck_in_flight := True\<rparr>))\<lparr>sv_db := store_write 5 demo_submitted None\<rparr>"
  have s1: "sv_db s1 = None" "\<not> ck_stopping s1" "\<not> sv_aborted s3"
    by (simp_all add: s1_def s3_def demo_service_def record_event_def)
  obtain res where c: "create_confirm_dependency ?env 5 demo_submitted s3 = (Inr res, s3)"
    and t: "cr_status res = TimedOut"
    using demo_times_out [OF order_refl s1(3), of None "br_message_hash demo_submitted"
      "create_on_message_ready_handler ?env demo_submitted"]
    by (auto simp: create_confirm_dependency_def)
  have b: "create_get_balance_dependency ?env ?s = (Inr 5, s1)" by (simp add: demo_balance s1_def)
  have k: "kd_bridge (build_checker_dependencies ?env) (kc_top_up_amount (service_checker_config ?env))
      (s1\<lparr>ck_in_flight := True\<rparr>) = (Inr demo_submitted, s1\<lparr>ck_in_flight := True\<rparr>)"
    by (simp add: demo_service_config demo_bridges)
  have free: "se_put_error ?env t = None" "se_remove_error ?env t = None" for t by (simp_all add: demo_service_env_def)
  have c': "create_confirm_dependency ?env 5 demo_submitted ((record_event EvSubmitted (s1\<lparr>ck_in_flight := True\<rparr>))
      \<lparr>sv_db := store_write 5 demo_submitted (sv_db (s1\<lparr>ck_in_flight := True\<rparr>))\<rparr>) = (Inr res, s3)"
    using c by (simp add: s3_def s1(1))
  have "sv_db s3 = store_write 5 demo_submitted (sv_db (s1\<lparr>ck_in_flight := True\<rparr>))" by (simp add: s3_def s1(1))
  from submitted_bridge_is_recorded [OF _ _ b _ _ s1(2) k demo_submitted_wf free(1) c' this free(2) refl] t
  show ?thesis by (simp add: demo_service_config demo_service_def) (simp add: demo_service_env_def)
qed

text \<open>
  C40. A failing write of the record loses the bridge. The comment in the code expects the
  service to crash and reconcile; in fact the checker catches the error, counts a failure
  and returns, the database stays empty, reconciliation finds nothing, and every following
  cycle bridges the full amount again while the balance is still low.
\<close>

theorem failed_write_bridges_every_cycle:
  assumes put: "\<And>t. se_put_error env t = Some e"
    and bal: "\<And>t. \<exists>b t'. se_get_balance env (se_target_address env) t = (Inr b, t') \<and>
        b < kc_threshold (service_checker_config env) \<and> same_service t t'"
    and bridge: "\<And>t. \<exists>r t'. kd_bridge (build_checker_dependencies env)
        (kc_top_up_amount (service_checker_config env)) t = (Inr r, t') \<and> same_service t t'"
    and s: "sv_db s = None" "\<not> ck_in_flight s" "\<not> ck_stopping s" "\<not> sv_aborted s"
  shows "event_total (sv_ops (run_cycles n env s)) EvSubmitted = event_total (sv_ops s) EvSubmitted + n \<and>
    event_total (sv_ops (run_cycles n env s)) EvFailed = event_total (sv_ops s) EvFailed + n \<and>
    sv_db (run_cycles n env s) = None \<and> \<not> ck_in_flight (run_cycles n env s)"
  using s
proof (induction n arbitrary: s)
  case 0
  then show ?case by simp
next
  case (Suc n)
  have step: "sv_db (run_cycle env s) = None \<and> \<not> ck_in_flight (run_cycle env s) \<and>
      \<not> ck_stopping (run_cycle env s) \<and> \<not> sv_aborted (run_cycle env s) \<and>
      event_total (sv_ops (run_cycle env s)) EvSubmitted = event_total (sv_ops s) EvSubmitted + 1 \<and>
      event_total (sv_ops (run_cycle env s)) EvFailed = event_total (sv_ops s) EvFailed + 1"
    by (rule one_failing_cycle [OF put bal bridge Suc.prems])
  with Suc.IH [of "run_cycle env s"] show ?case by simp
qed

lemma failed_write_bridges_every_cycle_witness:
  "event_total (sv_ops (run_cycles 3 (demo_service_env (Some (error ''disk full''))) (demo_service None))) EvSubmitted = 3"
proof -
  let ?env = "demo_service_env (Some (error ''disk full''))"
  have put: "se_put_error ?env t = Some (error ''disk full'')" for t by (simp add: demo_service_env_def)
  have bal: "\<exists>b t'. se_get_balance ?env (se_target_address ?env) t = (Inr b, t') \<and>
      b < kc_threshold (service_checker_config ?env) \<and> same_service t t'" for t
    by (simp add: demo_service_config) (simp add: demo_service_env_def same_service_def)
  have bridge: "\<exists>r t'. kd_bridge (build_checker_dependencies ?env) (kc_top_up_amount (service_checker_config ?env)) t =
      (Inr r, t') \<and> same_service t t'" for t
    by (simp add: demo_service_config demo_bridges same_service_def)
  have zero: "event_total (sv_ops (demo_service None)) EvSubmitted = 0"
    by (simp add: demo_service_def event_total_def new_ops_state_def BRIDGE_EVENTS_def)
  have start: "sv_db (demo_service None) = None" "\<not> ck_in_flight (demo_service None)"
    "\<not> ck_stopping (demo_service None)" "\<not> sv_aborted (demo_service None)"
    by (simp_all add: demo_service_def)
  from failed_write_bridges_every_cycle [OF put bal bridge start, of 3] zero show ?thesis by simp
qed

end
