(* ===== verification/Topup_Main.thy ===== *)
theory Topup_Main
  imports Topup_Service
begin

text \<open>
  \<open>main\<close> of \<open>services/topup/src/index.ts\<close>: from the command line to the running loop. The
  configuration is loaded, the addresses and the L1 chain are checked, the process lock is
  taken, the auto-claimer is created and the ops server listens; then the first cycle runs and
  the timer starts one on every tick until a signal arrives.

  Until the signal handlers are registered nothing else of the process touches its state, so the
  calls of the start act on the outside world alone. The claim of the auto-claimer is the
  \<open>auto_claim\<close> of \<open>Topup_Autoclaim\<close>, whose closure state lives in the world of the service.
\<close>

type_synonym 'w running = "'w claim_state service"

record 'w topup_main_env =
  me_lib :: aztec_lib
  me_path_resolve :: "string \<Rightarrow> string"
  me_path_join :: "string \<Rightarrow> string \<Rightarrow> string"
  me_adapters :: secret_adapters
  me_penv :: process_env
  me_lock :: lock_env
  me_read_yaml :: "string \<Rightarrow> ('w, jsval) ioe"
  me_get_node_info :: "string \<Rightarrow> ('w, node_info) ioe"
  me_get_chain_id :: "string \<Rightarrow> ('w, int) ioe"
  me_open_database :: "string \<Rightarrow> ('w, unit) ioe"
  me_listen :: "string \<Rightarrow> int \<Rightarrow> ('w, unit) ioe"
  me_fee_juice_balance :: "string \<Rightarrow> int \<Rightarrow> ('w, int) ioe"
  me_autoclaim :: "string \<Rightarrow> 'w autoclaim_env"
  me_now :: "'w running \<Rightarrow> int"
  me_get_balance :: "string \<Rightarrow> int \<Rightarrow> ('w running, int) ioe"
  me_bridge_deps :: "string \<Rightarrow> 'w running bridge_deps"
  me_confirm_env :: "string \<Rightarrow> 'w running confirm_env"
  me_put_error :: "'w running \<Rightarrow> thrown option"
  me_remove_error :: "'w running \<Rightarrow> thrown option"

text \<open>
  The string argument of a call to the node is the node's URL. \<open>me_fee_juice_balance\<close> and
  \<open>me_get_balance\<close> are the same SDK call, during the start and while the service runs.
\<close>

section \<open>Start\<close>

text \<open>The argument after the first \<open>--config\<close>.\<close>

fun parse_config_path :: "string list \<Rightarrow> string" where
  "parse_config_path (a # b # rest) = (if a = ''--config'' then b else parse_config_path (b # rest))"
| "parse_config_path argv = ''config.yaml''"

definition auto_claim_enabled :: "process_env \<Rightarrow> bool" where
  "auto_claim_enabled penv \<longleftrightarrow> penv ''TOPUP_AUTOCLAIM_ENABLED'' \<noteq> Some ''0''"

definition outside :: "('w, 'a) ioe \<Rightarrow> ('w running, 'a) ioe" where
  "outside f s = (case f (cl_world (sv_world s)) of
     (r, w) \<Rightarrow> (r, s\<lparr>sv_world := (sv_world s)\<lparr>cl_world := w\<rparr>\<rparr>))"

fun profile_text :: "runtime_profile \<Rightarrow> string" where
  "profile_text Development = ''development''"
| "profile_text Test = ''test''"
| "profile_text Production = ''production''"

text \<open>The balance of the claimer is only read for the log; an error is ignored.\<close>

definition resolve_auto_claimer_state ::
    "'w topup_main_env \<Rightarrow> bool \<Rightarrow> topup_config \<Rightarrow> ('w, (topup_auto_claimer \<times> int option) option) ioe" where
  "resolve_auto_claimer_state env enabled cfg =
     (if \<not> enabled then return_io None
      else
        bind_io (create_topup_auto_claimer (me_autoclaim env (tp_aztec_node_url cfg)) (me_penv env)
          (Some (profile_text (tp_runtime_profile cfg)))) (\<lambda>m.
        catch_io
          (bind_io (me_fee_juice_balance env (tp_aztec_node_url cfg) (am_claimer_address m)) (\<lambda>b. return_io (Some (m, Some b))))
          (\<lambda>_. return_io (Some (m, None)))))"

definition initialize_service ::
    "'w topup_main_env \<Rightarrow> topup_config \<Rightarrow> ('w running, topup_auto_claimer option) ioe" where
  "initialize_service env cfg =
     bind_io (outside (resolve_auto_claimer_state env (auto_claim_enabled (me_penv env)) cfg)) (\<lambda>claimer s.
     bind_io (outside (me_listen env ''0.0.0.0'' (tp_ops_port cfg))) (\<lambda>_. return_io (map_option fst claimer))
       (s\<lparr>sv_ops := new_ops_state (tc_check_interval_ms (tp_parsed cfg)) (me_now env s)\<rparr>))"

text \<open>
  The stretch of \<open>main\<close> from the lock to the registration of the shutdown handlers;
  \<open>setup\<close> is the initialisation between them.
\<close>

definition start_locked ::
    "lock_env \<Rightarrow> string \<Rightarrow> ('w service, 'a) ioe \<Rightarrow> ('w service, 'a) ioe" where
  "start_locked lenv lock_path setup s =
     (case acquire_process_lock lenv lock_path (sv_lock s) of
        (Inl e, f) \<Rightarrow> (Inl e, s\<lparr>sv_lock := f\<rparr>)
      | (Inr _, f) \<Rightarrow> (case setup (s\<lparr>sv_lock := f\<rparr>) of
          (Inr x, s1) \<Rightarrow> (Inr x, s1)
        | (Inl e, s1) \<Rightarrow> (Inl e, s1\<lparr>sv_lock := release_process_lock (sv_lock s1)\<rparr>)))"

definition service_claim ::
    "'w topup_main_env \<Rightarrow> string \<Rightarrow> topup_auto_claimer \<Rightarrow> autoclaim_request \<Rightarrow> ('w running, string) ioe" where
  "service_claim env url m req s = (case auto_claim (me_autoclaim env url) m req (sv_world s) of
     (r, w) \<Rightarrow> (r, s\<lparr>sv_world := w\<rparr>))"

definition service_environment ::
    "'w topup_main_env \<Rightarrow> topup_config \<Rightarrow> int \<Rightarrow> node_info \<Rightarrow> topup_auto_claimer option \<Rightarrow> 'w claim_state service_env" where
  "service_environment env cfg target info claimer = (let url = tp_aztec_node_url cfg in
     \<lparr>se_data_dir = tp_data_dir cfg, se_now = me_now env, se_get_balance = me_get_balance env url,
      se_bridge_deps = me_bridge_deps env url, se_confirm_env = me_confirm_env env url,
      se_claim = map_option (service_claim env url) claimer,
      se_put_error = me_put_error env, se_remove_error = me_remove_error env,
      se_target_address = target, se_l1_chain_id = ni_l1_chain_id info, se_config = cfg\<rparr>)"

definition start_service :: "'w topup_main_env \<Rightarrow> string list \<Rightarrow> ('w running, 'w claim_state service_env) ioe" where
  "start_service env argv =
     bind_io (outside (me_read_yaml env (parse_config_path argv))) (\<lambda>raw.
     bind_io (from_pure (load_topup_config (me_lib env) (me_path_resolve env) (me_adapters env) (me_penv env) raw)) (\<lambda>cfg.
     bind_io (from_pure (resolve_service_addresses (me_lib env) (me_penv env) cfg)) (\<lambda>(fpc, target).
     bind_io (outside (resolve_node_chain_info (me_get_node_info env (tp_aztec_node_url cfg)) (me_get_chain_id env) cfg)) (\<lambda>info.
     bind_io (outside (me_open_database env (tp_data_dir cfg))) (\<lambda>_.
     bind_io (start_locked (me_lock env) (me_path_join env (tp_data_dir cfg) ''.topup.lock'') (initialize_service env cfg)) (\<lambda>claimer.
     return_io (service_environment env cfg target info claimer)))))))"

section \<open>The loop\<close>

text \<open>
  What happens after the start: the timer ticks and a signal arrives. A signal that arrives
  during a cycle is part of the cycle's awaits; its handler waits for the cycle and then ends the
  shutdown.
\<close>

datatype loop_event = Tick | Signal

definition run_tick :: "'w service_env \<Rightarrow> 'w service \<Rightarrow> 'w service" where
  "run_tick env s =
     (if sv_aborted s then s
      else let s1 = run_cycle env s in if sv_aborted s1 then finish_shutdown s1 else s1)"

definition receive_signal :: "'w service \<Rightarrow> 'w service" where
  "receive_signal s = (if sv_aborted s then s else finish_shutdown (request_shutdown s))"

fun serve_event :: "'w service_env \<Rightarrow> loop_event \<Rightarrow> 'w service \<Rightarrow> 'w service" where
  "serve_event env Tick s = run_tick env s"
| "serve_event env Signal s = receive_signal s"

definition run_service_loop :: "'w service_env \<Rightarrow> loop_event list \<Rightarrow> 'w service \<Rightarrow> 'w service" where
  "run_service_loop env evs s = fold (serve_event env) evs (run_tick env s)"

definition topup_main :: "'w topup_main_env \<Rightarrow> string list \<Rightarrow> loop_event list \<Rightarrow> ('w running, unit) ioe" where
  "topup_main env argv evs =
     bind_io (start_service env argv) (\<lambda>senv s. (Inr (), run_service_loop senv evs s))"

section \<open>Facts\<close>

lemma outside_Inr: "outside f s = (Inr x, s') \<longleftrightarrow>
    (\<exists>w. f (cl_world (sv_world s)) = (Inr x, w) \<and> s' = s\<lparr>sv_world := (sv_world s)\<lparr>cl_world := w\<rparr>\<rparr>)"
  by (auto simp: outside_def split: prod.splits)

lemma outside_same: "outside f s = (r, s') \<Longrightarrow> sv_lock s' = sv_lock s \<and> sv_db s' = sv_db s"
  by (auto simp: outside_def split: prod.splits)

lemma start_locked_Inr:
  "start_locked lenv path setup s = (Inr x, s') \<Longrightarrow> \<exists>t. setup t = (Inr x, s')"
  by (auto simp: start_locked_def split: prod.splits sum.splits)

lemma resolve_node_chain_info_Inr:
  assumes "resolve_node_chain_info get_info get_chain_id cfg w = (Inr info, w')"
  shows "0 < ni_l1_chain_id info \<and> ni_fee_juice_portal info \<noteq> 0 \<and> ni_fee_juice info \<noteq> 0 \<and>
    (\<exists>v. get_chain_id (tp_l1_rpc_url cfg) v = (Inr (ni_l1_chain_id info), w'))"
  using assms by (auto simp: resolve_node_chain_info_def assert_l1_rpc_chain_id_matches_def io_Inr_iff split: if_splits)

lemma resolve_service_addresses_Inr:
  "resolve_service_addresses lib penv cfg = Inr (fpc, target) \<Longrightarrow> fpc \<noteq> 0 \<and> target \<noteq> 0"
  by (auto simp: resolve_service_addresses_def parse_non_zero_address_def and_then_Inr_iff split: if_splits)

lemma initialize_service_Inr:
  assumes "initialize_service env cfg s = (Inr claimer, s')"
  obtains c w w' where "resolve_auto_claimer_state env (auto_claim_enabled (me_penv env)) cfg w = (Inr c, w')"
    "claimer = map_option fst c"
  using assms by (auto simp: initialize_service_def io_Inr_iff outside_Inr)

lemma resolve_auto_claimer_Inr:
  assumes "resolve_auto_claimer_state env enabled cfg w = (Inr c, w')"
  shows "if enabled then \<exists>m b v. c = Some (m, b) \<and> create_topup_auto_claimer (me_autoclaim env (tp_aztec_node_url cfg))
      (me_penv env) (Some (profile_text (tp_runtime_profile cfg))) w = (Inr m, v) else c = None"
proof (cases enabled)
  case False
  with assms show ?thesis by (simp add: resolve_auto_claimer_state_def io_Inr_iff)
next
  case True
  with assms obtain m v where m: "create_topup_auto_claimer (me_autoclaim env (tp_aztec_node_url cfg)) (me_penv env)
      (Some (profile_text (tp_runtime_profile cfg))) w = (Inr m, v)"
    and b: "catch_io (bind_io (me_fee_juice_balance env (tp_aztec_node_url cfg) (am_claimer_address m))
      (\<lambda>b. return_io (Some (m, Some b)))) (\<lambda>_. return_io (Some (m, None))) v = (Inr c, w')"
    by (auto simp: resolve_auto_claimer_state_def io_Inr_iff)
  from b have "\<exists>b. c = Some (m, b)"
    by (auto simp: catch_io_def bind_io_def return_io_def split: prod.splits sum.splits)
  with True m show ?thesis by auto
qed

lemma select_claimer_production:
  "select_claimer env key (Some ''production'') w = (Inr (a, src), w') \<Longrightarrow> src = ClaimerSecretKey"
  by (auto simp: select_claimer_def io_Inr_iff split: option.splits)

lemma create_in_production:
  assumes "create_topup_auto_claimer env penv (Some ''production'') w = (Inr m, w')"
  shows "am_claimer_source m = ClaimerSecretKey \<and> (\<exists>v v'. ae_get_contract env (am_claimer_address m) v = (Inr True, v'))"
proof -
  from assms obtain key a src v v' v'' where s: "select_claimer env key (Some ''production'') v = (Inr (a, src), v')"
    and p: "assert_published_claimer_account env a src ''production'' v' = (Inr (), v'')"
    and m: "am_claimer_address m = a" "am_claimer_source m = src"
    by (auto simp: create_topup_auto_claimer_def io_Inr_iff)
  from p have "ae_get_contract env a v' = (Inr True, v'')"
    by (auto simp: assert_published_claimer_account_def io_Inr_iff split: if_splits)
  with select_claimer_production [OF s] m show ?thesis by blast
qed

text \<open>Everything a successful start has checked.\<close>

lemma start_service_Inr:
  assumes "start_service env argv s = (Inr senv, s')"
  obtains raw cfg fpc target info claimer t t' v
  where "load_topup_config (me_lib env) (me_path_resolve env) (me_adapters env) (me_penv env) raw = Inr cfg"
    "resolve_service_addresses (me_lib env) (me_penv env) cfg = Inr (fpc, target)"
    "resolve_node_chain_info (me_get_node_info env (tp_aztec_node_url cfg)) (me_get_chain_id env) cfg v = (Inr info, t')"
    "initialize_service env cfg t = (Inr claimer, s')"
    "senv = service_environment env cfg target info claimer"
  using assms by (auto simp: start_service_def io_Inr_iff outside_Inr dest!: start_locked_Inr)


text \<open>
  In production the service claims only with a key of its own whose account the node has
  reported as deployed, and never with a test account.
\<close>

theorem production_claimer_is_deployed:
  assumes "start_service env argv s = (Inr senv, s')" "tp_runtime_profile (se_config senv) = Production"
  shows "se_claim senv = None \<or> (\<exists>m v v'. se_claim senv = Some (service_claim env (tp_aztec_node_url (se_config senv)) m) \<and>
    am_claimer_source m = ClaimerSecretKey \<and>
    ae_get_contract (me_autoclaim env (tp_aztec_node_url (se_config senv))) (am_claimer_address m) v = (Inr True, v'))"
  using assms(1)
proof (rule start_service_Inr)
  fix raw cfg fpc target info claimer t t' v
  assume init: "initialize_service env cfg t = (Inr claimer, s')"
    and senv: "senv = service_environment env cfg target info claimer"
  have prod: "tp_runtime_profile cfg = Production" using assms(2) by (simp add: senv service_environment_def Let_def)
  from init obtain c w w' where c: "resolve_auto_claimer_state env (auto_claim_enabled (me_penv env)) cfg w = (Inr c, w')"
    "claimer = map_option fst c" by (rule initialize_service_Inr)
  show ?thesis
  proof (cases "auto_claim_enabled (me_penv env)")
    case False
    with resolve_auto_claimer_Inr [OF c(1)] c(2) show ?thesis by (simp add: senv service_environment_def Let_def)
  next
    case True
    with resolve_auto_claimer_Inr [OF c(1)] prod obtain m b v1 where m: "c = Some (m, b)"
      "create_topup_auto_claimer (me_autoclaim env (tp_aztec_node_url cfg)) (me_penv env) (Some ''production'') w = (Inr m, v1)"
      by auto
    from create_in_production [OF m(2)] c(2) m(1) show ?thesis
      by (auto simp: senv service_environment_def Let_def)
  qed
qed

text \<open>A start in production; process 77 is alive.\<close>

definition demo_main_env :: "unit topup_main_env" where
  "demo_main_env = \<lparr>
     me_lib = demo_lib\<lparr>address_from_string := (\<lambda>_. Inr 5), fr_from_hex := (\<lambda>_. Inr 7)\<rparr>,
     me_path_resolve = (\<lambda>p. p), me_path_join = (\<lambda>p q. p @ ''/'' @ q), me_adapters = (\<lambda>_. None),
     me_penv = [''FPC_RUNTIME_PROFILE'' \<mapsto> ''production'', ''L1_OPERATOR_PRIVATE_KEY'' \<mapsto> demo_hex (CHR ''a''),
       ''TOPUP_AUTOCLAIM_SECRET_KEY'' \<mapsto> demo_hex (CHR ''1'')],
     me_lock = \<lparr>le_alive = (\<lambda>p. p = 77), le_pid = 12, le_mkdir = Inr (), le_write = Inr ()\<rparr>,
     me_read_yaml = (\<lambda>_ w. (Inr (JObject
       [(''fpc_address'', JString (demo_hex (CHR ''1''))), (''aztec_node_url'', JString ''http://n''),
        (''l1_rpc_url'', JString ''http://l''), (''threshold'', JString ''100''), (''top_up_amount'', JString ''500'')]), w)),
     me_get_node_info = (\<lambda>_ w. (Inr \<lparr>ni_l1_chain_id = 31, ni_fee_juice_portal = 2, ni_fee_juice = 3\<rparr>, w)),
     me_get_chain_id = (\<lambda>_ w. (Inr 31, w)), me_open_database = (\<lambda>_ w. (Inr (), w)), me_listen = (\<lambda>_ _ w. (Inr (), w)),
     me_fee_juice_balance = (\<lambda>_ _ w. (Inl (error ''timeout''), w)),
     me_autoclaim = (\<lambda>_. \<lparr>ae_lib = demo_lib\<lparr>address_from_string := (\<lambda>_. Inr 5), fr_from_hex := (\<lambda>_. Inr 7)\<rparr>,
       ae_fr_from_string = (\<lambda>_. Inr 3), ae_create_wallet = (\<lambda>w. (Inr (), w)), ae_get_contract = (\<lambda>a w. (Inr (a = 7), w)),
       ae_register_contract = (\<lambda>_ w. (Inr (), w)), ae_derive_signing_key = (\<lambda>k. k),
       ae_create_account = (\<lambda>k _ _ w. (Inr k, w)), ae_test_accounts = (\<lambda>w. (Inr [], w)),
       ae_send_claim = (\<lambda>_ _ _ _ _ _ _ w. (Inr ''tx'', w))\<rparr>),
     me_now = (\<lambda>_. 0), me_get_balance = (\<lambda>_ _ s. (Inr 1000, s)),
     me_bridge_deps = (\<lambda>_. \<lparr>bd_extract_chain = (\<lambda>_. Inr ()), bd_create_client = (\<lambda>_ _. Inr ()),
       bd_create_portal_manager = (\<lambda>w. (Inr (), w)), bd_bridge_tokens_public = (\<lambda>_ _ w. (Inl (error ''rpc''), w)),
       bd_sleep = (\<lambda>_ w. w), bd_now = (\<lambda>w. (0, w)), bd_fr_to_string = (\<lambda>_. [])\<rparr>),
     me_confirm_env = (\<lambda>_. \<lparr>cf_now = (\<lambda>_. 0), cf_aborted = (\<lambda>_. False), cf_get_balance = (\<lambda>s. (Inr 0, s)),
       cf_sleep = (\<lambda>_ s. (False, s)), cf_settle = (\<lambda>s. s), cf_fr_from_hex = (\<lambda>_. Inr 1),
       cf_start_wait = (\<lambda>_ _ s. s), cf_wait_outcome = (\<lambda>_. None), cf_on_message_ready = None\<rparr>),
     me_put_error = (\<lambda>_. None), me_remove_error = (\<lambda>_. None)\<rparr>"

definition demo_running :: "lock_file \<Rightarrow> unit running" where
  "demo_running l = \<lparr>ck_in_flight = False, ck_stopping = False, sv_db = None, sv_ops = new_ops_state 0 0, sv_lock = l,
     sv_aborted = False, sv_world = \<lparr>cl_sponsored_disabled = False, cl_world = ()\<rparr>\<rparr>"

lemma demo_start:
  obtains senv s' where "start_service demo_main_env [] (demo_running LockAbsent) = (Inr senv, s')"
    "tp_runtime_profile (se_config senv) = Production" "se_claim senv \<noteq> None"
proof -
  have "case fst (start_service demo_main_env [] (demo_running LockAbsent)) of Inl _ \<Rightarrow> False
    | Inr senv \<Rightarrow> tp_runtime_profile (se_config senv) = Production \<and> \<not> Option.is_none (se_claim senv)" by code_simp
  with that show ?thesis
    by (cases "start_service demo_main_env [] (demo_running LockAbsent)") (auto simp: Option.is_none_def split: sum.splits)
qed


theorem production_claimer_is_deployed_witness:
  "\<exists>senv s' m. start_service demo_main_env [] (demo_running LockAbsent) = (Inr senv, s') \<and>
     se_claim senv = Some (service_claim demo_main_env (tp_aztec_node_url (se_config senv)) m) \<and> am_claimer_address m = 7"
proof -
  obtain senv s' where run: "start_service demo_main_env [] (demo_running LockAbsent) = (Inr senv, s')"
    "tp_runtime_profile (se_config senv) = Production" "se_claim senv \<noteq> None" by (rule demo_start)
  from production_claimer_is_deployed [OF run(1,2)] run(3)
  obtain m v v' where m: "se_claim senv = Some (service_claim demo_main_env (tp_aztec_node_url (se_config senv)) m)"
    "ae_get_contract (me_autoclaim demo_main_env (tp_aztec_node_url (se_config senv))) (am_claimer_address m) v = (Inr True, v')"
    by blast
  from m(2) have "am_claimer_address m = 7" by (simp add: demo_main_env_def)
  with run(1) m(1) show ?thesis by blast
qed

text \<open>What the start does to the lock file.\<close>

lemma acquire_error_keeps:
  "acquire_process_lock lenv path f = (Inl e, f') \<Longrightarrow> f' = f"
  by (auto simp: acquire_process_lock_def lock_write_def split: sum.splits)

lemma start_locked_Inl:
  "start_locked lenv path setup s = (Inl e, s') \<Longrightarrow> sv_lock s' = sv_lock s \<or> sv_lock s' = LockAbsent"
  by (auto simp: start_locked_def release_process_lock_def dest!: acquire_error_keeps split: prod.splits sum.splits)

text \<open>A run that throws and leaves the lock file at \<open>l\<close>.\<close>

definition fails_with_lock :: "lock_file \<Rightarrow> (thrown + 'a) \<times> 'w running \<Rightarrow> bool" where
  "fails_with_lock l r \<longleftrightarrow> (\<exists>e s. r = (Inl e, s) \<and> sv_lock s = l)"

lemma fails_outside:
  "(\<And>x t. sv_lock t = l \<Longrightarrow> fails_with_lock l (k x t)) \<Longrightarrow> sv_lock s = l \<Longrightarrow> fails_with_lock l (bind_io (outside f) k s)"
  by (auto simp: bind_io_def fails_with_lock_def dest: outside_same split: prod.splits sum.splits)

lemma fails_pure:
  "(\<And>x. fails_with_lock l (k x s)) \<Longrightarrow> sv_lock s = l \<Longrightarrow> fails_with_lock l (bind_io (from_pure r) k s)"
  by (auto simp: bind_io_def fails_with_lock_def from_pure_def split: sum.splits)

lemma start_locked_blocked:
  assumes "sv_lock s = LockContent c" "lock_holder lenv c = Some p"
  shows "\<exists>e. start_locked lenv path setup s = (Inl e, s)"
  using assms by (simp add: start_locked_def acquire_process_lock_def lock_check_def)

text \<open>
  A start that fails leaves no lock behind that blocks the next one: the lock file is as it
  was before the start, or it is gone.
\<close>

theorem failed_start_keeps_lock:
  assumes "start_service env argv s = (Inl e, s')"
  shows "sv_lock s' = sv_lock s \<or> sv_lock s' = LockAbsent"
  using assms by (auto simp: start_service_def io_Inl_iff dest!: outside_same start_locked_Inl split: prod.splits)

text \<open>
  C12. A second instance never starts: while the lock file names a live process, the start fails
  and leaves the lock file as it is.
\<close>

theorem second_instance_refused:
  assumes "sv_lock s = LockContent c" "lock_holder (me_lock env) c = Some p"
  shows "\<exists>e s'. start_service env argv s = (Inl e, s') \<and> sv_lock s' = sv_lock s"
proof -
  have blocked: "fails_with_lock (sv_lock s) (bind_io (start_locked (me_lock env) path init) k t)"
    if "sv_lock t = sv_lock s" for path init k and t :: "'a running"
    using start_locked_blocked [of t c "me_lock env" p path init] assms that
    by (auto simp: fails_with_lock_def bind_io_def)
  have "fails_with_lock (sv_lock s) (start_service env argv s)"
    unfolding start_service_def by (auto intro!: fails_outside fails_pure blocked split: prod.split)
  then show ?thesis by (simp add: fails_with_lock_def)
qed

theorem second_instance_refused_witness:
  "\<exists>e s'. start_service demo_main_env [] (demo_running (LockContent (pid_line 77))) = (Inl e, s') \<and>
     sv_lock s' = LockContent (pid_line 77)"
proof -
  have "lock_holder (me_lock demo_main_env) (pid_line 77) = Some 77" by code_simp
  from second_instance_refused [OF _ this, of "demo_running (LockContent (pid_line 77))" "[]"]
  show ?thesis by (simp add: demo_running_def)
qed

theorem failed_start_keeps_lock_witness:
  "\<exists>e s'. start_service (demo_main_env\<lparr>me_listen := \<lambda>_ _ w. (Inl (error ''EADDRINUSE''), w)\<rparr>) [] (demo_running LockAbsent) = (Inl e, s') \<and>
     sv_lock s' = LockAbsent"
proof -
  let ?run = "start_service (demo_main_env\<lparr>me_listen := \<lambda>_ _ w. (Inl (error ''EADDRINUSE''), w)\<rparr>) [] (demo_running LockAbsent)"
  have "isl (fst ?run)" by code_simp
  then obtain e s' where run: "?run = (Inl e, s')" by (cases ?run) (auto simp: isl_def)
  with failed_start_keeps_lock [OF run] show ?thesis by (auto simp: demo_running_def)
qed

lemma aborted_serve: "sv_aborted s \<Longrightarrow> serve_event env ev s = s"
  by (cases ev) (simp_all add: run_tick_def receive_signal_def)

lemma aborted_fold: "sv_aborted s \<Longrightarrow> fold (serve_event env) evs s = s"
  by (induction evs) (simp_all add: aborted_serve)

lemma signal_aborts: "sv_aborted (receive_signal s)"
  by (simp add: receive_signal_def finish_shutdown_def request_shutdown_def request_stop_def)

text \<open>
  A shutdown is final: whatever ticks and signals follow the first signal, the service is
  left as the signal left it, so no cycle runs and nothing is bridged any more.
\<close>

theorem shutdown_is_final:
  "run_service_loop env (evs @ Signal # later) s = run_service_loop env (evs @ [Signal]) s"
  by (simp add: run_service_loop_def aborted_fold signal_aborts)

end
