(* ===== verification/Cli_Args.thy ===== *)
theory Cli_Args
  imports Prelude
begin

text \<open>
  The argument loop that the command-line tools share: a \<open>for\<close> over \<open>argv\<close> with a
  \<open>switch\<close> whose cases set a variable, take the next argument, print the usage or reject an
  unknown argument, and \<open>nextArg\<close>. A tool gives the table of its flags and the kind of error
  it throws; \<open>None\<close> is the help.
\<close>

datatype 'a flag =
    TakesValue "string \<Rightarrow> 'a \<Rightarrow> thrown + 'a"
  | Switch "'a \<Rightarrow> 'a"
  | Help

definition next_arg :: "(string \<Rightarrow> thrown) \<Rightarrow> string \<Rightarrow> string list \<Rightarrow> thrown + string" where
  "next_arg err flag rest = (case rest of
     [] \<Rightarrow> Inl (err (''Missing value for '' @ flag))
   | v # _ \<Rightarrow> if v = [] \<or> starts_with v ''--'' then Inl (err (''Missing value for '' @ flag)) else Inr v)"

fun parse_flags :: "(string \<Rightarrow> 'a flag option) \<Rightarrow> (string \<Rightarrow> thrown) \<Rightarrow> string list \<Rightarrow> 'a \<Rightarrow> thrown + 'a option" where
  "parse_flags table err [] a = Inr (Some a)"
| "parse_flags table err (arg # rest) a = (case table arg of
     None \<Rightarrow> Inl (err (''Unknown argument: '' @ arg))
   | Some Help \<Rightarrow> Inr None
   | Some (Switch f) \<Rightarrow> parse_flags table err rest (f a)
   | Some (TakesValue f) \<Rightarrow>
       and_then (next_arg err arg rest) (\<lambda>v. and_then (f v a) (\<lambda>b. parse_flags table err (tl rest) b)))"

text \<open>The truth value of a text that may be missing.\<close>

definition is_set :: "string option \<Rightarrow> bool" where
  "is_set v \<longleftrightarrow> v \<noteq> None \<and> v \<noteq> Some []"

text \<open>\<open>x ? f(x) : null\<close>.\<close>

definition if_set :: "(string \<Rightarrow> thrown + string) \<Rightarrow> string option \<Rightarrow> thrown + string option" where
  "if_set f v = (if is_set v then map_sum id Some (f (the v)) else Inr None)"

lemma map_Some: "map_sum id Some r = Inr y \<longleftrightarrow> (\<exists>x. r = Inr x \<and> y = Some x)"
  by (cases r) auto

lemma if_set_iff: "if_set f v = Inr r \<longleftrightarrow> (if is_set v then \<exists>x. f (the v) = Inr x \<and> r = Some x else r = None)"
  by (auto simp: if_set_def map_Some)

text \<open>What every flag keeps, an accepted run keeps.\<close>

lemma parse_flags_invariant:
  assumes step: "\<And>arg f v a b. table arg = Some (TakesValue f) \<Longrightarrow> f v a = Inr b \<Longrightarrow> I a \<Longrightarrow> I b"
    and switch: "\<And>arg f a. table arg = Some (Switch f) \<Longrightarrow> I a \<Longrightarrow> I (f a)"
    and run: "parse_flags table err argv a = Inr (Some b)" "I a"
  shows "I b"
  using run
proof (induction "length argv" arbitrary: argv a rule: less_induct)
  case less
  show ?case
  proof (cases argv)
    case Nil
    with less.prems show ?thesis by simp
  next
    case (Cons arg rest)
    with less.prems obtain f where f: "table arg = Some f" by (auto split: option.splits)
    show ?thesis
    proof (cases f)
      case (TakesValue g)
      with less.prems Cons f obtain v c where c: "g v a = Inr c" "parse_flags table err (tl rest) c = Inr (Some b)"
        by (auto simp: and_then_Inr_iff)
      moreover have "I c" using step f TakesValue c(1) less.prems(2) by blast
      ultimately show ?thesis using less.hyps [of "tl rest" c] Cons by simp
    next
      case (Switch g)
      with less.prems Cons f less.hyps [of rest "g a"] switch show ?thesis by simp
    next
      case Help
      with less.prems Cons f show ?thesis by simp
    qed
  qed
qed

end
