(* ===== verification/Deploy_Manifest.thy ===== *)
theory Deploy_Manifest
  imports Js_Values Aztec_Lib
begin

text \<open>
  The files that deployment writes and other tools read:
  \<open>contract-deployment/src/manifest-types.ts\<close>, \<open>manifest.ts\<close> and \<open>test-token-manifest.ts\<close>.

  A schema may throw, since its transformations call the SDK: its result is what it threw,
  the issues, or the value. A refinement also runs after a failed string check, as the schema
  library does, so \<open>new URL\<close> throws on text that is no URL. JSON numbers are finite, or too
  large for a double (\<open>NotFinite\<close>, positive). The file system is a map from resolved
  paths to the JSON values of the files: printing and parsing of JSON are not modelled.
\<close>

section \<open>Schemas that may throw\<close>

type_synonym 'a tschema = "jsval \<Rightarrow> thrown + (string list + 'a)"

record manifest_lib =
  ml_lib :: aztec_lib
  ml_eth_from_string :: "string \<Rightarrow> thrown + int"
  ml_eth_to_string :: "int \<Rightarrow> string"
  ml_date_parses :: "string \<Rightarrow> bool"
  ml_url_protocol :: "string \<Rightarrow> string option"
  ml_resolve :: "string \<Rightarrow> string"

definition val :: "thrown + (string list + 'a) \<Rightarrow> 'a" where
  "val r = parsed (projr r)"

definition issues_of :: "thrown + (string list + 'a) \<Rightarrow> thrown + string list" where
  "issues_of r = map_sum id issues r"

fun all_issues :: "(thrown + string list) list \<Rightarrow> thrown + string list" where
  "all_issues [] = Inr []"
| "all_issues (r # rs) = and_then r (\<lambda>es. and_then (all_issues rs) (\<lambda>fs. Inr (es @ fs)))"

text \<open>The fields are parsed in order; the first that throws ends the parse.\<close>

definition t_object :: "jsval \<Rightarrow> (thrown + string list) list \<Rightarrow> 'a \<Rightarrow> thrown + (string list + 'a)" where
  "t_object v rs x = (case v of
     JObject _ \<Rightarrow> and_then (all_issues rs) (\<lambda>es. Inr (if es = [] then Inr x else Inl es))
   | _ \<Rightarrow> Inr (Inl (expected ''object'' v)))"

definition t_optional :: "'a tschema \<Rightarrow> 'a option tschema" where
  "t_optional p v = (if v = JUndefined then Inr (Inr None) else map_sum id (map_sum id Some) (p v))"

definition t_string :: "(string \<Rightarrow> thrown + (string list + 'a)) \<Rightarrow> 'a tschema" where
  "t_string k v = (case v of JString s \<Rightarrow> k s | _ \<Rightarrow> Inr (Inl (expected ''string'' v)))"

definition zeros :: "string \<Rightarrow> bool" where
  "zeros s \<longleftrightarrow> list_all (\<lambda>c. c = CHR ''0'') s"

section \<open>Field types\<close>

definition aztec_address :: "manifest_lib \<Rightarrow> int tschema" where
  "aztec_address m = t_string (\<lambda>s.
     if \<not> hex_word 64 s then Inr (Inl [''expected 0x-prefixed 64-hex-char Aztec address''])
     else if zeros (drop 2 s) then Inr (Inl [''zero address not allowed''])
     else map_sum id Inr (address_from_string (ml_lib m) s))"

definition eth_address :: "manifest_lib \<Rightarrow> int tschema" where
  "eth_address m = t_string (\<lambda>s.
     if \<not> hex_word 40 s then Inr (Inl [''expected 0x-prefixed 40-hex-char EVM address''])
     else if zeros (drop 2 s) then Inr (Inl [''zero address not allowed''])
     else map_sum id Inr (ml_eth_from_string m s))"

definition tx_hash :: "string tschema" where
  "tx_hash = t_string (\<lambda>s.
     if \<not> hex_word 64 s then Inr (Inl [''expected 0x-prefixed 64-hex-char tx hash''])
     else if zeros (drop 2 s) then Inr (Inl [''zero hash not allowed''])
     else Inr (Inr s))"

text \<open>\<open>/^(?:0|[1-9][0-9]*|0x[0-9a-fA-F]+)$/\<close>, then \<open>Fr.fromHexString\<close> in either case.\<close>

definition hex_literal :: "string \<Rightarrow> bool" where
  "hex_literal s \<longleftrightarrow> starts_with s ''0x'' \<and> drop 2 s \<noteq> [] \<and> list_all is_hex_digit (drop 2 s)"

definition field_value :: "manifest_lib \<Rightarrow> int tschema" where
  "field_value m = t_string (\<lambda>s.
     if \<not> (uint_decimal s \<or> hex_literal s)
     then Inr (Inl [''expected decimal integer or 0x-prefixed hex field value''])
     else map_sum id Inr (fr_from_hex (ml_lib m) s))"

definition http_url :: "manifest_lib \<Rightarrow> string tschema" where
  "http_url m = t_string (\<lambda>s. case ml_url_protocol m s of
     None \<Rightarrow> Inl (Thrown ''TypeError'' ''Invalid URL'')
   | Some p \<Rightarrow> if p = ''http:'' \<or> p = ''https:'' then Inr (Inr s) else Inr (Inl [''expected http(s) URL'']))"

definition iso_timestamp :: "manifest_lib \<Rightarrow> string tschema" where
  "iso_timestamp m = t_string (\<lambda>s.
     if ml_date_parses m s then Inr (Inr s) else Inr (Inl [''expected ISO timestamp'']))"

definition safe_int_issues :: "int \<Rightarrow> string \<Rightarrow> js_number \<Rightarrow> string list" where
  "safe_int_issues lo low_message n =
     (if is_integer n then [] else [''Expected integer, received float'']) @
     (case n of Finite q \<Rightarrow> if q < of_int lo then [low_message] else [] | NotFinite \<Rightarrow> []) @
     (if is_integer n \<and> \<bar>number_value n\<bar> \<le> MAX_SAFE_INTEGER then [] else [''expected safe integer''])"

definition safe_int :: "int \<Rightarrow> string \<Rightarrow> int tschema" where
  "safe_int lo low_message v = (case v of
     JNum n \<Rightarrow> Inr (if safe_int_issues lo low_message n = [] then Inr (number_value n)
                     else Inl (safe_int_issues lo low_message n))
   | _ \<Rightarrow> Inr (Inl (expected ''number'' v)))"

definition positive_safe_int :: "int tschema" where
  "positive_safe_int = safe_int 1 ''Number must be greater than 0''"

definition non_negative_safe_int :: "int tschema" where
  "non_negative_safe_int = safe_int 0 ''Number must be greater than or equal to 0''"

definition decimal_uint :: "string tschema" where
  "decimal_uint = t_string (\<lambda>s.
     if uint_decimal s then Inr (Inr s) else Inr (Inl [''expected non-negative decimal integer'']))"

definition non_empty_text :: "string tschema" where
  "non_empty_text = t_string (\<lambda>s.
     if s = [] then Inr (Inl [''String must contain at least 1 character(s)'']) else Inr (Inr s))"

definition deploy_ok :: "unit tschema" where
  "deploy_ok v = Inr (if v = JString ''deploy_ok'' then Inr ()
     else Inl [''Invalid literal value, expected \"deploy_ok\"''])"

section \<open>The deployment manifest\<close>

record manifest_network =
  mn_node_url :: string
  mn_node_version :: string
  mn_l1_chain_id :: int
  mn_rollup_version :: int

record manifest_operator =
  mo_address :: int
  mo_pubkey_x :: int
  mo_pubkey_y :: int

record deploy_manifest =
  dm_generated_at :: string
  dm_network :: manifest_network
  dm_sponsored_fpc_address :: "int option"
  dm_deployer_address :: int
  dm_fpc :: int
  dm_operator :: manifest_operator
  dm_fpc_deploy :: string

definition network_schema :: "manifest_lib \<Rightarrow> manifest_network tschema" where
  "network_schema m v =
     (let u = http_url m (jfield ''node_url'' v); n = non_empty_text (jfield ''node_version'' v);
          c = positive_safe_int (jfield ''l1_chain_id'' v); r = positive_safe_int (jfield ''rollup_version'' v)
      in t_object v [issues_of u, issues_of n, issues_of c, issues_of r]
           \<lparr>mn_node_url = val u, mn_node_version = val n, mn_l1_chain_id = val c, mn_rollup_version = val r\<rparr>)"

definition required_addresses_schema :: "manifest_lib \<Rightarrow> int option tschema" where
  "required_addresses_schema m v =
     (let a = t_optional (aztec_address m) (jfield ''sponsored_fpc_address'' v) in t_object v [issues_of a] (val a))"

definition contracts_schema :: "manifest_lib \<Rightarrow> int tschema" where
  "contracts_schema m v = (let a = aztec_address m (jfield ''fpc'' v) in t_object v [issues_of a] (val a))"

definition operator_schema :: "manifest_lib \<Rightarrow> manifest_operator tschema" where
  "operator_schema m v =
     (let a = aztec_address m (jfield ''address'' v); x = field_value m (jfield ''pubkey_x'' v);
          y = field_value m (jfield ''pubkey_y'' v)
      in t_object v [issues_of a, issues_of x, issues_of y]
           \<lparr>mo_address = val a, mo_pubkey_x = val x, mo_pubkey_y = val y\<rparr>)"

definition tx_hashes_schema :: "string tschema" where
  "tx_hashes_schema v = (let h = tx_hash (jfield ''fpc_deploy'' v) in t_object v [issues_of h] (val h))"

definition deploy_manifest_schema :: "manifest_lib \<Rightarrow> deploy_manifest tschema" where
  "deploy_manifest_schema m v =
     (let s = deploy_ok (jfield ''status'' v); g = iso_timestamp m (jfield ''generated_at'' v);
          n = network_schema m (jfield ''network'' v);
          r = required_addresses_schema m (jfield ''aztec_required_addresses'' v);
          d = aztec_address m (jfield ''deployer_address'' v); c = contracts_schema m (jfield ''contracts'' v);
          ope = operator_schema m (jfield ''operator'' v); t = tx_hashes_schema (jfield ''tx_hashes'' v)
      in t_object v [issues_of s, issues_of g, issues_of n, issues_of r, issues_of d, issues_of c, issues_of ope, issues_of t]
           \<lparr>dm_generated_at = val g, dm_network = val n, dm_sponsored_fpc_address = val r, dm_deployer_address = val d,
            dm_fpc = val c, dm_operator = val ope, dm_fpc_deploy = val t\<rparr>)"

text \<open>\<open>schema.parse\<close>: issues become a \<open>ZodError\<close>.\<close>

definition t_parse :: "'a tschema \<Rightarrow> jsval \<Rightarrow> thrown + 'a" where
  "t_parse p v = and_then (p v) (\<lambda>r. map_sum (\<lambda>es. Thrown ''ZodError'' (concat es)) id r)"

definition validate_deploy_manifest :: "manifest_lib \<Rightarrow> jsval \<Rightarrow> thrown + deploy_manifest" where
  "validate_deploy_manifest m = t_parse (deploy_manifest_schema m)"

text \<open>\<open>JSON.stringify\<close>: addresses and fields print themselves, an absent field is left out.\<close>

definition jint :: "int \<Rightarrow> jsval" where
  "jint i = JNum (Finite (of_int i))"

definition address_json :: "manifest_lib \<Rightarrow> int \<Rightarrow> jsval" where
  "address_json m a = JString (address_to_string (ml_lib m) a)"

definition field_json :: "manifest_lib \<Rightarrow> int \<Rightarrow> jsval" where
  "field_json m x = JString (fr_to_string (ml_lib m) x)"

definition deploy_manifest_json :: "manifest_lib \<Rightarrow> deploy_manifest \<Rightarrow> jsval" where
  "deploy_manifest_json m d = JObject
     [(''status'', JString ''deploy_ok''), (''generated_at'', JString (dm_generated_at d)),
      (''network'', JObject [(''node_url'', JString (mn_node_url (dm_network d))),
         (''node_version'', JString (mn_node_version (dm_network d))),
         (''l1_chain_id'', jint (mn_l1_chain_id (dm_network d))),
         (''rollup_version'', jint (mn_rollup_version (dm_network d)))]),
      (''aztec_required_addresses'', JObject (case dm_sponsored_fpc_address d of None \<Rightarrow> []
         | Some a \<Rightarrow> [(''sponsored_fpc_address'', address_json m a)])),
      (''deployer_address'', address_json m (dm_deployer_address d)),
      (''contracts'', JObject [(''fpc'', address_json m (dm_fpc d))]),
      (''operator'', JObject [(''address'', address_json m (mo_address (dm_operator d))),
         (''pubkey_x'', field_json m (mo_pubkey_x (dm_operator d))),
         (''pubkey_y'', field_json m (mo_pubkey_y (dm_operator d)))]),
      (''tx_hashes'', JObject [(''fpc_deploy'', JString (dm_fpc_deploy d))])]"

section \<open>Files\<close>

type_synonym files = "string \<Rightarrow> jsval option"

definition read_json :: "manifest_lib \<Rightarrow> files \<Rightarrow> string \<Rightarrow> thrown + jsval" where
  "read_json m fs p = (case fs (ml_resolve m p) of
     Some v \<Rightarrow> Inr v
   | None \<Rightarrow> Inl (error (''ENOENT: no such file or directory, open '' @ ml_resolve m p)))"

definition read_deploy_manifest :: "manifest_lib \<Rightarrow> files \<Rightarrow> string \<Rightarrow> thrown + deploy_manifest" where
  "read_deploy_manifest m fs p = and_then (read_json m fs p) (t_parse (deploy_manifest_schema m))"

definition write_deploy_manifest :: "manifest_lib \<Rightarrow> string \<Rightarrow> deploy_manifest \<Rightarrow> files \<Rightarrow> files" where
  "write_deploy_manifest m p d fs = fs(ml_resolve m p \<mapsto> deploy_manifest_json m d)"

section \<open>The manifest of the test token\<close>

record token_contracts =
  tk_token :: int
  tk_faucet :: int
  tk_counter :: int
  tk_bridge :: int

record faucet_manifest =
  fm_drip_amount :: string
  fm_cooldown_seconds :: int
  fm_initial_supply :: string

record token_tx_hashes =
  th_token_deploy :: string
  th_bridge_deploy :: string
  th_counter_deploy :: string
  th_faucet_deploy :: string
  th_l1_erc20_deploy :: string
  th_l1_token_portal_deploy :: string

record test_token_manifest =
  tm_generated_at :: string
  tm_contracts :: token_contracts
  tm_token_portal :: int
  tm_erc20 :: int
  tm_faucet_config :: faucet_manifest
  tm_tx_hashes :: token_tx_hashes

definition token_contracts_schema :: "manifest_lib \<Rightarrow> token_contracts tschema" where
  "token_contracts_schema m v =
     (let t = aztec_address m (jfield ''token'' v); f = aztec_address m (jfield ''faucet'' v);
          c = aztec_address m (jfield ''counter'' v); b = aztec_address m (jfield ''bridge'' v)
      in t_object v [issues_of t, issues_of f, issues_of c, issues_of b]
           \<lparr>tk_token = val t, tk_faucet = val f, tk_counter = val c, tk_bridge = val b\<rparr>)"

definition l1_contracts_schema :: "manifest_lib \<Rightarrow> (int \<times> int) tschema" where
  "l1_contracts_schema m v =
     (let p = eth_address m (jfield ''token_portal'' v); e = eth_address m (jfield ''erc20'' v)
      in t_object v [issues_of p, issues_of e] (val p, val e))"

definition faucet_schema :: "faucet_manifest tschema" where
  "faucet_schema v =
     (let d = decimal_uint (jfield ''drip_amount'' v); c = non_negative_safe_int (jfield ''cooldown_seconds'' v);
          i = decimal_uint (jfield ''initial_supply'' v)
      in t_object v [issues_of d, issues_of c, issues_of i]
           \<lparr>fm_drip_amount = val d, fm_cooldown_seconds = val c, fm_initial_supply = val i\<rparr>)"

definition token_tx_hashes_schema :: "token_tx_hashes tschema" where
  "token_tx_hashes_schema v =
     (let t = tx_hash (jfield ''token_deploy'' v); b = tx_hash (jfield ''bridge_deploy'' v);
          c = tx_hash (jfield ''counter_deploy'' v); f = tx_hash (jfield ''faucet_deploy'' v);
          e = tx_hash (jfield ''l1_erc20_deploy'' v); p = tx_hash (jfield ''l1_token_portal_deploy'' v)
      in t_object v [issues_of t, issues_of b, issues_of c, issues_of f, issues_of e, issues_of p]
           \<lparr>th_token_deploy = val t, th_bridge_deploy = val b, th_counter_deploy = val c, th_faucet_deploy = val f,
            th_l1_erc20_deploy = val e, th_l1_token_portal_deploy = val p\<rparr>)"

definition test_token_manifest_schema :: "manifest_lib \<Rightarrow> test_token_manifest tschema" where
  "test_token_manifest_schema m v =
     (let s = deploy_ok (jfield ''status'' v); g = iso_timestamp m (jfield ''generated_at'' v);
          c = token_contracts_schema m (jfield ''contracts'' v); l = l1_contracts_schema m (jfield ''l1_contracts'' v);
          f = faucet_schema (jfield ''faucet_config'' v); h = token_tx_hashes_schema (jfield ''tx_hashes'' v)
      in t_object v [issues_of s, issues_of g, issues_of c, issues_of l, issues_of f, issues_of h]
           \<lparr>tm_generated_at = val g, tm_contracts = val c, tm_token_portal = fst (val l), tm_erc20 = snd (val l),
            tm_faucet_config = val f, tm_tx_hashes = val h\<rparr>)"

definition eth_json :: "manifest_lib \<Rightarrow> int \<Rightarrow> jsval" where
  "eth_json m a = JString (ml_eth_to_string m a)"

definition test_token_manifest_json :: "manifest_lib \<Rightarrow> test_token_manifest \<Rightarrow> jsval" where
  "test_token_manifest_json m d = JObject
     [(''status'', JString ''deploy_ok''), (''generated_at'', JString (tm_generated_at d)),
      (''contracts'', JObject [(''token'', address_json m (tk_token (tm_contracts d))),
         (''faucet'', address_json m (tk_faucet (tm_contracts d))),
         (''counter'', address_json m (tk_counter (tm_contracts d))),
         (''bridge'', address_json m (tk_bridge (tm_contracts d)))]),
      (''l1_contracts'', JObject [(''token_portal'', eth_json m (tm_token_portal d)), (''erc20'', eth_json m (tm_erc20 d))]),
      (''faucet_config'', JObject [(''drip_amount'', JString (fm_drip_amount (tm_faucet_config d))),
         (''cooldown_seconds'', jint (fm_cooldown_seconds (tm_faucet_config d))),
         (''initial_supply'', JString (fm_initial_supply (tm_faucet_config d)))]),
      (''tx_hashes'', JObject [(''token_deploy'', JString (th_token_deploy (tm_tx_hashes d))),
         (''bridge_deploy'', JString (th_bridge_deploy (tm_tx_hashes d))),
         (''counter_deploy'', JString (th_counter_deploy (tm_tx_hashes d))),
         (''faucet_deploy'', JString (th_faucet_deploy (tm_tx_hashes d))),
         (''l1_erc20_deploy'', JString (th_l1_erc20_deploy (tm_tx_hashes d))),
         (''l1_token_portal_deploy'', JString (th_l1_token_portal_deploy (tm_tx_hashes d)))])]"

definition read_test_token_manifest :: "manifest_lib \<Rightarrow> files \<Rightarrow> string \<Rightarrow> thrown + test_token_manifest" where
  "read_test_token_manifest m fs p = and_then (read_json m fs p) (t_parse (test_token_manifest_schema m))"

definition write_test_token_manifest :: "manifest_lib \<Rightarrow> string \<Rightarrow> test_token_manifest \<Rightarrow> files \<Rightarrow> files" where
  "write_test_token_manifest m p d fs = fs(ml_resolve m p \<mapsto> test_token_manifest_json m d)"

section \<open>Facts\<close>

lemma all_issues_Nil: "all_issues rs = Inr [] \<longleftrightarrow> list_all (\<lambda>r. r = Inr []) rs"
  by (induction rs) (auto simp: and_then_Inr_iff)

lemma t_object_Inr:
  "t_object v rs x = Inr (Inr y) \<longleftrightarrow> (\<exists>kvs. v = JObject kvs) \<and> list_all (\<lambda>r. r = Inr []) rs \<and> y = x"
  unfolding all_issues_Nil [symmetric]
  by (auto simp: t_object_def and_then_Inr_iff split: jsval.splits if_splits)

text \<open>Every schema of this file reports at least one issue when it fails.\<close>

definition treports :: "'a tschema \<Rightarrow> bool" where
  "treports p \<longleftrightarrow> (\<forall>v. p v \<noteq> Inr (Inl []))"

lemma issues_of_Nil: "treports p \<Longrightarrow> issues_of (p v) = Inr [] \<longleftrightarrow> (\<exists>x. p v = Inr (Inr x))"
  by (auto simp: issues_of_def treports_def map_sum_def issues_def split: sum.splits)

lemma val_Inr [simp]: "val (Inr (Inr x)) = x"
  by (simp add: val_def)

lemma issues_of_Inr [simp]: "issues_of (Inr (Inr x)) = Inr []"
  by (simp add: issues_of_def)

lemma t_object_reports: "t_object v rs x \<noteq> Inr (Inl [])"
  by (auto simp: t_object_def expected_def and_then_Inr_iff split: jsval.splits if_splits)

lemma expected_Cons: "expected t v \<noteq> []"
  by (simp add: expected_def)

lemma t_string_reports: "(\<And>s. k s \<noteq> Inr (Inl [])) \<Longrightarrow> treports (t_string k)"
  by (auto simp: treports_def t_string_def expected_Cons split: jsval.splits)

lemma map_Inr: "map_sum id Inr r = Inr y \<longleftrightarrow> (\<exists>x. r = Inr x \<and> y = Inr x)"
  by (cases r) auto

lemma field_reports [simp]:
  "treports (aztec_address m)" "treports (eth_address m)" "treports tx_hash" "treports (field_value m)"
  "treports (http_url m)" "treports (iso_timestamp m)" "treports decimal_uint" "treports non_empty_text"
  unfolding aztec_address_def eth_address_def tx_hash_def field_value_def http_url_def iso_timestamp_def
    decimal_uint_def non_empty_text_def
  by (intro t_string_reports; auto simp: map_Inr split: option.splits if_splits)+

lemma int_reports [simp]: "treports positive_safe_int" "treports non_negative_safe_int" "treports deploy_ok"
  by (auto simp: treports_def positive_safe_int_def non_negative_safe_int_def safe_int_def deploy_ok_def expected_Cons
      split: jsval.splits)

lemma optional_reports [simp]: "treports p \<Longrightarrow> treports (t_optional p)"
  by (auto simp: treports_def t_optional_def map_sum_def split: sum.splits)

lemma object_reports [simp]:
  "treports (network_schema m)" "treports (required_addresses_schema m)" "treports (contracts_schema m)"
  "treports (operator_schema m)" "treports tx_hashes_schema" "treports (token_contracts_schema m)"
  "treports (l1_contracts_schema m)" "treports faucet_schema" "treports token_tx_hashes_schema"
  by (simp_all add: treports_def network_schema_def required_addresses_schema_def contracts_schema_def operator_schema_def
      tx_hashes_schema_def token_contracts_schema_def l1_contracts_schema_def faucet_schema_def token_tx_hashes_schema_def
      Let_def t_object_reports)

lemmas object_simps = Let_def t_object_Inr issues_of_Nil

lemma network_schema_iff:
  "network_schema m v = Inr (Inr r) \<longleftrightarrow> (\<exists>kvs. v = JObject kvs) \<and>
     http_url m (jfield ''node_url'' v) = Inr (Inr (mn_node_url r)) \<and>
     non_empty_text (jfield ''node_version'' v) = Inr (Inr (mn_node_version r)) \<and>
     positive_safe_int (jfield ''l1_chain_id'' v) = Inr (Inr (mn_l1_chain_id r)) \<and>
     positive_safe_int (jfield ''rollup_version'' v) = Inr (Inr (mn_rollup_version r))"
  by (auto simp: network_schema_def object_simps)

lemma required_addresses_schema_iff:
  "required_addresses_schema m v = Inr (Inr r) \<longleftrightarrow> (\<exists>kvs. v = JObject kvs) \<and>
     t_optional (aztec_address m) (jfield ''sponsored_fpc_address'' v) = Inr (Inr r)"
  by (auto simp: required_addresses_schema_def object_simps)

lemma contracts_schema_iff:
  "contracts_schema m v = Inr (Inr r) \<longleftrightarrow> (\<exists>kvs. v = JObject kvs) \<and> aztec_address m (jfield ''fpc'' v) = Inr (Inr r)"
  by (auto simp: contracts_schema_def object_simps)

lemma operator_schema_iff:
  "operator_schema m v = Inr (Inr r) \<longleftrightarrow> (\<exists>kvs. v = JObject kvs) \<and>
     aztec_address m (jfield ''address'' v) = Inr (Inr (mo_address r)) \<and>
     field_value m (jfield ''pubkey_x'' v) = Inr (Inr (mo_pubkey_x r)) \<and>
     field_value m (jfield ''pubkey_y'' v) = Inr (Inr (mo_pubkey_y r))"
  by (auto simp: operator_schema_def object_simps)

lemma tx_hashes_schema_iff:
  "tx_hashes_schema v = Inr (Inr r) \<longleftrightarrow> (\<exists>kvs. v = JObject kvs) \<and> tx_hash (jfield ''fpc_deploy'' v) = Inr (Inr r)"
  by (auto simp: tx_hashes_schema_def object_simps)

lemma deploy_manifest_schema_iff:
  "deploy_manifest_schema m v = Inr (Inr d) \<longleftrightarrow> (\<exists>kvs. v = JObject kvs) \<and>
     deploy_ok (jfield ''status'' v) = Inr (Inr ()) \<and>
     iso_timestamp m (jfield ''generated_at'' v) = Inr (Inr (dm_generated_at d)) \<and>
     network_schema m (jfield ''network'' v) = Inr (Inr (dm_network d)) \<and>
     required_addresses_schema m (jfield ''aztec_required_addresses'' v) = Inr (Inr (dm_sponsored_fpc_address d)) \<and>
     aztec_address m (jfield ''deployer_address'' v) = Inr (Inr (dm_deployer_address d)) \<and>
     contracts_schema m (jfield ''contracts'' v) = Inr (Inr (dm_fpc d)) \<and>
     operator_schema m (jfield ''operator'' v) = Inr (Inr (dm_operator d)) \<and>
     tx_hashes_schema (jfield ''tx_hashes'' v) = Inr (Inr (dm_fpc_deploy d))"
  by (auto simp: deploy_manifest_schema_def object_simps)

lemma t_parse_Inr: "t_parse p v = Inr x \<longleftrightarrow> p v = Inr (Inr x)"
  by (cases "p v"; cases "projr (p v)") (auto simp: t_parse_def)

lemma token_contracts_schema_iff:
  "token_contracts_schema m v = Inr (Inr r) \<longleftrightarrow> (\<exists>kvs. v = JObject kvs) \<and>
     aztec_address m (jfield ''token'' v) = Inr (Inr (tk_token r)) \<and>
     aztec_address m (jfield ''faucet'' v) = Inr (Inr (tk_faucet r)) \<and>
     aztec_address m (jfield ''counter'' v) = Inr (Inr (tk_counter r)) \<and>
     aztec_address m (jfield ''bridge'' v) = Inr (Inr (tk_bridge r))"
  by (auto simp: token_contracts_schema_def object_simps)

lemma l1_contracts_schema_iff:
  "l1_contracts_schema m v = Inr (Inr r) \<longleftrightarrow> (\<exists>kvs. v = JObject kvs) \<and>
     eth_address m (jfield ''token_portal'' v) = Inr (Inr (fst r)) \<and> eth_address m (jfield ''erc20'' v) = Inr (Inr (snd r))"
  by (auto simp: l1_contracts_schema_def object_simps prod_eq_iff)

lemma faucet_schema_iff:
  "faucet_schema v = Inr (Inr r) \<longleftrightarrow> (\<exists>kvs. v = JObject kvs) \<and>
     decimal_uint (jfield ''drip_amount'' v) = Inr (Inr (fm_drip_amount r)) \<and>
     non_negative_safe_int (jfield ''cooldown_seconds'' v) = Inr (Inr (fm_cooldown_seconds r)) \<and>
     decimal_uint (jfield ''initial_supply'' v) = Inr (Inr (fm_initial_supply r))"
  by (auto simp: faucet_schema_def object_simps)

lemma token_tx_hashes_schema_iff:
  "token_tx_hashes_schema v = Inr (Inr r) \<longleftrightarrow> (\<exists>kvs. v = JObject kvs) \<and>
     tx_hash (jfield ''token_deploy'' v) = Inr (Inr (th_token_deploy r)) \<and>
     tx_hash (jfield ''bridge_deploy'' v) = Inr (Inr (th_bridge_deploy r)) \<and>
     tx_hash (jfield ''counter_deploy'' v) = Inr (Inr (th_counter_deploy r)) \<and>
     tx_hash (jfield ''faucet_deploy'' v) = Inr (Inr (th_faucet_deploy r)) \<and>
     tx_hash (jfield ''l1_erc20_deploy'' v) = Inr (Inr (th_l1_erc20_deploy r)) \<and>
     tx_hash (jfield ''l1_token_portal_deploy'' v) = Inr (Inr (th_l1_token_portal_deploy r))"
  by (auto simp: token_tx_hashes_schema_def object_simps)

lemma test_token_manifest_schema_iff:
  "test_token_manifest_schema m v = Inr (Inr d) \<longleftrightarrow> (\<exists>kvs. v = JObject kvs) \<and>
     deploy_ok (jfield ''status'' v) = Inr (Inr ()) \<and>
     iso_timestamp m (jfield ''generated_at'' v) = Inr (Inr (tm_generated_at d)) \<and>
     token_contracts_schema m (jfield ''contracts'' v) = Inr (Inr (tm_contracts d)) \<and>
     l1_contracts_schema m (jfield ''l1_contracts'' v) = Inr (Inr (tm_token_portal d, tm_erc20 d)) \<and>
     faucet_schema (jfield ''faucet_config'' v) = Inr (Inr (tm_faucet_config d)) \<and>
     token_tx_hashes_schema (jfield ''tx_hashes'' v) = Inr (Inr (tm_tx_hashes d))"
  by (cases d) (auto simp: test_token_manifest_schema_def object_simps)

section \<open>Printed values\<close>

text \<open>
  Documented behaviour: what an address or field is printed as is the canonical form, a word of
  64 (for L1, 40) hexadecimal digits, and reads back as the same value; only zero prints as zeros.
\<close>

definition prints_canonically :: "manifest_lib \<Rightarrow> bool" where
  "prints_canonically m \<longleftrightarrow>
     (\<forall>s a. hex_word 64 s \<longrightarrow> \<not> zeros (drop 2 s) \<longrightarrow> address_from_string (ml_lib m) s = Inr a \<longrightarrow>
        hex_word 64 (address_to_string (ml_lib m) a) \<and> \<not> zeros (drop 2 (address_to_string (ml_lib m) a)) \<and>
        address_from_string (ml_lib m) (address_to_string (ml_lib m) a) = Inr a) \<and>
     (\<forall>s a. hex_word 40 s \<longrightarrow> \<not> zeros (drop 2 s) \<longrightarrow> ml_eth_from_string m s = Inr a \<longrightarrow>
        hex_word 40 (ml_eth_to_string m a) \<and> \<not> zeros (drop 2 (ml_eth_to_string m a)) \<and>
        ml_eth_from_string m (ml_eth_to_string m a) = Inr a) \<and>
     (\<forall>s x. fr_from_hex (ml_lib m) s = Inr x \<longrightarrow>
        hex_literal (fr_to_string (ml_lib m) x) \<and> fr_from_hex (ml_lib m) (fr_to_string (ml_lib m) x) = Inr x)"

lemma t_string_Inr: "t_string k v = Inr (Inr x) \<longleftrightarrow> (\<exists>s. v = JString s \<and> k s = Inr (Inr x))"
  by (auto simp: t_string_def split: jsval.splits)

lemma t_string_same:
  "t_string k v = Inr (Inr x) \<Longrightarrow> (\<And>s y. k s = Inr (Inr y) \<Longrightarrow> y = s) \<Longrightarrow> t_string k (JString x) = Inr (Inr x)"
  by (metis t_string_Inr)

lemma text_back:
  "http_url m v = Inr (Inr s) \<Longrightarrow> http_url m (JString s) = Inr (Inr s)"
  "iso_timestamp m v = Inr (Inr s) \<Longrightarrow> iso_timestamp m (JString s) = Inr (Inr s)"
  "tx_hash v = Inr (Inr s) \<Longrightarrow> tx_hash (JString s) = Inr (Inr s)"
  "decimal_uint v = Inr (Inr s) \<Longrightarrow> decimal_uint (JString s) = Inr (Inr s)"
  "non_empty_text v = Inr (Inr s) \<Longrightarrow> non_empty_text (JString s) = Inr (Inr s)"
  unfolding http_url_def iso_timestamp_def tx_hash_def decimal_uint_def non_empty_text_def
  by (erule t_string_same; simp split: option.splits if_splits)+

lemma is_integer_iff: "is_integer n \<longleftrightarrow> (\<exists>i. n = Finite (of_int i))"
  by (auto simp: is_integer_def split: js_number.splits)

lemma int_back:
  "positive_safe_int v = Inr (Inr i) \<Longrightarrow> positive_safe_int (jint i) = Inr (Inr i)"
  "non_negative_safe_int v = Inr (Inr i) \<Longrightarrow> non_negative_safe_int (jint i) = Inr (Inr i)"
  by (auto simp: positive_safe_int_def non_negative_safe_int_def safe_int_def jint_def safe_int_issues_def is_integer_iff
      split: jsval.splits if_splits)

lemma printed_back:
  assumes "prints_canonically m"
  shows "aztec_address m v = Inr (Inr a) \<Longrightarrow> aztec_address m (address_json m a) = Inr (Inr a)"
    "eth_address m v = Inr (Inr b) \<Longrightarrow> eth_address m (eth_json m b) = Inr (Inr b)"
    "field_value m v = Inr (Inr x) \<Longrightarrow> field_value m (field_json m x) = Inr (Inr x)"
  using assms
  by (auto simp: prints_canonically_def aztec_address_def eth_address_def field_value_def t_string_Inr address_json_def
      eth_json_def field_json_def map_Inr split: if_splits)

lemma optional_back:
  assumes "prints_canonically m" "t_optional (aztec_address m) v = Inr (Inr r)"
  shows "t_optional (aztec_address m) (jfield k (JObject (case r of None \<Rightarrow> [] | Some a \<Rightarrow> [(k, address_json m a)]))) =
    Inr (Inr r)"
proof (cases r)
  case None
  then show ?thesis by (simp add: t_optional_def jfield_def)
next
  case (Some a)
  with assms(2) have "aztec_address m v = Inr (Inr a)"
    by (cases "aztec_address m v"; cases "projr (aztec_address m v)") (auto simp: t_optional_def split: if_splits)
  with printed_back(1) [OF assms(1)] Some show ?thesis
    by (simp add: t_optional_def jfield_def address_json_def)
qed

section \<open>Manifests on disk\<close>

text \<open>
  The interface of a manifest file: a valid manifest that was written is read back, and a
  write changes no other file. Inside it the result of a run of writes is computed.
\<close>

locale manifest_files =
  fixes fetch :: "files \<Rightarrow> string \<Rightarrow> thrown + 'm"
    and store :: "string \<Rightarrow> 'm \<Rightarrow> files \<Rightarrow> files"
    and resolve :: "string \<Rightarrow> string"
    and valid :: "'m \<Rightarrow> bool"
  assumes fetch_stored: "valid d \<Longrightarrow> fetch (store p d fs) p = Inr d"
    and fetch_other: "resolve q \<noteq> resolve p \<Longrightarrow> fetch (store p d fs) q = fetch fs q"
    and fetch_resolved: "resolve q = resolve p \<Longrightarrow> fetch fs q = fetch fs p"
begin

lemma read_after_write:
  "valid d \<Longrightarrow> fetch (store p d fs) q = (if resolve q = resolve p then Inr d else fetch fs q)"
  by (metis fetch_stored fetch_other fetch_resolved)

lemma read_after_writes:
  "list_all (\<lambda>(p, d). valid d) ws \<Longrightarrow>
     fetch (fold (\<lambda>(p, d). store p d) ws fs) q =
       (case find (\<lambda>(p, d). resolve p = resolve q) (rev ws) of Some (p, d) \<Rightarrow> Inr d | None \<Rightarrow> fetch fs q)"
proof (induction ws rule: rev_induct)
  case Nil
  then show ?case by simp
next
  case (snoc w ws)
  obtain p d where w: "w = (p, d)" by (cases w)
  with snoc.prems have "valid d" "list_all (\<lambda>(p, d). valid d) ws" by simp_all
  with snoc.IH w read_after_write [of d p] show ?case by auto
qed

end

definition deploy_manifest_valid :: "manifest_lib \<Rightarrow> deploy_manifest \<Rightarrow> bool" where
  "deploy_manifest_valid m d \<longleftrightarrow> deploy_manifest_schema m (deploy_manifest_json m d) = Inr (Inr d)"

definition test_token_manifest_valid :: "manifest_lib \<Rightarrow> test_token_manifest \<Rightarrow> bool" where
  "test_token_manifest_valid m d \<longleftrightarrow> test_token_manifest_schema m (test_token_manifest_json m d) = Inr (Inr d)"

interpretation deploy_files: manifest_files "read_deploy_manifest m" "write_deploy_manifest m" "ml_resolve m"
  "deploy_manifest_valid m" for m
  by unfold_locales (auto simp: read_deploy_manifest_def write_deploy_manifest_def read_json_def t_parse_Inr
      deploy_manifest_valid_def split: option.splits)

interpretation token_files: manifest_files "read_test_token_manifest m" "write_test_token_manifest m" "ml_resolve m"
  "test_token_manifest_valid m" for m
  by unfold_locales (auto simp: read_test_token_manifest_def write_test_token_manifest_def read_json_def t_parse_Inr
      test_token_manifest_valid_def split: option.splits)

lemma jfield_object [simp]: "jfield k (JObject kvs) = (case map_of kvs k of Some x \<Rightarrow> x | None \<Rightarrow> JUndefined)"
  by (simp add: jfield_def)

lemma parsed_deploy_manifest_valid:
  assumes laws: "prints_canonically m" and d: "deploy_manifest_schema m v = Inr (Inr d)"
  shows "deploy_manifest_valid m d"
proof -
  note parts = d [unfolded deploy_manifest_schema_iff network_schema_iff required_addresses_schema_iff contracts_schema_iff
      operator_schema_iff tx_hashes_schema_iff]
  have sponsored: "t_optional (aztec_address m) (jfield ''sponsored_fpc_address'' (jfield ''aztec_required_addresses'' v)) =
      Inr (Inr (dm_sponsored_fpc_address d))"
    using parts by blast
  have "t_optional (aztec_address m) (jfield ''sponsored_fpc_address'' (JObject (case dm_sponsored_fpc_address d of
       None \<Rightarrow> [] | Some a \<Rightarrow> [(''sponsored_fpc_address'', address_json m a)]))) = Inr (Inr (dm_sponsored_fpc_address d))"
    by (rule optional_back [OF laws sponsored])
  moreover have "http_url m (JString (mn_node_url (dm_network d))) = Inr (Inr (mn_node_url (dm_network d)))"
    "iso_timestamp m (JString (dm_generated_at d)) = Inr (Inr (dm_generated_at d))"
    "non_empty_text (JString (mn_node_version (dm_network d))) = Inr (Inr (mn_node_version (dm_network d)))"
    "tx_hash (JString (dm_fpc_deploy d)) = Inr (Inr (dm_fpc_deploy d))"
    using parts by (blast intro: text_back)+
  moreover have "positive_safe_int (jint (mn_l1_chain_id (dm_network d))) = Inr (Inr (mn_l1_chain_id (dm_network d)))"
    "positive_safe_int (jint (mn_rollup_version (dm_network d))) = Inr (Inr (mn_rollup_version (dm_network d)))"
    using parts by (blast intro: int_back)+
  moreover have "aztec_address m (address_json m (dm_deployer_address d)) = Inr (Inr (dm_deployer_address d))"
    "aztec_address m (address_json m (dm_fpc d)) = Inr (Inr (dm_fpc d))"
    "aztec_address m (address_json m (mo_address (dm_operator d))) = Inr (Inr (mo_address (dm_operator d)))"
    "field_value m (field_json m (mo_pubkey_x (dm_operator d))) = Inr (Inr (mo_pubkey_x (dm_operator d)))"
    "field_value m (field_json m (mo_pubkey_y (dm_operator d))) = Inr (Inr (mo_pubkey_y (dm_operator d)))"
    using parts by (blast intro: printed_back [OF laws])+
  ultimately show ?thesis
    unfolding deploy_manifest_valid_def deploy_manifest_schema_iff network_schema_iff required_addresses_schema_iff
      contracts_schema_iff operator_schema_iff tx_hashes_schema_iff
    by (simp add: deploy_manifest_json_def deploy_ok_def)
qed

lemma parsed_test_token_manifest_valid:
  assumes laws: "prints_canonically m" and d: "test_token_manifest_schema m v = Inr (Inr d)"
  shows "test_token_manifest_valid m d"
proof -
  note parts = d [unfolded test_token_manifest_schema_iff token_contracts_schema_iff l1_contracts_schema_iff
      faucet_schema_iff token_tx_hashes_schema_iff fst_conv snd_conv]
  have "iso_timestamp m (JString (tm_generated_at d)) = Inr (Inr (tm_generated_at d))"
    "decimal_uint (JString (fm_drip_amount (tm_faucet_config d))) = Inr (Inr (fm_drip_amount (tm_faucet_config d)))"
    "decimal_uint (JString (fm_initial_supply (tm_faucet_config d))) = Inr (Inr (fm_initial_supply (tm_faucet_config d)))"
    "tx_hash (JString (th_token_deploy (tm_tx_hashes d))) = Inr (Inr (th_token_deploy (tm_tx_hashes d)))"
    "tx_hash (JString (th_bridge_deploy (tm_tx_hashes d))) = Inr (Inr (th_bridge_deploy (tm_tx_hashes d)))"
    "tx_hash (JString (th_counter_deploy (tm_tx_hashes d))) = Inr (Inr (th_counter_deploy (tm_tx_hashes d)))"
    "tx_hash (JString (th_faucet_deploy (tm_tx_hashes d))) = Inr (Inr (th_faucet_deploy (tm_tx_hashes d)))"
    "tx_hash (JString (th_l1_erc20_deploy (tm_tx_hashes d))) = Inr (Inr (th_l1_erc20_deploy (tm_tx_hashes d)))"
    "tx_hash (JString (th_l1_token_portal_deploy (tm_tx_hashes d))) = Inr (Inr (th_l1_token_portal_deploy (tm_tx_hashes d)))"
    using parts by (blast intro: text_back)+
  moreover have "non_negative_safe_int (jint (fm_cooldown_seconds (tm_faucet_config d))) =
      Inr (Inr (fm_cooldown_seconds (tm_faucet_config d)))"
    using parts by (blast intro: int_back)
  moreover have "aztec_address m (address_json m (tk_token (tm_contracts d))) = Inr (Inr (tk_token (tm_contracts d)))"
    "aztec_address m (address_json m (tk_faucet (tm_contracts d))) = Inr (Inr (tk_faucet (tm_contracts d)))"
    "aztec_address m (address_json m (tk_counter (tm_contracts d))) = Inr (Inr (tk_counter (tm_contracts d)))"
    "aztec_address m (address_json m (tk_bridge (tm_contracts d))) = Inr (Inr (tk_bridge (tm_contracts d)))"
    "eth_address m (eth_json m (tm_token_portal d)) = Inr (Inr (tm_token_portal d))"
    "eth_address m (eth_json m (tm_erc20 d)) = Inr (Inr (tm_erc20 d))"
    using parts by (blast intro: printed_back [OF laws])+
  ultimately show ?thesis
    unfolding test_token_manifest_valid_def test_token_manifest_schema_iff token_contracts_schema_iff l1_contracts_schema_iff
      faucet_schema_iff token_tx_hashes_schema_iff
    by (simp add: test_token_manifest_json_def deploy_ok_def)
qed

lemma test_token_manifest_roundtrip:
  assumes "prints_canonically m" "test_token_manifest_schema m v = Inr (Inr d)"
  shows "read_test_token_manifest m (write_test_token_manifest m p d fs) p = Inr d"
  by (rule token_files.fetch_stored [OF parsed_test_token_manifest_valid [OF assms]])

section \<open>Examples\<close>

text \<open>Words and fields of one hexadecimal digit.\<close>

definition demo_word :: "nat \<Rightarrow> int \<Rightarrow> string" where
  "demo_word n i = ''0x'' @ replicate (n - 1) (CHR ''0'') @ (if i = 7 then ''7'' else ''1'')"

definition demo_manifest_lib :: manifest_lib where
  "demo_manifest_lib = \<lparr>ml_lib = demo_lib\<lparr>
       address_from_string := (\<lambda>s. Inr (if last s = CHR ''7'' then 7 else 1)), address_to_string := demo_word 64,
       fr_from_hex := (\<lambda>s. Inr (if last s = CHR ''7'' then 7 else 1)), fr_to_string := demo_word 64\<rparr>,
     ml_eth_from_string = (\<lambda>s. Inr (if last s = CHR ''7'' then 7 else 1)), ml_eth_to_string = demo_word 40,
     ml_date_parses = (\<lambda>s. True), ml_url_protocol = (\<lambda>s. Some ''http:''), ml_resolve = (\<lambda>p. p)\<rparr>"

definition demo_manifest :: deploy_manifest where
  "demo_manifest = \<lparr>dm_generated_at = ''2026'',
     dm_network = \<lparr>mn_node_url = ''http://n'', mn_node_version = ''1'', mn_l1_chain_id = 31337, mn_rollup_version = 1\<rparr>,
     dm_sponsored_fpc_address = None, dm_deployer_address = 1, dm_fpc = 7,
     dm_operator = \<lparr>mo_address = 1, mo_pubkey_x = 7, mo_pubkey_y = 1\<rparr>,
     dm_fpc_deploy = ''0x'' @ replicate 64 (CHR ''a'')\<rparr>"

lemma demo_prints_canonically: "prints_canonically demo_manifest_lib"
  by (auto simp: prints_canonically_def demo_manifest_lib_def demo_word_def hex_word_def hex_literal_def zeros_def
      starts_with_def list_all_iff is_hex_digit_def is_digit_def code_of_def)

lemma demo_manifest_validates: "validate_deploy_manifest demo_manifest_lib (deploy_manifest_json demo_manifest_lib demo_manifest) =
    Inr demo_manifest"
  by code_simp

text \<open>
  C35. A manifest survives its file. After any run of writes of manifests that validate, reading
  a path gives the last manifest written to the file it resolves to, value for value, and what
  was there before when none was written to it.
\<close>

theorem deploy_manifest_roundtrip:
  assumes "prints_canonically m" "list_all (\<lambda>(p, d). \<exists>v. validate_deploy_manifest m v = Inr d) ws"
  shows "read_deploy_manifest m (fold (\<lambda>(p, d). write_deploy_manifest m p d) ws fs) q =
    (case find (\<lambda>(p, d). ml_resolve m p = ml_resolve m q) (rev ws) of
       Some (p, d) \<Rightarrow> Inr d | None \<Rightarrow> read_deploy_manifest m fs q)"
proof (rule deploy_files.read_after_writes)
  show "list_all (\<lambda>(p, d). deploy_manifest_valid m d) ws"
    using assms parsed_deploy_manifest_valid [OF assms(1)]
    by (auto simp: list_all_iff validate_deploy_manifest_def t_parse_Inr)
qed

lemma deploy_manifest_roundtrip_witness:
  "read_deploy_manifest demo_manifest_lib (fold (\<lambda>(p, d). write_deploy_manifest demo_manifest_lib p d)
     [(''a'', demo_manifest), (''b'', demo_manifest)] (\<lambda>_. None)) ''a'' = Inr demo_manifest"
proof -
  have "\<exists>v. validate_deploy_manifest demo_manifest_lib v = Inr demo_manifest" using demo_manifest_validates by blast
  then show ?thesis
    using deploy_manifest_roundtrip [OF demo_prints_canonically,
        of "[(''a'', demo_manifest), (''b'', demo_manifest)]" "\<lambda>_. None" "''a''"]
    by (simp add: demo_manifest_lib_def)
qed

text \<open>
  A decimal key in a manifest is read as hexadecimal. The schema of a field value accepts a
  decimal integer, but hands it to \<open>Fr.fromHexString\<close>, which reads a text with and without the
  prefix alike: every decimal text has the value of the same digits in base 16.
\<close>

theorem decimal_field_read_as_hex:
  assumes "\<And>s. list_all is_hex_digit s \<Longrightarrow> s \<noteq> [] \<Longrightarrow> fr_from_hex (ml_lib m) s = fr_from_hex (ml_lib m) (''0x'' @ s)"
    and "uint_decimal s" "fr_from_hex (ml_lib m) (''0x'' @ s) = Inr x"
  shows "field_value m (JString s) = Inr (Inr x) \<and> field_value m (JString (''0x'' @ s)) = Inr (Inr x)"
proof -
  have "list_all is_hex_digit s"
    using uint_decimal_digits [OF assms(2)] by (auto simp: list_all_iff is_hex_digit_def)
  moreover have "s \<noteq> []" using assms(2) by (cases s) auto
  ultimately have "hex_literal (''0x'' @ s)" by (simp add: hex_literal_def starts_with_def)
  then show ?thesis
    using assms(1) [OF \<open>list_all is_hex_digit s\<close> \<open>s \<noteq> []\<close>] assms(2,3) by (simp add: field_value_def t_string_def)
qed

lemma decimal_field_read_as_hex_witness:
  "field_value demo_manifest_lib (JString ''17'') = Inr (Inr 7) \<and> field_value demo_manifest_lib (JString ''0x17'') = Inr (Inr 7)"
proof -
  have "field_value demo_manifest_lib (JString ''17'') = Inr (Inr 7) \<and>
      field_value demo_manifest_lib (JString (''0x'' @ ''17'')) = Inr (Inr 7)"
  proof (rule decimal_field_read_as_hex)
    show "fr_from_hex (ml_lib demo_manifest_lib) s = fr_from_hex (ml_lib demo_manifest_lib) (''0x'' @ s)"
      if "list_all is_hex_digit s" "s \<noteq> []" for s
      using that(2) by (simp add: demo_manifest_lib_def)
    show "uint_decimal ''17''" "fr_from_hex (ml_lib demo_manifest_lib) (''0x'' @ ''17'') = Inr 7" by code_simp+
  qed
  then show ?thesis by simp
qed

end
