(* ===== verification/Deploy_Cli.thy ===== *)
theory Deploy_Cli
  imports Cli_Args Deploy_Verify Deploy_Manifest
begin

text \<open>
  The deployment tool, \<open>contract-deployment/src/index.ts\<close>, and the deployment of one contract
  with its retries, \<open>contract-deployment/src/deploy-utils.ts\<close>: the command line with its
  environment defaults, the preflight, the derivation of the operator's identity, the
  deployment, the manifest and the verification.

  The node, the wallet, the contract bindings, key derivation and \<open>path.join\<close> are fields of
  \<open>deploy_env\<close>; \<open>process.env\<close> is a partial map. A run ends with the help, after the
  preflight, with a manifest, or with what it threw.
\<close>

section \<open>Deployment of a contract\<close>

record deploy_options =
  do_from :: int
  do_sponsor :: "int option"
  do_skip_class_publication :: bool

text \<open>\<open>cd_send\<close> sends the deployment alone, \<open>cd_send_batch\<close> together with the extra calls.\<close>

record ('w, 'call) contract_deployment =
  cd_class_id :: "('w, int) ioe"
  cd_publicly_registered :: "int \<Rightarrow> ('w, bool) ioe"
  cd_send :: "deploy_options \<Rightarrow> ('w, string) ioe"
  cd_send_batch :: "'call list \<Rightarrow> deploy_options \<Rightarrow> ('w, string) ioe"

definition MAX_RETRIES :: nat where
  "MAX_RETRIES = 3"

definition RETRY_DELAY_MS :: int where
  "RETRY_DELAY_MS = 3000"

definition is_class_publication_race :: "thrown \<Rightarrow> bool" where
  "is_class_publication_race e = (let m = error_message e in
     js_includes m ''Nullifier conflict'' \<or> js_includes m ''Existing nullifier'' \<or>
     js_includes m ''dropped by P2P node'')"

definition is_transient_block_error :: "thrown \<Rightarrow> bool" where
  "is_transient_block_error e = js_includes (error_message e) ''not found when querying world state''"

text \<open>One attempt: the class is published unless it is already registered.\<close>

definition deploy_attempt ::
    "('w, 'call) contract_deployment \<Rightarrow> deploy_options \<Rightarrow> 'call list \<Rightarrow> ('w, string) ioe" where
  "deploy_attempt cd opts calls =
     bind_io (cd_class_id cd) (\<lambda>class_id.
     bind_io (cd_publicly_registered cd class_id) (\<lambda>registered.
     let opts1 = (if registered then opts\<lparr>do_skip_class_publication := True\<rparr> else opts) in
     if calls \<noteq> [] then cd_send_batch cd calls opts1 else cd_send cd opts1))"

function deploy_loop :: "('w, string) ioe \<Rightarrow> (int \<Rightarrow> 'w \<Rightarrow> 'w) \<Rightarrow> nat \<Rightarrow> ('w, string) ioe" where
  "deploy_loop go sleep attempt w =
     (if MAX_RETRIES < attempt
      then (Inl (error ''Unreachable: deployment loop exited without returning or throwing''), w)
      else case go w of
        (Inr tx, w1) \<Rightarrow> (Inr tx, w1)
      | (Inl e, w1) \<Rightarrow>
          if (is_class_publication_race e \<or> is_transient_block_error e) \<and> attempt < MAX_RETRIES
          then deploy_loop go sleep (attempt + 1) (sleep RETRY_DELAY_MS w1)
          else (Inl e, w1))"
  by pat_completeness auto
termination
  by (relation "measure (\<lambda>(go, sleep, a, w). Suc MAX_RETRIES - a)") auto

declare deploy_loop.simps [simp del]

definition deploy_contract ::
    "('w, 'call) contract_deployment \<Rightarrow> (int \<Rightarrow> 'w \<Rightarrow> 'w) \<Rightarrow> deploy_options \<Rightarrow> 'call list \<Rightarrow> ('w, string) ioe" where
  "deploy_contract cd sleep opts calls = deploy_loop (deploy_attempt cd opts calls) sleep 0"

section \<open>The command line\<close>

definition cli_error :: "string \<Rightarrow> thrown" where
  "cli_error m = Thrown ''CliError'' m"

record cli_values =
  cv_node_url :: "string option"
  cv_sponsored_fpc_address :: "string option"
  cv_deployer_secret_key :: "string option"
  cv_deployer_secret_key_ref :: "string option"
  cv_operator_secret_key :: "string option"
  cv_operator_secret_key_ref :: "string option"
  cv_operator :: "string option"
  cv_data_dir :: string
  cv_out_explicit :: bool
  cv_out :: string
  cv_prover_enabled :: bool
  cv_preflight_only :: bool
  cv_skip_verify :: bool

record cli_args =
  ca_node_url :: string
  ca_sponsored_fpc_address :: "string option"
  ca_deployer_secret_key :: "string option"
  ca_deployer_secret_key_ref :: "string option"
  ca_operator_secret_key :: "string option"
  ca_operator_secret_key_ref :: "string option"
  ca_operator :: "string option"
  ca_out :: string
  ca_prover_enabled :: bool
  ca_preflight_only :: bool
  ca_skip_verify :: bool

text \<open>\<open>cp_url\<close> is \<open>new URL\<close>: the protocol and the normal form of a text that is a URL.\<close>

record cli_platform =
  cp_env :: "string \<Rightarrow> string option"
  cp_url :: "string \<Rightarrow> (string \<times> string) option"
  cp_join :: "string \<Rightarrow> string \<Rightarrow> string"

definition parse_non_empty_string :: "string \<Rightarrow> string \<Rightarrow> thrown + string" where
  "parse_non_empty_string v field = (if js_trim v = []
     then Inl (cli_error (''Invalid '' @ field @ '': expected non-empty string'')) else Inr v)"

definition parse_http_url :: "cli_platform \<Rightarrow> string \<Rightarrow> string \<Rightarrow> thrown + string" where
  "parse_http_url p v field = (case cp_url p v of
     None \<Rightarrow> Inl (cli_error (''Invalid '' @ field @ '': expected URL, got \"'' @ v @ ''\"''))
   | Some (protocol, href) \<Rightarrow>
       if protocol \<noteq> ''http:'' \<and> protocol \<noteq> ''https:''
       then Inl (cli_error (''Invalid '' @ field @ '': expected http(s) URL, got \"'' @ v @ ''\"''))
       else Inr href)"

definition parse_aztec_address :: "string \<Rightarrow> string \<Rightarrow> thrown + string" where
  "parse_aztec_address v field =
     (if \<not> hex_word 64 v then Inl (cli_error (''Invalid '' @ field @ '': expected 32-byte 0x-prefixed Aztec address''))
      else if zeros (drop 2 v) then Inl (cli_error (''Invalid '' @ field @ '': zero address is not allowed''))
      else Inr v)"

definition parse_boolean_flag :: "string \<Rightarrow> string \<Rightarrow> thrown + bool" where
  "parse_boolean_flag v field = (let l = js_lower v in
     if l = ''1'' \<or> l = ''true'' then Inr True
     else if l = ''0'' \<or> l = ''false'' then Inr False
     else Inl (cli_error (''Invalid '' @ field @ '': expected \"true\", \"false\", \"1\", or \"0\", got \"'' @ v @ ''\"'')))"

definition parse_hex32 :: "string \<Rightarrow> string \<Rightarrow> thrown + string" where
  "parse_hex32 v field = (if hex_word 64 v then Inr v
     else Inl (cli_error (''Invalid '' @ field @ '': expected 32-byte 0x-prefixed hex value'')))"

definition parse_secret_pair ::
    "string option \<Rightarrow> string option \<Rightarrow> string \<Rightarrow> string \<Rightarrow> thrown + string option \<times> string option" where
  "parse_secret_pair v r value_flag ref_flag = (if is_set v \<and> is_set r
     then Inl (cli_error (''Ambiguous key input: provide only one of '' @ value_flag @ '' or '' @ ref_flag))
     else Inr (v, r))"

definition DEVNET_DEFAULT_DATA_DIR :: string where
  "DEVNET_DEFAULT_DATA_DIR = ''./deployments''"

definition initial_values :: "cli_platform \<Rightarrow> thrown + cli_values" where
  "initial_values p =
     (let env = cp_env p; dir = (case env ''FPC_DATA_DIR'' of None \<Rightarrow> DEVNET_DEFAULT_DATA_DIR | Some d \<Rightarrow> d) in
      and_then (if is_set (env ''PXE_PROVER_ENABLED'')
                then parse_boolean_flag (the (env ''PXE_PROVER_ENABLED'')) ''PXE_PROVER_ENABLED'' else Inr True) (\<lambda>prover.
      Inr \<lparr>cv_node_url = env ''AZTEC_NODE_URL'', cv_sponsored_fpc_address = env ''FPC_SPONSORED_FPC_ADDRESS'',
           cv_deployer_secret_key = env ''FPC_DEPLOYER_SECRET_KEY'',
           cv_deployer_secret_key_ref = env ''FPC_DEPLOYER_SECRET_KEY_REF'',
           cv_operator_secret_key = env ''FPC_OPERATOR_SECRET_KEY'',
           cv_operator_secret_key_ref = env ''FPC_OPERATOR_SECRET_KEY_REF'',
           cv_operator = env ''FPC_OPERATOR'', cv_data_dir = dir, cv_out_explicit = is_set (env ''FPC_OUT''),
           cv_out = (case env ''FPC_OUT'' of Some f \<Rightarrow> f | None \<Rightarrow> cp_join p dir ''manifest.json''),
           cv_prover_enabled = prover, cv_preflight_only = (env ''FPC_PREFLIGHT_ONLY'' = Some ''1''),
           cv_skip_verify = (env ''FPC_SKIP_VERIFY'' = Some ''1'')\<rparr>))"

definition deploy_flags :: "string \<Rightarrow> cli_values flag option" where
  "deploy_flags arg =
     (let set = (\<lambda>f. Some (TakesValue (\<lambda>v a. Inr (f v a)))) in
      if arg = ''--node-url'' then set (\<lambda>v a. a\<lparr>cv_node_url := Some v\<rparr>)
      else if arg = ''--sponsored-fpc-address'' then set (\<lambda>v a. a\<lparr>cv_sponsored_fpc_address := Some v\<rparr>)
      else if arg = ''--deployer-secret-key'' then set (\<lambda>v a. a\<lparr>cv_deployer_secret_key := Some v\<rparr>)
      else if arg = ''--deployer-secret-key-ref'' then set (\<lambda>v a. a\<lparr>cv_deployer_secret_key_ref := Some v\<rparr>)
      else if arg = ''--operator-secret-key'' then set (\<lambda>v a. a\<lparr>cv_operator_secret_key := Some v\<rparr>)
      else if arg = ''--operator-secret-key-ref'' then set (\<lambda>v a. a\<lparr>cv_operator_secret_key_ref := Some v\<rparr>)
      else if arg = ''--operator'' then set (\<lambda>v a. a\<lparr>cv_operator := Some v\<rparr>)
      else if arg = ''--data-dir'' then set (\<lambda>v a. a\<lparr>cv_data_dir := v\<rparr>)
      else if arg = ''--out'' then set (\<lambda>v a. a\<lparr>cv_out := v, cv_out_explicit := True\<rparr>)
      else if arg = ''--pxe-prover-enabled''
      then Some (TakesValue (\<lambda>v a. and_then (parse_boolean_flag v arg) (\<lambda>b. Inr (a\<lparr>cv_prover_enabled := b\<rparr>))))
      else if arg = ''--preflight-only'' then Some (Switch (\<lambda>a. a\<lparr>cv_preflight_only := True\<rparr>))
      else if arg = ''--skip-verify'' then Some (Switch (\<lambda>a. a\<lparr>cv_skip_verify := True\<rparr>))
      else if arg = ''--help'' \<or> arg = ''-h'' then Some Help
      else None)"

definition finish_args :: "cli_platform \<Rightarrow> cli_values \<Rightarrow> thrown + cli_args" where
  "finish_args p a =
     and_then (parse_secret_pair (cv_deployer_secret_key a) (cv_deployer_secret_key_ref a)
       ''--deployer-secret-key'' ''--deployer-secret-key-ref'') (\<lambda>(dv, dr).
     and_then (parse_secret_pair (cv_operator_secret_key a) (cv_operator_secret_key_ref a)
       ''--operator-secret-key'' ''--operator-secret-key-ref'') (\<lambda>(ov0, oref).
     if \<not> is_set dv \<and> \<not> is_set dr
     then Inl (cli_error (''Missing deployer key: provide --deployer-secret-key or --deployer-secret-key-ref '' @
       ''(or set FPC_DEPLOYER_SECRET_KEY / FPC_DEPLOYER_SECRET_KEY_REF env var)''))
     else
       (let ov = (if \<not> is_set ov0 \<and> \<not> is_set oref then dv else ov0) in
        if \<not> is_set (cv_node_url a)
        then Inl (cli_error ''Missing node URL: provide --node-url or set AZTEC_NODE_URL env var'')
        else
          and_then (parse_http_url p (the (cv_node_url a)) ''--node-url'') (\<lambda>url.
          and_then (case cv_operator a of None \<Rightarrow> Inr None
            | Some addr \<Rightarrow> map_sum id Some (parse_aztec_address addr ''--operator'')) (\<lambda>op.
          and_then (if_set (\<lambda>v. parse_aztec_address v ''--sponsored-fpc-address'') (cv_sponsored_fpc_address a)) (\<lambda>sp.
          and_then (if_set (\<lambda>v. parse_hex32 v ''--deployer-secret-key'') dv) (\<lambda>dk.
          and_then (if_set (\<lambda>v. parse_non_empty_string v ''--deployer-secret-key-ref'') dr) (\<lambda>dkr.
          and_then (if_set (\<lambda>v. parse_hex32 v ''--operator-secret-key'') ov) (\<lambda>ok.
          and_then (if_set (\<lambda>v. parse_non_empty_string v ''--operator-secret-key-ref'') oref) (\<lambda>okr.
          Inr \<lparr>ca_node_url = url, ca_sponsored_fpc_address = sp, ca_deployer_secret_key = dk,
               ca_deployer_secret_key_ref = dkr, ca_operator_secret_key = ok, ca_operator_secret_key_ref = okr,
               ca_operator = op,
               ca_out = (if cv_out_explicit a then cv_out a else cp_join p (cv_data_dir a) ''manifest.json''),
               ca_prover_enabled = cv_prover_enabled a, ca_preflight_only = cv_preflight_only a,
               ca_skip_verify = cv_skip_verify a\<rparr>))))))))))"

definition parse_cli_args :: "cli_platform \<Rightarrow> string list \<Rightarrow> thrown + cli_args option" where
  "parse_cli_args p argv =
     and_then (initial_values p) (\<lambda>a0.
     and_then (parse_flags deploy_flags cli_error argv a0) (\<lambda>r.
     case r of None \<Rightarrow> Inr None | Some a \<Rightarrow> map_sum id Some (finish_args p a)))"

section \<open>The run\<close>

record node_info =
  ni_node_version :: string
  ni_l1_chain_id :: int
  ni_rollup_version :: int
  ni_has_fee_asset_handler :: bool

record operator_identity =
  oi_address :: string
  oi_pubkey_x :: string
  oi_pubkey_y :: string

record 'w deploy_env =
  de_lib :: aztec_lib
  de_init_hash :: init_hash
  de_node :: "'w deploy_node"
  de_wait_for_node :: "('w, unit) ioe"
  de_get_node_info :: "('w, node_info) ioe"
  de_derive_signing_key :: "int \<Rightarrow> int"
  de_public_key :: "int \<Rightarrow> int \<times> int"
  de_account_address :: "int \<Rightarrow> int \<Rightarrow> int"
  de_create_wallet :: "bool \<Rightarrow> ('w, unit) ioe"
  de_create_schnorr_account :: "int \<Rightarrow> int \<Rightarrow> int \<Rightarrow> ('w, int) ioe"
  de_fpc_instance_address :: "int \<Rightarrow> int \<Rightarrow> int \<Rightarrow> ('w, int) ioe"
  de_fpc_deployment :: "int \<Rightarrow> int \<Rightarrow> int \<Rightarrow> ('w, unit) contract_deployment"
  de_now_iso :: "'w \<Rightarrow> string"
  de_write_manifest :: "string \<Rightarrow> deploy_manifest \<Rightarrow> ('w, unit) ioe"
  de_sleep :: "int \<Rightarrow> 'w \<Rightarrow> 'w"

datatype deploy_outcome = PreflightPassed | Deployed (deployed_manifest: deploy_manifest)

definition derive_operator_identity :: "'w deploy_env \<Rightarrow> string \<Rightarrow> thrown + operator_identity" where
  "derive_operator_identity env key =
     and_then (fr_from_hex (de_lib env) key) (\<lambda>secret.
     let pk = de_public_key env (de_derive_signing_key env secret) in
     Inr \<lparr>oi_address = address_to_string (de_lib env) (de_account_address env secret 0),
          oi_pubkey_x = fr_to_string (de_lib env) (fst pk), oi_pubkey_y = fr_to_string (de_lib env) (snd pk)\<rparr>)"

definition check_operator :: "cli_args \<Rightarrow> operator_identity \<Rightarrow> thrown + unit" where
  "check_operator args ident =
     require_that (is_set (ca_operator args) \<longrightarrow> js_lower (the (ca_operator args)) = js_lower (oi_address ident))
       (cli_error (''--operator '' @ the (ca_operator args) @
        '' does not match address derived from --operator-secret-key: '' @ oi_address ident @
        ''. Remove --operator to use the derived address, or provide the matching secret key.''))"

text \<open>The wallet with the accounts of the deployer and, when it is another, the operator.\<close>

definition create_account_of :: "'w deploy_env \<Rightarrow> string \<Rightarrow> ('w, int) ioe" where
  "create_account_of env key =
     bind_io (from_pure (fr_from_hex (de_lib env) key)) (\<lambda>secret.
     de_create_schnorr_account env secret 0 (de_derive_signing_key env secret))"

definition setup_accounts :: "'w deploy_env \<Rightarrow> cli_args \<Rightarrow> string \<Rightarrow> string \<Rightarrow> operator_identity \<Rightarrow> ('w, int \<times> int) ioe" where
  "setup_accounts env args deployer_key operator_key ident =
     bind_io (de_create_wallet env (ca_prover_enabled args)) (\<lambda>_.
     bind_io (create_account_of env deployer_key) (\<lambda>deployer.
     bind_io (from_pure (address_from_string (de_lib env) (oi_address ident))) (\<lambda>op.
     if op \<noteq> deployer then bind_io (create_account_of env operator_key) (\<lambda>_. return_io (deployer, op))
     else return_io (deployer, op))))"

definition sponsor_of :: "'w deploy_env \<Rightarrow> cli_args \<Rightarrow> thrown + int option" where
  "sponsor_of env args = (case ca_sponsored_fpc_address args of
     None \<Rightarrow> Inr None
   | Some a \<Rightarrow> map_sum id Some (address_from_string (de_lib env) a))"

definition deployment_manifest ::
    "'w deploy_env \<Rightarrow> cli_args \<Rightarrow> node_info \<Rightarrow> int \<Rightarrow> string \<Rightarrow> operator_identity \<Rightarrow> string \<Rightarrow> string \<Rightarrow> thrown + deploy_manifest" where
  "deployment_manifest env args info deployer fpc ident tx now =
     and_then (sponsor_of env args) (\<lambda>sponsor.
     and_then (address_from_string (de_lib env) fpc) (\<lambda>fpc_address.
     and_then (address_from_string (de_lib env) (oi_address ident)) (\<lambda>op.
     and_then (fr_from_hex (de_lib env) (oi_pubkey_x ident)) (\<lambda>x.
     and_then (fr_from_hex (de_lib env) (oi_pubkey_y ident)) (\<lambda>y.
     Inr \<lparr>dm_generated_at = now,
          dm_network = \<lparr>mn_node_url = ca_node_url args, mn_node_version = ni_node_version info,
            mn_l1_chain_id = ni_l1_chain_id info, mn_rollup_version = ni_rollup_version info\<rparr>,
          dm_sponsored_fpc_address = sponsor, dm_deployer_address = deployer, dm_fpc = fpc_address,
          dm_operator = \<lparr>mo_address = op, mo_pubkey_x = x, mo_pubkey_y = y\<rparr>, dm_fpc_deploy = tx\<rparr>)))))"

definition manifest_inputs :: "deploy_manifest \<Rightarrow> fpc_immutable_inputs" where
  "manifest_inputs m = \<lparr>fi_fpc_address = dm_fpc m, fi_operator_address = mo_address (dm_operator m),
     fi_operator_pubkey_x = mo_pubkey_x (dm_operator m), fi_operator_pubkey_y = mo_pubkey_y (dm_operator m)\<rparr>"

text \<open>The part after the preflight.\<close>

definition deploy_fpc ::
    "'w deploy_env \<Rightarrow> cli_args \<Rightarrow> node_info \<Rightarrow> string \<Rightarrow> string \<Rightarrow> operator_identity \<Rightarrow> ('w, deploy_outcome) ioe" where
  "deploy_fpc env args info deployer_key operator_key ident =
     bind_io (setup_accounts env args deployer_key operator_key ident) (\<lambda>(deployer, op).
     bind_io (from_pure (sponsor_of env args)) (\<lambda>sponsor.
     bind_io (from_pure (fr_from_hex (de_lib env) (oi_pubkey_x ident))) (\<lambda>x.
     bind_io (from_pure (fr_from_hex (de_lib env) (oi_pubkey_y ident))) (\<lambda>y.
     bind_io (de_fpc_instance_address env op x y) (\<lambda>fpc.
     bind_io (deploy_contract (de_fpc_deployment env op x y) (de_sleep env)
       \<lparr>do_from = deployer, do_sponsor = sponsor, do_skip_class_publication = False\<rparr> []) (\<lambda>tx.
     if \<not> ni_has_fee_asset_handler info
     then throw_io (cli_error ''node_getNodeInfo.l1ContractAddresses.feeAssetHandlerAddress is missing'')
     else
       bind_io (\<lambda>w. (deployment_manifest env args info deployer (address_to_string (de_lib env) fpc) ident tx
                       (de_now_iso env w), w)) (\<lambda>m.
       bind_io (de_write_manifest env (ca_out args) m) (\<lambda>_.
       if ca_skip_verify args then return_io (Deployed m)
       else bind_io (verify_deployment (de_lib env) (de_init_hash env) (de_node env) (de_sleep env)
                       (manifest_inputs m) None None) (\<lambda>_. return_io (Deployed m))))))))))"

definition run_deploy :: "'w deploy_env \<Rightarrow> cli_args \<Rightarrow> ('w, deploy_outcome) ioe" where
  "run_deploy env args =
     bind_io (de_wait_for_node env) (\<lambda>_.
     bind_io (de_get_node_info env) (\<lambda>info.
     case ca_deployer_secret_key args of
       None \<Rightarrow> throw_io (cli_error (''Contract deployment requires --deployer-secret-key (inline key). '' @
         ''The provided --deployer-secret-key-ref cannot be resolved by this script yet.''))
     | Some deployer_key \<Rightarrow> (case ca_operator_secret_key args of
         None \<Rightarrow>
           if ca_preflight_only args then return_io PreflightPassed
           else throw_io (cli_error (''Operator pubkey derivation requires --operator-secret-key. '' @
             ''The provided --operator-secret-key-ref cannot be resolved by this script yet.''))
       | Some operator_key \<Rightarrow>
           bind_io (from_pure (derive_operator_identity env operator_key)) (\<lambda>ident.
           bind_io (from_pure (check_operator args ident)) (\<lambda>_.
           if ca_preflight_only args then return_io PreflightPassed
           else deploy_fpc env args info deployer_key operator_key ident)))))"

text \<open>\<open>main\<close>: \<open>None\<close> is the run that prints the usage.\<close>

definition deploy_main :: "'w deploy_env \<Rightarrow> cli_platform \<Rightarrow> string list \<Rightarrow> ('w, deploy_outcome option) ioe" where
  "deploy_main env p argv =
     bind_io (from_pure (parse_cli_args p argv)) (\<lambda>r.
     case r of None \<Rightarrow> return_io None
     | Some args \<Rightarrow> bind_io (run_deploy env args) (\<lambda>res. return_io (Some res)))"

section \<open>Facts\<close>

definition redeploys :: "thrown + string \<Rightarrow> bool" where
  "redeploys r \<longleftrightarrow> (\<exists>e. r = Inl e \<and> (is_class_publication_race e \<or> is_transient_block_error e))"

lemma deploy_loop_retry:
  "attempt \<le> MAX_RETRIES \<Longrightarrow> deploy_loop go sleep attempt w =
     retry redeploys go (sleep RETRY_DELAY_MS) (MAX_RETRIES + 1 - attempt) w"
proof (induction "MAX_RETRIES - attempt" arbitrary: attempt w)
  case 0
  then have "attempt = MAX_RETRIES" by simp
  then show ?case
    by (subst deploy_loop.simps) (auto split: prod.splits sum.splits)
next
  case (Suc k)
  then have less: "attempt < MAX_RETRIES" by simp
  have IH: "deploy_loop go sleep (attempt + 1) w = retry redeploys go (sleep RETRY_DELAY_MS) (MAX_RETRIES - attempt) w" for w
    using Suc.hyps(1) [of "attempt + 1"] Suc.hyps(2) less by simp
  have m: "MAX_RETRIES + 1 - attempt = Suc (MAX_RETRIES - attempt)" "MAX_RETRIES - attempt \<noteq> 0" using less by simp_all
  show ?case
    unfolding m(1) using less
    by (subst deploy_loop.simps) (auto simp: IH redeploys_def simp flip: One_nat_def split: prod.splits sum.splits)
qed

lemma deploy_contract_retry:
  "deploy_contract cd sleep opts calls w =
     retry redeploys (deploy_attempt cd opts calls) (sleep RETRY_DELAY_MS) (MAX_RETRIES + 1) w"
  by (simp add: deploy_contract_def deploy_loop_retry)

lemma parse_hex32_iff: "parse_hex32 v f = Inr r \<longleftrightarrow> hex_word 64 v \<and> r = v"
  by (auto simp: parse_hex32_def)

lemma parse_aztec_address_iff: "parse_aztec_address v f = Inr r \<longleftrightarrow> hex_word 64 v \<and> \<not> zeros (drop 2 v) \<and> r = v"
  by (auto simp: parse_aztec_address_def)

lemma parse_http_url_iff:
  "parse_http_url p v f = Inr r \<longleftrightarrow> (\<exists>pr. cp_url p v = Some (pr, r) \<and> (pr = ''http:'' \<or> pr = ''https:''))"
  by (auto simp: parse_http_url_def split: option.splits)

lemma parse_secret_pair_iff:
  "parse_secret_pair v r a b = Inr q \<longleftrightarrow> \<not> (is_set v \<and> is_set r) \<and> q = (v, r)"
  by (auto simp: parse_secret_pair_def)

definition usable_address :: "string option \<Rightarrow> bool" where
  "usable_address a \<longleftrightarrow> (\<forall>v. a = Some v \<longrightarrow> hex_word 64 v \<and> \<not> zeros (drop 2 v))"

definition usable_key :: "string option \<Rightarrow> bool" where
  "usable_key k \<longleftrightarrow> (\<forall>v. k = Some v \<longrightarrow> hex_word 64 v)"

definition cli_args_wf :: "cli_platform \<Rightarrow> cli_args \<Rightarrow> bool" where
  "cli_args_wf p a \<longleftrightarrow>
     (\<exists>v pr. cp_url p v = Some (pr, ca_node_url a) \<and> (pr = ''http:'' \<or> pr = ''https:'')) \<and>
     usable_address (ca_sponsored_fpc_address a) \<and> usable_address (ca_operator a) \<and>
     usable_key (ca_deployer_secret_key a) \<and> usable_key (ca_operator_secret_key a) \<and>
     (ca_deployer_secret_key a = None \<longleftrightarrow> ca_deployer_secret_key_ref a \<noteq> None) \<and>
     \<not> (ca_operator_secret_key a \<noteq> None \<and> ca_operator_secret_key_ref a \<noteq> None) \<and>
     (ca_operator_secret_key a = None \<and> ca_operator_secret_key_ref a = None \<longrightarrow> ca_deployer_secret_key a = None)"

lemma finish_args_wf:
  assumes "finish_args p a = Inr r"
  shows "cli_args_wf p r"
proof -
  define dv dr ov0 oref where "dv = cv_deployer_secret_key a" and "dr = cv_deployer_secret_key_ref a"
    and "ov0 = cv_operator_secret_key a" and "oref = cv_operator_secret_key_ref a"
  define ov where "ov = (if \<not> is_set ov0 \<and> \<not> is_set oref then dv else ov0)"
  have pairs: "\<not> (is_set dv \<and> is_set dr)" "\<not> (is_set ov0 \<and> is_set oref)"
    using assms by (auto simp: finish_args_def and_then_Inr_iff parse_secret_pair_iff dv_def dr_def ov0_def oref_def)
  moreover have given: "is_set dv \<or> is_set dr" "is_set (cv_node_url a)"
    using assms pairs unfolding dv_def [symmetric] dr_def [symmetric] ov0_def [symmetric] oref_def [symmetric]
    by (auto simp: finish_args_def and_then_Inr_iff parse_secret_pair_iff Let_def dv_def dr_def split: if_splits)
  ultimately have run: "and_then (parse_http_url p (the (cv_node_url a)) ''--node-url'') (\<lambda>url.
          and_then (case cv_operator a of None \<Rightarrow> Inr None
            | Some addr \<Rightarrow> map_sum id Some (parse_aztec_address addr ''--operator'')) (\<lambda>op.
          and_then (if_set (\<lambda>v. parse_aztec_address v ''--sponsored-fpc-address'') (cv_sponsored_fpc_address a)) (\<lambda>sp.
          and_then (if_set (\<lambda>v. parse_hex32 v ''--deployer-secret-key'') dv) (\<lambda>dk.
          and_then (if_set (\<lambda>v. parse_non_empty_string v ''--deployer-secret-key-ref'') dr) (\<lambda>dkr.
          and_then (if_set (\<lambda>v. parse_hex32 v ''--operator-secret-key'') ov) (\<lambda>ok.
          and_then (if_set (\<lambda>v. parse_non_empty_string v ''--operator-secret-key-ref'') oref) (\<lambda>okr.
          Inr \<lparr>ca_node_url = url, ca_sponsored_fpc_address = sp, ca_deployer_secret_key = dk,
               ca_deployer_secret_key_ref = dkr, ca_operator_secret_key = ok, ca_operator_secret_key_ref = okr,
               ca_operator = op,
               ca_out = (if cv_out_explicit a then cv_out a else cp_join p (cv_data_dir a) ''manifest.json''),
               ca_prover_enabled = cv_prover_enabled a, ca_preflight_only = cv_preflight_only a,
               ca_skip_verify = cv_skip_verify a\<rparr>))))))) = Inr r"
    using assms by (auto simp: finish_args_def parse_secret_pair_def Let_def dv_def dr_def ov0_def oref_def ov_def)
  then obtain pr where "cp_url p (the (cv_node_url a)) = Some (pr, ca_node_url r)" "pr = ''http:'' \<or> pr = ''https:''"
    and op: "case cv_operator a of None \<Rightarrow> ca_operator r = None
       | Some v \<Rightarrow> hex_word 64 v \<and> \<not> zeros (drop 2 v) \<and> ca_operator r = Some v"
    and sp: "if_set (\<lambda>v. parse_aztec_address v ''--sponsored-fpc-address'') (cv_sponsored_fpc_address a) =
       Inr (ca_sponsored_fpc_address r)"
    and keys: "if_set (\<lambda>v. parse_hex32 v ''--deployer-secret-key'') dv = Inr (ca_deployer_secret_key r)"
      "if_set (\<lambda>v. parse_non_empty_string v ''--deployer-secret-key-ref'') dr = Inr (ca_deployer_secret_key_ref r)"
      "if_set (\<lambda>v. parse_hex32 v ''--operator-secret-key'') ov = Inr (ca_operator_secret_key r)"
      "if_set (\<lambda>v. parse_non_empty_string v ''--operator-secret-key-ref'') oref = Inr (ca_operator_secret_key_ref r)"
    by (auto simp: and_then_Inr_iff parse_http_url_iff map_Some parse_aztec_address_iff split: option.splits)
  moreover have "usable_address (ca_operator r)"
    using op by (auto simp: usable_address_def split: option.splits)
  moreover have "usable_address (ca_sponsored_fpc_address r)"
    using sp by (auto simp: usable_address_def if_set_iff parse_aztec_address_iff split: if_splits)
  moreover have "usable_key (ca_deployer_secret_key r)" "usable_key (ca_operator_secret_key r)"
    using keys(1,3) by (auto simp: usable_key_def if_set_iff parse_hex32_iff split: if_splits)
  moreover have "ca_deployer_secret_key r = None \<longleftrightarrow> \<not> is_set dv" "ca_deployer_secret_key_ref r = None \<longleftrightarrow> \<not> is_set dr"
    "ca_operator_secret_key r = None \<longleftrightarrow> \<not> is_set ov" "ca_operator_secret_key_ref r = None \<longleftrightarrow> \<not> is_set oref"
    using keys by (auto simp: if_set_iff split: if_splits)
  ultimately show ?thesis
    using pairs given unfolding cli_args_wf_def ov_def by (auto split: if_splits)
qed

text \<open>
  What the deployment tool accepts is complete and consistent. Whatever the environment and
  the arguments, an accepted command line has an http(s) node URL, a deployer key given exactly
  one way, no operator key given two ways, an operator key whenever the deployer's key is
  given inline, keys of 32 bytes, and addresses that are words other than zero.
\<close>

theorem parse_cli_args_wf:
  assumes "parse_cli_args p argv = Inr (Some a)"
  shows "cli_args_wf p a"
proof -
  from assms obtain v where "finish_args p v = Inr a"
    by (auto simp: parse_cli_args_def and_then_Inr_iff map_Some split: option.splits)
  then show ?thesis by (rule finish_args_wf)
qed

definition demo_platform :: cli_platform where
  "demo_platform = \<lparr>cp_env = (\<lambda>k. if k = ''FPC_DEPLOYER_SECRET_KEY'' then Some (''0x'' @ replicate 64 (CHR ''a'')) else None),
     cp_url = (\<lambda>u. Some (''http:'', u)), cp_join = (\<lambda>d f. d @ ''/'' @ f)\<rparr>"

definition demo_argv :: "string list" where
  "demo_argv = [''--node-url'', ''http://n'', ''--preflight-only'', ''--pxe-prover-enabled'', ''FALSE'']"

lemma demo_cli: "\<exists>a. parse_cli_args demo_platform demo_argv = Inr (Some a) \<and> ca_preflight_only a \<and> \<not> ca_skip_verify a"
proof -
  have "case parse_cli_args demo_platform demo_argv of Inr (Some a) \<Rightarrow> ca_preflight_only a \<and> \<not> ca_skip_verify a | _ \<Rightarrow> False"
    by code_simp
  then show ?thesis by (auto split: sum.splits option.splits)
qed

lemma parse_cli_args_wf_witness:
  "\<exists>a. parse_cli_args demo_platform demo_argv = Inr (Some a) \<and> cli_args_wf demo_platform a"
  using demo_cli parse_cli_args_wf by blast

text \<open>
  A preflight changes nothing. With \<open>--preflight-only\<close> a run ends without a deployment, and
  its result and effects do not depend on the wallet, the deployment or the manifest file:
  none of them is called.
\<close>

theorem preflight_deploys_nothing:
  assumes "ca_preflight_only args"
  shows "(\<forall>m. fst (run_deploy env args w) \<noteq> Inr (Deployed m)) \<and>
    run_deploy (env\<lparr>de_create_wallet := cw, de_create_schnorr_account := acc, de_fpc_instance_address := inst,
        de_fpc_deployment := dep, de_write_manifest := wm, de_sleep := sl\<rparr>) args w = run_deploy env args w"
proof -
  have "derive_operator_identity (env\<lparr>de_create_wallet := cw, de_create_schnorr_account := acc,
      de_fpc_instance_address := inst, de_fpc_deployment := dep, de_write_manifest := wm, de_sleep := sl\<rparr>) k =
    derive_operator_identity env k" for k
    by (simp add: derive_operator_identity_def)
  then show ?thesis
    using assms by (auto simp: run_deploy_def bind_io_def return_io_def throw_io_def from_pure_def
        split: option.splits prod.splits sum.splits)
qed

lemma deployed_parts:
  assumes "run_deploy env args w = (Inr (Deployed m), w')"
  obtains key secret where "ca_operator_secret_key args = Some key" "fr_from_hex (de_lib env) key = Inr secret"
    "address_from_string (de_lib env) (address_to_string (de_lib env) (de_account_address env secret 0)) =
       Inr (mo_address (dm_operator m))"
    "fr_from_hex (de_lib env) (fr_to_string (de_lib env) (fst (de_public_key env (de_derive_signing_key env secret)))) =
       Inr (mo_pubkey_x (dm_operator m))"
    "fr_from_hex (de_lib env) (fr_to_string (de_lib env) (snd (de_public_key env (de_derive_signing_key env secret)))) =
       Inr (mo_pubkey_y (dm_operator m))"
    "ca_skip_verify args \<or> (\<exists>w1. verify_deployment (de_lib env) (de_init_hash env) (de_node env) (de_sleep env)
       (manifest_inputs m) None None w1 = (Inr (), w'))"
proof -
  from assms obtain dkey key info ident w1 where
    key: "ca_operator_secret_key args = Some key" "derive_operator_identity env key = Inr ident"
    and run: "deploy_fpc env args info dkey key ident w1 = (Inr (Deployed m), w')"
    by (cases "ca_deployer_secret_key args"; cases "ca_operator_secret_key args")
      (auto simp: run_deploy_def io_Inr_iff split: if_splits)
  from key(2) obtain secret where secret: "fr_from_hex (de_lib env) key = Inr secret"
    "ident = \<lparr>oi_address = address_to_string (de_lib env) (de_account_address env secret 0),
       oi_pubkey_x = fr_to_string (de_lib env) (fst (de_public_key env (de_derive_signing_key env secret))),
       oi_pubkey_y = fr_to_string (de_lib env) (snd (de_public_key env (de_derive_signing_key env secret)))\<rparr>"
    by (auto simp: derive_operator_identity_def and_then_Inr_iff Let_def)
  from run obtain deployer fpc tx now where
    "deployment_manifest env args info deployer fpc ident tx now = Inr m"
    "ca_skip_verify args \<or> (\<exists>w1. verify_deployment (de_lib env) (de_init_hash env) (de_node env) (de_sleep env)
       (manifest_inputs m) None None w1 = (Inr (), w'))"
    by (auto simp: deploy_fpc_def io_Inr_iff split: if_splits prod.splits) blast+
  with key(1) secret show thesis
    by (intro that) (auto simp: deployment_manifest_def and_then_Inr_iff)
qed

section \<open>The deployment and its checks\<close>

definition demo_deploy_lib :: aztec_lib where
  "demo_deploy_lib = demo_lib\<lparr>fr_from_hex := (\<lambda>s. if hex_word 64 s then Inr 77
     else if digits_only s then Inr (dec_value s) else Inl (error ''bad field''))\<rparr>"

definition demo_deployment :: "(nat, unit) contract_deployment" where
  "demo_deployment = \<lparr>cd_class_id = (\<lambda>w. (Inr 33, w)), cd_publicly_registered = (\<lambda>c w. (Inr (0 < w), w)),
     cd_send = (\<lambda>opts w. (if do_skip_class_publication opts then Inr ''0xabc'' else Inl (error ''Nullifier conflict''), w)),
     cd_send_batch = (\<lambda>calls opts w. (Inr ''0xabc'', w))\<rparr>"

definition demo_deploy_env :: "nat deploy_env" where
  "demo_deploy_env = \<lparr>de_lib = demo_deploy_lib, de_init_hash = demo_init_hash,
     de_node = \<lparr>dn_get_contract = (\<lambda>a w. (Inr (Some (Instance (demo_instance 7))), w)),
       dn_get_contract_class = (\<lambda>c w. (Inr True, w))\<rparr>,
     de_wait_for_node = (\<lambda>w. (Inr (), w)),
     de_get_node_info = (\<lambda>w. (Inr \<lparr>ni_node_version = ''1'', ni_l1_chain_id = 1, ni_rollup_version = 1,
       ni_has_fee_asset_handler = True\<rparr>, w)),
     de_derive_signing_key = (\<lambda>k. k), de_public_key = (\<lambda>k. (1, 2)), de_account_address = (\<lambda>k salt. 4),
     de_create_wallet = (\<lambda>b w. (Inr (), w)), de_create_schnorr_account = (\<lambda>s salt k w. (Inr 4, w)),
     de_fpc_instance_address = (\<lambda>a x y w. (Inr 5, w)), de_fpc_deployment = (\<lambda>a x y. demo_deployment),
     de_now_iso = (\<lambda>w. ''2026''), de_write_manifest = (\<lambda>p m w. (Inr (), w)), de_sleep = (\<lambda>ms w. w + 1)\<rparr>"

definition demo_args :: cli_args where
  "demo_args = \<lparr>ca_node_url = ''http://n'', ca_sponsored_fpc_address = None,
     ca_deployer_secret_key = Some (''0x'' @ replicate 64 (CHR ''a'')), ca_deployer_secret_key_ref = None,
     ca_operator_secret_key = Some (''0x'' @ replicate 64 (CHR ''a'')), ca_operator_secret_key_ref = None,
     ca_operator = None, ca_out = ''m.json'', ca_prover_enabled = True, ca_preflight_only = False, ca_skip_verify = False\<rparr>"

lemma demo_deploys: "\<exists>m. run_deploy demo_deploy_env demo_args 0 = (Inr (Deployed m), 1) \<and> dm_fpc m = 5"
proof -
  have "case run_deploy demo_deploy_env demo_args 0 of (Inr (Deployed m), w) \<Rightarrow> w = 1 \<and> dm_fpc m = 5 | _ \<Rightarrow> False"
    by code_simp
  then show ?thesis by (auto split: prod.splits sum.splits deploy_outcome.splits)
qed

text \<open>
  C33. A finished deployment belongs to the operator's key. If a run ends with a manifest and the
  verification was not skipped, the node reported at the manifest's address a contract whose
  initialization hash is that of the manifest's operator and key, and these are what the
  operator's secret key derives to (read back from their printed form).
\<close>

theorem deployment_is_verified:
  assumes "run_deploy env args w = (Inr (Deployed m), w')" "\<not> ca_skip_verify args"
  shows "\<exists>key secret w1 ci. ca_operator_secret_key args = Some key \<and> fr_from_hex (de_lib env) key = Inr secret \<and>
    address_from_string (de_lib env) (address_to_string (de_lib env) (de_account_address env secret 0)) =
      Inr (mo_address (dm_operator m)) \<and>
    fr_from_hex (de_lib env) (fr_to_string (de_lib env) (fst (de_public_key env (de_derive_signing_key env secret)))) =
      Inr (mo_pubkey_x (dm_operator m)) \<and>
    fr_from_hex (de_lib env) (fr_to_string (de_lib env) (snd (de_public_key env (de_derive_signing_key env secret)))) =
      Inr (mo_pubkey_y (dm_operator m)) \<and>
    dn_get_contract (de_node env) (dm_fpc m) w1 = (Inr (Some (Instance ci)), w') \<and>
    ci_initialization_hash ci = Some (RawFr (de_init_hash env FPC_CONSTRUCTOR_ABI
      [mo_address (dm_operator m), mo_pubkey_x (dm_operator m), mo_pubkey_y (dm_operator m)]))"
  using assms(1)
proof (rule deployed_parts)
  fix key secret
  assume parts: "ca_operator_secret_key args = Some key" "fr_from_hex (de_lib env) key = Inr secret"
    "address_from_string (de_lib env) (address_to_string (de_lib env) (de_account_address env secret 0)) =
       Inr (mo_address (dm_operator m))"
    "fr_from_hex (de_lib env) (fr_to_string (de_lib env) (fst (de_public_key env (de_derive_signing_key env secret)))) =
       Inr (mo_pubkey_x (dm_operator m))"
    "fr_from_hex (de_lib env) (fr_to_string (de_lib env) (snd (de_public_key env (de_derive_signing_key env secret)))) =
       Inr (mo_pubkey_y (dm_operator m))"
    and v: "ca_skip_verify args \<or> (\<exists>w1. verify_deployment (de_lib env) (de_init_hash env) (de_node env) (de_sleep env)
       (manifest_inputs m) None None w1 = (Inr (), w'))"
  have "0 < max_attempts_of None" by (simp add: max_attempts_of_def DEFAULT_MAX_ATTEMPTS_def)
  with v assms(2) obtain w1 ci where "dn_get_contract (de_node env) (fi_fpc_address (manifest_inputs m)) w1 =
      (Inr (Some (Instance ci)), w')"
    "ci_initialization_hash ci = Some (RawFr (compute_expected_fpc_initialization_hash (de_init_hash env) (manifest_inputs m)))"
    by (blast dest: verify_deployment_success)
  with parts show ?thesis
    by (auto simp: manifest_inputs_def compute_expected_fpc_initialization_hash_def)
qed

lemma deployment_is_verified_witness:
  "\<exists>m w1 ci. run_deploy demo_deploy_env demo_args 0 = (Inr (Deployed m), 1) \<and>
     dn_get_contract (de_node demo_deploy_env) (dm_fpc m) w1 = (Inr (Some (Instance ci)), 1) \<and>
     ci_initialization_hash ci = Some (RawFr (demo_init_hash FPC_CONSTRUCTOR_ABI
       [mo_address (dm_operator m), mo_pubkey_x (dm_operator m), mo_pubkey_y (dm_operator m)]))"
proof -
  obtain m where m: "run_deploy demo_deploy_env demo_args 0 = (Inr (Deployed m), 1)" using demo_deploys by blast
  have "\<not> ca_skip_verify demo_args" "de_init_hash demo_deploy_env = demo_init_hash"
    by (simp_all add: demo_args_def demo_deploy_env_def)
  with deployment_is_verified [OF m] m show ?thesis by metis
qed

text \<open>
  Deploying one contract is bounded and skips a published class. Whatever the wallet does,
  \<open>deployContract\<close> makes at most four attempts, and a next one only after a race on the class
  publication or a transient block error; its result is that of the last attempt. Every
  attempt asks for the class again and leaves out its publication when it is registered.
\<close>

theorem deploy_contract_attempts:
  assumes "deploy_contract cd sleep opts calls w = (r, w')"
  shows "(\<exists>ws. runs_of redeploys (deploy_attempt cd opts calls) (sleep 3000) w ws \<and> length ws \<le> 4 \<and>
      (length ws < 4 \<longrightarrow> \<not> redeploys r) \<and> deploy_attempt cd opts calls (last ws) = (r, w')) \<and>
    (\<forall>v c v1 b v2. cd_class_id cd v = (Inr c, v1) \<longrightarrow> cd_publicly_registered cd c v1 = (Inr b, v2) \<longrightarrow>
       deploy_attempt cd opts [] v = cd_send cd (if b then opts\<lparr>do_skip_class_publication := True\<rparr> else opts) v2)"
proof
  have "retry redeploys (deploy_attempt cd opts calls) (sleep 3000) 4 w = (r, w')"
    using assms by (simp add: deploy_contract_retry MAX_RETRIES_def RETRY_DELAY_MS_def)
  from retry_runs [OF _ this]
  show "\<exists>ws. runs_of redeploys (deploy_attempt cd opts calls) (sleep 3000) w ws \<and> length ws \<le> 4 \<and>
      (length ws < 4 \<longrightarrow> \<not> redeploys r) \<and> deploy_attempt cd opts calls (last ws) = (r, w')" by simp
qed (simp add: deploy_attempt_def bind_io_def Let_def)

lemma deploy_contract_attempts_witness:
  "\<exists>ws. runs_of redeploys (deploy_attempt demo_deployment \<lparr>do_from = 4, do_sponsor = None, do_skip_class_publication = False\<rparr> [])
     (\<lambda>w. w + 1) 0 ws \<and> length ws \<le> 4"
proof -
  have "deploy_contract demo_deployment (\<lambda>ms w. w + 1) \<lparr>do_from = 4, do_sponsor = None, do_skip_class_publication = False\<rparr> [] 0 =
    (Inr ''0xabc'', 1)" by code_simp
  from deploy_contract_attempts [OF this] show ?thesis by blast
qed

lemma preflight_deploys_nothing_witness:
  "\<forall>m. fst (run_deploy demo_deploy_env (demo_args\<lparr>ca_preflight_only := True\<rparr>) 0) \<noteq> Inr (Deployed m)"
  using preflight_deploys_nothing [of "demo_args\<lparr>ca_preflight_only := True\<rparr>" demo_deploy_env 0] by simp

end
