(* ===== verification/Script_Args.thy ===== *)
theory Script_Args
  imports Cli_Args Js_Values
begin

text \<open>
  What the command-line scripts for operators share: reading an environment variable, secret
  keys with and without their prefix, URLs, positive integers and the node URL of a manifest
  that was parsed without a schema. The texts of the errors differ between the scripts and are
  arguments.
\<close>

text \<open>\<open>sp_url\<close> is \<open>new URL\<close>, \<open>sp_string\<close> is \<open>String(v)\<close> of a value that is not a string.\<close>

record script_platform =
  sp_env :: "string \<Rightarrow> string option"
  sp_url :: "string \<Rightarrow> (string \<times> string) option"
  sp_string :: "jsval \<Rightarrow> string"
  sp_resolve :: "string \<Rightarrow> string"

definition parse_optional_env :: "script_platform \<Rightarrow> string \<Rightarrow> string option" where
  "parse_optional_env p name = trimmed_opt (sp_env p name)"

text \<open>\<open>raw === null ? null : f(raw)\<close>.\<close>

definition parse_optional :: "(string \<Rightarrow> thrown + 'a) \<Rightarrow> string option \<Rightarrow> thrown + 'a option" where
  "parse_optional f v = (case v of None \<Rightarrow> Inr None | Some s \<Rightarrow> map_sum id Some (f s))"

text \<open>\<open>x ?? y\<close>.\<close>

definition or_else :: "'a option \<Rightarrow> 'a option \<Rightarrow> 'a option" where
  "or_else x y = (case x of None \<Rightarrow> y | Some v \<Rightarrow> Some v)"

definition with_0x :: "string \<Rightarrow> string" where
  "with_0x raw = (if starts_with raw ''0x'' then raw else ''0x'' @ raw)"

definition hex32_or :: "thrown \<Rightarrow> string \<Rightarrow> thrown + string" where
  "hex32_or e raw = (if hex_word 64 (with_0x raw) then Inr (with_0x raw) else Inl e)"

definition http_url_or :: "script_platform \<Rightarrow> thrown \<Rightarrow> thrown \<Rightarrow> string \<Rightarrow> thrown + string" where
  "http_url_or p no_url no_http raw = (case sp_url p raw of
     None \<Rightarrow> Inl no_url
   | Some (protocol, href) \<Rightarrow>
       if protocol \<noteq> ''http:'' \<and> protocol \<noteq> ''https:'' then Inl no_http else Inr href)"

text \<open>An unsigned decimal, then \<open>Number.isSafeInteger(Number(raw))\<close> and positive.\<close>

definition positive_int_or :: "thrown \<Rightarrow> thrown \<Rightarrow> string \<Rightarrow> thrown + int" where
  "positive_int_or no_int no_safe raw =
     (if \<not> uint_decimal raw then Inl no_int
      else let n = js_Number raw in
        if \<not> (is_integer n \<and> \<bar>number_value n\<bar> \<le> MAX_SAFE_INTEGER) \<or> number_value n \<le> 0 then Inl no_safe
        else Inr (number_value n))"

text \<open>\<open>!v\<close>.\<close>

definition js_falsy :: "jsval \<Rightarrow> bool" where
  "js_falsy v = (case v of
     JUndefined \<Rightarrow> True | JNull \<Rightarrow> True | JBool b \<Rightarrow> \<not> b | JNum n \<Rightarrow> n = Finite 0 | JString s \<Rightarrow> s = []
   | _ \<Rightarrow> False)"

text \<open>The text that a parameter of type \<open>string\<close> is used as.\<close>

definition js_text :: "script_platform \<Rightarrow> jsval \<Rightarrow> string" where
  "js_text p v = (case v of JString s \<Rightarrow> s | _ \<Rightarrow> sp_string p v)"

text \<open>\<open>manifest.section?.key\<close>, where only the manifest itself may not be \<open>null\<close>.\<close>

definition manifest_field :: "jsval \<Rightarrow> string \<Rightarrow> string \<Rightarrow> thrown + jsval" where
  "manifest_field manifest sec key =
     (if manifest = JNull
      then Inl (Thrown ''TypeError'' (''Cannot read properties of null (reading '' @ [CHR 0x27] @ sec @ [CHR 0x27] @ '')''))
      else Inr (jfield key (jfield sec manifest)))"

definition node_url_raw :: "string option \<Rightarrow> jsval \<Rightarrow> thrown + jsval" where
  "node_url_raw given manifest = (case given of
     Some u \<Rightarrow> Inr (JString u)
   | None \<Rightarrow> manifest_field manifest ''network'' ''node_url'')"

text \<open>A missing URL is an error, any other value is parsed.\<close>

definition resolve_node_url ::
    "script_platform \<Rightarrow> thrown \<Rightarrow> (string \<Rightarrow> thrown + string) \<Rightarrow> string option \<Rightarrow> jsval \<Rightarrow> thrown + string" where
  "resolve_node_url p missing parse given manifest =
     and_then (node_url_raw given manifest) (\<lambda>raw.
     if js_falsy raw then Inl missing else parse (js_text p raw))"

text \<open>What the parsers promise.\<close>

definition key_or_none :: "string option \<Rightarrow> bool" where
  "key_or_none k \<longleftrightarrow> (case k of None \<Rightarrow> True | Some s \<Rightarrow> hex_word 64 s)"

definition url_or_none :: "script_platform \<Rightarrow> string option \<Rightarrow> bool" where
  "url_or_none p u \<longleftrightarrow> (case u of None \<Rightarrow> True
     | Some h \<Rightarrow> \<exists>raw pr. sp_url p raw = Some (pr, h) \<and> (pr = ''http:'' \<or> pr = ''https:''))"

lemma hex32_or_Inr: "hex32_or e raw = Inr r \<longleftrightarrow> hex_word 64 r \<and> r = with_0x raw"
  by (auto simp: hex32_or_def)

lemma http_url_or_Inr:
  "http_url_or p e e' raw = Inr r \<longleftrightarrow> (\<exists>pr. sp_url p raw = Some (pr, r) \<and> (pr = ''http:'' \<or> pr = ''https:''))"
  by (auto simp: http_url_or_def split: option.splits)

lemma positive_int_or_Inr: "positive_int_or e e' raw = Inr n \<Longrightarrow> 0 < n \<and> n \<le> MAX_SAFE_INTEGER"
  by (auto simp: positive_int_or_def Let_def split: if_splits)

lemma parse_optional_Inr:
  "parse_optional f v = Inr r \<longleftrightarrow> (case v of None \<Rightarrow> r = None | Some s \<Rightarrow> \<exists>x. f s = Inr x \<and> r = Some x)"
  by (auto simp: parse_optional_def map_Some split: option.splits)

end
