(* ===== verification/Fund_Claimer.thy ===== *)
theory Fund_Claimer
  imports Script_Args Aztec_Lib Topup_Bridge
begin

text \<open>
  The script that funds an account on L2, \<open>services/topup/src/fund-claimer-l2.ts\<close>: its
  arguments, the resolution of keys and addresses, the bridge of Fee Juice to the claimer and
  the claim of the deposit with its retries, paid by the fee payer or out of the claim itself.

  Node, L1 clients, wallet and the Fee Juice contract are fields of \<open>claim_env\<close>; the manifest
  is what \<open>JSON.parse\<close> gave.
\<close>

section \<open>Arguments\<close>

definition DEFAULT_CLAIM_TIMEOUT_SECONDS :: int where
  "DEFAULT_CLAIM_TIMEOUT_SECONDS = 120"

definition DEFAULT_MESSAGE_READY_TIMEOUT_SECONDS :: int where
  "DEFAULT_MESSAGE_READY_TIMEOUT_SECONDS = 300"

definition DEFAULT_CLAIM_RETRIES :: nat where
  "DEFAULT_CLAIM_RETRIES = 8"

definition DEFAULT_CLAIM_RETRY_DELAY_MS :: int where
  "DEFAULT_CLAIM_RETRY_DELAY_MS = 15000"

text \<open>Relative to the root of the repository, against which \<open>sp_resolve\<close> resolves a path.\<close>

definition DEFAULT_MANIFEST_PATH :: string where
  "DEFAULT_MANIFEST_PATH = ''deployments/devnet-manifest-v2.json''"

record claim_values =
  vv_amount_wei_raw :: "string option"
  vv_manifest_path :: string
  vv_node_url :: "string option"
  vv_l1_rpc_url :: "string option"
  vv_l1_private_key :: "string option"
  vv_claimer_secret_key :: "string option"
  vv_claimer_address :: "string option"
  vv_fee_payer_secret_key :: "string option"
  vv_skip_claim :: bool
  vv_claim_timeout_seconds :: int
  vv_message_ready_timeout_seconds :: int
  vv_claim_retries :: nat
  vv_claim_retry_delay_ms :: int

record claim_cli_args =
  fc_amount_wei :: int
  fc_manifest_path :: string
  fc_node_url :: "string option"
  fc_l1_rpc_url :: "string option"
  fc_l1_private_key :: "string option"
  fc_claimer_secret_key :: "string option"
  fc_claimer_address :: "string option"
  fc_fee_payer_secret_key :: "string option"
  fc_skip_claim :: bool
  fc_claim_timeout_seconds :: int
  fc_message_ready_timeout_seconds :: int
  fc_claim_retries :: nat
  fc_claim_retry_delay_ms :: int

definition parse_hex32 :: "string \<Rightarrow> string \<Rightarrow> thrown + string" where
  "parse_hex32 name raw = hex32_or (error (''Invalid '' @ name @ ''. Expected 32-byte 0x-prefixed hex.'')) raw"

definition parse_aztec_address :: "aztec_lib \<Rightarrow> string \<Rightarrow> string \<Rightarrow> thrown + string" where
  "parse_aztec_address lib name raw = (case address_from_string lib raw of
     Inr a \<Rightarrow> Inr (address_to_string lib a)
   | Inl _ \<Rightarrow> Inl (error (''Invalid '' @ name @ ''. Expected 32-byte Aztec address.'')))"

definition parse_http_url :: "script_platform \<Rightarrow> string \<Rightarrow> string \<Rightarrow> thrown + string" where
  "parse_http_url p name raw =
     http_url_or p (error (''Invalid '' @ name @ ''. Expected URL, got \"'' @ raw @ ''\"''))
       (error (''Invalid '' @ name @ ''. Expected http(s) URL, got \"'' @ raw @ ''\"'')) raw"

definition parse_positive_int :: "string \<Rightarrow> string \<Rightarrow> thrown + int" where
  "parse_positive_int name raw =
     positive_int_or (error (''Invalid '' @ name @ ''. Expected non-negative integer.''))
       (error (''Invalid '' @ name @ ''. Expected positive safe integer.'')) raw"

definition env_hex32 :: "script_platform \<Rightarrow> string \<Rightarrow> thrown + string option" where
  "env_hex32 p name = parse_optional (parse_hex32 name) (parse_optional_env p name)"

definition initial_claim_values :: "aztec_lib \<Rightarrow> script_platform \<Rightarrow> thrown + claim_values" where
  "initial_claim_values lib p =
     and_then (env_hex32 p ''L1_OPERATOR_PRIVATE_KEY'') (\<lambda>l1_key.
     and_then (env_hex32 p ''TOPUP_AUTOCLAIM_SECRET_KEY'') (\<lambda>claimer_key.
     and_then (parse_optional (parse_aztec_address lib ''TOPUP_AUTOCLAIM_CLAIMER_ADDRESS'')
       (parse_optional_env p ''TOPUP_AUTOCLAIM_CLAIMER_ADDRESS'')) (\<lambda>claimer.
     and_then (env_hex32 p ''TOPUP_AUTOCLAIM_FEE_PAYER_SECRET_KEY'') (\<lambda>payer_key.
     Inr \<lparr>vv_amount_wei_raw = parse_optional_env p ''TOPUP_AUTOCLAIM_FUND_AMOUNT_WEI'',
          vv_manifest_path = (case parse_optional_env p ''FPC_DEPLOY_MANIFEST'' of
             Some m \<Rightarrow> m | None \<Rightarrow> DEFAULT_MANIFEST_PATH),
          vv_node_url = parse_optional_env p ''AZTEC_NODE_URL'', vv_l1_rpc_url = parse_optional_env p ''L1_RPC_URL'',
          vv_l1_private_key = l1_key, vv_claimer_secret_key = claimer_key, vv_claimer_address = claimer,
          vv_fee_payer_secret_key = payer_key, vv_skip_claim = False,
          vv_claim_timeout_seconds = DEFAULT_CLAIM_TIMEOUT_SECONDS,
          vv_message_ready_timeout_seconds = DEFAULT_MESSAGE_READY_TIMEOUT_SECONDS,
          vv_claim_retries = DEFAULT_CLAIM_RETRIES,
          vv_claim_retry_delay_ms = DEFAULT_CLAIM_RETRY_DELAY_MS\<rparr>))))"

definition claim_flags :: "aztec_lib \<Rightarrow> string \<Rightarrow> claim_values flag option" where
  "claim_flags lib arg =
     (let set = (\<lambda>f. Some (TakesValue (\<lambda>v a. Inr (f v a))));
          hex = (\<lambda>f. Some (TakesValue (\<lambda>v a. and_then (parse_hex32 arg v) (\<lambda>k. Inr (f k a)))));
          num = (\<lambda>f. Some (TakesValue (\<lambda>v a. and_then (parse_positive_int arg v) (\<lambda>n. Inr (f n a))))) in
      if arg = ''--amount-wei'' then set (\<lambda>v a. a\<lparr>vv_amount_wei_raw := Some v\<rparr>)
      else if arg = ''--manifest'' then set (\<lambda>v a. a\<lparr>vv_manifest_path := v\<rparr>)
      else if arg = ''--node-url'' then set (\<lambda>v a. a\<lparr>vv_node_url := Some v\<rparr>)
      else if arg = ''--l1-rpc-url'' then set (\<lambda>v a. a\<lparr>vv_l1_rpc_url := Some v\<rparr>)
      else if arg = ''--l1-private-key'' then hex (\<lambda>k a. a\<lparr>vv_l1_private_key := Some k\<rparr>)
      else if arg = ''--claimer-secret-key'' then hex (\<lambda>k a. a\<lparr>vv_claimer_secret_key := Some k\<rparr>)
      else if arg = ''--claimer-address''
      then Some (TakesValue (\<lambda>v a. and_then (parse_aztec_address lib arg v) (\<lambda>c. Inr (a\<lparr>vv_claimer_address := Some c\<rparr>))))
      else if arg = ''--fee-payer-secret-key'' then hex (\<lambda>k a. a\<lparr>vv_fee_payer_secret_key := Some k\<rparr>)
      else if arg = ''--skip-claim'' then Some (Switch (\<lambda>a. a\<lparr>vv_skip_claim := True\<rparr>))
      else if arg = ''--claim-timeout-seconds'' then num (\<lambda>n a. a\<lparr>vv_claim_timeout_seconds := n\<rparr>)
      else if arg = ''--message-ready-timeout-seconds'' then num (\<lambda>n a. a\<lparr>vv_message_ready_timeout_seconds := n\<rparr>)
      else if arg = ''--claim-retries'' then num (\<lambda>n a. a\<lparr>vv_claim_retries := nat n\<rparr>)
      else if arg = ''--claim-retry-delay-ms'' then num (\<lambda>n a. a\<lparr>vv_claim_retry_delay_ms := n\<rparr>)
      else if arg = ''--help'' \<or> arg = ''-h'' then Some Help
      else None)"

definition finish_claim_args :: "script_platform \<Rightarrow> claim_values \<Rightarrow> thrown + claim_cli_args" where
  "finish_claim_args p a =
     (if \<not> is_set (vv_amount_wei_raw a) then Inl (error ''Missing --amount-wei (or TOPUP_AUTOCLAIM_FUND_AMOUNT_WEI)'')
      else if \<not> uint_decimal (the (vv_amount_wei_raw a))
      then Inl (error ''--amount-wei must be a non-negative integer in wei'')
      else if dec_value (the (vv_amount_wei_raw a)) \<le> 0 then Inl (error ''--amount-wei must be greater than zero'')
      else
        and_then (if_set (parse_http_url p ''--node-url'') (vv_node_url a)) (\<lambda>node_url.
        and_then (if_set (parse_http_url p ''--l1-rpc-url'') (vv_l1_rpc_url a)) (\<lambda>rpc_url.
        Inr \<lparr>fc_amount_wei = dec_value (the (vv_amount_wei_raw a)), fc_manifest_path = sp_resolve p (vv_manifest_path a),
             fc_node_url = node_url, fc_l1_rpc_url = rpc_url, fc_l1_private_key = vv_l1_private_key a,
             fc_claimer_secret_key = vv_claimer_secret_key a, fc_claimer_address = vv_claimer_address a,
             fc_fee_payer_secret_key = vv_fee_payer_secret_key a, fc_skip_claim = vv_skip_claim a,
             fc_claim_timeout_seconds = vv_claim_timeout_seconds a,
             fc_message_ready_timeout_seconds = vv_message_ready_timeout_seconds a,
             fc_claim_retries = vv_claim_retries a, fc_claim_retry_delay_ms = vv_claim_retry_delay_ms a\<rparr>)))"

text \<open>\<open>None\<close> is the run that prints the usage and exits.\<close>

definition parse_claim_args :: "aztec_lib \<Rightarrow> script_platform \<Rightarrow> string list \<Rightarrow> thrown + claim_cli_args option" where
  "parse_claim_args lib p argv =
     and_then (initial_claim_values lib p) (\<lambda>a0.
     and_then (parse_flags (claim_flags lib) error argv a0) (\<lambda>r.
     case r of None \<Rightarrow> Inr None | Some a \<Rightarrow> map_sum id Some (finish_claim_args p a)))"

section \<open>Keys and addresses\<close>

record 'w claim_env =
  fe_lib :: aztec_lib
  fe_platform :: script_platform
  fe_account_address :: "int \<Rightarrow> int \<Rightarrow> int"
  fe_derive_signing_key :: "int \<Rightarrow> int"
  fe_read_json :: "string \<Rightarrow> ('w, jsval) ioe"
  fe_wait_for_node :: "string \<Rightarrow> ('w, unit) ioe"
  fe_l1_chain_id :: "string \<Rightarrow> ('w, js_number) ioe"
  fe_rpc_chain_id :: "string \<Rightarrow> ('w, int) ioe"
  fe_create_portal :: "string \<Rightarrow> int \<Rightarrow> string \<Rightarrow> ('w, unit) ioe"
  fe_bridge_tokens_public :: "int \<Rightarrow> int \<Rightarrow> ('w, l2_amount_claim) ioe"
  fe_wait_message_ready :: "int \<Rightarrow> int \<Rightarrow> ('w, bool) ioe"
  fe_create_wallet :: "('w, unit) ioe"
  fe_create_schnorr_account :: "int \<Rightarrow> int \<Rightarrow> int \<Rightarrow> ('w, int) ioe"
  fe_fee_juice_balance :: "int \<Rightarrow> ('w, int) ioe"
  fe_send_claim :: "int \<Rightarrow> int \<Rightarrow> int \<Rightarrow> int \<Rightarrow> int \<Rightarrow> (int \<times> l2_amount_claim) option \<Rightarrow> int \<Rightarrow> ('w, string) ioe"
  fe_sleep :: "int \<Rightarrow> 'w \<Rightarrow> 'w"

text \<open>
  \<open>fe_send_claim\<close> takes the recipient, amount, secret and leaf index of the call, the sender,
  the payment method with its recipient and claim, and the timeout.
\<close>

definition read_manifest :: "'w claim_env \<Rightarrow> string \<Rightarrow> ('w, jsval) ioe" where
  "read_manifest env path =
     catch_io (fe_read_json env path)
       (\<lambda>e. throw_io (error (''Failed to read manifest '' @ path @ '': '' @ js_string e)))"

definition derive_address_from_secret :: "'w claim_env \<Rightarrow> string \<Rightarrow> thrown + int" where
  "derive_address_from_secret env key =
     and_then (fr_from_hex (fe_lib env) key) (\<lambda>secret. Inr (fe_account_address env secret 0))"

definition require_l1_rpc_url :: "claim_cli_args \<Rightarrow> thrown + string" where
  "require_l1_rpc_url args = (if is_set (fc_l1_rpc_url args) then Inr (the (fc_l1_rpc_url args))
     else Inl (error ''Missing L1 RPC URL. Set L1_RPC_URL or pass --l1-rpc-url.''))"

definition require_l1_private_key :: "claim_cli_args \<Rightarrow> thrown + string" where
  "require_l1_private_key args = (if is_set (fc_l1_private_key args) then Inr (the (fc_l1_private_key args))
     else Inl (error ''Missing L1 private key. Set L1_OPERATOR_PRIVATE_KEY or pass --l1-private-key.''))"

definition resolve_claimer_secret_key :: "script_platform \<Rightarrow> claim_cli_args \<Rightarrow> thrown + string option" where
  "resolve_claimer_secret_key p args =
     and_then (env_hex32 p ''OPERATOR_SECRET_KEY'') (\<lambda>fallback.
     Inr (or_else (fc_claimer_secret_key args) fallback))"

definition assert_claimer_address_matches_derived :: "aztec_lib \<Rightarrow> string \<Rightarrow> int \<Rightarrow> thrown + unit" where
  "assert_claimer_address_matches_derived lib given derived =
     and_then (address_from_string lib given) (\<lambda>a.
     require_that (js_lower (address_to_string lib a) = js_lower (address_to_string lib derived))
       (error (''--claimer-address '' @ address_to_string lib a @
         '' does not match address derived from claimer secret key '' @ address_to_string lib derived @ ''.'')))"

definition resolve_claimer_address :: "'w claim_env \<Rightarrow> claim_cli_args \<Rightarrow> string option \<Rightarrow> thrown + int" where
  "resolve_claimer_address env args key =
     (if is_set key then
        and_then (derive_address_from_secret env (the key)) (\<lambda>derived.
        and_then (if is_set (fc_claimer_address args)
          then assert_claimer_address_matches_derived (fe_lib env) (the (fc_claimer_address args)) derived
          else Inr ()) (\<lambda>_. Inr derived))
      else if is_set (fc_claimer_address args) then address_from_string (fe_lib env) (the (fc_claimer_address args))
      else Inl (error ''Could not resolve claimer address. Provide --claimer-address or --claimer-secret-key.''))"

definition resolve_fee_payer_secret_key :: "script_platform \<Rightarrow> claim_cli_args \<Rightarrow> string option \<Rightarrow> thrown + string option" where
  "resolve_fee_payer_secret_key p args claimer_key = (case fc_fee_payer_secret_key args of
     Some k \<Rightarrow> Inr (Some k)
   | None \<Rightarrow> and_then (env_hex32 p ''TOPUP_AUTOCLAIM_FEE_PAYER_SECRET_KEY'') (\<lambda>k. Inr (or_else k claimer_key)))"

definition missing_fee_payer_key :: thrown where
  "missing_fee_payer_key = error (''Missing fee payer secret key for claim. Set --fee-payer-secret-key, '' @
     ''TOPUP_AUTOCLAIM_FEE_PAYER_SECRET_KEY, or provide claimer secret key.'')"

definition require_fee_payer_secret_key_for_claim :: "string option \<Rightarrow> thrown + string" where
  "require_fee_payer_secret_key_for_claim k = (if is_set k then Inr (the k) else Inl missing_fee_payer_key)"

section \<open>The bridge\<close>

definition assert_positive_l1_chain_id :: "script_platform \<Rightarrow> js_number \<Rightarrow> thrown + unit" where
  "assert_positive_l1_chain_id p n = require_that (is_integer n \<and> 0 < number_value n)
     (error (''Node returned invalid l1ChainId='' @ sp_string p (JNum n)))"

definition assert_l1_chain_id_matches_rpc :: "'w claim_env \<Rightarrow> string \<Rightarrow> int \<Rightarrow> ('w, unit) ioe" where
  "assert_l1_chain_id_matches_rpc env rpc_url chain =
     bind_io (fe_rpc_chain_id env rpc_url) (\<lambda>rpc_chain.
     from_pure (require_that (rpc_chain = chain)
       (error (''L1 chain mismatch. node l1ChainId='' @ bigint_string chain @ '', rpc chainId='' @ bigint_string rpc_chain))))"

definition setup_bridge_portal :: "'w claim_env \<Rightarrow> string \<Rightarrow> string \<Rightarrow> string \<Rightarrow> ('w, unit) ioe" where
  "setup_bridge_portal env node_url rpc_url key =
     bind_io (fe_wait_for_node env node_url) (\<lambda>_.
     bind_io (fe_l1_chain_id env node_url) (\<lambda>chain.
     bind_io (from_pure (assert_positive_l1_chain_id (fe_platform env) chain)) (\<lambda>_.
     bind_io (assert_l1_chain_id_matches_rpc env rpc_url (number_value chain)) (\<lambda>_.
     fe_create_portal env rpc_url (number_value chain) key))))"

definition wait_for_bridge_message_ready :: "'w claim_env \<Rightarrow> l2_amount_claim \<Rightarrow> int \<Rightarrow> ('w, unit) ioe" where
  "wait_for_bridge_message_ready env claim timeout =
     bind_io (from_pure (fr_from_hex (fe_lib env) (lc_message_hash claim))) (\<lambda>h.
     bind_io (fe_wait_message_ready env h timeout) (\<lambda>ready.
     from_pure (require_that ready
       (error (''Bridge message did not become ready within '' @ bigint_string timeout @ ''s.'')))))"

section \<open>The claim\<close>

definition create_wallet_account_from_secret :: "'w claim_env \<Rightarrow> string \<Rightarrow> ('w, int) ioe" where
  "create_wallet_account_from_secret env key =
     bind_io (from_pure (fr_from_hex (fe_lib env) key)) (\<lambda>secret.
     fe_create_schnorr_account env secret 0 (fe_derive_signing_key env secret))"

text \<open>The addresses of the fee payer and of the claimer's wallet account.\<close>

definition setup_claim_wallet :: "'w claim_env \<Rightarrow> string \<Rightarrow> string option \<Rightarrow> ('w, int \<times> int) ioe" where
  "setup_claim_wallet env payer_key claimer_key =
     bind_io (fe_create_wallet env) (\<lambda>_.
     bind_io (create_wallet_account_from_secret env payer_key) (\<lambda>payer.
     if \<not> is_set claimer_key \<or> claimer_key = Some payer_key then return_io (payer, payer)
     else bind_io (create_wallet_account_from_secret env (the claimer_key)) (\<lambda>claimer.
       return_io (payer, claimer))))"

definition read_balances :: "'w claim_env \<Rightarrow> int \<Rightarrow> int \<Rightarrow> ('w, int \<times> int) ioe" where
  "read_balances env claimer payer =
     bind_io (fe_fee_juice_balance env claimer) (\<lambda>c.
     bind_io (fe_fee_juice_balance env payer) (\<lambda>p. return_io (c, p)))"

definition resolve_self_pay_mode :: "aztec_lib \<Rightarrow> int \<Rightarrow> string option \<Rightarrow> int \<Rightarrow> thrown + bool" where
  "resolve_self_pay_mode lib payer_balance claimer_key payer =
     (if payer_balance \<le> 0 \<and> claimer_key \<noteq> None then Inr True
      else if payer_balance \<le> 0
      then Inl (error (''Fee payer '' @ address_to_string lib payer @
        '' has zero L2 FeeJuice. Fund it first or provide --claimer-secret-key for self-pay.''))
      else Inr False)"

definition is_insufficient_fee_payer_balance_error :: "string \<Rightarrow> bool" where
  "is_insufficient_fee_payer_balance_error s \<longleftrightarrow> js_includes s ''Insufficient fee payer balance'' \<or>
     js_includes s ''Invalid tx: Insufficient fee payer balance''"

record claim_with_retries_args =
  wr_claimer_address :: int
  wr_bridge_claim :: l2_amount_claim
  wr_use_self_pay :: bool
  wr_claimer_wallet_address :: int
  wr_fee_payer_address :: int
  wr_claim_retries :: nat
  wr_claim_timeout_seconds :: int
  wr_claim_retry_delay_ms :: int

definition resolve_claim_send_context :: "claim_with_retries_args \<Rightarrow> int \<times> (int \<times> l2_amount_claim) option" where
  "resolve_claim_send_context a =
     (if \<not> wr_use_self_pay a then (wr_fee_payer_address a, None)
      else (wr_claimer_wallet_address a, Some (wr_claimer_address a, wr_bridge_claim a)))"

definition submit_claim_attempt :: "'w claim_env \<Rightarrow> claim_with_retries_args \<Rightarrow> ('w, string) ioe" where
  "submit_claim_attempt env a = (case resolve_claim_send_context a of (from, fee) \<Rightarrow>
     let c = wr_bridge_claim a in
     bind_io (from_pure (fr_of_bigint (fe_lib env) (lc_message_leaf_index c))) (\<lambda>leaf.
     fe_send_claim env (wr_claimer_address a) (lc_claim_amount c) (lc_claim_secret c) leaf from fee
       (wr_claim_timeout_seconds a)))"

definition insufficient_balance_error :: "aztec_lib \<Rightarrow> int \<Rightarrow> thrown \<Rightarrow> thrown" where
  "insufficient_balance_error lib payer e = error (''Claim failed due to insufficient fee payer balance for '' @
     address_to_string lib payer @ ''. Underlying error: '' @ js_string e)"

definition handle_claim_attempt_failure :: "'w claim_env \<Rightarrow> claim_with_retries_args \<Rightarrow> nat \<Rightarrow> thrown \<Rightarrow> ('w, unit) ioe" where
  "handle_claim_attempt_failure env a attempt e =
     (if is_insufficient_fee_payer_balance_error (js_string e)
      then throw_io (insufficient_balance_error (fe_lib env) (wr_fee_payer_address a) e)
      else if wr_claim_retries a \<le> attempt then return_io ()
      else (\<lambda>w. (Inr (), fe_sleep env (wr_claim_retry_delay_ms a) w)))"

definition claim_failed :: "nat \<Rightarrow> thrown option \<Rightarrow> thrown" where
  "claim_failed n last_error = error (''Claim did not succeed after '' @ dec_nat n @ '' attempts. Last error: '' @
     (case last_error of None \<Rightarrow> ''null'' | Some e \<Rightarrow> js_string e))"

function claim_loop :: "'w claim_env \<Rightarrow> claim_with_retries_args \<Rightarrow> nat \<Rightarrow> thrown option \<Rightarrow> ('w, string) ioe" where
  "claim_loop env a attempt last_error w =
     (if wr_claim_retries a < attempt then (Inl (claim_failed (wr_claim_retries a) last_error), w)
      else case submit_claim_attempt env a w of
        (Inr tx, w1) \<Rightarrow> (Inr tx, w1)
      | (Inl e, w1) \<Rightarrow> (case handle_claim_attempt_failure env a attempt e w1 of
            (Inl e', w2) \<Rightarrow> (Inl e', w2)
          | (Inr _, w2) \<Rightarrow> claim_loop env a (attempt + 1) (Some e) w2))"
  by pat_completeness auto
termination
  by (relation "measure (\<lambda>(env, a, n, e, w). Suc (wr_claim_retries a) - n)") auto

declare claim_loop.simps [simp del]

definition claim_with_retries :: "'w claim_env \<Rightarrow> claim_with_retries_args \<Rightarrow> ('w, string) ioe" where
  "claim_with_retries env a = claim_loop env a 1 None"

section \<open>The run\<close>

record run_inputs =
  ri_node_url :: string
  ri_l1_rpc_url :: string
  ri_l1_private_key :: string
  ri_claimer_secret_key :: "string option"
  ri_claimer_address :: int
  ri_fee_payer_secret_key :: "string option"

text \<open>What is resolved before the first call to the network.\<close>

definition resolve_inputs :: "'w claim_env \<Rightarrow> claim_cli_args \<Rightarrow> jsval \<Rightarrow> thrown + run_inputs" where
  "resolve_inputs env args manifest =
     (let p = fe_platform env in
      and_then (resolve_node_url p
        (error ''Missing node URL. Set AZTEC_NODE_URL, pass --node-url, or include manifest.network.node_url.'')
        (parse_http_url p ''node URL'') (fc_node_url args) manifest) (\<lambda>node_url.
      and_then (require_l1_rpc_url args) (\<lambda>rpc_url.
      and_then (require_l1_private_key args) (\<lambda>l1_key.
      and_then (resolve_claimer_secret_key p args) (\<lambda>claimer_key.
      and_then (resolve_claimer_address env args claimer_key) (\<lambda>claimer.
      and_then (resolve_fee_payer_secret_key p args claimer_key) (\<lambda>payer_key.
      Inr \<lparr>ri_node_url = node_url, ri_l1_rpc_url = rpc_url, ri_l1_private_key = l1_key,
           ri_claimer_secret_key = claimer_key, ri_claimer_address = claimer,
           ri_fee_payer_secret_key = payer_key\<rparr>)))))))"

text \<open>The end of a run: after the bridge, or with the transaction of the claim and the change of the claimer's balance.\<close>

datatype claim_outcome = BridgedOnly | ClaimSent string int

definition claim_bridged :: "'w claim_env \<Rightarrow> claim_cli_args \<Rightarrow> run_inputs \<Rightarrow> l2_amount_claim \<Rightarrow> ('w, claim_outcome) ioe" where
  "claim_bridged env args ri claim =
     bind_io (from_pure (require_fee_payer_secret_key_for_claim (ri_fee_payer_secret_key ri))) (\<lambda>payer_key.
     bind_io (wait_for_bridge_message_ready env claim (fc_message_ready_timeout_seconds args)) (\<lambda>_.
     bind_io (setup_claim_wallet env payer_key (ri_claimer_secret_key ri)) (\<lambda>(payer, wallet_claimer).
     bind_io (read_balances env (ri_claimer_address ri) payer) (\<lambda>(before, payer_balance).
     bind_io (from_pure (resolve_self_pay_mode (fe_lib env) payer_balance (ri_claimer_secret_key ri) payer)) (\<lambda>self_pay.
     bind_io (claim_with_retries env \<lparr>wr_claimer_address = ri_claimer_address ri, wr_bridge_claim = claim,
        wr_use_self_pay = self_pay, wr_claimer_wallet_address = wallet_claimer, wr_fee_payer_address = payer,
        wr_claim_retries = fc_claim_retries args, wr_claim_timeout_seconds = fc_claim_timeout_seconds args,
        wr_claim_retry_delay_ms = fc_claim_retry_delay_ms args\<rparr>) (\<lambda>tx.
     bind_io (read_balances env (ri_claimer_address ri) payer) (\<lambda>(after, _).
     return_io (ClaimSent tx (after - before)))))))))"

definition fund_run :: "'w claim_env \<Rightarrow> claim_cli_args \<Rightarrow> ('w, claim_outcome) ioe" where
  "fund_run env args =
     bind_io (read_manifest env (fc_manifest_path args)) (\<lambda>manifest.
     bind_io (from_pure (resolve_inputs env args manifest)) (\<lambda>ri.
     bind_io (setup_bridge_portal env (ri_node_url ri) (ri_l1_rpc_url ri) (ri_l1_private_key ri)) (\<lambda>_.
     bind_io (fe_bridge_tokens_public env (ri_claimer_address ri) (fc_amount_wei args)) (\<lambda>claim.
     if fc_skip_claim args then return_io BridgedOnly else claim_bridged env args ri claim))))"

definition fund_main :: "'w claim_env \<Rightarrow> string list \<Rightarrow> ('w, claim_outcome option) ioe" where
  "fund_main env argv =
     bind_io (from_pure (parse_claim_args (fe_lib env) (fe_platform env) argv)) (\<lambda>r.
     case r of None \<Rightarrow> return_io None
     | Some args \<Rightarrow> bind_io (fund_run env args) (\<lambda>out. return_io (Some out)))"

section \<open>Facts\<close>

definition claim_goes_on :: "thrown + string \<Rightarrow> bool" where
  "claim_goes_on r \<longleftrightarrow> (\<exists>e. r = Inl e \<and> \<not> is_insufficient_fee_payer_balance_error (js_string e))"

definition claim_result :: "'w claim_env \<Rightarrow> claim_with_retries_args \<Rightarrow> thrown + string \<Rightarrow> thrown + string" where
  "claim_result env a r = (case r of
     Inr tx \<Rightarrow> Inr tx
   | Inl e \<Rightarrow> Inl (if is_insufficient_fee_payer_balance_error (js_string e)
       then insufficient_balance_error (fe_lib env) (wr_fee_payer_address a) e
       else claim_failed (wr_claim_retries a) (Some e)))"

lemma claim_loop_retry:
  assumes "attempt \<le> wr_claim_retries a"
  shows "claim_loop env a attempt last_error w =
    (case retry claim_goes_on (submit_claim_attempt env a) (fe_sleep env (wr_claim_retry_delay_ms a))
       (wr_claim_retries a + 1 - attempt) w of (t, w1) \<Rightarrow> (claim_result env a t, w1))"
  using assms
proof (induction "wr_claim_retries a - attempt" arbitrary: attempt last_error w)
  case 0
  then have eq: "attempt = wr_claim_retries a" by simp
  have "claim_loop env a (Suc (wr_claim_retries a)) le v = (Inl (claim_failed (wr_claim_retries a) le), v)" for le v
    by (subst claim_loop.simps) simp
  then show ?case unfolding eq
    by (subst claim_loop.simps)
      (auto simp: handle_claim_attempt_failure_def claim_result_def return_io_def throw_io_def split: prod.splits sum.splits)
next
  case (Suc k)
  then have less: "attempt < wr_claim_retries a" by simp
  have IH: "claim_loop env a (attempt + 1) le v =
    (case retry claim_goes_on (submit_claim_attempt env a) (fe_sleep env (wr_claim_retry_delay_ms a))
       (wr_claim_retries a - attempt) v of (t, w1) \<Rightarrow> (claim_result env a t, w1))" for le v
    using Suc.hyps(1) [of "attempt + 1"] Suc.hyps(2) less by simp
  have m: "wr_claim_retries a + 1 - attempt = Suc (wr_claim_retries a - attempt)" "wr_claim_retries a - attempt \<noteq> 0"
    using less by simp_all
  show ?case
    unfolding m(1) using less
    by (subst claim_loop.simps)
      (auto simp: IH handle_claim_attempt_failure_def claim_result_def claim_goes_on_def return_io_def throw_io_def
        simp flip: One_nat_def split: prod.splits sum.splits)
qed

lemma claim_loop_sent: "claim_loop env a n le w = (Inr tx, w') \<Longrightarrow> \<exists>v. submit_claim_attempt env a v = (Inr tx, w')"
proof (induction env a n le w rule: claim_loop.induct)
  case (1 env a n le w)
  from 1(2) show ?case
    by (subst (asm) claim_loop.simps) (use 1(1) in \<open>auto split: if_splits prod.splits sum.splits\<close>)
qed

text \<open>What holds of the variables of the loop.\<close>

definition claim_values_ok :: "claim_values \<Rightarrow> bool" where
  "claim_values_ok a \<longleftrightarrow> key_or_none (vv_l1_private_key a) \<and> key_or_none (vv_claimer_secret_key a) \<and>
     key_or_none (vv_fee_payer_secret_key a) \<and>
     0 < vv_claim_timeout_seconds a \<and> 0 < vv_message_ready_timeout_seconds a \<and>
     0 < vv_claim_retries a \<and> 0 < vv_claim_retry_delay_ms a"

definition claim_args_wf :: "script_platform \<Rightarrow> claim_cli_args \<Rightarrow> bool" where
  "claim_args_wf p a \<longleftrightarrow> 0 < fc_amount_wei a \<and> url_or_none p (fc_node_url a) \<and> url_or_none p (fc_l1_rpc_url a) \<and>
     key_or_none (fc_l1_private_key a) \<and> key_or_none (fc_claimer_secret_key a) \<and>
     key_or_none (fc_fee_payer_secret_key a) \<and>
     0 < fc_claim_timeout_seconds a \<and> 0 < fc_message_ready_timeout_seconds a \<and>
     0 < fc_claim_retries a \<and> 0 < fc_claim_retry_delay_ms a"

lemma env_hex32_ok: "env_hex32 p name = Inr k \<Longrightarrow> key_or_none k"
  by (auto simp: env_hex32_def parse_optional_Inr parse_hex32_def hex32_or_Inr key_or_none_def split: option.splits)

lemma initial_claim_values_ok: "initial_claim_values lib p = Inr a \<Longrightarrow> claim_values_ok a"
  by (auto simp: initial_claim_values_def and_then_Inr_iff claim_values_ok_def env_hex32_ok
      DEFAULT_CLAIM_TIMEOUT_SECONDS_def DEFAULT_MESSAGE_READY_TIMEOUT_SECONDS_def DEFAULT_CLAIM_RETRIES_def
      DEFAULT_CLAIM_RETRY_DELAY_MS_def)

lemma parsed_values_ok:
  "parse_hex32 name raw = Inr k \<Longrightarrow> hex_word 64 k"
  "parse_positive_int name raw = Inr n \<Longrightarrow> 0 < n"
  "if_set (parse_http_url p name) u = Inr r \<Longrightarrow> url_or_none p r"
proof -
  show "parse_hex32 name raw = Inr k \<Longrightarrow> hex_word 64 k" by (auto simp: parse_hex32_def hex32_or_Inr)
  show "parse_positive_int name raw = Inr n \<Longrightarrow> 0 < n"
    unfolding parse_positive_int_def by (drule positive_int_or_Inr) simp
  show "if_set (parse_http_url p name) u = Inr r \<Longrightarrow> url_or_none p r"
    by (fastforce simp: if_set_iff parse_http_url_def http_url_or_Inr url_or_none_def split: if_splits)
qed

lemma claim_flags_keep:
  "claim_flags lib arg = Some (TakesValue f) \<Longrightarrow> f v a = Inr b \<Longrightarrow> claim_values_ok a \<Longrightarrow> claim_values_ok b"
  "claim_flags lib arg = Some (Switch g) \<Longrightarrow> claim_values_ok a \<Longrightarrow> claim_values_ok (g a)"
  by (auto simp: claim_flags_def Let_def claim_values_ok_def key_or_none_def and_then_Inr_iff
      split: if_splits) (blast dest: parsed_values_ok)+

lemma finish_claim_args_wf: "finish_claim_args p v = Inr a \<Longrightarrow> claim_values_ok v \<Longrightarrow> claim_args_wf p a"
  by (auto simp: finish_claim_args_def and_then_Inr_iff claim_values_ok_def claim_args_wf_def
      split: if_splits) (blast dest: parsed_values_ok)+

text \<open>
  Accepted arguments are well formed. Whatever the environment and the command line, arguments
  that parse have a positive amount, http(s) URLs and 32-byte keys where they are given, and
  positive timeouts, delay and number of attempts.
\<close>

theorem parse_claim_args_wf:
  assumes "parse_claim_args lib p argv = Inr (Some a)"
  shows "claim_args_wf p a"
proof -
  from assms obtain a0 v where "initial_claim_values lib p = Inr a0"
    "parse_flags (claim_flags lib) error argv a0 = Inr (Some v)" "finish_claim_args p v = Inr a"
    by (auto simp: parse_claim_args_def and_then_Inr_iff map_Some split: option.splits)
  with parse_flags_invariant [of "claim_flags lib" claim_values_ok error argv a0 v] claim_flags_keep
  show ?thesis by (metis finish_claim_args_wf initial_claim_values_ok)
qed

definition demo_platform :: script_platform where
  "demo_platform = \<lparr>sp_env = (\<lambda>k. if k = ''TOPUP_AUTOCLAIM_FUND_AMOUNT_WEI'' then Some '' 50 '' else None),
     sp_url = (\<lambda>u. Some (''http:'', u)), sp_string = (\<lambda>v. ''?''), sp_resolve = (\<lambda>f. f)\<rparr>"

text \<open>
  A network for the examples: the world counts the pauses; the first claim fails, the fee payer
  has no Fee Juice.
\<close>

definition demo_claim :: l2_amount_claim where
  "demo_claim = \<lparr>lc_claim_amount = 50, lc_claim_secret = 11, lc_claim_secret_hash = 12, lc_message_hash = ''13'',
     lc_message_leaf_index = 14\<rparr>"

definition demo_claim_env :: "nat claim_env" where
  "demo_claim_env = \<lparr>fe_lib = demo_lib\<lparr>fr_from_hex := (\<lambda>s. Inr 77)\<rparr>, fe_platform = demo_platform,
     fe_account_address = (\<lambda>s salt. 9), fe_derive_signing_key = (\<lambda>s. s), fe_read_json = (\<lambda>f w. (Inr (JObject []), w)),
     fe_wait_for_node = (\<lambda>u w. (Inr (), w)), fe_l1_chain_id = (\<lambda>u w. (Inr (Finite 1), w)),
     fe_rpc_chain_id = (\<lambda>u w. (Inr 1, w)), fe_create_portal = (\<lambda>u c k w. (Inr (), w)),
     fe_bridge_tokens_public = (\<lambda>a n w. (Inr demo_claim, w)), fe_wait_message_ready = (\<lambda>h t w. (Inr True, w)),
     fe_create_wallet = (\<lambda>w. (Inr (), w)), fe_create_schnorr_account = (\<lambda>s salt k w. (Inr 9, w)),
     fe_fee_juice_balance = (\<lambda>a w. (Inr 0, w)),
     fe_send_claim = (\<lambda>a n s l from fee t w. (if w = 0 then Inl (error ''timeout'') else Inr ''0xabc'', w)),
     fe_sleep = (\<lambda>ms w. w + 1)\<rparr>"

lemma demo_args_parse:
  "\<exists>a. parse_claim_args demo_lib demo_platform [''--skip-claim''] = Inr (Some a) \<and> fc_skip_claim a \<and>
     fc_amount_wei a = 50"
proof -
  have "case parse_claim_args demo_lib demo_platform [''--skip-claim''] of
      Inr (Some a) \<Rightarrow> fc_skip_claim a \<and> fc_amount_wei a = 50 | _ \<Rightarrow> False"
    by code_simp
  then show ?thesis by (auto split: sum.splits option.splits)
qed

lemma parse_claim_args_wf_witness:
  "\<exists>a. parse_claim_args demo_lib demo_platform [''--skip-claim''] = Inr (Some a) \<and> claim_args_wf demo_platform a"
  using demo_args_parse parse_claim_args_wf by blast

definition demo_retries :: claim_with_retries_args where
  "demo_retries = \<lparr>wr_claimer_address = 9, wr_bridge_claim = demo_claim, wr_use_self_pay = True,
     wr_claimer_wallet_address = 9, wr_fee_payer_address = 8, wr_claim_retries = 2, wr_claim_timeout_seconds = 120,
     wr_claim_retry_delay_ms = 15000\<rparr>"

text \<open>
  The claim is retried within bounds. Whatever the network does, \<open>claimWithRetries\<close> makes
  between one and \<open>claimRetries\<close> attempts with a pause between two of them, and makes a next one
  only after a failure other than an insufficient balance of the fee payer. Its result is the
  transaction of the last attempt, or an error that names what that attempt failed with.
\<close>

theorem claim_with_retries_bounded:
  assumes "claim_with_retries env a w = (r, w')" "0 < wr_claim_retries a"
  shows "\<exists>ws t. runs_of claim_goes_on (submit_claim_attempt env a) (fe_sleep env (wr_claim_retry_delay_ms a)) w ws \<and>
    length ws \<le> wr_claim_retries a \<and> (length ws < wr_claim_retries a \<longrightarrow> \<not> claim_goes_on t) \<and>
    submit_claim_attempt env a (last ws) = (t, w') \<and> r = claim_result env a t"
proof -
  obtain t v where t: "retry claim_goes_on (submit_claim_attempt env a) (fe_sleep env (wr_claim_retry_delay_ms a))
      (wr_claim_retries a) w = (t, v)" by fastforce
  have "claim_loop env a 1 None w = (claim_result env a t, v)"
    using assms(2) t by (subst claim_loop_retry) simp_all
  with assms(1) have "v = w'" "r = claim_result env a t" by (simp_all add: claim_with_retries_def)
  with retry_runs [OF assms(2) t] show ?thesis by blast
qed

lemma claim_with_retries_bounded_witness:
  "\<exists>ws t. runs_of claim_goes_on (submit_claim_attempt demo_claim_env demo_retries) (\<lambda>w. w + 1) 0 ws \<and> length ws \<le> 2 \<and>
     Inr ''0xabc'' = claim_result demo_claim_env demo_retries t"
proof -
  have run: "claim_with_retries demo_claim_env demo_retries 0 = (Inr ''0xabc'', 1)" by code_simp
  show ?thesis
    using claim_with_retries_bounded [OF run] by (fastforce simp: demo_retries_def demo_claim_env_def)
qed

lemma resolve_inputs_no_key:
  assumes "resolve_inputs env args manifest = Inr ri"
    and "fc_fee_payer_secret_key args = None" "fc_claimer_secret_key args = None"
    and "env_hex32 (fe_platform env) ''OPERATOR_SECRET_KEY'' = Inr None"
    and "env_hex32 (fe_platform env) ''TOPUP_AUTOCLAIM_FEE_PAYER_SECRET_KEY'' = Inr None"
  shows "ri_fee_payer_secret_key ri = None"
  using assms by (auto simp: resolve_inputs_def Let_def and_then_Inr_iff resolve_claimer_secret_key_def or_else_def
      resolve_fee_payer_secret_key_def)

text \<open>
  A run without a secret key bridges first and fails then. If only the claimer's address is
  given, and no key for the fee payer or the claimer in the arguments or the environment, the
  run transfers the amount to the bridge and ends with the missing key, in the world right after
  the transfer; the secret that claims the deposit is part of no result.
\<close>

theorem missing_key_strands_deposit:
  assumes "read_manifest env (fc_manifest_path args) w = (Inr manifest, w1)" "resolve_inputs env args manifest = Inr ri"
    and "setup_bridge_portal env (ri_node_url ri) (ri_l1_rpc_url ri) (ri_l1_private_key ri) w1 = (Inr (), w2)"
    and "fe_bridge_tokens_public env (ri_claimer_address ri) (fc_amount_wei args) w2 = (Inr claim, w3)"
    and "\<not> fc_skip_claim args" "fc_fee_payer_secret_key args = None" "fc_claimer_secret_key args = None"
    and "env_hex32 (fe_platform env) ''OPERATOR_SECRET_KEY'' = Inr None"
    and "env_hex32 (fe_platform env) ''TOPUP_AUTOCLAIM_FEE_PAYER_SECRET_KEY'' = Inr None"
  shows "fund_run env args w = (Inl missing_fee_payer_key, w3)"
proof -
  have "require_fee_payer_secret_key_for_claim (ri_fee_payer_secret_key ri) = Inl missing_fee_payer_key"
    using resolve_inputs_no_key [OF assms(2,6,7,8,9)] by (simp add: require_fee_payer_secret_key_for_claim_def is_set_def)
  with assms(1-5) show ?thesis
    by (simp add: fund_run_def claim_bridged_def)
qed

definition demo_claim_args :: claim_cli_args where
  "demo_claim_args = \<lparr>fc_amount_wei = 50, fc_manifest_path = ''m'', fc_node_url = Some ''http://n'',
     fc_l1_rpc_url = Some ''http://l1'', fc_l1_private_key = Some (''0x'' @ replicate 64 (CHR ''b'')),
     fc_claimer_secret_key = None, fc_claimer_address = Some ''9'', fc_fee_payer_secret_key = None,
     fc_skip_claim = False, fc_claim_timeout_seconds = 120, fc_message_ready_timeout_seconds = 300,
     fc_claim_retries = 8, fc_claim_retry_delay_ms = 15000\<rparr>"

lemma demo_resolves: "case resolve_inputs demo_claim_env demo_claim_args (JObject []) of Inl _ \<Rightarrow> False | Inr _ \<Rightarrow> True"
  by code_simp

lemma missing_key_strands_deposit_witness:
  "fund_run demo_claim_env demo_claim_args 0 = (Inl missing_fee_payer_key, 0)"
proof -
  obtain ri where ri: "resolve_inputs demo_claim_env demo_claim_args (JObject []) = Inr ri"
    using demo_resolves by (auto simp: isl_def split: sum.splits)
  show ?thesis
  proof (rule missing_key_strands_deposit [OF _ ri])
    show "env_hex32 (fe_platform demo_claim_env) ''OPERATOR_SECRET_KEY'' = Inr None"
      "env_hex32 (fe_platform demo_claim_env) ''TOPUP_AUTOCLAIM_FEE_PAYER_SECRET_KEY'' = Inr None"
      by code_simp+
  qed (simp_all add: demo_claim_args_def demo_claim_env_def read_manifest_def catch_io_def setup_bridge_portal_def
      assert_positive_l1_chain_id_def assert_l1_chain_id_matches_rpc_def bind_io_def from_pure_def is_integer_def
      number_value_def require_that_def)
qed


definition demo_self_pay_args :: claim_cli_args where
  "demo_self_pay_args = demo_claim_args\<lparr>fc_claimer_secret_key := Some (''0x'' @ replicate 64 (CHR ''a''))\<rparr>"


end
