(* ===== verification/Fund_L1.thy ===== *)
theory Fund_L1
  imports Script_Args
begin

text \<open>
  The script that funds an account with Fee Juice on L1,
  \<open>scripts/services/fund-l1-fee-juice.ts\<close>: its arguments, the addresses of the token and of the
  fee asset handler, a direct mint of the deficit and, when that fails, mints of the handler
  until the target is reached.

  The L1 clients of the configured RPC URL, \<open>isAddress\<close>, key derivation and \<open>fetch\<close> are fields of
  \<open>l1_env\<close>. The loop over the handler's mints has no bound of its own; it is a partial function,
  \<open>None\<close> being a run that never ends.
\<close>

section \<open>Nonces\<close>

definition cli_error :: "string \<Rightarrow> thrown" where
  "cli_error m = Thrown ''CliError'' m"

record node_reply =
  nr_ok :: bool
  nr_status :: int
  nr_json :: "thrown + jsval"

record 'w l1_env =
  le_is_address :: "string \<Rightarrow> bool"
  le_key_address :: "string \<Rightarrow> thrown + string"
  le_pending_nonce :: "string \<Rightarrow> ('w, int) ioe"
  le_latest_nonce :: "string \<Rightarrow> ('w, int) ioe"
  le_chain_id :: "('w, int) ioe"
  le_create_wallet :: "string \<Rightarrow> int \<Rightarrow> ('w, unit) ioe"
  le_balance_of :: "string \<Rightarrow> string \<Rightarrow> ('w, int) ioe"
  le_token_mint :: "string \<Rightarrow> string \<Rightarrow> string \<Rightarrow> int \<Rightarrow> int \<Rightarrow> ('w, string) ioe"
  le_handler_mint_amount :: "string \<Rightarrow> ('w, int) ioe"
  le_handler_mint :: "string \<Rightarrow> string \<Rightarrow> string \<Rightarrow> int \<Rightarrow> ('w, string) ioe"
  le_wait_receipt :: "string \<Rightarrow> ('w, bool \<times> string) ioe"
  le_post_node_info :: "string \<Rightarrow> ('w, node_reply) ioe"

text \<open>
  \<open>le_token_mint\<close> takes the key, the token, the recipient, the amount and the nonce,
  \<open>le_handler_mint\<close> the key, the handler, the recipient and the nonce; a receipt is its success
  and its transaction hash.
\<close>

definition MAX_NONCE_RETRY_ATTEMPTS :: nat where
  "MAX_NONCE_RETRY_ATTEMPTS = 3"

definition is_nonce_conflict_error :: "thrown \<Rightarrow> bool" where
  "is_nonce_conflict_error e = (let m = js_lower (js_string e) in
     js_includes m ''replacementnotallowed'' \<or> js_includes m ''replacement not allowed'' \<or>
     js_includes m ''nonce too low'' \<or> js_includes m ''already known'')"

definition read_pending_nonce :: "'w l1_env \<Rightarrow> string \<Rightarrow> ('w, int) ioe" where
  "read_pending_nonce env account = catch_io (le_pending_nonce env account) (\<lambda>_. le_latest_nonce env account)"

function send_loop :: "('w, int) ioe \<Rightarrow> (int \<Rightarrow> ('w, string) ioe) \<Rightarrow> nat \<Rightarrow> int \<Rightarrow> ('w, string \<times> int) ioe" where
  "send_loop refresh send attempt nonce w =
     (if MAX_NONCE_RETRY_ATTEMPTS < attempt
      then (Inl (cli_error ''Failed to send transaction after nonce retry attempts''), w)
      else case send nonce w of
        (Inr hash, w1) \<Rightarrow> (Inr (hash, nonce + 1), w1)
      | (Inl e, w1) \<Rightarrow>
          if \<not> is_nonce_conflict_error e \<or> MAX_NONCE_RETRY_ATTEMPTS \<le> attempt then (Inl e, w1)
          else (case refresh w1 of
              (Inl e', w2) \<Rightarrow> (Inl e', w2)
            | (Inr fresh, w2) \<Rightarrow> send_loop refresh send (attempt + 1) fresh w2))"
  by pat_completeness auto
termination
  by (relation "measure (\<lambda>(refresh, send, n, nonce, w). Suc MAX_NONCE_RETRY_ATTEMPTS - n)") auto

declare send_loop.simps [simp del]

text \<open>The hash of the transaction and the nonce after it.\<close>

definition send_with_managed_nonce ::
    "'w l1_env \<Rightarrow> string \<Rightarrow> int option \<Rightarrow> (int \<Rightarrow> ('w, string) ioe) \<Rightarrow> ('w, string \<times> int) ioe" where
  "send_with_managed_nonce env account initial send =
     bind_io (case initial of Some n \<Rightarrow> return_io n | None \<Rightarrow> read_pending_nonce env account) (\<lambda>nonce.
     send_loop (read_pending_nonce env account) send 1 nonce)"

section \<open>Arguments\<close>

definition DEFAULT_TARGET_BALANCE_WEI :: string where
  "DEFAULT_TARGET_BALANCE_WEI = ''1000000000000000000000''"

definition DEFAULT_MANIFEST_PATH :: string where
  "DEFAULT_MANIFEST_PATH = ''./deployments/devnet-manifest-v2.json''"

record l1_values =
  lv_l1_rpc_url :: "string option"
  lv_node_url :: "string option"
  lv_manifest_path :: "string option"
  lv_operator_private_key :: "string option"
  lv_funder_private_key :: "string option"
  lv_recipient_address :: "string option"
  lv_target_balance_wei :: "string option"
  lv_fee_juice_token_address :: "string option"
  lv_fee_asset_handler_address :: "string option"
  lv_dry_run :: bool

record l1_cli_args =
  la_l1_rpc_url :: string
  la_node_url :: "string option"
  la_manifest_path :: "string option"
  la_operator_private_key :: string
  la_funder_private_key :: string
  la_recipient_address :: "string option"
  la_target_balance_wei :: int
  la_fee_juice_token_address :: "string option"
  la_fee_asset_handler_address :: "string option"
  la_dry_run :: bool

definition parse_http_url :: "script_platform \<Rightarrow> string \<Rightarrow> string \<Rightarrow> thrown + string" where
  "parse_http_url p field value =
     http_url_or p (cli_error (''Invalid '' @ field @ '': expected URL, got \"'' @ value @ ''\"''))
       (cli_error (''Invalid '' @ field @ '': expected http(s) URL, got \"'' @ value @ ''\"'')) value"

definition parse_hex32 :: "string \<Rightarrow> string \<Rightarrow> thrown + string" where
  "parse_hex32 field value = (if hex_word 64 value then Inr (js_lower value)
     else Inl (cli_error (''Invalid '' @ field @ '': expected 32-byte 0x-prefixed hex value'')))"

definition parse_address :: "'w l1_env \<Rightarrow> string \<Rightarrow> string \<Rightarrow> thrown + string" where
  "parse_address env field value = (if le_is_address env value then Inr value
     else Inl (cli_error (''Invalid '' @ field @ '': expected EVM address'')))"

definition parse_big_int :: "string \<Rightarrow> string \<Rightarrow> thrown + int" where
  "parse_big_int field value = (if uint_decimal (js_trim value) then Inr (dec_value (js_trim value))
     else Inl (cli_error (''Invalid '' @ field @ '': expected unsigned integer'')))"

definition initial_l1_values :: "script_platform \<Rightarrow> l1_values" where
  "initial_l1_values p = (let env = parse_optional_env p in
     \<lparr>lv_l1_rpc_url = env ''L1_RPC_URL'', lv_node_url = env ''AZTEC_NODE_URL'',
      lv_manifest_path = env ''FPC_DEPLOY_MANIFEST'', lv_operator_private_key = env ''L1_OPERATOR_PRIVATE_KEY'',
      lv_funder_private_key = env ''L1_FEE_JUICE_FUNDER_PRIVATE_KEY'',
      lv_recipient_address = env ''L1_FEE_JUICE_RECIPIENT_ADDRESS'',
      lv_target_balance_wei = env ''L1_FEE_JUICE_FUND_AMOUNT_WEI'',
      lv_fee_juice_token_address = env ''L1_FEE_JUICE_TOKEN_ADDRESS'',
      lv_fee_asset_handler_address = env ''L1_FEE_ASSET_HANDLER_ADDRESS'', lv_dry_run = False\<rparr>)"

definition l1_flags :: "string \<Rightarrow> l1_values flag option" where
  "l1_flags arg =
     (let set = (\<lambda>f. Some (TakesValue (\<lambda>v a. Inr (f (\<lambda>_. Some v) a)))) in
      if arg = ''--l1-rpc-url'' then set lv_l1_rpc_url_update
      else if arg = ''--node-url'' then set lv_node_url_update
      else if arg = ''--manifest'' then set lv_manifest_path_update
      else if arg = ''--operator-private-key'' then set lv_operator_private_key_update
      else if arg = ''--funder-private-key'' then set lv_funder_private_key_update
      else if arg = ''--recipient-address'' then set lv_recipient_address_update
      else if arg = ''--target-balance-wei'' then set lv_target_balance_wei_update
      else if arg = ''--fee-juice-token-address'' then set lv_fee_juice_token_address_update
      else if arg = ''--fee-asset-handler-address'' then set lv_fee_asset_handler_address_update
      else if arg = ''--dry-run'' then Some (Switch (\<lambda>a. a\<lparr>lv_dry_run := True\<rparr>))
      else if arg = ''--help'' \<or> arg = ''-h'' then Some Help
      else None)"

definition finish_l1_args :: "'w l1_env \<Rightarrow> script_platform \<Rightarrow> (string \<Rightarrow> bool) \<Rightarrow> l1_values \<Rightarrow> thrown + l1_cli_args" where
  "finish_l1_args env p exists_file a =
     (if \<not> is_set (lv_l1_rpc_url a)
      then Inl (cli_error ''Missing --l1-rpc-url (or L1_RPC_URL) for L1 funding transactions'')
      else if \<not> is_set (lv_operator_private_key a)
      then Inl (cli_error ''Missing --operator-private-key (or L1_OPERATOR_PRIVATE_KEY)'')
      else
        (let manifest = or_else (lv_manifest_path a)
               (if exists_file DEFAULT_MANIFEST_PATH then Some DEFAULT_MANIFEST_PATH else None);
             operator_key = the (lv_operator_private_key a) in
         and_then (parse_http_url p ''--l1-rpc-url'' (the (lv_l1_rpc_url a))) (\<lambda>rpc_url.
         and_then (if_set (parse_http_url p ''--node-url'') (lv_node_url a)) (\<lambda>node_url.
         and_then (parse_hex32 ''--operator-private-key'' operator_key) (\<lambda>operator.
         and_then (parse_hex32 ''--funder-private-key''
           (case lv_funder_private_key a of Some k \<Rightarrow> k | None \<Rightarrow> operator_key)) (\<lambda>funder.
         and_then (if_set (parse_address env ''--recipient-address'') (lv_recipient_address a)) (\<lambda>recipient.
         and_then (parse_big_int ''--target-balance-wei''
           (case lv_target_balance_wei a of Some t \<Rightarrow> t | None \<Rightarrow> DEFAULT_TARGET_BALANCE_WEI)) (\<lambda>target.
         and_then (if_set (parse_address env ''--fee-juice-token-address'') (lv_fee_juice_token_address a)) (\<lambda>token.
         and_then (if_set (parse_address env ''--fee-asset-handler-address'') (lv_fee_asset_handler_address a)) (\<lambda>handler.
         Inr \<lparr>la_l1_rpc_url = rpc_url, la_node_url = node_url,
              la_manifest_path = (if is_set manifest then Some (sp_resolve p (the manifest)) else None),
              la_operator_private_key = operator, la_funder_private_key = funder, la_recipient_address = recipient,
              la_target_balance_wei = target, la_fee_juice_token_address = token,
              la_fee_asset_handler_address = handler, la_dry_run = lv_dry_run a\<rparr>))))))))))"

definition parse_l1_args ::
    "'w l1_env \<Rightarrow> script_platform \<Rightarrow> (string \<Rightarrow> bool) \<Rightarrow> string list \<Rightarrow> thrown + l1_cli_args option" where
  "parse_l1_args env p exists_file argv =
     and_then (parse_flags l1_flags cli_error argv (initial_l1_values p)) (\<lambda>r.
     case r of None \<Rightarrow> Inr None | Some a \<Rightarrow> map_sum id Some (finish_l1_args env p exists_file a))"

section \<open>Addresses\<close>

fun extract_address_candidate :: "'w l1_env \<Rightarrow> jsval \<Rightarrow> string list \<Rightarrow> string option" where
  "extract_address_candidate env obj [] = None"
| "extract_address_candidate env obj (k # ks) = (case jfield k obj of
     JString v \<Rightarrow> if le_is_address env v then Some v else extract_address_candidate env obj ks
   | _ \<Rightarrow> extract_address_candidate env obj ks)"

text \<open>A field that is there, not \<open>null\<close> and an object.\<close>

definition object_field :: "string \<Rightarrow> jsval \<Rightarrow> jsval option" where
  "object_field k v = (case jfield k v of
     JObject kvs \<Rightarrow> Some (JObject kvs) | JArray xs \<Rightarrow> Some (JArray xs) | _ \<Rightarrow> None)"

record node_info_l1_addresses =
  na_fee_juice_address :: "string option"
  na_fee_asset_handler_address :: "string option"

definition parse_node_info :: "'w l1_env \<Rightarrow> string \<Rightarrow> jsval \<Rightarrow> thrown + node_info_l1_addresses" where
  "parse_node_info env url payload = (case object_field ''result'' payload of
     None \<Rightarrow> Inl (cli_error (''Invalid JSON-RPC payload from node_getNodeInfo at '' @ url))
   | Some result \<Rightarrow> (case object_field ''l1ContractAddresses'' result of
       None \<Rightarrow> Inl (cli_error (''node_getNodeInfo at '' @ url @ '' is missing l1ContractAddresses''))
     | Some l1 \<Rightarrow> Inr \<lparr>na_fee_juice_address = extract_address_candidate env l1 [''feeJuiceAddress'', ''feeJuice''],
         na_fee_asset_handler_address = extract_address_candidate env l1 [''feeAssetHandlerAddress'', ''feeAssetHandler'']\<rparr>))"

definition load_node_info_l1_addresses :: "'w l1_env \<Rightarrow> string \<Rightarrow> ('w, node_info_l1_addresses) ioe" where
  "load_node_info_l1_addresses env url =
     bind_io (le_post_node_info env url) (\<lambda>reply.
     if \<not> nr_ok reply
     then throw_io (cli_error (''node_getNodeInfo failed for '' @ url @ '': HTTP '' @ bigint_string (nr_status reply)))
     else from_pure (case nr_json reply of
         Inl e \<Rightarrow> Inl (cli_error (''Invalid JSON returned by node_getNodeInfo at '' @ url @ '': '' @ js_string e))
       | Inr payload \<Rightarrow> parse_node_info env url payload))"

datatype target_source = FromCli | FromNode | FromBoth

record funding_targets =
  ft_fee_juice_token_address :: string
  ft_fee_asset_handler_address :: "string option"
  ft_source :: target_source

definition resolve_funding_targets :: "'w l1_env \<Rightarrow> l1_cli_args \<Rightarrow> ('w, funding_targets) ioe" where
  "resolve_funding_targets env args =
     bind_io (from_pure (if_set (parse_address env ''--fee-juice-token-address'') (la_fee_juice_token_address args))) (\<lambda>cli_token.
     bind_io (from_pure (if_set (parse_address env ''--fee-asset-handler-address'') (la_fee_asset_handler_address args))) (\<lambda>cli_handler.
     bind_io (if is_set (la_node_url args) then load_node_info_l1_addresses env (the (la_node_url args))
              else return_io \<lparr>na_fee_juice_address = None, na_fee_asset_handler_address = None\<rparr>) (\<lambda>node.
     bind_io (case cli_token of Some t \<Rightarrow> return_io (Some t)
       | None \<Rightarrow> from_pure (if_set (parse_address env ''node_getNodeInfo.feeJuiceAddress'') (na_fee_juice_address node))) (\<lambda>token.
     if \<not> is_set token
     then throw_io (cli_error (''Could not resolve FeeJuice token address. Provide --fee-juice-token-address '' @
       ''(or L1_FEE_JUICE_TOKEN_ADDRESS), or provide --node-url / AZTEC_NODE_URL.''))
     else
       bind_io (case cli_handler of Some h \<Rightarrow> return_io (Some h)
         | None \<Rightarrow> from_pure (if_set (parse_address env ''node_getNodeInfo.feeAssetHandlerAddress'')
             (na_fee_asset_handler_address node))) (\<lambda>handler.
       return_io \<lparr>ft_fee_juice_token_address = the token, ft_fee_asset_handler_address = handler,
         ft_source = (if is_set cli_token \<or> is_set cli_handler
           then if is_set (na_fee_juice_address node) then FromBoth else FromCli else FromNode)\<rparr>)))))"

section \<open>Mints\<close>

text \<open>Sends a transaction and waits for its success; the next nonce.\<close>

definition mint_and_wait ::
    "'w l1_env \<Rightarrow> string \<Rightarrow> int option \<Rightarrow> (int \<Rightarrow> ('w, string) ioe) \<Rightarrow> string \<Rightarrow> ('w, int) ioe" where
  "mint_and_wait env account nonce send reverted =
     bind_io (send_with_managed_nonce env account nonce send) (\<lambda>(hash, next_nonce).
     bind_io (le_wait_receipt env hash) (\<lambda>(success, tx_hash).
     if \<not> success then throw_io (cli_error (reverted @ tx_hash)) else return_io next_nonce))"

definition create_funder_wallet :: "'w l1_env \<Rightarrow> string \<Rightarrow> ('w, string) ioe" where
  "create_funder_wallet env key =
     bind_io (from_pure (le_key_address env key)) (\<lambda>funder.
     bind_io (le_chain_id env) (\<lambda>chain.
     bind_io (le_create_wallet env key chain) (\<lambda>_. return_io funder)))"

definition try_direct_mint :: "'w l1_env \<Rightarrow> string \<Rightarrow> string \<Rightarrow> string \<Rightarrow> int \<Rightarrow> ('w, bool) ioe" where
  "try_direct_mint env key token recipient amount =
     bind_io (create_funder_wallet env key) (\<lambda>funder.
     catch_io
       (bind_io (mint_and_wait env funder None (le_token_mint env key token recipient amount)
          ''Direct mint transaction reverted: tx_hash='') (\<lambda>_. return_io True))
       (\<lambda>_. return_io False))"

definition handler_mint :: "'w l1_env \<Rightarrow> string \<Rightarrow> string \<Rightarrow> string \<Rightarrow> string \<Rightarrow> int option \<Rightarrow> ('w, int) ioe" where
  "handler_mint env key funder handler recipient nonce =
     mint_and_wait env funder nonce (le_handler_mint env key handler recipient) ''FeeAssetHandler mint reverted: tx_hash=''"

text \<open>The body of the loop: a mint and the new balance.\<close>

definition handler_step ::
    "('w, int) ioe \<Rightarrow> (int option \<Rightarrow> ('w, int) ioe) \<Rightarrow> int option \<Rightarrow> ('w, int \<times> int) ioe" where
  "handler_step read mint nonce =
     bind_io (mint nonce) (\<lambda>next_nonce. bind_io read (\<lambda>balance. return_io (balance, next_nonce)))"

partial_function (option) handler_loop ::
    "('w, int) ioe \<Rightarrow> (int option \<Rightarrow> ('w, int) ioe) \<Rightarrow> int \<Rightarrow> int \<Rightarrow> int option \<Rightarrow> 'w \<Rightarrow> ((thrown + unit) \<times> 'w) option" where
  "handler_loop read mint target balance nonce w =
     (if target \<le> balance then Some (Inr (), w)
      else case handler_step read mint nonce w of
        (Inl e, w1) \<Rightarrow> Some (Inl e, w1)
      | (Inr (balance1, nonce1), w1) \<Rightarrow> handler_loop read mint target balance1 (Some nonce1) w1)"

definition mint_via_fee_asset_handler ::
    "'w l1_env \<Rightarrow> string \<Rightarrow> string \<Rightarrow> string \<Rightarrow> string \<Rightarrow> int \<Rightarrow> 'w \<Rightarrow> ((thrown + unit) \<times> 'w) option" where
  "mint_via_fee_asset_handler env key token handler recipient target w =
     (case bind_io (create_funder_wallet env key) (\<lambda>funder.
           bind_io (le_handler_mint_amount env handler) (\<lambda>amount.
           if amount \<le> 0
           then throw_io (cli_error (''FeeAssetHandler mintAmount must be positive (address='' @ handler @ '')''))
           else bind_io (le_balance_of env token recipient) (\<lambda>balance. return_io (funder, balance)))) w of
        (Inl e, w1) \<Rightarrow> Some (Inl e, w1)
      | (Inr (funder, balance), w1) \<Rightarrow>
          handler_loop (le_balance_of env token recipient) (handler_mint env key funder handler recipient)
            target balance None w1)"

section \<open>The run\<close>

datatype l1_outcome = AlreadyFunded | DryRun int | FundedOnL1 int

definition check_final_balance :: "int \<Rightarrow> int \<Rightarrow> thrown + l1_outcome" where
  "check_final_balance final target = (if final < target
     then Inl (cli_error (''Funding incomplete: final L1 FeeJuice balance='' @ bigint_string final @
       '', target='' @ bigint_string target))
     else Inr (FundedOnL1 final))"

text \<open>The part up to the balance after the direct mint: the targets, the recipient, and either the outcome or whether the mint worked with the balance.\<close>

definition l1_direct_part ::
    "'w l1_env \<Rightarrow> l1_cli_args \<Rightarrow> ('w, string \<times> funding_targets \<times> (l1_outcome + bool \<times> int)) ioe" where
  "l1_direct_part env args =
     bind_io (from_pure (le_key_address env (la_operator_private_key args))) (\<lambda>operator.
     bind_io (if is_set (la_recipient_address args)
        then from_pure (parse_address env ''--recipient-address'' (the (la_recipient_address args)))
        else return_io operator) (\<lambda>recipient.
     bind_io (resolve_funding_targets env args) (\<lambda>targets.
     let token = ft_fee_juice_token_address targets; target = la_target_balance_wei args in
     bind_io (le_balance_of env token recipient) (\<lambda>before.
     if target \<le> before then return_io (recipient, targets, Inl AlreadyFunded)
     else if la_dry_run args then return_io (recipient, targets, Inl (DryRun (target - before)))
     else
       bind_io (try_direct_mint env (la_funder_private_key args) token recipient (target - before)) (\<lambda>worked.
       bind_io (le_balance_of env token recipient) (\<lambda>balance.
       return_io (recipient, targets, Inr (worked, balance))))))))"

definition l1_fallback_part ::
    "'w l1_env \<Rightarrow> l1_cli_args \<Rightarrow> string \<Rightarrow> funding_targets \<Rightarrow> 'w \<Rightarrow> ((thrown + l1_outcome) \<times> 'w) option" where
  "l1_fallback_part env args recipient targets w =
     (let token = ft_fee_juice_token_address targets; target = la_target_balance_wei args in
      if \<not> is_set (ft_fee_asset_handler_address targets)
      then Some (Inl (cli_error (''Direct token mint failed and no FeeAssetHandler address is available '' @
        ''for faucet mint fallback'')), w)
      else map_option (\<lambda>(r, w1). case r of
          Inl e \<Rightarrow> (Inl e, w1)
        | Inr _ \<Rightarrow> bind_io (le_balance_of env token recipient) (\<lambda>final. from_pure (check_final_balance final target)) w1)
        (mint_via_fee_asset_handler env (la_funder_private_key args) token
          (the (ft_fee_asset_handler_address targets)) recipient target w))"

definition l1_run :: "'w l1_env \<Rightarrow> l1_cli_args \<Rightarrow> 'w \<Rightarrow> ((thrown + l1_outcome) \<times> 'w) option" where
  "l1_run env args w = (case l1_direct_part env args w of
     (Inl e, w1) \<Rightarrow> Some (Inl e, w1)
   | (Inr (recipient, targets, Inl out), w1) \<Rightarrow> Some (Inr out, w1)
   | (Inr (recipient, targets, Inr (worked, balance)), w1) \<Rightarrow>
       if \<not> worked \<and> balance < la_target_balance_wei args then l1_fallback_part env args recipient targets w1
       else Some (check_final_balance balance (la_target_balance_wei args), w1))"

text \<open>\<open>main\<close>; the inner \<open>None\<close> is the run that prints the usage.\<close>

definition l1_main ::
    "'w l1_env \<Rightarrow> script_platform \<Rightarrow> (string \<Rightarrow> bool) \<Rightarrow> string list \<Rightarrow> 'w \<Rightarrow> ((thrown + l1_outcome option) \<times> 'w) option" where
  "l1_main env p exists_file argv w = (case parse_l1_args env p exists_file argv of
     Inl e \<Rightarrow> Some (Inl e, w)
   | Inr None \<Rightarrow> Some (Inr None, w)
   | Inr (Some args) \<Rightarrow> map_option (\<lambda>(r, w1). (map_sum id Some r, w1)) (l1_run env args w))"

section \<open>Facts\<close>

text \<open>
  The reported balance as a function of the world: reading it reports it and changes nothing
  about it, and a confirmed mint of the handler raises it.
\<close>

definition reads_balance :: "('w, int) ioe \<Rightarrow> ('w \<Rightarrow> int) \<Rightarrow> bool" where
  "reads_balance read B \<longleftrightarrow> (\<forall>w r w'. read w = (r, w') \<longrightarrow> B w' = B w \<and> (\<forall>b. r = Inr b \<longrightarrow> b = B w))"

definition mint_raises :: "(int option \<Rightarrow> ('w, int) ioe) \<Rightarrow> ('w \<Rightarrow> int) \<Rightarrow> bool" where
  "mint_raises mint B \<longleftrightarrow> (\<forall>n w n' w'. mint n w = (Inr n', w') \<longrightarrow> B w < B w')"

lemma handler_step_raises:
  assumes "reads_balance read B" "mint_raises mint B" "handler_step read mint nonce w = (Inr (b, n), w')"
  shows "b = B w' \<and> B w < b"
  using assms by (fastforce simp: handler_step_def io_Inr_iff reads_balance_def mint_raises_def)

lemma handler_loop_returns:
  assumes "reads_balance read B" "mint_raises mint B" "b = B w"
  shows "\<exists>r w'. handler_loop read mint target b nonce w = Some (r, w') \<and> (r = Inr () \<longrightarrow> target \<le> B w') \<and>
    ((\<forall>n v. \<exists>n' v'. mint n v = (Inr n', v')) \<and> (\<forall>v. \<exists>b v'. read v = (Inr b, v')) \<longrightarrow> r = Inr ())"
  using assms(3)
proof (induction "nat (target - b)" arbitrary: b nonce w rule: less_induct)
  case less
  show ?case
  proof (cases "target \<le> b")
    case True
    with less.prems show ?thesis by (subst handler_loop.simps) simp
  next
    case False
    obtain r w1 where step: "handler_step read mint nonce w = (r, w1)" by (cases "handler_step read mint nonce w")
    show ?thesis
    proof (cases r)
      case (Inl e)
      have "\<not> ((\<forall>n v. \<exists>n' v'. mint n v = (Inr n', v')) \<and> (\<forall>v. \<exists>b v'. read v = (Inr b, v')))"
      proof
        assume ok: "(\<forall>n v. \<exists>n' v'. mint n v = (Inr n', v')) \<and> (\<forall>v. \<exists>b v'. read v = (Inr b, v'))"
        then obtain n' v b' v' where "mint nonce w = (Inr n', v)" "read v = (Inr b', v')" by meson
        with step Inl show False by (simp add: handler_step_def)
      qed
      with Inl step False show ?thesis by (subst handler_loop.simps) simp
    next
      case (Inr bn)
      then obtain b1 n1 where r: "r = Inr (b1, n1)" by (cases bn) simp
      with handler_step_raises [OF assms(1,2)] step less.prems have b1: "b1 = B w1" "b < b1" by metis+
      with False have "nat (target - b1) < nat (target - b)" by simp
      from less.hyps [OF this b1(1), of "Some n1"] False step r show ?thesis
        by (subst handler_loop.simps) simp
    qed
  qed
qed

text \<open>The nonces and worlds in which the sends of one transaction happen.\<close>

fun nonce_sends ::
    "('w, int) ioe \<Rightarrow> (int \<Rightarrow> ('w, string) ioe) \<Rightarrow> int \<Rightarrow> 'w \<Rightarrow> (int \<times> 'w) list \<Rightarrow> bool" where
  "nonce_sends refresh send nonce w [] \<longleftrightarrow> False"
| "nonce_sends refresh send nonce w (s # ss) \<longleftrightarrow> s = (nonce, w) \<and>
     (ss = [] \<or> (\<exists>e w1 fresh w2. send nonce w = (Inl e, w1) \<and> is_nonce_conflict_error e \<and>
        refresh w1 = (Inr fresh, w2) \<and> nonce_sends refresh send fresh w2 ss))"

lemma send_loop_sends:
  assumes "send_loop refresh send attempt nonce w = (r, w')" "attempt \<le> MAX_NONCE_RETRY_ATTEMPTS"
  shows "\<exists>ss. nonce_sends refresh send nonce w ss \<and> length ss + attempt \<le> Suc MAX_NONCE_RETRY_ATTEMPTS \<and>
    (\<forall>hash next. r = Inr (hash, next) \<longrightarrow>
       send (fst (last ss)) (snd (last ss)) = (Inr hash, w') \<and> next = fst (last ss) + 1)"
  using assms
proof (induction "MAX_NONCE_RETRY_ATTEMPTS - attempt" arbitrary: attempt nonce w)
  case 0
  then have "send_loop refresh send attempt nonce w = (case send nonce w of
      (Inr hash, w1) \<Rightarrow> (Inr (hash, nonce + 1), w1) | (Inl e, w1) \<Rightarrow> (Inl e, w1))"
    by (subst send_loop.simps) (auto split: prod.splits sum.splits)
  with 0 show ?case by (intro exI [of _ "[(nonce, w)]"]) (auto split: prod.splits sum.splits)
next
  case (Suc k)
  then have less: "attempt < MAX_NONCE_RETRY_ATTEMPTS" by simp
  show ?case
  proof (cases "\<exists>e w1 fresh w2. send nonce w = (Inl e, w1) \<and> is_nonce_conflict_error e \<and> refresh w1 = (Inr fresh, w2)")
    case True
    then obtain e w1 fresh w2 where go: "send nonce w = (Inl e, w1)" "is_nonce_conflict_error e" "refresh w1 = (Inr fresh, w2)"
      by blast
    with Suc.prems(1) less have "send_loop refresh send (attempt + 1) fresh w2 = (r, w')"
      by (subst (asm) send_loop.simps) simp
    moreover have "k = MAX_NONCE_RETRY_ATTEMPTS - (attempt + 1)" using Suc.hyps(2) by simp
    ultimately obtain ss where ss: "nonce_sends refresh send fresh w2 ss"
      "length ss + (attempt + 1) \<le> Suc MAX_NONCE_RETRY_ATTEMPTS"
      "\<forall>hash next. r = Inr (hash, next) \<longrightarrow> send (fst (last ss)) (snd (last ss)) = (Inr hash, w') \<and> next = fst (last ss) + 1"
      using Suc.hyps(1) [of "attempt + 1" fresh w2] less by auto
    moreover from ss(1) have "ss \<noteq> []" by (cases ss) auto
    ultimately show ?thesis using go by (intro exI [of _ "(nonce, w) # ss"]) auto
  next
    case False
    with Suc.prems(1) less show ?thesis
      by (intro exI [of _ "[(nonce, w)]"], subst (asm) send_loop.simps) (auto split: prod.splits sum.splits if_splits)
  qed
qed

text \<open>
  A transaction is sent at most three times, with fresh nonces. Whatever the node does, a
  next send of \<open>sendWithManagedNonce\<close> happens only after a nonce conflict and with the nonce that
  is read again then; when a hash is returned, it is that of the last send, and the next nonce is
  the one after it.
\<close>

theorem managed_nonce_bounded:
  assumes "send_with_managed_nonce env account (Some nonce) send w = (r, w')"
  shows "\<exists>ss. nonce_sends (read_pending_nonce env account) send nonce w ss \<and> length ss \<le> 3 \<and>
    (\<forall>hash next. r = Inr (hash, next) \<longrightarrow>
       send (fst (last ss)) (snd (last ss)) = (Inr hash, w') \<and> next = fst (last ss) + 1)"
proof -
  have "send_loop (read_pending_nonce env account) send 1 nonce w = (r, w')"
    using assms by (simp add: send_with_managed_nonce_def)
  from send_loop_sends [OF this] show ?thesis by (simp add: MAX_NONCE_RETRY_ATTEMPTS_def)
qed

text \<open>
  A chain for the examples: the world is the balance and the nonce of the funder, every mint of
  the handler adds 10, a mint of the token needs the right nonce and adds its amount.
\<close>

definition demo_l1_env :: "(int \<times> int) l1_env" where
  "demo_l1_env = \<lparr>le_is_address = (\<lambda>a. True), le_key_address = (\<lambda>k. Inr ''me''),
     le_pending_nonce = (\<lambda>a w. (Inr (snd w), w)), le_latest_nonce = (\<lambda>a w. (Inr (snd w), w)),
     le_chain_id = (\<lambda>w. (Inr 1, w)), le_create_wallet = (\<lambda>k c w. (Inr (), w)),
     le_balance_of = (\<lambda>t a w. (Inr (fst w), w)), le_token_mint =
       (\<lambda>k t a m n w. if n = snd w then (Inr ''0x2'', (fst w + m - 10, n + 1)) else (Inl (error ''nonce too low''), w)),
     le_handler_mint_amount = (\<lambda>h w. (Inr 10, w)),
     le_handler_mint = (\<lambda>k h a n w. (Inr ''0x1'', (fst w, n + 1))),
     le_wait_receipt = (\<lambda>h w. (Inr (True, h), (fst w + 10, snd w))),
     le_post_node_info = (\<lambda>u w. (Inl (error ''offline''), w))\<rparr>"

lemma managed_nonce_bounded_witness:
  "\<exists>ss. nonce_sends (read_pending_nonce demo_l1_env ''me'') (le_token_mint demo_l1_env ''k'' ''t'' ''r'' 20) 3 (0, 5) ss \<and>
     length ss \<le> 3 \<and> fst (last ss) = 5"
proof -
  have "send_with_managed_nonce demo_l1_env ''me'' (Some 3) (le_token_mint demo_l1_env ''k'' ''t'' ''r'' 20) (0, 5) =
    (Inr (''0x2'', 6), (10, 6))" by code_simp
  from managed_nonce_bounded [OF this] show ?thesis by auto
qed

text \<open>
  C27. The faucet reaches the target. If a confirmed mint of the handler raises the balance that is
  read, the loop of mints ends, and with the target reached when it ends without an error; if
  moreover no mint and no reading fails, it ends without an error. Without that assumption
  nothing bounds the loop.
\<close>

theorem faucet_reaches_target:
  assumes "create_funder_wallet env key w = (Inr funder, w1)" "le_handler_mint_amount env handler w1 = (Inr amount, w2)"
    and "0 < amount" "reads_balance (le_balance_of env token recipient) B"
    and "mint_raises (handler_mint env key funder handler recipient) B"
  shows "\<exists>r w'. mint_via_fee_asset_handler env key token handler recipient target w = Some (r, w') \<and>
    (r = Inr () \<longrightarrow> target \<le> B w') \<and>
    ((\<forall>n v. \<exists>n' v'. handler_mint env key funder handler recipient n v = (Inr n', v')) \<and>
     (\<forall>v. \<exists>b v'. le_balance_of env token recipient v = (Inr b, v')) \<longrightarrow> r = Inr ())"
proof -
  obtain r0 w3 where read: "le_balance_of env token recipient w2 = (r0, w3)"
    by (cases "le_balance_of env token recipient w2")
  show ?thesis
  proof (cases r0)
    case (Inl e)
    with read assms(1-3) have "mint_via_fee_asset_handler env key token handler recipient target w = Some (Inl e, w3)"
      by (simp add: mint_via_fee_asset_handler_def bind_io_def)
    moreover have "\<not> (\<forall>v. \<exists>b v'. le_balance_of env token recipient v = (Inr b, v'))"
      using read Inl by (metis Inl_Inr_False prod.inject)
    ultimately show ?thesis by simp
  next
    case (Inr b)
    with read assms(4) have "b = B w3" by (auto simp: reads_balance_def)
    moreover from Inr read assms(1-3) have "mint_via_fee_asset_handler env key token handler recipient target w =
        handler_loop (le_balance_of env token recipient) (handler_mint env key funder handler recipient) target b None w3"
      by (simp add: mint_via_fee_asset_handler_def bind_io_def)
    ultimately show ?thesis using handler_loop_returns [OF assms(4,5), of b w3 target None] by simp
  qed
qed

lemma demo_faucet_laws:
  "reads_balance (le_balance_of demo_l1_env t a) fst"
  "mint_raises (handler_mint demo_l1_env k f h a) fst"
proof -
  show "reads_balance (le_balance_of demo_l1_env t a) fst" by (auto simp: reads_balance_def demo_l1_env_def)
  have "send_loop refresh (le_handler_mint demo_l1_env k h a) 1 n w = (Inr (''0x1'', n + 1), (fst w, n + 1))" for refresh n w
    by (subst send_loop.simps) (simp add: demo_l1_env_def MAX_NONCE_RETRY_ATTEMPTS_def)
  moreover have "read_pending_nonce demo_l1_env f w = (Inr (snd w), w)" for w
    by (simp add: read_pending_nonce_def catch_io_def demo_l1_env_def)
  moreover have "le_wait_receipt demo_l1_env x w = (Inr (True, x), (fst w + 10, snd w))" for x w
    by (simp add: demo_l1_env_def)
  ultimately show "mint_raises (handler_mint demo_l1_env k f h a) fst"
    by (auto simp: mint_raises_def handler_mint_def mint_and_wait_def send_with_managed_nonce_def io_Inr_iff
        split: option.splits if_splits)
qed

lemma faucet_reaches_target_witness:
  "\<exists>r w'. mint_via_fee_asset_handler demo_l1_env ''k'' ''t'' ''h'' ''a'' 25 (0, 5) = Some (r, w') \<and>
     (r = Inr () \<longrightarrow> 25 \<le> fst w')"
proof -
  have "create_funder_wallet demo_l1_env ''k'' (0, 5) = (Inr ''me'', (0, 5))"
    "le_handler_mint_amount demo_l1_env ''h'' (0, 5) = (Inr 10, (0, 5))"
    by (simp_all add: create_funder_wallet_def demo_l1_env_def bind_io_def return_io_def from_pure_def)
  from faucet_reaches_target [OF this _ demo_faucet_laws] show ?thesis by fastforce
qed

text \<open>The environment with other mints and another wallet.\<close>

definition other_mints ::
    "(string \<Rightarrow> int \<Rightarrow> ('w, unit) ioe) \<Rightarrow> (string \<Rightarrow> string \<Rightarrow> string \<Rightarrow> int \<Rightarrow> int \<Rightarrow> ('w, string) ioe) \<Rightarrow>
     (string \<Rightarrow> string \<Rightarrow> string \<Rightarrow> int \<Rightarrow> ('w, string) ioe) \<Rightarrow> 'w l1_env \<Rightarrow> 'w l1_env" where
  "other_mints cw tm hm env =
     env\<lparr>le_create_wallet := cw, le_token_mint := tm, le_handler_mint := hm\<rparr>"

lemma other_mints_simps [simp]:
  "le_is_address (other_mints cw tm hm env) = le_is_address env"
  "le_key_address (other_mints cw tm hm env) = le_key_address env"
  "le_balance_of (other_mints cw tm hm env) = le_balance_of env"
  "le_post_node_info (other_mints cw tm hm env) = le_post_node_info env"
  by (simp_all add: other_mints_def)

lemma other_mints_addresses [simp]:
  "parse_address (other_mints cw tm hm env) = parse_address env"
  "extract_address_candidate (other_mints cw tm hm env) obj ks = extract_address_candidate env obj ks"
  "parse_node_info (other_mints cw tm hm env) = parse_node_info env"
  "load_node_info_l1_addresses (other_mints cw tm hm env) = load_node_info_l1_addresses env"
  "resolve_funding_targets (other_mints cw tm hm env) = resolve_funding_targets env"
proof -
  show p: "parse_address (other_mints cw tm hm env) = parse_address env" by (simp add: parse_address_def fun_eq_iff)
  show e: "extract_address_candidate (other_mints cw tm hm env) obj ks = extract_address_candidate env obj ks" for obj ks
    by (induction ks) (simp_all split: jsval.split)
  show n: "parse_node_info (other_mints cw tm hm env) = parse_node_info env" 
    by (simp add: parse_node_info_def fun_eq_iff e del: extract_address_candidate.simps split: option.split)
  show l: "load_node_info_l1_addresses (other_mints cw tm hm env) = load_node_info_l1_addresses env"
    by (rule ext) (unfold load_node_info_l1_addresses_def n other_mints_simps, rule refl)
  show "resolve_funding_targets (other_mints cw tm hm env) = resolve_funding_targets env"
    by (rule ext)+ (unfold resolve_funding_targets_def p l, rule refl)
qed

lemma l1_direct_quiet:
  assumes "l1_direct_part env args w = (Inr (recipient, targets, Inl out), w')"
  shows "l1_direct_part (other_mints cw tm hm env) args w = (Inr (recipient, targets, Inl out), w') \<and>
    (\<forall>b. out \<noteq> FundedOnL1 b)"
proof -
  define target where "target = la_target_balance_wei args"
  from assms obtain operator rc ts b w1 w2 w3 where parts:
    "le_key_address env (la_operator_private_key args) = Inr operator"
    "(if is_set (la_recipient_address args)
        then from_pure (parse_address env ''--recipient-address'' (the (la_recipient_address args)))
        else return_io operator) w = (Inr rc, w1)"
    "resolve_funding_targets env args w1 = (Inr ts, w2)"
    "le_balance_of env (ft_fee_juice_token_address ts) rc w2 = (Inr b, w3)"
    and last: "(if target \<le> b then return_io (rc, ts, Inl AlreadyFunded)
       else if la_dry_run args then return_io (rc, ts, Inl (DryRun (target - b)))
       else bind_io (try_direct_mint env (la_funder_private_key args) (ft_fee_juice_token_address ts) rc (target - b))
         (\<lambda>worked. bind_io (le_balance_of env (ft_fee_juice_token_address ts) rc)
           (\<lambda>balance. return_io (rc, ts, Inr (worked, balance))))) w3 = (Inr (recipient, targets, Inl out), w')"
    unfolding l1_direct_part_def Let_def target_def by (clarsimp simp only: io_Inr_iff)
  then have "target \<le> b \<or> la_dry_run args" by (auto simp: io_Inr_iff split: if_splits)
  with last have "(rc, ts, w3) = (recipient, targets, w')"
    "out = (if target \<le> b then AlreadyFunded else DryRun (target - b))"
    by (auto simp: io_Inr_iff split: if_splits)
  with parts \<open>target \<le> b \<or> la_dry_run args\<close> show ?thesis
    by (auto simp: l1_direct_part_def Let_def target_def)
qed

lemma check_final_balance_Inr: "check_final_balance b t = Inr out \<longleftrightarrow> t \<le> b \<and> out = FundedOnL1 b"
  by (auto simp: check_final_balance_def)

text \<open>
  A successful run has reached the target. If the script reports that the recipient is funded,
  the balance it reports is at least the target and was read from the token; in any other
  successful run, a dry run or a recipient that has enough, no transaction is sent: the result
  and the effects do not depend on the wallet and the mints.
\<close>

theorem l1_funding_reaches_target:
  assumes "l1_run env args w = Some (Inr out, w')"
  shows "case out of
    FundedOnL1 b \<Rightarrow> la_target_balance_wei args \<le> b \<and>
      (\<exists>token recipient v. le_balance_of env token recipient v = (Inr b, w'))
  | _ \<Rightarrow> l1_run (other_mints cw tm hm env) args w = Some (Inr out, w')"
proof (cases "l1_direct_part env args w")
  case (Pair r w1)
  show ?thesis
  proof (cases r)
    case (Inl e)
    with Pair assms show ?thesis by (simp add: l1_run_def)
  next
    case (Inr x)
    then obtain recipient targets d where x: "r = Inr (recipient, targets, d)" by (cases x) auto
    show ?thesis
    proof (cases d)
      case (Inl o')
      with Pair x assms have "o' = out" "w1 = w'" by (simp_all add: l1_run_def)
      with l1_direct_quiet [of env args w recipient targets out w' cw tm hm] Pair x Inl show ?thesis
        by (auto simp: l1_run_def split: l1_outcome.split)
    next
      case (Inr wb)
      then obtain worked b where wb: "d = Inr (worked, b)" by (cases wb) auto
      from Pair x wb obtain v where read: "le_balance_of env (ft_fee_juice_token_address targets) recipient v = (Inr b, w1)"
        by (auto simp: l1_direct_part_def Let_def io_Inr_iff split: if_splits)
      show ?thesis
      proof (cases "\<not> worked \<and> b < la_target_balance_wei args")
        case True
        with assms Pair x wb have "l1_fallback_part env args recipient targets w1 = Some (Inr out, w')"
          by (simp add: l1_run_def)
        then obtain v where "bind_io (le_balance_of env (ft_fee_juice_token_address targets) recipient)
            (\<lambda>final. from_pure (check_final_balance final (la_target_balance_wei args))) v = (Inr out, w')"
          by (auto simp: l1_fallback_part_def Let_def split: if_splits sum.splits)
            (metis (full_types) old.unit.exhaust sum.exhaust)
        then show ?thesis by (fastforce simp: io_Inr_iff check_final_balance_Inr)
      next
        case False
        with assms Pair x wb have "check_final_balance b (la_target_balance_wei args) = Inr out" "w1 = w'"
          by (auto simp: l1_run_def split: if_splits)
        with read show ?thesis by (auto simp: check_final_balance_Inr)
      qed
    qed
  qed
qed

definition demo_l1_args :: l1_cli_args where
  "demo_l1_args = \<lparr>la_l1_rpc_url = ''http://l1'', la_node_url = None, la_manifest_path = None,
     la_operator_private_key = ''k'', la_funder_private_key = ''k'', la_recipient_address = None,
     la_target_balance_wei = 25, la_fee_juice_token_address = Some ''t'', la_fee_asset_handler_address = None,
     la_dry_run = False\<rparr>"

lemma l1_funding_reaches_target_witness:
  "la_target_balance_wei demo_l1_args \<le> 25 \<and> (\<exists>token recipient v. le_balance_of demo_l1_env token recipient v = (Inr 25, (25, 6)))"
proof -
  have "l1_run demo_l1_env demo_l1_args (0, 5) = Some (Inr (FundedOnL1 25), (25, 6))" by code_simp
  from l1_funding_reaches_target [OF this] show ?thesis by simp
qed

end
