(* ===== verification/Bootstrap_Claimer.thy ===== *)
theory Bootstrap_Claimer
  imports Script_Args Aztec_Lib
begin

text \<open>
  The script that deploys the account of the automatic claimer,
  \<open>scripts/services/bootstrap-topup-autoclaim-account.ts\<close>: its arguments, the resolution of the
  key, the sponsor and the payment mode, the commands of \<open>aztec-wallet\<close>, the fallback with
  Aztec.js, and the check that the account is published.

  \<open>execFileSync\<close>, the node and the embedded wallet are fields of \<open>bootstrap_env\<close>.
\<close>

section \<open>Arguments\<close>

definition cli_error :: "string \<Rightarrow> thrown" where
  "cli_error m = Thrown ''CliError'' m"

datatype payment_mode = PayAuto | PaySponsored | PayFeeJuice | RegisterOnly

fun mode_name :: "payment_mode \<Rightarrow> string" where
  "mode_name PayAuto = ''auto''"
| "mode_name PaySponsored = ''sponsored''"
| "mode_name PayFeeJuice = ''fee_juice''"
| "mode_name RegisterOnly = ''register_only''"

definition DEFAULT_MANIFEST_PATH :: string where
  "DEFAULT_MANIFEST_PATH = ''./deployments/devnet-manifest-v2.json''"

definition DEFAULT_ALIAS_PREFIX :: string where
  "DEFAULT_ALIAS_PREFIX = ''topup-autoclaim''"

definition DEFAULT_AZTEC_WALLET_TIMEOUT_MS :: int where
  "DEFAULT_AZTEC_WALLET_TIMEOUT_MS = 90000"

definition TRUE_ENV_VALUES :: "string list" where
  "TRUE_ENV_VALUES = [''1'', ''true'', ''yes'', ''on'']"

definition FALSE_ENV_VALUES :: "string list" where
  "FALSE_ENV_VALUES = [''0'', ''false'', ''no'', ''off'']"

record bootstrap_args =
  ba_manifest_path :: string
  ba_node_url :: "string option"
  ba_secret_key :: "string option"
  ba_use_operator_secret_key :: "bool option"
  ba_sponsored_fpc_address :: "string option"
  ba_payment_mode :: "payment_mode option"
  ba_alias :: "string option"

definition parse_boolean :: "string \<Rightarrow> string \<Rightarrow> thrown + bool" where
  "parse_boolean name raw = (let v = js_lower (js_trim raw) in
     if v \<in> set TRUE_ENV_VALUES then Inr True
     else if v \<in> set FALSE_ENV_VALUES then Inr False
     else Inl (cli_error (''Invalid '' @ name @ ''. Expected one of: 1/0, true/false, yes/no, on/off'')))"

definition parse_secret_key :: "string \<Rightarrow> string \<Rightarrow> thrown + string" where
  "parse_secret_key name raw = hex32_or (cli_error (''Invalid '' @ name @ ''. Expected 32-byte 0x-prefixed hex string'')) raw"

definition parse_aztec_address :: "string \<Rightarrow> string \<Rightarrow> thrown + string" where
  "parse_aztec_address name raw = (if hex_word 64 raw then Inr raw
     else Inl (cli_error (''Invalid '' @ name @ ''. Expected 32-byte 0x-prefixed Aztec address'')))"

definition parse_payment_mode :: "string \<Rightarrow> string \<Rightarrow> thrown + payment_mode" where
  "parse_payment_mode name raw = (let v = js_lower (js_trim raw) in
     if v = ''auto'' then Inr PayAuto
     else if v = ''sponsored'' then Inr PaySponsored
     else if v = ''fee_juice'' then Inr PayFeeJuice
     else if v = ''register_only'' then Inr RegisterOnly
     else Inl (cli_error (''Invalid '' @ name @ ''. Expected one of: auto|sponsored|fee_juice|register_only'')))"

definition parse_http_url :: "script_platform \<Rightarrow> string \<Rightarrow> string \<Rightarrow> thrown + string" where
  "parse_http_url p name value =
     http_url_or p (cli_error (''Invalid '' @ name @ ''. Expected a URL, got: '' @ value))
       (cli_error (''Invalid '' @ name @ ''. Expected http(s) URL, got: '' @ value)) value"

definition parse_env :: "script_platform \<Rightarrow> (string \<Rightarrow> string \<Rightarrow> thrown + 'a) \<Rightarrow> string \<Rightarrow> thrown + 'a option" where
  "parse_env p f name = parse_optional (f name) (parse_optional_env p name)"

definition initial_bootstrap_args :: "script_platform \<Rightarrow> thrown + bootstrap_args" where
  "initial_bootstrap_args p =
     and_then (parse_env p parse_secret_key ''TOPUP_AUTOCLAIM_SECRET_KEY'') (\<lambda>key.
     and_then (parse_env p parse_boolean ''TOPUP_AUTOCLAIM_USE_OPERATOR_SECRET_KEY'') (\<lambda>use_operator.
     and_then (parse_env p parse_aztec_address ''TOPUP_AUTOCLAIM_SPONSORED_FPC_ADDRESS'') (\<lambda>sponsor.
     and_then (parse_env p parse_payment_mode ''TOPUP_AUTOCLAIM_BOOTSTRAP_PAYMENT_MODE'') (\<lambda>mode.
     Inr \<lparr>ba_manifest_path = (case parse_optional_env p ''FPC_DEPLOY_MANIFEST'' of
            Some m \<Rightarrow> m | None \<Rightarrow> DEFAULT_MANIFEST_PATH),
          ba_node_url = parse_optional_env p ''AZTEC_NODE_URL'', ba_secret_key = key,
          ba_use_operator_secret_key = use_operator, ba_sponsored_fpc_address = sponsor, ba_payment_mode = mode,
          ba_alias = parse_optional_env p ''TOPUP_AUTOCLAIM_BOOTSTRAP_ALIAS''\<rparr>))))"

text \<open>An argument that is no flag is ignored.\<close>

definition bootstrap_flags :: "string \<Rightarrow> bootstrap_args flag option" where
  "bootstrap_flags arg =
     (if arg = ''--manifest'' then Some (TakesValue (\<lambda>v a. Inr (a\<lparr>ba_manifest_path := v\<rparr>)))
      else if arg = ''--node-url'' then Some (TakesValue (\<lambda>v a. Inr (a\<lparr>ba_node_url := Some v\<rparr>)))
      else if arg = ''--secret-key''
      then Some (TakesValue (\<lambda>v a. and_then (parse_secret_key arg v) (\<lambda>k. Inr (a\<lparr>ba_secret_key := Some k\<rparr>))))
      else if arg = ''--use-operator-secret-key''
      then Some (TakesValue (\<lambda>v a. and_then (parse_boolean arg v) (\<lambda>b. Inr (a\<lparr>ba_use_operator_secret_key := Some b\<rparr>))))
      else if arg = ''--sponsored-fpc-address''
      then Some (TakesValue (\<lambda>v a. and_then (parse_aztec_address arg v) (\<lambda>s. Inr (a\<lparr>ba_sponsored_fpc_address := Some s\<rparr>))))
      else if arg = ''--payment-mode''
      then Some (TakesValue (\<lambda>v a. and_then (parse_payment_mode arg v) (\<lambda>m. Inr (a\<lparr>ba_payment_mode := Some m\<rparr>))))
      else if arg = ''--alias'' then Some (TakesValue (\<lambda>v a. Inr (a\<lparr>ba_alias := Some (js_trim v)\<rparr>)))
      else if arg = ''--help'' \<or> arg = ''-h'' then Some Help
      else if starts_with arg ''--'' then None
      else Some (Switch (\<lambda>a. a)))"

definition parse_bootstrap_args :: "script_platform \<Rightarrow> string list \<Rightarrow> thrown + bootstrap_args option" where
  "parse_bootstrap_args p argv =
     and_then (initial_bootstrap_args p) (\<lambda>a0.
     and_then (parse_flags bootstrap_flags cli_error argv a0) (\<lambda>r.
     Inr (map_option (\<lambda>a. a\<lparr>ba_manifest_path := sp_resolve p (ba_manifest_path a)\<rparr>) r)))"

section \<open>Resolution\<close>

text \<open>The key and where it comes from.\<close>

definition resolve_secret_key :: "script_platform \<Rightarrow> bootstrap_args \<Rightarrow> thrown + string \<times> string" where
  "resolve_secret_key p args =
     and_then (parse_env p parse_secret_key ''OPERATOR_SECRET_KEY'') (\<lambda>operator_key.
     if is_set (ba_secret_key args) then Inr (the (ba_secret_key args), ''TOPUP_AUTOCLAIM_SECRET_KEY/--secret-key'')
     else if ba_use_operator_secret_key args = Some True \<and> is_set operator_key
     then Inr (the operator_key, ''OPERATOR_SECRET_KEY'')
     else Inl (cli_error (''Could not resolve claimer secret key. Set TOPUP_AUTOCLAIM_SECRET_KEY (or pass --secret-key), '' @
       ''or enable TOPUP_AUTOCLAIM_USE_OPERATOR_SECRET_KEY=1 with OPERATOR_SECRET_KEY set.'')))"

text \<open>A field of the manifest that may be missing.\<close>

definition nullable_text :: "script_platform \<Rightarrow> jsval \<Rightarrow> string option" where
  "nullable_text p v = (if v = JUndefined \<or> v = JNull then None else Some (js_text p v))"

fun pick_optional :: "'a option list \<Rightarrow> 'a option" where
  "pick_optional [] = None"
| "pick_optional (v # vs) = (case v of None \<Rightarrow> pick_optional vs | Some x \<Rightarrow> Some x)"

definition resolve_sponsored_fpc_address :: "script_platform \<Rightarrow> bootstrap_args \<Rightarrow> jsval \<Rightarrow> thrown + string option" where
  "resolve_sponsored_fpc_address p args manifest =
     and_then (parse_env p parse_aztec_address ''FPC_DEVNET_SPONSORED_FPC_ADDRESS'') (\<lambda>devnet.
     and_then (parse_env p parse_aztec_address ''SPONSORED_FPC_ADDRESS'') (\<lambda>env_sponsor.
     and_then (manifest_field manifest ''aztec_required_addresses'' ''sponsored_fpc_address'') (\<lambda>raw.
     and_then (parse_optional (parse_aztec_address ''manifest.aztec_required_addresses.sponsored_fpc_address'')
       (nullable_text p raw)) (\<lambda>deployed.
     Inr (or_else (ba_sponsored_fpc_address args) (pick_optional [devnet, env_sponsor, deployed]))))))"

definition resolve_payment_mode :: "bootstrap_args \<Rightarrow> string option \<Rightarrow> payment_mode" where
  "resolve_payment_mode args sponsor = (let requested = (case ba_payment_mode args of None \<Rightarrow> PayAuto | Some m \<Rightarrow> m) in
     if requested = PayAuto then if is_set sponsor then PaySponsored else PayFeeJuice else requested)"

section \<open>The wallet command\<close>

text \<open>What \<open>execFileSync\<close> throws: an error with the outputs of the command, or another one.\<close>

datatype exec_error = CommandFailed (ee_stdout: string) (ee_stderr: string) (ee_message: string) (ee_killed: bool)
  | NotStarted thrown

record 'w bootstrap_env =
  be_lib :: aztec_lib
  be_platform :: script_platform
  be_account_address :: "int \<Rightarrow> int \<Rightarrow> int"
  be_derive_signing_key :: "int \<Rightarrow> int"
  be_read_json :: "string \<Rightarrow> ('w, jsval) ioe"
  be_exec :: "string \<Rightarrow> string list \<Rightarrow> js_number \<Rightarrow> 'w \<Rightarrow> (exec_error + string) \<times> 'w"
  be_date_now_ms :: "'w \<Rightarrow> int"
  be_wait_for_node :: "string \<Rightarrow> ('w, unit) ioe"
  be_get_contract :: "string \<Rightarrow> int \<Rightarrow> ('w, bool) ioe"
  be_create_wallet :: "string \<Rightarrow> ('w, unit) ioe"
  be_create_schnorr_account :: "int \<Rightarrow> int \<Rightarrow> int \<Rightarrow> ('w, int) ioe"
  be_register_contract :: "int \<Rightarrow> ('w, unit) ioe"
  be_get_deploy_method :: "('w, unit) ioe"
  be_send_deploy :: "int option \<Rightarrow> int \<Rightarrow> ('w, unit) ioe"

text \<open>\<open>be_send_deploy\<close> takes the sponsor that pays, if one does, and the timeout.\<close>

definition is_create_account_conflict :: "string \<Rightarrow> bool" where
  "is_create_account_conflict message = (let m = js_lower message in
     js_includes m ''nullifier conflict'' \<or> js_includes m ''existing nullifier'' \<or>
     js_includes m ''already exists'' \<or> js_includes m ''already registered'')"

definition should_attempt_existing_account_public_deploy_fallback :: "string \<Rightarrow> bool" where
  "should_attempt_existing_account_public_deploy_fallback message = (let m = js_lower message in
     is_create_account_conflict message \<or> js_includes m ''unable to be added to state and is invalid'' \<or>
     js_includes m ''existing account'')"

text \<open>\<open>Number.parseInt(raw, 10)\<close>: the longest prefix of digits after blanks and a sign.\<close>

definition parse_int10 :: "string \<Rightarrow> js_number" where
  "parse_int10 raw = (case split_sign (dropWhile is_space raw) of (sg, t) \<Rightarrow>
     let ds = takeWhile is_digit t in if ds = [] then NotFinite else round_double (sg * of_int (dec_value ds)))"

definition resolve_aztec_wallet_timeout_ms :: "script_platform \<Rightarrow> thrown + js_number" where
  "resolve_aztec_wallet_timeout_ms p =
     (let raw = parse_optional_env p ''TOPUP_AUTOCLAIM_BOOTSTRAP_WALLET_TIMEOUT_MS'' in
      if \<not> is_set raw then Inr (Finite (of_int DEFAULT_AZTEC_WALLET_TIMEOUT_MS))
      else case parse_int10 (the raw) of
        Finite q \<Rightarrow> if q \<le> 0
          then Inl (cli_error ''Invalid TOPUP_AUTOCLAIM_BOOTSTRAP_WALLET_TIMEOUT_MS. Expected a positive integer (milliseconds).'')
          else Inr (Finite q)
      | NotFinite \<Rightarrow>
          Inl (cli_error ''Invalid TOPUP_AUTOCLAIM_BOOTSTRAP_WALLET_TIMEOUT_MS. Expected a positive integer (milliseconds).''))"

fun join_words :: "string list \<Rightarrow> string" where
  "join_words [] = []"
| "join_words [s] = s"
| "join_words (s # ss) = s @ '' '' @ join_words ss"

definition newline :: string where
  "newline = [CHR 0x0A]"

definition quote :: string where
  "quote = [CHR 0x27]"

definition exec_failure :: "script_platform \<Rightarrow> string \<Rightarrow> string list \<Rightarrow> js_number \<Rightarrow> string \<Rightarrow> exec_error \<Rightarrow> thrown" where
  "exec_failure p bin command_args timeout description e = (case e of
     CommandFailed out err message killed \<Rightarrow>
       (let timed_out = js_includes (js_lower message) ''timed out'' \<or> killed;
            suffix = (if timed_out then newline @ ''Command exceeded timeout ('' @ sp_string p (JNum timeout) @
              ''ms). Set TOPUP_AUTOCLAIM_BOOTSTRAP_WALLET_TIMEOUT_MS to adjust.'' else []) in
        cli_error (''Failed to '' @ description @ '' via '' @ quote @ bin @ '' '' @ join_words command_args @ quote @ ''.'' @
          suffix @ newline @ ''stdout:'' @ newline @ out @ newline @ ''stderr:'' @ newline @ err))
   | NotStarted t \<Rightarrow> cli_error (''Failed to '' @ description @ '': '' @ js_string t))"

definition wallet_command_args :: "script_platform \<Rightarrow> string \<Rightarrow> string list \<Rightarrow> string list" where
  "wallet_command_args p node_url args =
     (let dir = or_else (sp_env p ''AZTEC_WALLET_DATA_DIR'') (sp_env p ''FPC_DEVNET_WALLET_DATA_DIR'') in
      (if is_set dir then [''--data-dir'', the dir] else []) @ [''--node-url'', node_url] @ args)"

definition wallet_bin :: "script_platform \<Rightarrow> string" where
  "wallet_bin p = (case sp_env p ''AZTEC_WALLET_BIN'' of None \<Rightarrow> ''aztec-wallet'' | Some b \<Rightarrow> b)"

definition run_aztec_wallet_command :: "'w bootstrap_env \<Rightarrow> string \<Rightarrow> string list \<Rightarrow> string \<Rightarrow> ('w, string) ioe" where
  "run_aztec_wallet_command env node_url args description =
     (let p = be_platform env; command_args = wallet_command_args p node_url args in
      bind_io (from_pure (resolve_aztec_wallet_timeout_ms p)) (\<lambda>timeout w.
      case be_exec env (wallet_bin p) command_args timeout w of
        (Inr out, w1) \<Rightarrow> (Inr out, w1)
      | (Inl e, w1) \<Rightarrow> (Inl (exec_failure p (wallet_bin p) command_args timeout description e), w1)))"

definition register_sponsored_fpc :: "'w bootstrap_env \<Rightarrow> string \<Rightarrow> string \<Rightarrow> ('w, string) ioe" where
  "register_sponsored_fpc env node_url sponsor =
     run_aztec_wallet_command env node_url
       [''register-contract'', ''--alias'', ''sponsoredfpc'', sponsor, ''SponsoredFPC'', ''--salt'', ''0'']
       (''register sponsored FPC contract '' @ sponsor)"

definition derive_address :: "'w bootstrap_env \<Rightarrow> string \<Rightarrow> thrown + int" where
  "derive_address env key =
     and_then (fr_from_hex (be_lib env) key) (\<lambda>secret. Inr (be_account_address env secret 0))"

definition is_published :: "'w bootstrap_env \<Rightarrow> string \<Rightarrow> int \<Rightarrow> ('w, bool) ioe" where
  "is_published env node_url address =
     bind_io (be_wait_for_node env node_url) (\<lambda>_. be_get_contract env node_url address)"

definition build_alias :: "'w bootstrap_env \<Rightarrow> string option \<Rightarrow> int \<Rightarrow> 'w \<Rightarrow> string" where
  "build_alias env explicit address w =
     (if is_set explicit then the explicit
      else
        (let now = bigint_string (be_date_now_ms env w) in
         DEFAULT_ALIAS_PREFIX @ ''-'' @ js_lower (take 8 (drop 2 (address_to_string (be_lib env) address))) @ ''-'' @
         drop (length now - 6) now))"

record account_params =
  ap_node_url :: string
  ap_alias :: string
  ap_secret_key :: string
  ap_payment_mode :: payment_mode
  ap_sponsored_fpc_address :: "string option"

definition create_args :: "account_params \<Rightarrow> string list" where
  "create_args a = [''create-account'', ''--alias'', ap_alias a, ''--secret-key'', ap_secret_key a]"

definition public_deploy_args :: "account_params \<Rightarrow> string list" where
  "public_deploy_args a = create_args a @
     (if ap_payment_mode a = PaySponsored
      then [''--payment'', ''method=fpc-sponsored,fpc='' @ the (ap_sponsored_fpc_address a)] else []) @ [''--public-deploy'']"

definition create_account_with_mode :: "'w bootstrap_env \<Rightarrow> account_params \<Rightarrow> ('w, unit) ioe" where
  "create_account_with_mode env a =
     (if ap_payment_mode a = RegisterOnly
      then bind_io (run_aztec_wallet_command env (ap_node_url a)
        [''create-account'', ''--register-only'', ''--alias'', ap_alias a, ''--secret-key'', ap_secret_key a]
        (''register-only import claimer account alias accounts:'' @ ap_alias a)) (\<lambda>_. return_io ())
      else if ap_payment_mode a = PaySponsored \<and> \<not> is_set (ap_sponsored_fpc_address a)
      then throw_io (cli_error (''Payment mode '' @ quote @ ''sponsored'' @ quote @
        '' requested but no sponsored FPC address was provided.''))
      else
        catch_io
          (bind_io (run_aztec_wallet_command env (ap_node_url a) (public_deploy_args a)
             (''create claimer account alias accounts:'' @ ap_alias a @ '' with payment='' @ mode_name (ap_payment_mode a)))
             (\<lambda>_. return_io ()))
          (\<lambda>e. if \<not> should_attempt_existing_account_public_deploy_fallback (js_string e) then throw_io e
               else bind_io (run_aztec_wallet_command env (ap_node_url a) (public_deploy_args a @ [''--skip-initialization''])
                 (''publicly deploy existing claimer account alias accounts:'' @ ap_alias a @ '' after create-account conflict''))
                 (\<lambda>_. return_io ())))"

section \<open>The fallback with Aztec.js\<close>

definition register_sponsored_fpc_in_embedded_wallet :: "'w bootstrap_env \<Rightarrow> string \<Rightarrow> string \<Rightarrow> ('w, int) ioe" where
  "register_sponsored_fpc_in_embedded_wallet env node_url sponsor =
     bind_io (be_wait_for_node env node_url) (\<lambda>_.
     bind_io (from_pure (address_from_string (be_lib env) sponsor)) (\<lambda>address.
     bind_io (be_get_contract env node_url address) (\<lambda>found.
     if \<not> found
     then throw_io (cli_error (''Sponsored FPC contract '' @ sponsor @ '' is not available on node '' @ node_url))
     else bind_io (be_register_contract env address) (\<lambda>_. return_io address))))"

text \<open>One attempt of the fallback.\<close>

definition deploy_attempt :: "'w bootstrap_env \<Rightarrow> account_params \<Rightarrow> payment_mode \<Rightarrow> ('w, unit) ioe" where
  "deploy_attempt env a mode =
     bind_io (be_get_deploy_method env) (\<lambda>_.
     if mode = PaySponsored then
       if \<not> is_set (ap_sponsored_fpc_address a)
       then throw_io (cli_error ''Aztec.js fallback cannot use sponsored mode without sponsored FPC address'')
       else bind_io (register_sponsored_fpc_in_embedded_wallet env (ap_node_url a) (the (ap_sponsored_fpc_address a)))
         (\<lambda>sponsor. be_send_deploy env (Some sponsor) 120)
     else be_send_deploy env None 120)"

definition is_existing_nullifier :: "thrown \<Rightarrow> bool" where
  "is_existing_nullifier e = (let m = js_string e in
     js_includes m ''Existing nullifier'' \<or> js_includes m ''existing nullifier'')"

fun join_bars :: "string list \<Rightarrow> string" where
  "join_bars [] = []"
| "join_bars [s] = s"
| "join_bars (s # ss) = s @ '' | '' @ join_bars ss"

fun attempt_modes :: "'w bootstrap_env \<Rightarrow> account_params \<Rightarrow> payment_mode list \<Rightarrow> string list \<Rightarrow> ('w, unit) ioe" where
  "attempt_modes env a [] failures w =
     (Inl (cli_error (''Aztec.js fallback could not deploy claimer account. Attempts: '' @ join_bars failures)), w)"
| "attempt_modes env a (mode # modes) failures w = (case deploy_attempt env a mode w of
     (Inr _, w1) \<Rightarrow> (Inr (), w1)
   | (Inl e, w1) \<Rightarrow>
       if is_existing_nullifier e then (Inr (), w1)
       else attempt_modes env a modes (failures @ [mode_name mode @ '': '' @ js_string e]) w1)"

definition deploy_with_aztec_js_fallback :: "'w bootstrap_env \<Rightarrow> account_params \<Rightarrow> int \<Rightarrow> ('w, unit) ioe" where
  "deploy_with_aztec_js_fallback env a claimer =
     (let lib = be_lib env in
      if ap_payment_mode a = RegisterOnly then return_io ()
      else
        bind_io (be_wait_for_node env (ap_node_url a)) (\<lambda>_.
        bind_io (be_create_wallet env (ap_node_url a)) (\<lambda>_.
        bind_io (from_pure (fr_from_hex lib (ap_secret_key a))) (\<lambda>secret.
        bind_io (be_create_schnorr_account env secret 0 (be_derive_signing_key env secret)) (\<lambda>account.
        if js_lower (address_to_string lib account) \<noteq> js_lower (address_to_string lib claimer)
        then throw_io (cli_error (''Aztec.js fallback derived unexpected account address '' @ address_to_string lib account @
          '' (expected '' @ address_to_string lib claimer @ '')''))
        else attempt_modes env a
          (if ap_payment_mode a = PaySponsored then [PaySponsored, PayFeeJuice] else [PayFeeJuice]) [])))))"

section \<open>The run\<close>

record bootstrap_inputs =
  bi_account :: account_params
  bi_claimer :: int

definition resolve_bootstrap :: "'w bootstrap_env \<Rightarrow> bootstrap_args \<Rightarrow> jsval \<Rightarrow> 'w \<Rightarrow> thrown + bootstrap_inputs" where
  "resolve_bootstrap env args manifest w =
     (let p = be_platform env in
      and_then (resolve_node_url p
        (cli_error ''Missing node URL. Set AZTEC_NODE_URL, pass --node-url, or include manifest.network.node_url.'')
        (parse_http_url p ''node URL'') (ba_node_url args) manifest) (\<lambda>node_url.
      and_then (resolve_secret_key p args) (\<lambda>(key, source).
      and_then (resolve_sponsored_fpc_address p args manifest) (\<lambda>sponsor.
      and_then (derive_address env key) (\<lambda>claimer.
      Inr \<lparr>bi_account = \<lparr>ap_node_url = node_url, ap_alias = build_alias env (ba_alias args) claimer w,
             ap_secret_key = key, ap_payment_mode = resolve_payment_mode args sponsor, ap_sponsored_fpc_address = sponsor\<rparr>,
           bi_claimer = claimer\<rparr>)))))"

text \<open>A caught error is kept as its text.\<close>

definition caught :: "('w, unit) ioe \<Rightarrow> 'w \<Rightarrow> (thrown + string option) \<times> 'w" where
  "caught f w = (case f w of (Inr _, w1) \<Rightarrow> (Inr None, w1) | (Inl e, w1) \<Rightarrow> (Inr (Some (js_string e)), w1))"

definition bootstrap_failure :: "'w bootstrap_env \<Rightarrow> bootstrap_inputs \<Rightarrow> string option \<Rightarrow> string option \<Rightarrow> thrown" where
  "bootstrap_failure env bi wallet_error fallback_error =
     (let details = join_bars (List.map_filter (\<lambda>e. if is_set e then e else None) [wallet_error, fallback_error]) in
      cli_error (''Bootstrap finished but claimer '' @ address_to_string (be_lib env) (bi_claimer bi) @
        '' is still not publicly deployed on '' @ ap_node_url (bi_account bi) @
        ''. If you used fee_juice mode, ensure claimer has FeeJuice; otherwise retry with sponsored mode and a valid '' @
        ''TOPUP_AUTOCLAIM_SPONSORED_FPC_ADDRESS.'' @ (if details \<noteq> [] then '' Details: '' @ details else [])))"

text \<open>The fallback and whether the account counts as published after it, with the fallback's error.\<close>

definition publish_with_fallback :: "'w bootstrap_env \<Rightarrow> bootstrap_inputs \<Rightarrow> bool \<Rightarrow> ('w, bool \<times> string option) ioe" where
  "publish_with_fallback env bi published =
     (if \<not> published \<and> ap_payment_mode (bi_account bi) \<noteq> RegisterOnly then
        bind_io (caught (deploy_with_aztec_js_fallback env (bi_account bi) (bi_claimer bi))) (\<lambda>err.
        case err of
          None \<Rightarrow> return_io (True, None)
        | Some m \<Rightarrow> bind_io (is_published env (ap_node_url (bi_account bi)) (bi_claimer bi)) (\<lambda>b. return_io (b, Some m)))
      else return_io (published, None))"

datatype bootstrap_outcome = AlreadyPublished | PubliclyDeployed

text \<open>The part of \<open>main\<close> for an account that is not published yet.\<close>

definition publish_account :: "'w bootstrap_env \<Rightarrow> bootstrap_inputs \<Rightarrow> ('w, bootstrap_outcome) ioe" where
  "publish_account env bi =
     (let a = bi_account bi in
      bind_io (if ap_payment_mode a = PaySponsored \<and> is_set (ap_sponsored_fpc_address a)
        then bind_io (register_sponsored_fpc env (ap_node_url a) (the (ap_sponsored_fpc_address a))) (\<lambda>_. return_io ())
        else return_io ()) (\<lambda>_.
      bind_io (caught (create_account_with_mode env a)) (\<lambda>wallet_error.
      bind_io (is_published env (ap_node_url a) (bi_claimer bi)) (\<lambda>after.
      bind_io (publish_with_fallback env bi after) (\<lambda>(published, fallback_error).
      if \<not> published then throw_io (bootstrap_failure env bi wallet_error fallback_error)
      else return_io PubliclyDeployed)))))"

definition bootstrap_account :: "'w bootstrap_env \<Rightarrow> bootstrap_inputs \<Rightarrow> ('w, bootstrap_outcome) ioe" where
  "bootstrap_account env bi =
     bind_io (is_published env (ap_node_url (bi_account bi)) (bi_claimer bi)) (\<lambda>before.
     if before then return_io AlreadyPublished else publish_account env bi)"

text \<open>\<open>main\<close>: \<open>None\<close> is the run that prints the usage and exits.\<close>

definition bootstrap_main :: "'w bootstrap_env \<Rightarrow> string list \<Rightarrow> ('w, bootstrap_outcome option) ioe" where
  "bootstrap_main env argv =
     bind_io (from_pure (parse_bootstrap_args (be_platform env) argv)) (\<lambda>r.
     case r of None \<Rightarrow> return_io None
     | Some args \<Rightarrow>
         bind_io (catch_io (be_read_json env (ba_manifest_path args))
           (\<lambda>e. throw_io (cli_error (''Failed to read manifest at '' @ ba_manifest_path args @ '': '' @ js_string e)))) (\<lambda>manifest.
         bind_io (\<lambda>w. (resolve_bootstrap env args manifest w, w)) (\<lambda>bi.
         bind_io (bootstrap_account env bi) (\<lambda>out. return_io (Some out)))))"

section \<open>Facts\<close>

text \<open>\<open>P\<close> holds in every state in which \<open>f\<close> returns \<open>x\<close>, or throws an error that \<open>E\<close> describes.\<close>

definition returns_in :: "('w \<Rightarrow> bool) \<Rightarrow> ('w, 'a) ioe \<Rightarrow> 'a \<Rightarrow> bool" where
  "returns_in P f x \<longleftrightarrow> (\<forall>v v'. f v = (Inr x, v') \<longrightarrow> P v')"

definition throws_in :: "('w \<Rightarrow> bool) \<Rightarrow> ('w, 'a) ioe \<Rightarrow> (thrown \<Rightarrow> bool) \<Rightarrow> bool" where
  "throws_in P f E \<longleftrightarrow> (\<forall>v e v'. f v = (Inl e, v') \<longrightarrow> E e \<longrightarrow> P v')"

lemma is_published_in:
  "returns_in P (be_get_contract env url address) True \<Longrightarrow> is_published env url address w = (Inr True, w') \<Longrightarrow> P w'"
  by (auto simp: is_published_def returns_in_def io_Inr_iff)

lemma deploy_attempt_in:
  "\<forall>s. returns_in P (be_send_deploy env s 120) () \<Longrightarrow> deploy_attempt env a mode w = (Inr (), w') \<Longrightarrow> P w'"
  by (auto simp: deploy_attempt_def returns_in_def io_Inr_iff split: if_splits)

lemma attempt_modes_in:
  assumes "\<forall>s. returns_in P (be_send_deploy env s 120) ()" "\<forall>m. throws_in P (deploy_attempt env a m) is_existing_nullifier"
    and "attempt_modes env a modes failures w = (Inr (), w')"
  shows "P w'"
  using assms(3)
proof (induction modes arbitrary: failures w)
  case Nil
  then show ?case by simp
next
  case (Cons mode modes)
  obtain r w1 where r: "deploy_attempt env a mode w = (r, w1)" by (cases "deploy_attempt env a mode w")
  show ?case
  proof (cases r)
    case (Inl e)
    with Cons r assms(2) show ?thesis by (auto simp: throws_in_def split: if_splits)
  next
    case (Inr u)
    with Cons.prems r deploy_attempt_in [OF assms(1)] show ?thesis by auto
  qed
qed

lemma fallback_in:
  assumes "\<forall>s. returns_in P (be_send_deploy env s 120) ()" "\<forall>m. throws_in P (deploy_attempt env a m) is_existing_nullifier"
    and "deploy_with_aztec_js_fallback env a claimer w = (Inr (), w')" "ap_payment_mode a \<noteq> RegisterOnly"
  shows "P w'"
  using assms attempt_modes_in [OF assms(1,2)]
  by (auto simp: deploy_with_aztec_js_fallback_def Let_def io_Inr_iff simp del: attempt_modes.simps split: if_splits)

lemma publish_in:
  assumes "publish_with_fallback env bi published w = (Inr (True, err), w')" "published \<Longrightarrow> P w"
    and "returns_in P (be_get_contract env (ap_node_url (bi_account bi)) (bi_claimer bi)) True"
    and "ap_payment_mode (bi_account bi) \<noteq> RegisterOnly \<Longrightarrow> \<forall>s. returns_in P (be_send_deploy env s 120) ()"
    and "ap_payment_mode (bi_account bi) \<noteq> RegisterOnly \<Longrightarrow>
      \<forall>m. throws_in P (deploy_attempt env (bi_account bi) m) is_existing_nullifier"
  shows "P w'"
proof (cases "\<not> published \<and> ap_payment_mode (bi_account bi) \<noteq> RegisterOnly")
  case False
  with assms show ?thesis by (auto simp: publish_with_fallback_def io_Inr_iff split: if_splits)
next
  case True
  note send = fallback_in [OF assms(4,5)] and node = is_published_in [OF assms(3)]
  obtain r w1 where r: "deploy_with_aztec_js_fallback env (bi_account bi) (bi_claimer bi) w = (r, w1)"
    by (cases "deploy_with_aztec_js_fallback env (bi_account bi) (bi_claimer bi) w")
  with True assms(1) send node show ?thesis
    by (cases r) (auto simp: publish_with_fallback_def caught_def io_Inr_iff)
qed

lemma publish_account_Inr:
  assumes "publish_account env bi w = (Inr out, w')"
  obtains err v b v1 where "is_published env (ap_node_url (bi_account bi)) (bi_claimer bi) v = (Inr b, v1)"
    "publish_with_fallback env bi b v1 = (Inr (True, err), w')"
proof -
  let ?check = "\<lambda>wallet_error (published, fallback_error).
    if \<not> published then throw_io (bootstrap_failure env bi wallet_error fallback_error) else return_io PubliclyDeployed"
  from assms [unfolded publish_account_def Let_def io_Inr_iff]
  obtain e v b v1 x v2 where 1: "is_published env (ap_node_url (bi_account bi)) (bi_claimer bi) v = (Inr b, v1)"
    "publish_with_fallback env bi b v1 = (Inr x, v2)" and 2: "?check e x v2 = (Inr out, w')"
    by (elim exE conjE)
  show ?thesis
  proof (cases x)
    case (Pair published err)
    with 2 have "published" "v2 = w'" by (simp_all add: io_Inr_iff split: if_splits)
    with 1 Pair that show ?thesis by simp
  qed
qed


text \<open>A run in which \<open>aztec-wallet\<close> succeeds without a deployment; the state is whether the account is deployed.\<close>

definition demo_bootstrap_env :: "bool bootstrap_env" where
  "demo_bootstrap_env = \<lparr>be_lib = demo_lib,
     be_platform = \<lparr>sp_env = (\<lambda>_. None), sp_url = (\<lambda>s. Some (''http:'', s)), sp_string = (\<lambda>_. []), sp_resolve = (\<lambda>s. s)\<rparr>,
     be_account_address = (\<lambda>k _. k), be_derive_signing_key = (\<lambda>k. k), be_read_json = (\<lambda>_ w. (Inr JNull, w)),
     be_exec = (\<lambda>_ _ _ w. (Inr [], w)), be_date_now_ms = (\<lambda>_. 0),
     be_wait_for_node = (\<lambda>_ w. (Inr (), w)), be_get_contract = (\<lambda>_ _ w. (Inr w, w)),
     be_create_wallet = (\<lambda>_ w. (Inr (), w)), be_create_schnorr_account = (\<lambda>k _ _ w. (Inr k, w)),
     be_register_contract = (\<lambda>_ w. (Inr (), w)), be_get_deploy_method = (\<lambda>w. (Inr (), w)),
     be_send_deploy = (\<lambda>_ _ _. (Inr (), True))\<rparr>"

definition demo_bootstrap_inputs :: bootstrap_inputs where
  "demo_bootstrap_inputs = \<lparr>bi_account = \<lparr>ap_node_url = ''n'', ap_alias = ''a'', ap_secret_key = ''7'',
     ap_payment_mode = PayFeeJuice, ap_sponsored_fpc_address = None\<rparr>, bi_claimer = 7\<rparr>"


section \<open>The secret key in the errors\<close>

lemma includes_append_left: "js_includes t p \<Longrightarrow> js_includes (s @ t) p"
  by (auto simp: js_includes_iff) (metis append.assoc)

lemma includes_append_right: "js_includes s p \<Longrightarrow> js_includes (s @ t) p"
  by (auto simp: js_includes_iff) blast

lemma includes_refl: "js_includes s s"
  by (auto simp: js_includes_iff intro: exI [of _ "[]"])

lemma join_words_includes: "x \<in> set ws \<Longrightarrow> js_includes (join_words ws) x"
  by (induction ws rule: join_words.induct) (auto intro: includes_append_left includes_append_right includes_refl)

lemma command_error_has_argument:
  assumes "run_aztec_wallet_command env url args d w = (Inl e, w')"
    and "\<And>bin cmd t v. \<exists>out err m k v'. be_exec env bin cmd t v = (Inl (CommandFailed out err m k), v')"
    and "resolve_aztec_wallet_timeout_ms (be_platform env) = Inr t" "x \<in> set args"
  shows "js_includes (js_string e) x"
proof -
  let ?p = "be_platform env" and ?cmd = "wallet_command_args (be_platform env) url args"
  obtain out err m k v' where "be_exec env (wallet_bin ?p) ?cmd t w = (Inl (CommandFailed out err m k), v')"
    using assms(2) by blast
  with assms(1,3) have e: "e = exec_failure ?p (wallet_bin ?p) ?cmd t d (CommandFailed out err m k)"
    by (simp add: run_aztec_wallet_command_def Let_def)
  have "js_includes (join_words ?cmd) x"
    by (rule join_words_includes) (use assms(4) in \<open>simp add: wallet_command_args_def Let_def\<close>)
  then show ?thesis unfolding e
    by (simp add: exec_failure_def Let_def cli_error_def includes_append_left includes_append_right del: append_assoc append_Cons)
qed

text \<open>
  The claimer's secret key is part of the error of a failed wallet command. Whenever every
  \<open>aztec-wallet\<close> command fails with its outputs, the error that the creation of the account
  throws, which the script logs and repeats in its final error, contains the key.
\<close>

theorem wallet_error_exposes_key:
  assumes "\<And>bin cmd t v. \<exists>out err m k v'. be_exec env bin cmd t v = (Inl (CommandFailed out err m k), v')"
    and "resolve_aztec_wallet_timeout_ms (be_platform env) = Inr t"
    and "ap_payment_mode a = PaySponsored \<longrightarrow> is_set (ap_sponsored_fpc_address a)"
  shows "\<exists>e w'. create_account_with_mode env a w = (Inl e, w') \<and> js_includes (js_string e) (ap_secret_key a)"
proof -
  note has = command_error_has_argument [OF _ assms(1,2)]
  have fails: "\<exists>e v'. run_aztec_wallet_command env url args d v = (Inl e, v')" for url args d v
    using assms(1) [of "wallet_bin (be_platform env)" "wallet_command_args (be_platform env) url args" t v] assms(2)
    by (auto simp: run_aztec_wallet_command_def Let_def)
  show ?thesis
  proof (cases "ap_payment_mode a = RegisterOnly")
    case True
    let ?args = "[''create-account'', ''--register-only'', ''--alias'', ap_alias a, ''--secret-key'', ap_secret_key a]"
    from fails obtain e v where "run_aztec_wallet_command env (ap_node_url a) ?args
      (''register-only import claimer account alias accounts:'' @ ap_alias a) w = (Inl e, v)" by blast
    with True has [OF this, of "ap_secret_key a"] show ?thesis by (simp add: create_account_with_mode_def)
  next
    case False
    define first where "first = run_aztec_wallet_command env (ap_node_url a) (public_deploy_args a)
      (''create claimer account alias accounts:'' @ ap_alias a @ '' with payment='' @ mode_name (ap_payment_mode a))"
    define second where "second = run_aztec_wallet_command env (ap_node_url a) (public_deploy_args a @ [''--skip-initialization''])
      (''publicly deploy existing claimer account alias accounts:'' @ ap_alias a @ '' after create-account conflict'')"
    from fails obtain e v where 1: "first w = (Inl e, v)" unfolding first_def by blast
    from fails obtain e' v' where 2: "second v = (Inl e', v')" unfolding second_def by blast
    have key: "ap_secret_key a \<in> set (public_deploy_args a)" by (simp add: public_deploy_args_def create_args_def)
    then have keys: "js_includes (js_string e) (ap_secret_key a)" "js_includes (js_string e') (ap_secret_key a)"
      using has [OF 1 [unfolded first_def]] has [OF 2 [unfolded second_def]] by simp_all
    have "\<not> (ap_payment_mode a = PaySponsored \<and> \<not> is_set (ap_sponsored_fpc_address a))" using assms(3) by blast
    with False have "create_account_with_mode env a = catch_io (bind_io first (\<lambda>_. return_io ()))
      (\<lambda>e. if \<not> should_attempt_existing_account_public_deploy_fallback (js_string e) then throw_io e
           else bind_io second (\<lambda>_. return_io ()))"
      by (simp only: create_account_with_mode_def first_def second_def if_False)
    with 1 2 keys show ?thesis by (simp add: catch_io_def)
  qed
qed

theorem wallet_error_exposes_key_witness:
  "\<exists>e w'. create_account_with_mode (demo_bootstrap_env\<lparr>be_exec := \<lambda>_ _ _ w. (Inl (CommandFailed [] ''no funds'' [] False), w)\<rparr>)
     (bi_account demo_bootstrap_inputs) False = (Inl e, w') \<and> js_includes (js_string e) ''7''"
proof -
  let ?env = "demo_bootstrap_env\<lparr>be_exec := \<lambda>_ _ _ w. (Inl (CommandFailed [] ''no funds'' [] False), w)\<rparr>"
  have "resolve_aztec_wallet_timeout_ms (be_platform ?env) = Inr (Finite 90000)"
    by (simp add: resolve_aztec_wallet_timeout_ms_def demo_bootstrap_env_def parse_optional_env_def trimmed_opt_def
        is_set_def DEFAULT_AZTEC_WALLET_TIMEOUT_MS_def)
  then have "\<exists>e w'. create_account_with_mode ?env (bi_account demo_bootstrap_inputs) False = (Inl e, w') \<and>
      js_includes (js_string e) (ap_secret_key (bi_account demo_bootstrap_inputs))"
    by (rule wallet_error_exposes_key [rotated]) (auto simp: demo_bootstrap_inputs_def)
  then show ?thesis by (simp add: demo_bootstrap_inputs_def)
qed

end
