(* ===== verification/Preflight.thy ===== *)
theory Preflight
  imports Bootstrap_Claimer Topup_Main
begin

text \<open>
  The preflight of the automatic claimer, \<open>scripts/services/preflight-topup-autoclaim.ts\<close>: it
  resolves the account that will claim and fails when the node does not report it as deployed.
  Its job is to predict what the top-up service finds when it starts, so the theory relates it
  to \<open>create_topup_auto_claimer\<close> and to the bootstrap script that deploys the account.
\<close>

section \<open>Arguments\<close>

definition DEFAULT_TEST_ACCOUNT_INDEX :: int where
  "DEFAULT_TEST_ACCOUNT_INDEX = 0"

record preflight_args =
  pf_manifest_path :: string
  pf_node_url :: "string option"
  pf_secret_key :: "string option"
  pf_use_operator_secret_key :: "bool option"
  pf_test_account_index :: "int option"
  pf_auto_claim_enabled :: "bool option"
  pf_require_published_account :: "bool option"

definition preflight_boolean :: "string \<Rightarrow> string \<Rightarrow> thrown + bool" where
  "preflight_boolean name raw = (let v = js_lower (js_trim raw) in
     if v \<in> set TRUE_ENV_VALUES then Inr True
     else if v \<in> set FALSE_ENV_VALUES then Inr False
     else Inl (error (''Invalid '' @ name @ ''. Expected one of: 1/0, true/false, yes/no, on/off'')))"

definition preflight_secret_key :: "string \<Rightarrow> thrown + string" where
  "preflight_secret_key raw = hex32_or (error ''Invalid secret key. Expected 32-byte 0x-prefixed hex string'') raw"

definition test_account_index :: "string \<Rightarrow> thrown + int" where
  "test_account_index raw =
     (if \<not> uint_decimal raw then Inl (error ''Invalid test account index. Expected a non-negative integer'')
      else let n = js_Number raw in
        if \<not> (is_integer n \<and> \<bar>number_value n\<bar> \<le> MAX_SAFE_INTEGER)
        then Inl (error ''Invalid test account index. Value is too large'') else Inr (number_value n))"

definition preflight_http_url :: "script_platform \<Rightarrow> string \<Rightarrow> string \<Rightarrow> thrown + string" where
  "preflight_http_url p name value =
     http_url_or p (error (''Invalid '' @ name @ ''. Expected a URL, got: '' @ value))
       (error (''Invalid '' @ name @ ''. Expected http(s) URL, got: '' @ value)) value"

definition initial_preflight_args :: "script_platform \<Rightarrow> thrown + preflight_args" where
  "initial_preflight_args p =
     and_then (parse_optional preflight_secret_key (parse_optional_env p ''TOPUP_AUTOCLAIM_SECRET_KEY'')) (\<lambda>key.
     and_then (parse_env p preflight_boolean ''TOPUP_AUTOCLAIM_USE_OPERATOR_SECRET_KEY'') (\<lambda>use_operator.
     and_then (parse_optional test_account_index (parse_optional_env p ''TOPUP_AUTOCLAIM_TEST_ACCOUNT_INDEX'')) (\<lambda>index.
     and_then (parse_env p preflight_boolean ''TOPUP_AUTOCLAIM_ENABLED'') (\<lambda>enabled.
     and_then (parse_env p preflight_boolean ''TOPUP_AUTOCLAIM_REQUIRE_PUBLISHED_ACCOUNT'') (\<lambda>published.
     Inr \<lparr>pf_manifest_path = (case parse_optional_env p ''FPC_DEPLOY_MANIFEST'' of
            Some m \<Rightarrow> m | None \<Rightarrow> DEFAULT_MANIFEST_PATH),
          pf_node_url = parse_optional_env p ''AZTEC_NODE_URL'', pf_secret_key = key,
          pf_use_operator_secret_key = use_operator, pf_test_account_index = index,
          pf_auto_claim_enabled = enabled, pf_require_published_account = published\<rparr>)))))"

definition preflight_flags :: "string \<Rightarrow> preflight_args flag option" where
  "preflight_flags arg =
     (if arg = ''--manifest'' then Some (TakesValue (\<lambda>v a. Inr (a\<lparr>pf_manifest_path := v\<rparr>)))
      else if arg = ''--node-url'' then Some (TakesValue (\<lambda>v a. Inr (a\<lparr>pf_node_url := Some v\<rparr>)))
      else if arg = ''--secret-key''
      then Some (TakesValue (\<lambda>v a. and_then (preflight_secret_key v) (\<lambda>k. Inr (a\<lparr>pf_secret_key := Some k\<rparr>))))
      else if arg = ''--use-operator-secret-key''
      then Some (TakesValue (\<lambda>v a. and_then (preflight_boolean arg v) (\<lambda>b. Inr (a\<lparr>pf_use_operator_secret_key := Some b\<rparr>))))
      else if arg = ''--test-account-index''
      then Some (TakesValue (\<lambda>v a. and_then (test_account_index v) (\<lambda>i. Inr (a\<lparr>pf_test_account_index := Some i\<rparr>))))
      else if arg = ''--auto-claim-enabled''
      then Some (TakesValue (\<lambda>v a. and_then (preflight_boolean arg v) (\<lambda>b. Inr (a\<lparr>pf_auto_claim_enabled := Some b\<rparr>))))
      else if arg = ''--require-published-account''
      then Some (TakesValue (\<lambda>v a. and_then (preflight_boolean arg v) (\<lambda>b. Inr (a\<lparr>pf_require_published_account := Some b\<rparr>))))
      else if arg = ''--help'' \<or> arg = ''-h'' then Some Help
      else if starts_with arg ''--'' then None
      else Some (Switch (\<lambda>a. a)))"

definition parse_preflight_args :: "script_platform \<Rightarrow> string list \<Rightarrow> thrown + preflight_args option" where
  "parse_preflight_args p argv =
     and_then (initial_preflight_args p) (\<lambda>a0.
     and_then (parse_flags preflight_flags error argv a0) (\<lambda>r.
     Inr (map_option (\<lambda>a. a\<lparr>pf_manifest_path := sp_resolve p (pf_manifest_path a)\<rparr>) r)))"

section \<open>The check\<close>

record 'w preflight_env =
  pe_lib :: aztec_lib
  pe_platform :: script_platform
  pe_account_address :: "int \<Rightarrow> int \<Rightarrow> int"
  pe_read_json :: "string \<Rightarrow> ('w, jsval) ioe"
  pe_test_accounts :: "('w, test_account list) ioe"
  pe_wait_for_node :: "string \<Rightarrow> ('w, unit) ioe"
  pe_get_contract :: "string \<Rightarrow> int \<Rightarrow> ('w, bool) ioe"

text \<open>The key that the account is derived from, if it is not a test account.\<close>

definition chosen_secret_key :: "script_platform \<Rightarrow> string option \<Rightarrow> bool \<Rightarrow> thrown + string option" where
  "chosen_secret_key p explicit use_operator =
     and_then (parse_optional preflight_secret_key (parse_optional_env p ''OPERATOR_SECRET_KEY'')) (\<lambda>operator_key.
     Inr (or_else explicit (if use_operator then operator_key else None)))"

definition resolve_claimer ::
    "'w preflight_env \<Rightarrow> string option \<Rightarrow> bool \<Rightarrow> int \<Rightarrow> ('w, int \<times> claimer_source) ioe" where
  "resolve_claimer env explicit use_operator index =
     bind_io (from_pure (chosen_secret_key (pe_platform env) explicit use_operator)) (\<lambda>chosen.
     if is_set chosen then
       bind_io (from_pure (fr_from_hex (pe_lib env) (the chosen))) (\<lambda>secret.
       return_io (pe_account_address env secret 0, ClaimerSecretKey))
     else
       bind_io (pe_test_accounts env) (\<lambda>accounts.
       if int (length accounts) \<le> index
       then throw_io (error (''TOPUP_AUTOCLAIM_TEST_ACCOUNT_INDEX out of range. index='' @ bigint_string index @
         '', available='' @ bigint_string (int (length accounts))))
       else (let a = accounts ! nat index in return_io (pe_account_address env (ta_secret a) (ta_salt a), ClaimerTestAccount))))"

datatype preflight_outcome = SkippedDisabled | SkippedUnpublished | ClaimerPublished int

definition not_published :: "'w preflight_env \<Rightarrow> int \<Rightarrow> string \<Rightarrow> thrown" where
  "not_published env claimer node_url = error (''Auto-claim claimer '' @ address_to_string (pe_lib env) claimer @
     '' is not publicly deployed on '' @ node_url @
     ''. Use a publicly deployed account for TOPUP_AUTOCLAIM_SECRET_KEY (or disable this preflight with '' @
     ''TOPUP_AUTOCLAIM_REQUIRE_PUBLISHED_ACCOUNT=0 for debugging).'')"

definition preflight_run :: "'w preflight_env \<Rightarrow> preflight_args \<Rightarrow> ('w, preflight_outcome) ioe" where
  "preflight_run env args =
     (let p = pe_platform env in
      bind_io (pe_read_json env (pf_manifest_path args)) (\<lambda>manifest.
      if pf_auto_claim_enabled args = Some False then return_io SkippedDisabled
      else if pf_require_published_account args = Some False then return_io SkippedUnpublished
      else
        bind_io (from_pure (resolve_node_url p
          (error ''Missing node URL. Set AZTEC_NODE_URL, pass --node-url, or provide manifest.network.node_url'')
          (preflight_http_url p ''node URL'') (pf_node_url args) manifest)) (\<lambda>node_url.
        bind_io (resolve_claimer env (pf_secret_key args) (pf_use_operator_secret_key args = Some True)
          (case pf_test_account_index args of None \<Rightarrow> DEFAULT_TEST_ACCOUNT_INDEX | Some i \<Rightarrow> i)) (\<lambda>(claimer, source).
        bind_io (pe_wait_for_node env node_url) (\<lambda>_.
        bind_io (pe_get_contract env node_url claimer) (\<lambda>published.
        if \<not> published then throw_io (not_published env claimer node_url)
        else return_io (ClaimerPublished claimer)))))))"

text \<open>\<open>None\<close> is the run that prints the usage and exits.\<close>

definition preflight_main :: "'w preflight_env \<Rightarrow> string list \<Rightarrow> ('w, preflight_outcome option) ioe" where
  "preflight_main env argv =
     bind_io (from_pure (parse_preflight_args (pe_platform env) argv)) (\<lambda>r.
     case r of None \<Rightarrow> return_io None
     | Some args \<Rightarrow> bind_io (preflight_run env args) (\<lambda>out. return_io (Some out)))"

section \<open>Facts\<close>

lemma preflight_args_no_arguments:
  "parse_preflight_args p [] = Inr r \<longleftrightarrow>
     (\<exists>a. initial_preflight_args p = Inr a \<and> r = Some (a\<lparr>pf_manifest_path := sp_resolve p (pf_manifest_path a)\<rparr>))"
  by (auto simp: parse_preflight_args_def and_then_Inr_iff)

lemma initial_preflight_Inr:
  assumes "initial_preflight_args p = Inr a"
  shows "parse_optional preflight_secret_key (parse_optional_env p ''TOPUP_AUTOCLAIM_SECRET_KEY'') = Inr (pf_secret_key a)"
    "parse_env p preflight_boolean ''TOPUP_AUTOCLAIM_USE_OPERATOR_SECRET_KEY'' = Inr (pf_use_operator_secret_key a)"
    "parse_env p preflight_boolean ''TOPUP_AUTOCLAIM_ENABLED'' = Inr (pf_auto_claim_enabled a)"
  using assms by (auto simp: initial_preflight_args_def and_then_Inr_iff)

lemma preflight_main_Inr:
  assumes "preflight_main env [] w = (Inr out, w')"
  obtains a a' oc where "initial_preflight_args (pe_platform env) = Inr a" "out = Some oc"
    "a' = a\<lparr>pf_manifest_path := sp_resolve (pe_platform env) (pf_manifest_path a)\<rparr>" "preflight_run env a' w = (Inr oc, w')"
  using assms by (auto simp: preflight_main_def io_Inr_iff preflight_args_no_arguments)

lemma preflight_run_published:
  assumes "preflight_run env args w = (Inr (ClaimerPublished a), w')"
  obtains url src v v' where "resolve_claimer env (pf_secret_key args) (pf_use_operator_secret_key args = Some True)
      (case pf_test_account_index args of None \<Rightarrow> DEFAULT_TEST_ACCOUNT_INDEX | Some i \<Rightarrow> i) v = (Inr (a, src), v')"
    "\<exists>v. pe_get_contract env url a v = (Inr True, w')"
  using assms by (auto simp: preflight_run_def Let_def io_Inr_iff split: if_splits) blast

text \<open>Both programs read the claimer's key from the environment in the same way.\<close>

lemma service_key:
  assumes "parse_optional preflight_secret_key (parse_optional_env p ''TOPUP_AUTOCLAIM_SECRET_KEY'') = Inr k"
  shows "Topup_Autoclaim.parse_optional_secret_key (sp_env p ''TOPUP_AUTOCLAIM_SECRET_KEY'') = Inr k"
  using assms by (auto simp: parse_optional_Inr preflight_secret_key_def hex32_or_def with_0x_def parse_optional_env_def
      Topup_Autoclaim.parse_optional_secret_key_def Let_def split: option.splits if_splits)

text \<open>The library and the wallet compute the address of an account in the same way.\<close>

definition same_accounts :: "'w preflight_env \<Rightarrow> 'v autoclaim_env \<Rightarrow> bool" where
  "same_accounts env ae \<longleftrightarrow> ae_lib ae = pe_lib env \<and>
     (\<forall>s salt key v a v'. ae_create_account ae s salt key v = (Inr a, v') \<longrightarrow> a = pe_account_address env s salt)"

lemma create_claimer_Inr:
  assumes "create_topup_auto_claimer ae penv profile v = (Inr m, v')"
  obtains key t t' where "Topup_Autoclaim.parse_optional_secret_key (penv ''TOPUP_AUTOCLAIM_SECRET_KEY'') = Inr key"
    "select_claimer ae key profile t = (Inr (am_claimer_address m, am_claimer_source m), t')"
  using assms by (auto simp: create_topup_auto_claimer_def io_Inr_iff)

text \<open>
  The preflight checks the account that the service will claim with. If the claimer's key is
  in the environment and the preflight passes, every auto-claimer that the top-up service creates
  in that environment uses the checked account.
\<close>

theorem preflight_checks_service_claimer:
  assumes "preflight_main env [] w = (Inr (Some (ClaimerPublished a)), w')"
    and "parse_optional_env (pe_platform env) ''TOPUP_AUTOCLAIM_SECRET_KEY'' \<noteq> None" "same_accounts env ae"
    and "create_topup_auto_claimer ae (sp_env (pe_platform env)) profile v = (Inr m, v')"
  shows "am_claimer_address m = a \<and> am_claimer_source m = ClaimerSecretKey"
  using assms(1)
proof (rule preflight_main_Inr)
  fix b b' oc assume b: "initial_preflight_args (pe_platform env) = Inr b" "Some (ClaimerPublished a) = Some oc"
    "b' = b\<lparr>pf_manifest_path := sp_resolve (pe_platform env) (pf_manifest_path b)\<rparr>" "preflight_run env b' w = (Inr oc, w')"
  from initial_preflight_Inr(1) [OF b(1)] assms(2) obtain k where k: "pf_secret_key b = Some k" "hex_word 64 k"
    by (auto simp: parse_optional_Inr preflight_secret_key_def hex32_or_Inr)
  have set: "is_set (Some k)" using k(2) by (auto simp: is_set_def hex_word_def)
  from b(2,4) have run: "preflight_run env b' w = (Inr (ClaimerPublished a), w')" by simp
  from run obtain src t t' where "resolve_claimer env (pf_secret_key b') (pf_use_operator_secret_key b' = Some True)
      (case pf_test_account_index b' of None \<Rightarrow> DEFAULT_TEST_ACCOUNT_INDEX | Some i \<Rightarrow> i) t = (Inr (a, src), t')"
    by (rule preflight_run_published)
  with set k(1) b(3) obtain secret where secret: "fr_from_hex (pe_lib env) k = Inr secret" "a = pe_account_address env secret 0"
    by (auto simp: resolve_claimer_def chosen_secret_key_def or_else_def io_Inr_iff and_then_Inr_iff)
  from assms(4) obtain key t t' where key: "Topup_Autoclaim.parse_optional_secret_key (sp_env (pe_platform env) ''TOPUP_AUTOCLAIM_SECRET_KEY'') = Inr key"
    "select_claimer ae key profile t = (Inr (am_claimer_address m, am_claimer_source m), t')" by (rule create_claimer_Inr)
  have "key = Some k" using service_key [OF initial_preflight_Inr(1) [OF b(1)]] key(1) k(1) by simp
  with key(2) secret assms(3) show ?thesis
    by (simp add: select_claimer_def io_Inr_iff same_accounts_def) blast
qed

text \<open>
  The preflight can pass for a service that cannot start. Without a key of the claimer's own,
  the preflight falls back to the operator's key or to a test account, but in production the
  top-up service refuses to create the auto-claimer.
\<close>

theorem preflight_passes_for_refused_service:
  assumes "preflight_main env [] w = (Inr (Some (ClaimerPublished a)), w')"
    and "parse_optional_env (pe_platform env) ''TOPUP_AUTOCLAIM_SECRET_KEY'' = None"
  shows "isl (fst (create_topup_auto_claimer ae (sp_env (pe_platform env)) (Some ''production'') v))"
proof (rule ccontr)
  assume "\<not> ?thesis"
  then obtain m v' where "create_topup_auto_claimer ae (sp_env (pe_platform env)) (Some ''production'') v = (Inr m, v')"
    by (cases "create_topup_auto_claimer ae (sp_env (pe_platform env)) (Some ''production'') v") (metis fst_conv isl_def sum.exhaust_sel)
  then obtain key t t' where "Topup_Autoclaim.parse_optional_secret_key (sp_env (pe_platform env) ''TOPUP_AUTOCLAIM_SECRET_KEY'') = Inr key"
    and s: "select_claimer ae key (Some ''production'') t = (Inr (am_claimer_address m, am_claimer_source m), t')"
    by (rule create_claimer_Inr)
  then have "key = None"
    using assms(2) by (auto simp: parse_optional_env_def Topup_Autoclaim.parse_optional_secret_key_def)
  with s show False by (simp add: select_claimer_def io_Inr_iff)
qed

text \<open>
  The preflight skips a service that is not switched off. For every value of
  \<open>TOPUP_AUTOCLAIM_ENABLED\<close> that the preflight reads as false, except the text \<open>0\<close>, the preflight
  succeeds without a check although the service claims automatically.
\<close>

theorem preflight_skips_enabled_service:
  assumes "preflight_main env [] w = (Inr out, w')"
    and "sp_env (pe_platform env) ''TOPUP_AUTOCLAIM_ENABLED'' = Some v" "js_lower (js_trim v) \<in> set FALSE_ENV_VALUES" "v \<noteq> ''0''"
  shows "out = Some SkippedDisabled \<and> auto_claim_enabled (sp_env (pe_platform env))"
  using assms(1)
proof (rule preflight_main_Inr)
  fix b b' oc assume b: "initial_preflight_args (pe_platform env) = Inr b" "out = Some oc"
    "b' = b\<lparr>pf_manifest_path := sp_resolve (pe_platform env) (pf_manifest_path b)\<rparr>" "preflight_run env b' w = (Inr oc, w')"
  have "js_trim v \<noteq> []" using assms(3) by (auto simp: FALSE_ENV_VALUES_def js_lower_def)
  then have "parse_optional_env (pe_platform env) ''TOPUP_AUTOCLAIM_ENABLED'' = Some (js_trim v)"
    using assms(2) by (simp add: parse_optional_env_def trimmed_opt_def)
  with initial_preflight_Inr(3) [OF b(1)] assms(3) have "pf_auto_claim_enabled b' = Some False"
    unfolding b(3) by (auto simp: parse_env_def parse_optional_Inr preflight_boolean_def Let_def TRUE_ENV_VALUES_def FALSE_ENV_VALUES_def)
  with b(2,4) assms(2,4) show ?thesis
    by (auto simp: preflight_run_def Let_def io_Inr_iff auto_claim_enabled_def)
qed

lemma same_key: "parse_env p parse_secret_key name = Inr k \<longleftrightarrow>
    parse_optional preflight_secret_key (parse_optional_env p name) = Inr k"
  by (auto simp: parse_env_def parse_optional_Inr parse_secret_key_def preflight_secret_key_def hex32_or_Inr split: option.splits)

lemma same_boolean: "parse_env p parse_boolean name = Inr b \<longleftrightarrow> parse_env p preflight_boolean name = Inr b"
  by (auto simp: parse_env_def parse_optional_Inr parse_boolean_def preflight_boolean_def Let_def split: option.splits if_splits)

lemma bootstrap_args_no_arguments:
  assumes "parse_bootstrap_args p [] = Inr (Some a)"
  shows "parse_env p parse_secret_key ''TOPUP_AUTOCLAIM_SECRET_KEY'' = Inr (ba_secret_key a)"
    "parse_env p parse_boolean ''TOPUP_AUTOCLAIM_USE_OPERATOR_SECRET_KEY'' = Inr (ba_use_operator_secret_key a)"
  using assms by (auto simp: parse_bootstrap_args_def initial_bootstrap_args_def and_then_Inr_iff)

text \<open>
  The bootstrap and the preflight resolve the same account. Run in the same environment
  without arguments, the account that the bootstrap deploys is the one that the preflight checks.
\<close>

theorem bootstrap_and_preflight_agree:
  assumes "parse_bootstrap_args p [] = Inr (Some bargs)" "parse_preflight_args p [] = Inr (Some pargs)"
    and "resolve_bootstrap benv bargs manifest v = Inr bi"
    and "be_platform benv = p" "pe_platform penv = p" "be_lib benv = pe_lib penv"
    and "be_account_address benv = pe_account_address penv"
  shows "resolve_claimer penv (pf_secret_key pargs) (pf_use_operator_secret_key pargs = Some True) index w =
    (Inr (bi_claimer bi, ClaimerSecretKey), w)"
proof -
  from assms(3,4) obtain key source secret where key: "resolve_secret_key p bargs = Inr (key, source)"
    and secret: "fr_from_hex (be_lib benv) key = Inr secret" "bi_claimer bi = be_account_address benv secret 0"
    by (auto simp: resolve_bootstrap_def derive_address_def Let_def and_then_Inr_iff)
  from key obtain op where op: "parse_env p parse_secret_key ''OPERATOR_SECRET_KEY'' = Inr op"
    and chosen: "(if is_set (ba_secret_key bargs) then Inr (the (ba_secret_key bargs), ''TOPUP_AUTOCLAIM_SECRET_KEY/--secret-key'')
      else if ba_use_operator_secret_key bargs = Some True \<and> is_set op then Inr (the op, ''OPERATOR_SECRET_KEY'')
      else Inl (cli_error (''Could not resolve claimer secret key. Set TOPUP_AUTOCLAIM_SECRET_KEY (or pass --secret-key), '' @
        ''or enable TOPUP_AUTOCLAIM_USE_OPERATOR_SECRET_KEY=1 with OPERATOR_SECRET_KEY set.''))) = Inr (key, source)"
    unfolding resolve_secret_key_def and_then_Inr_iff by blast
  from assms(2) obtain a where a: "initial_preflight_args p = Inr a" "pf_secret_key pargs = pf_secret_key a"
    "pf_use_operator_secret_key pargs = pf_use_operator_secret_key a"
    by (auto simp: preflight_args_no_arguments)
  have keys: "pf_secret_key pargs = ba_secret_key bargs" "pf_use_operator_secret_key pargs = ba_use_operator_secret_key bargs"
    using bootstrap_args_no_arguments [OF assms(1)] initial_preflight_Inr(1,2) [OF a(1)] a(2,3)
    by (simp_all add: same_key same_boolean)
  have no_blank: "is_set k \<longleftrightarrow> k \<noteq> None" if "parse_env p parse_secret_key name = Inr k" for name k
    using that by (auto simp: parse_env_def parse_optional_Inr parse_secret_key_def hex32_or_Inr is_set_def hex_word_def split: option.splits)
  have "chosen_secret_key p (pf_secret_key pargs) (pf_use_operator_secret_key pargs = Some True) = Inr (Some key)"
    using chosen op [unfolded same_key] no_blank [OF op] no_blank [OF bootstrap_args_no_arguments(1) [OF assms(1)]]
    by (cases "ba_secret_key bargs"; cases op) (auto simp: chosen_secret_key_def keys or_else_def split: if_splits)
  moreover have "is_set (Some key)"
    using chosen by (auto simp: is_set_def split: if_splits)
  ultimately show ?thesis
    using secret assms(5-7) by (simp add: resolve_claimer_def)
qed

section \<open>Examples\<close>

definition demo_preflight_env :: "(string \<rightharpoonup> string) \<Rightarrow> unit preflight_env" where
  "demo_preflight_env vars = \<lparr>pe_lib = demo_lib\<lparr>address_from_string := (\<lambda>_. Inr 5), fr_from_hex := (\<lambda>_. Inr 7)\<rparr>,
     pe_platform = \<lparr>sp_env = vars, sp_url = (\<lambda>s. Some (''http:'', s)), sp_string = (\<lambda>_. []), sp_resolve = (\<lambda>s. s)\<rparr>,
     pe_account_address = (\<lambda>k _. k), pe_read_json = (\<lambda>_ w. (Inr (JObject []), w)), pe_test_accounts = (\<lambda>w. (Inr [], w)),
     pe_wait_for_node = (\<lambda>_ w. (Inr (), w)), pe_get_contract = (\<lambda>_ a w. (Inr (a = 7), w))\<rparr>"

definition demo_operator_vars :: "string \<rightharpoonup> string" where
  "demo_operator_vars = [''AZTEC_NODE_URL'' \<mapsto> ''n'', ''OPERATOR_SECRET_KEY'' \<mapsto> demo_hex (CHR ''1''),
     ''TOPUP_AUTOCLAIM_USE_OPERATOR_SECRET_KEY'' \<mapsto> ''1'']"

theorem preflight_checks_service_claimer_witness:
  "\<exists>m v. create_topup_auto_claimer (me_autoclaim demo_main_env []) ((me_penv demo_main_env)(''AZTEC_NODE_URL'' \<mapsto> ''n''))
     (Some ''production'') () = (Inr m, v) \<and> am_claimer_address m = 7"
proof -
  let ?vars = "(me_penv demo_main_env)(''AZTEC_NODE_URL'' \<mapsto> ''n'')" and ?ae = "me_autoclaim demo_main_env []"
  have vars: "sp_env (pe_platform (demo_preflight_env ?vars)) = ?vars" by (simp add: demo_preflight_env_def)
  have "preflight_main (demo_preflight_env ?vars) [] () = (Inr (Some (ClaimerPublished 7)), ())" by code_simp
  moreover have "\<not> Option.is_none (parse_optional_env (pe_platform (demo_preflight_env ?vars)) ''TOPUP_AUTOCLAIM_SECRET_KEY'')"
    by code_simp
  moreover have "same_accounts (demo_preflight_env ?vars) ?ae"
    by (simp add: same_accounts_def demo_preflight_env_def demo_main_env_def)
  moreover have "\<not> isl (fst (create_topup_auto_claimer ?ae ?vars (Some ''production'') ()))" by code_simp
  then obtain m v where "create_topup_auto_claimer ?ae ?vars (Some ''production'') () = (Inr m, v)"
    by (cases "create_topup_auto_claimer ?ae ?vars (Some ''production'') ()") (metis fst_conv isl_def sum.exhaust_sel)
  ultimately show ?thesis
    using preflight_checks_service_claimer [of "demo_preflight_env ?vars" "()" 7 "()" ?ae "Some ''production''" "()" m v]
    by (auto simp: vars Option.is_none_def)
qed

theorem preflight_passes_for_refused_service_witness:
  "isl (fst (create_topup_auto_claimer (me_autoclaim demo_main_env []) demo_operator_vars (Some ''production'') ()))"
proof -
  have vars: "sp_env (pe_platform (demo_preflight_env demo_operator_vars)) = demo_operator_vars" by (simp add: demo_preflight_env_def)
  have "preflight_main (demo_preflight_env demo_operator_vars) [] () = (Inr (Some (ClaimerPublished 7)), ())" by code_simp
  moreover have "parse_optional_env (pe_platform (demo_preflight_env demo_operator_vars)) ''TOPUP_AUTOCLAIM_SECRET_KEY'' = None"
    by code_simp
  ultimately show ?thesis using preflight_passes_for_refused_service [of "demo_preflight_env demo_operator_vars" "()" 7 "()" "me_autoclaim demo_main_env []"]
    by (simp add: vars)
qed

theorem preflight_skips_enabled_service_witness:
  "fst (preflight_main (demo_preflight_env [''TOPUP_AUTOCLAIM_ENABLED'' \<mapsto> ''false'']) [] ()) = Inr (Some SkippedDisabled) \<and>
   auto_claim_enabled [''TOPUP_AUTOCLAIM_ENABLED'' \<mapsto> ''false'']"
proof -
  let ?env = "demo_preflight_env [''TOPUP_AUTOCLAIM_ENABLED'' \<mapsto> ''false'']"
  have vars: "sp_env (pe_platform ?env) = [''TOPUP_AUTOCLAIM_ENABLED'' \<mapsto> ''false'']" by (simp add: demo_preflight_env_def)
  have "\<not> isl (fst (preflight_main ?env [] ()))" by code_simp
  then obtain out w' where run: "preflight_main ?env [] () = (Inr out, w')"
    by (cases "preflight_main ?env [] ()") (metis fst_conv isl_def sum.exhaust_sel)
  have "js_lower (js_trim ''false'') \<in> set FALSE_ENV_VALUES" by code_simp
  from preflight_skips_enabled_service [OF run _ this] run show ?thesis by (simp add: vars)
qed

theorem bootstrap_and_preflight_agree_witness:
  "fst (resolve_claimer (demo_preflight_env demo_operator_vars) None True 0 ()) = Inr (7, ClaimerSecretKey)"
proof -
  let ?penv = "demo_preflight_env demo_operator_vars"
  let ?benv = "demo_bootstrap_env\<lparr>be_platform := pe_platform ?penv, be_lib := pe_lib ?penv\<rparr>"
  have b: "\<not> isl (parse_bootstrap_args (pe_platform ?penv) [])" "parse_bootstrap_args (pe_platform ?penv) [] \<noteq> Inr None"
    by code_simp+
  then obtain bargs where bargs: "parse_bootstrap_args (pe_platform ?penv) [] = Inr (Some bargs)"
    by (cases "parse_bootstrap_args (pe_platform ?penv) []") auto
  have "case parse_preflight_args (pe_platform ?penv) [] of Inr (Some a) \<Rightarrow>
      pf_secret_key a = None \<and> pf_use_operator_secret_key a = Some True | _ \<Rightarrow> False" by code_simp
  then obtain pargs where pargs: "parse_preflight_args (pe_platform ?penv) [] = Inr (Some pargs)"
    "pf_secret_key pargs = None" "pf_use_operator_secret_key pargs = Some True"
    by (cases "parse_preflight_args (pe_platform ?penv) []") (auto split: option.splits)
  have "case resolve_bootstrap ?benv (case parse_bootstrap_args (pe_platform ?penv) [] of Inr (Some a) \<Rightarrow> a) (JObject []) False of
      Inr bi \<Rightarrow> bi_claimer bi = 7 | _ \<Rightarrow> False" by code_simp
  then obtain bi where bi: "resolve_bootstrap ?benv bargs (JObject []) False = Inr bi" "bi_claimer bi = 7"
    by (cases "resolve_bootstrap ?benv bargs (JObject []) False") (simp_all add: bargs)
  have "be_account_address ?benv = pe_account_address ?penv" by (simp add: demo_bootstrap_env_def demo_preflight_env_def)
  with bootstrap_and_preflight_agree [OF bargs pargs(1) bi(1), of ?penv 0 "()"] pargs(2,3) bi(2) show ?thesis by simp
qed

end
