(* ===== verification/Deploy_Test_Token.thy ===== *)
theory Deploy_Test_Token
  imports Deploy_Cli
begin

text \<open>
  The deployment of a test token, \<open>contract-deployment/src/test-token.ts\<close>: an ERC20 and its
  portal on L1, the bridge, the token, a counter and a faucet on L2, and the deposit that funds
  the faucet. The L1 client, the contract bindings and the portal manager are fields of
  \<open>test_token_env\<close>; a contract to deploy is the value of its constructor's arguments. The state is
  the files and the outside world.
\<close>

section \<open>The faucet's configuration\<close>

definition parse_env_positive_number :: "(string \<Rightarrow> string option) \<Rightarrow> string \<Rightarrow> int \<Rightarrow> thrown + int" where
  "parse_env_positive_number penv name fallback =
     (let raw = penv name in
      if \<not> is_set raw then Inr fallback
      else let n = js_Number (the raw) in
        if \<not> is_integer n \<or> number_value n \<le> 0
        then Inl (error (''Invalid '' @ name @ ''='' @ the raw @ ''. Expected a positive integer value.''))
        else Inr (number_value n))"

text \<open>\<open>BigInt\<close> of a text that matches one of the two patterns.\<close>

definition bigint_of :: "string \<Rightarrow> int" where
  "bigint_of s = (if uint_decimal s then dec_value s else floor (the (parse_radix 16 (drop 2 s))))"

definition parse_env_positive_bigint :: "(string \<Rightarrow> string option) \<Rightarrow> string \<Rightarrow> int \<Rightarrow> thrown + int" where
  "parse_env_positive_bigint penv name fallback =
     (let raw = penv name in
      if \<not> is_set raw then Inr fallback
      else let t = js_trim (the raw) in
        if \<not> uint_decimal t \<and> \<not> hex_literal t
        then Inl (error (''Invalid '' @ name @ ''='' @ the raw @ ''. Expected a positive integer value.''))
        else if bigint_of t \<le> 0 then Inl (error (''Invalid '' @ name @ ''='' @ the raw @ ''. Must be positive.''))
        else Inr (bigint_of t))"

record faucet_env_config =
  fe_drip_amount :: int
  fe_cooldown_seconds :: int
  fe_initial_supply :: int

definition parse_cooldown :: "string option \<Rightarrow> thrown + int" where
  "parse_cooldown raw =
     (if \<not> is_set raw then Inr 0
      else let n = js_Number (js_trim (the raw)) in
        if \<not> is_integer n \<or> number_value n < 0
        then Inl (error (''FPC_FAUCET_COOLDOWN_SECONDS must be a non-negative integer, got '' @ the raw))
        else Inr (number_value n))"

definition read_faucet_env_config :: "(string \<Rightarrow> string option) \<Rightarrow> thrown + faucet_env_config" where
  "read_faucet_env_config penv =
     and_then (parse_env_positive_bigint penv ''FPC_FAUCET_DRIP_AMOUNT'' 1000000000000000000) (\<lambda>drip.
     and_then (parse_cooldown (penv ''FPC_FAUCET_COOLDOWN_SECONDS'')) (\<lambda>cooldown.
     and_then (if is_set (penv ''FPC_FAUCET_INITIAL_SUPPLY'')
       then parse_env_positive_bigint penv ''FPC_FAUCET_INITIAL_SUPPLY'' 0 else Inr (drip * 100)) (\<lambda>supply.
     Inr \<lparr>fe_drip_amount = drip, fe_cooldown_seconds = cooldown, fe_initial_supply = supply\<rparr>)))"

section \<open>The outside world\<close>

text \<open>Contracts to deploy and calls to send, with their arguments in the order of the code.\<close>

datatype l2_contract =
    TokenBridge
  | Token (l2_name: string) (l2_symbol: string) (l2_decimals: int) (l2_minter: int)
  | Faucet (l2_token: int) (l2_owner: int) (l2_drip: int) (l2_cooldown: int)
  | Counter int (l2_owner: int)

datatype l2_call =
    SetConfig (sc_bridge: int) (sc_token: int) (sc_portal: int)
  | ClaimPublic (cp_bridge: int) (cp_to: int) (cp_amount: int) (cp_secret: int) (cp_leaf: int)

datatype l1_contract = TestErc20 string string string | TokenPortal

datatype l1_call =
    InitializePortal (ip_portal: string) (ip_registry: string) (ip_erc20: string) (ip_bridge: string)
  | MintErc20 (me_erc20: string) (me_to: string) (me_amount: int)

record token_claim =
  tc_claim_amount :: int
  tc_claim_secret :: int
  tc_message_leaf_index :: int
  tc_message_hash :: string

record 'w test_token_env =
  te_manifest_lib :: manifest_lib
  te_penv :: "string \<Rightarrow> string option"
  te_l1_client :: "string \<Rightarrow> string \<Rightarrow> int \<Rightarrow> thrown + string"
  te_get_instance :: "l2_contract \<Rightarrow> ('w, int) ioe"
  te_deployment :: "l2_contract \<Rightarrow> ('w, l2_call) contract_deployment"
  te_deploy_l1 :: "l1_contract \<Rightarrow> ('w, string) ioe"
  te_l1_receipt :: "string \<Rightarrow> ('w, string option) ioe"
  te_write_l1 :: "l1_call \<Rightarrow> ('w, string) ioe"
  te_bridge_tokens_public :: "int \<Rightarrow> int \<Rightarrow> int \<Rightarrow> int \<Rightarrow> ('w, token_claim) ioe"
  te_wait_message :: "int \<Rightarrow> int \<Rightarrow> ('w, unit) ioe"
  te_now_iso :: "'w \<Rightarrow> string"
  te_sleep :: "int \<Rightarrow> 'w \<Rightarrow> 'w"

text \<open>
  \<open>te_l1_client\<close> returns the account of the key, \<open>te_bridge_tokens_public\<close> takes the portal, the
  ERC20, the recipient and the amount.
\<close>

record test_token_deps =
  td_l1_deployer_key :: string
  td_l1_rpc_url :: string
  td_l1_chain_id :: int
  td_l1_registry_address :: string
  td_operator_address :: int
  td_deploy_opts :: deploy_options

record test_token_params =
  tt_name :: string
  tt_symbol :: string
  tt_decimals :: int
  tt_out_path :: string

record 'w token_state =
  ts_files :: files
  ts_world :: 'w

definition outer :: "('w, 'a) ioe \<Rightarrow> ('w token_state, 'a) ioe" where
  "outer f s = (case f (ts_world s) of (r, w) \<Rightarrow> (r, s\<lparr>ts_world := w\<rparr>))"

section \<open>The phases\<close>

text \<open>Phase 0: the addresses of the L2 contracts before they are deployed.\<close>

record token_plan =
  pl_bridge :: int
  pl_token :: int
  pl_faucet :: int
  pl_counter :: int
  pl_faucet_config :: faucet_env_config

definition token_request :: "test_token_params \<Rightarrow> int \<Rightarrow> l2_contract" where
  "token_request params bridge = Token (tt_name params) (tt_symbol params) (tt_decimals params) bridge"

definition faucet_request :: "test_token_deps \<Rightarrow> int \<Rightarrow> faucet_env_config \<Rightarrow> l2_contract" where
  "faucet_request deps token fc = Faucet token (td_operator_address deps) (fe_drip_amount fc) (fe_cooldown_seconds fc)"

definition counter_request :: "test_token_deps \<Rightarrow> l2_contract" where
  "counter_request deps = Counter 0 (td_operator_address deps)"

definition precompute_addresses ::
    "'w test_token_env \<Rightarrow> test_token_deps \<Rightarrow> test_token_params \<Rightarrow> ('w, token_plan) ioe" where
  "precompute_addresses env deps params =
     bind_io (te_get_instance env TokenBridge) (\<lambda>bridge.
     bind_io (te_get_instance env (token_request params bridge)) (\<lambda>token.
     bind_io (from_pure (read_faucet_env_config (te_penv env))) (\<lambda>fc.
     bind_io (te_get_instance env (faucet_request deps token fc)) (\<lambda>faucet.
     bind_io (te_get_instance env (counter_request deps)) (\<lambda>counter.
     return_io \<lparr>pl_bridge = bridge, pl_token = token, pl_faucet = faucet, pl_counter = counter, pl_faucet_config = fc\<rparr>)))))"

text \<open>Phase 1: the L1 contracts and the deposit.\<close>

record l1_side =
  ls_erc20_hash :: string
  ls_erc20 :: string
  ls_portal_hash :: string
  ls_portal :: string
  ls_claim :: token_claim

definition deploy_on_l1 :: "'w test_token_env \<Rightarrow> l1_contract \<Rightarrow> string \<Rightarrow> ('w, string \<times> string) ioe" where
  "deploy_on_l1 env c label =
     bind_io (te_deploy_l1 env c) (\<lambda>hash.
     bind_io (te_l1_receipt env hash) (\<lambda>address.
     if \<not> is_set address
     then throw_io (error (''L1 '' @ label @ '' deployment failed: no contract address in receipt''))
     else return_io (hash, the address)))"

definition write_on_l1 :: "'w test_token_env \<Rightarrow> l1_call \<Rightarrow> ('w, unit) ioe" where
  "write_on_l1 env c = bind_io (te_write_l1 env c) (\<lambda>hash. bind_io (te_l1_receipt env hash) (\<lambda>_. return_io ()))"

definition deploy_l1_side ::
    "'w test_token_env \<Rightarrow> test_token_deps \<Rightarrow> test_token_params \<Rightarrow> string \<Rightarrow> token_plan \<Rightarrow> ('w, l1_side) ioe" where
  "deploy_l1_side env deps params account plan =
     (let m = te_manifest_lib env; supply = fe_initial_supply (pl_faucet_config plan) in
      bind_io (deploy_on_l1 env (TestErc20 (tt_name params) (tt_symbol params) account) ''TestERC20'') (\<lambda>(erc20_hash, erc20).
      bind_io (deploy_on_l1 env TokenPortal ''TokenPortal'') (\<lambda>(portal_hash, portal).
      bind_io (write_on_l1 env (InitializePortal portal (td_l1_registry_address deps) erc20
        (address_to_string (ml_lib m) (pl_bridge plan)))) (\<lambda>_.
      bind_io (write_on_l1 env (MintErc20 erc20 account supply)) (\<lambda>_.
      bind_io (from_pure (ml_eth_from_string m portal)) (\<lambda>portal_address.
      bind_io (from_pure (ml_eth_from_string m erc20)) (\<lambda>erc20_address.
      bind_io (te_bridge_tokens_public env portal_address erc20_address (pl_faucet plan) supply) (\<lambda>claim.
      return_io \<lparr>ls_erc20_hash = erc20_hash, ls_erc20 = erc20, ls_portal_hash = portal_hash, ls_portal = portal,
        ls_claim = claim\<rparr>))))))))"

text \<open>Phases 2 to 6: the L2 contracts; the faucet is deployed together with the claim of the deposit.\<close>

record l2_side =
  l2s_bridge_hash :: string
  l2s_token_hash :: string
  l2s_counter_hash :: string
  l2s_faucet_hash :: string

definition deploy_on_l2 ::
    "'w test_token_env \<Rightarrow> test_token_deps \<Rightarrow> l2_contract \<Rightarrow> l2_call list \<Rightarrow> ('w, string) ioe" where
  "deploy_on_l2 env deps c calls = deploy_contract (te_deployment env c) (te_sleep env) (td_deploy_opts deps) calls"

definition wait_for_deposit :: "'w test_token_env \<Rightarrow> token_claim \<Rightarrow> ('w, unit) ioe" where
  "wait_for_deposit env claim =
     bind_io (from_pure (fr_from_hex (ml_lib (te_manifest_lib env)) (tc_message_hash claim))) (\<lambda>hash.
     bind_io (from_pure (parse_env_positive_number (te_penv env) ''FPC_BRIDGE_TIMEOUT_SECONDS'' 120)) (\<lambda>timeout.
     te_wait_message env hash timeout))"

definition deploy_l2_side ::
    "'w test_token_env \<Rightarrow> test_token_deps \<Rightarrow> test_token_params \<Rightarrow> token_plan \<Rightarrow> l1_side \<Rightarrow> ('w, l2_side) ioe" where
  "deploy_l2_side env deps params plan l1 =
     (let m = te_manifest_lib env; claim = ls_claim l1 in
      bind_io (from_pure (ml_eth_from_string m (ls_portal l1))) (\<lambda>portal_address.
      bind_io (deploy_on_l2 env deps TokenBridge [SetConfig (pl_bridge plan) (pl_token plan) portal_address]) (\<lambda>bridge_hash.
      bind_io (deploy_on_l2 env deps (token_request params (pl_bridge plan)) []) (\<lambda>token_hash.
      bind_io (deploy_on_l2 env deps (counter_request deps) []) (\<lambda>counter_hash.
      bind_io (wait_for_deposit env claim) (\<lambda>_.
      bind_io (deploy_on_l2 env deps (faucet_request deps (pl_token plan) (pl_faucet_config plan))
        [ClaimPublic (pl_bridge plan) (pl_faucet plan) (tc_claim_amount claim) (tc_claim_secret claim)
           (tc_message_leaf_index claim)]) (\<lambda>faucet_hash.
      return_io \<lparr>l2s_bridge_hash = bridge_hash, l2s_token_hash = token_hash, l2s_counter_hash = counter_hash,
        l2s_faucet_hash = faucet_hash\<rparr>)))))))"

definition test_token_manifest_of ::
    "'w test_token_env \<Rightarrow> token_plan \<Rightarrow> l1_side \<Rightarrow> l2_side \<Rightarrow> 'w \<Rightarrow> thrown + test_token_manifest" where
  "test_token_manifest_of env plan l1 l2 w =
     (let m = te_manifest_lib env; fc = pl_faucet_config plan in
      and_then (ml_eth_from_string m (ls_portal l1)) (\<lambda>portal.
      and_then (ml_eth_from_string m (ls_erc20 l1)) (\<lambda>erc20.
      Inr \<lparr>tm_generated_at = te_now_iso env w,
        tm_contracts = \<lparr>tk_token = pl_token plan, tk_faucet = pl_faucet plan, tk_counter = pl_counter plan, tk_bridge = pl_bridge plan\<rparr>,
        tm_token_portal = portal, tm_erc20 = erc20,
        tm_faucet_config = \<lparr>fm_drip_amount = bigint_string (fe_drip_amount fc), fm_cooldown_seconds = fe_cooldown_seconds fc,
          fm_initial_supply = bigint_string (fe_initial_supply fc)\<rparr>,
        tm_tx_hashes = \<lparr>th_token_deploy = l2s_token_hash l2, th_bridge_deploy = l2s_bridge_hash l2,
          th_counter_deploy = l2s_counter_hash l2, th_faucet_deploy = l2s_faucet_hash l2,
          th_l1_erc20_deploy = ls_erc20_hash l1, th_l1_token_portal_deploy = ls_portal_hash l1\<rparr>\<rparr>)))"

definition deploy_test_token ::
    "'w test_token_env \<Rightarrow> test_token_deps \<Rightarrow> test_token_params \<Rightarrow> ('w token_state, test_token_manifest) ioe" where
  "deploy_test_token env deps params =
     bind_io (from_pure (te_l1_client env (td_l1_rpc_url deps) (td_l1_deployer_key deps) (td_l1_chain_id deps))) (\<lambda>account.
     bind_io (outer (precompute_addresses env deps params)) (\<lambda>plan.
     bind_io (outer (deploy_l1_side env deps params account plan)) (\<lambda>l1.
     bind_io (outer (deploy_l2_side env deps params plan l1)) (\<lambda>l2.
     bind_io (\<lambda>s. (test_token_manifest_of env plan l1 l2 (ts_world s), s)) (\<lambda>d s.
     (Inr d, s\<lparr>ts_files := write_test_token_manifest (te_manifest_lib env) (tt_out_path params) d (ts_files s)\<rparr>))))))"

section \<open>Facts\<close>

lemma positive_bigint_Inr:
  "parse_env_positive_bigint penv name fallback = Inr n \<Longrightarrow> is_set (penv name) \<Longrightarrow> 0 < n"
  by (auto simp: parse_env_positive_bigint_def Let_def split: if_splits)

text \<open>
  The faucet's configuration is usable: a drip and a supply of at least one unit, a cooldown
  that is not negative, and a supply for a hundred drips unless the environment sets it.
\<close>

theorem faucet_config_wf:
  assumes "read_faucet_env_config penv = Inr fc"
  shows "0 < fe_drip_amount fc \<and> 0 \<le> fe_cooldown_seconds fc \<and> 0 < fe_initial_supply fc \<and>
    (\<not> is_set (penv ''FPC_FAUCET_INITIAL_SUPPLY'') \<longrightarrow> fe_initial_supply fc = 100 * fe_drip_amount fc)"
proof -
  from assms obtain drip cooldown amount where
    drip: "parse_env_positive_bigint penv ''FPC_FAUCET_DRIP_AMOUNT'' 1000000000000000000 = Inr drip"
    and cooldown: "parse_cooldown (penv ''FPC_FAUCET_COOLDOWN_SECONDS'') = Inr cooldown"
    and amount: "(if is_set (penv ''FPC_FAUCET_INITIAL_SUPPLY'')
       then parse_env_positive_bigint penv ''FPC_FAUCET_INITIAL_SUPPLY'' 0 else Inr (drip * 100)) = Inr amount"
    and fc: "fc = \<lparr>fe_drip_amount = drip, fe_cooldown_seconds = cooldown, fe_initial_supply = amount\<rparr>"
    unfolding read_faucet_env_config_def and_then_Inr_iff by auto
  have "0 < drip"
    using positive_bigint_Inr [OF drip] drip by (cases "is_set (penv ''FPC_FAUCET_DRIP_AMOUNT'')") (auto simp: parse_env_positive_bigint_def)
  moreover have "0 \<le> cooldown"
    using cooldown by (auto simp: parse_cooldown_def Let_def split: if_splits)
  ultimately show ?thesis
    using amount positive_bigint_Inr [of penv "''FPC_FAUCET_INITIAL_SUPPLY''" 0 amount] by (auto simp: fc split: if_splits)
qed

text \<open>A call has returned \<open>x\<close>.\<close>

definition returned :: "('w, 'a) ioe \<Rightarrow> 'a \<Rightarrow> bool" where
  "returned f x \<longleftrightarrow> (\<exists>v v'. f v = (Inr x, v'))"

lemma returnedI: "f v = (Inr x, v') \<Longrightarrow> returned f x"
  by (auto simp: returned_def)

lemma outer_Inr: "outer f s = (Inr x, s') \<longleftrightarrow> (\<exists>w. f (ts_world s) = (Inr x, w) \<and> s' = s\<lparr>ts_world := w\<rparr>)"
  by (auto simp: outer_def split: prod.splits)

lemma outer_files: "outer f s = (r, s') \<Longrightarrow> ts_files s' = ts_files s"
  by (auto simp: outer_def split: prod.splits)

lemma precompute_addresses_Inr:
  assumes "precompute_addresses env deps params w = (Inr plan, w')"
  shows "read_faucet_env_config (te_penv env) = Inr (pl_faucet_config plan) \<and>
    returned (te_get_instance env TokenBridge) (pl_bridge plan) \<and>
    returned (te_get_instance env (token_request params (pl_bridge plan))) (pl_token plan) \<and>
    returned (te_get_instance env (faucet_request deps (pl_token plan) (pl_faucet_config plan))) (pl_faucet plan) \<and>
    returned (te_get_instance env (counter_request deps)) (pl_counter plan)"
  using assms by (auto simp: precompute_addresses_def io_Inr_iff intro: returnedI)

text \<open>What phase 1 has done: the portal holds the ERC20 and the bridge, and the deposit goes to the faucet.\<close>

lemma deploy_l1_side_Inr:
  assumes "deploy_l1_side env deps params account plan w = (Inr l1, w')"
  obtains portal erc20 where "ml_eth_from_string (te_manifest_lib env) (ls_portal l1) = Inr portal"
    "ml_eth_from_string (te_manifest_lib env) (ls_erc20 l1) = Inr erc20"
    "returned (write_on_l1 env (InitializePortal (ls_portal l1) (td_l1_registry_address deps) (ls_erc20 l1)
        (address_to_string (ml_lib (te_manifest_lib env)) (pl_bridge plan)))) ()"
    "returned (te_bridge_tokens_public env portal erc20 (pl_faucet plan) (fe_initial_supply (pl_faucet_config plan))) (ls_claim l1)"
  using assms by (clarsimp simp: deploy_l1_side_def Let_def io_Inr_iff, blast intro: returnedI)

lemma deploy_l2_side_Inr:
  assumes "deploy_l2_side env deps params plan l1 w = (Inr l2, w')"
  obtains portal where "ml_eth_from_string (te_manifest_lib env) (ls_portal l1) = Inr portal"
    "returned (deploy_on_l2 env deps TokenBridge [SetConfig (pl_bridge plan) (pl_token plan) portal]) (l2s_bridge_hash l2)"
    "returned (deploy_on_l2 env deps (token_request params (pl_bridge plan)) []) (l2s_token_hash l2)"
    "returned (deploy_on_l2 env deps (counter_request deps) []) (l2s_counter_hash l2)"
    "returned (wait_for_deposit env (ls_claim l1)) ()"
    "returned (deploy_on_l2 env deps (faucet_request deps (pl_token plan) (pl_faucet_config plan))
      [ClaimPublic (pl_bridge plan) (pl_faucet plan) (tc_claim_amount (ls_claim l1)) (tc_claim_secret (ls_claim l1))
         (tc_message_leaf_index (ls_claim l1))]) (l2s_faucet_hash l2)"
  using assms by (clarsimp simp: deploy_l2_side_def Let_def io_Inr_iff, blast intro: returnedI)

lemma deploy_test_token_Inr:
  assumes "deploy_test_token env deps params s = (Inr d, s')"
  obtains account plan l1 l2 w1 w2 w3
  where "te_l1_client env (td_l1_rpc_url deps) (td_l1_deployer_key deps) (td_l1_chain_id deps) = Inr account"
    "precompute_addresses env deps params (ts_world s) = (Inr plan, w1)"
    "deploy_l1_side env deps params account plan w1 = (Inr l1, w2)"
    "deploy_l2_side env deps params plan l1 w2 = (Inr l2, w3)"
    "test_token_manifest_of env plan l1 l2 w3 = Inr d"
    "s' = s\<lparr>ts_world := w3, ts_files := write_test_token_manifest (te_manifest_lib env) (tt_out_path params) d (ts_files s)\<rparr>"
  using assms by (auto simp: deploy_test_token_def io_Inr_iff outer_Inr)


text \<open>
  A run that fails writes no manifest, and an invalid \<open>FPC_BRIDGE_TIMEOUT_SECONDS\<close> is such a
  failure although it is known from the start: it is only read after the deposit was made and the
  bridge, the token and the counter were deployed, so that nothing records the deposit.
\<close>

theorem late_timeout_strands_deposit:
  assumes timeout: "parse_env_positive_number (te_penv env) ''FPC_BRIDGE_TIMEOUT_SECONDS'' 120 = Inl e"
    and client: "te_l1_client env (td_l1_rpc_url deps) (td_l1_deployer_key deps) (td_l1_chain_id deps) = Inr account"
    and plan: "precompute_addresses env deps params (ts_world s) = (Inr plan, w1)"
    and l1: "deploy_l1_side env deps params account plan w1 = (Inr l1, w2)"
  shows "\<exists>e' w3. deploy_test_token env deps params s = (Inl e', s\<lparr>ts_world := w3\<rparr>) \<and>
    deploy_l2_side env deps params plan l1 w2 = (Inl e', w3)"
proof -
  have "\<not> (\<exists>l2 w. deploy_l2_side env deps params plan l1 w2 = (Inr l2, w))"
    using timeout by (auto elim!: deploy_l2_side_Inr simp: wait_for_deposit_def returned_def io_Inr_iff)
  then obtain e' w3 where "deploy_l2_side env deps params plan l1 w2 = (Inl e', w3)"
    by (metis sum.exhaust surj_pair)
  with client plan l1 show ?thesis
    by (simp add: deploy_test_token_def outer_def bind_io_def)
qed

section \<open>Examples\<close>

text \<open>A run whose world is the list of the deposits made.\<close>

definition demo_token_env :: "(string \<rightharpoonup> string) \<Rightarrow> (int \<times> int) list test_token_env" where
  "demo_token_env vars = \<lparr>
     te_manifest_lib = demo_manifest_lib\<lparr>ml_lib := demo_lib, ml_eth_from_string := (\<lambda>s. if s = ''0xe'' then Inr 14 else Inr 15)\<rparr>,
     te_penv = vars, te_l1_client = (\<lambda>_ _ _. Inr ''me''),
     te_get_instance = (\<lambda>c w. (Inr (case c of TokenBridge \<Rightarrow> 1 | Token _ _ _ _ \<Rightarrow> 2 | Faucet _ _ _ _ \<Rightarrow> 3 | Counter _ _ \<Rightarrow> 4), w)),
     te_deployment = (\<lambda>_. \<lparr>cd_class_id = (\<lambda>w. (Inr 9, w)), cd_publicly_registered = (\<lambda>_ w. (Inr True, w)),
       cd_send = (\<lambda>_ w. (Inr ''sent'', w)), cd_send_batch = (\<lambda>_ _ w. (Inr ''batch'', w))\<rparr>),
     te_deploy_l1 = (\<lambda>c w. (Inr (case c of TokenPortal \<Rightarrow> ''p'' | TestErc20 _ _ _ \<Rightarrow> ''e''), w)),
     te_l1_receipt = (\<lambda>h w. (Inr (Some (''0x'' @ h)), w)), te_write_l1 = (\<lambda>_ w. (Inr ''w'', w)),
     te_bridge_tokens_public = (\<lambda>_ _ to amount w. (Inr \<lparr>tc_claim_amount = amount, tc_claim_secret = 6, tc_message_leaf_index = 0,
        tc_message_hash = ''5''\<rparr>, w @ [(to, amount)])),
     te_wait_message = (\<lambda>_ _ w. (Inr (), w)), te_now_iso = (\<lambda>_. ''now''), te_sleep = (\<lambda>_ w. w)\<rparr>"

definition demo_token_deps :: test_token_deps where
  "demo_token_deps = \<lparr>td_l1_deployer_key = ''k'', td_l1_rpc_url = ''l1'', td_l1_chain_id = 31, td_l1_registry_address = ''r'',
     td_operator_address = 8, td_deploy_opts = \<lparr>do_from = 8, do_sponsor = None, do_skip_class_publication = False\<rparr>\<rparr>"

definition demo_token_params :: test_token_params where
  "demo_token_params = \<lparr>tt_name = ''Test'', tt_symbol = ''T'', tt_decimals = 18, tt_out_path = ''t.json''\<rparr>"

definition demo_token_state :: "(int \<times> int) list token_state" where
  "demo_token_state = \<lparr>ts_files = Map.empty, ts_world = []\<rparr>"

definition demo_token_vars :: "string \<rightharpoonup> string" where
  "demo_token_vars = [''FPC_FAUCET_DRIP_AMOUNT'' \<mapsto> ''2'']"


theorem late_timeout_strands_deposit_witness:
  "\<exists>e s'. deploy_test_token (demo_token_env (demo_token_vars(''FPC_BRIDGE_TIMEOUT_SECONDS'' \<mapsto> ''2 min''))) demo_token_deps demo_token_params
     demo_token_state = (Inl e, s') \<and> ts_files s' = Map.empty"
proof -
  let ?env = "demo_token_env (demo_token_vars(''FPC_BRIDGE_TIMEOUT_SECONDS'' \<mapsto> ''2 min''))"
  have "isl (parse_env_positive_number (te_penv ?env) ''FPC_BRIDGE_TIMEOUT_SECONDS'' 120)" by code_simp
  then obtain e where e: "parse_env_positive_number (te_penv ?env) ''FPC_BRIDGE_TIMEOUT_SECONDS'' 120 = Inl e" by (auto simp: isl_def)
  have client: "te_l1_client ?env (td_l1_rpc_url demo_token_deps) (td_l1_deployer_key demo_token_deps) (td_l1_chain_id demo_token_deps)
    = Inr ''me''" by (simp add: demo_token_env_def)
  have "case precompute_addresses ?env demo_token_deps demo_token_params [] of (Inl _, _) \<Rightarrow> False
    | (Inr plan, w) \<Rightarrow> \<not> isl (fst (deploy_l1_side ?env demo_token_deps demo_token_params ''me'' plan w))" by code_simp
  then obtain plan w1 where plan: "precompute_addresses ?env demo_token_deps demo_token_params (ts_world demo_token_state) = (Inr plan, w1)"
    and ok: "\<not> isl (fst (deploy_l1_side ?env demo_token_deps demo_token_params ''me'' plan w1))"
    by (auto simp: demo_token_state_def split: prod.splits sum.splits)
  from ok obtain l1 w2 where l1: "deploy_l1_side ?env demo_token_deps demo_token_params ''me'' plan w1 = (Inr l1, w2)"
    by (cases "deploy_l1_side ?env demo_token_deps demo_token_params ''me'' plan w1") (metis fst_conv isl_def sum.exhaust_sel)
  from late_timeout_strands_deposit [OF e client plan l1] show ?thesis by (auto simp: demo_token_state_def)
qed

theorem faucet_config_wf_witness:
  "\<exists>fc. read_faucet_env_config [''FPC_FAUCET_DRIP_AMOUNT'' \<mapsto> ''0x10''] = Inr fc \<and> fe_initial_supply fc = 1600"
proof -
  have run: "read_faucet_env_config [''FPC_FAUCET_DRIP_AMOUNT'' \<mapsto> ''0x10''] =
    Inr \<lparr>fe_drip_amount = 16, fe_cooldown_seconds = 0, fe_initial_supply = 1600\<rparr>" by code_simp
  from faucet_config_wf [OF run] run show ?thesis by simp
qed

end
