(* ===== verification/Configure_Token.thy ===== *)
theory Configure_Token
  imports Deploy_Test_Token Attest_Schemas
begin

text \<open>
  The tool that prepares the tokens of the master configuration,
  \<open>contract-deployment/src/configure-token.ts\<close>: it validates the section \<open>tokens\<close>, deploys a test
  token for every entry without an address, waits until the attestation service is healthy and
  registers every token with the admin API.

  Fetch, the clock, the node and the wallet are fields of \<open>configure_env\<close>. A number that is not
  finite stands for NaN. The dash in the message of \<open>fee_bips\<close> is written as a hyphen. The HTTP
  wait has no bound of its own when the clock stands still, so it is a partial function.
\<close>

section \<open>The configuration\<close>

record token_config =
  tf_name :: string
  tf_symbol :: string
  tf_decimals :: int
  tf_address :: "int option"
  tf_market_rate_num :: rat
  tf_market_rate_den :: rat
  tf_fee_bips :: int

text \<open>An issue is printed with the path of its field.\<close>

definition at_path :: "string \<Rightarrow> thrown + (string list + 'a) \<Rightarrow> thrown + (string list + 'a)" where
  "at_path path r = map_sum id (map_sum (map (\<lambda>m. path @ '': '' @ m)) id) r"

definition min_text :: "string \<Rightarrow> string tschema" where
  "min_text msg = t_string (\<lambda>s. Inr (if s = [] then Inl [msg] else Inr s))"

definition number_or :: "(rat \<Rightarrow> string list) \<Rightarrow> rat tschema" where
  "number_or check v = Inr (case v of
     JNum (Finite q) \<Rightarrow> if check q = [] then Inr q else Inl (check q)
   | JNum NotFinite \<Rightarrow> Inl [''Expected number, received nan'']
   | _ \<Rightarrow> Inl (expected ''number'' v))"

definition int_issues :: "int \<Rightarrow> int \<Rightarrow> string \<Rightarrow> rat \<Rightarrow> string list" where
  "int_issues lo hi hi_message q =
     (if is_integer (Finite q) then [] else [''Expected integer, received float'']) @
     (if q < of_int lo then [''Number must be greater than or equal to '' @ bigint_string lo] else []) @
     (if of_int hi < q then [hi_message] else [])"

definition int_between :: "int \<Rightarrow> int \<Rightarrow> string \<Rightarrow> int tschema" where
  "int_between lo hi hi_message v = map_sum id (map_sum id floor) (number_or (int_issues lo hi hi_message) v)"

definition positive_number :: "string \<Rightarrow> rat tschema" where
  "positive_number msg = number_or (\<lambda>q. if q \<le> 0 then [msg] else [])"

definition decimals_field :: "int tschema" where
  "decimals_field v = (if v = JUndefined then Inr (Inr 18)
     else int_between 0 77 ''Number must be less than or equal to 77'' v)"

definition token_config_schema :: "manifest_lib \<Rightarrow> string \<Rightarrow> token_config tschema" where
  "token_config_schema m path v = (case v of
     JObject _ \<Rightarrow>
       (let fld = (\<lambda>k. path @ ''.'' @ k);
            n = at_path (fld ''name'') (min_text ''token name must be non-empty'' (jfield ''name'' v));
            s = at_path (fld ''symbol'') (min_text ''token symbol must be non-empty'' (jfield ''symbol'' v));
            d = at_path (fld ''decimals'') (decimals_field (jfield ''decimals'' v));
            a = at_path (fld ''address'') (t_optional (aztec_address m) (jfield ''address'' v));
            rn = at_path (fld ''market_rate_num'') (positive_number ''market_rate_num must be positive'' (jfield ''market_rate_num'' v));
            rd = at_path (fld ''market_rate_den'') (positive_number ''market_rate_den must be positive'' (jfield ''market_rate_den'' v));
            fb = at_path (fld ''fee_bips'') (int_between 0 10000 ''fee_bips must be 0-10000'' (jfield ''fee_bips'' v))
        in t_object v [issues_of n, issues_of s, issues_of d, issues_of a, issues_of rn, issues_of rd, issues_of fb]
             \<lparr>tf_name = val n, tf_symbol = val s, tf_decimals = val d, tf_address = val a,
              tf_market_rate_num = val rn, tf_market_rate_den = val rd, tf_fee_bips = val fb\<rparr>)
   | _ \<Rightarrow> at_path path (Inr (Inl (expected ''object'' v))))"

text \<open>The elements of the array; all their issues are reported, the first that throws ends the parse.\<close>

fun t_elements :: "(nat \<Rightarrow> 'a tschema) \<Rightarrow> nat \<Rightarrow> jsval list \<Rightarrow> thrown + (string list + 'a list)" where
  "t_elements p i [] = Inr (Inr [])"
| "t_elements p i (v # vs) =
     and_then (p i v) (\<lambda>r. and_then (t_elements p (Suc i) vs) (\<lambda>rs.
     Inr (case (r, rs) of (Inr x, Inr xs) \<Rightarrow> Inr (x # xs) | _ \<Rightarrow> Inl (issues r @ issues rs))))"

definition tokens_schema :: "manifest_lib \<Rightarrow> token_config list tschema" where
  "tokens_schema m v = (case v of
     JArray [] \<Rightarrow> at_path ''tokens'' (Inr (Inl [''at least one token is required'']))
   | JArray vs \<Rightarrow> t_elements (\<lambda>i. token_config_schema m (''tokens.'' @ dec_nat i)) 0 vs
   | _ \<Rightarrow> at_path ''tokens'' (Inr (Inl (expected ''array'' v))))"

definition master_config_tokens_schema :: "manifest_lib \<Rightarrow> token_config list tschema" where
  "master_config_tokens_schema m v = (case v of
     JObject _ \<Rightarrow> tokens_schema m (jfield ''tokens'' v)
   | _ \<Rightarrow> at_path [] (Inr (Inl (expected ''object'' v))))"

fun join_lines :: "string list \<Rightarrow> string" where
  "join_lines [] = []"
| "join_lines [s] = s"
| "join_lines (s # ss) = s @ [CHR 0x0A] @ join_lines ss"

definition parse_token_configs :: "manifest_lib \<Rightarrow> string \<Rightarrow> jsval \<Rightarrow> thrown + token_config list" where
  "parse_token_configs m config_path v = and_then (master_config_tokens_schema m v) (\<lambda>r. case r of
     Inr ts \<Rightarrow> Inr ts
   | Inl es \<Rightarrow> Inl (error (''Invalid token config in '' @ config_path @ '':'' @ [CHR 0x0A] @ join_lines (map (\<lambda>e. ''  '' @ e) es))))"

section \<open>The command line\<close>

record registration_ctx =
  rx_attestation_url :: string
  rx_admin_api_key :: string
  rx_health_timeout_ms :: js_number

record configure_values =
  cw_attestation_url :: string
  cw_admin_api_key :: string
  cw_config_path :: string
  cw_health_timeout_ms :: js_number
  cw_skip_registration :: bool

record configure_args =
  cg_config_path :: string
  cg_registration :: "registration_ctx option"

record configure_platform =
  ck_env :: "string \<Rightarrow> string option"
  ck_resolve :: "string \<Rightarrow> string"
  ck_join :: "string list \<Rightarrow> string"
  ck_number_text :: "js_number \<Rightarrow> string"

text \<open>\<open>x ?? y\<close>.\<close>

definition env_or :: "configure_platform \<Rightarrow> string \<Rightarrow> string \<Rightarrow> string" where
  "env_or p name fallback = (case ck_env p name of None \<Rightarrow> fallback | Some v \<Rightarrow> v)"

definition data_dir :: "configure_platform \<Rightarrow> string" where
  "data_dir p = env_or p ''FPC_DATA_DIR'' ''./deployments''"

definition initial_configure_values :: "configure_platform \<Rightarrow> configure_values" where
  "initial_configure_values p = \<lparr>
     cw_attestation_url = env_or p ''FPC_ATTESTATION_URL'' [], cw_admin_api_key = env_or p ''ADMIN_API_KEY'' [],
     cw_config_path = (case ck_env p ''FPC_MASTER_CONFIG'' of None \<Rightarrow> ck_join p [data_dir p, ''fpc-config.yaml''] | Some c \<Rightarrow> c),
     cw_health_timeout_ms = js_Number (env_or p ''FPC_HEALTH_TIMEOUT_MS'' ''30000''),
     cw_skip_registration = (ck_env p ''FPC_SKIP_REGISTRATION'' = Some ''1'' \<or> ck_env p ''FPC_SKIP_REGISTRATION'' = Some ''true'')\<rparr>"

text \<open>The next argument is taken whatever it is; a missing one is empty, or NaN as a number.\<close>

definition arg_or_empty :: "string list \<Rightarrow> string" where
  "arg_or_empty rest = (case rest of [] \<Rightarrow> [] | v # _ \<Rightarrow> v)"

function configure_flags :: "string list \<Rightarrow> configure_values \<Rightarrow> thrown + configure_values option" where
  "configure_flags [] v = Inr (Some v)"
| "configure_flags (arg # rest) v =
     (if arg = ''--attestation-url'' then configure_flags (tl rest) (v\<lparr>cw_attestation_url := arg_or_empty rest\<rparr>)
      else if arg = ''--admin-api-key'' then configure_flags (tl rest) (v\<lparr>cw_admin_api_key := arg_or_empty rest\<rparr>)
      else if arg = ''--config'' then configure_flags (tl rest) (v\<lparr>cw_config_path := arg_or_empty rest\<rparr>)
      else if arg = ''--health-timeout-ms''
      then configure_flags (tl rest) (v\<lparr>cw_health_timeout_ms := (case rest of [] \<Rightarrow> NotFinite | n # _ \<Rightarrow> js_Number n)\<rparr>)
      else if arg = ''--skip-registration'' then configure_flags rest (v\<lparr>cw_skip_registration := True\<rparr>)
      else if arg = ''--help'' \<or> arg = ''-h'' then Inr None
      else Inl (error (''Unknown argument: '' @ arg)))"
  by pat_completeness auto
termination
  by (relation "measure (\<lambda>(argv, v). length argv)") auto

definition without_slash :: "string \<Rightarrow> string" where
  "without_slash s = (if s \<noteq> [] \<and> last s = CHR ''/'' then butlast s else s)"

definition registration_of :: "configure_values \<Rightarrow> thrown + registration_ctx option" where
  "registration_of v =
     (if cw_skip_registration v then Inr None
      else if cw_attestation_url v = [] then Inl (error ''--attestation-url or FPC_ATTESTATION_URL is required'')
      else if cw_admin_api_key v = [] then Inl (error ''--admin-api-key or ADMIN_API_KEY is required'')
      else Inr (Some \<lparr>rx_attestation_url = without_slash (cw_attestation_url v), rx_admin_api_key = cw_admin_api_key v,
        rx_health_timeout_ms = cw_health_timeout_ms v\<rparr>))"

definition parse_configure_args :: "configure_platform \<Rightarrow> string list \<Rightarrow> thrown + configure_args option" where
  "parse_configure_args p argv =
     and_then (configure_flags argv (initial_configure_values p)) (\<lambda>r. case r of
       None \<Rightarrow> Inr None
     | Some v \<Rightarrow> and_then (registration_of v) (\<lambda>rx.
         Inr (Some \<lparr>cg_config_path = ck_resolve p (cw_config_path v), cg_registration = rx\<rparr>)))"

section \<open>The attestation service\<close>

record 'w configure_env =
  ce_tokens :: "'w test_token_env"
  ce_platform :: configure_platform
  ce_read_yaml :: "string \<Rightarrow> ('w, jsval) ioe"
  ce_now :: "'w \<Rightarrow> int"
  ce_health :: "string \<Rightarrow> ('w, bool) ioe"
  ce_sleep :: "int \<Rightarrow> 'w \<Rightarrow> 'w"
  ce_put :: "string \<Rightarrow> string \<Rightarrow> jsval \<Rightarrow> ('w, bool \<times> int) ioe"
  ce_response_text :: "('w, string) ioe"
  ce_wait_for_node :: "string \<Rightarrow> ('w, unit) ioe"
  ce_node_info :: "string \<Rightarrow> ('w, int \<times> string) ioe"
  ce_create_wallet :: "string \<Rightarrow> bool \<Rightarrow> ('w, unit) ioe"
  ce_create_account :: "int \<Rightarrow> int \<Rightarrow> ('w, int) ioe"

text \<open>
  \<open>ce_health\<close> and \<open>ce_put\<close> are \<open>fetch\<close> with the \<open>ok\<close> of the response; the node's information
  is the L1 chain and the address of the registry.
\<close>

definition POLL_MS :: int where
  "POLL_MS = 2000"

partial_function (option) health_loop ::
    "'w configure_env \<Rightarrow> string \<Rightarrow> rat \<Rightarrow> thrown \<Rightarrow> 'w \<Rightarrow> ((thrown + unit) \<times> 'w) option" where
  [code]: "health_loop env url deadline e w =
     (if of_int (ce_now env w) < deadline
      then case ce_health env url w of (r, w1) \<Rightarrow>
        if r = Inr True then Some (Inr (), w1) else health_loop env url deadline e (ce_sleep env POLL_MS w1)
      else Some (Inl e, w))"

definition wait_for_attestation_health ::
    "'w configure_env \<Rightarrow> string \<Rightarrow> js_number \<Rightarrow> 'w \<Rightarrow> ((thrown + unit) \<times> 'w) option" where
  "wait_for_attestation_health env base timeout w =
     (let e = error (''Attestation server not healthy after '' @ ck_number_text (ce_platform env) timeout @ ''ms'') in
      case timeout of
        Finite q \<Rightarrow> health_loop env (base @ ''/health'') (of_int (ce_now env w) + q) e w
      | NotFinite \<Rightarrow> Some (Inl e, w))"

text \<open>The body of a registration: the token without its address.\<close>

definition jrat :: "rat \<Rightarrow> jsval" where
  "jrat q = JNum (Finite q)"

definition registration_body :: "token_config \<Rightarrow> jsval" where
  "registration_body t = JObject
     [(''name'', JString (tf_name t)), (''symbol'', JString (tf_symbol t)), (''decimals'', jrat (of_int (tf_decimals t))),
      (''market_rate_num'', jrat (tf_market_rate_num t)), (''market_rate_den'', jrat (tf_market_rate_den t)),
      (''fee_bips'', jrat (of_int (tf_fee_bips t)))]"

definition policy_url :: "'w configure_env \<Rightarrow> string \<Rightarrow> int \<Rightarrow> string" where
  "policy_url env base address =
     base @ ''/admin/asset-policies/'' @ address_to_string (ml_lib (te_manifest_lib (ce_tokens env))) address"

definition register_asset_policy ::
    "'w configure_env \<Rightarrow> registration_ctx \<Rightarrow> int \<Rightarrow> token_config \<Rightarrow> ('w, unit) ioe" where
  "register_asset_policy env rx address t =
     bind_io (ce_put env (policy_url env (rx_attestation_url rx) address) (rx_admin_api_key rx) (registration_body t)) (\<lambda>(ok, status).
     if ok then return_io ()
     else bind_io (ce_response_text env) (\<lambda>text.
       throw_io (error (''Failed to register asset policy ('' @ bigint_string status @ ''): '' @ text))))"

section \<open>The run\<close>

definition require_env :: "configure_platform \<Rightarrow> string \<Rightarrow> thrown + string" where
  "require_env p name = (case trimmed_opt (ck_env p name) of
     None \<Rightarrow> Inl (error (''Required environment variable '' @ name @ '' is not set''))
   | Some v \<Rightarrow> Inr v)"

definition init_deploy_deps :: "'w configure_env \<Rightarrow> ('w, test_token_deps) ioe" where
  "init_deploy_deps env =
     (let p = ce_platform env; node_url = ck_env p ''AZTEC_NODE_URL'';
          prover = (ck_env p ''PXE_PROVER_ENABLED'' \<noteq> Some ''0'' \<and> ck_env p ''PXE_PROVER_ENABLED'' \<noteq> Some ''false'') in
      if \<not> is_set node_url then throw_io (error ''AZTEC_NODE_URL is required to deploy test tokens'')
      else
        bind_io (from_pure (require_env p ''L1_RPC_URL'')) (\<lambda>l1_url.
        bind_io (from_pure (require_env p ''FPC_L1_DEPLOYER_KEY'')) (\<lambda>l1_key.
        bind_io (from_pure (require_env p ''FPC_DEPLOYER_SECRET_KEY'')) (\<lambda>deployer_key.
        bind_io (ce_wait_for_node env (the node_url)) (\<lambda>_.
        bind_io (ce_node_info env (the node_url)) (\<lambda>(chain_id, registry).
        bind_io (ce_create_wallet env (the node_url) prover) (\<lambda>_.
        bind_io (from_pure (fr_from_hex (ml_lib (te_manifest_lib (ce_tokens env))) deployer_key)) (\<lambda>secret.
        bind_io (ce_create_account env secret 0) (\<lambda>deployer.
        return_io \<lparr>td_l1_deployer_key = l1_key, td_l1_rpc_url = l1_url, td_l1_chain_id = chain_id,
          td_l1_registry_address = registry, td_operator_address = deployer,
          td_deploy_opts = \<lparr>do_from = deployer, do_sponsor = None, do_skip_class_publication = False\<rparr>\<rparr>)))))))))"

definition token_params :: "configure_platform \<Rightarrow> token_config \<Rightarrow> test_token_params" where
  "token_params p t = \<lparr>tt_name = tf_name t, tt_symbol = tf_symbol t, tt_decimals = tf_decimals t,
     tt_out_path = ck_join p [data_dir p, ''tokens'', tf_name t @ ''.json'']\<rparr>"

text \<open>The first token without an address creates the wallet, the others reuse it.\<close>

fun resolve_tokens ::
    "'w configure_env \<Rightarrow> test_token_deps option \<Rightarrow> token_config list \<Rightarrow> ('w token_state, (int \<times> token_config) list) ioe" where
  "resolve_tokens env deps [] = return_io []"
| "resolve_tokens env deps (t # ts) = (case tf_address t of
     Some a \<Rightarrow> bind_io (resolve_tokens env deps ts) (\<lambda>rs. return_io ((a, t) # rs))
   | None \<Rightarrow>
       bind_io (case deps of Some d \<Rightarrow> return_io d | None \<Rightarrow> outer (init_deploy_deps env)) (\<lambda>d.
       bind_io (deploy_test_token (ce_tokens env) d (token_params (ce_platform env) t)) (\<lambda>m.
       bind_io (resolve_tokens env (Some d) ts) (\<lambda>rs. return_io ((tk_token (tm_contracts m), t) # rs)))))"

text \<open>Phase 1: read the configuration and resolve the tokens.\<close>

definition read_and_resolve :: "'w configure_env \<Rightarrow> string \<Rightarrow> ('w token_state, (int \<times> token_config) list) ioe" where
  "read_and_resolve env config_path =
     bind_io (outer (ce_read_yaml env config_path)) (\<lambda>v.
     bind_io (from_pure (parse_token_configs (te_manifest_lib (ce_tokens env)) config_path v)) (\<lambda>ts.
     resolve_tokens env None ts))"

text \<open>Phase 2: wait for the attestation service and register.\<close>

definition register_all ::
    "'w configure_env \<Rightarrow> registration_ctx \<Rightarrow> (int \<times> token_config) list \<Rightarrow> 'w token_state \<Rightarrow>
       ((thrown + (int \<times> token_config) list option) \<times> 'w token_state) option" where
  "register_all env rx resolved s =
     (case wait_for_attestation_health env (rx_attestation_url rx) (rx_health_timeout_ms rx) (ts_world s) of
        None \<Rightarrow> None
      | Some (Inl e, w) \<Rightarrow> Some (Inl e, s\<lparr>ts_world := w\<rparr>)
      | Some (Inr _, w) \<Rightarrow>
          Some (bind_io (outer (map_io (\<lambda>(a, t). register_asset_policy env rx a t) resolved)) (\<lambda>_. return_io (Some resolved))
            (s\<lparr>ts_world := w\<rparr>)))"

text \<open>\<open>main\<close>: the outer \<open>None\<close> is a wait that never ends, the inner one the help.\<close>

definition configure_main ::
    "'w configure_env \<Rightarrow> string list \<Rightarrow> 'w token_state \<Rightarrow>
       ((thrown + (int \<times> token_config) list option) \<times> 'w token_state) option" where
  "configure_main env argv s = (case parse_configure_args (ce_platform env) argv of
     Inl e \<Rightarrow> Some (Inl e, s)
   | Inr None \<Rightarrow> Some (Inr None, s)
   | Inr (Some args) \<Rightarrow>
       (case read_and_resolve env (cg_config_path args) s of
          (Inl e, s1) \<Rightarrow> Some (Inl e, s1)
        | (Inr resolved, s1) \<Rightarrow> (case cg_registration args of
            None \<Rightarrow> Some (Inr (Some resolved), s1)
          | Some rx \<Rightarrow> register_all env rx resolved s1)))"

section \<open>Facts\<close>

lemma at_path_simps [simp]:
  "at_path k (Inr (Inr x)) = Inr (Inr x)"
  "issues_of (at_path k r) = Inr [] \<longleftrightarrow> issues_of r = Inr []"
  by (auto simp: at_path_def issues_of_def issues_def map_sum_def split: sum.splits)

lemma number_or_reports: "(\<And>q. treports (number_or check))"
  by (auto simp: treports_def number_or_def expected_Cons split: jsval.splits js_number.splits)

lemma config_reports [simp]:
  "treports (min_text msg)" "treports (int_between lo hi msg)" "treports (positive_number msg)" "treports decimals_field"
proof -
  show "treports (min_text msg)" unfolding min_text_def by (rule t_string_reports) auto
  show int: "treports (int_between lo hi msg)" for lo hi msg
    using number_or_reports [of "int_issues lo hi msg"] by (auto simp: treports_def int_between_def map_sum_def split: sum.splits)
  show "treports (positive_number msg)" unfolding positive_number_def by (rule number_or_reports)
  show "treports decimals_field" using int by (auto simp: treports_def decimals_field_def)
qed

lemma token_config_schema_iff:
  "token_config_schema m p v = Inr (Inr t) \<longleftrightarrow> (\<exists>kvs. v = JObject kvs) \<and>
     min_text ''token name must be non-empty'' (jfield ''name'' v) = Inr (Inr (tf_name t)) \<and>
     min_text ''token symbol must be non-empty'' (jfield ''symbol'' v) = Inr (Inr (tf_symbol t)) \<and>
     decimals_field (jfield ''decimals'' v) = Inr (Inr (tf_decimals t)) \<and>
     t_optional (aztec_address m) (jfield ''address'' v) = Inr (Inr (tf_address t)) \<and>
     positive_number ''market_rate_num must be positive'' (jfield ''market_rate_num'' v) = Inr (Inr (tf_market_rate_num t)) \<and>
     positive_number ''market_rate_den must be positive'' (jfield ''market_rate_den'' v) = Inr (Inr (tf_market_rate_den t)) \<and>
     int_between 0 10000 ''fee_bips must be 0-10000'' (jfield ''fee_bips'' v) = Inr (Inr (tf_fee_bips t))"
proof (cases v)
  case (JObject kvs)
  then show ?thesis by (cases t) (auto simp: token_config_schema_def object_simps)
qed (auto simp: token_config_schema_def at_path_def)

definition token_config_wf :: "token_config \<Rightarrow> bool" where
  "token_config_wf t \<longleftrightarrow> tf_name t \<noteq> [] \<and> tf_symbol t \<noteq> [] \<and> 0 \<le> tf_decimals t \<and> tf_decimals t \<le> 77 \<and>
     0 < tf_market_rate_num t \<and> 0 < tf_market_rate_den t \<and> 0 \<le> tf_fee_bips t \<and> tf_fee_bips t \<le> 10000"

lemma min_text_Inr: "min_text msg v = Inr (Inr s) \<Longrightarrow> s \<noteq> []"
  by (auto simp: min_text_def t_string_def split: jsval.splits if_splits)

lemma positive_number_Inr: "positive_number msg v = Inr (Inr q) \<Longrightarrow> 0 < q"
  by (auto simp: positive_number_def number_or_def split: jsval.splits js_number.splits if_splits)

lemma int_between_Inr: "int_between lo hi msg v = Inr (Inr n) \<Longrightarrow> lo \<le> n \<and> n \<le> hi"
  by (auto simp: int_between_def number_or_def int_issues_def map_sum_def is_integer_def le_floor_iff floor_le_iff
      split: jsval.splits js_number.splits if_splits sum.splits)

lemma decimals_Inr: "decimals_field v = Inr (Inr n) \<Longrightarrow> 0 \<le> n \<and> n \<le> 77"
  by (auto simp: decimals_field_def dest: int_between_Inr split: if_splits)

lemma token_config_schema_wf: "token_config_schema m p v = Inr (Inr t) \<Longrightarrow> token_config_wf t"
  by (auto simp: token_config_schema_iff token_config_wf_def dest: min_text_Inr positive_number_Inr int_between_Inr decimals_Inr)

lemma t_elements_Cons_Inr:
  "t_elements p i (v # vs) = Inr (Inr ts) \<longleftrightarrow>
     (\<exists>x xs. p i v = Inr (Inr x) \<and> t_elements p (Suc i) vs = Inr (Inr xs) \<and> ts = x # xs)"
  by (cases "p i v"; cases "projr (p i v)"; cases "t_elements p (Suc i) vs"; cases "projr (t_elements p (Suc i) vs)") auto

lemma t_elements_wf:
  assumes "t_elements (\<lambda>i. token_config_schema m (path i)) k vs = Inr (Inr ts)"
  shows "list_all token_config_wf ts \<and> length ts = length vs"
  using assms
proof (induction vs arbitrary: k ts)
  case Nil
  then show ?case by simp
next
  case (Cons v vs)
  from Cons.prems obtain x xs where "token_config_schema m (path k) v = Inr (Inr x)"
    "t_elements (\<lambda>i. token_config_schema m (path i)) (Suc k) vs = Inr (Inr xs)" "ts = x # xs"
    by (auto simp: t_elements_Cons_Inr simp del: t_elements.simps)
  with Cons.IH token_config_schema_wf show ?case by auto
qed

text \<open>
  A configuration that is accepted has at least one token, and every token has a name, a
  symbol, at most 77 decimals, positive rates and a fee of at most 10000 basis points.
\<close>

theorem parse_token_configs_wf:
  assumes "parse_token_configs m path v = Inr ts"
  shows "ts \<noteq> [] \<and> list_all token_config_wf ts"
proof -
  from assms have "master_config_tokens_schema m v = Inr (Inr ts)"
    by (cases "master_config_tokens_schema m v"; cases "projr (master_config_tokens_schema m v)") (auto simp: parse_token_configs_def)
  then obtain x vs where "t_elements (\<lambda>i. token_config_schema m (''tokens.'' @ dec_nat i)) 0 (x # vs) = Inr (Inr ts)"
    by (auto simp: master_config_tokens_schema_def tokens_schema_def at_path_def simp del: t_elements.simps
        split: jsval.splits list.splits)
  from t_elements_wf [OF this] show ?thesis by auto
qed


definition health_clock_ok :: "'w configure_env \<Rightarrow> bool" where
  "health_clock_ok env \<longleftrightarrow>
     (\<forall>url w. ce_now env w \<le> ce_now env (snd (ce_health env url w))) \<and>
     (\<forall>ms w. 0 < ms \<longrightarrow> ce_now env w + ms \<le> ce_now env (ce_sleep env ms w))"

lemma health_loop_returns:
  assumes "health_clock_ok env"
  shows "\<exists>r w'. health_loop env url deadline e w = Some (r, w') \<and> (r = Inr () \<longrightarrow> returned (ce_health env url) True)"
proof (induction "nat (\<lceil>deadline\<rceil> - ce_now env w)" arbitrary: w rule: less_induct)
  case less
  obtain r w1 where h: "ce_health env url w = (r, w1)" by (cases "ce_health env url w")
  note unfold = health_loop.simps [of env url deadline e w, unfolded h prod.case]
  show ?case
  proof (cases "of_int (ce_now env w) < deadline")
    case False
    then show ?thesis unfolding unfold by simp
  next
    case True
    then have early: "ce_now env w < \<lceil>deadline\<rceil>" by (simp add: less_ceiling_iff)
    have "ce_now env w \<le> ce_now env (snd (ce_health env url w))"
      "ce_now env w1 + POLL_MS \<le> ce_now env (ce_sleep env POLL_MS w1)"
      using assms by (simp_all add: health_clock_ok_def POLL_MS_def)
    with h early have d: "nat (\<lceil>deadline\<rceil> - ce_now env (ce_sleep env POLL_MS w1)) < nat (\<lceil>deadline\<rceil> - ce_now env w)"
      by (simp add: POLL_MS_def)
    show ?thesis
    proof (cases "r = Inr True")
      case True
      with h have "returned (ce_health env url) True" by (auto intro: returnedI)
      with True \<open>of_int (ce_now env w) < deadline\<close> show ?thesis unfolding unfold by simp
    next
      case False
      with less.hyps [OF d] True show ?thesis unfolding unfold by simp
    qed
  qed
qed

text \<open>
  The wait for the attestation service ends. When a sleep takes at least its time, the wait
  returns for every timeout: with success only if the service answered a health check, and
  otherwise with the timeout's error.
\<close>

theorem health_wait_returns:
  assumes "health_clock_ok env"
  shows "\<exists>r w'. wait_for_attestation_health env base timeout w = Some (r, w') \<and>
    (r = Inr () \<longrightarrow> returned (ce_health env (base @ ''/health'')) True)"
  using health_loop_returns [OF assms] by (simp add: wait_for_attestation_health_def Let_def split: js_number.split)

lemma health_loop_Inr:
  assumes "health_loop env url deadline e w = Some (Inr (), w')"
  shows "returned (ce_health env url) True"
proof -
  have "fst (Inr () :: thrown + unit, w') = Inr () \<longrightarrow> returned (ce_health env url) True"
  proof (rule health_loop.raw_induct [OF _ assms, where
        P = "\<lambda>env url deadline e w y. fst y = Inr () \<longrightarrow> returned (ce_health env url) True"], intro impI)
    fix f env url deadline e w y
    assume IH: "\<And>env url deadline e w y. f env url deadline e w = Some y \<Longrightarrow>
        fst y = Inr () \<longrightarrow> returned (ce_health env url) True"
      and body: "(if of_int (ce_now env w) < deadline
        then case ce_health env url w of (r, w1) \<Rightarrow>
          if r = Inr True then Some (Inr (), w1) else f env url deadline e (ce_sleep env POLL_MS w1)
        else Some (Inl e, w)) = Some y"
      and y: "fst y = Inr ()"
    obtain r w1 where h: "ce_health env url w = (r, w1)" by (cases "ce_health env url w")
    show "returned (ce_health env url) True"
    proof (cases "r = Inr True")
      case True
      with h show ?thesis by (auto intro: returnedI)
    next
      case False
      with body y h IH show ?thesis by (auto split: if_splits)
    qed
  qed
  then show ?thesis by simp
qed

lemma resolve_tokens_Inr:
  "resolve_tokens env deps ts s = (Inr rs, s') \<Longrightarrow>
     map snd rs = ts \<and> (\<forall>(a, t) \<in> set rs. \<forall>b. tf_address t = Some b \<longrightarrow> a = b)"
  by (induction ts arbitrary: deps s rs) (fastforce simp: io_Inr_iff split: option.splits)+

lemma map_io_Inr: "map_io f xs w = (Inr ys, w') \<Longrightarrow> \<forall>x \<in> set xs. \<exists>y. returned (f x) y"
  by (drule map_io_calls) (fastforce simp: returned_def list_all2_conv_all_nth in_set_conv_nth)

lemma register_asset_policy_Inr:
  "returned (register_asset_policy env rx a t) u \<Longrightarrow> \<exists>status.
     returned (ce_put env (policy_url env (rx_attestation_url rx) a) (rx_admin_api_key rx) (registration_body t)) (True, status)"
  by (auto simp: returned_def register_asset_policy_def io_Inr_iff split: if_splits)

lemma register_all_Inr:
  assumes "register_all env rx resolved s = Some (Inr out, s')"
  shows "out = Some resolved \<and> returned (ce_health env (rx_attestation_url rx @ ''/health'')) True \<and>
    (\<forall>(a, t) \<in> set resolved. \<exists>status.
       returned (ce_put env (policy_url env (rx_attestation_url rx) a) (rx_admin_api_key rx) (registration_body t)) (True, status))"
proof -
  let ?register = "\<lambda>(a, t). register_asset_policy env rx a t"
  from assms obtain w where health: "wait_for_attestation_health env (rx_attestation_url rx) (rx_health_timeout_ms rx) (ts_world s) =
      Some (Inr (), w)"
    and run: "bind_io (outer (map_io ?register resolved)) (\<lambda>_. return_io (Some resolved)) (s\<lparr>ts_world := w\<rparr>) = (Inr out, s')"
    by (auto simp: register_all_def split: option.splits prod.splits sum.splits)
  from health have "returned (ce_health env (rx_attestation_url rx @ ''/health'')) True"
    by (auto simp: wait_for_attestation_health_def Let_def dest: health_loop_Inr split: js_number.splits)
  moreover from run obtain ys v where "map_io ?register resolved w = (Inr ys, v)" and out: "out = Some resolved"
    by (auto simp: io_Inr_iff outer_Inr)
  from map_io_Inr [OF this(1)] have "\<forall>(a, t) \<in> set resolved. \<exists>y. returned (register_asset_policy env rx a t) y" by auto
  ultimately show ?thesis using out register_asset_policy_Inr [of env rx] by fastforce
qed

text \<open>
  A run that succeeds has configured every token. Each token of the configuration has the
  address it names or that of a test token deployed for it, and when registration is not skipped
  the admin API has accepted a registration of each of them under that address.
\<close>

theorem configured_tokens_are_registered:
  assumes "configure_main env argv s = Some (Inr (Some resolved), s')"
    and "parse_configure_args (ce_platform env) argv = Inr (Some args)"
  shows "\<exists>v ts. parse_token_configs (te_manifest_lib (ce_tokens env)) (cg_config_path args) v = Inr ts \<and>
    map snd resolved = ts \<and> (\<forall>(a, t) \<in> set resolved. \<forall>b. tf_address t = Some b \<longrightarrow> a = b) \<and>
    (\<forall>rx. cg_registration args = Some rx \<longrightarrow>
       returned (ce_health env (rx_attestation_url rx @ ''/health'')) True \<and>
       (\<forall>(a, t) \<in> set resolved. \<exists>status.
          returned (ce_put env (policy_url env (rx_attestation_url rx) a) (rx_admin_api_key rx) (registration_body t)) (True, status)))"
proof -
  obtain rs s1 where config: "read_and_resolve env (cg_config_path args) s = (Inr rs, s1)"
    and rest: "(case cg_registration args of None \<Rightarrow> Some (Inr (Some rs), s1) | Some rx \<Rightarrow> register_all env rx rs s1) =
      Some (Inr (Some resolved), s')"
    using assms by (cases "read_and_resolve env (cg_config_path args) s") (auto simp: configure_main_def split: sum.splits)
  from config obtain v ts u where "parse_token_configs (te_manifest_lib (ce_tokens env)) (cg_config_path args) v = Inr ts"
    "resolve_tokens env None ts u = (Inr rs, s1)" by (auto simp: read_and_resolve_def io_Inr_iff)
  moreover have "rs = resolved" using rest by (auto dest: register_all_Inr split: option.splits)
  ultimately show ?thesis using resolve_tokens_Inr rest by (fastforce dest: register_all_Inr split: option.splits)
qed

section \<open>Examples\<close>

definition demo_token_json :: "js_number \<Rightarrow> jsval" where
  "demo_token_json num = JObject [(''name'', JString ''T''), (''symbol'', JString ''T''), (''address'', JString (demo_word 64 7)),
     (''market_rate_num'', JNum num), (''market_rate_den'', JNum (Finite 2)), (''fee_bips'', JNum (Finite 100))]"

definition demo_tokens_json :: jsval where
  "demo_tokens_json = JObject [(''tokens'', JArray [demo_token_json (Finite 3)])]"

text \<open>The world is the clock and the number of registrations; the service is healthy from time 5000 on.\<close>

definition demo_configure_env :: "(int \<times> nat) configure_env" where
  "demo_configure_env = \<lparr>
     ce_tokens = \<lparr>te_manifest_lib = demo_manifest_lib, te_penv = Map.empty, te_l1_client = (\<lambda>_ _ _. Inr []),
       te_get_instance = (\<lambda>_ w. (Inr 1, w)),
       te_deployment = (\<lambda>_. \<lparr>cd_class_id = (\<lambda>w. (Inr 9, w)), cd_publicly_registered = (\<lambda>_ w. (Inr True, w)),
         cd_send = (\<lambda>_ w. (Inr [], w)), cd_send_batch = (\<lambda>_ _ w. (Inr [], w))\<rparr>),
       te_deploy_l1 = (\<lambda>_ w. (Inr [], w)), te_l1_receipt = (\<lambda>_ w. (Inr None, w)), te_write_l1 = (\<lambda>_ w. (Inr [], w)),
       te_bridge_tokens_public = (\<lambda>_ _ _ _ w. (Inl (error ''rpc''), w)), te_wait_message = (\<lambda>_ _ w. (Inr (), w)),
       te_now_iso = (\<lambda>_. []), te_sleep = (\<lambda>_ w. w)\<rparr>,
     ce_platform = \<lparr>ck_env = [''FPC_ATTESTATION_URL'' \<mapsto> ''http://a/'', ''ADMIN_API_KEY'' \<mapsto> ''k''], ck_resolve = (\<lambda>p. p),
       ck_join = concat, ck_number_text = (\<lambda>_. ''30000'')\<rparr>,
     ce_read_yaml = (\<lambda>_ w. (Inr demo_tokens_json, w)), ce_now = fst, ce_health = (\<lambda>_ w. (Inr (5000 \<le> fst w), w)),
     ce_sleep = (\<lambda>ms (t, n). (t + max 0 ms, n)), ce_put = (\<lambda>_ _ _ (t, n). (Inr (True, 200), (t, n + 1))),
     ce_response_text = (\<lambda>w. (Inr [], w)), ce_wait_for_node = (\<lambda>_ w. (Inr (), w)), ce_node_info = (\<lambda>_ w. (Inr (31, ''r''), w)),
     ce_create_wallet = (\<lambda>_ _ w. (Inr (), w)), ce_create_account = (\<lambda>_ _ w. (Inr 8, w))\<rparr>"

lemma demo_health_clock: "health_clock_ok demo_configure_env"
  by (auto simp: health_clock_ok_def demo_configure_env_def)

theorem health_wait_returns_witness:
  "\<exists>r w'. wait_for_attestation_health demo_configure_env ''u'' (Finite 30000) (0, 0) = Some (r, w')"
  using health_wait_returns [OF demo_health_clock] by blast

theorem parse_token_configs_wf_witness:
  "\<exists>ts. parse_token_configs demo_manifest_lib ''c'' demo_tokens_json = Inr ts \<and> list_all token_config_wf ts"
proof -
  have "\<not> isl (parse_token_configs demo_manifest_lib ''c'' demo_tokens_json)" by code_simp
  then obtain ts where "parse_token_configs demo_manifest_lib ''c'' demo_tokens_json = Inr ts"
    by (cases "parse_token_configs demo_manifest_lib ''c'' demo_tokens_json") auto
  with parse_token_configs_wf [OF this] show ?thesis by blast
qed

definition demo_token :: "rat \<Rightarrow> token_config" where
  "demo_token num = \<lparr>tf_name = ''T'', tf_symbol = ''T'', tf_decimals = 18, tf_address = None, tf_market_rate_num = num,
     tf_market_rate_den = 2, tf_fee_bips = 100\<rparr>"


definition demo_configure_args :: configure_args where
  "demo_configure_args = \<lparr>cg_config_path = ''./deploymentsfpc-config.yaml'',
     cg_registration = Some \<lparr>rx_attestation_url = ''http://a'', rx_admin_api_key = ''k'', rx_health_timeout_ms = Finite 30000\<rparr>\<rparr>"

lemma demo_timeout: "js_Number ''30000'' = Finite 30000"
proof -
  have "js_trim ''30000'' = ''30000''" "js_lower (take 2 ''30000'') = ''30''" "split_sign ''30000'' = (1, ''30000'')"
    "parse_unsigned_decimal ''30000'' = Some 30000" by code_simp+
  then have "js_Number ''30000'' = round_double 30000" unfolding js_Number_def Let_def by (simp del: take.simps)
  moreover have log: "rat_log2 30000 = 14" by (simp add: rat_log2_def nat_log2.simps pow2_def)
  then have "round_double 30000 = Finite 30000" by (simp add: round_double_def pow2_def round_half_even_def)
  ultimately show ?thesis by simp
qed

lemma demo_args: "parse_configure_args (ce_platform demo_configure_env) [] = Inr (Some demo_configure_args)"
  by (simp add: parse_configure_args_def initial_configure_values_def env_or_def data_dir_def demo_configure_env_def
      registration_of_def without_slash_def demo_configure_args_def demo_timeout)

theorem configured_tokens_are_registered_witness:
  "\<exists>resolved s'. configure_main demo_configure_env [] \<lparr>ts_files = Map.empty, ts_world = (5000, 0)\<rparr> = Some (Inr (Some resolved), s') \<and>
     returned (ce_health demo_configure_env ''http://a/health'') True"
proof -
  let ?run = "configure_main demo_configure_env [] \<lparr>ts_files = Map.empty, ts_world = (5000, 0)\<rparr>"
  let ?config = "read_and_resolve demo_configure_env (cg_config_path demo_configure_args) \<lparr>ts_files = Map.empty, ts_world = (5000, 0)\<rparr>"
  have "\<not> isl (fst ?config) \<and> ts_world (snd ?config) = (5000, 0)" by code_simp
  then obtain rs s1 where config: "?config = (Inr rs, s1)" and w: "ts_world s1 = (5000, 0)"
    by (cases ?config) (metis fst_conv isl_def snd_conv sum.exhaust_sel)
  have health: "wait_for_attestation_health demo_configure_env ''http://a'' (Finite 30000) (5000, 0) = Some (Inr (), (5000, 0))"
    by (simp add: wait_for_attestation_health_def Let_def health_loop.simps demo_configure_env_def)
  have one: "register_asset_policy demo_configure_env rx a t v = (Inr (), fst v, snd v + 1)" for rx a t v
    by (cases v) (simp add: register_asset_policy_def demo_configure_env_def bind_io_def)
  have registers: "\<exists>ys v'. map_io (\<lambda>(a, t). register_asset_policy demo_configure_env rx a t) ps v = (Inr ys, v')" for rx ps v
  proof (induction ps arbitrary: v)
    case Nil
    then show ?case by simp
  next
    case (Cons p ps)
    from Cons.IH [of "(fst v, snd v + 1)"] show ?case by (cases p) (auto simp: one bind_io_def)
  qed
  have "\<exists>resolved s'. ?run = Some (Inr (Some resolved), s')"
    using registers [of "\<lparr>rx_attestation_url = ''http://a'', rx_admin_api_key = ''k'', rx_health_timeout_ms = Finite 30000\<rparr>" rs "(5000, 0)"]
    by (auto simp: configure_main_def demo_args config [unfolded demo_configure_args_def, simplified] demo_configure_args_def register_all_def w health outer_def bind_io_def return_io_def)
  then obtain resolved s' where run: "?run = Some (Inr (Some resolved), s')" by blast
  from configured_tokens_are_registered [OF run demo_args] run show ?thesis by (auto simp: demo_configure_args_def)
qed

end
