(* ===== verification/Faucet_Contract.thy ===== *)
theory Faucet_Contract
  imports Fpc_Contract
begin

text \<open>
  The Noir contract \<open>Faucet\<close> (\<open>contracts/faucet/src/main.nr\<close>), which hands out test tokens.

  Its storage is an immutable configuration and, per recipient, the time of the last drip, which
  reads as zero before the first one. The token contract is a field of \<open>token_public\<close> on a
  ledger \<open>'l\<close>. A public call that fails is reverted: \<open>Inl\<close>, with no new state.
\<close>

section \<open>State and operations\<close>

record faucet_config =
  fct_token :: field
  fct_admin :: field
  drip_amount :: u128
  cooldown_seconds :: u64

record faucet =
  fct_config :: "faucet_config option"
  last_drip :: "field \<Rightarrow> u64"

record public_context =
  pub_this :: field
  pub_msg_sender :: "field option"
  pub_timestamp :: u64

text \<open>
  \<open>transfer_public_to_public caller token from to amount nonce\<close> is the method of
  \<open>Token::at(token)\<close> that \<open>caller\<close> calls.
\<close>

record 'l token_public =
  transfer_public_to_public :: "field \<Rightarrow> field \<Rightarrow> field \<Rightarrow> field \<Rightarrow> u128 \<Rightarrow> field \<Rightarrow> 'l \<Rightarrow> thrown + 'l"

definition u64_sub :: "u64 \<Rightarrow> u64 \<Rightarrow> thrown + u64" where
  "u64_sub a b = (if b \<le> a then Inr (a - b) else Inl (error ''attempt to subtract with overflow''))"

definition new_faucet :: faucet where
  "new_faucet = \<lparr>fct_config = None, last_drip = (\<lambda>_. 0)\<rparr>"

definition faucet_read_config :: "faucet \<Rightarrow> thrown + faucet_config" where
  "faucet_read_config st = (case fct_config st of
     None \<Rightarrow> Inl (error ''Trying to read from uninitialized PublicImmutable'')
   | Some c \<Rightarrow> Inr c)"

definition faucet_constructor ::
    "field \<Rightarrow> field \<Rightarrow> u128 \<Rightarrow> u64 \<Rightarrow> faucet \<Rightarrow> thrown + faucet" where
  "faucet_constructor token admin amount cooldown st =
     and_then (require_that (token \<noteq> 0) (error ''invalid token'')) (\<lambda>_.
     and_then (require_that (admin \<noteq> 0) (error ''invalid admin'')) (\<lambda>_.
     and_then (require_that (0 < amount) (error ''drip amount must be positive'')) (\<lambda>_.
     and_then (require_that (fct_config st = None) (error ''PublicImmutable already initialized'')) (\<lambda>_.
     Inr (st\<lparr>fct_config := Some \<lparr>fct_token = token, fct_admin = admin, drip_amount = amount,
       cooldown_seconds = cooldown\<rparr>\<rparr>)))))"

text \<open>The cooldown, which also records the drip.\<close>

definition check_cooldown :: "faucet_config \<Rightarrow> public_context \<Rightarrow> field \<Rightarrow> faucet \<Rightarrow> thrown + faucet" where
  "check_cooldown c ctx recipient st =
     (if 0 < cooldown_seconds c then
        let now = pub_timestamp ctx in
        and_then (u64_sub now (last_drip st recipient)) (\<lambda>elapsed.
        and_then (require_that (cooldown_seconds c \<le> elapsed) (error ''drip cooldown not elapsed'')) (\<lambda>_.
        Inr (st\<lparr>last_drip := (last_drip st)(recipient := now)\<rparr>)))
      else Inr st)"

definition drip ::
    "'l token_public \<Rightarrow> public_context \<Rightarrow> field \<Rightarrow> faucet \<times> 'l \<Rightarrow> thrown + faucet \<times> 'l" where
  "drip tk ctx recipient s = (case s of (st, l) \<Rightarrow>
     and_then (require_that (recipient \<noteq> 0) (error ''invalid recipient'')) (\<lambda>_.
     and_then (faucet_read_config st) (\<lambda>c.
     and_then (check_cooldown c ctx recipient st) (\<lambda>st1.
     and_then (transfer_public_to_public tk (pub_this ctx) (fct_token c) (pub_this ctx) recipient
       (drip_amount c) 0 l) (\<lambda>l1.
     Inr (st1, l1))))))"

definition admin_drip ::
    "'l token_public \<Rightarrow> public_context \<Rightarrow> field \<Rightarrow> u128 \<Rightarrow> faucet \<times> 'l \<Rightarrow> thrown + faucet \<times> 'l" where
  "admin_drip tk ctx recipient amount s = (case s of (st, l) \<Rightarrow>
     and_then (faucet_read_config st) (\<lambda>c.
     and_then (case pub_msg_sender ctx of None \<Rightarrow> Inl (error ''unwrap of None'') | Some x \<Rightarrow> Inr x) (\<lambda>sender.
     and_then (require_that (sender = fct_admin c) (error ''not admin'')) (\<lambda>_.
     and_then (require_that (recipient \<noteq> 0) (error ''invalid recipient'')) (\<lambda>_.
     and_then (require_that (0 < amount) (error ''amount must be positive'')) (\<lambda>_.
     and_then (transfer_public_to_public tk (pub_this ctx) (fct_token c) (pub_this ctx) recipient amount 0 l) (\<lambda>l1.
     Inr (st, l1))))))))"

definition get_last_drip :: "faucet \<Rightarrow> field \<Rightarrow> u64" where
  "get_last_drip st recipient = last_drip st recipient"

section \<open>Runs\<close>

text \<open>
  A run of a deployed faucet: successful calls, which leave a payout, and transactions of other
  contracts, which change the ledger in any way. A reverted call changes nothing.
\<close>

datatype payout = Payout (paid_at: u64) (paid_to: field) (paid_amount: u128) (by_admin: bool)

inductive faucet_run :: "'l token_public \<Rightarrow> field \<Rightarrow> faucet \<times> 'l \<Rightarrow> payout list \<Rightarrow> faucet \<times> 'l \<Rightarrow> bool"
  for tk this s0 where
  run_start: "faucet_run tk this s0 [] s0"
| run_drip: "faucet_run tk this s0 ps s \<Longrightarrow> pub_this ctx = this \<Longrightarrow> drip tk ctx r s = Inr s' \<Longrightarrow>
    fct_config (fst s) = Some c \<Longrightarrow>
    faucet_run tk this s0 (ps @ [Payout (pub_timestamp ctx) r (drip_amount c) False]) s'"
| run_admin: "faucet_run tk this s0 ps s \<Longrightarrow> pub_this ctx = this \<Longrightarrow> admin_drip tk ctx r m s = Inr s' \<Longrightarrow>
    faucet_run tk this s0 (ps @ [Payout (pub_timestamp ctx) r m True]) s'"
| run_other: "faucet_run tk this s0 ps (st, l) \<Longrightarrow> faucet_run tk this s0 ps (st, l')"

definition drips_to :: "field \<Rightarrow> payout list \<Rightarrow> payout list" where
  "drips_to r ps = filter (\<lambda>p. paid_to p = r \<and> \<not> by_admin p) ps"

definition drip_times :: "field \<Rightarrow> payout list \<Rightarrow> int list" where
  "drip_times r ps = map (\<lambda>p. uint (paid_at p)) (drips_to r ps)"

definition dripped :: "field \<Rightarrow> payout list \<Rightarrow> int" where
  "dripped r ps = sum_list (map (\<lambda>p. uint (paid_amount p)) (drips_to r ps))"

lemma drips_to_snoc [simp]:
  "drip_times r [] = []" "dripped r [] = 0"
  "drip_times r (ps @ [Payout t q m b]) = drip_times r ps @ (if q = r \<and> \<not> b then [uint t] else [])"
  "dripped r (ps @ [Payout t q m b]) = dripped r ps + (if q = r \<and> \<not> b then uint m else 0)"
  by (simp_all add: drip_times_def dripped_def drips_to_def)

section \<open>Facts\<close>

lemma u64_sub_Inr: "u64_sub a b = Inr d \<longleftrightarrow> uint b \<le> uint a \<and> uint d = uint a - uint b"
  by (auto simp: u64_sub_def word_le_def uint_sub_if' word_uint_eq_iff)

lemma faucet_read_config_Inr: "faucet_read_config st = Inr c \<longleftrightarrow> fct_config st = Some c"
  by (simp add: faucet_read_config_def split: option.split)

lemma cooldown_elapsed_Inr:
  "and_then (u64_sub now prev) (\<lambda>d. and_then (require_that (cd \<le> d) e) (\<lambda>_. Inr x)) = Inr y \<longleftrightarrow>
     uint prev + uint cd \<le> uint now \<and> x = y"
proof (cases "prev \<le> now")
  case True
  moreover from this have "uint (now - prev) = uint now - uint prev" by (simp add: word_le_def uint_sub_if')
  ultimately show ?thesis by (auto simp: u64_sub_def and_then_Inr_iff word_le_def)
next
  case False
  then have "uint now < uint prev" by (simp add: word_le_def)
  moreover have "0 \<le> uint cd" by simp
  ultimately have "\<not> uint prev + uint cd \<le> uint now" by linarith
  with False show ?thesis by (simp add: u64_sub_def)
qed

lemma check_cooldown_Inr:
  "check_cooldown c ctx r st = Inr st' \<longleftrightarrow>
     (if 0 < cooldown_seconds c
      then uint (last_drip st r) + uint (cooldown_seconds c) \<le> uint (pub_timestamp ctx) \<and>
        st' = st\<lparr>last_drip := (last_drip st)(r := pub_timestamp ctx)\<rparr>
      else st' = st)"
  by (auto simp: check_cooldown_def cooldown_elapsed_Inr Let_def)

lemma drip_Inr:
  "drip tk ctx r (st, l) = Inr (st', l') \<longleftrightarrow>
     (\<exists>c. r \<noteq> 0 \<and> fct_config st = Some c \<and> check_cooldown c ctx r st = Inr st' \<and>
        transfer_public_to_public tk (pub_this ctx) (fct_token c) (pub_this ctx) r (drip_amount c) 0 l = Inr l')"
  by (auto simp: drip_def and_then_Inr_iff faucet_read_config_Inr)

lemma admin_drip_Inr:
  "admin_drip tk ctx r m (st, l) = Inr (st', l') \<longleftrightarrow>
     (\<exists>c. fct_config st = Some c \<and> pub_msg_sender ctx = Some (fct_admin c) \<and> r \<noteq> 0 \<and> 0 < m \<and> st' = st \<and>
        transfer_public_to_public tk (pub_this ctx) (fct_token c) (pub_this ctx) r m 0 l = Inr l')"
  by (auto simp: admin_drip_def and_then_Inr_iff faucet_read_config_Inr split: option.splits)

text \<open>What every operation keeps: the configuration, and a clock of drips per recipient.\<close>

lemma check_cooldown_config: "check_cooldown c ctx r st = Inr st' \<Longrightarrow> fct_config st' = fct_config st"
  by (auto simp: check_cooldown_Inr split: if_splits)

definition drip_clock :: "faucet_config \<Rightarrow> field \<Rightarrow> payout list \<Rightarrow> faucet \<Rightarrow> bool" where
  "drip_clock c r ps st \<longleftrightarrow> fct_config st = Some c \<and> (drip_times r ps \<noteq> [] \<longrightarrow>
     uint (last_drip st r) = last (drip_times r ps) \<and>
     hd (drip_times r ps) + uint (cooldown_seconds c) * (int (length (drip_times r ps)) - 1) \<le> last (drip_times r ps))"

lemma drip_clock_step:
  assumes "drip_clock c r ps st" "0 < cooldown_seconds c" "drip tk ctx q (st, l) = Inr (st', l')"
  shows "drip_clock c r (ps @ [Payout (pub_timestamp ctx) q (drip_amount c) False]) st'"
proof -
  let ?ts = "drip_times r ps" and ?cd = "uint (cooldown_seconds c)" and ?now = "uint (pub_timestamp ctx)"
  from assms have st': "uint (last_drip st q) + ?cd \<le> ?now"
    "st' = st\<lparr>last_drip := (last_drip st)(q := pub_timestamp ctx)\<rparr>" "fct_config st = Some c"
    by (auto simp: drip_Inr drip_clock_def check_cooldown_Inr)
  show ?thesis
  proof (cases "q = r")
    case False
    with st' assms(1) show ?thesis by (auto simp: drip_clock_def)
  next
    case True
    show ?thesis
    proof (cases "?ts = []")
      case True
      with st' \<open>q = r\<close> show ?thesis by (simp add: drip_clock_def)
    next
      case False
      with assms(1) have "last ?ts = uint (last_drip st r)" "hd ?ts + ?cd * (int (length ?ts) - 1) \<le> last ?ts"
        by (auto simp: drip_clock_def)
      with st' \<open>q = r\<close> have "hd ?ts + ?cd * (int (length ?ts) - 1) + ?cd \<le> ?now" by simp
      then have "hd ?ts + ?cd * int (length ?ts) \<le> ?now" by (simp add: algebra_simps)
      with st' \<open>q = r\<close> False show ?thesis by (simp add: drip_clock_def hd_append2)
    qed
  qed
qed

lemma run_keeps_clock:
  assumes "faucet_run tk this s0 ps s" "fct_config (fst s0) = Some c" "0 < cooldown_seconds c"
  shows "drip_clock c r ps (fst s)"
  using assms(1)
proof (induction rule: faucet_run.induct)
  case run_start
  show ?case using assms(2) by (simp add: drip_clock_def)
next
  case (run_drip ps s ctx q s' c')
  then have "c' = c" by (simp add: drip_clock_def)
  with run_drip assms(3) show ?case by (cases s; cases s') (auto intro: drip_clock_step)
next
  case (run_admin ps s ctx q m s')
  then have "fst s' = fst s" by (cases s; cases s') (auto simp: admin_drip_Inr)
  with run_admin show ?case by (simp add: drip_clock_def)
next
  case (run_other ps st l l')
  then show ?case by simp
qed

lemma run_drips_equal_amounts:
  assumes "faucet_run tk this s0 ps s" "fct_config (fst s0) = Some c"
  shows "fct_config (fst s) = Some c \<and> dripped r ps = uint (drip_amount c) * int (length (drip_times r ps))"
  using assms(1)
proof (induction rule: faucet_run.induct)
  case run_start
  show ?case using assms(2) by simp
next
  case (run_drip ps s ctx q s' c')
  then have "c' = c" "fct_config (fst s') = Some c"
    by (cases s; cases s'; auto simp: drip_Inr dest: check_cooldown_config)+
  with run_drip show ?case by (simp add: algebra_simps)
next
  case (run_admin ps s ctx q m s')
  then have "fst s' = fst s" by (cases s; cases s') (auto simp: admin_drip_Inr)
  with run_admin show ?case by simp
next
  case (run_other ps st l l')
  then show ?case by simp
qed

text \<open>A faucet with a cooldown of 100 seconds and tokens that are always there.\<close>

definition demo_token :: "(field \<Rightarrow> int) token_public" where
  "demo_token = \<lparr>transfer_public_to_public = (\<lambda>c tk f t m n l.
     if c = f \<and> uint m \<le> l f then Inr (l(f := l f - uint m, t := l t + uint m)) else Inl (error ''Balance too low''))\<rparr>"

definition demo_at :: "u64 \<Rightarrow> public_context" where
  "demo_at t = \<lparr>pub_this = 8, pub_msg_sender = Some 3, pub_timestamp = t\<rparr>"

definition demo_faucet :: "(field \<Rightarrow> u64) \<Rightarrow> faucet" where
  "demo_faucet d = \<lparr>fct_config = Some \<lparr>fct_token = 7, fct_admin = 3, drip_amount = 10, cooldown_seconds = 100\<rparr>,
     last_drip = d\<rparr>"

lemma demo_drip:
  assumes "uint (d 9) + 100 \<le> uint t" "10 \<le> l 8"
  shows "drip demo_token (demo_at t) 9 (demo_faucet d, l) =
    Inr (demo_faucet (d(9 := t)), l(8 := l 8 - 10, 9 := l 9 + 10))"
  using assms by (simp add: drip_Inr check_cooldown_Inr demo_faucet_def demo_token_def demo_at_def)

section \<open>Properties\<close>



text \<open>
  A first drip needs a cooldown that has passed since time zero: the field that has never been
  written reads as zero and is treated as a drip at that time.
\<close>

lemma first_drip_allowed_iff:
  assumes "fct_config st = Some c" "last_drip st r = 0" "r \<noteq> 0"
  shows "(\<exists>st'. and_then (faucet_read_config st) (\<lambda>c. check_cooldown c ctx r st) = Inr st') \<longleftrightarrow>
    uint (cooldown_seconds c) \<le> uint (pub_timestamp ctx)"
  using assms by (auto simp: and_then_Inr_iff faucet_read_config_Inr check_cooldown_Inr word_gt_0)

end
