(* ===== verification/Token_Bridge.thy ===== *)
theory Token_Bridge
  imports Fpc_Contract
begin

text \<open>
  The Noir contract \<open>TokenBridge\<close> (\<open>contracts/token_bridge/src/main.nr\<close>), through which a cold
  start claims its deposit, and its composition with the fee payment contract.

  Its storage is one immutable configuration. The token, the messages between L1 and L2 and the
  hashes of message contents are libraries: the fields of \<open>bridge_lib\<close> on a ledger \<open>'l\<close>. A call
  that fails is reverted: \<open>Inl\<close>, with no new ledger.
\<close>

section \<open>State and operations\<close>

record bridge_config =
  brc_token :: field
  brc_portal :: field

text \<open>
  What identifies a message to L2, as \<open>consume_l1_to_l2_message\<close> takes it: its sender on L1,
  its recipient on L2, the hash of its content, the secret and its leaf.
\<close>

record l1_message =
  msg_portal :: field
  msg_recipient :: field
  msg_content :: field
  msg_secret :: field
  msg_leaf :: field

record 'l bridge_lib =
  mint_to_public_content :: "field \<Rightarrow> u128 \<Rightarrow> field"
  mint_to_private_content :: "u128 \<Rightarrow> field"
  withdraw_content :: "field \<Rightarrow> u128 \<Rightarrow> field \<Rightarrow> field"
  consume_message :: "l1_message \<Rightarrow> 'l \<Rightarrow> thrown + 'l"
  message_portal :: "field \<Rightarrow> field \<Rightarrow> field \<Rightarrow> 'l \<Rightarrow> 'l"
  mint_to_public :: "field \<Rightarrow> field \<Rightarrow> field \<Rightarrow> u128 \<Rightarrow> 'l \<Rightarrow> thrown + 'l"
  mint_to_private :: "field \<Rightarrow> field \<Rightarrow> field \<Rightarrow> u128 \<Rightarrow> 'l \<Rightarrow> thrown + 'l"
  burn_public :: "field \<Rightarrow> field \<Rightarrow> field \<Rightarrow> u128 \<Rightarrow> field \<Rightarrow> 'l \<Rightarrow> thrown + 'l"
  burn_private :: "field \<Rightarrow> field \<Rightarrow> field \<Rightarrow> u128 \<Rightarrow> field \<Rightarrow> 'l \<Rightarrow> thrown + 'l"

text \<open>
  \<open>mint_to_public caller token to amount\<close> and \<open>burn_public caller token from amount nonce\<close> are the
  methods of \<open>Token::at(token)\<close>; \<open>message_portal this portal content\<close> sends a message to L1.
\<close>

definition bridge_constructor :: "bridge_config option \<Rightarrow> thrown + bridge_config option" where
  "bridge_constructor storage = Inr storage"

definition set_config :: "field \<Rightarrow> field \<Rightarrow> bridge_config option \<Rightarrow> thrown + bridge_config option" where
  "set_config token portal storage =
     and_then (require_that (storage = None) (error ''PublicImmutable already initialized'')) (\<lambda>_.
     Inr (Some \<lparr>brc_token = token, brc_portal = portal\<rparr>))"

definition get_config :: "bridge_config option \<Rightarrow> thrown + bridge_config" where
  "get_config storage = (case storage of
     None \<Rightarrow> Inl (error ''Trying to read from uninitialized PublicImmutable'')
   | Some c \<Rightarrow> Inr c)"

definition claim_message :: "field \<Rightarrow> bridge_config \<Rightarrow> field \<Rightarrow> field \<Rightarrow> field \<Rightarrow> l1_message" where
  "claim_message this c content secret leaf = \<lparr>msg_portal = brc_portal c, msg_recipient = this,
     msg_content = content, msg_secret = secret, msg_leaf = leaf\<rparr>"

definition claim_public ::
    "'l bridge_lib \<Rightarrow> field \<Rightarrow> bridge_config option \<Rightarrow> field \<Rightarrow> u128 \<Rightarrow> field \<Rightarrow> field \<Rightarrow> 'l \<Rightarrow> thrown + 'l" where
  "claim_public lib this storage to amount secret leaf l =
     (let content = mint_to_public_content lib to amount in
      and_then (get_config storage) (\<lambda>c.
      and_then (consume_message lib (claim_message this c content secret leaf) l) (\<lambda>l1.
      mint_to_public lib this (brc_token c) to amount l1)))"

definition exit_to_l1_public ::
    "'l bridge_lib \<Rightarrow> field \<Rightarrow> field \<Rightarrow> bridge_config option \<Rightarrow> field \<Rightarrow> u128 \<Rightarrow> field \<Rightarrow> field \<Rightarrow> 'l \<Rightarrow> thrown + 'l" where
  "exit_to_l1_public lib this sender storage recipient amount caller_on_l1 nonce l =
     and_then (get_config storage) (\<lambda>c.
     let l1 = message_portal lib this (brc_portal c) (withdraw_content lib recipient amount caller_on_l1) l in
     burn_public lib this (brc_token c) sender amount nonce l1)"

definition claim_private ::
    "'l bridge_lib \<Rightarrow> field \<Rightarrow> bridge_config option \<Rightarrow> field \<Rightarrow> u128 \<Rightarrow> field \<Rightarrow> field \<Rightarrow> 'l \<Rightarrow> thrown + 'l" where
  "claim_private lib this storage recipient amount secret leaf l =
     and_then (get_config storage) (\<lambda>c.
     let content = mint_to_private_content lib amount in
     and_then (consume_message lib (claim_message this c content secret leaf) l) (\<lambda>l1.
     mint_to_private lib this (brc_token c) recipient amount l1))"

definition exit_to_l1_private ::
    "'l bridge_lib \<Rightarrow> field \<Rightarrow> field \<Rightarrow> bridge_config option \<Rightarrow> field \<Rightarrow> field \<Rightarrow> u128 \<Rightarrow> field \<Rightarrow> field \<Rightarrow> 'l \<Rightarrow> thrown + 'l" where
  "exit_to_l1_private lib this sender storage token recipient amount caller_on_l1 nonce l =
     and_then (get_config storage) (\<lambda>c.
     and_then (require_that (brc_token c = token) (error ''Token address is not the same as seen in storage'')) (\<lambda>_.
     let l1 = message_portal lib this (brc_portal c) (withdraw_content lib recipient amount caller_on_l1) l in
     burn_private lib this token sender amount nonce l1))"

section \<open>Under the fee payment contract\<close>

text \<open>The environment of the fee payment contract in which a bridge address holds a token bridge.\<close>

definition with_token_bridges ::
    "'l bridge_lib \<Rightarrow> (field \<Rightarrow> bridge_config option) \<Rightarrow> 'l fpc_env \<Rightarrow> 'l fpc_env" where
  "with_token_bridges lib bridges env = env\<lparr>bridge_claim := (\<lambda>caller br recipient amount secret leaf l.
     claim_private lib br (bridges br) recipient amount secret leaf l)\<rparr>"

lemma with_token_bridges_simps [simp]:
  "token_transfer (with_token_bridges lib bridges env) = token_transfer env"
  "bridge_claim (with_token_bridges lib bridges env) d br r m sec leaf l = claim_private lib br (bridges br) r m sec leaf l"
  by (simp_all add: with_token_bridges_def)

definition bridge_token :: "(field \<Rightarrow> bridge_config option) \<Rightarrow> field \<Rightarrow> field" where
  "bridge_token bridges br = (case bridges br of None \<Rightarrow> 0 | Some c \<Rightarrow> brc_token c)"

text \<open>
  The documented behaviour of the libraries, on the balances \<open>bal l token owner\<close> (private and
  public together) and the consumed messages \<open>spent l\<close>: a message is consumed once and stays
  consumed, minting adds the amount, burning takes it, and nothing else changes.
\<close>

definition messages_consumed_once ::
    "'l bridge_lib \<Rightarrow> ('l \<Rightarrow> field \<Rightarrow> field \<Rightarrow> int) \<Rightarrow> ('l \<Rightarrow> l1_message set) \<Rightarrow> bool" where
  "messages_consumed_once lib bal spent \<longleftrightarrow>
     (\<forall>m l l'. consume_message lib m l = Inr l' \<longrightarrow> m \<notin> spent l \<and> spent l' = insert m (spent l) \<and> bal l' = bal l)"

definition mints_add ::
    "'l bridge_lib \<Rightarrow> ('l \<Rightarrow> field \<Rightarrow> field \<Rightarrow> int) \<Rightarrow> ('l \<Rightarrow> l1_message set) \<Rightarrow> bool" where
  "mints_add lib bal spent \<longleftrightarrow>
     (\<forall>c tk to m l l'. mint_to_public lib c tk to m l = Inr l' \<or> mint_to_private lib c tk to m l = Inr l' \<longrightarrow>
        spent l' = spent l \<and> (\<forall>b x. bal l' b x = bal l b x + (if b = tk \<and> x = to then uint m else 0)))"

definition burns_take ::
    "'l bridge_lib \<Rightarrow> ('l \<Rightarrow> field \<Rightarrow> field \<Rightarrow> int) \<Rightarrow> ('l \<Rightarrow> l1_message set) \<Rightarrow> bool" where
  "burns_take lib bal spent \<longleftrightarrow>
     (\<forall>c tk f m n l l'. burn_public lib c tk f m n l = Inr l' \<or> burn_private lib c tk f m n l = Inr l' \<longrightarrow>
        spent l' = spent l \<and> (\<forall>b x. bal l' b x = bal l b x - (if b = tk \<and> x = f then uint m else 0))) \<and>
     (\<forall>t p c l. bal (message_portal lib t p c l) = bal l \<and> spent (message_portal lib t p c l) = spent l)"

section \<open>Facts\<close>

lemma get_config_Inr: "get_config storage = Inr c \<longleftrightarrow> storage = Some c"
  by (simp add: get_config_def split: option.split)

lemma claim_public_Inr:
  "claim_public lib this storage to amount secret leaf l = Inr l' \<longleftrightarrow> (\<exists>c l1. storage = Some c \<and>
     consume_message lib (claim_message this c (mint_to_public_content lib to amount) secret leaf) l = Inr l1 \<and>
     mint_to_public lib this (brc_token c) to amount l1 = Inr l')"
  by (auto simp: claim_public_def and_then_Inr_iff get_config_Inr Let_def)

lemma claim_private_Inr:
  "claim_private lib this storage r amount secret leaf l = Inr l' \<longleftrightarrow> (\<exists>c l1. storage = Some c \<and>
     consume_message lib (claim_message this c (mint_to_private_content lib amount) secret leaf) l = Inr l1 \<and>
     mint_to_private lib this (brc_token c) r amount l1 = Inr l')"
  by (auto simp: claim_private_def and_then_Inr_iff get_config_Inr Let_def)

lemma consumed_once:
  "messages_consumed_once lib bal spent \<Longrightarrow> consume_message lib m l = Inr l' \<Longrightarrow>
     m \<notin> spent l \<and> spent l' = insert m (spent l) \<and> bal l' = bal l"
  unfolding messages_consumed_once_def by blast

lemma minted_private:
  "mints_add lib bal spent \<Longrightarrow> mint_to_private lib c tk to m l = Inr l' \<Longrightarrow>
     spent l' = spent l \<and> bal l' b x = bal l b x + (if b = tk \<and> x = to then uint m else 0)"
  unfolding mints_add_def by blast

lemma minted_public:
  "mints_add lib bal spent \<Longrightarrow> mint_to_public lib c tk to m l = Inr l' \<Longrightarrow>
     spent l' = spent l \<and> bal l' b x = bal l b x + (if b = tk \<and> x = to then uint m else 0)"
  unfolding mints_add_def by blast

lemma claim_private_effect:
  assumes "messages_consumed_once lib bal spent" "mints_add lib bal spent"
    and "claim_private lib this (Some c) r amount secret leaf l = Inr l'"
  shows "claim_message this c (mint_to_private_content lib amount) secret leaf \<notin> spent l"
    "spent l' = insert (claim_message this c (mint_to_private_content lib amount) secret leaf) (spent l)"
    "bal l' b x = bal l b x + (if b = brc_token c \<and> x = r then uint amount else 0)"
  using assms(3) consumed_once [OF assms(1)] minted_private [OF assms(2)]
  by (fastforce simp: claim_private_Inr)+

lemma claim_public_effect:
  assumes "messages_consumed_once lib bal spent" "mints_add lib bal spent"
    and "claim_public lib this (Some c) to amount secret leaf l = Inr l'"
  shows "claim_message this c (mint_to_public_content lib to amount) secret leaf \<notin> spent l"
    "spent l' = insert (claim_message this c (mint_to_public_content lib to amount) secret leaf) (spent l)"
    "bal l' b x = bal l b x + (if b = brc_token c \<and> x = to then uint amount else 0)"
  using assms(3) consumed_once [OF assms(1)] minted_public [OF assms(2)]
  by (fastforce simp: claim_public_Inr)+

text \<open>A token bridge is a bridge as the fee payment contract needs it.\<close>

lemma token_bridges_mint:
  assumes "messages_consumed_once lib bal spent" "mints_add lib bal spent"
  shows "claims_mint (with_token_bridges lib bridges env) bal (bridge_token bridges)"
  unfolding claims_mint_def
proof (intro allI impI)
  fix c br r m s i l l' b x
  assume "bridge_claim (with_token_bridges lib bridges env) c br r m s i l = Inr l'"
  then have run: "claim_private lib br (bridges br) r m s i l = Inr l'" by (simp add: with_token_bridges_def)
  then obtain cf where cf: "bridges br = Some cf" by (auto simp: claim_private_Inr)
  with run claim_private_effect(3) [OF assms, of br cf r m s i l l' b x]
  show "bal l' b x = bal l b x + (if b = bridge_token bridges br \<and> x = r then uint m else 0)"
    by (simp add: bridge_token_def)
qed

text \<open>An exit takes the amount from the caller; in private only in the token of the bridge.\<close>

lemma exit_public_effect:
  assumes "burns_take lib bal spent"
    and "exit_to_l1_public lib this sender (Some c) recipient amount caller nonce l = Inr l'"
  shows "bal l' b x = bal l b x - (if b = brc_token c \<and> x = sender then uint amount else 0)" "spent l' = spent l"
  using assms unfolding burns_take_def
  by (fastforce simp: exit_to_l1_public_def get_config_def)+

lemma exit_private_effect:
  assumes "burns_take lib bal spent"
    and "exit_to_l1_private lib this sender (Some c) token recipient amount caller nonce l = Inr l'"
  shows "token = brc_token c"
    "bal l' b x = bal l b x - (if b = brc_token c \<and> x = sender then uint amount else 0)" "spent l' = spent l"
  using assms unfolding burns_take_def
  by (fastforce simp: exit_to_l1_private_def get_config_def and_then_Inr_iff)+

definition transfers_keep_messages :: "'l fpc_env \<Rightarrow> ('l \<Rightarrow> l1_message set) \<Rightarrow> bool" where
  "transfers_keep_messages env spent \<longleftrightarrow>
     (\<forall>c a f t m n l l'. token_transfer env c a f t m n l = Inr l' \<longrightarrow> spent l' = spent l)"

lemma cold_start_app_message:
  assumes laws: "messages_consumed_once lib bal spent" "mints_add lib bal spent" "transfers_keep_messages env spent"
    and br: "bridges br = Some c"
    and run: "cold_start_app (with_token_bridges lib bridges env) cfg user asset br claim sec leaf aa ctx l = Inr l'"
  shows "claim_message br c (mint_to_private_content lib claim) sec leaf \<notin> spent l \<and>
    claim_message br c (mint_to_private_content lib claim) sec leaf \<in> spent l'"
proof -
  let ?fpc = "this_address ctx"
  have keep: "token_transfer env d a f t m n x = Inr y \<Longrightarrow> spent y = spent x" for d a f t m n x y
    using laws(3) unfolding transfers_keep_messages_def by blast
  from run br obtain l1 l2 where c: "claim_private lib br (Some c) ?fpc claim sec leaf l = Inr l1"
    and u: "(if 0 < claim - aa then token_transfer env ?fpc asset ?fpc user (claim - aa) 0 l1 else Inr l1) = Inr l2"
    and o: "token_transfer env ?fpc asset ?fpc (operator cfg) aa 0 l2 = Inr l'"
    by (auto simp: cold_start_app_def and_then_Inr_iff Let_def cong: if_cong)
  have "spent l2 = spent l1" using u keep by (auto split: if_splits)
  with keep [OF o] claim_private_effect(1,2) [OF laws(1,2) c] show ?thesis by simp
qed

text \<open>A ledger of balances and consumed messages on which every message has arrived.\<close>

type_synonym demo_ledger = "(field \<Rightarrow> field \<Rightarrow> int) \<times> l1_message set"

definition demo_add :: "field \<Rightarrow> field \<Rightarrow> int \<Rightarrow> demo_ledger \<Rightarrow> demo_ledger" where
  "demo_add b x m l = ((\<lambda>b' x'. fst l b' x' + (if b' = b \<and> x' = x then m else 0)), snd l)"

definition demo_bridge_lib :: "demo_ledger bridge_lib" where
  "demo_bridge_lib = \<lparr>mint_to_public_content = (\<lambda>to m. 2 * uint m + to), mint_to_private_content = (\<lambda>m. uint m),
     withdraw_content = (\<lambda>r m c. uint m),
     consume_message = (\<lambda>m l. if m \<in> snd l then Inl (error ''Existing nullifier'') else Inr (fst l, insert m (snd l))),
     message_portal = (\<lambda>_ _ _ l. l),
     mint_to_public = (\<lambda>c tk to m l. Inr (demo_add tk to (uint m) l)),
     mint_to_private = (\<lambda>c tk to m l. Inr (demo_add tk to (uint m) l)),
     burn_public = (\<lambda>c tk f m n l. Inr (demo_add tk f (- uint m) l)),
     burn_private = (\<lambda>c tk f m n l. Inr (demo_add tk f (- uint m) l))\<rparr>"

definition demo_bridged_env :: "demo_ledger fpc_env" where
  "demo_bridged_env = \<lparr>authwit_hash = authwit_hash demo_fpc_env, assert_valid_signature = (\<lambda>_ _ _. Inr ()),
     token_transfer = (\<lambda>c a f t m n l. if uint m \<le> fst l a f
        then Inr (demo_add a t (uint m) (demo_add a f (- uint m) l)) else Inl (error ''Balance too low'')),
     bridge_claim = (\<lambda>_ _ _ _ _ _ _. Inl (error ''no bridge''))\<rparr>"

definition demo_bridges :: "field \<Rightarrow> bridge_config option" where
  "demo_bridges br = (if br = 8 then Some \<lparr>brc_token = 7, brc_portal = 20\<rparr> else None)"

lemma demo_bridge_laws:
  "transfers_move demo_bridged_env fst" "messages_consumed_once demo_bridge_lib fst snd"
  "mints_add demo_bridge_lib fst snd" "burns_take demo_bridge_lib fst snd" "transfers_keep_messages demo_bridged_env snd"
  by (auto simp: transfers_move_def messages_consumed_once_def mints_add_def burns_take_def transfers_keep_messages_def
      demo_bridged_env_def demo_bridge_lib_def demo_add_def fun_eq_iff split: if_splits)

section \<open>Properties\<close>

text \<open>
  C14. A cold start through the token bridge of the accepted asset pays out the deposit and uses it
  up. With the documented behaviour of the token and of the messages from L1, an accepted
  call of \<open>cold_start_entrypoint\<close> credits the user with the claim less the quoted amount and the
  operator with the quoted amount, leaves the contract's own balance unchanged, and has
  consumed the message of the deposit: it was not consumed before, and from then on no claim of
  the same deposit succeeds, for any recipient, neither directly nor in another cold start.
\<close>

theorem cold_start_uses_up_deposit:
  assumes "transfers_move env bal" "transfers_keep_messages env spent"
    and "messages_consumed_once lib bal spent" "mints_add lib bal spent"
    and "bridges br = Some c" "brc_token c = asset"
    and "cold_start_entrypoint (with_token_bridges lib bridges env) storage user asset br claim sec sh leaf fj aa until
      sig ctx l = Inr (ctx', l')"
  shows "(\<exists>cfg. storage = Some cfg \<and>
      (\<forall>x. bal l' asset x = bal l asset x + (if x = user then uint claim - uint aa else 0) +
         (if x = operator cfg then uint aa else 0))) \<and>
    claim_message br c (mint_to_private_content lib claim) sec leaf \<notin> spent l \<and>
    (\<forall>later r l2. spent l' \<subseteq> spent later \<longrightarrow> claim_private lib br (bridges br) r claim sec leaf later \<noteq> Inr l2) \<and>
    (\<forall>later storage2 user2 sh2 fj2 aa2 until2 sig2 ctx2 r. spent l' \<subseteq> spent later \<longrightarrow>
      cold_start_entrypoint (with_token_bridges lib bridges env) storage2 user2 asset br claim sec sh2 leaf fj2 aa2 until2
        sig2 ctx2 later \<noteq> Inr r)"
proof -
  let ?env = "with_token_bridges lib bridges env"
  let ?m = "claim_message br c (mint_to_private_content lib claim) sec leaf"
  from assms(7) obtain cfg where s: "cold_start_setup ?env storage user asset claim sh fj aa until sig ctx = Inr (cfg, ctx')"
    and a: "cold_start_app ?env cfg user asset br claim sec leaf aa ctx' l = Inr l'" unfolding cold_start_parts by blast
  from s have cfg: "storage = Some cfg" "aa \<le> claim" by (auto simp: cold_start_setup_iff Let_def)
  have "transfers_move ?env bal" using assms(1) by (simp add: transfers_move_def with_token_bridges_def)
  from cold_start_app_balances [OF this token_bridges_mint [OF assms(3,4)] cfg(2) a, of asset] assms(5,6)
  have bal: "\<forall>x. bal l' asset x = bal l asset x + (if x = user then uint claim - uint aa else 0) +
      (if x = operator cfg then uint aa else 0)"
    by (auto simp: bridge_token_def)
  have m: "?m \<notin> spent l" "?m \<in> spent l'" using cold_start_app_message [of lib bal spent env bridges br c, OF assms(3,4,2,5) a] by auto
  have again: "cold_start_entrypoint ?env storage2 user2 asset br claim sec sh2 leaf fj2 aa2 until2 sig2 ctx2 later \<noteq> Inr r"
    if "spent l' \<subseteq> spent later" for later storage2 user2 sh2 fj2 aa2 until2 sig2 ctx2 r
  proof
    assume "cold_start_entrypoint ?env storage2 user2 asset br claim sec sh2 leaf fj2 aa2 until2 sig2 ctx2 later = Inr r"
    moreover obtain ctx3 l3 where "r = (ctx3, l3)" by (cases r)
    ultimately obtain cfg3 where "cold_start_app ?env cfg3 user2 asset br claim sec leaf aa2 ctx3 later = Inr l3"
      by (auto simp: cold_start_parts)
    from cold_start_app_message [of lib bal spent env bridges br c, OF assms(3,4,2,5) this] m(2) that show False by blast
  qed
  have "claim_private lib br (bridges br) r claim sec leaf later \<noteq> Inr l2" if "spent l' \<subseteq> spent later" for later r l2
    using m(2) that claim_private_effect(1) [OF assms(3,4), of br c r claim sec leaf later l2] assms(5) by auto
  with again cfg(1) bal m(1) show ?thesis by blast
qed

lemma cold_start_uses_up_deposit_witness:
  "\<exists>ctx' l'. cold_start_entrypoint (with_token_bridges demo_bridge_lib demo_bridges demo_bridged_env) (Some demo_fpc_config)
      9 7 8 2000 1 11 0 1000 600 1600 [] (demo_ctx None) ((\<lambda>_ _. 0), {}) = Inr (ctx', l') \<and>
    fst l' 7 9 = 1400 \<and> fst l' 7 4 = 600 \<and> fst l' 7 5 = 0 \<and>
    (\<forall>r l2. claim_private demo_bridge_lib 8 (demo_bridges 8) r 2000 1 0 l' \<noteq> Inr l2)"
proof -
  let ?env = "with_token_bridges demo_bridge_lib demo_bridges demo_bridged_env"
  let ?run = "cold_start_entrypoint ?env (Some demo_fpc_config) 9 7 8 2000 1 11 0 1000 600 1600 [] (demo_ctx None) ((\<lambda>_ _. 0), {})"
  have "cold_start_setup ?env (Some demo_fpc_config) 9 7 2000 11 1000 600 1600 [] (demo_ctx None) =
      Inr (demo_fpc_config, close_setup (set_as_fee_payer (with_quote
        (authwit_hash demo_fpc_env (cold_start_preimage 5 7 1000 600 1600 9 2000 11)) 1600 (demo_ctx None))))"
    using demo_cold_start_setup [of "[]"]
    by (simp add: cold_start_setup_iff Let_def with_token_bridges_def demo_bridged_env_def)
  then have "\<not> isl ?run"
    by (simp add: cold_start_entrypoint_def cold_start_app_def with_token_bridges_def claim_private_def demo_bridges_def
        get_config_def)
      (simp add: demo_bridged_env_def demo_bridge_lib_def demo_add_def demo_ctx_def demo_fpc_config_def)
  then obtain ctx' l' where run: "?run = Inr (ctx', l')" by (cases ?run) auto
  from cold_start_uses_up_deposit [OF demo_bridge_laws(1,5,2,3) _ _ run, of "\<lparr>brc_token = 7, brc_portal = 20\<rparr>"]
  have "(fst l' 7 9 = 1400 \<and> fst l' 7 4 = 600 \<and> fst l' 7 5 = 0) \<and>
      (\<forall>later r l2. snd l' \<subseteq> snd later \<longrightarrow> claim_private demo_bridge_lib 8 (demo_bridges 8) r 2000 1 0 later \<noteq> Inr l2)"
    by (simp add: demo_bridges_def demo_fpc_config_def)
  then have "fst l' 7 9 = 1400 \<and> fst l' 7 4 = 600 \<and> fst l' 7 5 = 0 \<and>
      (\<forall>r l2. claim_private demo_bridge_lib 8 (demo_bridges 8) r 2000 1 0 l' \<noteq> Inr l2)"
    by blast
  with run show ?thesis by blast
qed

end
