(* ===== verification/Smoke_Test.thy ===== *)
theory Smoke_Test
  imports Script_Args Deploy_Manifest Fpc_Contract Attest_Server
begin

text \<open>
  The smoke test of a deployment, \<open>scripts/contract/devnet-postdeploy-smoke.ts\<close>: its arguments,
  the check that key, chain and contracts are those of the manifest, the bridge of Fee Juice to
  the contract, and one transaction whose fee is paid through \<open>fee_entrypoint\<close> with a quote that
  the test signs itself.

  Node, wallet, L1 clients, signer and the files are fields of \<open>smoke_env\<close>. The wait for the
  bridged balance is a partial function, \<open>None\<close> being a run that never ends.
\<close>

section \<open>Arguments\<close>

definition cli_error :: "string \<Rightarrow> thrown" where
  "cli_error m = Thrown ''CliError'' m"

definition funding_failure :: "string \<Rightarrow> thrown" where
  "funding_failure m = Thrown ''FundingRuntimeFailure'' m"

definition operator_key_mismatch :: "string \<Rightarrow> thrown" where
  "operator_key_mismatch m = Thrown ''OperatorKeyMismatchError'' m"

text \<open>Relative to the root of the repository.\<close>

definition DEFAULT_MANIFEST_PATH :: string where
  "DEFAULT_MANIFEST_PATH = ''deployments/manifest.json''"

definition DEFAULT_LOCAL_L1_PRIVATE_KEY :: string where
  "DEFAULT_LOCAL_L1_PRIVATE_KEY = ''0xac0974bec39a17e36ba4a6b4d238ff944bacb478cbed5efcae784d7bf4f2ff80''"

record smoke_values =
  sv_manifest_path :: string
  sv_test_token_manifest_path :: string
  sv_l1_rpc_url_raw :: string
  sv_operator_secret_key :: "string option"
  sv_l1_operator_private_key :: "string option"
  sv_node_ready_timeout_ms :: int
  sv_bridge_wait_timeout_ms :: int
  sv_bridge_poll_ms :: int
  sv_quote_ttl_seconds :: int
  sv_da_gas_limit :: int
  sv_l2_gas_limit :: int
  sv_topup_safety_multiplier :: int
  sv_fpc_rate_num :: int
  sv_fpc_rate_den :: int
  sv_fpc_topup_wei_override_raw :: "string option"

record smoke_args =
  sa_manifest_path :: string
  sa_test_token_manifest_path :: string
  sa_l1_rpc_url :: string
  sa_operator_secret_key :: "string option"
  sa_l1_operator_private_key :: "string option"
  sa_node_ready_timeout_ms :: int
  sa_bridge_wait_timeout_ms :: int
  sa_bridge_poll_ms :: int
  sa_quote_ttl_seconds :: int
  sa_da_gas_limit :: int
  sa_l2_gas_limit :: int
  sa_topup_safety_multiplier :: int
  sa_fpc_rate_num :: int
  sa_fpc_rate_den :: int
  sa_fpc_topup_wei_override :: "int option"

text \<open>\<open>sm_sibling\<close> is \<open>path.join(path.dirname(p), name)\<close>.\<close>

record smoke_platform =
  sm_platform :: script_platform
  sm_sibling :: "string \<Rightarrow> string \<Rightarrow> string"

definition parse_http_url :: "script_platform \<Rightarrow> string \<Rightarrow> string \<Rightarrow> thrown + string" where
  "parse_http_url p field value =
     http_url_or p (cli_error (''Invalid '' @ field @ '': expected URL''))
       (cli_error (''Invalid '' @ field @ '': expected http(s) URL'')) value"

definition parse_positive_integer :: "string \<Rightarrow> string \<Rightarrow> thrown + int" where
  "parse_positive_integer field value =
     (let e = cli_error (''Invalid '' @ field @ '': expected positive integer'') in positive_int_or e e value)"

definition parse_positive_big_int :: "string \<Rightarrow> string \<Rightarrow> thrown + int" where
  "parse_positive_big_int field value =
     (let normalized = js_trim value in
      if \<not> uint_decimal normalized then Inl (cli_error (''Invalid '' @ field @ '': expected positive integer''))
      else if dec_value normalized \<le> 0 then Inl (cli_error (''Invalid '' @ field @ '': expected value > 0''))
      else Inr (dec_value normalized))"

definition parse_hex32 :: "string \<Rightarrow> string \<Rightarrow> thrown + string" where
  "parse_hex32 field value = (if hex_word 64 value then Inr value
     else Inl (cli_error (''Invalid '' @ field @ '': expected 32-byte 0x-prefixed hex value'')))"

definition env_or :: "script_platform \<Rightarrow> string \<Rightarrow> string \<Rightarrow> string" where
  "env_or p name fallback = (case parse_optional_env p name of Some v \<Rightarrow> v | None \<Rightarrow> fallback)"

definition initial_smoke_values :: "smoke_platform \<Rightarrow> thrown + smoke_values" where
  "initial_smoke_values sp =
     (let p = sm_platform sp; env = parse_optional_env p;
          int_env = (\<lambda>name fallback. parse_positive_integer name (env_or p name fallback));
          big_env = (\<lambda>name fallback. parse_positive_big_int name (env_or p name fallback));
          manifest = env_or p ''FPC_DEVNET_SMOKE_MANIFEST'' DEFAULT_MANIFEST_PATH in
      and_then (int_env ''FPC_DEVNET_SMOKE_NODE_READY_TIMEOUT_MS'' ''45000'') (\<lambda>node_ready.
      and_then (int_env ''FPC_DEVNET_SMOKE_BRIDGE_WAIT_TIMEOUT_MS'' ''240000'') (\<lambda>bridge_wait.
      and_then (int_env ''FPC_DEVNET_SMOKE_BRIDGE_POLL_MS'' ''2000'') (\<lambda>poll.
      and_then (big_env ''FPC_DEVNET_SMOKE_QUOTE_TTL_SECONDS'' ''3600'') (\<lambda>ttl.
      and_then (int_env ''FPC_DEVNET_SMOKE_DA_GAS_LIMIT'' ''200000'') (\<lambda>da.
      and_then (int_env ''FPC_DEVNET_SMOKE_L2_GAS_LIMIT'' ''1000000'') (\<lambda>l2.
      and_then (big_env ''FPC_DEVNET_SMOKE_TOPUP_SAFETY_MULTIPLIER'' ''5'') (\<lambda>multiplier.
      and_then (big_env ''FPC_DEVNET_SMOKE_FPC_RATE_NUM'' ''10200'') (\<lambda>num.
      and_then (big_env ''FPC_DEVNET_SMOKE_FPC_RATE_DEN'' ''10000000'') (\<lambda>den.
      Inr \<lparr>sv_manifest_path = manifest,
           sv_test_token_manifest_path = (case env ''FPC_TEST_TOKEN_MANIFEST'' of
              Some v \<Rightarrow> v | None \<Rightarrow> sm_sibling sp manifest ''test-token-manifest.json''),
           sv_l1_rpc_url_raw = (case or_else (env ''FPC_DEVNET_L1_RPC_URL'') (env ''L1_RPC_URL'') of
              Some v \<Rightarrow> v | None \<Rightarrow> ''http://127.0.0.1:8545''),
           sv_operator_secret_key = env ''FPC_OPERATOR_SECRET_KEY'',
           sv_l1_operator_private_key = env ''L1_OPERATOR_PRIVATE_KEY'',
           sv_node_ready_timeout_ms = node_ready, sv_bridge_wait_timeout_ms = bridge_wait, sv_bridge_poll_ms = poll,
           sv_quote_ttl_seconds = ttl, sv_da_gas_limit = da, sv_l2_gas_limit = l2,
           sv_topup_safety_multiplier = multiplier, sv_fpc_rate_num = num, sv_fpc_rate_den = den,
           sv_fpc_topup_wei_override_raw = env ''FPC_DEVNET_SMOKE_FPC_TOPUP_WEI''\<rparr>))))))))))"

definition smoke_flags :: "script_platform \<Rightarrow> string \<Rightarrow> smoke_values flag option" where
  "smoke_flags p arg =
     (let set = (\<lambda>f. Some (TakesValue (\<lambda>v a. Inr (f v a))));
          hex = (\<lambda>f. Some (TakesValue (\<lambda>v a. map_sum id (\<lambda>k. f (\<lambda>_. Some k) a) (parse_hex32 arg v))));
          num = (\<lambda>f. Some (TakesValue (\<lambda>v a. map_sum id (\<lambda>n. f (\<lambda>_. n) a) (parse_positive_integer arg v))));
          big = (\<lambda>f. Some (TakesValue (\<lambda>v a. map_sum id (\<lambda>n. f (\<lambda>_. n) a) (parse_positive_big_int arg v)))) in
      if arg = ''--manifest'' then set (\<lambda>v a. a\<lparr>sv_manifest_path := sp_resolve p v\<rparr>)
      else if arg = ''--l1-rpc-url'' then set (\<lambda>v a. a\<lparr>sv_l1_rpc_url_raw := v\<rparr>)
      else if arg = ''--operator-secret-key'' then hex sv_operator_secret_key_update
      else if arg = ''--l1-operator-private-key'' then hex sv_l1_operator_private_key_update
      else if arg = ''--node-ready-timeout-ms'' then num sv_node_ready_timeout_ms_update
      else if arg = ''--bridge-wait-timeout-ms'' then num sv_bridge_wait_timeout_ms_update
      else if arg = ''--bridge-poll-ms'' then num sv_bridge_poll_ms_update
      else if arg = ''--quote-ttl-seconds'' then big sv_quote_ttl_seconds_update
      else if arg = ''--da-gas-limit'' then num sv_da_gas_limit_update
      else if arg = ''--l2-gas-limit'' then num sv_l2_gas_limit_update
      else if arg = ''--topup-safety-multiplier'' then big sv_topup_safety_multiplier_update
      else if arg = ''--fpc-rate-num'' then big sv_fpc_rate_num_update
      else if arg = ''--fpc-rate-den'' then big sv_fpc_rate_den_update
      else if arg = ''--fpc-topup-wei'' then set (\<lambda>v a. a\<lparr>sv_fpc_topup_wei_override_raw := Some v\<rparr>)
      else if arg = ''--help'' \<or> arg = ''-h'' then Some Help
      else None)"

text \<open>\<open>v ? f(v) : null\<close>.\<close>

definition if_given :: "(string \<Rightarrow> thrown + 'a) \<Rightarrow> string option \<Rightarrow> thrown + 'a option" where
  "if_given f v = (if is_set v then map_sum id Some (f (the v)) else Inr None)"

definition finish_smoke_args :: "script_platform \<Rightarrow> smoke_values \<Rightarrow> thrown + smoke_args" where
  "finish_smoke_args p a =
     and_then (require_that (sv_fpc_rate_den a \<noteq> 0) (cli_error ''Rate denominator cannot be zero'')) (\<lambda>_.
     and_then (parse_http_url p ''l1-rpc-url'' (sv_l1_rpc_url_raw a)) (\<lambda>rpc.
     and_then (if_given (parse_hex32 ''operator-secret-key'') (sv_operator_secret_key a)) (\<lambda>operator_key.
     and_then (if_given (parse_hex32 ''l1-operator-private-key'') (sv_l1_operator_private_key a)) (\<lambda>l1_key.
     and_then (if_given (parse_positive_big_int ''fpc-topup-wei'') (sv_fpc_topup_wei_override_raw a)) (\<lambda>topup.
     Inr \<lparr>sa_manifest_path = sp_resolve p (sv_manifest_path a),
          sa_test_token_manifest_path = sp_resolve p (sv_test_token_manifest_path a), sa_l1_rpc_url = rpc,
          sa_operator_secret_key = operator_key, sa_l1_operator_private_key = l1_key,
          sa_node_ready_timeout_ms = sv_node_ready_timeout_ms a, sa_bridge_wait_timeout_ms = sv_bridge_wait_timeout_ms a,
          sa_bridge_poll_ms = sv_bridge_poll_ms a, sa_quote_ttl_seconds = sv_quote_ttl_seconds a,
          sa_da_gas_limit = sv_da_gas_limit a, sa_l2_gas_limit = sv_l2_gas_limit a,
          sa_topup_safety_multiplier = sv_topup_safety_multiplier a, sa_fpc_rate_num = sv_fpc_rate_num a,
          sa_fpc_rate_den = sv_fpc_rate_den a, sa_fpc_topup_wei_override = topup\<rparr>)))))"

definition parse_smoke_args :: "smoke_platform \<Rightarrow> string list \<Rightarrow> thrown + smoke_args option" where
  "parse_smoke_args sp argv =
     and_then (initial_smoke_values sp) (\<lambda>a0.
     and_then (parse_flags (smoke_flags (sm_platform sp)) cli_error argv a0) (\<lambda>r.
     case r of None \<Rightarrow> Inr None | Some a \<Rightarrow> map_sum id Some (finish_smoke_args (sm_platform sp) a)))"

section \<open>The outside world\<close>

text \<open>
  A field of the addresses in the node's info: missing, a falsy value, a text, an object with
  its \<open>toString()\<close>, or any other value.
\<close>

datatype node_address = NoAddress | FalsyAddress | AddressText string | AddressObject string | OtherAddress

text \<open>An event log: its contract and, when it decodes, the event's name, key and index.\<close>

record l1_log =
  log_address :: string
  log_event :: "(string \<times> string \<times> int) option"

text \<open>The transaction of the test: a call of \<open>fee_entrypoint\<close> and the gas settings under which it is sent.\<close>

record smoke_payment =
  py_fpc :: int
  py_token :: int
  py_user :: int
  py_nonce :: int
  py_fj_amount :: int
  py_aa_amount :: int
  py_valid_until :: int
  py_sig :: "nat list"
  py_da_gas_limit :: int
  py_l2_gas_limit :: int
  py_fee_per_da_gas :: int
  py_fee_per_l2_gas :: int

record 'w smoke_env =
  se_platform :: smoke_platform
  se_manifest_lib :: manifest_lib
  se_files :: files
  se_signing_key :: "int \<Rightarrow> int"
  se_public_key :: "int \<Rightarrow> int \<times> int"
  se_wait_node :: "string \<Rightarrow> int \<Rightarrow> ('w, bool) ioe"
  se_create_wallet :: "string \<Rightarrow> ('w, unit) ioe"
  se_create_account :: "int \<Rightarrow> int \<Rightarrow> int \<Rightarrow> ('w, int) ioe"
  se_l1_chain_id :: "string \<Rightarrow> ('w, int) ioe"
  se_create_l1_wallet :: "string \<Rightarrow> string \<Rightarrow> int \<Rightarrow> ('w, unit) ioe"
  se_get_contract :: "int \<Rightarrow> ('w, bool) ioe"
  se_register_contract :: "int \<Rightarrow> ('w, unit) ioe"
  se_min_fees :: "('w, int \<times> int) ioe"
  se_node_addresses :: "('w, string \<Rightarrow> node_address) ioe"
  se_fee_juice_balance :: "int \<Rightarrow> ('w, int) ioe"
  se_random_fr :: "('w, int) ioe"
  se_secret_hash :: "int \<Rightarrow> ('w, int) ioe"
  se_approve :: "string \<Rightarrow> string \<Rightarrow> int \<Rightarrow> ('w, string) ioe"
  se_deposit :: "string \<Rightarrow> string \<Rightarrow> int \<Rightarrow> string \<Rightarrow> ('w, string) ioe"
  se_wait_receipt :: "string \<Rightarrow> ('w, l1_log list) ioe"
  se_wait_message :: "int \<Rightarrow> int \<Rightarrow> ('w, unit) ioe"
  se_claim :: "int \<Rightarrow> int \<Rightarrow> int \<Rightarrow> int \<Rightarrow> int \<Rightarrow> ('w, unit) ioe"
  se_now :: "'w \<Rightarrow> int"
  se_sleep :: "int \<Rightarrow> 'w \<Rightarrow> 'w"
  se_drip :: "int \<Rightarrow> int \<Rightarrow> ('w, unit) ioe"
  se_shield :: "int \<Rightarrow> int \<Rightarrow> int \<Rightarrow> ('w, unit) ioe"
  se_latest_timestamp :: "('w, int option) ioe"
  se_construct_signature :: "nat list \<Rightarrow> int \<Rightarrow> ('w, nat list) ioe"
  se_create_authwit :: "int \<Rightarrow> int \<Rightarrow> int \<Rightarrow> int \<Rightarrow> int \<Rightarrow> ('w, unit) ioe"
  se_send_paid_transfer :: "smoke_payment \<Rightarrow> ('w, int) ioe"

text \<open>
  \<open>se_wait_node\<close> is the race of \<open>waitForNode\<close> with the timeout, which gives \<open>False\<close>.
  \<open>se_deposit\<close> takes portal, recipient, amount and secret hash, \<open>se_claim\<close> recipient, amount,
  secret, leaf and sender, \<open>se_shield\<close> token, account and amount, \<open>se_create_authwit\<close> account,
  caller, token, amount and nonce of the transfer to the account itself. \<open>se_send_paid_transfer\<close>
  draws the nonce of its public transfer and gives the transaction's fee.
\<close>

abbreviation se_lib :: "'w smoke_env \<Rightarrow> aztec_lib" where
  "se_lib env \<equiv> ml_lib (se_manifest_lib env)"

section \<open>Top-up of the fee payer\<close>

definition coalesce :: "node_address \<Rightarrow> node_address \<Rightarrow> node_address" where
  "coalesce a b = (if a = NoAddress then b else a)"

definition address_missing :: "node_address \<Rightarrow> bool" where
  "address_missing a \<longleftrightarrow> a \<in> {NoAddress, FalsyAddress, AddressText []}"

fun normalize_eth_address :: "node_address \<Rightarrow> string \<Rightarrow> thrown + string" where
  "normalize_eth_address value field =
     (let invalid = ''Invalid L1 address in node info for '' @ field;
          check = (\<lambda>candidate. if \<not> hex_word 40 candidate \<or> zeros (drop 2 candidate)
            then Inl (funding_failure (invalid @ '': '' @ candidate)) else Inr candidate) in
      case value of
        AddressText s \<Rightarrow> check s
      | AddressObject s \<Rightarrow> check s
      | _ \<Rightarrow> Inl (funding_failure invalid))"

text \<open>\<open>s.replace(p, "")\<close> and \<open>s.padStart(n, "0")\<close>.\<close>

fun drop_first :: "string \<Rightarrow> string \<Rightarrow> string" where
  "drop_first p [] = []"
| "drop_first p (c # s) = (if starts_with (c # s) p then drop (length p) (c # s) else c # drop_first p s)"

definition pad_start :: "nat \<Rightarrow> string \<Rightarrow> string" where
  "pad_start n s = replicate (n - length s) (CHR ''0'') @ s"

definition recipient_bytes32 :: "aztec_lib \<Rightarrow> int \<Rightarrow> string" where
  "recipient_bytes32 lib a = ''0x'' @ pad_start 64 (drop_first ''0x'' (address_to_string lib a))"

text \<open>
  The loop over the logs of the receipt. The index is kept even when the key of its log does
  not read as a field element, and the loop goes on.
\<close>

fun find_deposit :: "aztec_lib \<Rightarrow> string \<Rightarrow> l1_log list \<Rightarrow> int option \<Rightarrow> int option \<times> int option" where
  "find_deposit lib portal [] index = (index, None)"
| "find_deposit lib portal (l # ls) index =
     (if js_lower (log_address l) \<noteq> js_lower portal then find_deposit lib portal ls index
      else case log_event l of
        None \<Rightarrow> find_deposit lib portal ls index
      | Some (name, key, i) \<Rightarrow>
          if name \<noteq> ''DepositToAztecPublic'' then find_deposit lib portal ls index
          else (case fr_from_hex lib key of
              Inl _ \<Rightarrow> find_deposit lib portal ls (Some i)
            | Inr h \<Rightarrow> (Some i, Some h)))"

definition deposited_message :: "aztec_lib \<Rightarrow> string \<Rightarrow> string \<Rightarrow> l1_log list \<Rightarrow> thrown + int \<times> int" where
  "deposited_message lib label portal logs = (case find_deposit lib portal logs None of
     (Some i, Some h) \<Rightarrow> Inr (i, h)
   | _ \<Rightarrow> Inl (funding_failure (''Could not decode DepositToAztecPublic event for '' @ label @ '' bridge'')))"

partial_function (option) wait_for_balance_loop ::
    "'w smoke_env \<Rightarrow> int \<Rightarrow> int \<Rightarrow> int \<Rightarrow> int \<Rightarrow> int \<Rightarrow> 'w \<Rightarrow> ((thrown + int) \<times> 'w) option" where
  "wait_for_balance_loop env payer minimum deadline poll_ms latest w =
     (if se_now env w \<le> deadline
      then case se_fee_juice_balance env payer w of
        (Inl e, w1) \<Rightarrow> Some (Inl e, w1)
      | (Inr balance, w1) \<Rightarrow>
          if minimum \<le> balance then Some (Inr balance, w1)
          else wait_for_balance_loop env payer minimum deadline poll_ms balance (se_sleep env poll_ms w1)
      else Some (Inl (funding_failure (''Timed out waiting for FeeJuice balance on '' @ address_to_string (se_lib env) payer @
          '' to reach '' @ bigint_string minimum @ '' (latest='' @ bigint_string latest @ '')'')), w))"

definition wait_for_fee_juice_balance_at_least ::
    "'w smoke_env \<Rightarrow> int \<Rightarrow> int \<Rightarrow> int \<Rightarrow> int \<Rightarrow> 'w \<Rightarrow> ((thrown + int) \<times> 'w) option" where
  "wait_for_fee_juice_balance_at_least env payer minimum timeout_ms poll_ms w =
     wait_for_balance_loop env payer minimum (se_now env w + timeout_ms) poll_ms 0 w"

fun is_funding_failure :: "thrown \<Rightarrow> bool" where
  "is_funding_failure (Thrown n m) \<longleftrightarrow> n = ''FundingRuntimeFailure''"
| "is_funding_failure (ThrownValue s) \<longleftrightarrow> False"

text \<open>The body of the \<open>try\<close> up to the wait, whose promise is returned without \<open>await\<close>.\<close>

definition bridge_and_claim ::
    "'w smoke_env \<Rightarrow> smoke_args \<Rightarrow> int \<Rightarrow> string \<Rightarrow> string \<Rightarrow> int \<Rightarrow> int \<Rightarrow> int \<Rightarrow> int \<Rightarrow> string \<Rightarrow> ('w, unit) ioe" where
  "bridge_and_claim env args sender token portal payer amount secret secret_hash label =
     (let lib = se_lib env in
      bind_io (se_approve env token portal amount) (\<lambda>approve_tx.
      bind_io (se_wait_receipt env approve_tx) (\<lambda>_.
      bind_io (se_deposit env portal (recipient_bytes32 lib payer) amount (fr_to_string lib secret_hash)) (\<lambda>bridge_tx.
      bind_io (se_wait_receipt env bridge_tx) (\<lambda>logs.
      bind_io (from_pure (deposited_message lib label portal logs)) (\<lambda>(index, hash).
      bind_io (se_wait_message env hash (max 1 (sa_bridge_wait_timeout_ms args div 1000))) (\<lambda>_.
      bind_io (from_pure (fr_of_bigint lib index)) (\<lambda>leaf.
      se_claim env payer amount secret leaf sender))))))))"

definition rethrow_funding :: "string \<Rightarrow> thrown \<Rightarrow> ('w, 'a) ioe" where
  "rethrow_funding label e = throw_io (if is_funding_failure e then e
     else funding_failure (label @ '' topup/bridge flow failed: '' @ js_string e))"

text \<open>The balance before the bridge.\<close>

definition top_up_deposit ::
    "'w smoke_env \<Rightarrow> smoke_args \<Rightarrow> int \<Rightarrow> int \<Rightarrow> int \<Rightarrow> string \<Rightarrow> ('w, int) ioe" where
  "top_up_deposit env args sender payer amount label =
     bind_io (se_node_addresses env) (\<lambda>field.
     let token_raw = coalesce (field ''feeJuiceAddress'') (field ''feeJuice'');
         portal_raw = coalesce (field ''feeJuicePortalAddress'') (field ''feeJuicePortal'') in
     if address_missing token_raw \<or> address_missing portal_raw
     then throw_io (funding_failure ''node_getNodeInfo missing feeJuiceAddress or feeJuicePortalAddress'')
     else
       bind_io (from_pure (normalize_eth_address token_raw ''feeJuiceAddress'')) (\<lambda>token.
       bind_io (from_pure (normalize_eth_address portal_raw ''feeJuicePortalAddress'')) (\<lambda>portal.
       bind_io (se_fee_juice_balance env payer) (\<lambda>initial.
       bind_io (se_random_fr env) (\<lambda>secret.
       bind_io (se_secret_hash env secret) (\<lambda>secret_hash.
       bind_io (catch_io (bridge_and_claim env args sender token portal payer amount secret secret_hash label)
         (rethrow_funding label)) (\<lambda>_.
       return_io initial)))))))"

definition top_up_fee_payer ::
    "'w smoke_env \<Rightarrow> smoke_args \<Rightarrow> int \<Rightarrow> int \<Rightarrow> int \<Rightarrow> string \<Rightarrow> 'w \<Rightarrow> ((thrown + int) \<times> 'w) option" where
  "top_up_fee_payer env args sender payer amount label w =
     (case top_up_deposit env args sender payer amount label w of
        (Inl e, w1) \<Rightarrow> Some (Inl e, w1)
      | (Inr initial, w1) \<Rightarrow> wait_for_fee_juice_balance_at_least env payer (initial + amount)
          (sa_bridge_wait_timeout_ms args) (sa_bridge_poll_ms args) w1)"

section \<open>The run\<close>

definition parse_manifest_from_disk :: "'w smoke_env \<Rightarrow> string \<Rightarrow> thrown + deploy_manifest" where
  "parse_manifest_from_disk env path =
     map_sum (\<lambda>e. cli_error (''Failed to load manifest at '' @ path @ '': '' @ js_string e)) id
       (read_deploy_manifest (se_manifest_lib env) (se_files env) path)"

definition resolve_operator_secret_key :: "smoke_args \<Rightarrow> thrown + string" where
  "resolve_operator_secret_key args = (if is_set (sa_operator_secret_key args) then Inr (the (sa_operator_secret_key args))
     else Inl (cli_error ''Missing operator key. Provide --operator-secret-key.''))"

definition resolve_l1_operator_private_key :: "smoke_args \<Rightarrow> string" where
  "resolve_l1_operator_private_key args = (case sa_l1_operator_private_key args of
     Some k \<Rightarrow> k | None \<Rightarrow> DEFAULT_LOCAL_L1_PRIVATE_KEY)"

definition validate_operator_pubkey :: "manifest_operator \<Rightarrow> int \<times> int \<Rightarrow> thrown + unit" where
  "validate_operator_pubkey op derived =
     require_that (\<not> ((mo_pubkey_x op \<noteq> 0 \<or> mo_pubkey_y op \<noteq> 0) \<and>
         (fst derived \<noteq> mo_pubkey_x op \<or> snd derived \<noteq> mo_pubkey_y op)))
       (operator_key_mismatch ''operator pubkey mismatch between supplied key and manifest operator pubkeys'')"

text \<open>What the manifests and the operator's key give: secret, signing key and both manifests.\<close>

definition smoke_inputs ::
    "'w smoke_env \<Rightarrow> smoke_args \<Rightarrow> thrown + (deploy_manifest \<times> test_token_manifest \<times> int \<times> int)" where
  "smoke_inputs env args =
     and_then (parse_manifest_from_disk env (sa_manifest_path args)) (\<lambda>dm.
     and_then (read_test_token_manifest (se_manifest_lib env) (se_files env) (sa_test_token_manifest_path args)) (\<lambda>tm.
     and_then (resolve_operator_secret_key args) (\<lambda>hex.
     and_then (fr_from_hex (se_lib env) hex) (\<lambda>secret.
     let key = se_signing_key env secret in
     and_then (validate_operator_pubkey (dm_operator dm) (se_public_key env key)) (\<lambda>_.
     Inr (dm, tm, secret, key))))))"

text \<open>Node, wallet, account and L1 client; the operator's address.\<close>

definition connect_operator ::
    "'w smoke_env \<Rightarrow> smoke_args \<Rightarrow> deploy_manifest \<Rightarrow> int \<Rightarrow> int \<Rightarrow> ('w, int) ioe" where
  "connect_operator env args dm secret key =
     (let lib = se_lib env; url = mn_node_url (dm_network dm) in
      bind_io (se_wait_node env url (sa_node_ready_timeout_ms args)) (\<lambda>ready.
      bind_io (from_pure (require_that ready (funding_failure (''Timed out waiting for Aztec node at '' @ url)))) (\<lambda>_.
      bind_io (se_create_wallet env url) (\<lambda>_.
      bind_io (se_create_account env secret 0 key) (\<lambda>account.
      bind_io (from_pure (address_from_string lib (address_to_string lib account))) (\<lambda>address.
      bind_io (from_pure (require_that
          (js_lower (address_to_string lib address) = js_lower (address_to_string lib (mo_address (dm_operator dm))))
          (operator_key_mismatch (''operator address mismatch. manifest='' @
            address_to_string lib (mo_address (dm_operator dm)) @ '' derived='' @ address_to_string lib address)))) (\<lambda>_.
      bind_io (se_l1_chain_id env (sa_l1_rpc_url args)) (\<lambda>chain.
      bind_io (from_pure (require_that (chain = mn_l1_chain_id (dm_network dm))
          (cli_error (''L1 chain-id mismatch: manifest='' @ bigint_string (mn_l1_chain_id (dm_network dm)) @
            '' rpc='' @ bigint_string chain)))) (\<lambda>_.
      bind_io (se_create_l1_wallet env (sa_l1_rpc_url args) (resolve_l1_operator_private_key args) chain) (\<lambda>_.
      return_io address))))))))))"

definition register_contracts :: "'w smoke_env \<Rightarrow> int \<Rightarrow> int \<Rightarrow> int \<Rightarrow> ('w, unit) ioe" where
  "register_contracts env token fpc faucet =
     (let missing = (\<lambda>name a. cli_error (name @ '' contract not found on node at '' @ address_to_string (se_lib env) a)) in
      bind_io (se_get_contract env token) (\<lambda>has_token.
      bind_io (se_get_contract env fpc) (\<lambda>has_fpc.
      bind_io (se_get_contract env faucet) (\<lambda>has_faucet.
      bind_io (from_pure (require_that has_token (missing ''Token'' token))) (\<lambda>_.
      bind_io (from_pure (require_that has_fpc (missing ''FPC'' fpc))) (\<lambda>_.
      bind_io (from_pure (require_that has_faucet (missing ''Faucet'' faucet))) (\<lambda>_.
      bind_io (se_register_contract env token) (\<lambda>_.
      bind_io (se_register_contract env fpc) (\<lambda>_.
      se_register_contract env faucet)))))))))"

definition max_gas_cost_no_teardown :: "smoke_args \<Rightarrow> int \<Rightarrow> int \<Rightarrow> int" where
  "max_gas_cost_no_teardown args fee_da fee_l2 = sa_da_gas_limit args * fee_da + sa_l2_gas_limit args * fee_l2"

definition fpc_min_topup :: "smoke_args \<Rightarrow> int \<Rightarrow> int" where
  "fpc_min_topup args cost = cost * sa_topup_safety_multiplier args + 1000000"

definition fpc_topup_amount :: "smoke_args \<Rightarrow> int \<Rightarrow> thrown + int" where
  "fpc_topup_amount args cost = (case sa_fpc_topup_wei_override args of
     None \<Rightarrow> Inr (fpc_min_topup args cost)
   | Some n \<Rightarrow>
       if n \<noteq> 0 \<and> n < fpc_min_topup args cost
       then Inl (cli_error (''fpc-topup-wei override is below minimum '' @ bigint_string (fpc_min_topup args cost)))
       else Inr n)"

definition smoke_ceil_div :: "int \<Rightarrow> int \<Rightarrow> thrown + int" where
  "smoke_ceil_div numerator denominator = bigint_div (numerator + denominator - 1) denominator"

record smoke_context =
  x_signing_key :: int
  x_operator :: int
  x_fpc :: int
  x_token :: int
  x_faucet :: int
  x_fee_per_da_gas :: int
  x_fee_per_l2_gas :: int
  x_max_gas_cost :: int
  x_topup_amount :: int

definition smoke_prepare :: "'w smoke_env \<Rightarrow> smoke_args \<Rightarrow> ('w, smoke_context) ioe" where
  "smoke_prepare env args =
     bind_io (from_pure (smoke_inputs env args)) (\<lambda>(dm, tm, secret, key).
     bind_io (connect_operator env args dm secret key) (\<lambda>address.
     let token = tk_token (tm_contracts tm); faucet = tk_faucet (tm_contracts tm) in
     bind_io (register_contracts env token (dm_fpc dm) faucet) (\<lambda>_.
     bind_io (se_min_fees env) (\<lambda>(fee_da, fee_l2).
     let cost = max_gas_cost_no_teardown args fee_da fee_l2 in
     bind_io (from_pure (fpc_topup_amount args cost)) (\<lambda>topup.
     return_io \<lparr>x_signing_key = key, x_operator = address, x_fpc = dm_fpc dm, x_token = token, x_faucet = faucet,
       x_fee_per_da_gas = fee_da, x_fee_per_l2_gas = fee_l2, x_max_gas_cost = cost, x_topup_amount = topup\<rparr>)))))"

definition SMOKE_QUOTE_DOMAIN_SEPARATOR :: int where
  "SMOKE_QUOTE_DOMAIN_SEPARATOR = 0x465043"

definition smoke_quote_hash :: "aztec_lib \<Rightarrow> smoke_context \<Rightarrow> int \<Rightarrow> int \<Rightarrow> int \<Rightarrow> thrown + int" where
  "smoke_quote_hash lib x fj_amount aa_amount valid_until =
     and_then (fr_of_bigint lib fj_amount) (\<lambda>fj.
     and_then (fr_of_bigint lib aa_amount) (\<lambda>aa.
     and_then (fr_of_bigint lib valid_until) (\<lambda>until.
     Inr (inner_authwit_hash lib
       [SMOKE_QUOTE_DOMAIN_SEPARATOR, x_fpc x, x_token x, fj, aa, until, x_operator x]))))"

text \<open>The tokens for the fee, the quote, and the transaction that is paid with it.\<close>

definition smoke_pay :: "'w smoke_env \<Rightarrow> smoke_args \<Rightarrow> smoke_context \<Rightarrow> ('w, smoke_payment \<times> int) ioe" where
  "smoke_pay env args x =
     (let fj = x_max_gas_cost x in
      bind_io (from_pure (smoke_ceil_div (fj * sa_fpc_rate_num args) (sa_fpc_rate_den args))) (\<lambda>charge.
      bind_io (se_drip env (x_faucet x) (x_operator x)) (\<lambda>_.
      bind_io (se_shield env (x_token x) (x_operator x) (charge + 1000000)) (\<lambda>_.
      bind_io (se_latest_timestamp env) (\<lambda>block.
      if block = None then throw_io (error ''Could not read latest block while creating FPC quote'')
      else
        let valid_until = the block + sa_quote_ttl_seconds args in
        bind_io (from_pure (smoke_quote_hash (se_lib env) x fj charge valid_until)) (\<lambda>hash.
        bind_io (se_construct_signature env (to_be_bytes 32 hash) (x_signing_key x)) (\<lambda>sig.
        bind_io (se_random_fr env) (\<lambda>nonce.
        bind_io (se_create_authwit env (x_operator x) (x_fpc x) (x_token x) charge nonce) (\<lambda>_.
        let p = \<lparr>py_fpc = x_fpc x, py_token = x_token x, py_user = x_operator x, py_nonce = nonce, py_fj_amount = fj,
              py_aa_amount = charge, py_valid_until = valid_until, py_sig = sig,
              py_da_gas_limit = sa_da_gas_limit args, py_l2_gas_limit = sa_l2_gas_limit args,
              py_fee_per_da_gas = x_fee_per_da_gas x, py_fee_per_l2_gas = x_fee_per_l2_gas x\<rparr> in
        bind_io (se_send_paid_transfer env p) (\<lambda>fee. return_io (p, fee)))))))))))"

datatype smoke_outcome = SmokePassed (passed_balance: int) (passed_payment: smoke_payment) (passed_fee: int)

definition run_smoke :: "'w smoke_env \<Rightarrow> smoke_args \<Rightarrow> 'w \<Rightarrow> ((thrown + smoke_outcome) \<times> 'w) option" where
  "run_smoke env args w = (case smoke_prepare env args w of
     (Inl e, w1) \<Rightarrow> Some (Inl e, w1)
   | (Inr x, w1) \<Rightarrow>
       (case top_up_fee_payer env args (x_operator x) (x_fpc x) (x_topup_amount x) ''fpcmultiasset'' w1 of
          None \<Rightarrow> None
        | Some (Inl e, w2) \<Rightarrow> Some (Inl e, w2)
        | Some (Inr balance, w2) \<Rightarrow>
            Some (bind_io (smoke_pay env args x) (\<lambda>(p, fee). return_io (SmokePassed balance p fee)) w2)))"

definition smoke_main ::
    "'w smoke_env \<Rightarrow> string list \<Rightarrow> 'w \<Rightarrow> ((thrown + smoke_outcome option) \<times> 'w) option" where
  "smoke_main env argv w = (case parse_smoke_args (se_platform env) argv of
     Inl e \<Rightarrow> Some (Inl e, w)
   | Inr None \<Rightarrow> Some (Inr None, w)
   | Inr (Some args) \<Rightarrow> map_option (\<lambda>(r, w'). (map_sum id Some r, w')) (run_smoke env args w))"

text \<open>The class under which a failed run is reported.\<close>

datatype failure_class = CliFailure | OperatorKeyDrift | FundingRuntimeFailure | UnknownFailure

fun classify_failure :: "thrown \<Rightarrow> failure_class" where
  "classify_failure (Thrown n m) =
     (if n = ''CliError'' then CliFailure
      else if n = ''OperatorKeyMismatchError'' then OperatorKeyDrift
      else if n = ''FundingRuntimeFailure'' then FundingRuntimeFailure else UnknownFailure)"
| "classify_failure (ThrownValue s) = UnknownFailure"

section \<open>Facts\<close>

lemma deposited_message_Inr:
  "deposited_message lib label portal logs = Inr (i, h) \<longleftrightarrow> find_deposit lib portal logs None = (Some i, Some h)"
  by (auto simp: deposited_message_def split: option.splits prod.splits)

lemma find_deposit_sound:
  "find_deposit lib portal logs index = (Some i, Some h) \<Longrightarrow>
     \<exists>l \<in> set logs. \<exists>key. js_lower (log_address l) = js_lower portal \<and>
       log_event l = Some (''DepositToAztecPublic'', key, i) \<and> fr_from_hex lib key = Inr h"
  by (induction logs arbitrary: index) (fastforce split: if_splits option.splits sum.splits)+

lemma fpc_topup_amount_Inr:
  "fpc_topup_amount args cost = Inr n \<Longrightarrow> sa_fpc_topup_wei_override args \<noteq> Some 0 \<Longrightarrow> fpc_min_topup args cost \<le> n"
  by (auto simp: fpc_topup_amount_def split: option.splits if_splits)

lemma smoke_inputs_Inr:
  "smoke_inputs env args = Inr (dm, tm, secret, key) \<longleftrightarrow>
     read_deploy_manifest (se_manifest_lib env) (se_files env) (sa_manifest_path args) = Inr dm \<and>
     read_test_token_manifest (se_manifest_lib env) (se_files env) (sa_test_token_manifest_path args) = Inr tm \<and>
     (\<exists>hex. sa_operator_secret_key args = Some hex \<and> hex \<noteq> [] \<and> fr_from_hex (se_lib env) hex = Inr secret) \<and>
     key = se_signing_key env secret \<and> validate_operator_pubkey (dm_operator dm) (se_public_key env key) = Inr ()"
proof -
  have m: "map_sum f id r = Inr (x :: deploy_manifest) \<longleftrightarrow> r = Inr x" for f :: "thrown \<Rightarrow> thrown" and r x by (cases r) auto
  show ?thesis
    by (auto simp: smoke_inputs_def and_then_Inr_iff parse_manifest_from_disk_def m resolve_operator_secret_key_def
        is_set_def Let_def split: if_splits)
qed

lemma smoke_prepare_Inr:
  assumes "smoke_prepare env args w = (Inr x, w')"
  obtains dm tm secret w1 w2 w3 fee_da fee_l2 where
    "smoke_inputs env args = Inr (dm, tm, secret, x_signing_key x)"
    "connect_operator env args dm secret (x_signing_key x) w = (Inr (x_operator x), w1)"
    "register_contracts env (tk_token (tm_contracts tm)) (dm_fpc dm) (tk_faucet (tm_contracts tm)) w1 = (Inr (), w2)"
    "se_min_fees env w2 = (Inr (fee_da, fee_l2), w3)"
    "fpc_topup_amount args (max_gas_cost_no_teardown args fee_da fee_l2) = Inr (x_topup_amount x)"
    "x_fpc x = dm_fpc dm" "x_token x = tk_token (tm_contracts tm)"
    "x_fee_per_da_gas x = fee_da" "x_fee_per_l2_gas x = fee_l2"
    "x_max_gas_cost x = max_gas_cost_no_teardown args fee_da fee_l2"
  using assms unfolding smoke_prepare_def Let_def
  by (auto simp: io_Inr_iff)

lemma connect_operator_Inr:
  assumes "connect_operator env args dm secret key w = (Inr address, w')"
  shows "js_lower (address_to_string (se_lib env) address) =
      js_lower (address_to_string (se_lib env) (mo_address (dm_operator dm)))"
    "\<exists>account. address_from_string (se_lib env) (address_to_string (se_lib env) account) = Inr address"
  using assms unfolding connect_operator_def Let_def by (auto simp: io_Inr_iff)

lemma smoke_pay_Inr:
  assumes "smoke_pay env args x w = (Inr (p, fee), w')"
  obtains charge block hash sig nonce w1 w2 w3 w4 where
    "smoke_ceil_div (x_max_gas_cost x * sa_fpc_rate_num args) (sa_fpc_rate_den args) = Inr charge"
    "se_latest_timestamp env w1 = (Inr (Some block), w2)"
    "smoke_quote_hash (se_lib env) x (x_max_gas_cost x) charge (block + sa_quote_ttl_seconds args) = Inr hash"
    "se_construct_signature env (to_be_bytes 32 hash) (x_signing_key x) w2 = (Inr sig, w3)"
    "se_send_paid_transfer env p w4 = (Inr fee, w')"
    "p = \<lparr>py_fpc = x_fpc x, py_token = x_token x, py_user = x_operator x, py_nonce = nonce, py_fj_amount = x_max_gas_cost x,
       py_aa_amount = charge, py_valid_until = block + sa_quote_ttl_seconds args, py_sig = sig,
       py_da_gas_limit = sa_da_gas_limit args, py_l2_gas_limit = sa_l2_gas_limit args,
       py_fee_per_da_gas = x_fee_per_da_gas x, py_fee_per_l2_gas = x_fee_per_l2_gas x\<rparr>"
  using assms unfolding smoke_pay_def Let_def
  by (auto simp: io_Inr_iff split: if_splits)

lemma run_smoke_Inr:
  assumes "run_smoke env args w = Some (Inr (SmokePassed balance p fee), w')"
  obtains x w1 w2 where "smoke_prepare env args w = (Inr x, w1)"
    "top_up_fee_payer env args (x_operator x) (x_fpc x) (x_topup_amount x) ''fpcmultiasset'' w1 = Some (Inr balance, w2)"
    "smoke_pay env args x w2 = (Inr (p, fee), w')"
  using assms unfolding run_smoke_def
  by (auto simp: io_Inr_iff split: prod.splits sum.splits option.splits)

lemma wait_for_balance_loop_Inr:
  assumes "wait_for_balance_loop env payer minimum deadline poll latest w = Some (Inr balance, w')"
  shows "minimum \<le> balance \<and> (\<exists>v. se_fee_juice_balance env payer v = (Inr balance, w'))"
proof -
  have "fst y = Inr b \<longrightarrow> minimum \<le> b \<and> (\<exists>v. se_fee_juice_balance env payer v = (Inr b, snd y))"
    if "wait_for_balance_loop env payer minimum deadline poll latest w = Some y" for y b
  proof (rule wait_for_balance_loop.raw_induct [OF _ that, where
        P = "\<lambda>env payer minimum deadline poll latest w y. fst y = Inr b \<longrightarrow>
          minimum \<le> b \<and> (\<exists>v. se_fee_juice_balance env payer v = (Inr b, snd y))"])
    fix f env payer minimum deadline poll latest w y
    assume IH: "\<And>env payer minimum deadline poll latest w y. f env payer minimum deadline poll latest w = Some y \<Longrightarrow>
        fst y = Inr b \<longrightarrow> minimum \<le> b \<and> (\<exists>v. se_fee_juice_balance env payer v = (Inr b, snd y))"
      and body: "(if se_now env w \<le> deadline
        then case se_fee_juice_balance env payer w of
          (Inl e, w1) \<Rightarrow> Some (Inl e, w1)
        | (Inr balance, w1) \<Rightarrow>
            if minimum \<le> balance then Some (Inr balance, w1)
            else f env payer minimum deadline poll balance (se_sleep env poll w1)
        else Some (Inl (funding_failure (''Timed out waiting for FeeJuice balance on '' @ address_to_string (se_lib env) payer @
          '' to reach '' @ bigint_string minimum @ '' (latest='' @ bigint_string latest @ '')'')), w)) = Some y"
    obtain r w1 where h: "se_fee_juice_balance env payer w = (r, w1)" by (cases "se_fee_juice_balance env payer w")
    show "fst y = Inr b \<longrightarrow> minimum \<le> b \<and> (\<exists>v. se_fee_juice_balance env payer v = (Inr b, snd y))"
    proof (cases "se_now env w \<le> deadline \<and> (\<exists>c. r = Inr c \<and> \<not> minimum \<le> c)")
      case True
      then obtain c where c: "r = Inr c" "\<not> minimum \<le> c" "se_now env w \<le> deadline" by blast
      with body h have "f env payer minimum deadline poll c (se_sleep env poll w1) = Some y" by simp
      then show ?thesis by (rule IH)
    next
      case False
      with body [unfolded h prod.case] have "fst y = Inr b \<longrightarrow> r = Inr b \<and> minimum \<le> b \<and> snd y = w1"
        by (cases r) (auto split: if_splits)
      with h show ?thesis by blast
    qed
  qed
  from this [OF assms, of balance] show ?thesis by simp
qed

text \<open>A read does not turn back the clock, and a sleep takes at least its time.\<close>

definition smoke_clock_ok :: "'w smoke_env \<Rightarrow> bool" where
  "smoke_clock_ok env \<longleftrightarrow> (\<forall>a w. se_now env w \<le> se_now env (snd (se_fee_juice_balance env a w))) \<and>
     (\<forall>ms w. se_now env w + ms \<le> se_now env (se_sleep env ms w))"

lemma wait_for_balance_loop_returns:
  assumes "smoke_clock_ok env" "0 < poll"
  shows "\<exists>y. wait_for_balance_loop env payer minimum deadline poll latest w = Some y"
proof (induction "nat (deadline + 1 - se_now env w)" arbitrary: latest w rule: less_induct)
  case less
  obtain r w1 where h: "se_fee_juice_balance env payer w = (r, w1)" by (cases "se_fee_juice_balance env payer w")
  note unfold = wait_for_balance_loop.simps [of env payer minimum deadline poll latest w, unfolded h prod.case]
  show ?case
  proof (cases "se_now env w \<le> deadline")
    case False
    then show ?thesis unfolding unfold by simp
  next
    case True
    have "se_now env w \<le> se_now env (snd (se_fee_juice_balance env payer w))"
      "se_now env w1 + poll \<le> se_now env (se_sleep env poll w1)"
      using assms(1) by (simp_all add: smoke_clock_ok_def)
    with h True assms(2) have d: "nat (deadline + 1 - se_now env (se_sleep env poll w1)) < nat (deadline + 1 - se_now env w)"
      by simp
    show ?thesis using less.hyps [OF d] True unfolding unfold by (cases r) auto
  qed
qed

lemma top_up_fee_payer_Inr:
  assumes "top_up_fee_payer env args sender payer amount label w = Some (Inr balance, w')"
  shows "\<exists>initial v v'. se_fee_juice_balance env payer v = (Inr initial, v') \<and> initial + amount \<le> balance \<and>
    (\<exists>u. se_fee_juice_balance env payer u = (Inr balance, w'))"
proof -
  from assms obtain initial w1 where d: "top_up_deposit env args sender payer amount label w = (Inr initial, w1)"
    and l: "wait_for_balance_loop env payer (initial + amount) (se_now env w1 + sa_bridge_wait_timeout_ms args)
      (sa_bridge_poll_ms args) 0 w1 = Some (Inr balance, w')"
    by (auto simp: top_up_fee_payer_def wait_for_fee_juice_balance_at_least_def split: prod.splits sum.splits)
  from d obtain v v' where "se_fee_juice_balance env payer v = (Inr initial, v')"
    unfolding top_up_deposit_def Let_def by (auto simp: io_Inr_iff split: if_splits)
  with wait_for_balance_loop_Inr [OF l] show ?thesis by blast
qed

lemma aztec_address_parsed:
  assumes "aztec_address m v = Inr (Inr a)"
  shows "\<exists>s. address_from_string (ml_lib m) s = Inr a"
  using assms unfolding aztec_address_def t_string_Inr by (auto simp: map_Inr split: if_splits)

lemma read_manifest_operator:
  assumes "read_deploy_manifest m fs path = Inr dm"
  shows "\<exists>s. address_from_string (ml_lib m) s = Inr (mo_address (dm_operator dm))"
proof -
  from assms obtain v where "deploy_manifest_schema m v = Inr (Inr dm)"
    by (auto simp: read_deploy_manifest_def and_then_Inr_iff t_parse_Inr)
  then have "aztec_address m (jfield ''address'' (jfield ''operator'' v)) = Inr (Inr (mo_address (dm_operator dm)))"
    unfolding deploy_manifest_schema_iff operator_schema_iff by blast
  then show ?thesis by (rule aztec_address_parsed)
qed

lemma same_printed_address:
  assumes "addresses_roundtrip lib" "address_from_string lib s = Inr a" "address_from_string lib t = Inr b"
    and "js_lower (address_to_string lib a) = js_lower (address_to_string lib b)"
  shows "a = b"
proof -
  note printed = assms(1) [unfolded addresses_roundtrip_def, rule_format, THEN conjunct2]
  have "Inr a = address_from_string lib (js_lower (address_to_string lib a))" by (rule printed [OF assms(2), symmetric])
  also have "\<dots> = Inr b" unfolding assms(4) by (rule printed [OF assms(3)])
  finally show ?thesis by simp
qed

definition smoke_args_wf :: "smoke_args \<Rightarrow> bool" where
  "smoke_args_wf a \<longleftrightarrow> 0 < sa_node_ready_timeout_ms a \<and> 0 < sa_bridge_wait_timeout_ms a \<and> 0 < sa_bridge_poll_ms a \<and>
     0 < sa_quote_ttl_seconds a \<and> 0 < sa_da_gas_limit a \<and> 0 < sa_l2_gas_limit a \<and> 0 < sa_topup_safety_multiplier a \<and>
     0 < sa_fpc_rate_num a \<and> 0 < sa_fpc_rate_den a \<and>
     (\<forall>n. sa_fpc_topup_wei_override a = Some n \<longrightarrow> 0 < n) \<and>
     key_or_none (sa_operator_secret_key a) \<and> key_or_none (sa_l1_operator_private_key a)"

definition smoke_values_wf :: "smoke_values \<Rightarrow> bool" where
  "smoke_values_wf a \<longleftrightarrow> 0 < sv_node_ready_timeout_ms a \<and> 0 < sv_bridge_wait_timeout_ms a \<and> 0 < sv_bridge_poll_ms a \<and>
     0 < sv_quote_ttl_seconds a \<and> 0 < sv_da_gas_limit a \<and> 0 < sv_l2_gas_limit a \<and> 0 < sv_topup_safety_multiplier a \<and>
     0 < sv_fpc_rate_num a \<and> 0 < sv_fpc_rate_den a"

lemma parse_positive_integer_Inr: "parse_positive_integer f v = Inr n \<Longrightarrow> 0 < n"
  by (simp add: parse_positive_integer_def Let_def) (drule positive_int_or_Inr, simp)

lemma parse_positive_big_int_Inr: "parse_positive_big_int f v = Inr n \<Longrightarrow> 0 < n"
  by (auto simp: parse_positive_big_int_def Let_def split: if_splits)

lemmas parsed_positive = parse_positive_integer_Inr parse_positive_big_int_Inr

lemma if_given_Inr: "if_given f v = Inr r \<Longrightarrow> r = None \<or> (\<exists>x y. f x = Inr y \<and> r = Some y)"
  by (auto simp: if_given_def map_sum_Inr split: if_splits)

lemma initial_smoke_values_wf: "initial_smoke_values sp = Inr a \<Longrightarrow> smoke_values_wf a"
  by (auto simp: initial_smoke_values_def and_then_Inr_iff Let_def smoke_values_wf_def dest!: parsed_positive)

lemma smoke_flags_keep_wf:
  "smoke_flags p arg = Some (TakesValue f) \<Longrightarrow> f v a = Inr b \<Longrightarrow> smoke_values_wf a \<Longrightarrow> smoke_values_wf b"
  "smoke_flags p arg \<noteq> Some (Switch g)"
  by (auto simp: smoke_flags_def Let_def smoke_values_wf_def map_sum_Inr split: if_splits dest!: parsed_positive)

lemma finish_smoke_args_wf:
  assumes "finish_smoke_args p a = Inr args" "smoke_values_wf a"
  shows "smoke_args_wf args"
proof -
  from assms(1) obtain rpc ok lk tu where
    "if_given (parse_hex32 ''operator-secret-key'') (sv_operator_secret_key a) = Inr ok"
    "if_given (parse_hex32 ''l1-operator-private-key'') (sv_l1_operator_private_key a) = Inr lk"
    "if_given (parse_positive_big_int ''fpc-topup-wei'') (sv_fpc_topup_wei_override_raw a) = Inr tu"
    and args: "args = \<lparr>sa_manifest_path = sp_resolve p (sv_manifest_path a),
          sa_test_token_manifest_path = sp_resolve p (sv_test_token_manifest_path a), sa_l1_rpc_url = rpc,
          sa_operator_secret_key = ok, sa_l1_operator_private_key = lk,
          sa_node_ready_timeout_ms = sv_node_ready_timeout_ms a, sa_bridge_wait_timeout_ms = sv_bridge_wait_timeout_ms a,
          sa_bridge_poll_ms = sv_bridge_poll_ms a, sa_quote_ttl_seconds = sv_quote_ttl_seconds a,
          sa_da_gas_limit = sv_da_gas_limit a, sa_l2_gas_limit = sv_l2_gas_limit a,
          sa_topup_safety_multiplier = sv_topup_safety_multiplier a, sa_fpc_rate_num = sv_fpc_rate_num a,
          sa_fpc_rate_den = sv_fpc_rate_den a, sa_fpc_topup_wei_override = tu\<rparr>"
    by (auto simp: finish_smoke_args_def and_then_Inr_iff)
  then have "key_or_none ok" "key_or_none lk" "tu = None \<or> (\<exists>n. tu = Some n \<and> 0 < n)"
    by (auto dest!: if_given_Inr parse_positive_big_int_Inr simp: key_or_none_def parse_hex32_def split: if_splits)
  with assms(2) show ?thesis by (auto simp: args smoke_args_wf_def smoke_values_wf_def)
qed

lemma parse_smoke_args_wf:
  assumes "parse_smoke_args sp argv = Inr (Some args)"
  shows "smoke_args_wf args"
proof -
  from assms obtain a0 a where a0: "initial_smoke_values sp = Inr a0"
    and a: "parse_flags (smoke_flags (sm_platform sp)) cli_error argv a0 = Inr (Some a)"
    and fin: "finish_smoke_args (sm_platform sp) a = Inr args"
    by (auto simp: parse_smoke_args_def and_then_Inr_iff map_sum_Inr split: option.splits)
  have "smoke_values_wf a"
    by (rule parse_flags_invariant [where I = smoke_values_wf, OF _ _ a initial_smoke_values_wf [OF a0]])
      (use smoke_flags_keep_wf in blast)+
  with finish_smoke_args_wf [OF fin] show ?thesis .
qed

lemma smoke_main_Inr:
  assumes "smoke_main env argv w = Some (Inr (Some out), w')"
  obtains args where "parse_smoke_args (se_platform env) argv = Inr (Some args)" "smoke_args_wf args"
    "run_smoke env args w = Some (Inr out, w')"
proof -
  from assms obtain args where p: "parse_smoke_args (se_platform env) argv = Inr (Some args)"
    and r: "run_smoke env args w = Some (Inr out, w')"
    by (auto simp: smoke_main_def map_sum_Inr split: sum.splits option.splits)
  from that [OF p parse_smoke_args_wf [OF p] r] show ?thesis .
qed

section \<open>Examples\<close>

definition demo_token_manifest :: test_token_manifest where
  "demo_token_manifest = \<lparr>tm_generated_at = ''2026'',
     tm_contracts = \<lparr>tk_token = 1, tk_faucet = 7, tk_counter = 1, tk_bridge = 7\<rparr>, tm_token_portal = 1, tm_erc20 = 7,
     tm_faucet_config = \<lparr>fm_drip_amount = ''9'', fm_cooldown_seconds = 0, fm_initial_supply = ''9''\<rparr>,
     tm_tx_hashes = \<lparr>th_token_deploy = demo_word 64 1, th_bridge_deploy = demo_word 64 1,
       th_counter_deploy = demo_word 64 1, th_faucet_deploy = demo_word 64 1,
       th_l1_erc20_deploy = demo_word 64 1, th_l1_token_portal_deploy = demo_word 64 1\<rparr>\<rparr>"

text \<open>A world of the contract's Fee Juice and the time; a claim arrives at once.\<close>

definition demo_smoke_env :: "(int \<times> int) smoke_env" where
  "demo_smoke_env = \<lparr>se_platform = \<lparr>sm_platform = \<lparr>sp_env = Map.empty, sp_url = (\<lambda>s. Some (''http:'', s)), sp_string = (\<lambda>_. []),
       sp_resolve = (\<lambda>p. p)\<rparr>, sm_sibling = (\<lambda>p n. n)\<rparr>,
     se_manifest_lib = demo_manifest_lib,
     se_files = [''m'' \<mapsto> deploy_manifest_json demo_manifest_lib demo_manifest,
       ''t'' \<mapsto> test_token_manifest_json demo_manifest_lib demo_token_manifest],
     se_signing_key = (\<lambda>s. s), se_public_key = (\<lambda>k. (7, 1)), se_wait_node = (\<lambda>_ _ w. (Inr True, w)),
     se_create_wallet = (\<lambda>_ w. (Inr (), w)), se_create_account = (\<lambda>_ _ _ w. (Inr 1, w)),
     se_l1_chain_id = (\<lambda>_ w. (Inr 31337, w)), se_create_l1_wallet = (\<lambda>_ _ _ w. (Inr (), w)),
     se_get_contract = (\<lambda>_ w. (Inr True, w)), se_register_contract = (\<lambda>_ w. (Inr (), w)),
     se_min_fees = (\<lambda>w. (Inr (2, 3), w)),
     se_node_addresses = (\<lambda>w. (Inr (\<lambda>k. AddressText (demo_word 40 7)), w)),
     se_fee_juice_balance = (\<lambda>_ (b, t). (Inr (max 0 b), (b, t))), se_random_fr = (\<lambda>w. (Inr 5, w)), se_secret_hash = (\<lambda>_ w. (Inr 6, w)),
     se_approve = (\<lambda>_ _ _ w. (Inr ''a'', w)), se_deposit = (\<lambda>_ _ _ _ w. (Inr ''d'', w)),
     se_wait_receipt = (\<lambda>_ w. (Inr [\<lparr>log_address = demo_word 40 7,
       log_event = Some (''DepositToAztecPublic'', ''0x7'', 3)\<rparr>], w)),
     se_wait_message = (\<lambda>_ _ w. (Inr (), w)), se_claim = (\<lambda>_ amount _ _ _ (b, t). (Inr (), (b + amount, t))),
     se_now = snd, se_sleep = (\<lambda>ms (b, t). (b, t + max 0 ms)), se_drip = (\<lambda>_ _ w. (Inr (), w)), se_shield = (\<lambda>_ _ _ w. (Inr (), w)),
     se_latest_timestamp = (\<lambda>w. (Inr (Some 1000), w)), se_construct_signature = (\<lambda>_ _ w. (Inr [9], w)),
     se_create_authwit = (\<lambda>_ _ _ _ _ w. (Inr (), w)), se_send_paid_transfer = (\<lambda>_ w. (Inr 800, w))\<rparr>"

lemma demo_smoke_env_simps [simp]:
  "se_manifest_lib demo_smoke_env = demo_manifest_lib"
  "se_signing_key demo_smoke_env = (\<lambda>s. s)"
  "se_public_key demo_smoke_env = (\<lambda>k. (7, 1))"
  "se_wait_node demo_smoke_env = (\<lambda>_ _ w. (Inr True, w))"
  "se_create_wallet demo_smoke_env = (\<lambda>_ w. (Inr (), w))"
  "se_create_account demo_smoke_env = (\<lambda>_ _ _ w. (Inr 1, w))"
  "se_l1_chain_id demo_smoke_env = (\<lambda>_ w. (Inr 31337, w))"
  "se_create_l1_wallet demo_smoke_env = (\<lambda>_ _ _ w. (Inr (), w))"
  "se_get_contract demo_smoke_env = (\<lambda>_ w. (Inr True, w))"
  "se_register_contract demo_smoke_env = (\<lambda>_ w. (Inr (), w))"
  "se_min_fees demo_smoke_env = (\<lambda>w. (Inr (2, 3), w))"
  "se_node_addresses demo_smoke_env = (\<lambda>w. (Inr (\<lambda>k. AddressText (demo_word 40 7)), w))"
  "se_fee_juice_balance demo_smoke_env = (\<lambda>_ (b, t). (Inr (max 0 b), (b, t)))"
  "se_random_fr demo_smoke_env = (\<lambda>w. (Inr 5, w))"
  "se_secret_hash demo_smoke_env = (\<lambda>_ w. (Inr 6, w))"
  "se_approve demo_smoke_env = (\<lambda>_ _ _ w. (Inr ''a'', w))"
  "se_deposit demo_smoke_env = (\<lambda>_ _ _ _ w. (Inr ''d'', w))"
  "se_wait_receipt demo_smoke_env = (\<lambda>_ w. (Inr [\<lparr>log_address = demo_word 40 7, log_event = Some (''DepositToAztecPublic'', ''0x7'', 3)\<rparr>], w))"
  "se_wait_message demo_smoke_env = (\<lambda>_ _ w. (Inr (), w))"
  "se_claim demo_smoke_env = (\<lambda>_ amount _ _ _ (b, t). (Inr (), (b + amount, t)))"
  "se_now demo_smoke_env = snd"
  "se_sleep demo_smoke_env = (\<lambda>ms (b, t). (b, t + max 0 ms))"
  "se_drip demo_smoke_env = (\<lambda>_ _ w. (Inr (), w))"
  "se_shield demo_smoke_env = (\<lambda>_ _ _ w. (Inr (), w))"
  "se_latest_timestamp demo_smoke_env = (\<lambda>w. (Inr (Some 1000), w))"
  "se_construct_signature demo_smoke_env = (\<lambda>_ _ w. (Inr [9], w))"
  "se_create_authwit demo_smoke_env = (\<lambda>_ _ _ _ _ w. (Inr (), w))"
  "se_send_paid_transfer demo_smoke_env = (\<lambda>_ w. (Inr 800, w))"
  by (simp_all add: demo_smoke_env_def)

definition demo_smoke_args :: smoke_args where
  "demo_smoke_args = \<lparr>sa_manifest_path = ''m'', sa_test_token_manifest_path = ''t'', sa_l1_rpc_url = ''u'',
     sa_operator_secret_key = Some (demo_word 64 7), sa_l1_operator_private_key = None, sa_node_ready_timeout_ms = 45000,
     sa_bridge_wait_timeout_ms = 240000, sa_bridge_poll_ms = 2000, sa_quote_ttl_seconds = 3600, sa_da_gas_limit = 50,
     sa_l2_gas_limit = 300, sa_topup_safety_multiplier = 5, sa_fpc_rate_num = 6, sa_fpc_rate_den = 10,
     sa_fpc_topup_wei_override = None\<rparr>"

lemma demo_manifests_read:
  "read_deploy_manifest demo_manifest_lib (se_files demo_smoke_env) ''m'' = Inr demo_manifest"
  "read_test_token_manifest demo_manifest_lib (se_files demo_smoke_env) ''t'' = Inr demo_token_manifest"
proof -
  have "test_token_manifest_schema demo_manifest_lib (test_token_manifest_json demo_manifest_lib demo_token_manifest) =
      Inr (Inr demo_token_manifest)" by code_simp
  then show "read_test_token_manifest demo_manifest_lib (se_files demo_smoke_env) ''t'' = Inr demo_token_manifest"
    by (simp add: read_test_token_manifest_def read_json_def t_parse_Inr demo_smoke_env_def demo_manifest_lib_def [THEN arg_cong, of ml_resolve])
  show "read_deploy_manifest demo_manifest_lib (se_files demo_smoke_env) ''m'' = Inr demo_manifest"
    using demo_manifest_validates
    by (simp add: read_deploy_manifest_def read_json_def validate_deploy_manifest_def demo_smoke_env_def
        demo_manifest_lib_def [THEN arg_cong, of ml_resolve])
qed

definition demo_payment :: smoke_payment where
  "demo_payment = \<lparr>py_fpc = 7, py_token = 1, py_user = 1, py_nonce = 5, py_fj_amount = 1000, py_aa_amount = 600,
     py_valid_until = 4600, py_sig = [9], py_da_gas_limit = 50, py_l2_gas_limit = 300, py_fee_per_da_gas = 2,
     py_fee_per_l2_gas = 3\<rparr>"

definition demo_smoke_context :: smoke_context where
  "demo_smoke_context = \<lparr>x_signing_key = 7, x_operator = 1, x_fpc = 7, x_token = 1, x_faucet = 7, x_fee_per_da_gas = 2,
     x_fee_per_l2_gas = 3, x_max_gas_cost = 1000, x_topup_amount = 1005000\<rparr>"

lemma demo_smoke_steps:
  "smoke_prepare demo_smoke_env demo_smoke_args (0, 0) = (Inr demo_smoke_context, (0, 0))"
  "top_up_deposit demo_smoke_env demo_smoke_args 1 7 1005000 ''fpcmultiasset'' (0, 0) = (Inr 0, (1005000, 0))"
  "smoke_pay demo_smoke_env demo_smoke_args demo_smoke_context (1005000, 0) = (Inr (demo_payment, 800), (1005000, 0))"
proof -
  have "smoke_inputs demo_smoke_env demo_smoke_args = Inr (demo_manifest, demo_token_manifest, 7, 7)"
    unfolding smoke_inputs_Inr using demo_manifests_read
    by (simp add: demo_smoke_args_def) (simp add: demo_manifest_lib_def demo_word_def validate_operator_pubkey_def demo_manifest_def)
  moreover have "address_from_string (ml_lib demo_manifest_lib) (address_to_string (ml_lib demo_manifest_lib) 1) = Inr 1"
    by (simp add: demo_manifest_lib_def demo_word_def)
  then have "connect_operator demo_smoke_env demo_smoke_args demo_manifest 7 7 (0, 0) = (Inr 1, (0, 0))"
    by (simp add: connect_operator_def demo_manifest_def Let_def)
  moreover have "register_contracts demo_smoke_env 1 7 7 (0, 0) = (Inr (), (0, 0))" by (simp add: register_contracts_def Let_def)
  moreover have "se_min_fees demo_smoke_env (0, 0) = (Inr (2, 3), (0, 0))" by simp
  moreover have "fpc_topup_amount demo_smoke_args 1000 = Inr 1005000" "max_gas_cost_no_teardown demo_smoke_args 2 3 = 1000"
    by code_simp+
  ultimately show "smoke_prepare demo_smoke_env demo_smoke_args (0, 0) = (Inr demo_smoke_context, (0, 0))"
    by (simp add: smoke_prepare_def demo_manifest_def [THEN arg_cong, of dm_fpc] demo_token_manifest_def demo_smoke_context_def)
qed code_simp+

lemma demo_run: "run_smoke demo_smoke_env demo_smoke_args (0, 0) =
    Some (Inr (SmokePassed 1005000 demo_payment 800), (1005000, 0))"
proof -
  have "wait_for_balance_loop demo_smoke_env 7 1005000 240000 2000 0 (1005000, 0) = Some (Inr 1005000, (1005000, 0))"
    by (subst wait_for_balance_loop.simps) (simp add: demo_smoke_env_def)
  moreover have "se_now demo_smoke_env (1005000, 0) = 0" by (simp add: demo_smoke_env_def)
  ultimately have "top_up_fee_payer demo_smoke_env demo_smoke_args 1 7 1005000 ''fpcmultiasset'' (0, 0) =
      Some (Inr 1005000, (1005000, 0))"
    by (simp add: top_up_fee_payer_def demo_smoke_steps wait_for_fee_juice_balance_at_least_def)
      (simp add: demo_smoke_args_def)
  then show ?thesis
    using demo_smoke_steps(3) by (simp add: run_smoke_def demo_smoke_steps(1)) (simp add: demo_smoke_context_def)
qed

section \<open>Properties\<close>

text \<open>
  A smoke test that passes has tested the deployment. Contract and token of the paid transaction
  are those of the manifests, its sender is the manifest's operator, whose published key is the key
  of the signatures, and before the transaction was sent the contract's balance had been read
  to cover the quoted fee as often as the safety factor asks, and more.
\<close>

theorem smoke_pass_sound:
  assumes "run_smoke env args w = Some (Inr (SmokePassed balance p fee), w')"
    and "smoke_args_wf args" "addresses_roundtrip (se_lib env)"
    and "\<forall>a v b v'. se_fee_juice_balance env a v = (Inr b, v') \<longrightarrow> 0 \<le> b"
  shows "\<exists>dm tm secret.
    read_deploy_manifest (se_manifest_lib env) (se_files env) (sa_manifest_path args) = Inr dm \<and>
    read_test_token_manifest (se_manifest_lib env) (se_files env) (sa_test_token_manifest_path args) = Inr tm \<and>
    py_fpc p = dm_fpc dm \<and> py_token p = tk_token (tm_contracts tm) \<and> py_user p = mo_address (dm_operator dm) \<and>
    (mo_pubkey_x (dm_operator dm) \<noteq> 0 \<or> mo_pubkey_y (dm_operator dm) \<noteq> 0 \<longrightarrow>
       se_public_key env (se_signing_key env secret) = (mo_pubkey_x (dm_operator dm), mo_pubkey_y (dm_operator dm))) \<and>
    (\<exists>u u'. se_fee_juice_balance env (py_fpc p) u = (Inr balance, u')) \<and>
    py_fj_amount p * sa_topup_safety_multiplier args + 1000000 \<le> balance"
proof -
  from run_smoke_Inr [OF assms(1)] obtain x w1 w2 where prep: "smoke_prepare env args w = (Inr x, w1)"
    and top: "top_up_fee_payer env args (x_operator x) (x_fpc x) (x_topup_amount x) ''fpcmultiasset'' w1 = Some (Inr balance, w2)"
    and pay: "smoke_pay env args x w2 = (Inr (p, fee), w')" .
  obtain dm tm secret v1 v2 v3 fee_da fee_l2 where
    inp: "smoke_inputs env args = Inr (dm, tm, secret, x_signing_key x)"
    and con: "connect_operator env args dm secret (x_signing_key x) w = (Inr (x_operator x), v1)"
    and "register_contracts env (tk_token (tm_contracts tm)) (dm_fpc dm) (tk_faucet (tm_contracts tm)) v1 = (Inr (), v2)"
    and "se_min_fees env v2 = (Inr (fee_da, fee_l2), v3)"
    and amt: "fpc_topup_amount args (max_gas_cost_no_teardown args fee_da fee_l2) = Inr (x_topup_amount x)"
    and x: "x_fpc x = dm_fpc dm" "x_token x = tk_token (tm_contracts tm)"
      "x_fee_per_da_gas x = fee_da" "x_fee_per_l2_gas x = fee_l2"
      "x_max_gas_cost x = max_gas_cost_no_teardown args fee_da fee_l2"
    by (rule smoke_prepare_Inr [OF prep])
  have p: "py_fpc p = x_fpc x" "py_token p = x_token x" "py_user p = x_operator x" "py_fj_amount p = x_max_gas_cost x"
    by (rule smoke_pay_Inr [OF pay], simp)+
  note inputs = inp [unfolded smoke_inputs_Inr]
  obtain s where "address_from_string (se_lib env) s = Inr (mo_address (dm_operator dm))"
    using read_manifest_operator inputs by metis
  then have op: "x_operator x = mo_address (dm_operator dm)"
    using same_printed_address [OF assms(3)] connect_operator_Inr [OF con] by metis
  have "sa_fpc_topup_wei_override args \<noteq> Some 0" using assms(2) by (auto simp: smoke_args_wf_def)
  from fpc_topup_amount_Inr [OF amt this] have "fpc_min_topup args (x_max_gas_cost x) \<le> x_topup_amount x" by (simp add: x)
  moreover obtain initial u where "0 \<le> initial" "initial + x_topup_amount x \<le> balance"
    "se_fee_juice_balance env (x_fpc x) u = (Inr balance, w2)"
    using top_up_fee_payer_Inr [OF top] assms(4) by blast
  ultimately have bal: "x_max_gas_cost x * sa_topup_safety_multiplier args + 1000000 \<le> balance"
    "\<exists>u u'. se_fee_juice_balance env (x_fpc x) u = (Inr balance, u')"
    by (auto simp: fpc_min_topup_def)
  have key: "mo_pubkey_x (dm_operator dm) \<noteq> 0 \<or> mo_pubkey_y (dm_operator dm) \<noteq> 0 \<longrightarrow>
      se_public_key env (se_signing_key env secret) = (mo_pubkey_x (dm_operator dm), mo_pubkey_y (dm_operator dm))"
    using inputs by (auto simp: validate_operator_pubkey_def prod_eq_iff)
  show ?thesis
    by (rule exI [of _ dm], rule exI [of _ tm], rule exI [of _ secret]) (use inputs bal key in \<open>simp add: p x(1,2) op\<close>)
qed

lemma demo_address: "address_from_string (ml_lib demo_manifest_lib) s = Inr (if last s = CHR ''7'' then 7 else 1)"
  "address_to_string (ml_lib demo_manifest_lib) = demo_word 64"
  by (simp_all add: demo_manifest_lib_def)

lemma demo_manifest_addresses_roundtrip: "addresses_roundtrip (ml_lib demo_manifest_lib)"
proof -
  have "last (demo_word 64 a) = (if a = 7 then CHR ''7'' else CHR ''1'')"
    "last (js_lower (demo_word 64 a)) = (if a = 7 then CHR ''7'' else CHR ''1'')" for a
    by (simp_all add: demo_word_def js_lower_def lower_char_def code_of_def)
  then show ?thesis by (auto simp: addresses_roundtrip_def demo_address)
qed

lemma demo_smoke_args_wf: "smoke_args_wf demo_smoke_args"
  by (simp add: smoke_args_wf_def demo_smoke_args_def key_or_none_def hex_word_def demo_word_def list_all_iff is_hex_digit_def is_digit_def code_of_def)

lemma smoke_pass_sound_witness:
  "\<exists>dm. read_deploy_manifest demo_manifest_lib (se_files demo_smoke_env) ''m'' = Inr dm \<and> py_fpc demo_payment = dm_fpc dm \<and>
     py_user demo_payment = mo_address (dm_operator dm) \<and> 1000 * 5 + 1000000 \<le> (1005000 :: int)"
proof -
  have bal: "\<forall>a v b v'. se_fee_juice_balance demo_smoke_env a v = (Inr b, v') \<longrightarrow> 0 \<le> b"
    by (auto split: prod.splits)
  have "addresses_roundtrip (se_lib demo_smoke_env)" by (simp add: demo_manifest_addresses_roundtrip)
  from smoke_pass_sound [OF demo_run demo_smoke_args_wf this bal] show ?thesis
    by (auto simp: demo_smoke_args_def demo_payment_def)
qed

text \<open>
  C34. The contract accepts the payment of the smoke test. Let the contract hold the published key of
  the manifest and hash as the test does, and let signatures made with a key verify under it. If
  the test passes its own checks up to the payment, then a \<open>fee_entrypoint\<close> call with the payment's
  values, under exactly its gas settings and in a block of the last hour before the quote's
  expiry, succeeds whenever the transfer of the charge does. The quoted fee is the maximal gas
  cost of those settings and the charge its price rounded up.
\<close>

theorem smoke_payment_is_accepted:
  assumes "run_smoke env args w = Some (Inr (SmokePassed balance p fee), w')" "smoke_args_wf args"
    and "read_deploy_manifest (se_manifest_lib env) (se_files env) (sa_manifest_path args) = Inr dm"
    and "(operator_pubkey_x cfg, operator_pubkey_y cfg) = (mo_pubkey_x (dm_operator dm), mo_pubkey_y (dm_operator dm))"
    and "mo_pubkey_x (dm_operator dm) \<noteq> 0 \<or> mo_pubkey_y (dm_operator dm) \<noteq> 0"
    and "\<And>m k v s v'. se_construct_signature env m k v = (Inr s, v') \<Longrightarrow>
           assert_valid_signature fe (se_public_key env k) s m = Inr ()"
    and "authwit_hash fe = inner_authwit_hash (se_lib env)" "fr_holds_u128 (se_lib env)"
    and "this_address ctx = py_fpc p" "maybe_msg_sender ctx = Some (py_user p)" "\<not> in_revertible_phase ctx"
    and "uint (fee_per_da_gas (ctx_gas ctx)) = py_fee_per_da_gas p" "uint (da_gas (ctx_gas ctx)) = py_da_gas_limit p"
    and "uint (fee_per_l2_gas (ctx_gas ctx)) = py_fee_per_l2_gas p" "uint (l2_gas (ctx_gas ctx)) = py_l2_gas_limit p"
    and "py_fj_amount p < 2 ^ 128" "py_aa_amount p < 2 ^ 128" "py_valid_until p < 2 ^ 64"
    and "uint (anchor_timestamp ctx) \<le> py_valid_until p" "py_valid_until p \<le> uint (anchor_timestamp ctx) + 3600"
    and "token_transfer fe (py_fpc p) (py_token p) (py_user p) (operator cfg) (word_of_int (py_aa_amount p)) (py_nonce p) l = Inr l'"
  shows "(\<exists>ctx'. fee_entrypoint fe (Some cfg) (py_token p) (py_nonce p) (word_of_int (py_fj_amount p))
      (word_of_int (py_aa_amount p)) (word_of_int (py_valid_until p)) (py_sig p) ctx l = Inr (ctx', l')) \<and>
    py_fj_amount p = max_gas_cost (ctx_gas ctx) \<and>
    py_aa_amount p = \<lceil>rat_of_int (py_fj_amount p * sa_fpc_rate_num args) / rat_of_int (sa_fpc_rate_den args)\<rceil>"
proof -
  obtain x w1 w2 where prep: "smoke_prepare env args w = (Inr x, w1)"
    and "top_up_fee_payer env args (x_operator x) (x_fpc x) (x_topup_amount x) ''fpcmultiasset'' w1 = Some (Inr balance, w2)"
    and pay: "smoke_pay env args x w2 = (Inr (p, fee), w')"
    by (rule run_smoke_Inr [OF assms(1)])
  obtain dm' tm secret v1 v2 v3 fee_da fee_l2 where
    inp: "smoke_inputs env args = Inr (dm', tm, secret, x_signing_key x)"
    and "connect_operator env args dm' secret (x_signing_key x) w = (Inr (x_operator x), v1)"
    and "register_contracts env (tk_token (tm_contracts tm)) (dm_fpc dm') (tk_faucet (tm_contracts tm)) v1 = (Inr (), v2)"
    and "se_min_fees env v2 = (Inr (fee_da, fee_l2), v3)"
    and "fpc_topup_amount args (max_gas_cost_no_teardown args fee_da fee_l2) = Inr (x_topup_amount x)"
    and x: "x_fpc x = dm_fpc dm'" "x_token x = tk_token (tm_contracts tm)"
      "x_fee_per_da_gas x = fee_da" "x_fee_per_l2_gas x = fee_l2"
      "x_max_gas_cost x = max_gas_cost_no_teardown args fee_da fee_l2"
    by (rule smoke_prepare_Inr [OF prep])
  obtain charge block hash sig nonce t1 t2 t3 t4 where
    charge: "smoke_ceil_div (x_max_gas_cost x * sa_fpc_rate_num args) (sa_fpc_rate_den args) = Inr charge"
    and "se_latest_timestamp env t1 = (Inr (Some block), t2)"
    and hash: "smoke_quote_hash (se_lib env) x (x_max_gas_cost x) charge (block + sa_quote_ttl_seconds args) = Inr hash"
    and sig: "se_construct_signature env (to_be_bytes 32 hash) (x_signing_key x) t2 = (Inr sig, t3)"
    and "se_send_paid_transfer env p t4 = (Inr fee, w')"
    and p: "p = \<lparr>py_fpc = x_fpc x, py_token = x_token x, py_user = x_operator x, py_nonce = nonce, py_fj_amount = x_max_gas_cost x,
       py_aa_amount = charge, py_valid_until = block + sa_quote_ttl_seconds args, py_sig = sig,
       py_da_gas_limit = sa_da_gas_limit args, py_l2_gas_limit = sa_l2_gas_limit args,
       py_fee_per_da_gas = x_fee_per_da_gas x, py_fee_per_l2_gas = x_fee_per_l2_gas x\<rparr>"
    by (rule smoke_pay_Inr [OF pay])
  define expiry where "expiry = block + sa_quote_ttl_seconds args"
  note hash = hash [folded expiry_def] and p = p [folded expiry_def]
  have cost: "py_fj_amount p = max_gas_cost (ctx_gas ctx)"
    using assms(12-15) by (simp add: p x max_gas_cost_no_teardown_def max_gas_cost_def algebra_simps)
  then have fj: "0 \<le> py_fj_amount p" by (simp add: max_gas_cost_def)
  with assms(2) have "0 < sa_fpc_rate_den args" "0 \<le> py_fj_amount p * sa_fpc_rate_num args" by (simp_all add: smoke_args_wf_def)
  from ceil_div_exact [OF this] charge
  have aa: "py_aa_amount p = \<lceil>rat_of_int (py_fj_amount p * sa_fpc_rate_num args) / rat_of_int (sa_fpc_rate_den args)\<rceil>"
    by (simp add: p smoke_ceil_div_def ceil_div_def)
  have aa0: "0 \<le> py_aa_amount p"
    unfolding aa using fj assms(2) by (simp add: smoke_args_wf_def zero_le_ceiling order_less_le_trans [of "-1" 0])
  have until: "0 \<le> py_valid_until p" using assms(19) uint_ge_0 [of "anchor_timestamp ctx"] by linarith
  note fr = assms(8) [unfolded fr_holds_u128_def, rule_format]
  have h: "hash = authwit_hash fe (quote_preimage (this_address ctx) (py_token p) (word_of_int (py_fj_amount p))
      (word_of_int (py_aa_amount p)) (word_of_int (py_valid_until p)) (py_user p))"
    using hash fr [OF fj] fr [OF aa0] fr [OF until] assms(7,9,16-18) fj aa0 until
    by (simp add: smoke_quote_hash_def quote_preimage_def SMOKE_QUOTE_DOMAIN_SEPARATOR_def QUOTE_DOMAIN_SEPARATOR_def p
        uint_word_of_int)
  have key: "se_public_key env (x_signing_key x) = (operator_pubkey_x cfg, operator_pubkey_y cfg)"
    using inp [unfolded smoke_inputs_Inr] assms(3-5) by (auto simp: validate_operator_pubkey_def prod_eq_iff)
  have "assert_valid_signature fe (operator_pubkey_x cfg, operator_pubkey_y cfg) (py_sig p) (to_be_bytes 32 hash) = Inr ()"
    using assms(6) [OF sig] by (simp add: key p)
  with h cost aa assms(9-11,16-21) fj until show ?thesis
    by (auto simp: fee_entrypoint_iff Let_def uint_word_of_int in_quote_window_def)
qed

lemma smoke_payment_is_accepted_witness:
  "\<exists>ctx' l'. fee_entrypoint (demo_fpc_env\<lparr>authwit_hash := inner_authwit_hash (ml_lib demo_manifest_lib)\<rparr>)
     (Some \<lparr>operator = 4, operator_pubkey_x = 7, operator_pubkey_y = 1\<rparr>) 1 5 (word_of_int 1000) (word_of_int 600)
     (word_of_int 4600) [9] ((demo_ctx (Some 1))\<lparr>this_address := 7\<rparr>) (\<lambda>_ _. 800) = Inr (ctx', l')"
proof -
  let ?fe = "demo_fpc_env\<lparr>authwit_hash := inner_authwit_hash (ml_lib demo_manifest_lib)\<rparr>"
  let ?cfg = "\<lparr>operator = 4, operator_pubkey_x = 7, operator_pubkey_y = 1\<rparr>"
  let ?ctx = "(demo_ctx (Some 1))\<lparr>this_address := 7\<rparr>"
  obtain l' where l': "token_transfer ?fe 7 1 1 4 (word_of_int 600) 5 (\<lambda>_ _. 800) = Inr l'"
    by (simp add: demo_fpc_env_def)
  have read: "read_deploy_manifest (se_manifest_lib demo_smoke_env) (se_files demo_smoke_env) (sa_manifest_path demo_smoke_args) =
      Inr demo_manifest"
    using demo_manifests_read(1) by (simp add: demo_smoke_args_def)
  have fr: "fr_holds_u128 (se_lib demo_smoke_env)" by (simp add: fr_holds_u128_def demo_manifest_lib_def)
  have sigs: "assert_valid_signature ?fe pk s m = Inr ()" for pk s m by (simp add: demo_fpc_env_def)
  show ?thesis
    using smoke_payment_is_accepted [OF demo_run demo_smoke_args_wf read, of ?cfg ?fe ?ctx "\<lambda>_ _. 800" l'] l' fr sigs
    by (auto simp: demo_payment_def demo_manifest_def demo_ctx_def)
qed

text \<open>
  The wait for the bridged balance ends. When a sleep takes at least its time and the poll interval
  is positive, the wait returns, and with a balance only if that balance was read and is enough.
\<close>

theorem balance_wait_returns:
  assumes "smoke_clock_ok env" "0 < poll_ms"
  shows "\<exists>r w'. wait_for_fee_juice_balance_at_least env payer minimum timeout_ms poll_ms w = Some (r, w') \<and>
    (\<forall>b. r = Inr b \<longrightarrow> minimum \<le> b \<and> (\<exists>v. se_fee_juice_balance env payer v = (Inr b, w')))"
proof -
  obtain r w' where run: "wait_for_fee_juice_balance_at_least env payer minimum timeout_ms poll_ms w = Some (r, w')"
    using wait_for_balance_loop_returns [OF assms] by (fastforce simp: wait_for_fee_juice_balance_at_least_def)
  then show ?thesis
    using wait_for_balance_loop_Inr [of env payer minimum _ poll_ms 0 w _ w']
    by (auto simp: wait_for_fee_juice_balance_at_least_def)
qed

lemma balance_wait_returns_witness:
  "\<exists>r w'. wait_for_fee_juice_balance_at_least demo_smoke_env 7 5 240000 2000 (0, 0) = Some (r, w')"
proof -
  have "smoke_clock_ok demo_smoke_env" by (auto simp: smoke_clock_ok_def split: prod.splits)
  from balance_wait_returns [OF this, of 2000 7 5 240000 "(0, 0)"] show ?thesis by auto
qed

text \<open>
  The option \<open>--manifest\<close> moves the deployment manifest only: the path of the test token's manifest
  was fixed before the options were read, next to the manifest of the environment or the default.
\<close>

lemma manifest_flag_keeps_token_manifest:
  assumes "parse_smoke_args sp [''--manifest'', path] = Inr (Some args)" "initial_smoke_values sp = Inr a0"
  shows "sa_test_token_manifest_path args = sp_resolve (sm_platform sp) (sv_test_token_manifest_path a0)"
  using assms
  by (auto simp: parse_smoke_args_def smoke_flags_def and_then_Inr_iff map_sum_Inr finish_smoke_args_def split: option.splits)

text \<open>
  An error of the balance read during the wait escapes the \<open>catch\<close>, since the promise of the wait is
  returned without \<open>await\<close>: it is reported as the read threw it, not as a funding failure.
\<close>

lemma wait_error_escapes_catch:
  assumes "top_up_deposit env args sender payer amount label w = (Inr initial, w1)"
    and "0 \<le> sa_bridge_wait_timeout_ms args" "se_fee_juice_balance env payer w1 = (Inl e, w2)"
  shows "top_up_fee_payer env args sender payer amount label w = Some (Inl e, w2)"
  using assms
  by (simp add: top_up_fee_payer_def wait_for_fee_juice_balance_at_least_def) (subst wait_for_balance_loop.simps, simp)

text \<open>A payment of a test whose quote lives longer than an hour can be refused at once.\<close>

lemma long_quote_is_refused:
  assumes "uint (anchor_timestamp ctx) + 3600 < valid_until" "valid_until < 2 ^ 64"
  shows "fee_entrypoint fe storage asset nonce fj aa (word_of_int valid_until) sig ctx l \<noteq> Inr r"
proof
  assume run: "fee_entrypoint fe storage asset nonce fj aa (word_of_int valid_until) sig ctx l = Inr r"
  obtain ctx' l' where "r = (ctx', l')" by (cases r)
  with run have "in_quote_window (anchor_timestamp ctx) (word_of_int valid_until)" by (auto simp: fee_entrypoint_iff Let_def)
  moreover have "0 \<le> valid_until" using assms(1) uint_ge_0 [of "anchor_timestamp ctx"] by linarith
  ultimately show False using assms by (simp add: in_quote_window_def uint_word_of_int)
qed

end
