(* ===== verification/Fpc_Wallet.thy ===== *)
theory Fpc_Wallet
  imports Fpc_Contract
begin

text \<open>
  The wallet of the scripts, \<open>scripts/common/fpc-wallet.ts\<close>. It overrides four methods of the
  wallet of the Aztec SDK; the methods it overrides, the PXE and the multicall entrypoint are
  fields of \<open>wallet_env\<close>, over any payloads \<open>'p\<close>, gas settings \<open>'g\<close>, options \<open>'e\<close> and \<open>'o\<close>,
  requests \<open>'x\<close> and results \<open>'s\<close>, \<open>'r\<close>.
\<close>

datatype sender = No_From | From_Address int

record ('g, 'e) fee_options =
  fo_gas_settings :: 'g
  fo_other :: 'e

record ('g, 'e) simulate_options =
  so_from :: sender
  so_fee_options :: "('g, 'e) fee_options"
  so_scopes :: "int list"
  so_skip_tx_validation :: "bool option"
  so_skip_fee_enforcement :: "bool option"

record pxe_simulate_options =
  px_simulate_public :: bool
  px_skip_fee_enforcement :: "bool option"
  px_skip_tx_validation :: "bool option"
  px_scopes :: "int list"

record ('w, 'p, 'g, 'e, 'o, 'x, 's, 'r) wallet_env =
  we_base_send_tx :: "'p \<Rightarrow> 'o \<Rightarrow> ('w, 'r) ioe"
  we_embedded_scopes_from :: "sender \<Rightarrow> int list \<Rightarrow> int list"
  we_embedded_simulate :: "'p \<Rightarrow> ('g, 'e) simulate_options \<Rightarrow> ('w, 's) ioe"
  we_embedded_create_request :: "'p \<Rightarrow> sender \<Rightarrow> ('g, 'e) fee_options \<Rightarrow> ('w, 'x) ioe"
  we_get_chain_info :: "('w, int \<times> int) ioe"
  we_multicall_request :: "'p \<Rightarrow> 'g \<Rightarrow> int \<times> int \<Rightarrow> ('w, 'x) ioe"
  we_pxe_simulate_tx :: "'x \<Rightarrow> pxe_simulate_options \<Rightarrow> ('w, 's) ioe"

definition send_tx :: "('w, 'p, 'g, 'e, 'o, 'x, 's, 'r) wallet_env \<Rightarrow> 'p \<Rightarrow> 'o \<Rightarrow> ('w, 'r) ioe" where
  "send_tx env payload opts = we_base_send_tx env payload opts"

definition scopes_from :: "('w, 'p, 'g, 'e, 'o, 'x, 's, 'r) wallet_env \<Rightarrow> sender \<Rightarrow> int list \<Rightarrow> int list" where
  "scopes_from env from_who additional =
     (if from_who = From_Address 0 then additional else we_embedded_scopes_from env from_who additional)"

definition create_multicall_tx_request ::
    "('w, 'p, 'g, 'e, 'o, 'x, 's, 'r) wallet_env \<Rightarrow> 'p \<Rightarrow> ('g, 'e) fee_options \<Rightarrow> ('w, 'x) ioe" where
  "create_multicall_tx_request env payload fees =
     bind_io (we_get_chain_info env) (\<lambda>chain. we_multicall_request env payload (fo_gas_settings fees) chain)"

definition simulate_via_multicall ::
    "('w, 'p, 'g, 'e, 'o, 'x, 's, 'r) wallet_env \<Rightarrow> 'p \<Rightarrow> ('g, 'e) simulate_options \<Rightarrow> ('w, 's) ioe" where
  "simulate_via_multicall env payload opts =
     bind_io (we_get_chain_info env) (\<lambda>chain.
     bind_io (we_multicall_request env payload (fo_gas_settings (so_fee_options opts)) chain) (\<lambda>request.
     we_pxe_simulate_tx env request \<lparr>px_simulate_public = True, px_skip_fee_enforcement = so_skip_fee_enforcement opts,
       px_skip_tx_validation = so_skip_tx_validation opts, px_scopes = so_scopes opts\<rparr>))"

definition simulate_via_entrypoint ::
    "('w, 'p, 'g, 'e, 'o, 'x, 's, 'r) wallet_env \<Rightarrow> 'p \<Rightarrow> ('g, 'e) simulate_options \<Rightarrow> ('w, 's) ioe" where
  "simulate_via_entrypoint env payload opts =
     (if so_from opts = From_Address 0 then simulate_via_multicall env payload opts
      else we_embedded_simulate env payload opts)"

definition create_tx_execution_request_from_payload_and_fee ::
    "('w, 'p, 'g, 'e, 'o, 'x, 's, 'r) wallet_env \<Rightarrow> 'p \<Rightarrow> sender \<Rightarrow> ('g, 'e) fee_options \<Rightarrow> ('w, 'x) ioe" where
  "create_tx_execution_request_from_payload_and_fee env payload from_who fees =
     (if from_who = From_Address 0 then create_multicall_tx_request env payload fees
      else we_embedded_create_request env payload from_who fees)"

section \<open>Properties\<close>

text \<open>
  A transaction from the zero address never reaches the methods of the embedded wallet, which
  look up an account there: replacing all three changes nothing. Its request asks for no more
  scopes than the additional ones, and a simulation runs on the request that would be sent.
\<close>

theorem zero_sender_needs_no_account:
  assumes "env' = env\<lparr>we_embedded_scopes_from := f, we_embedded_simulate := g, we_embedded_create_request := h\<rparr>"
    and "so_from opts = From_Address 0"
  shows "scopes_from env' (From_Address 0) extra = extra \<and>
    simulate_via_entrypoint env' payload opts = simulate_via_entrypoint env payload opts \<and>
    create_tx_execution_request_from_payload_and_fee env' payload (From_Address 0) fees =
      create_tx_execution_request_from_payload_and_fee env payload (From_Address 0) fees \<and>
    simulate_via_entrypoint env payload opts =
      bind_io (create_tx_execution_request_from_payload_and_fee env payload (From_Address 0) (so_fee_options opts))
        (\<lambda>request. we_pxe_simulate_tx env request \<lparr>px_simulate_public = True,
           px_skip_fee_enforcement = so_skip_fee_enforcement opts, px_skip_tx_validation = so_skip_tx_validation opts,
           px_scopes = so_scopes opts\<rparr>)"
  using assms(2) unfolding assms(1)
  by (auto simp: scopes_from_def simulate_via_entrypoint_def simulate_via_multicall_def bind_io_def
      create_tx_execution_request_from_payload_and_fee_def create_multicall_tx_request_def fun_eq_iff
      split: prod.splits sum.splits)

text \<open>Any other sender is served by the embedded wallet.\<close>

lemma other_senders_use_embedded_wallet:
  assumes "from_who \<noteq> From_Address 0"
  shows "scopes_from env from_who extra = we_embedded_scopes_from env from_who extra"
    and "so_from opts = from_who \<Longrightarrow> simulate_via_entrypoint env payload opts = we_embedded_simulate env payload opts"
    and "create_tx_execution_request_from_payload_and_fee env payload from_who fees =
      we_embedded_create_request env payload from_who fees"
  using assms by (simp_all add: scopes_from_def simulate_via_entrypoint_def
      create_tx_execution_request_from_payload_and_fee_def)

text \<open>
  Why \<open>sendTx\<close> must not simulate first with inflated limits: a transaction that the contract
  accepts is rejected under the same fees with larger gas limits, as soon as the fees make the
  larger limits dearer.
\<close>

lemma max_gas_cost_inflated:
  assumes "fee_per_da_gas g' = fee_per_da_gas g" "fee_per_l2_gas g' = fee_per_l2_gas g"
    and "uint (da_gas g) \<le> uint (da_gas g')" "uint (l2_gas g) \<le> uint (l2_gas g')"
    and "0 < uint (fee_per_da_gas g) \<and> da_gas g' \<noteq> da_gas g \<or> 0 < uint (fee_per_l2_gas g) \<and> l2_gas g' \<noteq> l2_gas g"
  shows "max_gas_cost g < max_gas_cost g'"
proof -
  let ?a = "uint (fee_per_da_gas g)" and ?b = "uint (fee_per_l2_gas g)"
  have le: "?a * uint (da_gas g) \<le> ?a * uint (da_gas g')" "?b * uint (l2_gas g) \<le> ?b * uint (l2_gas g')"
    using assms(3,4) by (simp_all add: mult_left_mono)
  have "?a * uint (da_gas g) < ?a * uint (da_gas g')" if "0 < ?a" "da_gas g' \<noteq> da_gas g"
    using assms(3) that by (simp add: word_uint_eq_iff)
  moreover have "?b * uint (l2_gas g) < ?b * uint (l2_gas g')" if "0 < ?b" "l2_gas g' \<noteq> l2_gas g"
    using assms(4) that by (simp add: word_uint_eq_iff)
  ultimately show ?thesis using le assms(5) unfolding max_gas_cost_def assms(1,2) by linarith
qed

theorem inflated_limits_are_rejected:
  assumes "fee_entrypoint env storage asset nonce fj aa until sig ctx l = Inr r" "ctx_gas ctx = g"
    and "fee_per_da_gas g' = fee_per_da_gas g" "fee_per_l2_gas g' = fee_per_l2_gas g"
    and "uint (da_gas g) \<le> uint (da_gas g')" "uint (l2_gas g) \<le> uint (l2_gas g')"
    and "0 < uint (fee_per_da_gas g) \<and> da_gas g' \<noteq> da_gas g \<or> 0 < uint (fee_per_l2_gas g) \<and> l2_gas g' \<noteq> l2_gas g"
  shows "\<exists>e. fee_entrypoint env storage asset nonce fj aa until sig (ctx\<lparr>ctx_gas := g'\<rparr>) l = Inl e"
proof -
  obtain ctx1 l1 where "r = (ctx1, l1)" by fastforce
  with assms(1,2) have "uint fj = max_gas_cost g" by (auto simp: fee_entrypoint_iff Let_def)
  with max_gas_cost_inflated [OF assms(3-7)]
  have "fee_entrypoint env storage asset nonce fj aa until sig (ctx\<lparr>ctx_gas := g'\<rparr>) l \<noteq> Inr (ctx2, l2)" for ctx2 l2
    by (auto simp: fee_entrypoint_iff Let_def)
  then show ?thesis
    by (cases "fee_entrypoint env storage asset nonce fj aa until sig (ctx\<lparr>ctx_gas := g'\<rparr>) l") auto
qed

lemma inflated_limits_are_rejected_witness:
  "\<exists>e. fee_entrypoint demo_fpc_env (Some demo_fpc_config) 7 n 1000 600 1600 sig
     ((demo_ctx (Some 9))\<lparr>ctx_gas := \<lparr>fee_per_da_gas = 2, fee_per_l2_gas = 3, da_gas = 50, l2_gas = 400\<rparr>\<rparr>) (\<lambda>_ _. 800) = Inl e"
proof -
  obtain d m where "fee_entrypoint demo_fpc_env (Some demo_fpc_config) 7 n 1000 600 1600 sig (demo_ctx (Some 9)) (\<lambda>_ _. 800) = Inr (d, m)"
    using demo_fee_entrypoint [of 1600 n sig] by blast
  from inflated_limits_are_rejected [OF this refl] show ?thesis by (simp add: demo_ctx_def)
qed

end
