(* ===== verification/Script_Accounts.thy ===== *)
theory Script_Accounts
  imports Script_Args Aztec_Lib
begin

text \<open>
  The accounts of a test script, \<open>scripts/common/script-credentials.ts\<close>: a fresh L1 key funded
  through the RPC of the test chain, and L2 accounts that are each deployed with the Fee Juice
  that was bridged to them.

  Wallet, node, L1 clients, \<open>fetch\<close> and timers are fields of \<open>accounts_env\<close>. Both retry loops
  are the loop \<open>retry\<close> of the prelude.
\<close>

section \<open>Data\<close>

definition L1_TO_L2_MESSAGE_TIMEOUT_SECONDS :: int where
  "L1_TO_L2_MESSAGE_TIMEOUT_SECONDS = 120"

definition BRIDGE_RETRY_ATTEMPTS :: nat where
  "BRIDGE_RETRY_ATTEMPTS = 3"

definition BRIDGE_RETRY_DELAY_MS :: int where
  "BRIDGE_RETRY_DELAY_MS = 2000"

definition DEPLOY_RETRY_ATTEMPTS :: nat where
  "DEPLOY_RETRY_ATTEMPTS = 3"

definition DEPLOY_RETRY_DELAY_MS :: int where
  "DEPLOY_RETRY_DELAY_MS = 5000"

text \<open>\<open>L2AmountClaim\<close> of the SDK, as far as a script can see it.\<close>

record l2_amount_claim =
  lc_claim_amount :: int
  lc_claim_secret :: int
  lc_message_hash :: string
  lc_message_leaf_index :: int

text \<open>The account manager is named by its address.\<close>

record account_data =
  ad_secret :: int
  ad_salt :: int
  ad_signing_key :: int
  ad_address :: int

record script_environment =
  se_l1_private_key :: string
  se_accounts :: "account_data list"

record pending_claim =
  pc_claim :: l2_amount_claim
  pc_message_hash :: int

record pre_claim_result =
  pr_account :: account_data
  pr_pending_claim :: pending_claim

record rpc_response =
  rp_status :: int
  rp_status_text :: string
  rp_json :: "thrown + jsval"

text \<open>
  \<open>ae_new_portal\<close> stands for \<open>extractChain\<close>, \<open>createExtendedL1Client\<close> and
  \<open>L1FeeJuicePortalManager.new\<close>; \<open>ae_send_deploy\<close> is the \<open>send\<close> of an account's deploy method
  from the zero address with the claim as its payment.
\<close>

record 'w accounts_env =
  ae_lib :: aztec_lib
  ae_platform :: script_platform
  ae_generate_private_key :: "('w, string) io"
  ae_key_address :: "string \<Rightarrow> string"
  ae_fetch :: "string \<Rightarrow> jsval \<Rightarrow> ('w, rpc_response) ioe"
  ae_get_l1_chain_id :: "string \<Rightarrow> ('w, int) ioe"
  ae_new_portal :: "string \<Rightarrow> string \<Rightarrow> string \<Rightarrow> int \<Rightarrow> ('w, unit) ioe"
  ae_random_fr :: "('w, int) io"
  ae_derive_signing_key :: "int \<Rightarrow> int"
  ae_create_schnorr_account :: "int \<Rightarrow> int \<Rightarrow> int \<Rightarrow> ('w, int) ioe"
  ae_bridge_tokens_public :: "int \<Rightarrow> ('w, l2_amount_claim) ioe"
  ae_mint :: "string \<Rightarrow> ('w, unit) ioe"
  ae_wait_for_message :: "int \<Rightarrow> int \<Rightarrow> ('w, unit) ioe"
  ae_get_deploy_method :: "int \<Rightarrow> ('w, unit) ioe"
  ae_send_deploy :: "int \<Rightarrow> l2_amount_claim \<Rightarrow> ('w, unit) ioe"
  ae_sleep :: "int \<Rightarrow> 'w \<Rightarrow> 'w"

section \<open>Operations\<close>

definition derive_account :: "'w accounts_env \<Rightarrow> int \<Rightarrow> ('w, account_data) ioe" where
  "derive_account env secret =
     (let signing_key = ae_derive_signing_key env secret; salt = 0 in
      bind_io (ae_create_schnorr_account env secret salt signing_key) (\<lambda>a.
      return_io \<lparr>ad_secret = secret, ad_salt = salt, ad_signing_key = signing_key, ad_address = a\<rparr>))"

definition set_balance_request :: "string \<Rightarrow> jsval" where
  "set_balance_request a = JObject [(''jsonrpc'', JString ''2.0''), (''id'', JNum (Finite 1)),
     (''method'', JString ''anvil_setBalance''), (''params'', JArray [JString a, JString ''0xDE0B6B3A7640000''])]"

text \<open>A status outside 200 to 299 and an \<open>error\<close> in the reply both throw.\<close>

definition check_rpc_response :: "'w accounts_env \<Rightarrow> rpc_response \<Rightarrow> thrown + unit" where
  "check_rpc_response env r =
     (if \<not> (200 \<le> rp_status r \<and> rp_status r \<le> 299)
      then Inl (error (''anvil_setBalance failed: HTTP '' @ bigint_string (rp_status r) @ '' '' @ rp_status_text r))
      else and_then (rp_json r) (\<lambda>result.
        if result = JNull
        then Inl (Thrown ''TypeError'' (''Cannot read properties of null (reading '' @ [CHR 0x27] @ ''error'' @ [CHR 0x27] @ '')''))
        else let e = jfield ''error'' result in
          if js_falsy e then Inr ()
          else Inl (error (''anvil_setBalance RPC error: '' @ js_text (ae_platform env) (jfield ''message'' e)))))"

definition fund_l1_account :: "'w accounts_env \<Rightarrow> string \<Rightarrow> string \<Rightarrow> ('w, unit) ioe" where
  "fund_l1_account env l1_rpc_url a =
     bind_io (ae_fetch env l1_rpc_url (set_balance_request a)) (\<lambda>r. from_pure (check_rpc_response env r))"

text \<open>\<open>error instanceof Error\<close> and its message, in lower case.\<close>

definition bridge_retryable :: "thrown + l2_amount_claim \<Rightarrow> bool" where
  "bridge_retryable r = (case r of
     Inl (Thrown n m) \<Rightarrow> js_includes (js_lower m) ''failed to find matching event''
   | _ \<Rightarrow> False)"

definition bridge_with_retry :: "'w accounts_env \<Rightarrow> int \<Rightarrow> ('w, l2_amount_claim) ioe" where
  "bridge_with_retry env l2_address =
     retry bridge_retryable (ae_bridge_tokens_public env l2_address) (ae_sleep env BRIDGE_RETRY_DELAY_MS)
       BRIDGE_RETRY_ATTEMPTS"

definition pre_claim :: "'w accounts_env \<Rightarrow> nat \<Rightarrow> ('w, pre_claim_result) ioe" where
  "pre_claim env index w =
     (case ae_random_fr env w of (secret, w1) \<Rightarrow>
      bind_io (derive_account env secret) (\<lambda>account.
      bind_io (bridge_with_retry env (ad_address account)) (\<lambda>claim.
      bind_io (from_pure (fr_from_hex (ae_lib env) (lc_message_hash claim))) (\<lambda>h.
      return_io \<lparr>pr_account = account, pr_pending_claim = \<lparr>pc_claim = claim, pc_message_hash = h\<rparr>\<rparr>))) w1)"

text \<open>
  One pass of the loop of \<open>deployWithClaim\<close>. The wait stands before the \<open>try\<close>: what it throws
  leaves the loop.
\<close>

datatype deploy_pass =
    Waiting_Failed thrown
  | Deploy_Failed thrown
  | Deployed_Account

definition deploy_pass_of :: "'w accounts_env \<Rightarrow> account_data \<Rightarrow> pending_claim \<Rightarrow> 'w \<Rightarrow> deploy_pass \<times> 'w" where
  "deploy_pass_of env account pending w =
     (case ae_wait_for_message env (pc_message_hash pending) L1_TO_L2_MESSAGE_TIMEOUT_SECONDS w of
        (Inl e, w1) \<Rightarrow> (Waiting_Failed e, w1)
      | (Inr _, w1) \<Rightarrow>
          (case bind_io (ae_get_deploy_method env (ad_address account))
                  (\<lambda>_. ae_send_deploy env (ad_address account) (pc_claim pending)) w1 of
             (Inl e, w2) \<Rightarrow> (Deploy_Failed e, w2)
           | (Inr _, w2) \<Rightarrow> (Deployed_Account, w2)))"

definition message_not_ready :: "deploy_pass \<Rightarrow> bool" where
  "message_not_ready p = (case p of
     Deploy_Failed e \<Rightarrow> js_includes (error_message e) ''Message not in state''
   | _ \<Rightarrow> False)"

definition pass_result :: "deploy_pass \<Rightarrow> thrown + unit" where
  "pass_result p = (case p of Waiting_Failed e \<Rightarrow> Inl e | Deploy_Failed e \<Rightarrow> Inl e | Deployed_Account \<Rightarrow> Inr ())"

definition deploy_with_claim :: "'w accounts_env \<Rightarrow> account_data \<Rightarrow> pending_claim \<Rightarrow> ('w, unit) ioe" where
  "deploy_with_claim env account pending w =
     (case retry message_not_ready (deploy_pass_of env account pending) (ae_sleep env DEPLOY_RETRY_DELAY_MS)
             DEPLOY_RETRY_ATTEMPTS w of (p, w1) \<Rightarrow> (pass_result p, w1))"

definition resolve_script_accounts ::
    "'w accounts_env \<Rightarrow> string \<Rightarrow> string \<Rightarrow> nat \<Rightarrow> ('w, script_environment) ioe" where
  "resolve_script_accounts env node_url l1_rpc_url account_count w =
     (case ae_generate_private_key env w of (l1_key, w1) \<Rightarrow>
      let l1_address = ae_key_address env l1_key in
      bind_io (fund_l1_account env l1_rpc_url l1_address) (\<lambda>_.
      bind_io (ae_get_l1_chain_id env node_url) (\<lambda>chain.
      bind_io (ae_new_portal env node_url l1_rpc_url l1_key chain) (\<lambda>_.
      bind_io (map_io (pre_claim env) [0..<account_count]) (\<lambda>pre_results.
      bind_io (ae_mint env l1_address) (\<lambda>_.
      bind_io (map_io (\<lambda>r. deploy_with_claim env (pr_account r) (pr_pending_claim r)) pre_results) (\<lambda>_.
      return_io \<lparr>se_l1_private_key = l1_key, se_accounts = map pr_account pre_results\<rparr>)))))) w1)"

section \<open>Facts\<close>

lemma bridge_with_retry_Inr:
  assumes "bridge_with_retry env a w = (Inr claim, w')"
  shows "\<exists>v. ae_bridge_tokens_public env a v = (Inr claim, w')"
  using retry_runs [OF _ assms [unfolded bridge_with_retry_def]] by (auto simp: BRIDGE_RETRY_ATTEMPTS_def)

lemma pre_claim_Inr:
  assumes "pre_claim env i w = (Inr r, w')"
  obtains v v' where "ae_bridge_tokens_public env (ad_address (pr_account r)) v = (Inr (pc_claim (pr_pending_claim r)), v')"
    and "fr_from_hex (ae_lib env) (lc_message_hash (pc_claim (pr_pending_claim r))) = Inr (pc_message_hash (pr_pending_claim r))"
proof -
  from assms obtain account claim h v v' where b: "bridge_with_retry env (ad_address account) v = (Inr claim, v')"
    and "fr_from_hex (ae_lib env) (lc_message_hash claim) = Inr h"
    and "r = \<lparr>pr_account = account, pr_pending_claim = \<lparr>pc_claim = claim, pc_message_hash = h\<rparr>\<rparr>"
    by (auto simp: pre_claim_def io_Inr_iff split: prod.splits)
  with bridge_with_retry_Inr [OF b] that show thesis by auto
qed

lemma deploy_pass_done:
  assumes "deploy_pass_of env account pending w = (Deployed_Account, w')"
  obtains v v' where "ae_wait_for_message env (pc_message_hash pending) L1_TO_L2_MESSAGE_TIMEOUT_SECONDS w = (Inr (), v)"
    and "ae_send_deploy env (ad_address account) (pc_claim pending) v' = (Inr (), w')"
  using assms unfolding deploy_pass_of_def by (auto simp: io_Inr_iff split: prod.splits sum.splits)

lemma deploy_with_claim_Inr:
  assumes "deploy_with_claim env account pending w = (Inr (), w')"
  obtains v u u' where "ae_wait_for_message env (pc_message_hash pending) L1_TO_L2_MESSAGE_TIMEOUT_SECONDS v = (Inr (), u)"
    and "ae_send_deploy env (ad_address account) (pc_claim pending) u' = (Inr (), w')"
proof -
  from assms obtain p where p: "retry message_not_ready (deploy_pass_of env account pending)
      (ae_sleep env DEPLOY_RETRY_DELAY_MS) DEPLOY_RETRY_ATTEMPTS w = (p, w')" and "pass_result p = Inr ()"
    unfolding deploy_with_claim_def by (auto split: prod.splits)
  then have "p = Deployed_Account" by (auto simp: pass_result_def split: deploy_pass.splits)
  with retry_runs [OF _ p] obtain v where "deploy_pass_of env account pending v = (Deployed_Account, w')"
    by (auto simp: DEPLOY_RETRY_ATTEMPTS_def)
  with deploy_pass_done that show thesis by metis
qed

text \<open>A concrete environment: worlds count calls, the second message is late once.\<close>

definition demo_claim :: "int \<Rightarrow> l2_amount_claim" where
  "demo_claim a = \<lparr>lc_claim_amount = 1000, lc_claim_secret = a, lc_message_hash = bigint_string (a + 50), lc_message_leaf_index = a\<rparr>"

definition demo_accounts_env :: "int accounts_env" where
  "demo_accounts_env = \<lparr>ae_lib = demo_lib,
     ae_platform = \<lparr>sp_env = \<lambda>_. None, sp_url = \<lambda>_. None, sp_string = \<lambda>_. [], sp_resolve = \<lambda>s. s\<rparr>,
     ae_generate_private_key = (\<lambda>w. (''0xkey'', w)), ae_key_address = (\<lambda>k. k @ ''-address''),
     ae_fetch = (\<lambda>_ _ w. (Inr \<lparr>rp_status = 200, rp_status_text = ''OK'', rp_json = Inr (JObject [])\<rparr>, w)),
     ae_get_l1_chain_id = (\<lambda>_ w. (Inr 31337, w)), ae_new_portal = (\<lambda>_ _ _ _ w. (Inr (), w)),
     ae_random_fr = (\<lambda>w. (w, w + 1)), ae_derive_signing_key = (\<lambda>s. s),
     ae_create_schnorr_account = (\<lambda>s _ _ w. (Inr (s + 10), w)),
     ae_bridge_tokens_public = (\<lambda>a w. (if w = 1 then Inl (error ''Failed to find matching event'') else Inr (demo_claim a), w + 1)),
     ae_mint = (\<lambda>_ w. (Inr (), w)), ae_wait_for_message = (\<lambda>_ _ w. (Inr (), w)),
     ae_get_deploy_method = (\<lambda>_ w. (Inr (), w)),
     ae_send_deploy = (\<lambda>_ _ w. (if w = 5 then Inl (error ''Message not in state'') else Inr (), w + 1)),
     ae_sleep = (\<lambda>_ w. w)\<rparr>"

lemma demo_accounts_resolve:
  "\<exists>w. resolve_script_accounts demo_accounts_env ''http://node'' ''http://l1'' 2 0 =
     (Inr \<lparr>se_l1_private_key = ''0xkey'', se_accounts =
        [\<lparr>ad_secret = 0, ad_salt = 0, ad_signing_key = 0, ad_address = 10\<rparr>,
         \<lparr>ad_secret = 3, ad_salt = 0, ad_signing_key = 3, ad_address = 13\<rparr>]\<rparr>, w)"
  by (intro exI [of _ "8"]) code_simp

section \<open>Properties\<close>

text \<open>
  Every account is deployed with its own deposit. When \<open>resolveScriptAccounts\<close> returns, it
  returns as many accounts as were asked for, and for each of them Fee Juice was bridged to its
  address, the message of that deposit was waited for, and the account was deployed paying with
  the claim of that deposit.
\<close>

theorem script_accounts_are_deployed:
  assumes "resolve_script_accounts env node_url l1_rpc_url n w = (Inr r, w')"
  shows "length (se_accounts r) = n \<and> (\<exists>claims. list_all2 (\<lambda>a c.
      (\<exists>v v'. ae_bridge_tokens_public env (ad_address a) v = (Inr c, v')) \<and>
      (\<exists>h v v'. fr_from_hex (ae_lib env) (lc_message_hash c) = Inr h \<and>
         ae_wait_for_message env h L1_TO_L2_MESSAGE_TIMEOUT_SECONDS v = (Inr (), v')) \<and>
      (\<exists>v v'. ae_send_deploy env (ad_address a) c v = (Inr (), v'))) (se_accounts r) claims)"
proof -
  from assms obtain rs us v v' u u' where pre: "map_io (pre_claim env) [0..<n] v = (Inr rs, v')"
    and dep: "map_io (\<lambda>r. deploy_with_claim env (pr_account r) (pr_pending_claim r)) rs u = (Inr us, u')"
    and r: "se_accounts r = map pr_account rs"
    unfolding resolve_script_accounts_def Let_def by (auto simp: io_Inr_iff split: prod.splits)
  note pre = map_io_calls [OF pre] and dep = map_io_calls [OF dep]
  have "list_all2 (\<lambda>a c.
      (\<exists>v v'. ae_bridge_tokens_public env (ad_address a) v = (Inr c, v')) \<and>
      (\<exists>h v v'. fr_from_hex (ae_lib env) (lc_message_hash c) = Inr h \<and>
         ae_wait_for_message env h L1_TO_L2_MESSAGE_TIMEOUT_SECONDS v = (Inr (), v')) \<and>
      (\<exists>v v'. ae_send_deploy env (ad_address a) c v = (Inr (), v')))
      (map pr_account rs) (map (pc_claim \<circ> pr_pending_claim) rs)"
    unfolding list_all2_conv_all_nth length_map
  proof (intro conjI allI impI refl)
    fix i assume i: "i < length rs"
    from pre i obtain j x y where "pre_claim env j x = (Inr (rs ! i), y)"
      by (auto simp: list_all2_conv_all_nth)
    then obtain v v' where "ae_bridge_tokens_public env (ad_address (pr_account (rs ! i))) v =
        (Inr (pc_claim (pr_pending_claim (rs ! i))), v')"
      and h: "fr_from_hex (ae_lib env) (lc_message_hash (pc_claim (pr_pending_claim (rs ! i)))) =
        Inr (pc_message_hash (pr_pending_claim (rs ! i)))" by (rule pre_claim_Inr)
    with i show "\<exists>v v'. ae_bridge_tokens_public env (ad_address (map pr_account rs ! i)) v =
        (Inr (map (pc_claim \<circ> pr_pending_claim) rs ! i), v')" by auto
    from dep i obtain x y where
      "deploy_with_claim env (pr_account (rs ! i)) (pr_pending_claim (rs ! i)) x = (Inr (), y)"
      by (auto simp: list_all2_conv_all_nth)
    then obtain x1 x2 x3 where
      "ae_wait_for_message env (pc_message_hash (pr_pending_claim (rs ! i))) L1_TO_L2_MESSAGE_TIMEOUT_SECONDS x1 = (Inr (), x2)"
      "ae_send_deploy env (ad_address (pr_account (rs ! i))) (pc_claim (pr_pending_claim (rs ! i))) x3 = (Inr (), y)"
      by (rule deploy_with_claim_Inr)
    with h i show "\<exists>h v v'. fr_from_hex (ae_lib env) (lc_message_hash (map (pc_claim \<circ> pr_pending_claim) rs ! i)) = Inr h \<and>
         ae_wait_for_message env h L1_TO_L2_MESSAGE_TIMEOUT_SECONDS v = (Inr (), v')"
      and "\<exists>v v'. ae_send_deploy env (ad_address (map pr_account rs ! i)) (map (pc_claim \<circ> pr_pending_claim) rs ! i) v = (Inr (), v')"
      by auto
  qed
  with list_all2_lengthD [OF pre] r show ?thesis by auto
qed

lemma script_accounts_are_deployed_witness:
  "\<exists>r w'. resolve_script_accounts demo_accounts_env ''http://node'' ''http://l1'' 2 0 = (Inr r, w') \<and> length (se_accounts r) = 2"
  using demo_accounts_resolve script_accounts_are_deployed [of demo_accounts_env "''http://node''" "''http://l1''" 2 0] by metis

text \<open>
  The deployment of an account takes at most three passes, with another pass only after the
  node reported that the message is not in its state; what the wait for the message throws is
  never retried.
\<close>

lemma deploy_with_claim_bounded:
  assumes "deploy_with_claim env account pending w = (r, w')"
  shows "\<exists>ws p. runs_of message_not_ready (deploy_pass_of env account pending) (ae_sleep env DEPLOY_RETRY_DELAY_MS) w ws \<and>
    length ws \<le> 3 \<and> deploy_pass_of env account pending (last ws) = (p, w') \<and> r = pass_result p"
proof -
  obtain p where p: "retry message_not_ready (deploy_pass_of env account pending)
      (ae_sleep env DEPLOY_RETRY_DELAY_MS) DEPLOY_RETRY_ATTEMPTS w = (p, w')" "r = pass_result p"
    using assms unfolding deploy_with_claim_def by (auto split: prod.splits)
  with retry_runs [OF _ p(1)] show ?thesis by (auto simp: DEPLOY_RETRY_ATTEMPTS_def)
qed

lemma message_wait_error_is_final:
  assumes "ae_wait_for_message env (pc_message_hash pending) L1_TO_L2_MESSAGE_TIMEOUT_SECONDS w = (Inl e, w')"
  shows "deploy_with_claim env account pending w = (Inl e, w')"
  using assms by (simp add: deploy_with_claim_def DEPLOY_RETRY_ATTEMPTS_def numeral_3_eq_3 deploy_pass_of_def
      message_not_ready_def pass_result_def)

end
