(* ===== verification/Script_Setup.thy ===== *)
theory Script_Setup
  imports Deploy_Manifest Sdk_Client
begin

text \<open>
  What the scripts against a deployment share: \<open>scripts/common/setup-helpers.ts\<close> (manifests,
  wallet, contract registration, the wait for the contract's Fee Juice, L1 mints) and
  \<open>scripts/common/balance-tracker.ts\<close>.

  Node, wallet, L1 clients, clock and timers are fields of \<open>setup_env\<close>. The wait is a
  \<open>partial_function\<close>, \<open>None\<close> being a run that never ends.
\<close>

section \<open>Data\<close>

datatype contract_artifact =
    Token_Artifact | FPC_Multi_Asset_Artifact | Counter_Artifact | Faucet_Artifact | Token_Bridge_Artifact
  | Sponsored_FPC_Artifact

text \<open>A typed contract is named by its address, the instance of the sponsored FPC too.\<close>

record core_contracts =
  co_token :: int
  co_fpc :: int
  co_counter :: int
  co_faucet :: int
  co_bridge :: int

record l1_infra_args =
  ia_l1_rpc_url :: string
  ia_l1_private_key :: string
  ia_l1_deployer_key :: string
  ia_l1_portal_address :: int
  ia_l1_erc20_address :: int

text \<open>A client is its RPC URL, key and chain; the token is written to with the minting client.\<close>

record l1_client =
  cl_rpc_url :: string
  cl_key :: string
  cl_chain_id :: int

record l1_infra =
  li_wallet_client :: l1_client
  li_erc20 :: "int \<times> l1_client"
  li_portal_manager :: "int \<times> int \<times> l1_client"

record setup_args =
  ua_node_url :: string
  ua_manifest_path :: string
  ua_test_token_manifest_path :: string
  ua_prover_enabled :: bool
  ua_message_timeout_seconds :: int

record setup_result =
  ur_manifest :: deploy_manifest
  ur_test_token_manifest :: test_token_manifest
  ur_operator :: int
  ur_contracts :: core_contracts
  ur_sponsored_fpc_address :: int

record 'w setup_env =
  su_manifest_lib :: manifest_lib
  su_files :: files
  su_wait_for_node :: "string \<Rightarrow> ('w, unit) ioe"
  su_create_wallet :: "bool \<Rightarrow> ('w, unit) ioe"
  su_get_contract :: "int \<Rightarrow> ('w, bool) ioe"
  su_register_contract :: "int \<Rightarrow> contract_artifact \<Rightarrow> int option \<Rightarrow> ('w, unit) ioe"
  su_sponsored_fpc_instance :: "('w, int) ioe"
  su_get_fee_juice_balance :: "int \<Rightarrow> ('w, int) ioe"
  su_get_l1_chain_id :: "('w, int) ioe"
  su_extended_l1_client :: "l1_client \<Rightarrow> thrown + unit"
  su_write_mint :: "int \<times> l1_client \<Rightarrow> string \<Rightarrow> int \<Rightarrow> ('w, string) ioe"
  su_wait_for_receipt :: "l1_client \<Rightarrow> string \<Rightarrow> ('w, string) ioe"
  su_simulate_balance :: "string \<Rightarrow> int \<Rightarrow> int \<Rightarrow> ('w, int) ioe"
  su_create_schnorr_account :: "int \<Rightarrow> int \<Rightarrow> ('w, int) ioe"
  su_now :: "'w \<Rightarrow> int"
  su_sleep :: "int \<Rightarrow> 'w \<Rightarrow> 'w"

section \<open>Contracts and manifests\<close>

definition register_contract ::
    "'w setup_env \<Rightarrow> int \<Rightarrow> contract_artifact \<Rightarrow> int option \<Rightarrow> ('w, unit) ioe" where
  "register_contract env a artifact secret_key =
     bind_io (su_get_contract env a) (\<lambda>found.
     if \<not> found
     then throw_io (error (''Contract not found on node: '' @ address_to_string (ml_lib (su_manifest_lib env)) a))
     else su_register_contract env a artifact secret_key)"

definition read_manifest :: "manifest_lib \<Rightarrow> files \<Rightarrow> string \<Rightarrow> thrown + deploy_manifest" where
  "read_manifest m fs p =
     (if fs (ml_resolve m p) = None then Inl (error (''Manifest not found: '' @ p))
      else read_deploy_manifest m fs p)"

definition connect_and_create_wallet :: "'w setup_env \<Rightarrow> string \<Rightarrow> bool \<Rightarrow> ('w, unit) ioe" where
  "connect_and_create_wallet env node_url prover_enabled =
     bind_io (su_wait_for_node env node_url) (\<lambda>_. su_create_wallet env prover_enabled)"

text \<open>What is registered: the address, the artifact and the secret key, if any.\<close>

definition core_registrations ::
    "deploy_manifest \<Rightarrow> test_token_manifest \<Rightarrow> (int \<times> contract_artifact \<times> int option) list" where
  "core_registrations dm tm =
     [(tk_token (tm_contracts tm), Token_Artifact, None),
      (dm_fpc dm, FPC_Multi_Asset_Artifact, Some 0),
      (tk_counter (tm_contracts tm), Counter_Artifact, None),
      (tk_faucet (tm_contracts tm), Faucet_Artifact, None),
      (tk_bridge (tm_contracts tm), Token_Bridge_Artifact, None)]"

definition register_core_contracts ::
    "'w setup_env \<Rightarrow> deploy_manifest \<Rightarrow> test_token_manifest \<Rightarrow> ('w, core_contracts) ioe" where
  "register_core_contracts env dm tm =
     bind_io (map_io (\<lambda>(a, artifact, key). register_contract env a artifact key) (core_registrations dm tm)) (\<lambda>_.
     return_io \<lparr>co_token = tk_token (tm_contracts tm), co_fpc = dm_fpc dm, co_counter = tk_counter (tm_contracts tm),
       co_faucet = tk_faucet (tm_contracts tm), co_bridge = tk_bridge (tm_contracts tm)\<rparr>)"

definition register_sponsored_fpc :: "'w setup_env \<Rightarrow> ('w, int) ioe" where
  "register_sponsored_fpc env =
     bind_io (su_sponsored_fpc_instance env) (\<lambda>a.
     bind_io (su_register_contract env a Sponsored_FPC_Artifact None) (\<lambda>_. return_io a))"

section \<open>The wait for the contract's Fee Juice\<close>

definition FPC_POLL_MS :: int where
  "FPC_POLL_MS = 2000"

text \<open>The loop, with the last balance read. It ends at the deadline or at a positive balance.\<close>

partial_function (option) fee_juice_loop ::
    "'w setup_env \<Rightarrow> int \<Rightarrow> int \<Rightarrow> int \<Rightarrow> 'w \<Rightarrow> ((thrown + int) \<times> 'w) option" where
  "fee_juice_loop env fpc deadline balance w =
     (if su_now env w < deadline
      then case su_get_fee_juice_balance env fpc w of
        (Inl e, w1) \<Rightarrow> Some (Inl e, w1)
      | (Inr b, w1) \<Rightarrow>
          if 0 < b then Some (Inr b, w1)
          else fee_juice_loop env fpc deadline b (su_sleep env FPC_POLL_MS w1)
      else Some (Inr balance, w))"

definition check_fee_juice :: "int \<Rightarrow> int \<Rightarrow> thrown + int" where
  "check_fee_juice timeout_seconds balance =
     (if balance = 0
      then Inl (error (''FPC FeeJuice balance is still 0 after '' @ bigint_string timeout_seconds @ ''s '' @ EM_DASH @
        '' is the topup service running?''))
      else Inr balance)"

definition wait_for_fpc_fee_juice ::
    "'w setup_env \<Rightarrow> int \<Rightarrow> int \<Rightarrow> 'w \<Rightarrow> ((thrown + int) \<times> 'w) option" where
  "wait_for_fpc_fee_juice env fpc timeout_seconds w =
     map_option (\<lambda>(r, w1). (and_then r (check_fee_juice timeout_seconds), w1))
       (fee_juice_loop env fpc (su_now env w + timeout_seconds * 1000) 0 w)"

section \<open>L1 mints\<close>

definition mint_attempt ::
    "'w setup_env \<Rightarrow> int \<times> l1_client \<Rightarrow> l1_client \<Rightarrow> string \<Rightarrow> int \<Rightarrow> ('w, unit) ioe" where
  "mint_attempt env erc20 client recipient amount =
     bind_io (su_write_mint env erc20 recipient amount) (\<lambda>hash.
     bind_io (su_wait_for_receipt env client hash) (\<lambda>status.
     from_pure (require_that (status \<noteq> ''reverted'') (error ''L1 ERC20 mint transaction reverted''))))"

text \<open>\<open>/nonce|already known|replacement/i\<close> on the message of the error.\<close>

definition is_nonce_error :: "thrown \<Rightarrow> bool" where
  "is_nonce_error e =
     list_ex (js_includes (js_lower (error_message e))) [''nonce'', ''already known'', ''replacement'']"

function mint_loop ::
    "'w setup_env \<Rightarrow> int \<times> l1_client \<Rightarrow> l1_client \<Rightarrow> string \<Rightarrow> int \<Rightarrow> int \<Rightarrow> int \<Rightarrow> ('w, unit) ioe" where
  "mint_loop env erc20 client recipient amount max_retries attempt w =
     (if attempt \<le> max_retries
      then case mint_attempt env erc20 client recipient amount w of
        (Inr _, w1) \<Rightarrow> (Inr (), w1)
      | (Inl e, w1) \<Rightarrow>
          if is_nonce_error e \<and> attempt < max_retries
          then mint_loop env erc20 client recipient amount max_retries (attempt + 1) (su_sleep env (1000 * attempt) w1)
          else (Inl e, w1)
      else (Inr (), w))"
  by pat_completeness auto
termination
  by (relation "measure (\<lambda>(env, erc20, client, recipient, amount, max_retries, attempt, w). nat (max_retries + 1 - attempt))") auto

declare mint_loop.simps [simp del]

text \<open>The parameter \<open>maxRetries\<close> is 3 when it is not given.\<close>

definition DEFAULT_MINT_RETRIES :: int where
  "DEFAULT_MINT_RETRIES = 3"

definition mint_l1_erc20_with_retry ::
    "'w setup_env \<Rightarrow> int \<times> l1_client \<Rightarrow> l1_client \<Rightarrow> string \<Rightarrow> int \<Rightarrow> int \<Rightarrow> ('w, unit) ioe" where
  "mint_l1_erc20_with_retry env erc20 client recipient amount max_retries =
     mint_loop env erc20 client recipient amount max_retries 1"

definition setup_l1_infrastructure :: "'w setup_env \<Rightarrow> l1_infra_args \<Rightarrow> ('w, l1_infra) ioe" where
  "setup_l1_infrastructure env args =
     bind_io (su_get_l1_chain_id env) (\<lambda>chain.
     let client = \<lambda>key. \<lparr>cl_rpc_url = ia_l1_rpc_url args, cl_key = key, cl_chain_id = chain\<rparr>;
         wallet = client (ia_l1_private_key args); minter = client (ia_l1_deployer_key args) in
     bind_io (from_pure (su_extended_l1_client env wallet)) (\<lambda>_.
     bind_io (from_pure (su_extended_l1_client env minter)) (\<lambda>_.
     return_io \<lparr>li_wallet_client = wallet, li_erc20 = (ia_l1_erc20_address args, minter),
       li_portal_manager = (ia_l1_portal_address args, ia_l1_erc20_address args, wallet)\<rparr>)))"

section \<open>Set-up\<close>

definition setup_contracts ::
    "'w setup_env \<Rightarrow> setup_args \<Rightarrow> ('w, deploy_manifest \<times> test_token_manifest \<times> core_contracts \<times> int) ioe" where
  "setup_contracts env args =
     bind_io (from_pure (read_manifest (su_manifest_lib env) (su_files env) (ua_manifest_path args))) (\<lambda>dm.
     bind_io (from_pure (read_test_token_manifest (su_manifest_lib env) (su_files env) (ua_test_token_manifest_path args))) (\<lambda>tm.
     bind_io (connect_and_create_wallet env (ua_node_url args) (ua_prover_enabled args)) (\<lambda>_.
     bind_io (register_core_contracts env dm tm) (\<lambda>contracts.
     bind_io (register_sponsored_fpc env) (\<lambda>sponsored.
     return_io (dm, tm, contracts, sponsored))))))"

definition setup_script :: "'w setup_env \<Rightarrow> setup_args \<Rightarrow> 'w \<Rightarrow> ((thrown + setup_result) \<times> 'w) option" where
  "setup_script env args w = (case setup_contracts env args w of
     (Inl e, w1) \<Rightarrow> Some (Inl e, w1)
   | (Inr (dm, tm, contracts, sponsored), w1) \<Rightarrow>
       map_option (\<lambda>(r, w2). (map_sum id (\<lambda>_. \<lparr>ur_manifest = dm, ur_test_token_manifest = tm,
            ur_operator = mo_address (dm_operator dm), ur_contracts = contracts,
            ur_sponsored_fpc_address = sponsored\<rparr>) r, w2))
         (wait_for_fpc_fee_juice env (co_fpc contracts) (ua_message_timeout_seconds args) w1))"

section \<open>Balance trackers\<close>

datatype tracker_mode = Exact | At_Least

datatype balance_kind = Private_Balance | Public_Balance

record balance_tracker =
  bt_kind :: balance_kind
  bt_token :: int
  bt_address :: int
  bt_label :: string
  bt_expected :: int
  bt_mode :: tracker_mode

definition create_private_tracker ::
    "'w setup_env \<Rightarrow> int \<Rightarrow> int \<Rightarrow> string \<Rightarrow> int \<Rightarrow> tracker_mode \<Rightarrow> ('w, balance_tracker) ioe" where
  "create_private_tracker env tok secret_key label initial mode =
     bind_io (su_create_schnorr_account env secret_key 0) (\<lambda>a.
     return_io \<lparr>bt_kind = Private_Balance, bt_token = tok, bt_address = a, bt_label = label, bt_expected = initial,
       bt_mode = mode\<rparr>)"

fun balance_method :: "balance_kind \<Rightarrow> string" where
  "balance_method Private_Balance = ''balance_of_private''"
| "balance_method Public_Balance = ''balance_of_public''"

fun kind_text :: "balance_kind \<Rightarrow> string" where
  "kind_text Private_Balance = ''private_balance''"
| "kind_text Public_Balance = ''public_balance''"

definition fetch_balance :: "'w setup_env \<Rightarrow> balance_tracker \<Rightarrow> ('w, int) ioe" where
  "fetch_balance env t = su_simulate_balance env (balance_method (bt_kind t)) (bt_token t) (bt_address t)"

definition check_balance :: "balance_tracker \<Rightarrow> int \<Rightarrow> thrown + unit" where
  "check_balance t actual =
     (if bt_mode t = Exact \<and> actual \<noteq> bt_expected t
      then Inl (error (bt_label t @ '' '' @ kind_text (bt_kind t) @ '' mismatch: expected='' @ bigint_string (bt_expected t) @
        '' got='' @ bigint_string actual))
      else if bt_mode t = At_Least \<and> actual < bt_expected t
      then Inl (error (bt_label t @ '' '' @ kind_text (bt_kind t) @ '' too low: expected>='' @ bigint_string (bt_expected t) @
        '' got='' @ bigint_string actual))
      else Inr ())"

text \<open>\<open>change\<close>: the expectation moves before the balance is read, also when that fails.\<close>

definition tracker_change ::
    "'w setup_env \<Rightarrow> int \<Rightarrow> balance_tracker \<times> 'w \<Rightarrow> (thrown + unit) \<times> balance_tracker \<times> 'w" where
  "tracker_change env delta = (\<lambda>(t, w).
     let t' = t\<lparr>bt_expected := bt_expected t + delta\<rparr> in
     case fetch_balance env t' w of (r, w1) \<Rightarrow> (and_then r (check_balance t'), t', w1))"

section \<open>Facts\<close>

definition setup_clock_ok :: "'w setup_env \<Rightarrow> bool" where
  "setup_clock_ok env \<longleftrightarrow>
     (\<forall>a w. su_now env w \<le> su_now env (snd (su_get_fee_juice_balance env a w))) \<and>
     (\<forall>ms w. 0 < ms \<longrightarrow> su_now env w < su_now env (su_sleep env ms w))"

lemma fee_juice_loop_returns:
  assumes "setup_clock_ok env"
  shows "\<exists>y. fee_juice_loop env fpc deadline balance w = Some y"
proof (induction "nat (deadline - su_now env w)" arbitrary: balance w rule: less_induct)
  case less
  obtain r w1 where g: "su_get_fee_juice_balance env fpc w = (r, w1)" by fastforce
  note unfold = fee_juice_loop.simps [of env fpc deadline balance w, unfolded g prod.case]
  show ?case
  proof (cases "su_now env w < deadline")
    case False
    then show ?thesis unfolding unfold by simp
  next
    case True
    have "su_now env w \<le> su_now env (snd (su_get_fee_juice_balance env fpc w))"
      "su_now env w1 < su_now env (su_sleep env FPC_POLL_MS w1)"
      using assms by (simp_all add: setup_clock_ok_def FPC_POLL_MS_def)
    with True g have d: "nat (deadline - su_now env (su_sleep env FPC_POLL_MS w1)) < nat (deadline - su_now env w)" by simp
    show ?thesis using less.hyps [OF d] True unfolding unfold by (cases r) auto
  qed
qed

definition fee_juice_seen :: "'w setup_env \<Rightarrow> int \<Rightarrow> int \<Rightarrow> int \<Rightarrow> 'w \<Rightarrow> bool" where
  "fee_juice_seen env fpc balance b w' \<longleftrightarrow> b = balance \<or>
     (\<exists>v v'. su_get_fee_juice_balance env fpc v = (Inr b, v') \<and> (0 < b \<longrightarrow> v' = w'))"

lemma fee_juice_loop_Inr:
  assumes "fee_juice_loop env fpc deadline balance w = Some (Inr b, w')"
  shows "fee_juice_seen env fpc balance b w'"
proof -
  have "fst y = Inr b \<longrightarrow> fee_juice_seen env fpc balance b (snd y)"
    if "fee_juice_loop env fpc deadline balance w = Some y" for y
  proof (rule fee_juice_loop.raw_induct [OF _ that, where
        P = "\<lambda>env fpc deadline balance w y. fst y = Inr b \<longrightarrow> fee_juice_seen env fpc balance b (snd y)"])
    fix f env fpc deadline balance w y
    assume IH: "\<And>env fpc deadline balance w y. f env fpc deadline balance w = Some y \<Longrightarrow>
        fst y = Inr b \<longrightarrow> fee_juice_seen env fpc balance b (snd y)"
      and body: "(if su_now env w < deadline
        then case su_get_fee_juice_balance env fpc w of
          (Inl e, w1) \<Rightarrow> Some (Inl e, w1)
        | (Inr b, w1) \<Rightarrow>
            if 0 < b then Some (Inr b, w1)
            else f env fpc deadline b (su_sleep env FPC_POLL_MS w1)
        else Some (Inr balance, w)) = Some y"
    obtain r w1 where g: "su_get_fee_juice_balance env fpc w = (r, w1)" by fastforce
    show "fst y = Inr b \<longrightarrow> fee_juice_seen env fpc balance b (snd y)"
    proof (cases "su_now env w < deadline \<and> (\<exists>c. r = Inr c \<and> \<not> 0 < c)")
      case True
      then obtain c where c: "r = Inr c" "\<not> 0 < c" "su_now env w < deadline" by blast
      with body g have "f env fpc deadline c (su_sleep env FPC_POLL_MS w1) = Some y" by simp
      from IH [OF this] c g show ?thesis by (auto simp: fee_juice_seen_def)
    next
      case False
      then have "y = (r, w1) \<or> y = (Inr balance, w)" using body g by (cases r) (auto split: if_splits)
      with g show ?thesis unfolding fee_juice_seen_def by fastforce
    qed
  qed
  from this [OF assms] show ?thesis by simp
qed

text \<open>Balances are not negative.\<close>

definition balances_nonneg :: "'w setup_env \<Rightarrow> bool" where
  "balances_nonneg env \<longleftrightarrow> (\<forall>a w b w'. su_get_fee_juice_balance env a w = (Inr b, w') \<longrightarrow> 0 \<le> b)"

lemma wait_for_fpc_fee_juice_Inr:
  assumes "wait_for_fpc_fee_juice env fpc timeout w = Some (Inr b, w')" "balances_nonneg env"
  shows "0 < b \<and> (\<exists>v. su_get_fee_juice_balance env fpc v = (Inr b, w'))"
proof -
  from assms(1) have "fee_juice_loop env fpc (su_now env w + timeout * 1000) 0 w = Some (Inr b, w')" "b \<noteq> 0"
    by (auto simp: wait_for_fpc_fee_juice_def and_then_Inr_iff check_fee_juice_def split: if_splits)
  with fee_juice_loop_Inr [OF this(1)] obtain v v' where
    "su_get_fee_juice_balance env fpc v = (Inr b, v')" "0 < b \<longrightarrow> v' = w'"
    by (auto simp: fee_juice_seen_def)
  moreover with assms(2) \<open>b \<noteq> 0\<close> have "0 < b" unfolding balances_nonneg_def by fastforce
  ultimately show ?thesis by auto
qed

lemma register_contract_Inr:
  "register_contract env a artifact key w = (Inr u, w') \<longleftrightarrow>
     (\<exists>v. su_get_contract env a w = (Inr True, v) \<and> su_register_contract env a artifact key v = (Inr u, w'))"
  by (auto simp: register_contract_def io_Inr_iff split: if_splits)

lemma setup_contracts_Inr:
  assumes "setup_contracts env args w = (Inr (dm, tm, contracts, sponsored), w')"
  shows "read_deploy_manifest (su_manifest_lib env) (su_files env) (ua_manifest_path args) = Inr dm"
    and "read_test_token_manifest (su_manifest_lib env) (su_files env) (ua_test_token_manifest_path args) = Inr tm"
    and "contracts = \<lparr>co_token = tk_token (tm_contracts tm), co_fpc = dm_fpc dm, co_counter = tk_counter (tm_contracts tm),
       co_faucet = tk_faucet (tm_contracts tm), co_bridge = tk_bridge (tm_contracts tm)\<rparr>"
    and "\<exists>v us v'. map_io (\<lambda>(a, artifact, key). register_contract env a artifact key) (core_registrations dm tm) v = (Inr us, v')"
  using assms by (auto simp: setup_contracts_def register_core_contracts_def read_manifest_def io_Inr_iff split: if_splits)

text \<open>A mint is an instance of \<open>retry\<close>.\<close>

definition mint_goes_on :: "thrown + unit \<Rightarrow> bool" where
  "mint_goes_on r \<longleftrightarrow> (\<exists>e. r = Inl e \<and> is_nonce_error e)"

text \<open>The pause grows with the attempts, so the world carries their number.\<close>

lemma mint_loop_retry:
  assumes "attempt \<le> tries"
  shows "mint_loop env erc20 client recipient amount tries attempt w =
    (case retry mint_goes_on (\<lambda>(n, v). case mint_attempt env erc20 client recipient amount v of (r, v1) \<Rightarrow> (r, n, v1))
       (\<lambda>(n, v). (n + 1, su_sleep env (1000 * n) v)) (nat (tries + 1 - attempt)) (attempt, w) of (r, n, w1) \<Rightarrow> (r, w1))"
  using assms
proof (induction "nat (tries - attempt)" arbitrary: attempt w)
  case 0
  then have "nat (tries + 1 - attempt) = Suc 0" "attempt = tries" by simp_all
  then show ?case by (subst mint_loop.simps) (auto split: prod.splits sum.splits)
next
  case (Suc k)
  then have n: "nat (tries + 1 - attempt) = Suc (nat (tries - attempt))" "attempt < tries" "nat (tries - attempt) \<noteq> 0" by simp_all
  obtain r v where a: "mint_attempt env erc20 client recipient amount w = (r, v)" by fastforce
  show ?case
  proof (cases "mint_goes_on r")
    case False
    with a n show ?thesis by (subst mint_loop.simps) (auto simp: mint_goes_on_def split: sum.splits)
  next
    case True
    from Suc n have "k = nat (tries - (attempt + 1))" "attempt + 1 \<le> tries" by simp_all
    from Suc.hyps(1) [OF this, of "su_sleep env (1000 * attempt) v"] True a n show ?thesis
      by (subst mint_loop.simps) (auto simp: mint_goes_on_def add.commute)
  qed
qed

lemma mint_attempt_Inr:
  "mint_attempt env erc20 client recipient amount w = (Inr u, w') \<longleftrightarrow>
     (\<exists>hash v status. su_write_mint env erc20 recipient amount w = (Inr hash, v) \<and>
        su_wait_for_receipt env client hash v = (Inr status, w') \<and> status \<noteq> ''reverted'')"
  by (auto simp: mint_attempt_def io_Inr_iff)

section \<open>Properties\<close>

text \<open>
  A set-up that returns has read both manifests, has found every contract they name on the node
  and registered it, the FPC with the secret key 0 and the others without one, and has seen a
  positive Fee Juice balance of the FPC of the manifest.
\<close>

theorem setup_is_complete:
  assumes "setup_script env args w = Some (Inr r, w')" "balances_nonneg env"
  shows "read_deploy_manifest (su_manifest_lib env) (su_files env) (ua_manifest_path args) = Inr (ur_manifest r) \<and>
    read_test_token_manifest (su_manifest_lib env) (su_files env) (ua_test_token_manifest_path args) = Inr (ur_test_token_manifest r) \<and>
    ur_operator r = mo_address (dm_operator (ur_manifest r)) \<and> co_fpc (ur_contracts r) = dm_fpc (ur_manifest r) \<and>
    (\<forall>(a, artifact, key) \<in> set (core_registrations (ur_manifest r) (ur_test_token_manifest r)).
       (\<exists>v v'. su_get_contract env a v = (Inr True, v')) \<and> (\<exists>v v'. su_register_contract env a artifact key v = (Inr (), v'))) \<and>
    (\<exists>b v. 0 < b \<and> su_get_fee_juice_balance env (dm_fpc (ur_manifest r)) v = (Inr b, w'))"
proof -
  from assms(1) obtain dm tm cs sponsored v b where s: "setup_contracts env args w = (Inr (dm, tm, cs, sponsored), v)"
    and b: "wait_for_fpc_fee_juice env (co_fpc cs) (ua_message_timeout_seconds args) v = Some (Inr b, w')"
    and r: "r = \<lparr>ur_manifest = dm, ur_test_token_manifest = tm, ur_operator = mo_address (dm_operator dm),
      ur_contracts = cs, ur_sponsored_fpc_address = sponsored\<rparr>"
    unfolding setup_script_def by (auto simp: map_sum_Inr split: prod.splits sum.splits)
  note contracts = setup_contracts_Inr [OF s]
  obtain us x y where "map_io (\<lambda>(a, artifact, key). register_contract env a artifact key) (core_registrations dm tm) x = (Inr us, y)"
    using contracts(4) by blast
  from map_io_calls [OF this] have "\<forall>(a, artifact, key) \<in> set (core_registrations dm tm).
      \<exists>u v v'. register_contract env a artifact key v = (Inr u, v')"
    by (fastforce simp: list_all2_conv_all_nth in_set_conv_nth)
  then have "\<forall>(a, artifact, key) \<in> set (core_registrations dm tm).
       (\<exists>v v'. su_get_contract env a v = (Inr True, v')) \<and> (\<exists>v v'. su_register_contract env a artifact key v = (Inr (), v'))"
    by (fastforce simp: register_contract_Inr)
  with contracts(1-3) wait_for_fpc_fee_juice_Inr [OF b assms(2)] r show ?thesis by auto
qed

text \<open>The set-up returns when the clock moves.\<close>

theorem setup_returns:
  assumes "setup_clock_ok env"
  shows "\<exists>y. setup_script env args w = Some y"
proof -
  have total: "\<exists>v' r. wait_for_fpc_fee_juice env fpc timeout v = Some (r, v')" for fpc timeout v
    using fee_juice_loop_returns [OF assms, of fpc "su_now env v + timeout * 1000" 0 v]
    by (auto simp: wait_for_fpc_fee_juice_def)
  show ?thesis by (auto simp: setup_script_def total split: prod.split sum.split)
qed

text \<open>
  A mint that returns has been mined and not reverted, within the retries, and another attempt
  is made only after an error that speaks of the nonce. With no retries it returns without
  having minted.
\<close>

theorem mint_with_retry_mints:
  assumes "mint_l1_erc20_with_retry env erc20 client recipient amount n w = (r, w')" "0 < n"
  shows "\<exists>ws. runs_of mint_goes_on (\<lambda>(n, v). case mint_attempt env erc20 client recipient amount v of (r, v1) \<Rightarrow> (r, n, v1))
       (\<lambda>(n, v). (n + 1, su_sleep env (1000 * n) v)) (1, w) ws \<and> int (length ws) \<le> n \<and>
     mint_attempt env erc20 client recipient amount (snd (last ws)) = (r, w')"
proof -
  from assms(2) have n: "0 < nat n" "(1 :: int) \<le> n" by simp_all
  obtain k where k: "retry mint_goes_on (\<lambda>(n, v). case mint_attempt env erc20 client recipient amount v of (r, v1) \<Rightarrow> (r, n, v1))
       (\<lambda>(n, v). (n + 1, su_sleep env (1000 * n) v)) (nat n) (1, w) = (r, k, w')"
    using assms(1) unfolding mint_l1_erc20_with_retry_def mint_loop_retry [OF n(2)] by (auto split: prod.splits)
  from retry_runs [OF n(1) k] obtain ws where ws: "runs_of mint_goes_on
      (\<lambda>(n, v). case mint_attempt env erc20 client recipient amount v of (r, v1) \<Rightarrow> (r, n, v1))
      (\<lambda>(n, v). (n + 1, su_sleep env (1000 * n) v)) (1, w) ws" "length ws \<le> nat n"
    and l: "(\<lambda>(n, v). case mint_attempt env erc20 client recipient amount v of (r, v1) \<Rightarrow> (r, n, v1)) (last ws) = (r, k, w')"
    by blast
  from l have "mint_attempt env erc20 client recipient amount (snd (last ws)) = (r, w')"
    by (auto split: prod.splits)
  with ws n show ?thesis by (intro exI [of _ ws]) auto
qed

lemma mint_without_retries: "n \<le> 0 \<Longrightarrow> mint_l1_erc20_with_retry env erc20 client recipient amount n w = (Inr (), w)"
  by (simp add: mint_l1_erc20_with_retry_def mint_loop.simps)

text \<open>
  Successive changes of one tracker, with what the script does before each of them: the first
  failing one ends the script. The balances read are collected.
\<close>

fun track :: "'w setup_env \<Rightarrow> (('w \<Rightarrow> 'w) \<times> int) list \<Rightarrow> balance_tracker \<times> 'w \<Rightarrow> (thrown + unit) \<times> balance_tracker \<times> 'w" where
  "track env [] = return_io ()"
| "track env ((act, delta) # steps) = (\<lambda>(t, w). bind_io (tracker_change env delta) (\<lambda>_. track env steps) (t, act w))"

text \<open>
  A script whose trackers pass has accounted for every token: a change checks the balance against
  the starting value plus the sum of all deltas so far, exactly or from below.
\<close>

theorem tracked_balances_add_up:
  assumes "track env steps (t, w) = (Inr (), t', w')"
  shows "bt_expected t' = bt_expected t + sum_list (map snd steps) \<and>
    (\<forall>i < length steps. \<exists>v v' b. su_simulate_balance env (balance_method (bt_kind t)) (bt_token t) (bt_address t) v = (Inr b, v') \<and>
       (let e = bt_expected t + sum_list (map snd (take (Suc i) steps)) in
        if bt_mode t = Exact then b = e else e \<le> b))"
  using assms
proof (induction steps arbitrary: t w)
  case Nil
  then show ?case by simp
next
  case (Cons s steps)
  obtain act delta where s: "s = (act, delta)" by fastforce
  let ?t = "t\<lparr>bt_expected := bt_expected t + delta\<rparr>"
  from Cons.prems s obtain b v where b: "fetch_balance env ?t (act w) = (Inr b, v)" "check_balance ?t b = Inr ()"
    and rest: "track env steps (?t, v) = (Inr (), t', w')"
    by (auto simp: tracker_change_def io_Inr_iff and_then_Inr_iff Let_def split: prod.splits)
  have c: "if bt_mode t = Exact then b = bt_expected t + delta else bt_expected t + delta \<le> b"
    using b(2) by (cases "bt_mode t") (auto simp: check_balance_def split: if_splits)
  note IH = Cons.IH [OF rest]
  show ?case
  proof (intro conjI allI impI)
    show "bt_expected t' = bt_expected t + sum_list (map snd (s # steps))" using IH s by simp
    fix i assume i: "i < length (s # steps)"
    show "\<exists>v v' b. su_simulate_balance env (balance_method (bt_kind t)) (bt_token t) (bt_address t) v = (Inr b, v') \<and>
       (let e = bt_expected t + sum_list (map snd (take (Suc i) (s # steps))) in
        if bt_mode t = Exact then b = e else e \<le> b)"
    proof (cases i)
      case 0
      with b(1) c s show ?thesis
        by (intro exI [of _ "act w"] exI [of _ v] exI [of _ b]) (simp add: fetch_balance_def Let_def)
    next
      case (Suc k)
      with i IH s show ?thesis by (auto simp: Let_def add.assoc)
    qed
  qed
qed

text \<open>A token whose balance is the world, and a receipt that an earlier nonce delays once.\<close>

definition demo_setup_env :: "int setup_env" where
  "demo_setup_env = \<lparr>su_manifest_lib = demo_manifest_lib, su_files = (\<lambda>_. None),
     su_wait_for_node = (\<lambda>_ w. (Inr (), w)), su_create_wallet = (\<lambda>_ w. (Inr (), w)),
     su_get_contract = (\<lambda>_ w. (Inr True, w)), su_register_contract = (\<lambda>_ _ _ w. (Inr (), w)),
     su_sponsored_fpc_instance = (\<lambda>w. (Inr 3, w)), su_get_fee_juice_balance = (\<lambda>_ w. (Inr (if 4000 \<le> w then 1 else 0), w)),
     su_get_l1_chain_id = (\<lambda>w. (Inr 1, w)), su_extended_l1_client = (\<lambda>_. Inr ()),
     su_write_mint = (\<lambda>_ _ n w. (if w = 0 then Inl (error ''Nonce too low'') else Inr ''h'', w + n)),
     su_wait_for_receipt = (\<lambda>_ _ w. (Inr ''success'', w)), su_simulate_balance = (\<lambda>_ _ _ w. (Inr w, w)),
     su_create_schnorr_account = (\<lambda>s _ w. (Inr s, w)), su_now = (\<lambda>w. w), su_sleep = (\<lambda>ms w. w + ms)\<rparr>"

definition demo_l1_client :: l1_client where
  "demo_l1_client = \<lparr>cl_rpc_url = ''u'', cl_key = ''k'', cl_chain_id = 1\<rparr>"

definition demo_tracker :: balance_tracker where
  "demo_tracker = \<lparr>bt_kind = Private_Balance, bt_token = 7, bt_address = 9, bt_label = ''user'', bt_expected = 0, bt_mode = Exact\<rparr>"

lemma tracked_balances_add_up_witness:
  "\<exists>t' w'. track demo_setup_env [((\<lambda>w. w + 5), 5), ((\<lambda>w. w - 2), - 2)] (demo_tracker, 0) = (Inr (), t', w') \<and> bt_expected t' = 3"
proof -
  obtain t' w' where run: "track demo_setup_env [((\<lambda>w. w + 5), 5), ((\<lambda>w. w - 2), - 2)] (demo_tracker, 0) = (Inr (), t', w')"
    by (simp add: demo_setup_env_def demo_tracker_def tracker_change_def fetch_balance_def check_balance_def bind_io_def Let_def)
  from tracked_balances_add_up [OF this] run show ?thesis by (simp add: demo_tracker_def)
qed

lemma setup_returns_witness: "\<exists>y. setup_script demo_setup_env \<lparr>ua_node_url = ''n'', ua_manifest_path = ''m'',
    ua_test_token_manifest_path = ''t'', ua_prover_enabled = False, ua_message_timeout_seconds = 10\<rparr> 0 = Some y"
  by (rule setup_returns) (simp add: setup_clock_ok_def demo_setup_env_def)

lemma mint_with_retry_mints_witness:
  "\<exists>w'. mint_l1_erc20_with_retry demo_setup_env (1, demo_l1_client) demo_l1_client ''a'' 5 3 0 = (Inr (), w') \<and>
     (\<exists>v. mint_attempt demo_setup_env (1, demo_l1_client) demo_l1_client ''a'' 5 v = (Inr (), w'))"
proof -
  have "mint_l1_erc20_with_retry demo_setup_env (1, demo_l1_client) demo_l1_client ''a'' 5 3 0 = (Inr (), 1010)" by code_simp
  from mint_with_retry_mints [OF this] this show ?thesis by auto
qed

end
