(* ===== verification/Full_Flow.thy ===== *)
theory Full_Flow
  imports Sdk_Client
begin

text \<open>
  The walk-through \<open>examples/fpc-full-flow.ts\<close>: bridge tokens to a fresh user, cold start, and
  the deployment of the user's account with its fee paid through the FPC. It drives the client
  of \<open>Sdk_Client\<close>; what it calls besides is in \<open>flow_env\<close>.
\<close>

section \<open>Constants\<close>

definition L1_USER_KEY :: string where
  "L1_USER_KEY = ''0x43b45bae4115cda0e584e6aae8edfa023973ddb97409d6688549ffdaf904747c''"

definition NODE_URL :: string where
  "NODE_URL = ''https://rpc.testnet.aztec-labs.com/''"

definition L1_RPC_URL :: string where
  "L1_RPC_URL = ''https://ethereum-sepolia-rpc.publicnode.com''"

definition ATTESTATION_URL :: string where
  "ATTESTATION_URL = ''https://aztec-fpc-testnet.staging-nethermind.xyz/''"

definition FPC_ADDRESS :: string where
  "FPC_ADDRESS = ''0x1be2cae678e1eddd712682948119b3fe2c3ff3f381d78ebea06162f21487d60f''"

definition TOKEN_ADDRESS :: string where
  "TOKEN_ADDRESS = ''0x07348d12aae72d1c2ff67cb2bf6b0e54f2ac39484f21cad7247d4e27b4822afb''"

definition BRIDGE_ADDRESS :: string where
  "BRIDGE_ADDRESS = ''0x19b200d772d3e9068921e6f5df7530271229e958acc9efc2c637afe64db9763f''"

definition OPERATOR_ADDRESS :: string where
  "OPERATOR_ADDRESS = ''0x0aa818ff7e9bb59334e0106eeeacc5ce8d32610d34917b213f305a30a87cf974''"

definition L1_PORTAL_ADDRESS :: string where
  "L1_PORTAL_ADDRESS = ''0x57a426552a472e953ecc1342f25b17cc192326be''"

definition L1_ERC20_ADDRESS :: string where
  "L1_ERC20_ADDRESS = ''0xf49de848d9c00c4dfb088b2e6ba2dac81e34aa5d''"

definition CLAIM_AMOUNT :: int where
  "CLAIM_AMOUNT = 10000000000000000"

definition MESSAGE_TIMEOUT_SECONDS :: int where
  "MESSAGE_TIMEOUT_SECONDS = 300"

section \<open>The flow\<close>

text \<open>
  The calls on the L1 clients: \<open>fl_bridge_tokens_private portal erc20 recipient amount mint\<close> is
  \<open>bridgeTokensPrivate\<close> of a manager for these two addresses.
\<close>

record 'w flow_env =
  fl_sdk :: "'w sdk_env"
  fl_eth_address :: "string \<Rightarrow> thrown + int"
  fl_wait_for_node :: "string \<Rightarrow> ('w, unit) ioe"
  fl_create_wallet :: "bool \<Rightarrow> ('w, unit) ioe"
  fl_create_schnorr_account :: "int \<Rightarrow> int \<Rightarrow> ('w, int) ioe"
  fl_get_l1_chain_id :: "('w, int) ioe"
  fl_extended_l1_client :: "string \<Rightarrow> string \<Rightarrow> int \<Rightarrow> thrown + unit"
  fl_bridge_tokens_private :: "int \<Rightarrow> int \<Rightarrow> int \<Rightarrow> int \<Rightarrow> bool \<Rightarrow> ('w, l2_bridge_claim \<times> string) ioe"
  fl_wait_for_message :: "int \<Rightarrow> int \<Rightarrow> ('w, unit) ioe"
  fl_get_deploy_method :: "int \<Rightarrow> ('w, unit) ioe"
  fl_simulate_deploy :: "int \<Rightarrow> ('w, (gas \<times> gas) option) ioe"
  fl_send_deploy :: "int \<Rightarrow> payment_method \<Rightarrow> ('w, unit) ioe"

record flow_context =
  fx_token :: int
  fx_bridge :: int
  fx_user :: int
  fx_client :: fpc_client_config

definition flow_setup :: "'w flow_env \<Rightarrow> int \<Rightarrow> ('w, flow_context) ioe" where
  "flow_setup env user_secret =
     (let parse = address_from_string (sd_lib (fl_sdk env)) in
      bind_io (from_pure (parse FPC_ADDRESS)) (\<lambda>fpc.
      bind_io (from_pure (parse TOKEN_ADDRESS)) (\<lambda>tok.
      bind_io (from_pure (parse BRIDGE_ADDRESS)) (\<lambda>bridge.
      bind_io (from_pure (parse OPERATOR_ADDRESS)) (\<lambda>op.
      bind_io (fl_wait_for_node env NODE_URL) (\<lambda>_.
      bind_io (fl_create_wallet env True) (\<lambda>_.
      bind_io (fl_create_schnorr_account env user_secret 0) (\<lambda>user.
      bind_io (fl_get_l1_chain_id env) (\<lambda>chain.
      bind_io (from_pure (fl_extended_l1_client env L1_RPC_URL L1_USER_KEY chain)) (\<lambda>_.
      return_io \<lparr>fx_token = tok, fx_bridge = bridge, fx_user = user,
        fx_client = \<lparr>fp_fpc_address = fpc, fp_operator = op, fp_attestation_base_url = ATTESTATION_URL\<rparr>\<rparr>))))))))))"

definition flow_bridge :: "'w flow_env \<Rightarrow> flow_context \<Rightarrow> ('w, l2_bridge_claim) ioe" where
  "flow_bridge env x =
     bind_io (from_pure (fl_eth_address env L1_PORTAL_ADDRESS)) (\<lambda>portal.
     bind_io (from_pure (fl_eth_address env L1_ERC20_ADDRESS)) (\<lambda>erc20.
     bind_io (fl_bridge_tokens_private env portal erc20 (fx_user x) CLAIM_AMOUNT False) (\<lambda>(claim, hash).
     bind_io (from_pure (fr_from_hex (sd_lib (fl_sdk env)) hash)) (\<lambda>h.
     bind_io (fl_wait_for_message env h MESSAGE_TIMEOUT_SECONDS) (\<lambda>_. return_io claim)))))"

definition flow_cold_start_input :: "flow_context \<Rightarrow> l2_bridge_claim \<Rightarrow> execute_cold_start_input" where
  "flow_cold_start_input x claim = \<lparr>ei_user_address = fx_user x, ei_token_address = fx_token x,
     ei_bridge_address = fx_bridge x, ei_bridge_claim = claim, ei_tx_wait_timeout_ms = None\<rparr>"

definition flow_deploy :: "'w flow_env \<Rightarrow> flow_context \<Rightarrow> ('w, fpc_payment_method_result) ioe" where
  "flow_deploy env x =
     bind_io (fl_get_deploy_method env (fx_user x)) (\<lambda>_.
     bind_io (fl_simulate_deploy env (fx_user x)) (\<lambda>estimated.
     if estimated = None then throw_io (error ''Failed to estimate gas for deploy method'')
     else bind_io (create_payment_method (fl_sdk env) (fx_client x)
            \<lparr>pi_user = fx_user x, pi_token_address = fx_token x, pi_estimated_gas = estimated\<rparr>) (\<lambda>payment.
       bind_io (fl_send_deploy env (fx_user x) (fr_payment_method payment)) (\<lambda>_. return_io payment))))"

text \<open>The secret of the user is drawn when the module is loaded.\<close>

definition full_flow ::
    "'w flow_env \<Rightarrow> 'w \<Rightarrow> ((thrown + cold_start_result \<times> fpc_payment_method_result) \<times> 'w) option" where
  "full_flow env w = (case sd_random_fr (fl_sdk env) w of (secret, w1) \<Rightarrow>
     (case bind_io (flow_setup env secret) (\<lambda>x. bind_io (flow_bridge env x) (\<lambda>claim. return_io (x, claim))) w1 of
        (Inl e, w2) \<Rightarrow> Some (Inl e, w2)
      | (Inr (x, claim), w2) \<Rightarrow>
          (case execute_cold_start (fl_sdk env) (fx_client x) (flow_cold_start_input x claim) w2 of
             None \<Rightarrow> None
           | Some (Inl e, w3) \<Rightarrow> Some (Inl e, w3)
           | Some (Inr started, w3) \<Rightarrow>
               Some (bind_io (flow_deploy env x) (\<lambda>payment. return_io (started, payment)) w3))))"

section \<open>Properties\<close>

lemma prove_and_send_returns:
  assumes "sdk_clock_ok env"
  shows "\<exists>y. prove_and_send_tx env payload settings signers timeout_ms w = Some y"
  using poll_receipt_returns [OF assms]
  by (fastforce simp: prove_and_send_tx_def wait_for_tx_def split: prod.splits sum.splits)

lemma execute_cold_start_returns:
  assumes "sdk_clock_ok env"
  shows "\<exists>y. execute_cold_start env cfg input w = Some y"
  using attempts_total [OF prove_and_send_returns [OF assms]]
  by (fastforce simp: execute_cold_start_def split: prod.splits sum.splits)

text \<open>The walk-through ends when the clock moves.\<close>

theorem full_flow_returns:
  assumes "sdk_clock_ok (fl_sdk env)"
  shows "\<exists>y. full_flow env w = Some y"
proof -
  have total: "execute_cold_start (fl_sdk env) cfg input v \<noteq> None" for cfg input v
    using execute_cold_start_returns [OF assms] by simp
  show ?thesis by (auto simp: full_flow_def total split: prod.split sum.split option.split)
qed

text \<open>
  A walk-through that finishes has bridged tokens to its user with that amount, waited for the
  message, started the user with the claim of that deposit, and deployed the same user's account
  with a payment by the FPC of the cold start, for the estimated gas plus the buffer of the client.
\<close>

theorem full_flow_sound:
  assumes "full_flow env w = Some (Inr (started, payment), w')"
  shows "\<exists>x claim portal erc20 hash h limits teardown.
    (\<exists>v v'. fl_bridge_tokens_private env portal erc20 (fx_user x) CLAIM_AMOUNT False v = (Inr (claim, hash), v')) \<and>
    fr_from_hex (sd_lib (fl_sdk env)) hash = Inr h \<and>
    (\<exists>v v'. fl_wait_for_message env h MESSAGE_TIMEOUT_SECONDS v = (Inr (), v') \<and>
       (\<exists>u. execute_cold_start (fl_sdk env) (fx_client x) (flow_cold_start_input x claim) v' = Some (Inr started, u))) \<and>
    (\<exists>v v'. fl_simulate_deploy env (fx_user x) v = (Inr (Some (limits, teardown)), v')) \<and>
    (\<exists>v. fl_send_deploy env (fx_user x) (fr_payment_method payment) v = (Inr (), w')) \<and>
    gs_gas_limits (pm_gas_settings (fr_payment_method payment)) = sd_gas_add (fl_sdk env) limits GAS_BUFFER \<and>
    pm_fee_payer (fr_payment_method payment) = fp_fpc_address (fx_client x) \<and>
    address_from_string (sd_lib (fl_sdk env)) FPC_ADDRESS = Inr (fp_fpc_address (fx_client x))"
proof -
  from assms obtain secret x claim w1 w2 w3 w4 where s: "flow_setup env secret w1 = (Inr x, w2)"
    and b: "flow_bridge env x w2 = (Inr claim, w3)"
    and c: "execute_cold_start (fl_sdk env) (fx_client x) (flow_cold_start_input x claim) w3 = Some (Inr started, w4)"
    and d: "flow_deploy env x w4 = (Inr payment, w')"
    by (auto simp: full_flow_def io_Inr_iff io_Inl_iff split: prod.splits sum.splits option.splits)
  from s have fpc: "address_from_string (sd_lib (fl_sdk env)) FPC_ADDRESS = Inr (fp_fpc_address (fx_client x))"
    by (auto simp: flow_setup_def Let_def io_Inr_iff)
  from b obtain portal erc20 hash h v1 v2 v3 where
    "fl_bridge_tokens_private env portal erc20 (fx_user x) CLAIM_AMOUNT False v1 = (Inr (claim, hash), v2)"
    "fr_from_hex (sd_lib (fl_sdk env)) hash = Inr h" "fl_wait_for_message env h MESSAGE_TIMEOUT_SECONDS v3 = (Inr (), w3)"
    by (auto simp: flow_bridge_def io_Inr_iff)
  moreover from d obtain limits teardown u1 u2 u3 u4 where
    "fl_simulate_deploy env (fx_user x) u1 = (Inr (Some (limits, teardown)), u2)"
    and m: "create_payment_method (fl_sdk env) (fx_client x)
      \<lparr>pi_user = fx_user x, pi_token_address = fx_token x, pi_estimated_gas = Some (limits, teardown)\<rparr> u3 = (Inr payment, u4)"
    and "fl_send_deploy env (fx_user x) (fr_payment_method payment) u4 = (Inr (), w')"
    by (auto simp: flow_deploy_def io_Inr_iff split: if_splits)
  moreover from m have "gs_gas_limits (pm_gas_settings (fr_payment_method payment)) = sd_gas_add (fl_sdk env) limits GAS_BUFFER"
    "pm_fee_payer (fr_payment_method payment) = fp_fpc_address (fx_client x)"
    by (auto simp: create_payment_method_def Let_def io_Inr_iff)
  ultimately show ?thesis using c fpc by blast
qed

text \<open>The walk-through against the client's concrete environment, where every text is an address.\<close>

definition demo_flow_env :: "int flow_env" where
  "demo_flow_env = \<lparr>fl_sdk = demo_sdk_env\<lparr>sd_lib := demo_lib\<lparr>address_from_string := \<lambda>s. Inr (int (length s))\<rparr>\<rparr>,
     fl_eth_address = (\<lambda>_. Inr 1), fl_wait_for_node = (\<lambda>_ w. (Inr (), w)), fl_create_wallet = (\<lambda>_ w. (Inr (), w)),
     fl_create_schnorr_account = (\<lambda>s _ w. (Inr s, w)), fl_get_l1_chain_id = (\<lambda>w. (Inr 1, w)),
     fl_extended_l1_client = (\<lambda>_ _ _. Inr ()),
     fl_bridge_tokens_private = (\<lambda>_ _ _ n _ w. (Inr (\<lparr>bc_claim_amount = n, bc_claim_secret = 1, bc_claim_secret_hash = 11,
       bc_message_leaf_index = 0\<rparr>, ''12''), w)),
     fl_wait_for_message = (\<lambda>_ _ w. (Inr (), w)), fl_get_deploy_method = (\<lambda>_ w. (Inr (), w)),
     fl_simulate_deploy = (\<lambda>_ w. (Inr (Some (\<lparr>ga_da = 10, ga_l2 = 20\<rparr>, EMPTY_GAS)), w)),
     fl_send_deploy = (\<lambda>_ _ w. (Inr (), w))\<rparr>"

lemma demo_flow_clock: "sdk_clock_ok (fl_sdk demo_flow_env)"
  using demo_clock by (simp add: sdk_clock_ok_def demo_flow_env_def)

lemma demo_flow_finishes: "\<exists>r w. full_flow demo_flow_env 1 = Some (Inr r, w)"
proof -
  have "case full_flow demo_flow_env 1 of Some (Inr r, w) \<Rightarrow> True | _ \<Rightarrow> False" by code_simp
  then show ?thesis by (auto split: option.splits prod.splits sum.splits)
qed

lemma full_flow_sound_witness:
  "\<exists>r w. full_flow demo_flow_env 1 = Some (Inr r, w) \<and>
     pm_fee_payer (fr_payment_method (snd r)) = int (length FPC_ADDRESS)"
proof -
  obtain started payment w where run: "full_flow demo_flow_env 1 = Some (Inr (started, payment), w)"
    using demo_flow_finishes by auto
  from full_flow_sound [OF this] show ?thesis using run by (auto simp: demo_flow_env_def)
qed

end
