(* ===== verification/Gate_Profile.thy ===== *)
theory Gate_Profile
  imports Attest_Signer Fpc_Contract Attest_Server
begin

text \<open>
  The shared part of the gate profiles, \<open>profiling/profile-utils.mjs\<close>: finding an artifact, the
  price of a quote, the wallet of the profiles, quotes signed with any domain separator, and the
  part of an execution trace that belongs to the FPC. The number of gates of a step is an integer.
\<close>

section \<open>Artifacts\<close>

text \<open>\<open>ARTIFACT_ALIASES\<close>, for the names that contracts have.\<close>

definition artifact_aliases :: "string \<Rightarrow> string list" where
  "artifact_aliases name = (if name = ''FPC'' then [''FPCMultiAsset''] else [])"

definition ends_with :: "string \<Rightarrow> string \<Rightarrow> bool" where
  "ends_with s suffix = starts_with (rev s) (rev suffix)"

fun join_with :: "string \<Rightarrow> string list \<Rightarrow> string" where
  "join_with sep [] = []"
| "join_with sep [s] = s"
| "join_with sep (s # t # ss) = s @ sep @ join_with sep (t # ss)"

text \<open>\<open>files\<close> is the listing of the directory \<open>target\<close>.\<close>

fun find_candidate :: "string \<Rightarrow> string list \<Rightarrow> string list \<Rightarrow> thrown + string option" where
  "find_candidate target files [] = Inr None"
| "find_candidate target files (c # cs) =
     (let suffix = ''-'' @ c @ ''.json''; matches = [f \<leftarrow> files. ends_with f suffix] in
      if length matches = 1 then Inr (Some (target @ ''/'' @ hd matches))
      else if 1 < length matches
      then Inl (error (''Multiple artifacts matching *'' @ suffix @ '' in '' @ target @ '': '' @ join_with '', '' matches))
      else find_candidate target files cs)"

definition find_artifact :: "string \<Rightarrow> string list \<Rightarrow> string \<Rightarrow> thrown + string" where
  "find_artifact target files name =
     (let candidates = name # artifact_aliases name in
      and_then (find_candidate target files candidates) (\<lambda>found. case found of
        Some p \<Rightarrow> Inr p
      | None \<Rightarrow> Inl (error (''No artifact matching '' @ join_with '' or '' (map (\<lambda>c. ''*-'' @ c @ ''.json'') candidates) @
          '' in '' @ target @ ''. Did you run '' @ [CHR 0x27] @ ''aztec compile'' @ [CHR 0x27] @ ''?''))))"

section \<open>Prices\<close>

definition fee_juice_to_asset :: "int \<Rightarrow> int \<Rightarrow> int \<Rightarrow> thrown + int" where
  "fee_juice_to_asset fee_juice rate_num rate_den =
     (if fee_juice = 0 then Inr 0
      else let product = fee_juice * rate_num in bigint_div (product + rate_den - 1) rate_den)"

section \<open>The wallet of the profiles\<close>

text \<open>
  The \<open>Map\<close> from printed addresses to accounts, in insertion order. \<open>pf_create_account\<close> is the
  account contract with its manager and registration; an account is named by its address.
\<close>

type_synonym profile_accounts = "(string \<times> int) list"

record 'w profile_env =
  pf_lib :: aztec_lib
  pf_create_account :: "int \<Rightarrow> int \<Rightarrow> ('w, int) ioe"
  pf_get_account :: "int \<Rightarrow> ('w, unit) ioe"
  pf_stop_pxe :: "('w, unit) ioe option"
  pf_construct_signature :: "nat list \<Rightarrow> int \<Rightarrow> ('w, nat list) ioe"

fun map_set :: "'k \<Rightarrow> 'v \<Rightarrow> ('k \<times> 'v) list \<Rightarrow> ('k \<times> 'v) list" where
  "map_set k v [] = [(k, v)]"
| "map_set k v ((k', v') # ps) = (if k' = k then (k, v) # ps else (k', v') # map_set k v ps)"

definition add_schnorr_account ::
    "'w profile_env \<Rightarrow> int \<Rightarrow> int \<Rightarrow> profile_accounts \<times> 'w \<Rightarrow> (thrown + int) \<times> profile_accounts \<times> 'w" where
  "add_schnorr_account env secret salt = (\<lambda>(accounts, w).
     case from_pure (fr_of_bigint (pf_lib env) salt) w of
       (Inl e, w1) \<Rightarrow> (Inl e, accounts, w1)
     | (Inr s, w1) \<Rightarrow>
         (case bind_io (pf_create_account env secret s) (\<lambda>a. bind_io (pf_get_account env a) (\<lambda>_. return_io a)) w1 of
            (Inl e, w2) \<Rightarrow> (Inl e, accounts, w2)
          | (Inr a, w2) \<Rightarrow> (Inr a, map_set (address_to_string (pf_lib env) a) a accounts, w2)))"

definition get_account_from_address :: "aztec_lib \<Rightarrow> profile_accounts \<Rightarrow> int \<Rightarrow> thrown + int" where
  "get_account_from_address lib accounts a = (let key = address_to_string lib a in
     case map_of accounts key of
       None \<Rightarrow> Inl (error (''Account not found: '' @ key))
     | Some account \<Rightarrow> Inr account)"

fun get_accounts :: "aztec_lib \<Rightarrow> profile_accounts \<Rightarrow> thrown + (string \<times> int) list" where
  "get_accounts lib [] = Inr []"
| "get_accounts lib ((key, account) # ps) =
     and_then (address_from_string lib key) (\<lambda>a.
     and_then (get_accounts lib ps) (\<lambda>rest. Inr (([], a) # rest)))"

text \<open>\<open>this.pxe?.stop?.()\<close>: a PXE without the method is left alone.\<close>

definition stop_profile_wallet :: "'w profile_env \<Rightarrow> ('w, unit) ioe" where
  "stop_profile_wallet env = (case pf_stop_pxe env of None \<Rightarrow> return_io () | Some stop \<Rightarrow> stop)"

section \<open>Signed quotes\<close>

text \<open>\<open>new Fr(x)\<close> of several numbers, in order.\<close>

fun new_frs :: "aztec_lib \<Rightarrow> int list \<Rightarrow> thrown + int list" where
  "new_frs lib [] = Inr []"
| "new_frs lib (x # xs) = and_then (fr_of_bigint lib x) (\<lambda>f. and_then (new_frs lib xs) (\<lambda>fs. Inr (f # fs)))"

text \<open>The bytes of the signature, each as a field element.\<close>

definition sign_preimage :: "'w profile_env \<Rightarrow> int \<Rightarrow> thrown + int list \<Rightarrow> ('w, int list) ioe" where
  "sign_preimage env key preimage =
     bind_io (from_pure preimage) (\<lambda>fields.
     bind_io (pf_construct_signature env (to_be_bytes 32 (inner_authwit_hash (pf_lib env) fields)) key) (\<lambda>sig.
     return_io (map int sig)))"

definition profile_quote_preimage :: "aztec_lib \<Rightarrow> int \<Rightarrow> int \<Rightarrow> int \<Rightarrow> int \<Rightarrow> int \<Rightarrow> int \<Rightarrow> int \<Rightarrow> thrown + int list" where
  "profile_quote_preimage lib fpc tok fj aa until user sep =
     and_then (new_frs lib [sep]) (\<lambda>d.
     and_then (new_frs lib [fj, aa, until]) (\<lambda>amounts.
     Inr (d @ [fpc, tok] @ amounts @ [user])))"

definition profile_sign_quote ::
    "'w profile_env \<Rightarrow> int \<Rightarrow> int \<Rightarrow> int \<Rightarrow> int \<Rightarrow> int \<Rightarrow> int \<Rightarrow> int \<Rightarrow> int \<Rightarrow> ('w, int list) ioe" where
  "profile_sign_quote env key fpc tok fj aa until user sep =
     sign_preimage env key (profile_quote_preimage (pf_lib env) fpc tok fj aa until user sep)"

definition profile_sign_cold_start_quote ::
    "'w profile_env \<Rightarrow> int \<Rightarrow> int \<Rightarrow> int \<Rightarrow> int \<Rightarrow> int \<Rightarrow> int \<Rightarrow> int \<Rightarrow> int \<Rightarrow> int \<Rightarrow> int \<Rightarrow> ('w, int list) ioe" where
  "profile_sign_cold_start_quote env key fpc tok fj aa until user sep claim secret_hash =
     sign_preimage env key
       (and_then (profile_quote_preimage (pf_lib env) fpc tok fj aa until user sep) (\<lambda>q.
        and_then (new_frs (pf_lib env) [claim]) (\<lambda>c. Inr (q @ c @ [secret_hash]))))"

definition profile_sign_rate_quote ::
    "'w profile_env \<Rightarrow> int \<Rightarrow> int \<Rightarrow> int \<Rightarrow> int \<Rightarrow> int \<Rightarrow> int \<Rightarrow> int \<Rightarrow> int \<Rightarrow> ('w, int list) ioe" where
  "profile_sign_rate_quote env key fpc tok rate_num rate_den until user sep =
     sign_preimage env key (profile_quote_preimage (pf_lib env) fpc tok rate_num rate_den until user sep)"

section \<open>Traces\<close>

record execution_step =
  es_function_name :: "string option"
  es_gate_count :: "int option"

definition step_name :: "execution_step \<Rightarrow> string" where
  "step_name s = (case es_function_name s of None \<Rightarrow> [] | Some n \<Rightarrow> n)"

definition is_fpc_step :: "string list \<Rightarrow> execution_step \<Rightarrow> bool" where
  "is_fpc_step names s \<longleftrightarrow> list_ex (\<lambda>name. starts_with (step_name s) (name @ '':'')) names"

definition is_noop_step :: "execution_step \<Rightarrow> bool" where
  "is_noop_step s \<longleftrightarrow> starts_with (step_name s) ''Noop:''"

text \<open>\<open>findIndex\<close>, \<open>None\<close> for \<open>-1\<close>.\<close>

fun find_index :: "('a \<Rightarrow> bool) \<Rightarrow> 'a list \<Rightarrow> nat option" where
  "find_index p [] = None"
| "find_index p (x # xs) = (if p x then Some 0 else map_option Suc (find_index p xs))"

text \<open>The index from which the loop for the first no-op step starts is \<open>i\<close>.\<close>

function noop_index :: "execution_step list \<Rightarrow> nat \<Rightarrow> nat option" where
  "noop_index steps i =
     (if i < length steps then if is_noop_step (steps ! i) then Some i else noop_index steps (i + 1) else None)"
  by pat_completeness auto
termination
  by (relation "measure (\<lambda>(steps, i). length steps - i)") auto

declare noop_index.simps [simp del]

definition extract_fpc_steps :: "execution_step list \<Rightarrow> string list \<Rightarrow> execution_step list" where
  "extract_fpc_steps steps names = (case find_index (is_fpc_step names) steps of
     None \<Rightarrow> []
   | Some start \<Rightarrow>
       let noop = (case noop_index steps start of None \<Rightarrow> length steps | Some n \<Rightarrow> n)
       in take (noop - start) (drop start steps))"

text \<open>The value that the table is returned with.\<close>

fun add_gates :: "int \<Rightarrow> execution_step list \<Rightarrow> int" where
  "add_gates subtotal [] = subtotal"
| "add_gates subtotal (s # ss) =
     add_gates (subtotal + (case es_gate_count s of None \<Rightarrow> 0 | Some n \<Rightarrow> n)) ss"

definition print_fpc_gate_table :: "execution_step list \<Rightarrow> string list \<Rightarrow> int" where
  "print_fpc_gate_table steps names = add_gates 0 (extract_fpc_steps steps names)"

section \<open>Facts\<close>

lemma find_index_Some:
  "find_index p xs = Some i \<longleftrightarrow> i < length xs \<and> p (xs ! i) \<and> (\<forall>j < i. \<not> p (xs ! j))"
proof (induction xs arbitrary: i)
  case Nil
  then show ?case by simp
next
  case (Cons x xs)
  show ?case by (cases i) (auto simp: Cons.IH less_Suc_eq_0_disj)
qed

lemma find_index_None: "find_index p xs = None \<longleftrightarrow> list_all (\<lambda>x. \<not> p x) xs"
  by (induction xs) auto

lemma noop_index_Some:
  "noop_index steps i = Some n \<Longrightarrow> i \<le> n \<and> n < length steps \<and> is_noop_step (steps ! n) \<and>
     (\<forall>j. i \<le> j \<longrightarrow> j < n \<longrightarrow> \<not> is_noop_step (steps ! j))"
proof (induction steps i rule: noop_index.induct)
  case (1 steps i)
  note run = "1.prems" [unfolded noop_index.simps [of steps i]]
  show ?case
  proof (cases "is_noop_step (steps ! i)")
    case True
    with run show ?thesis by (auto split: if_splits)
  next
    case False
    with run have i: "i < length steps" "noop_index steps (i + 1) = Some n" by (auto split: if_splits)
    from "1.IH" [OF i(1) False i(2)] False show ?thesis by (metis Suc_eq_plus1 Suc_leD Suc_leI le_neq_implies_less)
  qed
qed

lemma noop_index_None:
  "noop_index steps i = None \<Longrightarrow> i \<le> j \<Longrightarrow> j < length steps \<Longrightarrow> \<not> is_noop_step (steps ! j)"
proof (induction steps i rule: noop_index.induct)
  case (1 steps i)
  note run = "1.prems"(1) [unfolded noop_index.simps [of steps i]]
  show ?case
  proof (cases "i = j")
    case True
    with run "1.prems"(3) show ?thesis by (auto split: if_splits)
  next
    case False
    with run "1.prems" have "\<not> is_noop_step (steps ! i)" "noop_index steps (i + 1) = None" "i < length steps"
      by (auto split: if_splits)
    with "1.IH" "1.prems" False show ?thesis by simp
  qed
qed

lemma map_of_map_set: "map_of (map_set k v ps) k' = (if k' = k then Some v else map_of ps k')"
  by (induction k v ps rule: map_set.induct) auto

lemma add_gates_sum:
  "add_gates n ss = n + sum_list (map (\<lambda>s. case es_gate_count s of None \<Rightarrow> 0 | Some g \<Rightarrow> g) ss)"
  by (induction n ss rule: add_gates.induct) auto

section \<open>Properties\<close>

text \<open>
  The FPC block of a trace: when a step of the FPC occurs, the block starts at the first one and
  goes up to the first no-op step from there, or to the end; the trace is what comes before it,
  the block, and what comes after. Otherwise it is empty. The table adds up its gates.
\<close>

theorem extracted_steps_are_the_fpc_block:
  "(case find_index (is_fpc_step names) steps of
      None \<Rightarrow> extract_fpc_steps steps names = [] \<and> list_all (\<lambda>s. \<not> is_fpc_step names s) steps
    | Some start \<Rightarrow> is_fpc_step names (steps ! start) \<and>
        (\<exists>rest. steps = take start steps @ extract_fpc_steps steps names @ rest \<and>
           list_all (\<lambda>s. \<not> is_fpc_step names s) (take start steps) \<and>
           list_all (\<lambda>s. \<not> is_noop_step s) (extract_fpc_steps steps names) \<and>
           (rest = [] \<or> is_noop_step (hd rest)))) \<and>
   print_fpc_gate_table steps names =
     sum_list (map (\<lambda>s. case es_gate_count s of None \<Rightarrow> 0 | Some g \<Rightarrow> g) (extract_fpc_steps steps names))"
proof (rule conjI)
  show "print_fpc_gate_table steps names =
     sum_list (map (\<lambda>s. case es_gate_count s of None \<Rightarrow> 0 | Some g \<Rightarrow> g) (extract_fpc_steps steps names))"
    by (simp add: print_fpc_gate_table_def add_gates_sum)
  show "case find_index (is_fpc_step names) steps of
      None \<Rightarrow> extract_fpc_steps steps names = [] \<and> list_all (\<lambda>s. \<not> is_fpc_step names s) steps
    | Some start \<Rightarrow> is_fpc_step names (steps ! start) \<and>
        (\<exists>rest. steps = take start steps @ extract_fpc_steps steps names @ rest \<and>
           list_all (\<lambda>s. \<not> is_fpc_step names s) (take start steps) \<and>
           list_all (\<lambda>s. \<not> is_noop_step s) (extract_fpc_steps steps names) \<and>
           (rest = [] \<or> is_noop_step (hd rest)))"
  proof (cases "find_index (is_fpc_step names) steps")
    case None
    then show ?thesis using find_index_None [of "is_fpc_step names" steps] by (simp add: extract_fpc_steps_def)
  next
    case (Some start)
    note start = Some [unfolded find_index_Some]
    define noop where "noop = (case noop_index steps start of None \<Rightarrow> length steps | Some n \<Rightarrow> n)"
    have e: "extract_fpc_steps steps names = take (noop - start) (drop start steps)"
      by (simp add: extract_fpc_steps_def Some noop_def)
    have noop: "start \<le> noop" "noop \<le> length steps" "\<forall>j. start \<le> j \<longrightarrow> j < noop \<longrightarrow> \<not> is_noop_step (steps ! j)"
      "noop < length steps \<longrightarrow> is_noop_step (steps ! noop)"
      using start noop_index_Some [of steps start] noop_index_None [of steps start]
      by (auto simp: noop_def split: option.splits)
    have "steps = take start steps @ take (noop - start) (drop start steps) @ drop noop steps"
      using noop(1) by (metis append_take_drop_id drop_drop le_add_diff_inverse2)
    moreover have "list_all (\<lambda>s. \<not> is_fpc_step names s) (take start steps)"
      using start by (auto simp: list_all_length)
    moreover have "list_all (\<lambda>s. \<not> is_noop_step s) (take (noop - start) (drop start steps))"
      using noop(3) by (auto simp: list_all_length)
    moreover have "drop noop steps = [] \<or> is_noop_step (hd (drop noop steps))"
      using noop(4) by (cases "noop < length steps") (simp_all add: hd_drop_conv_nth)
    ultimately show ?thesis using start unfolding Some e by auto
  qed
qed

text \<open>
  The profiles pay what the service would ask for and sign what it would sign: the price is the
  exact ceiling, and with the service's domain separator a quote has the hash that the service
  computes and a rate quote is a quote whose amounts are the two rates.
\<close>

theorem profile_price_is_exact:
  assumes "0 \<le> fj * rate_num" "0 < rate_den"
  shows "fee_juice_to_asset fj rate_num rate_den = Inr \<lceil>rat_of_int (fj * rate_num) / rat_of_int rate_den\<rceil>"
  using ceil_div_exact [OF assms(2,1)] by (simp add: fee_juice_to_asset_def ceil_div_def)

lemma profile_price_ignores_rate: "fee_juice_to_asset 0 rate_num 0 = Inr 0"
  by (simp add: fee_juice_to_asset_def)

theorem profile_quote_is_service_quote:
  assumes "fr_of_bigint (pf_lib env) SIGNER_QUOTE_DOMAIN_SEPARATOR = Inr SIGNER_QUOTE_DOMAIN_SEPARATOR"
  shows "profile_sign_quote env key fpc tok fj aa until user SIGNER_QUOTE_DOMAIN_SEPARATOR =
    bind_io (from_pure (compute_quote_hash (pf_lib env) \<lparr>qp_fpc_address = fpc, qp_accepted_asset = tok, qp_fj_fee_amount = fj,
        qp_aa_payment_amount = aa, qp_valid_until = until, qp_user_address = user\<rparr>)) (\<lambda>h.
    bind_io (pf_construct_signature env (to_be_bytes 32 h) key) (\<lambda>sig. return_io (map int sig))) \<and>
   profile_sign_rate_quote env key fpc tok rn rd until user sep = profile_sign_quote env key fpc tok rn rd until user sep"
  using assms
  by (auto simp: profile_sign_quote_def profile_sign_rate_quote_def sign_preimage_def profile_quote_preimage_def
      compute_quote_hash_def bind_io_def and_then_def fun_eq_iff split: sum.splits prod.splits)

text \<open>An account that was added is found again, and adding keeps the others.\<close>

theorem added_account_is_found:
  assumes "add_schnorr_account env secret salt (accounts, w) = (r, accounts', w')"
  shows "case r of
      Inl e \<Rightarrow> accounts' = accounts
    | Inr a \<Rightarrow> get_account_from_address (pf_lib env) accounts' a = Inr a \<and>
        (\<forall>b. address_to_string (pf_lib env) b \<noteq> address_to_string (pf_lib env) a \<longrightarrow>
           get_account_from_address (pf_lib env) accounts' b = get_account_from_address (pf_lib env) accounts b)"
  using assms
  by (auto simp: add_schnorr_account_def get_account_from_address_def map_of_map_set Let_def split: sum.splits prod.splits)

end
