(* ===== verification/Spec2Isabelle.thy ===== *)
theory Spec2Isabelle
  imports Attest_Admin Attest_Startup Topup_Main EndToEnd Deploy_Cli Fund_Claimer Fund_L1 Preflight Configure_Token Faucet_Contract Token_Bridge Smoke_Test
    Fpc_Wallet Script_Accounts Script_Setup Full_Flow Gate_Profile
begin

text \<open>
  Model of the fee payment contract (FPC) for Aztec and of the services around it.

  \<^bold>\<open>The program.\<close> A user pays a transaction's fee in a token instead of Fee Juice. The
  client (\<open>sdk/\<close>) asks the attestation service (\<open>services/attestation/\<close>) for a quote; the
  service prices the fee from the policy of the token and signs the quote with the
  operator's key; the contract (\<open>contracts/fpc/\<close>) verifies the signature, moves the tokens
  from the user to the operator and pays the fee in Fee Juice. A user without an account
  does the same in one transaction that also claims a deposit from a bridge, the cold
  start. The top-up service (\<open>services/topup/\<close>) watches the Fee Juice balance of the
  contract and bridges more from L1 when it is low.

  \<^bold>\<open>Theories.\<close>
  \<^item> \<open>Prelude\<close>, \<open>Js_Values\<close>, \<open>Aztec_Lib\<close>: thrown values, effects, strings and decimal numbers,
    JavaScript values with the schema combinators, and the record of the pure functions of
    the Aztec SDK, which is a parameter throughout.
  \<^item> \<open>Fpc_Contract\<close>: \<open>contracts/fpc/src/main.nr\<close>. The constructor and the two entrypoints
    over a private context and a token ledger, with \<open>u64\<close> and \<open>u128\<close> words whose arithmetic
    fails on overflow. \<open>Token_Bridge\<close> is \<open>contracts/token_bridge/src/main.nr\<close> and
    \<open>Faucet_Contract\<close> is \<open>contracts/faucet/src/main.nr\<close>.
  \<^item> Attestation service, one theory per file of \<open>services/attestation/src/\<close>:
    \<open>Secret_Provider\<close>, \<open>Attest_Config\<close>, \<open>Attest_Signer\<close>, \<open>Attest_Metrics\<close>,
    \<open>Attest_Policy_Store\<close>, \<open>Attest_Schemas\<close>, \<open>Attest_Treasury\<close>; \<open>server.ts\<close> is
    \<open>Attest_Server\<close> (quote routes, pricing, authorisation) and \<open>Attest_Admin\<close> (admin routes,
    rate limit, the dispatch of a request), \<open>index.ts\<close> is \<open>Attest_Startup\<close>.
  \<^item> Top-up service, one theory per file of \<open>services/topup/src/\<close>: \<open>Topup_Config\<close>,
    \<open>Topup_State\<close>, \<open>Topup_Ops\<close>, \<open>Topup_Bridge\<close>, \<open>Topup_Confirm\<close>, \<open>Topup_Checker\<close>,
    \<open>Topup_Autoclaim\<close>; \<open>reconcile.ts\<close>, \<open>l1.ts\<close> and the bridging callbacks of
    \<open>index.ts\<close> are \<open>Topup_Service\<close>, its \<open>main\<close> with the lock and the loop \<open>Topup_Main\<close>.
  \<^item> \<open>Sdk_Client\<close>: \<open>sdk/src/payment-method.ts\<close>. \<open>EndToEnd\<close>: the three parties together.
  \<^item> Deployment, \<open>contract-deployment/src/\<close>: \<open>Deploy_Verify\<close> (\<open>fpc-immutables.ts\<close>,
    \<open>verify.ts\<close>), \<open>Deploy_Manifest\<close> (\<open>manifest-types.ts\<close>, \<open>manifest.ts\<close>,
    \<open>test-token-manifest.ts\<close>), \<open>Cli_Args\<close> (the argument loop of the tools), \<open>Deploy_Cli\<close>
    (\<open>index.ts\<close>, \<open>deploy-utils.ts\<close>), \<open>Deploy_Test_Token\<close> (\<open>test-token.ts\<close>) and
    \<open>Configure_Token\<close> (\<open>configure-token.ts\<close>).
  \<^item> Operator scripts: \<open>Script_Args\<close> (the argument loop and helpers they share),
    \<open>Fund_Claimer\<close> (\<open>services/topup/src/fund-claimer-l2.ts\<close>) and, from
    \<open>scripts/services/\<close>, \<open>Fund_L1\<close> (\<open>fund-l1-fee-juice.ts\<close>), \<open>Bootstrap_Claimer\<close>
    (\<open>bootstrap-topup-autoclaim-account.ts\<close>), \<open>Preflight\<close>
    (\<open>preflight-topup-autoclaim.ts\<close>). \<open>Smoke_Test\<close> is the check after a deployment,
    \<open>scripts/contract/devnet-postdeploy-smoke.ts\<close>.
  \<^item> What the other scripts share, \<open>scripts/common/\<close>: \<open>Script_Accounts\<close> (\<open>script-credentials.ts\<close>),
    \<open>Script_Setup\<close> (\<open>setup-helpers.ts\<close>, \<open>balance-tracker.ts\<close>), \<open>Fpc_Wallet\<close>
    (\<open>fpc-wallet.ts\<close>). \<open>Full_Flow\<close> is the walk-through \<open>examples/fpc-full-flow.ts\<close>,
    \<open>Gate_Profile\<close> is \<open>profiling/profile-utils.mjs\<close>.

  \<^bold>\<open>State and effects.\<close> A component's state is a record; an operation returns the new
  state. The outside world (node, wallet, L1, files, clocks, timers) is an abstract type
  \<open>'w\<close>, and each call into it is a field of an environment record: it returns a result, or
  what it threw, and the next world. What other requests or a signal handler do during an
  \<open>await\<close> is part of such a call, so the theorems hold under any interleaving at awaits.
  Every \<open>throw\<close> is the \<open>Inl\<close> of a sum. Integers of JavaScript's \<open>bigint\<close> are \<open>int\<close>; a
  \<open>number\<close> is an integer where the code checks that it is one, and \<open>Js_Values\<close> rounds
  \<open>Number(s)\<close> to a double.

  \<^bold>\<open>What is shown.\<close>
  \<^item> Quotes: the price is the exact ceiling of the policy's rate, every branch of the quote
    routes with its reply and metrics, who is authorised; the contract accepts a call
    exactly when its checks hold, a nullifier identifies one quote, and a cold start
    distributes exactly its claim; through the bridge of the repository it also uses up
    the deposit. The faucet pays an address at most once per cooldown.
    \<open>EndToEnd\<close> joins client, service and contract: an issued quote is accepted.
    \<open>Attest_Startup\<close> shows that a service that has started meets the assumptions of that.
  \<^item> Policies: the store refines a finite map (locale \<open>asset_policy_store_spec\<close>, interpreted
    by the LMDB model), serving requests keeps every policy well formed, and configurations
    that load are well formed.
  \<^item> Treasury, metrics, readiness, secrets: a sweep stays within the balance, counters and
    histogram agree with the history, secrets come from the sources the mode allows.
  \<^item> Bridging: a bridge is on record from its submission to its confirmation, an unresolved
    record blocks the cycle, the record survives its round trip through the store (locale
    \<open>bridge_state_store\<close>), cycles are single-flight (step relation \<open>cycle_step\<close>), a
    submission is retried within bounds and never after the nonce was mined. A service that
    has started can run and holds the lock alone; shutdown is final (\<open>Topup_Main\<close>).
  \<^item> Operator scripts: a funding run claims its own deposit, the faucet loop reaches its
    target, a reported bootstrap has left a deployed account, the preflight checks the
    account that the service would claim with, the payment that the smoke test submits is
    one the contract accepts and a smoke test that passes has seen it settled.
  \<^item> Shared script code: every account of a script is deployed with its own deposit, a set-up has
    registered what the manifests name, trackers that pass add up, a transaction accepted by the
    contract is rejected under inflated gas limits, the walk-through uses its own deposit and
    ends, the profiles sign what the service signs.
  \<^item> Deployment: a verification that passes has seen the expected contract, a mismatch is
    final, a finished run belongs to the operator's key, accepted arguments are well formed,
    the contracts of a test token are wired to each other, the admin interface accepts a
    token registration exactly when its bounds hold, a manifest survives its file (locale \<open>manifest_files\<close>, interpreted for both kinds). The
    retry loops are instances of \<open>retry\<close> of the prelude.
  \<^item> Loops that have no bound of their own (\<open>poll_until_confirmed\<close>, \<open>poll_receipt\<close>,
    \<open>handler_loop\<close>, \<open>health_loop\<close>, \<open>wait_for_balance_loop\<close>,
    \<open>fee_juice_loop\<close>) are
    partial functions with \<open>None\<close> for a run that never ends; they are shown to return when
    the clock advances by what the timer sleeps. All other loops terminate by a measure; no
    fuel is used.
  \<^item> Where the code does less than it means to, a theorem states what it does:
    \<open>rate_quote_is_accepted_as_amounts\<close>, \<open>cold_start_bridge_not_bound\<close>,
    \<open>overlapping_checks_bridge_twice\<close>, \<open>failed_write_bridges_every_cycle\<close>,
    \<open>failed_initialisation_is_permanent\<close>, \<open>process_lock\<close>, \<open>decimal_field_read_as_hex\<close>,
    \<open>missing_key_strands_deposit\<close>, \<open>late_timeout_strands_deposit\<close>,
    \<open>wallet_error_exposes_key\<close>, \<open>preflight_skips_enabled_service\<close>,
    \<open>preflight_passes_for_refused_service\<close>, \<open>manifest_flag_keeps_token_manifest\<close>,
    \<open>wait_error_escapes_catch\<close>, \<open>mint_without_retries\<close>.

  \<^bold>\<open>Not modelled.\<close> Log output; YAML and JSON syntax, sockets and the HTTP framework below the
  route handlers; text outside Latin-1; the poseidon hash, Schnorr signatures, the token
  contract, LMDB and \<open>viem\<close>, which are parameters or idealised as each theory says.
  The members of a \<open>Promise.all\<close> run in order. The balance monitor of
  the top-up service is one call of the SDK. The test scenarios of \<open>scripts/tests\<close>, the
  benchmarks of \<open>profiling/\<close> with the runner and the comparison vendored there, shell scripts,
  the counter and no-op contracts and the generated bindings are outside the model.
\<close>

end
